(* ===== verification/Bridge_Prelude.thy ===== *)
theory Bridge_Prelude
  imports Main "HOL-Library.Word" "HOL-Library.Monad_Syntax" "HOL-Library.List_Lexorder" "HOL-Library.AList"
    "HOL-Library.Multiset" "HOL-Library.Signed_Division"
begin

section \<open>Shared types, the Go fragments every component uses, and their lemmas\<close>

text \<open>
  What the components share: byte slices and machine integers, Go's error values, the shape of an
  effectful operation, the pieces of the Go standard library the sources call (hex and decimal
  formatting, big-endian integers, \<^verbatim>\<open>strconv.ParseBool\<close>) and the generic lemmas about them.

  \<^item> \<^verbatim>\<open>[]byte\<close> is a list of \<open>8 word\<close>; \<^verbatim>\<open>uint64\<close> is \<open>64 word\<close> (so \<open>+\<close> wraps);
    \<^verbatim>\<open>*big.Int\<close> is \<open>int\<close>, or \<open>int option\<close> where the pointer may be nil.
  \<^item> An operation that reads or changes anything outside its own arguments has type
    \<open>('s, 'a) go\<close>, that is \<open>'s \<Rightarrow> ('a \<times> 's) option\<close>: it takes the state, gives its result and the
    new state, and \<open>None\<close> is a run-time panic (a nil dereference, an index out of range). The
    \<open>do\<close> notation of the option monad threads the state; every line rebinds the name of the state,
    so a stale state cannot be used by accident.
  \<^item> A Go function that returns \<^verbatim>\<open>(value, error)\<close> has a result of type \<open>gerror + 'a\<close>; an \<^verbatim>\<open>error\<close>
    alone is \<open>gerror option\<close>.
\<close>

named_theorems go_defs \<open>definitions unfolded when an operation is symbolically executed\<close>

type_synonym byte = "8 word"
type_synonym bytes = "byte list"
type_synonym uint64 = "64 word"
type_synonym ('s, 'a) go = "'s \<Rightarrow> ('a \<times> 's) option"

subsection \<open>Error values\<close>

text \<open>
  A package-level \<^verbatim>\<open>errors.New(text)\<close> is identified by the variable that holds it (two variables
  with one text are different errors in Go), \<open>Errorf pre e post\<close> is \<^verbatim>\<open>fmt.Errorf\<close> with the wrapped
  error \<open>e\<close> between the rendered texts \<open>pre\<close> and \<open>post\<close>. Errors made by code outside the repository
  are arbitrary values of the type.
\<close>

datatype gerror = ErrNew string string | Errorf string gerror string

type_synonym 'a res = "gerror + 'a"

fun error_text :: "gerror \<Rightarrow> string" where
  "error_text (ErrNew _ t) = t"
| "error_text (Errorf pre e post) = pre @ error_text e @ post"

fun errors_Is :: "gerror \<Rightarrow> gerror \<Rightarrow> bool" where
  "errors_Is (ErrNew v t) target = (ErrNew v t = target)"
| "errors_Is (Errorf pre e post) target = (Errorf pre e post = target \<or> errors_Is e target)"

lemma errors_Is_refl [simp]: "errors_Is e e"
  by (cases e) auto

lemma errors_Is_Errorf [simp]: "errors_Is e t \<Longrightarrow> errors_Is (Errorf pre e post) t"
  by simp

subsection \<open>Byte strings\<close>

definition string_of_bytes :: "bytes \<Rightarrow> string" where
  "string_of_bytes bs = map (\<lambda>b. char_of (unat b)) bs"

definition bytes_of_string :: "string \<Rightarrow> bytes" where
  "bytes_of_string cs = map (\<lambda>c. of_nat (of_char c)) cs"

lemma byte_of_char_char_of [simp]: "of_nat (of_char (char_of (unat b))) = (b :: byte)"
proof -
  have "unat b < 256" using unsigned_less [of b] by simp
  then show ?thesis by simp
qed

lemma char_of_byte_of_char [simp]: "char_of (unat (of_nat (of_char c) :: byte)) = c"
proof -
  have "(of_char c :: nat) < 256" by simp
  then have "unat (of_nat (of_char c) :: byte) = of_char c"
    by (simp add: unsigned_of_nat take_bit_nat_eq_self)
  then show ?thesis by simp
qed

lemma bytes_of_string_of_bytes [simp]: "bytes_of_string (string_of_bytes bs) = bs"
  by (simp add: bytes_of_string_def string_of_bytes_def comp_def del: of_char_of)

lemma string_of_bytes_of_string [simp]: "string_of_bytes (bytes_of_string cs) = cs"
  by (simp add: bytes_of_string_def string_of_bytes_def comp_def)

lemma string_of_bytes_inject [simp]: "string_of_bytes a = string_of_bytes b \<longleftrightarrow> a = b"
  by (metis bytes_of_string_of_bytes)

lemma image_bytes_of_string: "bytes_of_string ` A = {k. string_of_bytes k \<in> A}"
  by (auto intro: rev_image_eqI)

lemma inj_on_bytes_of_string: "inj_on bytes_of_string A"
  by (rule inj_on_inverseI [of _ string_of_bytes]) simp

subsection \<open>Formatting\<close>

text \<open>\<^verbatim>\<open>%d\<close> of an unsigned and of a signed number, \<^verbatim>\<open>hex.EncodeToString\<close>, \<^verbatim>\<open>strconv.ParseBool\<close>.\<close>

fun show_nat :: "nat \<Rightarrow> string" where
  "show_nat n = (if n < 10 then [''0123456789'' ! n]
                 else show_nat (n div 10) @ [''0123456789'' ! (n mod 10)])"

declare show_nat.simps [simp del]

definition show_int :: "int \<Rightarrow> string" where
  "show_int i = (if i < 0 then ''-'' @ show_nat (nat (- i)) else show_nat (nat i))"

definition show_uint64 :: "uint64 \<Rightarrow> string" where
  "show_uint64 w = show_nat (unat w)"

definition hex_EncodeToString :: "bytes \<Rightarrow> string" where
  "hex_EncodeToString bs =
     concat (map (\<lambda>b. [''0123456789abcdef'' ! (unat b div 16), ''0123456789abcdef'' ! (unat b mod 16)]) bs)"

definition strconv_ParseBool :: "string \<Rightarrow> bool option" where
  "strconv_ParseBool str =
     (if str \<in> set [''1'', ''t'', ''T'', ''true'', ''TRUE'', ''True''] then Some True
      else if str \<in> set [''0'', ''f'', ''F'', ''false'', ''FALSE'', ''False''] then Some False
      else None)"

lemma length_hex_EncodeToString: "length (hex_EncodeToString bs) = 2 * length bs"
  by (simp add: hex_EncodeToString_def length_concat comp_def sum_list_triv)

lemma show_nat_small: "n < 10 \<Longrightarrow> show_nat n = [''0123456789'' ! n]"
  by (simp add: show_nat.simps [of n])

lemma length_show_nat_ge: "10 \<le> n \<Longrightarrow> 2 \<le> length (show_nat n)"
proof -
  assume "10 \<le> n"
  then have "length (show_nat n) = Suc (length (show_nat (n div 10)))"
    by (simp add: show_nat.simps [of n])
  moreover have "0 < length (show_nat m)" for m
    by (simp add: show_nat.simps [of m])
  ultimately show ?thesis by (metis Suc_leI numeral_2_eq_2 Suc_le_mono)
qed

subsection \<open>Big-endian integers\<close>

text \<open>
  \<^verbatim>\<open>big.NewInt(0).SetBytes\<close>, \<^verbatim>\<open>binary.BigEndian.PutUint64\<close> into an 8 byte buffer and
  \<^verbatim>\<open>binary.BigEndian.Uint64\<close>, which panics on a slice of fewer than 8 bytes.
\<close>

definition SetBytes :: "bytes \<Rightarrow> int" where
  "SetBytes bs = foldl (\<lambda>acc b. acc * 256 + uint b) 0 bs"

definition PutUint64 :: "uint64 \<Rightarrow> bytes" where
  "PutUint64 w = map (\<lambda>i. ucast (drop_bit (8 * (7 - i)) w)) [0..<8]"

definition BigEndian_Uint64 :: "bytes \<Rightarrow> uint64 option" where
  "BigEndian_Uint64 bs = (if length bs < 8 then None else Some (word_of_int (SetBytes (take 8 bs))))"

text \<open>\<^verbatim>\<open>(*big.Int).Uint64\<close> and \<^verbatim>\<open>Int64\<close> read the low 64 bits of the magnitude.\<close>

definition big_Uint64 :: "int \<Rightarrow> uint64" where
  "big_Uint64 x = word_of_int \<bar>x\<bar>"

definition big_Int64 :: "int \<Rightarrow> int" where
  "big_Int64 x = (if x < 0 then sint (- (word_of_int \<bar>x\<bar> :: uint64)) else sint (word_of_int x :: uint64))"

text \<open>Addition of Go's \<^verbatim>\<open>int\<close>, which wraps at 64 bits.\<close>

definition int_add :: "int \<Rightarrow> int \<Rightarrow> int" where
  "int_add a b = sint (word_of_int (a + b) :: uint64)"

lemma int_add_exact: "- (2 ^ 63) \<le> a + b \<Longrightarrow> a + b < 2 ^ 63 \<Longrightarrow> int_add a b = a + b"
  by (simp add: int_add_def sint_sbintrunc' signed_take_bit_int_eq_self del: of_int_add)

lemma SetBytes_Nil [simp]: "SetBytes [] = 0"
  by (simp add: SetBytes_def)

lemma SetBytes_snoc [simp]: "SetBytes (bs @ [b]) = SetBytes bs * 256 + uint b"
  by (simp add: SetBytes_def)

lemma SetBytes_bounds: "0 \<le> SetBytes bs \<and> SetBytes bs < 256 ^ length bs"
proof (induction bs rule: rev_induct)
  case Nil
  then show ?case by simp
next
  case (snoc b bs)
  have b: "uint b < 256" using uint_lt2p [of b] by simp
  have "SetBytes bs + 1 \<le> 256 ^ length bs" using snoc.IH by simp
  then have "(SetBytes bs + 1) * 256 \<le> 256 ^ length bs * 256" by simp
  with b have "SetBytes bs * 256 + uint b < 256 ^ length bs * 256"
    by (simp add: algebra_simps)
  with snoc.IH show ?case by (simp add: mult.commute)
qed

lemma SetBytes_nonneg [simp]: "0 \<le> SetBytes bs"
  using SetBytes_bounds by blast

lemma SetBytes_zeros [simp]: "SetBytes (replicate n 0) = 0"
proof (induction n)
  case 0
  then show ?case by simp
next
  case (Suc n)
  have "replicate (Suc n) (0 :: byte) = replicate n 0 @ [0]" by (simp add: replicate_append_same)
  then show ?case using Suc by (simp only: SetBytes_snoc) simp
qed

lemma length_PutUint64 [simp]: "length (PutUint64 w) = 8"
  by (simp add: PutUint64_def)

lemma SetBytes_digits:
  fixes x :: int
  assumes "0 \<le> x"
  shows "SetBytes (map (\<lambda>i. word_of_int (x div 256 ^ (n - Suc i))) [0..<n]) = x mod 256 ^ n"
  using assms
proof (induction n arbitrary: x)
  case 0
  then show ?case by simp
next
  case (Suc n)
  have "map (\<lambda>i. word_of_int (x div 256 ^ (n - i)) :: byte) [0..<n]
      = map (\<lambda>i. word_of_int ((x div 256) div 256 ^ (n - Suc i))) [0..<n]"
    by (rule map_cong)
      (auto simp: zdiv_zmult2_eq [symmetric] Suc_diff_Suc simp flip: power_Suc)
  then have "SetBytes (map (\<lambda>i. word_of_int (x div 256 ^ (n - i))) [0..<n]) = (x div 256) mod 256 ^ n"
    using Suc.IH [of "x div 256"] Suc.prems by (simp only: pos_imp_zdiv_nonneg_iff)
  then have "SetBytes (map (\<lambda>i. word_of_int (x div 256 ^ (Suc n - Suc i))) [0..<Suc n])
      = (x div 256) mod 256 ^ n * 256 + x mod 256"
    by (simp add: uint_word_of_int)
  also have "\<dots> = x mod 256 ^ Suc n"
    by (simp add: zmod_zmult2_eq mult.commute)
  finally show ?case .
qed

lemma SetBytes_PutUint64 [simp]: "SetBytes (PutUint64 w) = uint w"
proof -
  have "PutUint64 w = map (\<lambda>i. word_of_int (uint w div 256 ^ (8 - Suc i))) [0..<8]"
    unfolding PutUint64_def
  proof (rule map_cong [OF refl])
    fix i assume "i \<in> set [0..<8]"
    have "uint w mod 18446744073709551616 = uint w" using uint_lt2p [of w] by simp
    moreover have "(256::int) ^ (7 - i) = 2 ^ (8 * (7 - i))" by (simp add: power_mult)
    ultimately show "ucast (drop_bit (8 * (7 - i)) w) = (word_of_int (uint w div 256 ^ (8 - Suc i)) :: byte)"
      by (simp add: word_uint_eq_iff uint_word_of_int uint_div_distrib unsigned_ucast_eq
          unsigned_drop_bit_eq take_bit_eq_mod drop_bit_eq_div [where 'a = int])
  qed
  then have "SetBytes (PutUint64 w) = uint w mod 256 ^ 8"
    using SetBytes_digits [of "uint w" 8] by simp
  also have "\<dots> = uint w" using uint_lt2p [of w] by simp
  finally show ?thesis .
qed

lemma BigEndian_roundtrip [simp]: "BigEndian_Uint64 (PutUint64 w) = Some w"
  by (simp add: BigEndian_Uint64_def)

subsection \<open>Maps\<close>

text \<open>
  A Go map is the list of its entries, one per key; assignment is \<open>AList.update\<close>, lookup \<open>map_of\<close>.
  The order in which \<^verbatim>\<open>range\<close> visits the entries is not specified by the language: the operations
  that depend on it take the order as an argument, a function that permutes the entries, and the
  laws hold for every such function.
\<close>

type_synonym ('k, 'v) gomap = "('k \<times> 'v) list"

lemma update_fresh: "map_of m k = None \<Longrightarrow> AList.update k v m = m @ [(k, v)]"
  by (induction m) (auto split: if_split_asm)

definition range_order :: "('a list \<Rightarrow> 'a list) \<Rightarrow> bool" where
  "range_order ord \<longleftrightarrow> (\<forall>xs. mset (ord xs) = mset xs)"

lemma range_orderD:
  assumes "range_order ord"
  shows "set (ord xs) = set xs" and "length (ord xs) = length xs" and "distinct (ord xs) = distinct xs"
    and "mset (ord xs) = mset xs"
proof -
  from assms show m: "mset (ord xs) = mset xs" by (simp add: range_order_def)
  then show "set (ord xs) = set xs" by (rule mset_eq_setD)
  from m show "length (ord xs) = length xs" by (rule mset_eq_length)
  from m show "distinct (ord xs) = distinct xs" by (rule mset_eq_imp_distinct_iff)
qed

lemma range_order_id [simp]: "range_order (\<lambda>xs. xs)"
  by (simp add: range_order_def)

lemma gomap_keys_update [simp]: "fst ` set (AList.update k v m) = insert k (fst ` set m)"
  by (simp add: dom_update)

subsection \<open>Counting without wrap-around\<close>

lemma unat_inc:
  assumes "(n::'a::len word) < m"
  shows "unat (n + 1) = Suc (unat n)"
proof -
  have "Suc (unat n) < 2 ^ LENGTH('a)"
    using assms unsigned_less [of m, where 'a = nat] unfolding word_less_nat_alt by linarith
  then show ?thesis by (auto simp add: unat_word_ariths)
qed

lemma unat_diff_inc:
  assumes "(n::'a::len word) < m"
  shows "unat (m - n) = Suc (unat (m - (n + 1)))"
  using assms unat_inc [OF assms] by (simp add: unat_sub inc_le less_imp_le word_less_nat_alt)

subsection \<open>Symbolic execution\<close>

text \<open>
  Facts about the option monad: an operation that did not panic ran every line of its body. The
  bundle \<open>go_splits\<close> holds the splits for the case distinctions a body makes on results.
\<close>

lemmas go_splits =
  Option.bind_splits sum.splits option.splits if_splits prod.splits
lemmas go_split_asm =
  sum.split_asm option.split_asm if_split_asm prod.split_asm

lemma go_bindE:
  assumes "Option.bind m f = Some r"
  obtains x s where "m = Some (x, s)" and "f (x, s) = Some r"
  using assms by (auto simp: bind_eq_Some_conv)

lemma go_bind_None_iff [simp]:
  "(Option.bind (m :: ('a \<times> 's) option) f = None) \<longleftrightarrow> (m = None \<or> (\<exists>x. m = Some x \<and> f x = None))"
  by (cases m) auto

text \<open>An operation is \<^emph>\<open>panic free\<close> when it panics in no state.\<close>

definition panic_free :: "('s, 'a) go \<Rightarrow> bool" where
  "panic_free m \<longleftrightarrow> (\<forall>s. m s \<noteq> None)"

lemma panic_freeD: "panic_free m \<Longrightarrow> \<exists>x s'. m s = Some (x, s')"
  by (auto simp: panic_free_def not_None_eq)

subsection \<open>A program logic for operations\<close>

text \<open>
  \<open>runs ok m Q\<close>: when the run \<open>m\<close> returns, its result and final state satisfy \<open>Q\<close>, and if \<open>ok\<close> holds
  it does return (\<open>ok\<close> is the condition on the services under which the code is free of panics). One
  derivation with the rules in \<open>go_rules\<close> hence gives an invariant and the absence of panics.
\<close>

named_theorems go_rules \<open>introduction rules of the program logic\<close>

definition runs :: "bool \<Rightarrow> ('a \<times> 's) option \<Rightarrow> ('a \<Rightarrow> 's \<Rightarrow> bool) \<Rightarrow> bool" where
  "runs ok m Q \<longleftrightarrow> (case m of None \<Rightarrow> \<not> ok | Some (r, s) \<Rightarrow> Q r s)"

lemma runsD: "runs ok m Q \<Longrightarrow> m = Some (r, s) \<Longrightarrow> Q r s"
  by (simp add: runs_def)

lemma runs_returns: "runs ok m Q \<Longrightarrow> ok \<Longrightarrow> m \<noteq> None"
  by (cases m) (simp_all add: runs_def)

lemma runs_weaken: "runs ok m Q \<Longrightarrow> (\<And>r s. Q r s \<Longrightarrow> Q' r s) \<Longrightarrow> runs ok m Q'"
  by (auto simp: runs_def split: option.splits)

lemma runs_total:
  "(ok \<Longrightarrow> m \<noteq> None) \<Longrightarrow> (\<And>r s. m = Some (r, s) \<Longrightarrow> Q r s) \<Longrightarrow> runs ok m Q"
  by (auto simp: runs_def split: option.splits)

lemma runs_Some [go_rules]: "Q r s \<Longrightarrow> runs ok (Some (r, s)) Q"
  by (simp add: runs_def)

lemma runs_None [go_rules]: "\<not> ok \<Longrightarrow> runs ok None Q"
  by (simp add: runs_def)

lemma runs_bind [go_rules]: "runs ok m (\<lambda>r s. runs ok (f (r, s)) Q) \<Longrightarrow> runs ok (Option.bind m f) Q"
  by (cases m) (auto simp: runs_def)

lemma runs_prod [go_rules]: "runs ok (f x s) Q \<Longrightarrow> runs ok (case (x, s) of (y, t) \<Rightarrow> f y t) Q"
  by simp

text \<open>For a pair that is not literally one; used explicitly.\<close>

lemma runs_case_prod:
  "(\<And>x y. p = (x, y) \<Longrightarrow> runs ok (f x y) Q) \<Longrightarrow> runs ok (case p of (x, y) \<Rightarrow> f x y) Q"
  by (cases p) auto

lemma runs_if [go_rules]:
  "(b \<Longrightarrow> runs ok m Q) \<Longrightarrow> (\<not> b \<Longrightarrow> runs ok m' Q) \<Longrightarrow> runs ok (if b then m else m') Q"
  by simp

lemma runs_case_sum [go_rules]:
  "(\<And>x. r = Inl x \<Longrightarrow> runs ok (f x) Q) \<Longrightarrow> (\<And>y. r = Inr y \<Longrightarrow> runs ok (g y) Q)
   \<Longrightarrow> runs ok (case r of Inl x \<Rightarrow> f x | Inr y \<Rightarrow> g y) Q"
  by (cases r) auto

lemma runs_case_option [go_rules]:
  "(r = None \<Longrightarrow> runs ok m Q) \<Longrightarrow> (\<And>y. r = Some y \<Longrightarrow> runs ok (g y) Q)
   \<Longrightarrow> runs ok (case r of None \<Rightarrow> m | Some y \<Rightarrow> g y) Q"
  by (cases r) auto

lemma runs_case_list [go_rules]:
  "(xs = [] \<Longrightarrow> runs ok m Q) \<Longrightarrow> (\<And>y ys. xs = y # ys \<Longrightarrow> runs ok (f y ys) Q)
   \<Longrightarrow> runs ok (case xs of [] \<Rightarrow> m | y # ys \<Rightarrow> f y ys) Q"
  by (cases xs) auto

lemma runs_case_prod_app:
  "(\<And>x y. p = (x, y) \<Longrightarrow> runs ok (f x y a) Q) \<Longrightarrow> runs ok ((case p of (x, y) \<Rightarrow> f x y) a) Q"
  by (cases p) auto

lemma panic_free_runs: "(\<And>s. runs ok (m s) (\<lambda>_ _. True)) \<Longrightarrow> ok \<Longrightarrow> panic_free m"
  unfolding panic_free_def using runs_returns by metis

text \<open>An operation that does not touch the first part of the state.\<close>

definition beside :: "('s, 'r) go \<Rightarrow> ('c \<times> 's, 'r) go" where
  "beside m = (\<lambda>(c, s). do { (r, s) \<leftarrow> m s; Some (r, (c, s)) })"

lemma beside_runs:
  assumes "\<And>c s. runs ok (m s) (\<lambda>r s'. Q r (c, s'))"
  shows "runs ok (beside m cs) Q"
  unfolding beside_def using assms by (cases cs) (auto intro!: go_rules runs_weaken [OF assms])

lemma fold_append: "fold (\<lambda>x acc. acc @ f x) xs acc = acc @ concat (map f xs)"
  by (induction xs arbitrary: acc) simp_all

end
