(* ===== verification/Core_Types.thy ===== *)
theory Core_Types
  imports Bridge_Prelude
begin

section \<open>Core types (core/, bridges/ethElrond/constants.go and converters.go)\<close>

text \<open>
  Metric names, the messages relayers exchange, the status handler and step interfaces, log levels
  and the rendering of the values that end up in the last-error metric. A Go interface value is a
  record of functions over an abstract state \<open>'s\<close>.
\<close>

subsection \<open>Constants\<close>

definition MetricNumBatches :: string where
  "MetricNumBatches = ''num batches''"
definition MetricLastError :: string where
  "MetricLastError = ''last encountered error''"
definition MetricCurrentStateMachineStep :: string where
  "MetricCurrentStateMachineStep = ''current state machine step''"
definition MetricNumEthClientRequests :: string where
  "MetricNumEthClientRequests = ''num ethereum client requests''"
definition MetricNumEthClientTransactions :: string where
  "MetricNumEthClientTransactions = ''num ethereum client transactions''"
definition MetricLastQueriedEthereumBlockNumber :: string where
  "MetricLastQueriedEthereumBlockNumber = ''ethereum last queried block number''"
definition MetricEthereumClientStatus :: string where
  "MetricEthereumClientStatus = ''ethereum client status''"
definition MetricLastEthereumClientError :: string where
  "MetricLastEthereumClientError = ''ethereum client last encountered error''"
definition MetricLastQueriedElrondBlockNumber :: string where
  "MetricLastQueriedElrondBlockNumber = ''elrond last queried block number''"
definition MetricElrondClientStatus :: string where
  "MetricElrondClientStatus = ''elrond client status''"
definition MetricLastElrondClientError :: string where
  "MetricLastElrondClientError = ''elrond client last encountered error''"
definition MetricRelayerP2PAddresses :: string where
  "MetricRelayerP2PAddresses = ''relayer P2P addresses''"
definition MetricConnectedP2PAddresses :: string where
  "MetricConnectedP2PAddresses = ''connected P2P addresses''"
definition MetricLastBlockNonce :: string where
  "MetricLastBlockNonce = ''last block nonce''"

lemmas metric_defs =
  MetricNumBatches_def MetricLastError_def MetricCurrentStateMachineStep_def
  MetricNumEthClientRequests_def MetricNumEthClientTransactions_def
  MetricLastQueriedEthereumBlockNumber_def MetricEthereumClientStatus_def
  MetricLastEthereumClientError_def MetricLastQueriedElrondBlockNumber_def
  MetricElrondClientStatus_def MetricLastElrondClientError_def MetricRelayerP2PAddresses_def
  MetricConnectedP2PAddresses_def MetricLastBlockNonce_def

definition PersistedMetrics :: "string list" where
  "PersistedMetrics =
     [MetricNumBatches, MetricNumEthClientRequests, MetricNumEthClientTransactions,
      MetricLastQueriedEthereumBlockNumber, MetricLastQueriedElrondBlockNumber, MetricEthereumClientStatus,
      MetricElrondClientStatus, MetricLastEthereumClientError, MetricLastElrondClientError, MetricLastBlockNonce]"

definition clients_ErrInvalidValue :: gerror where
  "clients_ErrInvalidValue = ErrNew ''clients.ErrInvalidValue'' ''invalid value''"

definition InvalidActionID :: uint64 where
  "InvalidActionID = 0"

type_synonym ClientStatus = int

definition Available :: ClientStatus where
  "Available = 0"
definition Unavailable :: ClientStatus where
  "Unavailable = 1"

definition ClientStatus_String :: "ClientStatus \<Rightarrow> string" where
  "ClientStatus_String cs =
     (if cs = Available then ''Available''
      else if cs = Unavailable then ''Unavailable''
      else ''Invalid status '' @ show_int cs)"

subsection \<open>Messages exchanged by relayers (core/messages.go)\<close>

record SignedMessage =
  Payload :: bytes
  PublicKeyBytes :: bytes
  Signature :: bytes
  msg_Nonce :: uint64

definition UniqueID :: "SignedMessage \<Rightarrow> string" where
  "UniqueID msg = string_of_bytes (PublicKeyBytes msg) @ string_of_bytes (Payload msg)"

record EthereumSignature =
  eth_Signature :: bytes
  MessageHash :: bytes

lemma UniqueID_bytes: "UniqueID msg = string_of_bytes (PublicKeyBytes msg @ Payload msg)"
  by (simp add: UniqueID_def string_of_bytes_def)

subsection \<open>Interfaces (core/types.go)\<close>

record 's StatusHandler =
  SetIntMetric :: "string \<Rightarrow> int \<Rightarrow> ('s, unit) go"
  AddIntMetric :: "string \<Rightarrow> int \<Rightarrow> ('s, unit) go"
  SetStringMetric :: "string \<Rightarrow> string \<Rightarrow> ('s, unit) go"

type_synonym StepIdentifier = string

record 'e Step =
  step_Execute :: "('e, StepIdentifier) go"
  step_Identifier :: StepIdentifier

text \<open>
  \<^verbatim>\<open>MachineStates\<close> is a Go map from identifiers to steps, kept as the list of its entries (one per
  key); a value may be a nil interface.
\<close>

type_synonym 'e MachineStates = "(StepIdentifier \<times> 'e Step option) list"

subsection \<open>Log levels and rendered values\<close>

text \<open>The levels of the logger the sources use, and the kinds of values they log.\<close>

datatype LogLevel = LogDebug | LogInfo | LogWarning | LogError

datatype goval = GoBytes bytes | GoString string | GoUint64 uint64 | GoBool bool | GoError gerror
  | GoNil

fun convertObjectToString :: "goval \<Rightarrow> string" where
  "convertObjectToString (GoBytes b) = hex_EncodeToString b"
| "convertObjectToString (GoString s) = s"
| "convertObjectToString (GoUint64 n) = show_uint64 n"
| "convertObjectToString (GoBool b) = (if b then ''true'' else ''false'')"
| "convertObjectToString (GoError e) = error_text e"
| "convertObjectToString GoNil = ''<nil>''"

end
