(* ===== verification/Transfer_Batch.thy ===== *)
theory Transfer_Batch
  imports Bridge_Prelude
begin

section \<open>Transfer batches (clients/batch.go, clients/constants.go)\<close>

text \<open>
  The chain-agnostic batch the two half-bridges move: \<^verbatim>\<open>TransferBatch\<close> and \<^verbatim>\<open>DepositTransfer\<close>
  with \<^verbatim>\<open>Clone\<close>, \<^verbatim>\<open>String\<close> and \<^verbatim>\<open>ResolveNewDeposits\<close>. The pointer \<^verbatim>\<open>Amount\<close> may be nil; the
  elements of \<^verbatim>\<open>Deposits\<close> are never nil in the program, so they are records. A nil and an empty slice
  are one list: the sources only ask for lengths.
\<close>

definition Executed :: byte where
  "Executed = 3"

definition Rejected :: byte where
  "Rejected = 4"

record DepositTransfer =
  Nonce :: uint64
  ToBytes :: bytes
  DisplayableTo :: string
  FromBytes :: bytes
  DisplayableFrom :: string
  TokenBytes :: bytes
  ConvertedTokenBytes :: bytes
  DisplayableToken :: string
  Amount :: "int option"

record TransferBatch =
  ID :: uint64
  Deposits :: "DepositTransfer list"
  Statuses :: bytes

subsection \<open>Operations\<close>

definition DepositTransfer_String :: "DepositTransfer \<Rightarrow> string" where
  "DepositTransfer_String dt =
     ''to: '' @ DisplayableTo dt @ '', from: '' @ DisplayableFrom dt
     @ '', token address: '' @ DisplayableToken dt
     @ '', amount: '' @ (case Amount dt of None \<Rightarrow> ''<nil>'' | Some a \<Rightarrow> show_int a)
     @ '', deposit nonce: '' @ show_uint64 (Nonce dt)"

definition copy_into :: "'a list \<Rightarrow> 'a list \<Rightarrow> 'a list" where
  \<comment> \<open>Go's \<^verbatim>\<open>copy(dst, src)\<close>\<close>
  "copy_into dst src = take (length dst) src @ drop (length src) dst"

definition DepositTransfer_Clone :: "DepositTransfer \<Rightarrow> DepositTransfer" where
  "DepositTransfer_Clone dt =
     (let cloned = \<lparr> Nonce = Nonce dt,
                     ToBytes = replicate (length (ToBytes dt)) 0,
                     DisplayableTo = DisplayableTo dt,
                     FromBytes = replicate (length (FromBytes dt)) 0,
                     DisplayableFrom = DisplayableFrom dt,
                     TokenBytes = replicate (length (TokenBytes dt)) 0,
                     ConvertedTokenBytes = replicate (length (ConvertedTokenBytes dt)) 0,
                     DisplayableToken = DisplayableToken dt,
                     Amount = Some 0 \<rparr>;
          cloned = cloned\<lparr>ToBytes := copy_into (ToBytes cloned) (ToBytes dt)\<rparr>;
          cloned = cloned\<lparr>FromBytes := copy_into (FromBytes cloned) (FromBytes dt)\<rparr>;
          cloned = cloned\<lparr>TokenBytes := copy_into (TokenBytes cloned) (TokenBytes dt)\<rparr>;
          cloned = cloned\<lparr>ConvertedTokenBytes := copy_into (ConvertedTokenBytes cloned) (ConvertedTokenBytes dt)\<rparr>
      in case Amount dt of None \<Rightarrow> cloned | Some a \<Rightarrow> cloned\<lparr>Amount := Some a\<rparr>)"

definition TransferBatch_Clone :: "TransferBatch \<Rightarrow> TransferBatch" where
  "TransferBatch_Clone tb =
     (let cloned = \<lparr> ID = ID tb, Deposits = [], Statuses = replicate (length (Statuses tb)) 0 \<rparr>;
          cloned = fold (\<lambda>dt c. c\<lparr>Deposits := Deposits c @ [DepositTransfer_Clone dt]\<rparr>) (Deposits tb) cloned
      in cloned\<lparr>Statuses := copy_into (Statuses cloned) (Statuses tb)\<rparr>)"

definition TransferBatch_String :: "TransferBatch \<Rightarrow> string" where
  "TransferBatch_String tb =
     (let str = ''Batch id '' @ show_uint64 (ID tb) @ '':'';
          str = fold (\<lambda>dt str. str @ [CHR 0x0A] @ ''  '' @ DepositTransfer_String dt) (Deposits tb) str
      in str @ [CHR 0x0A] @ ''Statuses: '' @ hex_EncodeToString (Statuses tb))"

text \<open>
  The two loops of \<^verbatim>\<open>ResolveNewDeposits\<close>. The first assigns \<^verbatim>\<open>tb.Statuses[i]\<close>, which panics for a
  negative index; the second appends until the length is reached.
\<close>

function reject_from :: "int \<Rightarrow> int \<Rightarrow> bytes \<Rightarrow> bytes option" where
  "reject_from i oldLen st =
     (if i < oldLen
      then (if i < 0 \<or> int (length st) \<le> i then None
            else reject_from (i + 1) oldLen (st[nat i := Rejected]))
      else Some st)"
  by pat_completeness auto
termination
  by (relation "measure (\<lambda>(i, oldLen, st). nat (oldLen - i))") auto

function append_rejected :: "int \<Rightarrow> bytes \<Rightarrow> bytes" where
  "append_rejected n st = (if int (length st) < n then append_rejected n (st @ [Rejected]) else st)"
  by pat_completeness auto
termination
  by (relation "measure (\<lambda>(n, st). nat (n - int (length st)))") auto

declare reject_from.simps [simp del] append_rejected.simps [simp del]

definition ResolveNewDeposits :: "TransferBatch \<Rightarrow> int \<Rightarrow> TransferBatch option" where
  "ResolveNewDeposits tb newNumDeposits =
     (let oldLen = int (length (Statuses tb)) in
      if newNumDeposits = oldLen then Some tb
      else do {
        st \<leftarrow> reject_from newNumDeposits oldLen (Statuses tb);
        Some (tb\<lparr>Statuses := append_rejected newNumDeposits st\<rparr>)
      })"

subsection \<open>Lemmas\<close>

lemma copy_into_full [simp]: "length dst = length src \<Longrightarrow> copy_into dst src = src"
  by (simp add: copy_into_def)

lemma DepositTransfer_Clone_eq:
  "DepositTransfer_Clone dt = dt\<lparr>Amount := Some (case Amount dt of None \<Rightarrow> 0 | Some a \<Rightarrow> a)\<rparr>"
  by (cases dt) (simp add: DepositTransfer_Clone_def split: option.splits)

lemma fold_Deposits_snoc:
  "fold (\<lambda>dt c. c\<lparr>Deposits := Deposits c @ [f dt]\<rparr>) dts c = c\<lparr>Deposits := Deposits c @ map f dts\<rparr>"
  by (induction dts arbitrary: c) auto

lemma TransferBatch_Clone_eq:
  "TransferBatch_Clone tb = tb\<lparr>Deposits := map DepositTransfer_Clone (Deposits tb)\<rparr>"
  by (cases tb) (simp add: TransferBatch_Clone_def fold_Deposits_snoc)

lemma reject_from_spec:
  assumes "0 \<le> i" and "i \<le> int (length st)"
  shows "reject_from i (int (length st)) st
       = Some (take (nat i) st @ replicate (length st - nat i) Rejected)"
  using assms
proof (induction "length st - nat i" arbitrary: i st)
  case 0
  then have "\<not> i < int (length st)" by linarith
  with 0 show ?case by (subst reject_from.simps) simp
next
  case (Suc k)
  from Suc.hyps(2) Suc.prems have lt: "i < int (length st)" by linarith
  have "reject_from i (int (length st)) st = reject_from (i + 1) (int (length st)) (st[nat i := Rejected])"
    using lt Suc.prems by (simp add: reject_from.simps [of i])
  also have "\<dots> = Some (take (nat (i + 1)) (st[nat i := Rejected])
                          @ replicate (length st - nat (i + 1)) Rejected)"
    using Suc.hyps(1) [of "st[nat i := Rejected]" "i + 1"] Suc.hyps(2) Suc.prems lt by simp
  also have "take (nat (i + 1)) (st[nat i := Rejected]) = take (nat i) st @ [Rejected]"
    using lt Suc.prems by (simp add: nat_add_distrib take_Suc_conv_app_nth)
  also have "(take (nat i) st @ [Rejected]) @ replicate (length st - nat (i + 1)) Rejected
           = take (nat i) st @ replicate (Suc (length st - nat (i + 1))) Rejected"
    by simp
  also have "Suc (length st - nat (i + 1)) = length st - nat i"
    using lt Suc.prems by linarith
  finally show ?case .
qed

lemma append_rejected_spec:
  "append_rejected n st = st @ replicate (nat n - length st) Rejected"
proof (induction "nat n - length st" arbitrary: st)
  case 0
  then have "\<not> int (length st) < n" by linarith
  with 0 show ?case by (simp add: append_rejected.simps [of n st])
next
  case (Suc k)
  then have "append_rejected n st = append_rejected n (st @ [Rejected])"
    by (simp add: append_rejected.simps [of n st])
  also have "\<dots> = (st @ [Rejected]) @ replicate (nat n - length (st @ [Rejected])) Rejected"
    using Suc by simp
  also have "\<dots> = st @ replicate (nat n - length st) Rejected"
    using Suc.hyps(2) by (simp flip: replicate_Suc add: Suc_diff_Suc)
  finally show ?case .
qed

lemma ResolveNewDeposits_spec:
  assumes "0 \<le> n"
  shows "ResolveNewDeposits tb n
       = Some (tb\<lparr>Statuses := take (nat n) (Statuses tb)
                    @ replicate (max (nat n) (length (Statuses tb)) - min (nat n) (length (Statuses tb))) Rejected\<rparr>)"
proof (cases "n \<le> int (length (Statuses tb))")
  case True
  then show ?thesis using assms
    by (auto simp: ResolveNewDeposits_def reject_from_spec append_rejected_spec Let_def max_def min_def)
next
  case False
  then show ?thesis using assms
    by (auto simp: ResolveNewDeposits_def append_rejected_spec reject_from.simps [of n] Let_def max_def min_def)
qed

lemma ResolveNewDeposits_panics_iff: "ResolveNewDeposits tb n = None \<longleftrightarrow> n < 0"
proof (cases "n < 0")
  case True
  then show ?thesis by (simp add: ResolveNewDeposits_def Let_def reject_from.simps [of n])
next
  case False
  then show ?thesis using ResolveNewDeposits_spec [of n tb] by simp
qed

subsection \<open>Properties\<close>

text \<open>
  \<^verbatim>\<open>ResolveNewDeposits\<close> with a number of deposits, however the batch's statuses relate to it,
  returns a batch with the same ID and deposits whose statuses are the old ones on the deposits both
  know about and \<open>Rejected\<close> on every other position; the statuses never get shorter.
\<close>

theorem ResolveNewDeposits_outcome:
  "\<exists>tb'. ResolveNewDeposits tb (int n) = Some tb' \<and> ID tb' = ID tb \<and> Deposits tb' = Deposits tb
     \<and> length (Statuses tb') = max n (length (Statuses tb))
     \<and> take (min n (length (Statuses tb))) (Statuses tb') = take (min n (length (Statuses tb))) (Statuses tb)
     \<and> drop (min n (length (Statuses tb))) (Statuses tb')
         = replicate (max n (length (Statuses tb)) - min n (length (Statuses tb))) Rejected"
  using ResolveNewDeposits_spec [of "int n" tb] by (auto simp: min_def max_def)

text \<open>
  Resolving twice against the same number of deposits is the same as resolving once.
\<close>

theorem ResolveNewDeposits_idempotent:
  "Option.bind (ResolveNewDeposits tb (int n)) (\<lambda>tb'. ResolveNewDeposits tb' (int n)) = ResolveNewDeposits tb (int n)"
  by (cases "n \<le> length (Statuses tb)") (simp_all add: ResolveNewDeposits_spec max_def min_def)

text \<open>
  \<^verbatim>\<open>Clone\<close> of a batch copies every field; the only difference is that a nil amount becomes a zero
  amount.
\<close>

theorem Clone_copies_every_field:
  "ID (TransferBatch_Clone tb) = ID tb \<and> Statuses (TransferBatch_Clone tb) = Statuses tb
   \<and> Deposits (TransferBatch_Clone tb)
       = map (\<lambda>dt. dt\<lparr>Amount := Some (case Amount dt of None \<Rightarrow> 0 | Some a \<Rightarrow> a)\<rparr>) (Deposits tb)"
  by (simp add: TransferBatch_Clone_eq DepositTransfer_Clone_eq)

end
