(* ===== verification/Bridge_Interfaces.thy ===== *)
theory Bridge_Interfaces
  imports Core_Types Transfer_Batch
begin

section \<open>The interfaces between the steps, the executor and the clients\<close>

text \<open>
  \<^verbatim>\<open>bridges/ethElrond/interface.go\<close> (what the executor asks of the two clients, the topology, the
  signatures holder and the batch validator) and \<^verbatim>\<open>bridges/ethElrond/steps/interface.go\<close> (what the
  steps ask of the executor). A nil \<^verbatim>\<open>*TransferBatch\<close> is \<open>None\<close>. The \<^verbatim>\<open>context.Context\<close> argument is
  not kept: what an expiring context does to a call is part of the state the call runs in.
\<close>

record 's ElrondClient =
  ec_GetPending :: "('s, TransferBatch option res) go"
  ec_WasProposedTransfer :: "TransferBatch option \<Rightarrow> ('s, bool res) go"
  ec_QuorumReached :: "uint64 \<Rightarrow> ('s, bool res) go"
  ec_WasExecuted :: "uint64 \<Rightarrow> ('s, bool res) go"
  ec_GetActionIDForProposeTransfer :: "TransferBatch option \<Rightarrow> ('s, uint64 res) go"
  ec_WasProposedSetStatus :: "TransferBatch option \<Rightarrow> ('s, bool res) go"
  ec_GetActionIDForSetStatusOnPendingTransfer :: "TransferBatch option \<Rightarrow> ('s, uint64 res) go"
  ec_GetLastExecutedEthBatchID :: "('s, uint64 res) go"
  ec_GetLastExecutedEthTxID :: "('s, uint64 res) go"
  ec_ProposeSetStatus :: "TransferBatch option \<Rightarrow> ('s, string res) go"
  ec_ProposeTransfer :: "TransferBatch option \<Rightarrow> ('s, string res) go"
  ec_Sign :: "uint64 \<Rightarrow> ('s, string res) go"
  ec_WasSigned :: "uint64 \<Rightarrow> ('s, bool res) go"
  ec_PerformAction :: "uint64 \<Rightarrow> TransferBatch option \<Rightarrow> ('s, string res) go"
  ec_CheckClientAvailability :: "('s, gerror option) go"

record 's EthereumClient =
  eth_GetBatch :: "uint64 \<Rightarrow> ('s, TransferBatch res) go"
  eth_WasExecuted :: "uint64 \<Rightarrow> ('s, bool res) go"
  eth_GenerateMessageHash :: "TransferBatch option \<Rightarrow> ('s, bytes res) go"
  eth_BroadcastSignatureForMessageHash :: "bytes \<Rightarrow> ('s, unit) go"
  eth_ExecuteTransfer :: "bytes \<Rightarrow> TransferBatch option \<Rightarrow> int \<Rightarrow> ('s, string res) go"
  eth_GetTransactionsStatuses :: "uint64 \<Rightarrow> ('s, bytes res) go"
  eth_GetQuorumSize :: "('s, int res) go"
  eth_IsQuorumReached :: "bytes \<Rightarrow> ('s, bool res) go"
  eth_CheckClientAvailability :: "('s, gerror option) go"

text \<open>The interface \<^verbatim>\<open>steps.Executor\<close>, over the state \<open>'e\<close> of the executor and what it talks to.\<close>

record 'e Executor =
  PrintInfo :: "LogLevel \<Rightarrow> string \<Rightarrow> goval list \<Rightarrow> ('e, unit) go"
  MyTurnAsLeader :: "('e, bool) go"
  GetBatchFromElrond :: "('e, TransferBatch option res) go"
  StoreBatchFromElrond :: "TransferBatch option \<Rightarrow> ('e, gerror option) go"
  GetStoredBatch :: "('e, TransferBatch option) go"
  SetStoredStatuses :: "bytes \<Rightarrow> ('e, unit) go"
  GetLastExecutedEthBatchIDFromElrond :: "('e, uint64 res) go"
  VerifyLastDepositNonceExecutedOnEthereumBatch :: "('e, gerror option) go"
  GetAndStoreActionIDForProposeTransferOnElrond :: "('e, uint64 res) go"
  GetAndStoreActionIDForProposeSetStatusFromElrond :: "('e, uint64 res) go"
  GetStoredActionID :: "('e, uint64) go"
  WasTransferProposedOnElrond :: "('e, bool res) go"
  ProposeTransferOnElrond :: "('e, gerror option) go"
  ProcessMaxRetriesOnWasTransferProposedOnElrond :: "('e, bool) go"
  ResetRetriesOnWasTransferProposedOnElrond :: "('e, unit) go"
  WasSetStatusProposedOnElrond :: "('e, bool res) go"
  ProposeSetStatusOnElrond :: "('e, gerror option) go"
  WasActionSignedOnElrond :: "('e, bool res) go"
  SignActionOnElrond :: "('e, gerror option) go"
  ProcessQuorumReachedOnElrond :: "('e, bool res) go"
  WasActionPerformedOnElrond :: "('e, bool res) go"
  PerformActionOnElrond :: "('e, gerror option) go"
  ResolveNewDepositsStatuses :: "uint64 \<Rightarrow> ('e, unit) go"
  ProcessMaxQuorumRetriesOnElrond :: "('e, bool) go"
  ResetRetriesCountOnElrond :: "('e, unit) go"
  GetAndStoreBatchFromEthereum :: "uint64 \<Rightarrow> ('e, gerror option) go"
  WasTransferPerformedOnEthereum :: "('e, bool res) go"
  SignTransferOnEthereum :: "('e, gerror option) go"
  PerformTransferOnEthereum :: "('e, gerror option) go"
  ProcessQuorumReachedOnEthereum :: "('e, bool res) go"
  WaitForTransferConfirmation :: "('e, unit) go"
  WaitAndReturnFinalBatchStatuses :: "('e, bytes) go"
  GetBatchStatusesFromEthereum :: "('e, bytes res) go"
  ProcessMaxQuorumRetriesOnEthereum :: "('e, bool) go"
  ResetRetriesCountOnEthereum :: "('e, unit) go"
  ClearStoredP2PSignaturesForEthereum :: "('e, unit) go"
  ValidateBatch :: "TransferBatch \<Rightarrow> ('e, bool res) go"
  CheckElrondClientAvailability :: "('e, gerror option) go"
  CheckEthereumClientAvailability :: "('e, gerror option) go"
  json_Marshal_batch :: "TransferBatch \<Rightarrow> string"

text \<open>
  Two fields stand for code of the steps rather than of the interface. \<open>SetStoredStatuses\<close> is the
  assignment \<^verbatim>\<open>storedBatch.Statuses = statuses\<close> of \<^verbatim>\<open>step06ResolveSetStatus.go\<close>: \<^verbatim>\<open>GetStoredBatch\<close>
  returns a pointer, so the assignment changes the batch the executor holds. \<open>json_Marshal_batch\<close> is
  the text \<^verbatim>\<open>json.Marshal(batch)\<close> gives, which only reaches a log line and the last-error metric.
\<close>

end
