(* ===== verification/Bridge_Executor.thy ===== *)
theory Bridge_Executor
  imports Bridge_Interfaces
begin

section \<open>The bridge executor (bridges/ethElrond/bridgeExecutor.go)\<close>

text \<open>
  The executor both half-bridges drive. The fields of the struct the constructor sets once are the
  record \<open>bridgeDeps\<close> (the interfaces the executor was given and the three limits); the fields the
  methods write are the record \<open>bridgeExecutor\<close>. A method runs on the pair of the executor and the
  state \<open>'s\<close> of everything behind the interfaces. Calls to the logger are not kept, except through
  \<^verbatim>\<open>PrintInfo\<close>, which also writes the last-error metric.
\<close>

definition splits :: nat where
  "splits = 10"

definition minRetries :: uint64 where
  "minRetries = 1"

definition durationLimit :: int where
  \<comment> \<open>\<^verbatim>\<open>time.Second\<close>, in nanoseconds\<close>
  "durationLimit = 1000000000"

definition ErrNilBatch :: gerror where
  "ErrNilBatch = ErrNew ''ethElrond.ErrNilBatch'' ''nil batch''"
definition ErrInvalidDepositNonce :: gerror where
  "ErrInvalidDepositNonce = ErrNew ''ethElrond.ErrInvalidDepositNonce'' ''invalid deposit nonce''"
definition ErrNilLogger :: gerror where
  "ErrNilLogger = ErrNew ''ethElrond.ErrNilLogger'' ''nil logger''"
definition ErrNilElrondClient :: gerror where
  "ErrNilElrondClient = ErrNew ''ethElrond.ErrNilElrondClient'' ''nil Elrond client''"
definition ErrNilEthereumClient :: gerror where
  "ErrNilEthereumClient = ErrNew ''ethElrond.ErrNilEthereumClient'' ''nil Ethereum client''"
definition ErrNilTopologyProvider :: gerror where
  "ErrNilTopologyProvider = ErrNew ''ethElrond.ErrNilTopologyProvider'' ''nil topology provider''"
definition ErrInvalidDuration :: gerror where
  "ErrInvalidDuration = ErrNew ''ethElrond.ErrInvalidDuration'' ''invalid duration''"
definition ErrNilExecutor :: gerror where
  "ErrNilExecutor = ErrNew ''ethElrond.ErrNilExecutor'' ''nil bridge executor''"
definition ErrDuplicatedStepIdentifier :: gerror where
  "ErrDuplicatedStepIdentifier =
     ErrNew ''ethElrond.ErrDuplicatedStepIdentifier'' ''duplicated step identifier used in multiple steps''"
definition ErrNilStatusHandler :: gerror where
  "ErrNilStatusHandler = ErrNew ''ethElrond.ErrNilStatusHandler'' ''nil status handler''"
definition ErrBatchNotFound :: gerror where
  "ErrBatchNotFound = ErrNew ''ethElrond.ErrBatchNotFound'' ''batch not found''"
definition ErrNilSignaturesHolder :: gerror where
  "ErrNilSignaturesHolder = ErrNew ''ethElrond.ErrNilSignaturesHolder'' ''nil signatures holder''"
definition ErrNilBatchValidator :: gerror where
  "ErrNilBatchValidator = ErrNew ''ethElrond.ErrNilBatchValidator'' ''nil batch validator''"

subsection \<open>State\<close>

record 's bridgeDeps =
  topologyProvider :: "('s, bool) go"
  elrondClient :: "'s ElrondClient"
  ethereumClient :: "'s EthereumClient"
  timeForWaitOnEthereum :: int
  statusHandler :: "'s StatusHandler"
  sigsHolder_ClearStoredSignatures :: "('s, unit) go"
  batchValidator :: "TransferBatch \<Rightarrow> ('s, bool res) go"
  maxQuorumRetriesOnEthereum :: uint64
  maxQuorumRetriesOnElrond :: uint64
  maxRetriesOnWasProposed :: uint64
  select_ctx_or_timer :: "int \<Rightarrow> ('s, bool) go"
  level_text :: "LogLevel \<Rightarrow> string"
  marshal_batch :: "TransferBatch \<Rightarrow> string"

text \<open>
  The last three fields are what the methods use of the run-time system and of libraries:
  the \<^verbatim>\<open>select\<close> between the context and a timer of the given duration (\<open>True\<close> when the timer fired),
  the text of a log level of the logger library, and \<^verbatim>\<open>json.Marshal\<close> of a batch.
\<close>

record bridgeExecutor =
  batch :: "TransferBatch option"
  actionID :: uint64
  msgHash :: bytes
  quorumRetriesOnEthereum :: uint64
  quorumRetriesOnElrond :: uint64
  retriesOnWasProposed :: uint64

type_synonym 's exec_state = "bridgeExecutor \<times> 's"

record 's ArgsBridgeExecutor =
  arg_Log :: "unit option"
  arg_TopologyProvider :: "('s, bool) go option"
  arg_ElrondClient :: "'s ElrondClient option"
  arg_EthereumClient :: "'s EthereumClient option"
  arg_TimeForWaitOnEthereum :: int
  arg_StatusHandler :: "'s StatusHandler option"
  arg_SignaturesHolder :: "('s, unit) go option"
  arg_BatchValidator :: "(TransferBatch \<Rightarrow> ('s, bool res) go) option"
  arg_MaxQuorumRetriesOnEthereum :: uint64
  arg_MaxQuorumRetriesOnElrond :: uint64
  arg_MaxRestriesOnWasProposed :: uint64

subsection \<open>Construction\<close>

definition bridgeExecutor_checkArgs :: "'s ArgsBridgeExecutor \<Rightarrow> gerror option" where
  "bridgeExecutor_checkArgs args =
     (if arg_Log args = None then Some ErrNilLogger
      else if arg_ElrondClient args = None then Some ErrNilElrondClient
      else if arg_EthereumClient args = None then Some ErrNilEthereumClient
      else if arg_TopologyProvider args = None then Some ErrNilTopologyProvider
      else if arg_StatusHandler args = None then Some ErrNilStatusHandler
      else if arg_TimeForWaitOnEthereum args < durationLimit then Some ErrInvalidDuration
      else if arg_SignaturesHolder args = None then Some ErrNilSignaturesHolder
      else if arg_BatchValidator args = None then Some ErrNilBatchValidator
      else if arg_MaxQuorumRetriesOnEthereum args < minRetries
      then Some (Errorf '''' clients_ErrInvalidValue
             ('' for args.MaxQuorumRetriesOnEthereum, got: '' @ show_uint64 (arg_MaxQuorumRetriesOnEthereum args)
              @ '', minimum: '' @ show_uint64 minRetries))
      else if arg_MaxQuorumRetriesOnElrond args < minRetries
      then Some (Errorf '''' clients_ErrInvalidValue
             ('' for args.MaxQuorumRetriesOnElrond, got: '' @ show_uint64 (arg_MaxQuorumRetriesOnElrond args)
              @ '', minimum: '' @ show_uint64 minRetries))
      else if arg_MaxRestriesOnWasProposed args < minRetries
      then Some (Errorf '''' clients_ErrInvalidValue
             ('' for args.MaxRestriesOnWasProposed, got: '' @ show_uint64 (arg_MaxRestriesOnWasProposed args)
              @ '', minimum: '' @ show_uint64 minRetries))
      else None)"

definition initial_bridgeExecutor :: bridgeExecutor where
  \<comment> \<open>the zero values of the fields the constructor does not set\<close>
  "initial_bridgeExecutor =
     \<lparr> batch = None, actionID = 0, msgHash = replicate 32 0,
       quorumRetriesOnEthereum = 0, quorumRetriesOnElrond = 0, retriesOnWasProposed = 0 \<rparr>"

definition createBridgeExecutor ::
  "(int \<Rightarrow> ('s, bool) go) \<Rightarrow> (LogLevel \<Rightarrow> string) \<Rightarrow> (TransferBatch \<Rightarrow> string)
   \<Rightarrow> 's ArgsBridgeExecutor \<Rightarrow> 's bridgeDeps \<times> bridgeExecutor" where
  "createBridgeExecutor sel lvl json args =
     (\<lparr> topologyProvider = the (arg_TopologyProvider args),
        elrondClient = the (arg_ElrondClient args),
        ethereumClient = the (arg_EthereumClient args),
        timeForWaitOnEthereum = arg_TimeForWaitOnEthereum args,
        statusHandler = the (arg_StatusHandler args),
        sigsHolder_ClearStoredSignatures = the (arg_SignaturesHolder args),
        batchValidator = the (arg_BatchValidator args),
        maxQuorumRetriesOnEthereum = arg_MaxQuorumRetriesOnEthereum args,
        maxQuorumRetriesOnElrond = arg_MaxQuorumRetriesOnElrond args,
        maxRetriesOnWasProposed = arg_MaxRestriesOnWasProposed args,
        select_ctx_or_timer = sel, level_text = lvl, marshal_batch = json \<rparr>,
      initial_bridgeExecutor)"

definition NewBridgeExecutor ::
  "(int \<Rightarrow> ('s, bool) go) \<Rightarrow> (LogLevel \<Rightarrow> string) \<Rightarrow> (TransferBatch \<Rightarrow> string)
   \<Rightarrow> 's ArgsBridgeExecutor \<Rightarrow> ('s bridgeDeps \<times> bridgeExecutor) res" where
  "NewBridgeExecutor sel lvl json args =
     (case bridgeExecutor_checkArgs args of
        Some err \<Rightarrow> Inl err
      | None \<Rightarrow> Inr (createBridgeExecutor sel lvl json args))"

subsection \<open>Logging and leader\<close>

fun extras_text :: "goval list \<Rightarrow> string" where
  "extras_text (k # v # rest) =
     '' '' @ convertObjectToString k @ '' = '' @ convertObjectToString v @ extras_text rest"
| "extras_text _ = ''''"

definition setExecutionMessageInStatusHandler ::
  "'s bridgeDeps \<Rightarrow> LogLevel \<Rightarrow> string \<Rightarrow> goval list \<Rightarrow> ('s exec_state, unit) go" where
  "setExecutionMessageInStatusHandler d level message extras = (\<lambda>(ex, s). do {
     let msg = level_text d level @ '': '' @ message @ extras_text extras;
     (_, s) \<leftarrow> SetStringMetric (statusHandler d) MetricLastError msg s;
     Some ((), (ex, s)) })"

definition bridgeExecutor_PrintInfo ::
  "'s bridgeDeps \<Rightarrow> LogLevel \<Rightarrow> string \<Rightarrow> goval list \<Rightarrow> ('s exec_state, unit) go" where
  "bridgeExecutor_PrintInfo d level message extras =
     (case level of
        LogWarning \<Rightarrow> setExecutionMessageInStatusHandler d level message extras
      | LogError \<Rightarrow> setExecutionMessageInStatusHandler d level message extras
      | _ \<Rightarrow> (\<lambda>e. Some ((), e)))"

definition bridgeExecutor_MyTurnAsLeader :: "'s bridgeDeps \<Rightarrow> ('s exec_state, bool) go" where
  "bridgeExecutor_MyTurnAsLeader d = (\<lambda>(ex, s). do {
     (b, s) \<leftarrow> topologyProvider d s;
     Some (b, (ex, s)) })"

subsection \<open>The batch from Elrond\<close>

definition bridgeExecutor_GetBatchFromElrond ::
  "'s bridgeDeps \<Rightarrow> ('s exec_state, TransferBatch option res) go" where
  \<comment> \<open>\<^verbatim>\<open>batch.ID\<close> panics on a nil batch that came without an error\<close>
  "bridgeExecutor_GetBatchFromElrond d = (\<lambda>(ex, s). do {
     (r, s) \<leftarrow> ec_GetPending (elrondClient d) s;
     case r of
       Inl err \<Rightarrow> Some (Inl err, (ex, s))
     | Inr None \<Rightarrow> None
     | Inr (Some b) \<Rightarrow> do {
         (_, s) \<leftarrow> SetIntMetric (statusHandler d) MetricNumBatches (sint (ID b - 1)) s;
         Some (Inr (Some b), (ex, s)) } })"

definition bridgeExecutor_StoreBatchFromElrond ::
  "'s bridgeDeps \<Rightarrow> TransferBatch option \<Rightarrow> ('s exec_state, gerror option) go" where
  "bridgeExecutor_StoreBatchFromElrond d b = (\<lambda>(ex, s).
     if b = None then Some (Some ErrNilBatch, (ex, s))
     else Some (None, (ex\<lparr>batch := b\<rparr>, s)))"

definition bridgeExecutor_GetStoredBatch :: "'s bridgeDeps \<Rightarrow> ('s exec_state, TransferBatch option) go" where
  "bridgeExecutor_GetStoredBatch d = (\<lambda>(ex, s). Some (batch ex, (ex, s)))"

definition bridgeExecutor_SetStoredStatuses :: "'s bridgeDeps \<Rightarrow> bytes \<Rightarrow> ('s exec_state, unit) go" where
  \<comment> \<open>the assignment \<^verbatim>\<open>storedBatch.Statuses = statuses\<close> through the stored pointer\<close>
  "bridgeExecutor_SetStoredStatuses d st = (\<lambda>(ex, s).
     case batch ex of
       None \<Rightarrow> None
     | Some b \<Rightarrow> Some ((), (ex\<lparr>batch := Some (b\<lparr>Statuses := st\<rparr>)\<rparr>, s)))"

subsection \<open>Ethereum to Elrond: deposits, proposals, action IDs\<close>

definition bridgeExecutor_GetLastExecutedEthBatchIDFromElrond ::
  "'s bridgeDeps \<Rightarrow> ('s exec_state, uint64 res) go" where
  "bridgeExecutor_GetLastExecutedEthBatchIDFromElrond d = (\<lambda>(ex, s). do {
     (r, s) \<leftarrow> ec_GetLastExecutedEthBatchID (elrondClient d) s;
     case r of
       Inl err \<Rightarrow> Some (Inl err, (ex, s))
     | Inr batchID \<Rightarrow> do {
         (_, s) \<leftarrow> SetIntMetric (statusHandler d) MetricNumBatches (sint batchID) s;
         Some (Inr batchID, (ex, s)) } })"

fun verifyDepositNonces :: "DepositTransfer list \<Rightarrow> uint64 \<Rightarrow> gerror option" where
  "verifyDepositNonces [] startNonce = None"
| "verifyDepositNonces (dt # dts) startNonce =
     (if Nonce dt \<noteq> startNonce
      then Some (Errorf '''' ErrInvalidDepositNonce
             ('' for deposit '' @ DepositTransfer_String dt @ '', expected: '' @ show_uint64 startNonce))
      else verifyDepositNonces dts (startNonce + 1))"

definition bridgeExecutor_VerifyLastDepositNonceExecutedOnEthereumBatch ::
  "'s bridgeDeps \<Rightarrow> ('s exec_state, gerror option) go" where
  "bridgeExecutor_VerifyLastDepositNonceExecutedOnEthereumBatch d = (\<lambda>(ex, s).
     case batch ex of
       None \<Rightarrow> Some (Some ErrNilBatch, (ex, s))
     | Some b \<Rightarrow> do {
         (r, s) \<leftarrow> ec_GetLastExecutedEthTxID (elrondClient d) s;
         case r of
           Inl err \<Rightarrow> Some (Some err, (ex, s))
         | Inr lastNonce \<Rightarrow> Some (verifyDepositNonces (Deposits b) (lastNonce + 1), (ex, s)) })"

definition bridgeExecutor_GetAndStoreActionIDForProposeTransferOnElrond ::
  "'s bridgeDeps \<Rightarrow> ('s exec_state, uint64 res) go" where
  "bridgeExecutor_GetAndStoreActionIDForProposeTransferOnElrond d = (\<lambda>(ex, s).
     if batch ex = None then Some (Inl ErrNilBatch, (ex, s))
     else do {
       (r, s) \<leftarrow> ec_GetActionIDForProposeTransfer (elrondClient d) (batch ex) s;
       case r of
         Inl err \<Rightarrow> Some (Inl err, (ex, s))
       | Inr aid \<Rightarrow> Some (Inr aid, (ex\<lparr>actionID := aid\<rparr>, s)) })"

definition bridgeExecutor_GetAndStoreActionIDForProposeSetStatusFromElrond ::
  "'s bridgeDeps \<Rightarrow> ('s exec_state, uint64 res) go" where
  "bridgeExecutor_GetAndStoreActionIDForProposeSetStatusFromElrond d = (\<lambda>(ex, s).
     if batch ex = None then Some (Inl ErrNilBatch, (ex, s))
     else do {
       (r, s) \<leftarrow> ec_GetActionIDForSetStatusOnPendingTransfer (elrondClient d) (batch ex) s;
       case r of
         Inl err \<Rightarrow> Some (Inl err, (ex, s))
       | Inr aid \<Rightarrow> Some (Inr aid, (ex\<lparr>actionID := aid\<rparr>, s)) })"

definition bridgeExecutor_GetStoredActionID :: "'s bridgeDeps \<Rightarrow> ('s exec_state, uint64) go" where
  "bridgeExecutor_GetStoredActionID d = (\<lambda>(ex, s). Some (actionID ex, (ex, s)))"

definition bridgeExecutor_WasTransferProposedOnElrond :: "'s bridgeDeps \<Rightarrow> ('s exec_state, bool res) go" where
  "bridgeExecutor_WasTransferProposedOnElrond d = (\<lambda>(ex, s).
     if batch ex = None then Some (Inl ErrNilBatch, (ex, s))
     else do {
       (r, s) \<leftarrow> ec_WasProposedTransfer (elrondClient d) (batch ex) s;
       Some (r, (ex, s)) })"

definition bridgeExecutor_ProposeTransferOnElrond :: "'s bridgeDeps \<Rightarrow> ('s exec_state, gerror option) go" where
  "bridgeExecutor_ProposeTransferOnElrond d = (\<lambda>(ex, s).
     if batch ex = None then Some (Some ErrNilBatch, (ex, s))
     else do {
       (r, s) \<leftarrow> ec_ProposeTransfer (elrondClient d) (batch ex) s;
       case r of
         Inl err \<Rightarrow> Some (Some err, (ex, s))
       | Inr _ \<Rightarrow> Some (None, (ex, s)) })"

definition bridgeExecutor_ProcessMaxRetriesOnWasTransferProposedOnElrond ::
  "'s bridgeDeps \<Rightarrow> ('s exec_state, bool) go" where
  "bridgeExecutor_ProcessMaxRetriesOnWasTransferProposedOnElrond d = (\<lambda>(ex, s).
     if retriesOnWasProposed ex < maxRetriesOnWasProposed d
     then Some (False, (ex\<lparr>retriesOnWasProposed := retriesOnWasProposed ex + 1\<rparr>, s))
     else Some (True, (ex, s)))"

definition bridgeExecutor_ResetRetriesOnWasTransferProposedOnElrond ::
  "'s bridgeDeps \<Rightarrow> ('s exec_state, unit) go" where
  "bridgeExecutor_ResetRetriesOnWasTransferProposedOnElrond d = (\<lambda>(ex, s).
     Some ((), (ex\<lparr>retriesOnWasProposed := 0\<rparr>, s)))"

definition bridgeExecutor_WasSetStatusProposedOnElrond :: "'s bridgeDeps \<Rightarrow> ('s exec_state, bool res) go" where
  "bridgeExecutor_WasSetStatusProposedOnElrond d = (\<lambda>(ex, s).
     if batch ex = None then Some (Inl ErrNilBatch, (ex, s))
     else do {
       (r, s) \<leftarrow> ec_WasProposedSetStatus (elrondClient d) (batch ex) s;
       Some (r, (ex, s)) })"

definition bridgeExecutor_ProposeSetStatusOnElrond :: "'s bridgeDeps \<Rightarrow> ('s exec_state, gerror option) go" where
  "bridgeExecutor_ProposeSetStatusOnElrond d = (\<lambda>(ex, s).
     if batch ex = None then Some (Some ErrNilBatch, (ex, s))
     else do {
       (r, s) \<leftarrow> ec_ProposeSetStatus (elrondClient d) (batch ex) s;
       case r of
         Inl err \<Rightarrow> Some (Some err, (ex, s))
       | Inr _ \<Rightarrow> Some (None, (ex, s)) })"

definition bridgeExecutor_WasActionSignedOnElrond :: "'s bridgeDeps \<Rightarrow> ('s exec_state, bool res) go" where
  "bridgeExecutor_WasActionSignedOnElrond d = (\<lambda>(ex, s). do {
     (r, s) \<leftarrow> ec_WasSigned (elrondClient d) (actionID ex) s;
     Some (r, (ex, s)) })"

definition bridgeExecutor_SignActionOnElrond :: "'s bridgeDeps \<Rightarrow> ('s exec_state, gerror option) go" where
  "bridgeExecutor_SignActionOnElrond d = (\<lambda>(ex, s). do {
     (r, s) \<leftarrow> ec_Sign (elrondClient d) (actionID ex) s;
     case r of
       Inl err \<Rightarrow> Some (Some err, (ex, s))
     | Inr _ \<Rightarrow> Some (None, (ex, s)) })"

definition bridgeExecutor_ProcessQuorumReachedOnElrond :: "'s bridgeDeps \<Rightarrow> ('s exec_state, bool res) go" where
  "bridgeExecutor_ProcessQuorumReachedOnElrond d = (\<lambda>(ex, s). do {
     (r, s) \<leftarrow> ec_QuorumReached (elrondClient d) (actionID ex) s;
     Some (r, (ex, s)) })"

subsection \<open>Waiting for Ethereum\<close>

definition bridgeExecutor_WasTransferPerformedOnEthereum :: "'s bridgeDeps \<Rightarrow> ('s exec_state, bool res) go" where
  "bridgeExecutor_WasTransferPerformedOnEthereum d = (\<lambda>(ex, s).
     case batch ex of
       None \<Rightarrow> Some (Inl ErrNilBatch, (ex, s))
     | Some b \<Rightarrow> do {
         (r, s) \<leftarrow> eth_WasExecuted (ethereumClient d) (ID b) s;
         Some (r, (ex, s)) })"

definition bridgeExecutor_GetBatchStatusesFromEthereum :: "'s bridgeDeps \<Rightarrow> ('s exec_state, bytes res) go" where
  "bridgeExecutor_GetBatchStatusesFromEthereum d = (\<lambda>(ex, s).
     case batch ex of
       None \<Rightarrow> Some (Inl ErrNilBatch, (ex, s))
     | Some b \<Rightarrow> do {
         (r, s) \<leftarrow> eth_GetTransactionsStatuses (ethereumClient d) (ID b) s;
         case r of
           Inl err \<Rightarrow> Some (Inl err, (ex, s))
         | Inr statuses \<Rightarrow> Some (Inr statuses, (ex, s)) })"

definition waitWithContextSucceeded :: "'s bridgeDeps \<Rightarrow> ('s exec_state, bool) go" where
  "waitWithContextSucceeded d = (\<lambda>(ex, s). do {
     (fired, s) \<leftarrow> select_ctx_or_timer d (timeForWaitOnEthereum d div int splits) s;
     Some (fired, (ex, s)) })"

text \<open>The loops take the number of iterations that are left.\<close>

fun waitForTransferConfirmation_loop :: "'s bridgeDeps \<Rightarrow> nat \<Rightarrow> bool \<Rightarrow> ('s exec_state, unit) go" where
  "waitForTransferConfirmation_loop d 0 wasPerformed e = Some ((), e)"
| "waitForTransferConfirmation_loop d (Suc n) wasPerformed e =
     (if wasPerformed then Some ((), e)
      else do {
        (ok, e) \<leftarrow> waitWithContextSucceeded d e;
        if ok then do {
          (r, e) \<leftarrow> bridgeExecutor_WasTransferPerformedOnEthereum d e;
          waitForTransferConfirmation_loop d n (case r of Inl _ \<Rightarrow> False | Inr b \<Rightarrow> b) e }
        else waitForTransferConfirmation_loop d n wasPerformed e })"

definition bridgeExecutor_WaitForTransferConfirmation :: "'s bridgeDeps \<Rightarrow> ('s exec_state, unit) go" where
  \<comment> \<open>on an error \<^verbatim>\<open>wasPerformed\<close> takes the value returned beside it, which the client gives as false\<close>
  "bridgeExecutor_WaitForTransferConfirmation d = waitForTransferConfirmation_loop d splits False"

fun waitAndReturnFinalBatchStatuses_loop :: "'s bridgeDeps \<Rightarrow> nat \<Rightarrow> ('s exec_state, bytes) go" where
  "waitAndReturnFinalBatchStatuses_loop d 0 e = Some ([], e)"
| "waitAndReturnFinalBatchStatuses_loop d (Suc n) e = do {
     (ok, e) \<leftarrow> waitWithContextSucceeded d e;
     if \<not> ok then Some ([], e)
     else do {
       (r, e) \<leftarrow> bridgeExecutor_GetBatchStatusesFromEthereum d e;
       case r of
         Inl _ \<Rightarrow> waitAndReturnFinalBatchStatuses_loop d n e
       | Inr statuses \<Rightarrow>
           if length statuses = 0 then waitAndReturnFinalBatchStatuses_loop d n e
           else Some (statuses, e) } }"

definition bridgeExecutor_WaitAndReturnFinalBatchStatuses :: "'s bridgeDeps \<Rightarrow> ('s exec_state, bytes) go" where
  "bridgeExecutor_WaitAndReturnFinalBatchStatuses d = waitAndReturnFinalBatchStatuses_loop d splits"

subsection \<open>Performing actions on Elrond, statuses, retries\<close>

definition bridgeExecutor_WasActionPerformedOnElrond :: "'s bridgeDeps \<Rightarrow> ('s exec_state, bool res) go" where
  "bridgeExecutor_WasActionPerformedOnElrond d = (\<lambda>(ex, s). do {
     (r, s) \<leftarrow> ec_WasExecuted (elrondClient d) (actionID ex) s;
     Some (r, (ex, s)) })"

definition bridgeExecutor_PerformActionOnElrond :: "'s bridgeDeps \<Rightarrow> ('s exec_state, gerror option) go" where
  "bridgeExecutor_PerformActionOnElrond d = (\<lambda>(ex, s).
     if batch ex = None then Some (Some ErrNilBatch, (ex, s))
     else do {
       (r, s) \<leftarrow> ec_PerformAction (elrondClient d) (actionID ex) (batch ex) s;
       case r of
         Inl err \<Rightarrow> Some (Some err, (ex, s))
       | Inr _ \<Rightarrow> Some (None, (ex, s)) })"

definition bridgeExecutor_ResolveNewDepositsStatuses :: "'s bridgeDeps \<Rightarrow> uint64 \<Rightarrow> ('s exec_state, unit) go" where
  \<comment> \<open>a nil stored batch panics; \<^verbatim>\<open>int(numDeposits)\<close> reinterprets the bits as a signed number\<close>
  "bridgeExecutor_ResolveNewDepositsStatuses d numDeposits = (\<lambda>(ex, s). do {
     b \<leftarrow> batch ex;
     b \<leftarrow> ResolveNewDeposits b (sint numDeposits);
     Some ((), (ex\<lparr>batch := Some b\<rparr>, s)) })"

definition bridgeExecutor_ProcessMaxQuorumRetriesOnElrond :: "'s bridgeDeps \<Rightarrow> ('s exec_state, bool) go" where
  "bridgeExecutor_ProcessMaxQuorumRetriesOnElrond d = (\<lambda>(ex, s).
     if quorumRetriesOnElrond ex < maxQuorumRetriesOnElrond d
     then Some (False, (ex\<lparr>quorumRetriesOnElrond := quorumRetriesOnElrond ex + 1\<rparr>, s))
     else Some (True, (ex, s)))"

definition bridgeExecutor_ResetRetriesCountOnElrond :: "'s bridgeDeps \<Rightarrow> ('s exec_state, unit) go" where
  "bridgeExecutor_ResetRetriesCountOnElrond d = (\<lambda>(ex, s).
     Some ((), (ex\<lparr>quorumRetriesOnElrond := 0\<rparr>, s)))"

subsection \<open>The batch from Ethereum, signing and executing on Ethereum\<close>

definition bridgeExecutor_GetAndStoreBatchFromEthereum ::
  "'s bridgeDeps \<Rightarrow> uint64 \<Rightarrow> ('s exec_state, gerror option) go" where
  "bridgeExecutor_GetAndStoreBatchFromEthereum d nonce = (\<lambda>(ex, s). do {
     (r, s) \<leftarrow> eth_GetBatch (ethereumClient d) nonce s;
     case r of
       Inl err \<Rightarrow> Some (Some err, (ex, s))
     | Inr b \<Rightarrow>
         if ID b \<noteq> nonce \<or> length (Deposits b) = 0
         then Some (Some (Errorf '''' ErrBatchNotFound
                  ('', requested nonce: '' @ show_uint64 nonce @ '', fetched nonce: '' @ show_uint64 (ID b)
                   @ '', num deposits: '' @ show_nat (length (Deposits b)))), (ex, s))
         else Some (None, (ex\<lparr>batch := Some b\<rparr>, s)) })"

definition bridgeExecutor_SignTransferOnEthereum :: "'s bridgeDeps \<Rightarrow> ('s exec_state, gerror option) go" where
  "bridgeExecutor_SignTransferOnEthereum d = (\<lambda>(ex, s).
     if batch ex = None then Some (Some ErrNilBatch, (ex, s))
     else do {
       (r, s) \<leftarrow> eth_GenerateMessageHash (ethereumClient d) (batch ex) s;
       case r of
         Inl err \<Rightarrow> Some (Some err, (ex, s))
       | Inr hash \<Rightarrow> do {
           let ex = ex\<lparr>msgHash := hash\<rparr>;
           (_, s) \<leftarrow> eth_BroadcastSignatureForMessageHash (ethereumClient d) hash s;
           Some (None, (ex, s)) } })"

definition bridgeExecutor_PerformTransferOnEthereum :: "'s bridgeDeps \<Rightarrow> ('s exec_state, gerror option) go" where
  "bridgeExecutor_PerformTransferOnEthereum d = (\<lambda>(ex, s).
     if batch ex = None then Some (Some ErrNilBatch, (ex, s))
     else do {
       (r, s) \<leftarrow> eth_GetQuorumSize (ethereumClient d) s;
       case r of
         Inl err \<Rightarrow> Some (Some err, (ex, s))
       | Inr quorumSize \<Rightarrow> do {
           (r, s) \<leftarrow> eth_ExecuteTransfer (ethereumClient d) (msgHash ex) (batch ex) (big_Int64 quorumSize) s;
           case r of
             Inl err \<Rightarrow> Some (Some err, (ex, s))
           | Inr _ \<Rightarrow> Some (None, (ex, s)) } })"

definition bridgeExecutor_ProcessQuorumReachedOnEthereum :: "'s bridgeDeps \<Rightarrow> ('s exec_state, bool res) go" where
  "bridgeExecutor_ProcessQuorumReachedOnEthereum d = (\<lambda>(ex, s). do {
     (r, s) \<leftarrow> eth_IsQuorumReached (ethereumClient d) (msgHash ex) s;
     Some (r, (ex, s)) })"

definition bridgeExecutor_ProcessMaxQuorumRetriesOnEthereum :: "'s bridgeDeps \<Rightarrow> ('s exec_state, bool) go" where
  "bridgeExecutor_ProcessMaxQuorumRetriesOnEthereum d = (\<lambda>(ex, s).
     if quorumRetriesOnEthereum ex < maxQuorumRetriesOnEthereum d
     then Some (False, (ex\<lparr>quorumRetriesOnEthereum := quorumRetriesOnEthereum ex + 1\<rparr>, s))
     else Some (True, (ex, s)))"

definition bridgeExecutor_ResetRetriesCountOnEthereum :: "'s bridgeDeps \<Rightarrow> ('s exec_state, unit) go" where
  "bridgeExecutor_ResetRetriesCountOnEthereum d = (\<lambda>(ex, s).
     Some ((), (ex\<lparr>quorumRetriesOnEthereum := 0\<rparr>, s)))"

definition bridgeExecutor_ClearStoredP2PSignaturesForEthereum :: "'s bridgeDeps \<Rightarrow> ('s exec_state, unit) go" where
  "bridgeExecutor_ClearStoredP2PSignaturesForEthereum d = (\<lambda>(ex, s). do {
     (_, s) \<leftarrow> sigsHolder_ClearStoredSignatures d s;
     Some ((), (ex, s)) })"

definition bridgeExecutor_ValidateBatch :: "'s bridgeDeps \<Rightarrow> TransferBatch \<Rightarrow> ('s exec_state, bool res) go" where
  "bridgeExecutor_ValidateBatch d b = (\<lambda>(ex, s). do {
     (r, s) \<leftarrow> batchValidator d b s;
     Some (r, (ex, s)) })"

definition bridgeExecutor_CheckElrondClientAvailability :: "'s bridgeDeps \<Rightarrow> ('s exec_state, gerror option) go" where
  "bridgeExecutor_CheckElrondClientAvailability d = (\<lambda>(ex, s). do {
     (r, s) \<leftarrow> ec_CheckClientAvailability (elrondClient d) s;
     Some (r, (ex, s)) })"

definition bridgeExecutor_CheckEthereumClientAvailability :: "'s bridgeDeps \<Rightarrow> ('s exec_state, gerror option) go" where
  "bridgeExecutor_CheckEthereumClientAvailability d = (\<lambda>(ex, s). do {
     (r, s) \<leftarrow> eth_CheckClientAvailability (ethereumClient d) s;
     Some (r, (ex, s)) })"

subsection \<open>The executor as an implementation of the steps' interface\<close>

definition bridge :: "'s bridgeDeps \<Rightarrow> 's exec_state Executor" where
  "bridge d =
     \<lparr> PrintInfo = bridgeExecutor_PrintInfo d,
       MyTurnAsLeader = bridgeExecutor_MyTurnAsLeader d,
       GetBatchFromElrond = bridgeExecutor_GetBatchFromElrond d,
       StoreBatchFromElrond = bridgeExecutor_StoreBatchFromElrond d,
       GetStoredBatch = bridgeExecutor_GetStoredBatch d,
       SetStoredStatuses = bridgeExecutor_SetStoredStatuses d,
       GetLastExecutedEthBatchIDFromElrond = bridgeExecutor_GetLastExecutedEthBatchIDFromElrond d,
       VerifyLastDepositNonceExecutedOnEthereumBatch = bridgeExecutor_VerifyLastDepositNonceExecutedOnEthereumBatch d,
       GetAndStoreActionIDForProposeTransferOnElrond = bridgeExecutor_GetAndStoreActionIDForProposeTransferOnElrond d,
       GetAndStoreActionIDForProposeSetStatusFromElrond = bridgeExecutor_GetAndStoreActionIDForProposeSetStatusFromElrond d,
       GetStoredActionID = bridgeExecutor_GetStoredActionID d,
       WasTransferProposedOnElrond = bridgeExecutor_WasTransferProposedOnElrond d,
       ProposeTransferOnElrond = bridgeExecutor_ProposeTransferOnElrond d,
       ProcessMaxRetriesOnWasTransferProposedOnElrond = bridgeExecutor_ProcessMaxRetriesOnWasTransferProposedOnElrond d,
       ResetRetriesOnWasTransferProposedOnElrond = bridgeExecutor_ResetRetriesOnWasTransferProposedOnElrond d,
       WasSetStatusProposedOnElrond = bridgeExecutor_WasSetStatusProposedOnElrond d,
       ProposeSetStatusOnElrond = bridgeExecutor_ProposeSetStatusOnElrond d,
       WasActionSignedOnElrond = bridgeExecutor_WasActionSignedOnElrond d,
       SignActionOnElrond = bridgeExecutor_SignActionOnElrond d,
       ProcessQuorumReachedOnElrond = bridgeExecutor_ProcessQuorumReachedOnElrond d,
       WasActionPerformedOnElrond = bridgeExecutor_WasActionPerformedOnElrond d,
       PerformActionOnElrond = bridgeExecutor_PerformActionOnElrond d,
       ResolveNewDepositsStatuses = bridgeExecutor_ResolveNewDepositsStatuses d,
       ProcessMaxQuorumRetriesOnElrond = bridgeExecutor_ProcessMaxQuorumRetriesOnElrond d,
       ResetRetriesCountOnElrond = bridgeExecutor_ResetRetriesCountOnElrond d,
       GetAndStoreBatchFromEthereum = bridgeExecutor_GetAndStoreBatchFromEthereum d,
       WasTransferPerformedOnEthereum = bridgeExecutor_WasTransferPerformedOnEthereum d,
       SignTransferOnEthereum = bridgeExecutor_SignTransferOnEthereum d,
       PerformTransferOnEthereum = bridgeExecutor_PerformTransferOnEthereum d,
       ProcessQuorumReachedOnEthereum = bridgeExecutor_ProcessQuorumReachedOnEthereum d,
       WaitForTransferConfirmation = bridgeExecutor_WaitForTransferConfirmation d,
       WaitAndReturnFinalBatchStatuses = bridgeExecutor_WaitAndReturnFinalBatchStatuses d,
       GetBatchStatusesFromEthereum = bridgeExecutor_GetBatchStatusesFromEthereum d,
       ProcessMaxQuorumRetriesOnEthereum = bridgeExecutor_ProcessMaxQuorumRetriesOnEthereum d,
       ResetRetriesCountOnEthereum = bridgeExecutor_ResetRetriesCountOnEthereum d,
       ClearStoredP2PSignaturesForEthereum = bridgeExecutor_ClearStoredP2PSignaturesForEthereum d,
       ValidateBatch = bridgeExecutor_ValidateBatch d,
       CheckElrondClientAvailability = bridgeExecutor_CheckElrondClientAvailability d,
       CheckEthereumClientAvailability = bridgeExecutor_CheckEthereumClientAvailability d,
       json_Marshal_batch = marshal_batch d \<rparr>"

text \<open>Symbolic execution of a step over the executor unfolds these.\<close>

lemma bridge_simps [simp]:
  "PrintInfo (bridge d) = bridgeExecutor_PrintInfo d"
  "MyTurnAsLeader (bridge d) = bridgeExecutor_MyTurnAsLeader d"
  "GetBatchFromElrond (bridge d) = bridgeExecutor_GetBatchFromElrond d"
  "StoreBatchFromElrond (bridge d) = bridgeExecutor_StoreBatchFromElrond d"
  "GetStoredBatch (bridge d) = bridgeExecutor_GetStoredBatch d"
  "SetStoredStatuses (bridge d) = bridgeExecutor_SetStoredStatuses d"
  "GetLastExecutedEthBatchIDFromElrond (bridge d) = bridgeExecutor_GetLastExecutedEthBatchIDFromElrond d"
  "VerifyLastDepositNonceExecutedOnEthereumBatch (bridge d) = bridgeExecutor_VerifyLastDepositNonceExecutedOnEthereumBatch d"
  "GetAndStoreActionIDForProposeTransferOnElrond (bridge d) = bridgeExecutor_GetAndStoreActionIDForProposeTransferOnElrond d"
  "GetAndStoreActionIDForProposeSetStatusFromElrond (bridge d) = bridgeExecutor_GetAndStoreActionIDForProposeSetStatusFromElrond d"
  "GetStoredActionID (bridge d) = bridgeExecutor_GetStoredActionID d"
  "WasTransferProposedOnElrond (bridge d) = bridgeExecutor_WasTransferProposedOnElrond d"
  "ProposeTransferOnElrond (bridge d) = bridgeExecutor_ProposeTransferOnElrond d"
  "ProcessMaxRetriesOnWasTransferProposedOnElrond (bridge d) = bridgeExecutor_ProcessMaxRetriesOnWasTransferProposedOnElrond d"
  "ResetRetriesOnWasTransferProposedOnElrond (bridge d) = bridgeExecutor_ResetRetriesOnWasTransferProposedOnElrond d"
  "WasSetStatusProposedOnElrond (bridge d) = bridgeExecutor_WasSetStatusProposedOnElrond d"
  "ProposeSetStatusOnElrond (bridge d) = bridgeExecutor_ProposeSetStatusOnElrond d"
  "WasActionSignedOnElrond (bridge d) = bridgeExecutor_WasActionSignedOnElrond d"
  "SignActionOnElrond (bridge d) = bridgeExecutor_SignActionOnElrond d"
  "ProcessQuorumReachedOnElrond (bridge d) = bridgeExecutor_ProcessQuorumReachedOnElrond d"
  "WasActionPerformedOnElrond (bridge d) = bridgeExecutor_WasActionPerformedOnElrond d"
  "PerformActionOnElrond (bridge d) = bridgeExecutor_PerformActionOnElrond d"
  "ResolveNewDepositsStatuses (bridge d) = bridgeExecutor_ResolveNewDepositsStatuses d"
  "ProcessMaxQuorumRetriesOnElrond (bridge d) = bridgeExecutor_ProcessMaxQuorumRetriesOnElrond d"
  "ResetRetriesCountOnElrond (bridge d) = bridgeExecutor_ResetRetriesCountOnElrond d"
  "GetAndStoreBatchFromEthereum (bridge d) = bridgeExecutor_GetAndStoreBatchFromEthereum d"
  "WasTransferPerformedOnEthereum (bridge d) = bridgeExecutor_WasTransferPerformedOnEthereum d"
  "SignTransferOnEthereum (bridge d) = bridgeExecutor_SignTransferOnEthereum d"
  "PerformTransferOnEthereum (bridge d) = bridgeExecutor_PerformTransferOnEthereum d"
  "ProcessQuorumReachedOnEthereum (bridge d) = bridgeExecutor_ProcessQuorumReachedOnEthereum d"
  "WaitForTransferConfirmation (bridge d) = bridgeExecutor_WaitForTransferConfirmation d"
  "WaitAndReturnFinalBatchStatuses (bridge d) = bridgeExecutor_WaitAndReturnFinalBatchStatuses d"
  "GetBatchStatusesFromEthereum (bridge d) = bridgeExecutor_GetBatchStatusesFromEthereum d"
  "ProcessMaxQuorumRetriesOnEthereum (bridge d) = bridgeExecutor_ProcessMaxQuorumRetriesOnEthereum d"
  "ResetRetriesCountOnEthereum (bridge d) = bridgeExecutor_ResetRetriesCountOnEthereum d"
  "ClearStoredP2PSignaturesForEthereum (bridge d) = bridgeExecutor_ClearStoredP2PSignaturesForEthereum d"
  "ValidateBatch (bridge d) = bridgeExecutor_ValidateBatch d"
  "CheckElrondClientAvailability (bridge d) = bridgeExecutor_CheckElrondClientAvailability d"
  "CheckEthereumClientAvailability (bridge d) = bridgeExecutor_CheckEthereumClientAvailability d"
  "json_Marshal_batch (bridge d) = marshal_batch d"
  by (simp_all add: bridge_def)

lemmas executor_defs [go_defs] =
  bridge_simps
  bridgeExecutor_MyTurnAsLeader_def bridgeExecutor_GetBatchFromElrond_def
  bridgeExecutor_StoreBatchFromElrond_def bridgeExecutor_GetStoredBatch_def
  bridgeExecutor_SetStoredStatuses_def bridgeExecutor_GetLastExecutedEthBatchIDFromElrond_def
  bridgeExecutor_VerifyLastDepositNonceExecutedOnEthereumBatch_def
  bridgeExecutor_GetAndStoreActionIDForProposeTransferOnElrond_def
  bridgeExecutor_GetAndStoreActionIDForProposeSetStatusFromElrond_def
  bridgeExecutor_GetStoredActionID_def bridgeExecutor_WasTransferProposedOnElrond_def
  bridgeExecutor_ProposeTransferOnElrond_def
  bridgeExecutor_ProcessMaxRetriesOnWasTransferProposedOnElrond_def
  bridgeExecutor_ResetRetriesOnWasTransferProposedOnElrond_def
  bridgeExecutor_WasSetStatusProposedOnElrond_def bridgeExecutor_ProposeSetStatusOnElrond_def
  bridgeExecutor_WasActionSignedOnElrond_def bridgeExecutor_SignActionOnElrond_def
  bridgeExecutor_ProcessQuorumReachedOnElrond_def bridgeExecutor_WasTransferPerformedOnEthereum_def
  bridgeExecutor_WasActionPerformedOnElrond_def
  bridgeExecutor_PerformActionOnElrond_def 
  bridgeExecutor_ProcessMaxQuorumRetriesOnElrond_def bridgeExecutor_ResetRetriesCountOnElrond_def
  bridgeExecutor_GetAndStoreBatchFromEthereum_def bridgeExecutor_SignTransferOnEthereum_def
  bridgeExecutor_PerformTransferOnEthereum_def bridgeExecutor_ProcessQuorumReachedOnEthereum_def
  bridgeExecutor_ProcessMaxQuorumRetriesOnEthereum_def bridgeExecutor_ResetRetriesCountOnEthereum_def
  bridgeExecutor_ClearStoredP2PSignaturesForEthereum_def bridgeExecutor_ValidateBatch_def
  bridgeExecutor_CheckElrondClientAvailability_def bridgeExecutor_CheckEthereumClientAvailability_def

subsection \<open>Services that do not panic\<close>

text \<open>
  The contracts of the two clients. No call of the Elrond client panics, and \<^verbatim>\<open>GetPending\<close> gives a batch
  when it gives no error, with a status slice whose length fits an \<^verbatim>\<open>int\<close>, as every Go slice, and an
  amount in every deposit. The Ethereum client may rely on the amounts and on a quorum that is not
  negative, which the size it reports is not. Under \<open>services_ok\<close> both hold and no other service panics.
\<close>

definition amounts_set :: "TransferBatch option \<Rightarrow> bool" where
  "amounts_set b \<longleftrightarrow> (case b of None \<Rightarrow> True | Some b \<Rightarrow> list_all (\<lambda>dt. Amount dt \<noteq> None) (Deposits b))"

definition elrond_client_ok :: "'s ElrondClient \<Rightarrow> bool" where
  "elrond_client_ok c \<longleftrightarrow>
     panic_free (ec_GetPending c)
     \<and> (\<forall>x. panic_free (ec_WasProposedTransfer c x))
     \<and> (\<forall>x. panic_free (ec_QuorumReached c x))
     \<and> (\<forall>x. panic_free (ec_WasExecuted c x))
     \<and> (\<forall>x. panic_free (ec_GetActionIDForProposeTransfer c x))
     \<and> (\<forall>x. panic_free (ec_WasProposedSetStatus c x))
     \<and> (\<forall>x. panic_free (ec_GetActionIDForSetStatusOnPendingTransfer c x))
     \<and> panic_free (ec_GetLastExecutedEthBatchID c)
     \<and> panic_free (ec_GetLastExecutedEthTxID c)
     \<and> (\<forall>x. panic_free (ec_ProposeSetStatus c x))
     \<and> (\<forall>x. panic_free (ec_ProposeTransfer c x))
     \<and> (\<forall>x. panic_free (ec_Sign c x))
     \<and> (\<forall>x. panic_free (ec_WasSigned c x))
     \<and> (\<forall>x y. panic_free (ec_PerformAction c x y))
     \<and> panic_free (ec_CheckClientAvailability c)
     \<and> (\<forall>s b s'. ec_GetPending c s = Some (Inr b, s')
            \<longrightarrow> amounts_set b \<and> (\<exists>pb. b = Some pb \<and> length (Statuses pb) < 2 ^ 63))"

definition ethereum_client_ok :: "'s EthereumClient \<Rightarrow> bool" where
  "ethereum_client_ok c \<longleftrightarrow>
     (\<forall>x. panic_free (eth_GetBatch c x))
     \<and> (\<forall>x. panic_free (eth_WasExecuted c x))
     \<and> (\<forall>x. amounts_set x \<longrightarrow> panic_free (eth_GenerateMessageHash c x))
     \<and> (\<forall>x. panic_free (eth_BroadcastSignatureForMessageHash c x))
     \<and> (\<forall>x y z. amounts_set y \<and> 0 \<le> z \<longrightarrow> panic_free (eth_ExecuteTransfer c x y z))
     \<and> (\<forall>x. panic_free (eth_GetTransactionsStatuses c x))
     \<and> panic_free (eth_GetQuorumSize c)
     \<and> (\<forall>s q s'. eth_GetQuorumSize c s = Some (Inr q, s') \<longrightarrow> 0 \<le> big_Int64 q)
     \<and> (\<forall>x. panic_free (eth_IsQuorumReached c x))
     \<and> panic_free (eth_CheckClientAvailability c)"

definition services_ok :: "'s bridgeDeps \<Rightarrow> bool" where
  "services_ok d \<longleftrightarrow>
     elrond_client_ok (elrondClient d)
     \<and> ethereum_client_ok (ethereumClient d)
     \<and> panic_free (topologyProvider d)
     \<and> (\<forall>x y. panic_free (SetIntMetric (statusHandler d) x y))
     \<and> (\<forall>x y. panic_free (SetStringMetric (statusHandler d) x y))
     \<and> panic_free (sigsHolder_ClearStoredSignatures d)
     \<and> (\<forall>x. panic_free (batchValidator d x))
     \<and> (\<forall>x. panic_free (select_ctx_or_timer d x))"

lemmas services_ok_defs = services_ok_def elrond_client_ok_def ethereum_client_ok_def

lemma services_total:
  "services_ok d \<longrightarrow> panic_free (ec_GetPending (elrondClient d))"
  "services_ok d \<longrightarrow> panic_free (ec_WasProposedTransfer (elrondClient d) x3)"
  "services_ok d \<longrightarrow> panic_free (ec_QuorumReached (elrondClient d) x4)"
  "services_ok d \<longrightarrow> panic_free (ec_WasExecuted (elrondClient d) x5)"
  "services_ok d \<longrightarrow> panic_free (ec_GetActionIDForProposeTransfer (elrondClient d) x6)"
  "services_ok d \<longrightarrow> panic_free (ec_WasProposedSetStatus (elrondClient d) x7)"
  "services_ok d \<longrightarrow> panic_free (ec_GetActionIDForSetStatusOnPendingTransfer (elrondClient d) x8)"
  "services_ok d \<longrightarrow> panic_free (ec_GetLastExecutedEthBatchID (elrondClient d))"
  "services_ok d \<longrightarrow> panic_free (ec_GetLastExecutedEthTxID (elrondClient d))"
  "services_ok d \<longrightarrow> panic_free (ec_ProposeSetStatus (elrondClient d) x11)"
  "services_ok d \<longrightarrow> panic_free (ec_ProposeTransfer (elrondClient d) x12)"
  "services_ok d \<longrightarrow> panic_free (ec_Sign (elrondClient d) x13)"
  "services_ok d \<longrightarrow> panic_free (ec_WasSigned (elrondClient d) x14)"
  "services_ok d \<longrightarrow> panic_free (ec_PerformAction (elrondClient d) x15 y15)"
  "services_ok d \<longrightarrow> panic_free (ec_CheckClientAvailability (elrondClient d))"
  "services_ok d \<longrightarrow> panic_free (eth_GetBatch (ethereumClient d) x17)"
  "services_ok d \<longrightarrow> panic_free (eth_WasExecuted (ethereumClient d) x18)"
  "services_ok d \<longrightarrow> panic_free (eth_BroadcastSignatureForMessageHash (ethereumClient d) x20)"
  "services_ok d \<longrightarrow> panic_free (eth_GetTransactionsStatuses (ethereumClient d) x22)"
  "services_ok d \<longrightarrow> panic_free (eth_GetQuorumSize (ethereumClient d))"
  "services_ok d \<longrightarrow> panic_free (eth_IsQuorumReached (ethereumClient d) x24)"
  "services_ok d \<longrightarrow> panic_free (eth_CheckClientAvailability (ethereumClient d))"
  "services_ok d \<longrightarrow> panic_free (topologyProvider d)"
  "services_ok d \<longrightarrow> panic_free (SetIntMetric (statusHandler d) x27 y27)"
  "services_ok d \<longrightarrow> panic_free (SetStringMetric (statusHandler d) x28 y28)"
  "services_ok d \<longrightarrow> panic_free (sigsHolder_ClearStoredSignatures d)"
  "services_ok d \<longrightarrow> panic_free (batchValidator d x30)"
  "services_ok d \<longrightarrow> panic_free (select_ctx_or_timer d x31)"
  by (simp_all add: services_ok_defs)

lemma service_run:
  "ok \<longrightarrow> panic_free m \<Longrightarrow> (\<And>r s'. m s = Some (r, s') \<Longrightarrow> Q r s') \<Longrightarrow> runs ok (m s) Q"
  by (rule runs_total) (auto simp: panic_free_def)

text \<open>A call of a service may return anything the service can answer.\<close>

lemmas services_run [go_rules] = services_total [THEN service_run]

text \<open>Calls that panic when they are asked for too much.\<close>

lemma GenerateMessageHash_run [go_rules]:
  assumes "services_ok d \<Longrightarrow> amounts_set b"
    and "\<And>r s'. eth_GenerateMessageHash (ethereumClient d) b s = Some (r, s') \<Longrightarrow> Q r s'"
  shows "runs (services_ok d) (eth_GenerateMessageHash (ethereumClient d) b s) Q"
  by (rule service_run) (use assms in \<open>auto simp: services_ok_defs\<close>)

lemma ExecuteTransfer_run [go_rules]:
  assumes "services_ok d \<Longrightarrow> amounts_set b \<and> 0 \<le> q"
    and "\<And>r s'. eth_ExecuteTransfer (ethereumClient d) h b q s = Some (r, s') \<Longrightarrow> Q r s'"
  shows "runs (services_ok d) (eth_ExecuteTransfer (ethereumClient d) h b q s) Q"
  by (rule service_run) (use assms in \<open>auto simp: services_ok_defs\<close>)

lemma GetQuorumSize_answer:
  "services_ok d \<Longrightarrow> eth_GetQuorumSize (ethereumClient d) s = Some (Inr q, s') \<Longrightarrow> 0 \<le> big_Int64 q"
  unfolding services_ok_defs by blast

lemma GetPending_answer:
  assumes "services_ok d" and "ec_GetPending (elrondClient d) s = Some (Inr b, s')"
  shows "amounts_set b \<and> (\<exists>pb. b = Some pb \<and> length (Statuses pb) < 2 ^ 63)"
proof -
  from assms(1) have "elrond_client_ok (elrondClient d)" by (simp add: services_ok_def)
  with assms(2) show ?thesis unfolding elrond_client_ok_def by (elim conjE) (drule spec, drule spec, drule spec, erule (1) mp)
qed

subsection \<open>Rules for the methods\<close>

text \<open>
  A method that only asks a service is the call of that service; the others change one field of the
  executor. The loops of \<^verbatim>\<open>WaitForTransferConfirmation\<close> and \<^verbatim>\<open>WaitAndReturnFinalBatchStatuses\<close> leave
  the executor as it is.
\<close>

lemma PrintInfo_runs [go_rules]:
  assumes "\<And>s'. Q () (ex, s')"
  shows "runs (services_ok d) (bridgeExecutor_PrintInfo d l m xs (ex, s)) Q"
  unfolding bridgeExecutor_PrintInfo_def setExecutionMessageInStatusHandler_def Let_def
  by (cases l) (auto intro!: go_rules assms)

lemma waitForTransferConfirmation_loop_runs:
  assumes "\<And>s'. Q () (ex, s')"
  shows "runs (services_ok d) (waitForTransferConfirmation_loop d n p (ex, s)) Q"
proof (induction n arbitrary: p s)
  case 0
  then show ?case by (simp add: runs_Some assms)
next
  case (Suc n)
  then show ?case
    unfolding waitForTransferConfirmation_loop.simps waitWithContextSucceeded_def
      bridgeExecutor_WasTransferPerformedOnEthereum_def
    by (intro go_rules assms Suc)
qed

lemma WaitForTransferConfirmation_runs [go_rules]:
  assumes "\<And>s'. Q () (ex, s')"
  shows "runs (services_ok d) (bridgeExecutor_WaitForTransferConfirmation d (ex, s)) Q"
  unfolding bridgeExecutor_WaitForTransferConfirmation_def
  by (intro waitForTransferConfirmation_loop_runs assms)

lemma waitAndReturnFinalBatchStatuses_loop_runs:
  assumes "\<And>st s'. st = [] \<or> (\<exists>b s s''. batch ex = Some b
      \<and> eth_GetTransactionsStatuses (ethereumClient d) (ID b) s = Some (Inr st, s'')) \<Longrightarrow> Q st (ex, s')"
  shows "runs (services_ok d) (waitAndReturnFinalBatchStatuses_loop d n (ex, s)) Q"
proof (induction n arbitrary: s)
  case 0
  then show ?case by (simp add: runs_Some assms)
next
  case (Suc n)
  show ?case
    unfolding waitAndReturnFinalBatchStatuses_loop.simps waitWithContextSucceeded_def
      bridgeExecutor_GetBatchStatusesFromEthereum_def
    by (intro go_rules Suc assms) auto
qed

lemma WaitAndReturnFinalBatchStatuses_runs [go_rules]:
  assumes "\<And>st s'. st = [] \<or> (\<exists>b s s''. batch ex = Some b
      \<and> eth_GetTransactionsStatuses (ethereumClient d) (ID b) s = Some (Inr st, s'')) \<Longrightarrow> Q st (ex, s')"
  shows "runs (services_ok d) (bridgeExecutor_WaitAndReturnFinalBatchStatuses d (ex, s)) Q"
  unfolding bridgeExecutor_WaitAndReturnFinalBatchStatuses_def
  by (rule waitAndReturnFinalBatchStatuses_loop_runs) (rule assms)

lemma ResolveNewDepositsStatuses_runs [go_rules]:
  assumes "\<And>b'. ResolveNewDeposits (the (batch ex)) (sint n) = Some b' \<Longrightarrow> Q () (ex\<lparr>batch := Some b'\<rparr>, s)"
    and "batch ex \<noteq> None" and "ok \<Longrightarrow> 0 \<le> sint n"
  shows "runs ok (bridgeExecutor_ResolveNewDepositsStatuses d n (ex, s)) Q"
  using assms ResolveNewDeposits_panics_iff [of "the (batch ex)" "sint n"]
  by (cases "ResolveNewDeposits (the (batch ex)) (sint n)")
    (auto simp: bridgeExecutor_ResolveNewDepositsStatuses_def runs_def)

subsection \<open>Properties\<close>

text \<open>
  \<^verbatim>\<open>NewBridgeExecutor\<close> accepts exactly the arguments with no nil component, a waiting time of at
  least one second and all three (unsigned) retry limits not zero; what it returns starts with no batch,
  no action and all counters at zero.
\<close>

theorem NewBridgeExecutor_accepts_iff:
  "(\<exists>d. NewBridgeExecutor sel lvl json args = Inr (d, initial_bridgeExecutor)) \<longleftrightarrow>
     arg_Log args \<noteq> None \<and> arg_ElrondClient args \<noteq> None \<and> arg_EthereumClient args \<noteq> None
     \<and> arg_TopologyProvider args \<noteq> None \<and> arg_StatusHandler args \<noteq> None
     \<and> 1000000000 \<le> arg_TimeForWaitOnEthereum args
     \<and> arg_SignaturesHolder args \<noteq> None \<and> arg_BatchValidator args \<noteq> None
     \<and> arg_MaxQuorumRetriesOnEthereum args \<noteq> 0 \<and> arg_MaxQuorumRetriesOnElrond args \<noteq> 0
     \<and> arg_MaxRestriesOnWasProposed args \<noteq> 0"
  by (auto simp: NewBridgeExecutor_def bridgeExecutor_checkArgs_def createBridgeExecutor_def
      durationLimit_def minRetries_def not_less)

lemma verifyDepositNonces_iff:
  "verifyDepositNonces dts n = None \<longleftrightarrow> map Nonce dts = map (\<lambda>i. n + of_nat i) [0..<length dts]"
proof (induction dts arbitrary: n)
  case Nil
  then show ?case by simp
next
  case (Cons dt dts)
  have "map (\<lambda>i. n + of_nat i) [0..<length (dt # dts)] = n # map (\<lambda>i. (n + 1) + of_nat i) [0..<length dts]"
    by (simp add: upt_conv_Cons map_Suc_upt [symmetric] comp_def add.assoc del: upt_Suc)
  with Cons [of "n + 1"] show ?case by auto
qed

text \<open>
  The verification of the deposit nonces succeeds exactly when the nonces of the stored batch
  are consecutive, from the one after the last executed on (as 64-bit numbers), and otherwise
  reports \<^verbatim>\<open>ErrInvalidDepositNonce\<close>; it changes nothing.
\<close>

theorem VerifyLastDepositNonce_outcome:
  assumes "batch ex = Some b" and "ec_GetLastExecutedEthTxID (elrondClient d) s = Some (Inr lastNonce, s')"
  shows "\<exists>err. bridgeExecutor_VerifyLastDepositNonceExecutedOnEthereumBatch d (ex, s) = Some (err, (ex, s'))
       \<and> (err = None \<longleftrightarrow> map Nonce (Deposits b) = map (\<lambda>i. lastNonce + 1 + of_nat i) [0..<length (Deposits b)])
       \<and> (\<forall>er. err = Some er \<longrightarrow> errors_Is er ErrInvalidDepositNonce)"
proof -
  have err: "errors_Is er ErrInvalidDepositNonce" if "verifyDepositNonces dts n = Some er" for dts n er
    using that by (induction dts arbitrary: n) (auto split: if_splits)
  show ?thesis using assms
    by (auto simp: bridgeExecutor_VerifyLastDepositNonceExecutedOnEthereumBatch_def verifyDepositNonces_iff err)
qed

text \<open>
  Fetching a batch from Ethereum stores it exactly when the client returned a batch with the
  requested ID and at least one deposit; a batch with another ID or with no deposits gives
  \<^verbatim>\<open>ErrBatchNotFound\<close> and leaves the stored batch alone.
\<close>

theorem GetAndStoreBatchFromEthereum_outcome:
  assumes "eth_GetBatch (ethereumClient d) nonce s = Some (Inr b, s')"
  shows "\<exists>err ex'. bridgeExecutor_GetAndStoreBatchFromEthereum d nonce (ex, s) = Some (err, (ex', s'))
       \<and> (if ID b = nonce \<and> Deposits b \<noteq> [] then err = None \<and> ex' = ex\<lparr>batch := Some b\<rparr>
          else ex' = ex \<and> (\<exists>er. err = Some er \<and> errors_Is er ErrBatchNotFound))"
  using assms by (auto simp: bridgeExecutor_GetAndStoreBatchFromEthereum_def)

end
