(* ===== verification/Steps_Common.thy ===== *)
theory Steps_Common
  imports Bridge_Executor
begin

section \<open>What the steps of both half-bridges share (bridges/ethElrond/steps)\<close>

text \<open>
  The debug print after a failed availability check, which both first steps make twice, and the
  loop of both \<^verbatim>\<open>stepsFactory.go\<close> files that fills the map of steps and refuses a duplicated
  identifier.
\<close>

definition print_if_err ::
  "'e Executor \<Rightarrow> gerror option \<Rightarrow> string \<Rightarrow> ('e, unit) go" where
  \<comment> \<open>\<^verbatim>\<open>if err != nil { PrintInfo(LogDebug, text, "message", err) }\<close>\<close>
  "print_if_err x err text e =
     (case err of
        None \<Rightarrow> Some ((), e)
      | Some er \<Rightarrow> PrintInfo x LogDebug text [GoString ''message'', GoError er] e)"

fun insert_steps :: "'e Step list \<Rightarrow> 'e MachineStates \<Rightarrow> 'e MachineStates res" where
  "insert_steps [] machineStates = Inr machineStates"
| "insert_steps (st # sts) machineStates =
     (if map_of machineStates (step_Identifier st) \<noteq> None
      then Inl (Errorf '''' ErrDuplicatedStepIdentifier ('' for identifier '' @ [CHR 0x27] @ step_Identifier st @ [CHR 0x27]))
      else insert_steps sts (machineStates @ [(step_Identifier st, Some st)]))"

lemma print_if_err_runs [go_rules]:
  assumes "\<And>s'. Q () (ex, s')"
  shows "runs (services_ok d) (print_if_err (bridge d) err m (ex, s)) Q"
  unfolding print_if_err_def bridge_simps by (intro go_rules assms)

lemma insert_steps_distinct:
  assumes "distinct (map step_Identifier sts)"
    and "\<forall>st \<in> set sts. map_of ms (step_Identifier st) = None"
  shows "insert_steps sts ms = Inr (ms @ map (\<lambda>st. (step_Identifier st, Some st)) sts)"
  using assms
proof (induction sts arbitrary: ms)
  case Nil
  then show ?case by simp
next
  case (Cons st sts)
  have "map_of (ms @ [(step_Identifier st, Some st)]) (step_Identifier st') = None"
    if "st' \<in> set sts" for st'
    using that Cons.prems by (auto simp: map_of_eq_None_iff image_iff)
  with Cons show ?case by simp
qed

end
