(* ===== verification/ElrondToEth_Steps.thy ===== *)
theory ElrondToEth_Steps
  imports Steps_Common
begin

section \<open>The steps of the Elrond to Ethereum half-bridge (steps/elrondToEth)\<close>

text \<open>
  The ten steps, one definition per \<^verbatim>\<open>Execute\<close> method over the interface \<open>Executor\<close>, and the steps
  factory.
\<close>

definition GettingPendingBatchFromElrond :: StepIdentifier where
  "GettingPendingBatchFromElrond = ''get pending batch from Elrond''"
definition SigningProposedTransferOnEthereum :: StepIdentifier where
  "SigningProposedTransferOnEthereum = ''sign proposed transfer''"
definition WaitingForQuorumOnTransfer :: StepIdentifier where
  "WaitingForQuorumOnTransfer = ''wait for quorum on transfer''"
definition PerformingTransfer :: StepIdentifier where
  "PerformingTransfer = ''perform transfer''"
definition WaitingTransferConfirmation :: StepIdentifier where
  "WaitingTransferConfirmation = ''wait transfer confirmating''"
definition ResolvingSetStatusOnElrond :: StepIdentifier where
  "ResolvingSetStatusOnElrond = ''resolve set status''"
definition ProposingSetStatusOnElrond :: StepIdentifier where
  "ProposingSetStatusOnElrond = ''propose set status''"
definition SigningProposedSetStatusOnElrond :: StepIdentifier where
  "SigningProposedSetStatusOnElrond = ''sign proposed set status''"
definition WaitingForQuorumOnSetStatus :: StepIdentifier where
  "WaitingForQuorumOnSetStatus = ''wait for quorum on set status''"
definition PerformingSetStatus :: StepIdentifier where
  "PerformingSetStatus = ''perform set status''"
definition elrondToEth_NumSteps :: nat where
  "elrondToEth_NumSteps = 10"

lemmas elrondToEth_ids =
  GettingPendingBatchFromElrond_def SigningProposedTransferOnEthereum_def WaitingForQuorumOnTransfer_def
  PerformingTransfer_def WaitingTransferConfirmation_def ResolvingSetStatusOnElrond_def
  ProposingSetStatusOnElrond_def SigningProposedSetStatusOnElrond_def WaitingForQuorumOnSetStatus_def
  PerformingSetStatus_def

definition resetCountersOnElrond :: "'e Executor \<Rightarrow> ('e, unit) go" where
  "resetCountersOnElrond x = (\<lambda>e. do {
     (_, e) \<leftarrow> ResetRetriesCountOnElrond x e;
     ResetRetriesOnWasTransferProposedOnElrond x e })"

definition elrondToEth_getPendingStep_Execute :: "'e Executor \<Rightarrow> ('e, StepIdentifier) go" where
  "elrondToEth_getPendingStep_Execute x = (\<lambda>e. do {
     (err, e) \<leftarrow> CheckElrondClientAvailability x e;
     (_, e) \<leftarrow> print_if_err x err ''elrond client unavailable'' e;
     (err, e) \<leftarrow> CheckEthereumClientAvailability x e;
     (_, e) \<leftarrow> print_if_err x err ''ethereum client unavailable'' e;
     (_, e) \<leftarrow> ResetRetriesCountOnEthereum x e;
     (_, e) \<leftarrow> resetCountersOnElrond x e;
     (r, e) \<leftarrow> GetBatchFromElrond x e;
     case r of
       Inl err \<Rightarrow> do {
         (_, e) \<leftarrow> PrintInfo x LogDebug ''cannot fetch Elrond batch'' [GoString ''message'', GoError err] e;
         Some (GettingPendingBatchFromElrond, e) }
     | Inr None \<Rightarrow> do {
         (_, e) \<leftarrow> PrintInfo x LogDebug ''no new batch found on Elrond'' [] e;
         Some (GettingPendingBatchFromElrond, e) }
     | Inr (Some b) \<Rightarrow> do {
         (err, e) \<leftarrow> StoreBatchFromElrond x (Some b) e;
         case err of
           Some err \<Rightarrow> do {
             (_, e) \<leftarrow> PrintInfo x LogError ''error storing Elrond batch'' [GoString ''error'', GoError err] e;
             Some (GettingPendingBatchFromElrond, e) }
         | None \<Rightarrow> do {
             (r, e) \<leftarrow> ValidateBatch x b e;
             case r of
               Inl err \<Rightarrow> do {
                 (_, e) \<leftarrow> PrintInfo x LogError ''error validating Elrond batch''
                   [GoString ''error'', GoError err, GoString ''batch'', GoString (json_Marshal_batch x b)] e;
                 Some (GettingPendingBatchFromElrond, e) }
             | Inr isValid \<Rightarrow>
                 if \<not> isValid then do {
                   (_, e) \<leftarrow> PrintInfo x LogError (''batch not valid '' @ TransferBatch_String b) [] e;
                   Some (GettingPendingBatchFromElrond, e) }
                 else do {
                   (_, e) \<leftarrow> PrintInfo x LogInfo (''fetched new batch from Elrond '' @ TransferBatch_String b) [] e;
                   (r, e) \<leftarrow> WasTransferPerformedOnEthereum x e;
                   case r of
                     Inl err \<Rightarrow> do {
                       (_, e) \<leftarrow> PrintInfo x LogError ''error determining if transfer was performed or not''
                         [GoString ''error'', GoError err] e;
                       Some (GettingPendingBatchFromElrond, e) }
                   | Inr wasPerformed \<Rightarrow>
                       if wasPerformed then do {
                         (_, e) \<leftarrow> PrintInfo x LogInfo ''transfer performed'' [] e;
                         Some (ResolvingSetStatusOnElrond, e) }
                       else Some (SigningProposedTransferOnEthereum, e) } } } })"

definition elrondToEth_signProposedTransferStep_Execute :: "'e Executor \<Rightarrow> ('e, StepIdentifier) go" where
  "elrondToEth_signProposedTransferStep_Execute x = (\<lambda>e. do {
     (b, e) \<leftarrow> GetStoredBatch x e;
     case b of
       None \<Rightarrow> do {
         (_, e) \<leftarrow> PrintInfo x LogDebug ''nil batch stored'' [] e;
         Some (GettingPendingBatchFromElrond, e) }
     | Some b \<Rightarrow> do {
         (err, e) \<leftarrow> SignTransferOnEthereum x e;
         case err of
           Some err \<Rightarrow> do {
             (_, e) \<leftarrow> PrintInfo x LogError ''error signing''
               [GoString ''batch ID'', GoUint64 (ID b), GoString ''error'', GoError err] e;
             Some (GettingPendingBatchFromElrond, e) }
         | None \<Rightarrow> Some (WaitingForQuorumOnTransfer, e) } })"

definition elrondToEth_waitForQuorumOnTransferStep_Execute :: "'e Executor \<Rightarrow> ('e, StepIdentifier) go" where
  "elrondToEth_waitForQuorumOnTransferStep_Execute x = (\<lambda>e. do {
     (maxReached, e) \<leftarrow> ProcessMaxQuorumRetriesOnEthereum x e;
     if maxReached then do {
       (_, e) \<leftarrow> PrintInfo x LogDebug ''max number of retries reached, resetting counter'' [] e;
       Some (GettingPendingBatchFromElrond, e) }
     else do {
       (r, e) \<leftarrow> ProcessQuorumReachedOnEthereum x e;
       case r of
         Inl err \<Rightarrow> do {
           (_, e) \<leftarrow> PrintInfo x LogError ''error while checking the quorum on Ethereum'' [GoString ''error'', GoError err] e;
           Some (GettingPendingBatchFromElrond, e) }
       | Inr isQuorumReached \<Rightarrow> do {
           (_, e) \<leftarrow> PrintInfo x LogDebug ''quorum reached check'' [GoString ''is reached'', GoBool isQuorumReached] e;
           if \<not> isQuorumReached then Some (WaitingForQuorumOnTransfer, e)
           else Some (PerformingTransfer, e) } } })"

definition elrondToEth_performTransferStep_Execute :: "'e Executor \<Rightarrow> ('e, StepIdentifier) go" where
  "elrondToEth_performTransferStep_Execute x = (\<lambda>e. do {
     (r, e) \<leftarrow> WasTransferPerformedOnEthereum x e;
     case r of
       Inl err \<Rightarrow> do {
         (_, e) \<leftarrow> PrintInfo x LogError ''error determining if transfer was performed or not'' [GoString ''error'', GoError err] e;
         Some (GettingPendingBatchFromElrond, e) }
     | Inr wasPerformed \<Rightarrow>
         if wasPerformed then do {
           (_, e) \<leftarrow> PrintInfo x LogInfo ''transfer performed'' [] e;
           Some (ResolvingSetStatusOnElrond, e) }
         else do {
           (leader, e) \<leftarrow> MyTurnAsLeader x e;
           if leader then do {
             (err, e) \<leftarrow> PerformTransferOnEthereum x e;
             case err of
               Some err \<Rightarrow> do {
                 (_, e) \<leftarrow> PrintInfo x LogError ''error performing transfer on Ethereum'' [GoString ''error'', GoError err] e;
                 Some (GettingPendingBatchFromElrond, e) }
             | None \<Rightarrow> Some (WaitingTransferConfirmation, e) }
           else do {
             (_, e) \<leftarrow> PrintInfo x LogDebug ''not my turn as leader in this round'' [] e;
             Some (WaitingTransferConfirmation, e) } } })"

definition elrondToEth_waitTransferConfirmationStep_Execute :: "'e Executor \<Rightarrow> ('e, StepIdentifier) go" where
  "elrondToEth_waitTransferConfirmationStep_Execute x = (\<lambda>e. do {
     (_, e) \<leftarrow> WaitForTransferConfirmation x e;
     Some (PerformingTransfer, e) })"

definition elrondToEth_resolveSetStatusStep_Execute :: "'e Executor \<Rightarrow> ('e, StepIdentifier) go" where
  "elrondToEth_resolveSetStatusStep_Execute x = (\<lambda>e. do {
     (_, e) \<leftarrow> ClearStoredP2PSignaturesForEthereum x e;
     (storedBatch, e) \<leftarrow> GetStoredBatch x e;
     case storedBatch of
       None \<Rightarrow> do {
         (_, e) \<leftarrow> PrintInfo x LogDebug ''nil batch stored'' [] e;
         Some (GettingPendingBatchFromElrond, e) }
     | Some storedBatch \<Rightarrow> do {
         (r, e) \<leftarrow> GetBatchFromElrond x e;
         case r of
           Inl err \<Rightarrow> do {
             (_, e) \<leftarrow> PrintInfo x LogError ''error while fetching batch'' [GoString ''error'', GoError err] e;
             Some (GettingPendingBatchFromElrond, e) }
         | Inr None \<Rightarrow> do {
             (_, e) \<leftarrow> PrintInfo x LogDebug ''nil batch fetched'' [] e;
             Some (GettingPendingBatchFromElrond, e) }
         | Inr (Some b) \<Rightarrow> do {
             (statuses, e) \<leftarrow> WaitAndReturnFinalBatchStatuses x e;
             if length statuses = 0 then Some (GettingPendingBatchFromElrond, e)
             else do {
               (_, e) \<leftarrow> SetStoredStatuses x statuses e;
               (_, e) \<leftarrow> ResolveNewDepositsStatuses x (of_nat (length (Statuses b))) e;
               Some (ProposingSetStatusOnElrond, e) } } } })"

definition elrondToEth_proposeSetStatusStep_Execute :: "'e Executor \<Rightarrow> ('e, StepIdentifier) go" where
  "elrondToEth_proposeSetStatusStep_Execute x = (\<lambda>e. do {
     (b, e) \<leftarrow> GetStoredBatch x e;
     case b of
       None \<Rightarrow> do {
         (_, e) \<leftarrow> PrintInfo x LogDebug ''nil batch stored'' [] e;
         Some (GettingPendingBatchFromElrond, e) }
     | Some b \<Rightarrow> do {
         (maxReached, e) \<leftarrow> ProcessMaxRetriesOnWasTransferProposedOnElrond x e;
         if maxReached then do {
           (_, e) \<leftarrow> PrintInfo x LogDebug ''max number of retries reached, resetting counter'' [] e;
           Some (GettingPendingBatchFromElrond, e) }
         else do {
           (r, e) \<leftarrow> WasSetStatusProposedOnElrond x e;
           case r of
             Inl err \<Rightarrow> do {
               (_, e) \<leftarrow> PrintInfo x LogError ''error determining if the set status action was proposed or not on Elrond''
                 [GoString ''batch ID'', GoUint64 (ID b), GoString ''error'', GoError err] e;
               Some (GettingPendingBatchFromElrond, e) }
           | Inr wasSetStatusProposed \<Rightarrow>
               if wasSetStatusProposed then Some (SigningProposedSetStatusOnElrond, e)
               else do {
                 (leader, e) \<leftarrow> MyTurnAsLeader x e;
                 if \<not> leader then do {
                   (_, e) \<leftarrow> PrintInfo x LogDebug ''not my turn as leader in this round'' [] e;
                   Some (ProposingSetStatusOnElrond, e) }
                 else do {
                   (err, e) \<leftarrow> ProposeSetStatusOnElrond x e;
                   case err of
                     Some err \<Rightarrow> do {
                       (_, e) \<leftarrow> PrintInfo x LogError ''error proposing transfer on Elrond''
                         [GoString ''batch ID'', GoUint64 (ID b), GoString ''error'', GoError err] e;
                       Some (GettingPendingBatchFromElrond, e) }
                   | None \<Rightarrow> Some (SigningProposedSetStatusOnElrond, e) } } } } })"

definition elrondToEth_signProposedSetStatusStep_Execute :: "'e Executor \<Rightarrow> ('e, StepIdentifier) go" where
  "elrondToEth_signProposedSetStatusStep_Execute x = (\<lambda>e. do {
     (b, e) \<leftarrow> GetStoredBatch x e;
     case b of
       None \<Rightarrow> do {
         (_, e) \<leftarrow> PrintInfo x LogDebug ''nil stored batch'' [] e;
         Some (GettingPendingBatchFromElrond, e) }
     | Some b \<Rightarrow> do {
         (r, e) \<leftarrow> GetAndStoreActionIDForProposeSetStatusFromElrond x e;
         case r of
           Inl err \<Rightarrow> do {
             (_, e) \<leftarrow> PrintInfo x LogError ''error fetching action ID''
               [GoString ''batch ID'', GoUint64 (ID b), GoString ''error'', GoError err] e;
             Some (GettingPendingBatchFromElrond, e) }
         | Inr aid \<Rightarrow>
             if aid = InvalidActionID then do {
               (_, e) \<leftarrow> PrintInfo x LogError ''contract error, got invalid action ID''
                 [GoString ''batch ID'', GoUint64 (ID b), GoString ''error'', GoNil, GoString ''action ID'', GoUint64 aid] e;
               Some (GettingPendingBatchFromElrond, e) }
             else do {
               (_, e) \<leftarrow> PrintInfo x LogInfo ''fetched action ID''
                 [GoString ''action ID'', GoUint64 aid, GoString ''batch ID'', GoUint64 (ID b)] e;
               (r, e) \<leftarrow> WasActionSignedOnElrond x e;
               case r of
                 Inl err \<Rightarrow> do {
                   (_, e) \<leftarrow> PrintInfo x LogError ''error determining if the proposed transfer was signed or not''
                     [GoString ''batch ID'', GoUint64 (ID b), GoString ''error'', GoError err] e;
                   Some (GettingPendingBatchFromElrond, e) }
               | Inr wasSigned \<Rightarrow>
                   if wasSigned then Some (WaitingForQuorumOnSetStatus, e)
                   else do {
                     (err, e) \<leftarrow> SignActionOnElrond x e;
                     case err of
                       Some err \<Rightarrow> do {
                         (_, e) \<leftarrow> PrintInfo x LogError ''error signing the proposed transfer''
                           [GoString ''batch ID'', GoUint64 (ID b), GoString ''error'', GoError err] e;
                         Some (GettingPendingBatchFromElrond, e) }
                     | None \<Rightarrow> Some (WaitingForQuorumOnSetStatus, e) } } } })"

definition elrondToEth_waitForQuorumOnSetStatusStep_Execute :: "'e Executor \<Rightarrow> ('e, StepIdentifier) go" where
  "elrondToEth_waitForQuorumOnSetStatusStep_Execute x = (\<lambda>e. do {
     (maxReached, e) \<leftarrow> ProcessMaxQuorumRetriesOnElrond x e;
     if maxReached then do {
       (_, e) \<leftarrow> PrintInfo x LogDebug ''max number of retries reached, resetting counter'' [] e;
       Some (GettingPendingBatchFromElrond, e) }
     else do {
       (r, e) \<leftarrow> ProcessQuorumReachedOnElrond x e;
       case r of
         Inl err \<Rightarrow> do {
           (_, e) \<leftarrow> PrintInfo x LogError ''error while checking the quorum'' [GoString ''error'', GoError err] e;
           Some (GettingPendingBatchFromElrond, e) }
       | Inr isQuorumReached \<Rightarrow> do {
           (_, e) \<leftarrow> PrintInfo x LogDebug ''quorum reached check'' [GoString ''is reached'', GoBool isQuorumReached] e;
           if \<not> isQuorumReached then Some (WaitingForQuorumOnSetStatus, e)
           else Some (PerformingSetStatus, e) } } })"

definition elrondToEth_performSetStatusStep_Execute :: "'e Executor \<Rightarrow> ('e, StepIdentifier) go" where
  "elrondToEth_performSetStatusStep_Execute x = (\<lambda>e. do {
     (r, e) \<leftarrow> WasActionPerformedOnElrond x e;
     case r of
       Inl err \<Rightarrow> do {
         (aid, e) \<leftarrow> GetStoredActionID x e;
         (_, e) \<leftarrow> PrintInfo x LogError ''error determining if the set status was proposed or not''
           [GoString ''action ID'', GoUint64 aid, GoString ''error'', GoError err] e;
         Some (GettingPendingBatchFromElrond, e) }
     | Inr wasPerformed \<Rightarrow>
         if wasPerformed then do {
           (aid, e) \<leftarrow> GetStoredActionID x e;
           (_, e) \<leftarrow> PrintInfo x LogInfo ''action ID performed'' [GoString ''action ID'', GoUint64 aid] e;
           Some (GettingPendingBatchFromElrond, e) }
         else do {
           (leader, e) \<leftarrow> MyTurnAsLeader x e;
           if \<not> leader then do {
             (_, e) \<leftarrow> PrintInfo x LogDebug ''not my turn as leader in this round'' [] e;
             Some (PerformingSetStatus, e) }
           else do {
             (err, e) \<leftarrow> PerformActionOnElrond x e;
             case err of
               Some err \<Rightarrow> do {
                 (aid, e) \<leftarrow> GetStoredActionID x e;
                 (_, e) \<leftarrow> PrintInfo x LogError ''error performing action ID''
                   [GoString ''action ID'', GoUint64 aid, GoString ''error'', GoError err] e;
                 Some (GettingPendingBatchFromElrond, e) }
             | None \<Rightarrow> Some (PerformingSetStatus, e) } } })"

subsection \<open>The steps factory\<close>

definition elrondToEth_stepsSlice :: "'e Executor \<Rightarrow> 'e Step list" where
  "elrondToEth_stepsSlice x =
     [\<lparr> step_Execute = elrondToEth_getPendingStep_Execute x, step_Identifier = GettingPendingBatchFromElrond \<rparr>,
      \<lparr> step_Execute = elrondToEth_signProposedTransferStep_Execute x, step_Identifier = SigningProposedTransferOnEthereum \<rparr>,
      \<lparr> step_Execute = elrondToEth_waitForQuorumOnTransferStep_Execute x, step_Identifier = WaitingForQuorumOnTransfer \<rparr>,
      \<lparr> step_Execute = elrondToEth_performTransferStep_Execute x, step_Identifier = PerformingTransfer \<rparr>,
      \<lparr> step_Execute = elrondToEth_waitTransferConfirmationStep_Execute x, step_Identifier = WaitingTransferConfirmation \<rparr>,
      \<lparr> step_Execute = elrondToEth_resolveSetStatusStep_Execute x, step_Identifier = ResolvingSetStatusOnElrond \<rparr>,
      \<lparr> step_Execute = elrondToEth_proposeSetStatusStep_Execute x, step_Identifier = ProposingSetStatusOnElrond \<rparr>,
      \<lparr> step_Execute = elrondToEth_signProposedSetStatusStep_Execute x, step_Identifier = SigningProposedSetStatusOnElrond \<rparr>,
      \<lparr> step_Execute = elrondToEth_waitForQuorumOnSetStatusStep_Execute x, step_Identifier = WaitingForQuorumOnSetStatus \<rparr>,
      \<lparr> step_Execute = elrondToEth_performSetStatusStep_Execute x, step_Identifier = PerformingSetStatus \<rparr>]"

definition elrondToEth_createMachineStates :: "'e Executor \<Rightarrow> 'e MachineStates res" where
  "elrondToEth_createMachineStates x = insert_steps (elrondToEth_stepsSlice x) []"

definition elrondToEth_CreateSteps :: "'e Executor option \<Rightarrow> 'e MachineStates res" where
  "elrondToEth_CreateSteps executor =
     (case executor of
        None \<Rightarrow> Inl ErrNilExecutor
      | Some x \<Rightarrow> elrondToEth_createMachineStates x)"

end
