(* ===== verification/EthToElrond_Steps.thy ===== *)
theory EthToElrond_Steps
  imports Steps_Common
begin

section \<open>The steps of the Ethereum to Elrond half-bridge (steps/ethToElrond)\<close>

text \<open>
  The five steps, each written over the interface \<open>Executor\<close> as in the source: one definition per
  \<^verbatim>\<open>Execute\<close> method, its early returns as branches, its \<^verbatim>\<open>PrintInfo\<close> calls kept (an error level
  writes the last-error metric). \<^verbatim>\<open>stepsFactory.go\<close> builds the map of steps.
\<close>

definition GettingPendingBatchFromEthereum :: StepIdentifier where
  "GettingPendingBatchFromEthereum = ''get pending batch from Ethereum''"
definition ProposingTransferOnElrond :: StepIdentifier where
  "ProposingTransferOnElrond = ''propose transfer''"
definition SigningProposedTransferOnElrond :: StepIdentifier where
  "SigningProposedTransferOnElrond = ''sign proposed transfer''"
definition WaitingForQuorum :: StepIdentifier where
  "WaitingForQuorum = ''wait for quorum''"
definition PerformingActionID :: StepIdentifier where
  "PerformingActionID = ''perform action''"
definition ethToElrond_NumSteps :: nat where
  "ethToElrond_NumSteps = 5"

lemmas ethToElrond_ids =
  GettingPendingBatchFromEthereum_def ProposingTransferOnElrond_def SigningProposedTransferOnElrond_def
  WaitingForQuorum_def PerformingActionID_def

definition ethToElrond_getPendingStep_Execute :: "'e Executor \<Rightarrow> ('e, StepIdentifier) go" where
  "ethToElrond_getPendingStep_Execute x = (\<lambda>e. do {
     (err, e) \<leftarrow> CheckElrondClientAvailability x e;
     (_, e) \<leftarrow> print_if_err x err ''elrond client unavailable'' e;
     (err, e) \<leftarrow> CheckEthereumClientAvailability x e;
     (_, e) \<leftarrow> print_if_err x err ''ethereum client unavailable'' e;
     (_, e) \<leftarrow> ResetRetriesCountOnElrond x e;
     (r, e) \<leftarrow> GetLastExecutedEthBatchIDFromElrond x e;
     case r of
       Inl err \<Rightarrow> do {
         (_, e) \<leftarrow> PrintInfo x LogError ''error fetching last executed eth batch ID'' [GoString ''error'', GoError err] e;
         Some (GettingPendingBatchFromEthereum, e) }
     | Inr lastEthBatchExecuted \<Rightarrow> do {
         (err, e) \<leftarrow> GetAndStoreBatchFromEthereum x (lastEthBatchExecuted + 1) e;
         case err of
           Some err \<Rightarrow> do {
             (_, e) \<leftarrow> PrintInfo x LogDebug ''cannot fetch eth batch''
               [GoString ''batch ID'', GoUint64 (lastEthBatchExecuted + 1), GoString ''message'', GoError err] e;
             Some (GettingPendingBatchFromEthereum, e) }
         | None \<Rightarrow> do {
             (b, e) \<leftarrow> GetStoredBatch x e;
             case b of
               None \<Rightarrow> do {
                 (_, e) \<leftarrow> PrintInfo x LogDebug ''no new batch found on eth''
                   [GoString ''last executed on Elrond'', GoUint64 lastEthBatchExecuted] e;
                 Some (GettingPendingBatchFromEthereum, e) }
             | Some b \<Rightarrow> do {
                 (r, e) \<leftarrow> ValidateBatch x b e;
                 case r of
                   Inl err \<Rightarrow> do {
                     (_, e) \<leftarrow> PrintInfo x LogError ''error validating Ethereum batch''
                       [GoString ''error'', GoError err, GoString ''batch'', GoString (json_Marshal_batch x b)] e;
                     Some (GettingPendingBatchFromEthereum, e) }
                 | Inr isValid \<Rightarrow>
                     if \<not> isValid then do {
                       (_, e) \<leftarrow> PrintInfo x LogError (''batch not valid '' @ TransferBatch_String b) [] e;
                       Some (GettingPendingBatchFromEthereum, e) }
                     else do {
                       (_, e) \<leftarrow> PrintInfo x LogInfo (''fetched new batch from Ethereum '' @ TransferBatch_String b) [] e;
                       (err, e) \<leftarrow> VerifyLastDepositNonceExecutedOnEthereumBatch x e;
                       case err of
                         Some err \<Rightarrow> do {
                           (_, e) \<leftarrow> PrintInfo x LogError ''verification failed on the new batch from Ethereum''
                             [GoString ''batch ID'', GoUint64 (lastEthBatchExecuted + 1), GoString ''error'', GoError err] e;
                           Some (GettingPendingBatchFromEthereum, e) }
                       | None \<Rightarrow> Some (ProposingTransferOnElrond, e) } } } } })"

definition ethToElrond_proposeTransferStep_Execute :: "'e Executor \<Rightarrow> ('e, StepIdentifier) go" where
  "ethToElrond_proposeTransferStep_Execute x = (\<lambda>e. do {
     (b, e) \<leftarrow> GetStoredBatch x e;
     case b of
       None \<Rightarrow> do {
         (_, e) \<leftarrow> PrintInfo x LogDebug ''no batch found'' [] e;
         Some (GettingPendingBatchFromEthereum, e) }
     | Some b \<Rightarrow> do {
         (r, e) \<leftarrow> WasTransferProposedOnElrond x e;
         case r of
           Inl err \<Rightarrow> do {
             (_, e) \<leftarrow> PrintInfo x LogError ''error determining if the batch was proposed or not on Elrond''
               [GoString ''batch ID'', GoUint64 (ID b), GoString ''error'', GoError err] e;
             Some (GettingPendingBatchFromEthereum, e) }
         | Inr wasTransferProposed \<Rightarrow>
             if wasTransferProposed then Some (SigningProposedTransferOnElrond, e)
             else do {
               (leader, e) \<leftarrow> MyTurnAsLeader x e;
               if \<not> leader then do {
                 (_, e) \<leftarrow> PrintInfo x LogDebug ''not my turn as leader in this round'' [] e;
                 Some (ProposingTransferOnElrond, e) }
               else do {
                 (err, e) \<leftarrow> ProposeTransferOnElrond x e;
                 case err of
                   Some err \<Rightarrow> do {
                     (_, e) \<leftarrow> PrintInfo x LogError ''error proposing transfer on Elrond''
                       [GoString ''batch ID'', GoUint64 (ID b), GoString ''error'', GoError err] e;
                     Some (GettingPendingBatchFromEthereum, e) }
                 | None \<Rightarrow> Some (SigningProposedTransferOnElrond, e) } } } })"

definition ethToElrond_signProposedTransferStep_Execute :: "'e Executor \<Rightarrow> ('e, StepIdentifier) go" where
  "ethToElrond_signProposedTransferStep_Execute x = (\<lambda>e. do {
     (b, e) \<leftarrow> GetStoredBatch x e;
     case b of
       None \<Rightarrow> do {
         (_, e) \<leftarrow> PrintInfo x LogDebug ''no batch found'' [] e;
         Some (GettingPendingBatchFromEthereum, e) }
     | Some b \<Rightarrow> do {
         (r, e) \<leftarrow> GetAndStoreActionIDForProposeTransferOnElrond x e;
         case r of
           Inl err \<Rightarrow> do {
             (_, e) \<leftarrow> PrintInfo x LogError ''error fetching action ID''
               [GoString ''batch ID'', GoUint64 (ID b), GoString ''error'', GoError err] e;
             Some (GettingPendingBatchFromEthereum, e) }
         | Inr aid \<Rightarrow>
             if aid = InvalidActionID then do {
               (_, e) \<leftarrow> PrintInfo x LogError ''contract error, got invalid action ID''
                 [GoString ''batch ID'', GoUint64 (ID b), GoString ''error'', GoNil, GoString ''action ID'', GoUint64 aid] e;
               Some (GettingPendingBatchFromEthereum, e) }
             else do {
               (_, e) \<leftarrow> PrintInfo x LogInfo ''fetched action ID''
                 [GoString ''action ID'', GoUint64 aid, GoString ''batch ID'', GoUint64 (ID b)] e;
               (r, e) \<leftarrow> WasActionSignedOnElrond x e;
               case r of
                 Inl err \<Rightarrow> do {
                   (_, e) \<leftarrow> PrintInfo x LogError ''error determining if the proposed transfer was signed or not''
                     [GoString ''batch ID'', GoUint64 (ID b), GoString ''error'', GoError err] e;
                   Some (GettingPendingBatchFromEthereum, e) }
               | Inr wasSigned \<Rightarrow>
                   if wasSigned then Some (WaitingForQuorum, e)
                   else do {
                     (err, e) \<leftarrow> SignActionOnElrond x e;
                     case err of
                       Some err \<Rightarrow> do {
                         (_, e) \<leftarrow> PrintInfo x LogError ''error signing the proposed transfer''
                           [GoString ''batch ID'', GoUint64 (ID b), GoString ''error'', GoError err] e;
                         Some (GettingPendingBatchFromEthereum, e) }
                     | None \<Rightarrow> Some (WaitingForQuorum, e) } } } })"

definition ethToElrond_waitForQuorumStep_Execute :: "'e Executor \<Rightarrow> ('e, StepIdentifier) go" where
  "ethToElrond_waitForQuorumStep_Execute x = (\<lambda>e. do {
     (maxReached, e) \<leftarrow> ProcessMaxQuorumRetriesOnElrond x e;
     if maxReached then do {
       (_, e) \<leftarrow> PrintInfo x LogDebug ''max number of retries reached, resetting counter'' [] e;
       Some (GettingPendingBatchFromEthereum, e) }
     else do {
       (r, e) \<leftarrow> ProcessQuorumReachedOnElrond x e;
       case r of
         Inl err \<Rightarrow> do {
           (_, e) \<leftarrow> PrintInfo x LogError ''error while checking the quorum'' [GoString ''error'', GoError err] e;
           Some (GettingPendingBatchFromEthereum, e) }
       | Inr isQuorumReached \<Rightarrow> do {
           (_, e) \<leftarrow> PrintInfo x LogDebug ''quorum reached check'' [GoString ''is reached'', GoBool isQuorumReached] e;
           if \<not> isQuorumReached then Some (WaitingForQuorum, e)
           else Some (PerformingActionID, e) } } })"

definition ethToElrond_performActionIDStep_Execute :: "'e Executor \<Rightarrow> ('e, StepIdentifier) go" where
  "ethToElrond_performActionIDStep_Execute x = (\<lambda>e. do {
     (r, e) \<leftarrow> WasActionPerformedOnElrond x e;
     case r of
       Inl err \<Rightarrow> do {
         (aid, e) \<leftarrow> GetStoredActionID x e;
         (_, e) \<leftarrow> PrintInfo x LogError ''error determining if the action ID was proposed or not''
           [GoString ''action ID'', GoUint64 aid, GoString ''error'', GoError err] e;
         Some (GettingPendingBatchFromEthereum, e) }
     | Inr wasPerformed \<Rightarrow>
         if wasPerformed then do {
           (aid, e) \<leftarrow> GetStoredActionID x e;
           (_, e) \<leftarrow> PrintInfo x LogInfo ''action ID performed'' [GoString ''action ID'', GoUint64 aid] e;
           Some (GettingPendingBatchFromEthereum, e) }
         else do {
           (leader, e) \<leftarrow> MyTurnAsLeader x e;
           if \<not> leader then do {
             (_, e) \<leftarrow> PrintInfo x LogDebug ''not my turn as leader in this round'' [] e;
             Some (PerformingActionID, e) }
           else do {
             (err, e) \<leftarrow> PerformActionOnElrond x e;
             case err of
               Some err \<Rightarrow> do {
                 (aid, e) \<leftarrow> GetStoredActionID x e;
                 (_, e) \<leftarrow> PrintInfo x LogError ''error performing action ID''
                   [GoString ''action ID'', GoUint64 aid, GoString ''error'', GoError err] e;
                 Some (GettingPendingBatchFromEthereum, e) }
             | None \<Rightarrow> Some (PerformingActionID, e) } } })"

subsection \<open>The steps factory\<close>

definition ethToElrond_stepsSlice :: "'e Executor \<Rightarrow> 'e Step list" where
  "ethToElrond_stepsSlice x =
     [\<lparr> step_Execute = ethToElrond_getPendingStep_Execute x, step_Identifier = GettingPendingBatchFromEthereum \<rparr>,
      \<lparr> step_Execute = ethToElrond_proposeTransferStep_Execute x, step_Identifier = ProposingTransferOnElrond \<rparr>,
      \<lparr> step_Execute = ethToElrond_signProposedTransferStep_Execute x, step_Identifier = SigningProposedTransferOnElrond \<rparr>,
      \<lparr> step_Execute = ethToElrond_waitForQuorumStep_Execute x, step_Identifier = WaitingForQuorum \<rparr>,
      \<lparr> step_Execute = ethToElrond_performActionIDStep_Execute x, step_Identifier = PerformingActionID \<rparr>]"

definition ethToElrond_createMachineStates :: "'e Executor \<Rightarrow> 'e MachineStates res" where
  "ethToElrond_createMachineStates x = insert_steps (ethToElrond_stepsSlice x) []"

definition ethToElrond_CreateSteps :: "'e Executor option \<Rightarrow> 'e MachineStates res" where
  "ethToElrond_CreateSteps executor =
     (case executor of
        None \<Rightarrow> Inl ErrNilExecutor
      | Some x \<Rightarrow> ethToElrond_createMachineStates x)"

end
