(* ===== verification/State_Machine.thy ===== *)
theory State_Machine
  imports Steps_Common
begin

section \<open>The state machine (stateMachine/)\<close>

text \<open>
  The machine a polling handler drives: \<^verbatim>\<open>Execute\<close> runs the current step and looks its answer up in
  the map of steps. Looking up an unknown identifier leaves a nil current step behind, and executing
  a nil step panics. The constructor's arguments may hold a nil map and nil steps.

  The locale \<open>step_system\<close> is what the machine needs of the steps it is given: every identifier a
  step answers is registered, and a predicate over identifier and state is kept. The lemmas proved
  in it say that such a machine never fails a lookup; both half-bridges interpret it.
\<close>

definition ErrStepNotFound :: gerror where
  "ErrStepNotFound = ErrNew ''stateMachine.ErrStepNotFound'' ''step not found''"
definition ErrNilStepsMap :: gerror where
  "ErrNilStepsMap = ErrNew ''stateMachine.ErrNilStepsMap'' ''nil steps map''"
definition ErrNilStep :: gerror where
  "ErrNilStep = ErrNew ''stateMachine.ErrNilStep'' ''nil step''"
definition stateMachine_ErrNilLogger :: gerror where
  "stateMachine_ErrNilLogger = ErrNew ''stateMachine.ErrNilLogger'' ''nil logger''"
definition stateMachine_ErrNilStatusHandler :: gerror where
  "stateMachine_ErrNilStatusHandler = ErrNew ''stateMachine.ErrNilStatusHandler'' ''nil status handler''"

record 'e ArgsStateMachine =
  StateMachineName :: string
  Steps :: "'e MachineStates option"
  StartStateIdentifier :: StepIdentifier
  sm_Log :: "unit option"
  sm_StatusHandler :: "'e StatusHandler option"

record 'e stateMachine =
  stateMachineName :: string
  steps :: "'e MachineStates"
  currentStep :: "'e Step option"
  sm_statusHandler :: "'e StatusHandler"

fun first_nil_step :: "'e MachineStates \<Rightarrow> StepIdentifier option" where
  "first_nil_step [] = None"
| "first_nil_step ((identifier, None) # rest) = Some identifier"
| "first_nil_step ((identifier, Some st) # rest) = first_nil_step rest"

definition stateMachine_checkArgs :: "'e ArgsStateMachine \<Rightarrow> gerror option" where
  "stateMachine_checkArgs args =
     (case Steps args of
        None \<Rightarrow> Some ErrNilStepsMap
      | Some ms \<Rightarrow>
          (case first_nil_step ms of
             Some identifier \<Rightarrow> Some (Errorf '''' ErrNilStep ('' for identifier '' @ identifier))
           | None \<Rightarrow>
               if sm_Log args = None then Some stateMachine_ErrNilLogger
               else if sm_StatusHandler args = None then Some stateMachine_ErrNilStatusHandler
               else None))"

definition getNextStep :: "'e MachineStates \<Rightarrow> StepIdentifier \<Rightarrow> 'e Step option res" where
  "getNextStep ms identifier =
     (case map_of ms identifier of
        None \<Rightarrow> Inl (Errorf '''' ErrStepNotFound ('' for identifier '' @ [CHR 0x27] @ identifier @ [CHR 0x27]))
      | Some nextStep \<Rightarrow> Inr nextStep)"

definition NewStateMachine :: "'e ArgsStateMachine \<Rightarrow> 'e stateMachine res" where
  "NewStateMachine args =
     (case stateMachine_checkArgs args of
        Some err \<Rightarrow> Inl err
      | None \<Rightarrow>
          (case getNextStep (the (Steps args)) (StartStateIdentifier args) of
             Inl err \<Rightarrow> Inl err
           | Inr st \<Rightarrow> Inr \<lparr> stateMachineName = StateMachineName args, steps = the (Steps args),
                            currentStep = st, sm_statusHandler = the (sm_StatusHandler args) \<rparr>))"

definition executeStep :: "'e stateMachine \<Rightarrow> ('e, gerror option \<times> 'e stateMachine) go" where
  "executeStep sm = (\<lambda>e.
     case currentStep sm of
       None \<Rightarrow> None
     | Some st \<Rightarrow> do {
         (_, e) \<leftarrow> SetStringMetric (sm_statusHandler sm) MetricCurrentStateMachineStep (step_Identifier st) e;
         (nextStepIdentifier, e) \<leftarrow> step_Execute st e;
         case getNextStep (steps sm) nextStepIdentifier of
           Inl err \<Rightarrow> Some ((Some err, sm\<lparr>currentStep := None\<rparr>), e)
         | Inr cur \<Rightarrow> Some ((None, sm\<lparr>currentStep := cur\<rparr>), e) })"

definition stateMachine_Execute :: "'e stateMachine \<Rightarrow> ('e, gerror option \<times> 'e stateMachine) go" where
  "stateMachine_Execute sm = executeStep sm"

subsection \<open>Runs\<close>

text \<open>
  A run of the machine: the polling handler calls \<^verbatim>\<open>Execute\<close> again and again, and between two calls
  the rest of the process and the outside world move (\<open>env\<close>).
\<close>

inductive machine_reachable ::
  "('e \<Rightarrow> 'e \<Rightarrow> bool) \<Rightarrow> 'e stateMachine \<Rightarrow> 'e \<Rightarrow> 'e stateMachine \<Rightarrow> 'e \<Rightarrow> bool"
  for env :: "'e \<Rightarrow> 'e \<Rightarrow> bool" and sm0 :: "'e stateMachine" and e0 :: 'e where
  start: "machine_reachable env sm0 e0 sm0 e0"
| poll: "machine_reachable env sm0 e0 sm e \<Longrightarrow> stateMachine_Execute sm e = Some ((err, sm'), e')
    \<Longrightarrow> machine_reachable env sm0 e0 sm' e'"
| world: "machine_reachable env sm0 e0 sm e \<Longrightarrow> env e e' \<Longrightarrow> machine_reachable env sm0 e0 sm e'"

inductive_cases machine_reachable_pollE: "machine_reachable env sm0 e0 sm e"

lemma executeStep_frame:
  assumes "stateMachine_Execute sm e = Some ((err, sm'), e')"
  shows "steps sm' = steps sm" and "sm_statusHandler sm' = sm_statusHandler sm"
  using assms
  by (auto simp: stateMachine_Execute_def executeStep_def elim!: go_bindE split: go_split_asm)

text \<open>
  A half-bridge's machine runs over the executor and the world behind it; its status handler is the
  executor's, and between two polls only the world moves.
\<close>

definition lift_StatusHandler :: "'s StatusHandler \<Rightarrow> ('x \<times> 's) StatusHandler" where
  "lift_StatusHandler sh =
     \<lparr> SetIntMetric = (\<lambda>m v (x, s). do { (u, s) \<leftarrow> SetIntMetric sh m v s; Some (u, (x, s)) }),
       AddIntMetric = (\<lambda>m v (x, s). do { (u, s) \<leftarrow> AddIntMetric sh m v s; Some (u, (x, s)) }),
       SetStringMetric = (\<lambda>m v (x, s). do { (u, s) \<leftarrow> SetStringMetric sh m v s; Some (u, (x, s)) }) \<rparr>"

definition world_moves :: "'x \<times> 's \<Rightarrow> 'x \<times> 's \<Rightarrow> bool" where
  "world_moves e e' \<longleftrightarrow> fst e' = fst e"

lemma lift_SetStringMetric_runs [go_rules]:
  assumes "\<And>s'. Q () (ex, s')"
  shows "runs (services_ok d) (SetStringMetric (lift_StatusHandler (statusHandler d)) m v (ex, s)) Q"
  unfolding lift_StatusHandler_def StatusHandler.simps by (intro go_rules) (simp add: assms)

lemma first_nil_step_None: "first_nil_step ms = None \<longleftrightarrow> (\<forall>(id, st) \<in> set ms. st \<noteq> None)"
  by (induction ms rule: first_nil_step.induct) auto

subsection \<open>The contract between the machine and its steps\<close>

locale step_system =
  fixes ok :: bool
    and ms :: "'e MachineStates"
    and sh :: "'e StatusHandler"
    and env :: "'e \<Rightarrow> 'e \<Rightarrow> bool"
    and inv :: "StepIdentifier \<Rightarrow> 'e \<Rightarrow> bool"
  assumes registered: "map_of ms sid = Some v \<Longrightarrow> \<exists>st. v = Some st \<and> step_Identifier st = sid"
    and known: "inv sid e \<Longrightarrow> map_of ms sid \<noteq> None"
    and step_runs: "map_of ms sid = Some (Some st) \<Longrightarrow> inv sid e \<Longrightarrow> runs ok (step_Execute st e) inv"
    and metric_runs: "inv sid e \<Longrightarrow> runs ok (SetStringMetric sh m mv e) (\<lambda>_. inv sid)"
    and env_keeps: "inv sid e \<Longrightarrow> env e e' \<Longrightarrow> inv sid e'"
begin

definition well_placed :: "'e stateMachine \<Rightarrow> 'e \<Rightarrow> bool" where
  "well_placed sm e \<longleftrightarrow>
     steps sm = ms \<and> sm_statusHandler sm = sh
     \<and> (\<exists>st. currentStep sm = Some st \<and> map_of ms (step_Identifier st) = Some (Some st)
            \<and> inv (step_Identifier st) e)"

lemma lookup_known:
  assumes "inv sid e"
  obtains st where "map_of ms sid = Some (Some st)" and "step_Identifier st = sid"
  using known [OF assms] registered by blast

lemma execute_runs:
  assumes "well_placed sm e"
  shows "runs ok (stateMachine_Execute sm e) (\<lambda>(err, sm') e'. err = None \<and> well_placed sm' e')"
proof -
  from assms obtain st where st: "steps sm = ms" "sm_statusHandler sm = sh"
      "currentStep sm = Some st" "map_of ms (step_Identifier st) = Some (Some st)" "inv (step_Identifier st) e"
    by (auto simp: well_placed_def)
  have placed: "runs ok (case getNextStep ms nid of
             Inl err \<Rightarrow> Some ((Some err, sm\<lparr>currentStep := None\<rparr>), e')
           | Inr cur \<Rightarrow> Some ((None, sm\<lparr>currentStep := cur\<rparr>), e'))
           (\<lambda>(err, sm') e'. err = None \<and> well_placed sm' e')" if "inv nid e'" for nid e'
    by (rule lookup_known [OF that]) (use that st in \<open>auto simp: getNextStep_def well_placed_def runs_def\<close>)
  show ?thesis
    unfolding stateMachine_Execute_def executeStep_def st option.case
    by (intro go_rules runs_weaken [OF metric_runs [OF st(5)]] runs_weaken [OF step_runs [OF st(4)]] placed)
qed

lemma reachable_well_placed:
  assumes "machine_reachable env sm0 e0 sm e" and "well_placed sm0 e0"
  shows "well_placed sm e"
  using assms
proof (induction rule: machine_reachable.induct)
  case start
  then show ?case by simp
next
  case (poll sm e err sm' e')
  then show ?case using runsD [OF execute_runs [OF poll.IH [OF poll.prems]] poll.hyps(2)] by simp
next
  case (world sm e e')
  then show ?case using env_keeps by (auto simp: well_placed_def)
qed

lemma new_machine_well_placed:
  assumes "NewStateMachine args = Inr sm" and "Steps args = Some ms" and "sm_StatusHandler args = Some sh"
    and "inv (StartStateIdentifier args) e"
  shows "well_placed sm e"
proof (rule lookup_known [OF assms(4)])
  fix st assume st: "map_of ms (StartStateIdentifier args) = Some (Some st)" "step_Identifier st = StartStateIdentifier args"
  then have "sm = \<lparr> stateMachineName = StateMachineName args, steps = ms, currentStep = Some st, sm_statusHandler = sh \<rparr>"
    using assms(1-3) by (simp add: NewStateMachine_def getNextStep_def split: option.split_asm)
  with st assms(4) show ?thesis by (simp add: well_placed_def)
qed

text \<open>What a client of the locale uses: no lookup fails, nothing panics, and the invariant holds.\<close>

lemma machine_safe:
  assumes "NewStateMachine args = Inr sm0" and "Steps args = Some ms" and "sm_StatusHandler args = Some sh"
    and "inv (StartStateIdentifier args) e0" and "machine_reachable env sm0 e0 sm e"
  shows "\<exists>st. currentStep sm = Some st \<and> inv (step_Identifier st) e"
    and "stateMachine_Execute sm e = Some ((err, sm'), e') \<Longrightarrow> err = None"
    and "ok \<Longrightarrow> stateMachine_Execute sm e \<noteq> None"
proof -
  have placed: "well_placed sm e"
    using assms reachable_well_placed new_machine_well_placed by blast
  then show "\<exists>st. currentStep sm = Some st \<and> inv (step_Identifier st) e"
    by (auto simp: well_placed_def)
  show "stateMachine_Execute sm e = Some ((err, sm'), e') \<Longrightarrow> err = None"
    using runsD [OF execute_runs [OF placed]] by fastforce
  show "ok \<Longrightarrow> stateMachine_Execute sm e \<noteq> None"
    using runs_returns [OF execute_runs [OF placed]] by blast
qed

end

subsection \<open>Properties\<close>

text \<open>
  C40: a step that answers an identifier that is not registered makes \<^verbatim>\<open>Execute\<close> report
  \<^verbatim>\<open>ErrStepNotFound\<close> and leaves a nil current step, on which the next \<^verbatim>\<open>Execute\<close> panics.
\<close>

theorem unknown_step_is_fatal:
  assumes "currentStep sm = Some st" and "map_of (steps sm) nid = None"
    and "SetStringMetric (sm_statusHandler sm) MetricCurrentStateMachineStep (step_Identifier st) e = Some ((), e1)"
    and "step_Execute st e1 = Some (nid, e2)"
  shows "\<exists>er sm'. stateMachine_Execute sm e = Some ((Some er, sm'), e2) \<and> errors_Is er ErrStepNotFound
       \<and> stateMachine_Execute sm' e3 = None"
  using assms by (simp add: stateMachine_Execute_def executeStep_def getNextStep_def)

definition demo_stray_step :: "nat Step" where
  "demo_stray_step = \<lparr> step_Execute = (\<lambda>e. Some (''stray'', e)), step_Identifier = ''start'' \<rparr>"

definition demo_silent_handler :: "nat StatusHandler" where
  "demo_silent_handler =
     \<lparr> SetIntMetric = \<lambda>_ _ e. Some ((), e), AddIntMetric = \<lambda>_ _ e. Some ((), e),
       SetStringMetric = \<lambda>_ _ e. Some ((), e) \<rparr>"

definition demo_stray_machine :: "nat stateMachine" where
  "demo_stray_machine =
     \<lparr> stateMachineName = ''demo'', steps = [(''start'', Some demo_stray_step)],
       currentStep = Some demo_stray_step, sm_statusHandler = demo_silent_handler \<rparr>"

theorem unknown_step_is_fatal_witness:
  "\<exists>er sm'. stateMachine_Execute demo_stray_machine 0 = Some ((Some er, sm'), 0) \<and> errors_Is er ErrStepNotFound
     \<and> stateMachine_Execute sm' 0 = None"
  by (rule unknown_step_is_fatal [of _ demo_stray_step "''stray''" _ 0])
    (simp_all add: demo_stray_machine_def demo_stray_step_def demo_silent_handler_def)

text \<open>
  \<^verbatim>\<open>NewStateMachine\<close> on a map of non-nil steps with a logger and a status handler stands at the
  start step when it is registered and reports \<^verbatim>\<open>ErrStepNotFound\<close> when it is not.
\<close>

theorem NewStateMachine_outcome:
  assumes "Steps args = Some ms" and "\<And>sid v. (sid, v) \<in> set ms \<Longrightarrow> v \<noteq> None"
    and "sm_Log args = Some l" and "sm_StatusHandler args = Some sh"
  shows "case map_of ms (StartStateIdentifier args) of
       None \<Rightarrow> (\<exists>er. NewStateMachine args = Inl er \<and> errors_Is er ErrStepNotFound)
     | Some v \<Rightarrow> (\<exists>sm st. NewStateMachine args = Inr sm \<and> v = Some st \<and> currentStep sm = Some st \<and> steps sm = ms)"
proof -
  have "first_nil_step ms = None" using assms(2) by (auto simp: first_nil_step_None)
  then show ?thesis using assms
    by (auto simp: NewStateMachine_def stateMachine_checkArgs_def getNextStep_def split: option.split dest: map_of_SomeD)
qed

abbreviation demo_stray_args :: "nat ArgsStateMachine" where
  "demo_stray_args \<equiv> \<lparr> StateMachineName = ''demo'', Steps = Some [(''start'', Some demo_stray_step)],
     StartStateIdentifier = ''start'', sm_Log = Some (), sm_StatusHandler = Some demo_silent_handler \<rparr>"

theorem NewStateMachine_outcome_witness:
  "\<exists>sm. NewStateMachine demo_stray_args = Inr sm \<and> currentStep sm = Some demo_stray_step"
  using NewStateMachine_outcome [of demo_stray_args "[(''start'', Some demo_stray_step)]" "()" demo_silent_handler]
  by auto

end
