(* ===== verification/Bridge_Scenario.thy ===== *)
theory Bridge_Scenario
  imports State_Machine
begin

section \<open>A scenario: one deposit, a willing quorum\<close>

text \<open>
  A concrete world for the examples: every service answers at once, the relayer is always the
  leader, one batch with one deposit is pending on both sides. The state counts the transactions
  the relayer sent. \<open>run_polls\<close> polls a machine a number of times.
\<close>

definition demo_deposit :: DepositTransfer where
  "demo_deposit =
     \<lparr> Nonce = 1, ToBytes = [1], DisplayableTo = ''to'', FromBytes = [2], DisplayableFrom = ''from'',
       TokenBytes = [3], ConvertedTokenBytes = [4], DisplayableToken = ''token'', Amount = Some 20 \<rparr>"

definition demo_batch :: TransferBatch where
  "demo_batch = \<lparr> ID = 1, Deposits = [demo_deposit], Statuses = [0] \<rparr>"

definition demo_elrondClient :: "nat ElrondClient" where
  "demo_elrondClient =
     \<lparr> ec_GetPending = (\<lambda>s. Some (Inr (Some demo_batch), s)),
       ec_WasProposedTransfer = (\<lambda>_ s. Some (Inr False, s)),
       ec_QuorumReached = (\<lambda>_ s. Some (Inr True, s)),
       ec_WasExecuted = (\<lambda>_ s. Some (Inr False, s)),
       ec_GetActionIDForProposeTransfer = (\<lambda>_ s. Some (Inr 7, s)),
       ec_WasProposedSetStatus = (\<lambda>_ s. Some (Inr False, s)),
       ec_GetActionIDForSetStatusOnPendingTransfer = (\<lambda>_ s. Some (Inr 8, s)),
       ec_GetLastExecutedEthBatchID = (\<lambda>s. Some (Inr 0, s)),
       ec_GetLastExecutedEthTxID = (\<lambda>s. Some (Inr 0, s)),
       ec_ProposeSetStatus = (\<lambda>_ s. Some (Inr ''hash'', s + 1)),
       ec_ProposeTransfer = (\<lambda>_ s. Some (Inr ''hash'', s + 1)),
       ec_Sign = (\<lambda>_ s. Some (Inr ''hash'', s + 1)),
       ec_WasSigned = (\<lambda>_ s. Some (Inr False, s)),
       ec_PerformAction = (\<lambda>_ _ s. Some (Inr ''hash'', s + 1)),
       ec_CheckClientAvailability = (\<lambda>s. Some (None, s)) \<rparr>"

definition demo_ethereumClient :: "nat EthereumClient" where
  "demo_ethereumClient =
     \<lparr> eth_GetBatch = (\<lambda>n s. Some (Inr (demo_batch\<lparr>ID := n\<rparr>), s)),
       eth_WasExecuted = (\<lambda>_ s. Some (Inr (3 < s), s)),
       eth_GenerateMessageHash = (\<lambda>_ s. Some (Inr [9], s)),
       eth_BroadcastSignatureForMessageHash = (\<lambda>_ s. Some ((), s + 1)),
       eth_ExecuteTransfer = (\<lambda>_ _ _ s. Some (Inr ''hash'', s + 3)),
       eth_GetTransactionsStatuses = (\<lambda>_ s. Some (Inr [3], s)),
       eth_GetQuorumSize = (\<lambda>s. Some (Inr 1, s)),
       eth_IsQuorumReached = (\<lambda>_ s. Some (Inr True, s)),
       eth_CheckClientAvailability = (\<lambda>s. Some (None, s)) \<rparr>"

definition demo_statusHandler :: "nat StatusHandler" where
  "demo_statusHandler =
     \<lparr> SetIntMetric = (\<lambda>_ _ s. Some ((), s)), AddIntMetric = (\<lambda>_ _ s. Some ((), s)),
       SetStringMetric = (\<lambda>_ _ s. Some ((), s)) \<rparr>"

definition demo_args :: "nat ArgsBridgeExecutor" where
  "demo_args =
     \<lparr> arg_Log = Some (), arg_TopologyProvider = Some (\<lambda>s. Some (True, s)),
       arg_ElrondClient = Some demo_elrondClient, arg_EthereumClient = Some demo_ethereumClient,
       arg_TimeForWaitOnEthereum = 10 * durationLimit, arg_StatusHandler = Some demo_statusHandler,
       arg_SignaturesHolder = Some (\<lambda>s. Some ((), s)), arg_BatchValidator = Some (\<lambda>_ s. Some (Inr True, s)),
       arg_MaxQuorumRetriesOnEthereum = 3, arg_MaxQuorumRetriesOnElrond = 3, arg_MaxRestriesOnWasProposed = 3 \<rparr>"

definition demo_deps :: "nat bridgeDeps" where
  "demo_deps =
     fst (createBridgeExecutor (\<lambda>_ s. Some (True, s)) (\<lambda>_. ''LEVEL'') (\<lambda>_. ''batch'') demo_args)"

lemmas demo_defs =
  demo_deps_def demo_args_def demo_statusHandler_def demo_ethereumClient_def demo_elrondClient_def
  demo_batch_def demo_deposit_def createBridgeExecutor_def

lemma demo_NewBridgeExecutor:
  "NewBridgeExecutor (\<lambda>_ s. Some (True, s)) (\<lambda>_. ''LEVEL'') (\<lambda>_. ''batch'') demo_args
   = Inr (demo_deps, initial_bridgeExecutor)"
  by (simp add: NewBridgeExecutor_def bridgeExecutor_checkArgs_def demo_args_def demo_deps_def
      createBridgeExecutor_def durationLimit_def minRetries_def)

lemma demo_services_ok: "services_ok demo_deps"
  by (simp add: services_ok_defs panic_free_def demo_defs amounts_set_def big_Int64_def)

lemma demo_simps [simp]:
  "topologyProvider demo_deps s = Some (True, s)"
  "ec_GetPending (elrondClient demo_deps) s = Some (Inr (Some demo_batch), s)"
  "ec_WasProposedTransfer (elrondClient demo_deps) b s = Some (Inr False, s)"
  "ec_QuorumReached (elrondClient demo_deps) n s = Some (Inr True, s)"
  "ec_WasExecuted (elrondClient demo_deps) n s = Some (Inr False, s)"
  "ec_GetActionIDForProposeTransfer (elrondClient demo_deps) b s = Some (Inr 7, s)"
  "ec_WasProposedSetStatus (elrondClient demo_deps) b s = Some (Inr False, s)"
  "ec_GetActionIDForSetStatusOnPendingTransfer (elrondClient demo_deps) b s = Some (Inr 8, s)"
  "ec_GetLastExecutedEthBatchID (elrondClient demo_deps) s = Some (Inr 0, s)"
  "ec_GetLastExecutedEthTxID (elrondClient demo_deps) s = Some (Inr 0, s)"
  "ec_ProposeSetStatus (elrondClient demo_deps) b s = Some (Inr ''hash'', s + 1)"
  "ec_ProposeTransfer (elrondClient demo_deps) b s = Some (Inr ''hash'', s + 1)"
  "ec_Sign (elrondClient demo_deps) n s = Some (Inr ''hash'', s + 1)"
  "ec_WasSigned (elrondClient demo_deps) n s = Some (Inr False, s)"
  "ec_PerformAction (elrondClient demo_deps) n b s = Some (Inr ''hash'', s + 1)"
  "ec_CheckClientAvailability (elrondClient demo_deps) s = Some (None, s)"
  "eth_GetBatch (ethereumClient demo_deps) n s = Some (Inr (demo_batch\<lparr>ID := n\<rparr>), s)"
  "eth_WasExecuted (ethereumClient demo_deps) n s = Some (Inr (3 < s), s)"
  "eth_GenerateMessageHash (ethereumClient demo_deps) b s = Some (Inr [9], s)"
  "eth_BroadcastSignatureForMessageHash (ethereumClient demo_deps) h s = Some ((), s + 1)"
  "eth_ExecuteTransfer (ethereumClient demo_deps) h b q s = Some (Inr ''hash'', s + 3)"
  "eth_GetTransactionsStatuses (ethereumClient demo_deps) n s = Some (Inr [3], s)"
  "eth_GetQuorumSize (ethereumClient demo_deps) s = Some (Inr 1, s)"
  "eth_IsQuorumReached (ethereumClient demo_deps) h s = Some (Inr True, s)"
  "eth_CheckClientAvailability (ethereumClient demo_deps) s = Some (None, s)"
  "SetIntMetric (statusHandler demo_deps) m i s = Some ((), s)"
  "SetStringMetric (statusHandler demo_deps) m v s = Some ((), s)"
  "sigsHolder_ClearStoredSignatures demo_deps s = Some ((), s)"
  "batchValidator demo_deps tb s = Some (Inr True, s)"
  "select_ctx_or_timer demo_deps i s = Some (True, s)"
  "maxQuorumRetriesOnEthereum demo_deps = 3"
  "maxQuorumRetriesOnElrond demo_deps = 3"
  "maxRetriesOnWasProposed demo_deps = 3"
  by (simp_all add: demo_deps_def createBridgeExecutor_def demo_args_def demo_elrondClient_def
      demo_ethereumClient_def demo_statusHandler_def)

lemma demo_PrintInfo [simp]: "bridgeExecutor_PrintInfo demo_deps l m xs e = Some ((), e)"
  by (cases l; cases e) (simp_all add: bridgeExecutor_PrintInfo_def setExecutionMessageInStatusHandler_def Let_def)

text \<open>The machine of a list of steps, standing at the \<open>i\<close>-th one, and one poll of it.\<close>

definition demo_sm :: "string \<Rightarrow> ('x \<times> nat) Step list \<Rightarrow> nat \<Rightarrow> ('x \<times> nat) stateMachine" where
  "demo_sm name sl i =
     \<lparr> stateMachineName = name, steps = map (\<lambda>st. (step_Identifier st, Some st)) sl,
       currentStep = Some (sl ! i), sm_statusHandler = lift_StatusHandler (statusHandler demo_deps) \<rparr>"

lemma demo_poll:
  assumes "distinct (map step_Identifier sl)" and "k < length sl"
    and "step_Execute (sl ! i) (ex, s) = Some (step_Identifier (sl ! k), e')"
  shows "stateMachine_Execute (demo_sm name sl i) (ex, s) = Some ((None, demo_sm name sl k), e')"
proof -
  have "map_of (map (\<lambda>st. (step_Identifier st, Some st)) sl) (step_Identifier (sl ! k)) = Some (Some (sl ! k))"
    using assms(1,2) by (simp add: map_of_eq_Some_iff comp_def)
  then show ?thesis using assms(3)
    by (simp add: stateMachine_Execute_def executeStep_def lift_StatusHandler_def getNextStep_def demo_sm_def)
qed

fun run_polls :: "nat \<Rightarrow> 'e stateMachine \<Rightarrow> 'e \<Rightarrow> ('e stateMachine \<times> 'e) option" where
  "run_polls 0 sm e = Some (sm, e)"
| "run_polls (Suc n) sm e = (case stateMachine_Execute sm e of
     None \<Rightarrow> None | Some ((err, sm'), e') \<Rightarrow> run_polls n sm' e')"

lemma run_polls_reachable:
  "run_polls n sm e = Some (sm', e') \<Longrightarrow> machine_reachable env sm0 e0 sm e \<Longrightarrow> machine_reachable env sm0 e0 sm' e'"
  by (induction n arbitrary: sm e)
    (auto split: option.split_asm prod.split_asm intro: machine_reachable.intros)

subsection \<open>The executor's properties in the scenario\<close>

theorem VerifyLastDepositNonce_outcome_witness:
  "\<exists>err. bridgeExecutor_VerifyLastDepositNonceExecutedOnEthereumBatch demo_deps
           (initial_bridgeExecutor\<lparr>batch := Some demo_batch\<rparr>, 0)
         = Some (err, (initial_bridgeExecutor\<lparr>batch := Some demo_batch\<rparr>, 0)) \<and> err = None"
  using VerifyLastDepositNonce_outcome [of "initial_bridgeExecutor\<lparr>batch := Some demo_batch\<rparr>" demo_batch demo_deps 0 0 0]
  by (auto simp: demo_batch_def demo_deposit_def)

theorem GetAndStoreBatchFromEthereum_outcome_witness:
  "\<exists>err ex'. bridgeExecutor_GetAndStoreBatchFromEthereum demo_deps 5 (initial_bridgeExecutor, 0) = Some (err, (ex', 0))
     \<and> err = None \<and> batch ex' = Some (demo_batch\<lparr>ID := 5\<rparr>)"
  using GetAndStoreBatchFromEthereum_outcome [of demo_deps 5 0 "demo_batch\<lparr>ID := 5\<rparr>" 0 initial_bridgeExecutor]
  by (auto simp: demo_batch_def)

end
