(* ===== verification/EthToElrond_Bridge.thy ===== *)
theory EthToElrond_Bridge
  imports EthToElrond_Steps Bridge_Scenario
begin

section \<open>The Ethereum to Elrond half-bridge as a running machine\<close>

text \<open>
  The five steps over the bridge executor, run by the state machine. The invariant says what the
  relayer knows in each state; it is kept by every step and by every move of the outside world,
  which may change everything behind the interfaces but not the fields of the executor.
\<close>

subsection \<open>What the services have answered\<close>

definition eth_batch_accepted :: "'s bridgeDeps \<Rightarrow> TransferBatch \<Rightarrow> bool" where
  "eth_batch_accepted d b \<longleftrightarrow>
     Deposits b \<noteq> []
     \<and> (\<exists>s s'. eth_GetBatch (ethereumClient d) (ID b) s = Some (Inr b, s'))
     \<and> (\<exists>s s' last. ec_GetLastExecutedEthBatchID (elrondClient d) s = Some (Inr last, s') \<and> ID b = last + 1)
     \<and> (\<exists>s s'. batchValidator d b s = Some (Inr True, s'))
     \<and> (\<exists>s s' last. ec_GetLastExecutedEthTxID (elrondClient d) s = Some (Inr last, s')
          \<and> map Nonce (Deposits b) = map (\<lambda>i. last + 1 + of_nat i) [0..<length (Deposits b)])"

definition action_proposed_for :: "'s bridgeDeps \<Rightarrow> uint64 \<Rightarrow> TransferBatch \<Rightarrow> bool" where
  "action_proposed_for d aid b \<longleftrightarrow>
     aid \<noteq> InvalidActionID
     \<and> (\<exists>s s'. ec_GetActionIDForProposeTransfer (elrondClient d) (Some b) s = Some (Inr aid, s'))"

definition action_signed :: "'s bridgeDeps \<Rightarrow> uint64 \<Rightarrow> bool" where
  "action_signed d aid \<longleftrightarrow>
     (\<exists>s s'. ec_WasSigned (elrondClient d) aid s = Some (Inr True, s'))
     \<or> (\<exists>s s' h. ec_Sign (elrondClient d) aid s = Some (Inr h, s'))"

definition action_has_quorum :: "'s bridgeDeps \<Rightarrow> uint64 \<Rightarrow> bool" where
  "action_has_quorum d aid \<longleftrightarrow> (\<exists>s s'. ec_QuorumReached (elrondClient d) aid s = Some (Inr True, s'))"

definition ethToElrond_states :: "StepIdentifier list" where
  "ethToElrond_states =
     [GettingPendingBatchFromEthereum, ProposingTransferOnElrond, SigningProposedTransferOnElrond,
      WaitingForQuorum, PerformingActionID]"

definition ethToElrond_inv :: "'s bridgeDeps \<Rightarrow> StepIdentifier \<Rightarrow> 's exec_state \<Rightarrow> bool" where
  "ethToElrond_inv d sid = (\<lambda>(ex, s).
     sid \<in> set ethToElrond_states
     \<and> quorumRetriesOnElrond ex \<le> maxQuorumRetriesOnElrond d
     \<and> (sid \<noteq> GettingPendingBatchFromEthereum \<longrightarrow> (\<exists>b. batch ex = Some b \<and> eth_batch_accepted d b
          \<and> (sid = WaitingForQuorum \<or> sid = PerformingActionID
             \<longrightarrow> action_proposed_for d (actionID ex) b \<and> action_signed d (actionID ex))
          \<and> (sid = PerformingActionID \<longrightarrow> action_has_quorum d (actionID ex)))))"

lemma eth_batch_acceptedI:
  assumes "eth_GetBatch (ethereumClient d) (prev + 1) s = Some (Inr b, s')" and "ID b = prev + 1"
    and "Deposits b \<noteq> []"
    and "ec_GetLastExecutedEthBatchID (elrondClient d) s1 = Some (Inr prev, s1')"
    and "batchValidator d b s2 = Some (Inr True, s2')"
    and "ec_GetLastExecutedEthTxID (elrondClient d) s3 = Some (Inr last_tx, s3')"
    and "verifyDepositNonces (Deposits b) (last_tx + 1) = None"
  shows "eth_batch_accepted d b"
  using assms by (auto simp: eth_batch_accepted_def verifyDepositNonces_iff)

subsection \<open>Every step keeps the invariant\<close>

lemmas ethToElrond_inv_simps = ethToElrond_inv_def ethToElrond_states_def ethToElrond_ids

lemma ethToElrond_getPending_runs:
  assumes "ethToElrond_inv d GettingPendingBatchFromEthereum (ex, s)"
  shows "runs (services_ok d) (ethToElrond_getPendingStep_Execute (bridge d) (ex, s)) (ethToElrond_inv d)"
  unfolding ethToElrond_getPendingStep_Execute_def executor_defs
  by (intro go_rules) (simp_all add: ethToElrond_inv_simps, auto intro: eth_batch_acceptedI)

lemma ethToElrond_proposeTransfer_runs:
  assumes "ethToElrond_inv d ProposingTransferOnElrond (ex, s)"
  shows "runs (services_ok d) (ethToElrond_proposeTransferStep_Execute (bridge d) (ex, s)) (ethToElrond_inv d)"
  using assms unfolding ethToElrond_proposeTransferStep_Execute_def executor_defs
  by (intro go_rules) (simp_all add: ethToElrond_inv_simps)

lemma ethToElrond_signProposedTransfer_runs:
  assumes "ethToElrond_inv d SigningProposedTransferOnElrond (ex, s)"
  shows "runs (services_ok d) (ethToElrond_signProposedTransferStep_Execute (bridge d) (ex, s)) (ethToElrond_inv d)"
  using assms unfolding ethToElrond_signProposedTransferStep_Execute_def executor_defs
  by (intro go_rules) (auto simp: ethToElrond_inv_simps action_proposed_for_def action_signed_def)

lemma ethToElrond_waitForQuorum_runs:
  assumes "ethToElrond_inv d WaitingForQuorum (ex, s)"
  shows "runs (services_ok d) (ethToElrond_waitForQuorumStep_Execute (bridge d) (ex, s)) (ethToElrond_inv d)"
  using assms unfolding ethToElrond_waitForQuorumStep_Execute_def executor_defs
  by (intro go_rules) (auto simp: ethToElrond_inv_simps action_has_quorum_def inc_le)

lemma ethToElrond_performActionID_runs:
  assumes "ethToElrond_inv d PerformingActionID (ex, s)"
  shows "runs (services_ok d) (ethToElrond_performActionIDStep_Execute (bridge d) (ex, s)) (ethToElrond_inv d)"
  using assms unfolding ethToElrond_performActionIDStep_Execute_def executor_defs
  by (intro go_rules) (auto simp: ethToElrond_inv_simps)

lemmas ethToElrond_step_runs =
  ethToElrond_getPending_runs ethToElrond_proposeTransfer_runs ethToElrond_signProposedTransfer_runs
  ethToElrond_waitForQuorum_runs ethToElrond_performActionID_runs

subsection \<open>The map of steps and the running machine\<close>

definition ethToElrond_steps :: "'e Executor \<Rightarrow> 'e MachineStates" where
  "ethToElrond_steps x = map (\<lambda>st. (step_Identifier st, Some st)) (ethToElrond_stepsSlice x)"

lemma ethToElrond_CreateSteps_eq: "ethToElrond_CreateSteps (Some x) = Inr (ethToElrond_steps x)"
  unfolding ethToElrond_CreateSteps_def ethToElrond_createMachineStates_def ethToElrond_steps_def option.case
  by (subst insert_steps_distinct) (simp_all add: ethToElrond_stepsSlice_def ethToElrond_ids)

interpretation ethToElrond: step_system "services_ok d" "ethToElrond_steps (bridge d)"
  "lift_StatusHandler (statusHandler d)" world_moves "ethToElrond_inv d" for d :: "'s bridgeDeps"
proof (unfold_locales, goal_cases)
  case (1 sid v)
  then show ?case
    by (auto simp: ethToElrond_steps_def ethToElrond_stepsSlice_def split: if_split_asm)
next
  case (2 sid e)
  then show ?case
    by (auto simp: ethToElrond_inv_def ethToElrond_states_def ethToElrond_steps_def ethToElrond_stepsSlice_def)
next
  case (3 sid st e)
  then show ?case
    by (cases e) (auto simp: ethToElrond_steps_def ethToElrond_stepsSlice_def
        intro!: ethToElrond_step_runs split: if_split_asm)
next
  case (4 sid e m mv)
  then show ?case by (cases e) (auto simp: ethToElrond_inv_def intro!: go_rules)
next
  case (5 sid e e')
  then show ?case by (auto simp: ethToElrond_inv_def world_moves_def)
qed

definition createEthereumToElrondStateMachine ::
  "string \<Rightarrow> 's bridgeDeps \<Rightarrow> 's exec_state stateMachine res" where
  \<comment> \<open>the steps \<^verbatim>\<open>createEthereumToElrondBridge\<close> made, handed to the machine\<close>
  "createEthereumToElrondStateMachine ethToElrondName d =
     (case ethToElrond_CreateSteps (Some (bridge d)) of
        Inl err \<Rightarrow> Inl err
      | Inr ms \<Rightarrow> NewStateMachine
          \<lparr> StateMachineName = ethToElrondName, Steps = Some ms,
            StartStateIdentifier = GettingPendingBatchFromEthereum, sm_Log = Some (),
            sm_StatusHandler = Some (lift_StatusHandler (statusHandler d)) \<rparr>)"

lemma createEthereumToElrondStateMachine_eq:
  "createEthereumToElrondStateMachine name d = NewStateMachine
     \<lparr> StateMachineName = name, Steps = Some (ethToElrond_steps (bridge d)),
       StartStateIdentifier = GettingPendingBatchFromEthereum, sm_Log = Some (),
       sm_StatusHandler = Some (lift_StatusHandler (statusHandler d)) \<rparr>"
  by (simp add: createEthereumToElrondStateMachine_def ethToElrond_CreateSteps_eq)

lemma NewBridgeExecutor_initial:
  "NewBridgeExecutor sel lvl json args = Inr (d, ex0) \<Longrightarrow> ex0 = initial_bridgeExecutor"
  by (auto simp: NewBridgeExecutor_def createBridgeExecutor_def split: option.splits)

lemma ethToElrond_inv_initial:
  "ethToElrond_inv d GettingPendingBatchFromEthereum (initial_bridgeExecutor, s)"
  by (simp add: ethToElrond_inv_simps initial_bridgeExecutor_def)

lemma ethToElrond_run:
  assumes "NewBridgeExecutor sel lvl json args = Inr (d, ex0)"
    and "createEthereumToElrondStateMachine name d = Inr sm0"
    and "machine_reachable world_moves sm0 (ex0, s0) sm e"
  shows "\<exists>st. currentStep sm = Some st \<and> ethToElrond_inv d (step_Identifier st) e"
    and "stateMachine_Execute sm e = Some ((err, sm'), e') \<Longrightarrow> err = None"
    and "services_ok d \<Longrightarrow> stateMachine_Execute sm e \<noteq> None"
proof -
  note new = assms(2) [unfolded createEthereumToElrondStateMachine_eq]
  have start: "ethToElrond_inv d GettingPendingBatchFromEthereum (ex0, s0)"
    using NewBridgeExecutor_initial [OF assms(1)] ethToElrond_inv_initial by simp
  note safe = ethToElrond.machine_safe [of _ sm0 d "(ex0, s0)", OF new _ _ _ assms(3), simplified, OF start]
  from safe show "\<exists>st. currentStep sm = Some st \<and> ethToElrond_inv d (step_Identifier st) e" by blast
  from safe show "stateMachine_Execute sm e = Some ((err, sm'), e') \<Longrightarrow> err = None" by blast
  from safe show "services_ok d \<Longrightarrow> stateMachine_Execute sm e \<noteq> None" by blast
qed

lemma ethToElrond_run_next:
  assumes "NewBridgeExecutor sel lvl json args = Inr (d, ex0)"
    and "createEthereumToElrondStateMachine name d = Inr sm0"
    and "machine_reachable world_moves sm0 (ex0, s0) sm e" and "services_ok d"
  shows "\<exists>sm' e'. stateMachine_Execute sm e = Some ((None, sm'), e')"
  using ethToElrond_run(2,3) [OF assms(1-3)] assms(4)
  by (cases "stateMachine_Execute sm e") fastforce+

subsection \<open>The scenario reaches the last step\<close>

abbreviation demo_e2e :: "nat \<Rightarrow> nat exec_state stateMachine" where
  "demo_e2e \<equiv> demo_sm ''EthereumToElrond'' (ethToElrond_stepsSlice (bridge demo_deps))"

abbreviation demo_e2e_state :: bridgeExecutor where
  "demo_e2e_state \<equiv> initial_bridgeExecutor\<lparr>batch := Some demo_batch, actionID := 7, quorumRetriesOnElrond := 1\<rparr>"

lemma demo_ethToElrond_new:
  "createEthereumToElrondStateMachine ''EthereumToElrond'' demo_deps = Inr (demo_e2e 0)"
  by (simp add: createEthereumToElrondStateMachine_eq NewStateMachine_def stateMachine_checkArgs_def
      getNextStep_def ethToElrond_steps_def ethToElrond_stepsSlice_def demo_sm_def)

lemma ethToElrond_slice_distinct: "distinct (map step_Identifier (ethToElrond_stepsSlice x))"
  by (simp add: ethToElrond_stepsSlice_def ethToElrond_ids)

lemma demo_ethToElrond_run:
  "run_polls (Suc (Suc (Suc (Suc 0)))) (demo_e2e 0) (initial_bridgeExecutor, 0) = Some (demo_e2e 4, (demo_e2e_state, 2))"
proof -
  note poll = demo_poll [OF ethToElrond_slice_distinct]
  let ?b = "initial_bridgeExecutor\<lparr>batch := Some demo_batch\<rparr>"
  have "stateMachine_Execute (demo_e2e 0) (initial_bridgeExecutor, 0) = Some ((None, demo_e2e 1), (?b, 0))"
    by (rule poll) (simp_all add: ethToElrond_stepsSlice_def ethToElrond_getPendingStep_Execute_def
       executor_defs print_if_err_def demo_batch_def demo_deposit_def initial_bridgeExecutor_def)
  moreover have "stateMachine_Execute (demo_e2e 1) (?b, 0) = Some ((None, demo_e2e 2), (?b, 1))"
    by (rule poll) (simp_all add: ethToElrond_stepsSlice_def ethToElrond_proposeTransferStep_Execute_def executor_defs)
  moreover have "stateMachine_Execute (demo_e2e 2) (?b, 1) = Some ((None, demo_e2e 3), (?b\<lparr>actionID := 7\<rparr>, 2))"
    by (rule poll) (simp_all add: ethToElrond_stepsSlice_def ethToElrond_signProposedTransferStep_Execute_def
        executor_defs InvalidActionID_def)
  moreover have "stateMachine_Execute (demo_e2e 3) (?b\<lparr>actionID := 7\<rparr>, 2) = Some ((None, demo_e2e 4), (demo_e2e_state, 2))"
    by (rule poll) (simp_all add: ethToElrond_stepsSlice_def ethToElrond_waitForQuorumStep_Execute_def
        executor_defs initial_bridgeExecutor_def)
  ultimately show ?thesis by simp
qed

lemmas demo_ethToElrond_reachable =
  run_polls_reachable [OF demo_ethToElrond_run machine_reachable.start, of world_moves]

subsection \<open>Properties\<close>

text \<open>
  C1: in every reachable state of the Ethereum to Elrond machine, whatever the services answer and
  however the world moves between two polls, the current step exists and its invariant holds: past
  the first step the stored batch is the non-empty batch that follows the last executed one, was
  fetched under its own ID, was validated and has consecutive deposit nonces; the action that is
  waited for or performed is valid, was proposed for exactly this batch and signed by this relayer;
  an action is performed only after its quorum was reached; the retry counter never exceeds its
  limit.
\<close>

theorem ethToElrond_invariant:
  assumes "NewBridgeExecutor sel lvl json args = Inr (d, ex0)"
    and "createEthereumToElrondStateMachine name d = Inr sm0"
    and "machine_reachable world_moves sm0 (ex0, s0) sm e"
  shows "\<exists>st. currentStep sm = Some st \<and> ethToElrond_inv d (step_Identifier st) e"
  using assms by (rule ethToElrond_run(1))

theorem ethToElrond_invariant_witness:
  "\<exists>st. currentStep (demo_e2e 4) = Some st \<and> ethToElrond_inv demo_deps (step_Identifier st) (demo_e2e_state, 2)"
  by (rule ethToElrond_invariant [OF demo_NewBridgeExecutor demo_ethToElrond_new demo_ethToElrond_reachable])

text \<open>
  C23: the Ethereum to Elrond machine never gets stuck: in every reachable state, when no service
  panics, \<^verbatim>\<open>GetPending\<close> never answers a nil batch without an error, the batches it answers have all amounts
  set and fewer than \<open>2 ^ 63\<close> statuses, and the quorum Ethereum reports is not negative, \<^verbatim>\<open>Execute\<close> returns without an
  error, so the identifier a step answers is always one of the registered steps.
\<close>

theorem ethToElrond_never_stuck:
  assumes "NewBridgeExecutor sel lvl json args = Inr (d, ex0)"
    and "createEthereumToElrondStateMachine name d = Inr sm0"
    and "machine_reachable world_moves sm0 (ex0, s0) sm e" and "services_ok d"
  shows "\<exists>sm' e'. stateMachine_Execute sm e = Some ((None, sm'), e')"
  using assms by (rule ethToElrond_run_next)

theorem ethToElrond_never_stuck_witness:
  "\<exists>sm' e'. stateMachine_Execute (demo_e2e 4) (demo_e2e_state, 2) = Some ((None, sm'), e')"
  by (rule ethToElrond_never_stuck [OF demo_NewBridgeExecutor demo_ethToElrond_new demo_ethToElrond_reachable
        demo_services_ok])

end
