(* ===== verification/ElrondToEth_Bridge.thy ===== *)
theory ElrondToEth_Bridge
  imports ElrondToEth_Steps EthToElrond_Bridge
begin

section \<open>The Elrond to Ethereum half-bridge as a running machine\<close>

text \<open>
  The ten steps over the bridge executor, with the invariant of each state: which batch is stored,
  which services vouched for it, for which batch the message hash and the action were made, and the
  bounds of the three retry counters.
\<close>

subsection \<open>What the services have answered\<close>

definition elrond_batch_accepted :: "'s bridgeDeps \<Rightarrow> TransferBatch \<Rightarrow> bool" where
  "elrond_batch_accepted d b \<longleftrightarrow>
     (\<exists>s s'. ec_GetPending (elrondClient d) s = Some (Inr (Some b), s'))
     \<and> (\<exists>s s'. batchValidator d b s = Some (Inr True, s'))"

definition transfer_executed :: "'s bridgeDeps \<Rightarrow> uint64 \<Rightarrow> bool" where
  "transfer_executed d n \<longleftrightarrow> (\<exists>s s'. eth_WasExecuted (ethereumClient d) n s = Some (Inr True, s'))"

definition hash_generated_for :: "'s bridgeDeps \<Rightarrow> bytes \<Rightarrow> TransferBatch \<Rightarrow> bool" where
  "hash_generated_for d h b \<longleftrightarrow>
     (\<exists>s s'. eth_GenerateMessageHash (ethereumClient d) (Some b) s = Some (Inr h, s'))
     \<and> (\<exists>s s'. eth_BroadcastSignatureForMessageHash (ethereumClient d) h s = Some ((), s'))"

definition hash_has_quorum :: "'s bridgeDeps \<Rightarrow> bytes \<Rightarrow> bool" where
  "hash_has_quorum d h \<longleftrightarrow> (\<exists>s s'. eth_IsQuorumReached (ethereumClient d) h s = Some (Inr True, s'))"

definition statuses_resolved :: "'s bridgeDeps \<Rightarrow> TransferBatch \<Rightarrow> bool" where
  \<comment> \<open>\<open>b'\<close> is an executed batch whose statuses are those Ethereum gave, resolved against the
     deposits of the batch that was pending when they were asked for\<close>
  "statuses_resolved d b' \<longleftrightarrow>
     (\<exists>b st pending. elrond_batch_accepted d b \<and> transfer_executed d (ID b) \<and> st \<noteq> []
        \<and> (\<exists>s s'. eth_GetTransactionsStatuses (ethereumClient d) (ID b) s = Some (Inr st, s'))
        \<and> (\<exists>s s'. ec_GetPending (elrondClient d) s = Some (Inr (Some pending), s'))
        \<and> ResolveNewDeposits (b\<lparr>Statuses := st\<rparr>) (sint (of_nat (length (Statuses pending)) :: uint64)) = Some b')"

definition set_status_proposed_for :: "'s bridgeDeps \<Rightarrow> uint64 \<Rightarrow> TransferBatch \<Rightarrow> bool" where
  "set_status_proposed_for d aid b \<longleftrightarrow>
     aid \<noteq> InvalidActionID
     \<and> (\<exists>s s'. ec_GetActionIDForSetStatusOnPendingTransfer (elrondClient d) (Some b) s = Some (Inr aid, s'))"

definition transfer_states :: "StepIdentifier list" where
  "transfer_states =
     [SigningProposedTransferOnEthereum, WaitingForQuorumOnTransfer, PerformingTransfer, WaitingTransferConfirmation]"

definition set_status_states :: "StepIdentifier list" where
  "set_status_states =
     [ProposingSetStatusOnElrond, SigningProposedSetStatusOnElrond, WaitingForQuorumOnSetStatus, PerformingSetStatus]"

definition counters_bounded :: "'s bridgeDeps \<Rightarrow> bridgeExecutor \<Rightarrow> bool" where
  "counters_bounded d ex \<longleftrightarrow>
     quorumRetriesOnElrond ex \<le> maxQuorumRetriesOnElrond d
     \<and> quorumRetriesOnEthereum ex \<le> maxQuorumRetriesOnEthereum d
     \<and> retriesOnWasProposed ex \<le> maxRetriesOnWasProposed d"

definition elrondToEth_inv :: "'s bridgeDeps \<Rightarrow> StepIdentifier \<Rightarrow> 's exec_state \<Rightarrow> bool" where
  "elrondToEth_inv d sid = (\<lambda>(ex, s).
     counters_bounded d ex
     \<and> (sid = GettingPendingBatchFromElrond
        \<or> (\<exists>b. batch ex = Some b
             \<and> (sid = ResolvingSetStatusOnElrond \<and> elrond_batch_accepted d b \<and> transfer_executed d (ID b)
                \<or> sid \<in> set transfer_states \<and> elrond_batch_accepted d b
                  \<and> (sid \<noteq> SigningProposedTransferOnEthereum \<longrightarrow> hash_generated_for d (msgHash ex) b)
                  \<and> (sid = PerformingTransfer \<or> sid = WaitingTransferConfirmation \<longrightarrow> hash_has_quorum d (msgHash ex))
                \<or> sid \<in> set set_status_states \<and> statuses_resolved d b
                  \<and> (sid = WaitingForQuorumOnSetStatus \<or> sid = PerformingSetStatus
                     \<longrightarrow> set_status_proposed_for d (actionID ex) b \<and> action_signed d (actionID ex))
                  \<and> (sid = PerformingSetStatus \<longrightarrow> action_has_quorum d (actionID ex))))))"

lemma statuses_resolvedI:
  assumes "elrond_batch_accepted d b" and "transfer_executed d (ID b)" and "st \<noteq> []"
    and "eth_GetTransactionsStatuses (ethereumClient d) (ID b) s = Some (Inr st, s')"
    and "ec_GetPending (elrondClient d) s1 = Some (Inr (Some pending), s1')"
    and "ResolveNewDeposits (b\<lparr>Statuses := st\<rparr>) (sint (of_nat (length (Statuses pending)) :: uint64)) = Some b'"
  shows "statuses_resolved d b'"
  unfolding statuses_resolved_def using assms by blast

lemmas elrondToEth_inv_simps =
  elrondToEth_inv_def transfer_states_def set_status_states_def counters_bounded_def elrondToEth_ids

subsection \<open>Every step keeps the invariant\<close>

lemma elrondToEth_getPending_runs:
  assumes "elrondToEth_inv d GettingPendingBatchFromElrond (ex, s)"
  shows "runs (services_ok d) (elrondToEth_getPendingStep_Execute (bridge d) (ex, s)) (elrondToEth_inv d)"
  using assms unfolding elrondToEth_getPendingStep_Execute_def resetCountersOnElrond_def executor_defs
  by (intro go_rules)
    (auto simp: elrondToEth_inv_simps elrond_batch_accepted_def transfer_executed_def dest: GetPending_answer)

lemma accepted_amounts_set: "services_ok d \<Longrightarrow> elrond_batch_accepted d b \<Longrightarrow> amounts_set (Some b)"
  unfolding elrond_batch_accepted_def by (elim conjE exE) (drule (1) GetPending_answer, erule conjunct1)

lemma elrondToEth_signProposedTransfer_runs:
  assumes "elrondToEth_inv d SigningProposedTransferOnEthereum (ex, s)"
  shows "runs (services_ok d) (elrondToEth_signProposedTransferStep_Execute (bridge d) (ex, s)) (elrondToEth_inv d)"
  using assms unfolding elrondToEth_signProposedTransferStep_Execute_def executor_defs Let_def
  by (intro go_rules) (auto simp: elrondToEth_inv_simps hash_generated_for_def intro: accepted_amounts_set)

lemma elrondToEth_waitForQuorumOnTransfer_runs:
  assumes "elrondToEth_inv d WaitingForQuorumOnTransfer (ex, s)"
  shows "runs (services_ok d) (elrondToEth_waitForQuorumOnTransferStep_Execute (bridge d) (ex, s)) (elrondToEth_inv d)"
  using assms unfolding elrondToEth_waitForQuorumOnTransferStep_Execute_def executor_defs
  by (intro go_rules) (auto simp: elrondToEth_inv_simps hash_has_quorum_def inc_le)

lemma elrondToEth_performTransfer_runs:
  assumes "elrondToEth_inv d PerformingTransfer (ex, s)"
  shows "runs (services_ok d) (elrondToEth_performTransferStep_Execute (bridge d) (ex, s)) (elrondToEth_inv d)"
  using assms unfolding elrondToEth_performTransferStep_Execute_def executor_defs
  by (intro go_rules)
    (auto simp: elrondToEth_inv_simps transfer_executed_def intro: accepted_amounts_set GetQuorumSize_answer)

lemma elrondToEth_waitTransferConfirmation_runs:
  assumes "elrondToEth_inv d WaitingTransferConfirmation (ex, s)"
  shows "runs (services_ok d) (elrondToEth_waitTransferConfirmationStep_Execute (bridge d) (ex, s)) (elrondToEth_inv d)"
  using assms unfolding elrondToEth_waitTransferConfirmationStep_Execute_def executor_defs
  by (intro go_rules) (auto simp: elrondToEth_inv_simps)

lemma sint_of_length: "n < 2 ^ 63 \<Longrightarrow> sint (of_nat n :: uint64) = int n"
  by (simp add: signed_of_nat signed_take_bit_int_eq_self)

lemma elrondToEth_resolveSetStatus_runs:
  assumes "elrondToEth_inv d ResolvingSetStatusOnElrond (ex, s)"
  shows "runs (services_ok d) (elrondToEth_resolveSetStatusStep_Execute (bridge d) (ex, s)) (elrondToEth_inv d)"
  using assms unfolding elrondToEth_resolveSetStatusStep_Execute_def executor_defs
  by (intro go_rules)
    (auto simp: elrondToEth_inv_simps sint_of_length dest!: GetPending_answer intro: statuses_resolvedI)

lemma elrondToEth_proposeSetStatus_runs:
  assumes "elrondToEth_inv d ProposingSetStatusOnElrond (ex, s)"
  shows "runs (services_ok d) (elrondToEth_proposeSetStatusStep_Execute (bridge d) (ex, s)) (elrondToEth_inv d)"
  using assms unfolding elrondToEth_proposeSetStatusStep_Execute_def executor_defs
  by (intro go_rules) (auto simp: elrondToEth_inv_simps inc_le)

lemma elrondToEth_signProposedSetStatus_runs:
  assumes "elrondToEth_inv d SigningProposedSetStatusOnElrond (ex, s)"
  shows "runs (services_ok d) (elrondToEth_signProposedSetStatusStep_Execute (bridge d) (ex, s)) (elrondToEth_inv d)"
  using assms unfolding elrondToEth_signProposedSetStatusStep_Execute_def executor_defs
  by (intro go_rules) (auto simp: elrondToEth_inv_simps set_status_proposed_for_def action_signed_def)

lemma elrondToEth_waitForQuorumOnSetStatus_runs:
  assumes "elrondToEth_inv d WaitingForQuorumOnSetStatus (ex, s)"
  shows "runs (services_ok d) (elrondToEth_waitForQuorumOnSetStatusStep_Execute (bridge d) (ex, s)) (elrondToEth_inv d)"
  using assms unfolding elrondToEth_waitForQuorumOnSetStatusStep_Execute_def executor_defs
  by (intro go_rules) (auto simp: elrondToEth_inv_simps action_has_quorum_def inc_le)

lemma elrondToEth_performSetStatus_runs:
  assumes "elrondToEth_inv d PerformingSetStatus (ex, s)"
  shows "runs (services_ok d) (elrondToEth_performSetStatusStep_Execute (bridge d) (ex, s)) (elrondToEth_inv d)"
  using assms unfolding elrondToEth_performSetStatusStep_Execute_def executor_defs
  by (intro go_rules) (auto simp: elrondToEth_inv_simps)

lemmas elrondToEth_step_runs =
  elrondToEth_getPending_runs elrondToEth_signProposedTransfer_runs elrondToEth_waitForQuorumOnTransfer_runs
  elrondToEth_performTransfer_runs elrondToEth_waitTransferConfirmation_runs elrondToEth_resolveSetStatus_runs
  elrondToEth_proposeSetStatus_runs elrondToEth_signProposedSetStatus_runs
  elrondToEth_waitForQuorumOnSetStatus_runs elrondToEth_performSetStatus_runs

subsection \<open>The map of steps and the running machine\<close>

definition elrondToEth_steps :: "'e Executor \<Rightarrow> 'e MachineStates" where
  "elrondToEth_steps x = map (\<lambda>st. (step_Identifier st, Some st)) (elrondToEth_stepsSlice x)"

lemma elrondToEth_CreateSteps_eq: "elrondToEth_CreateSteps (Some x) = Inr (elrondToEth_steps x)"
  unfolding elrondToEth_CreateSteps_def elrondToEth_createMachineStates_def elrondToEth_steps_def option.case
  by (subst insert_steps_distinct) (simp_all add: elrondToEth_stepsSlice_def elrondToEth_ids)

interpretation elrondToEth: step_system "services_ok d" "elrondToEth_steps (bridge d)"
  "lift_StatusHandler (statusHandler d)" world_moves "elrondToEth_inv d" for d :: "'s bridgeDeps"
proof (unfold_locales, goal_cases)
  case (1 sid v)
  then show ?case
    by (auto simp: elrondToEth_steps_def elrondToEth_stepsSlice_def split: if_split_asm)
next
  case (2 sid e)
  then show ?case
    by (auto simp: elrondToEth_inv_def transfer_states_def set_status_states_def elrondToEth_steps_def
        elrondToEth_stepsSlice_def)
next
  case (3 sid st e)
  then show ?case
    by (cases e) (auto simp: elrondToEth_steps_def elrondToEth_stepsSlice_def
        intro!: elrondToEth_step_runs split: if_split_asm)
next
  case (4 sid e m mv)
  then show ?case by (cases e) (auto simp: elrondToEth_inv_def intro!: go_rules)
next
  case (5 sid e e')
  then show ?case by (auto simp: elrondToEth_inv_def world_moves_def)
qed

definition createElrondToEthereumStateMachine ::
  "string \<Rightarrow> 's bridgeDeps \<Rightarrow> 's exec_state stateMachine res" where
  \<comment> \<open>the steps \<^verbatim>\<open>createElrondToEthereumBridge\<close> made, handed to the machine\<close>
  "createElrondToEthereumStateMachine elrondToEthName d =
     (case elrondToEth_CreateSteps (Some (bridge d)) of
        Inl err \<Rightarrow> Inl err
      | Inr ms \<Rightarrow> NewStateMachine
          \<lparr> StateMachineName = elrondToEthName, Steps = Some ms,
            StartStateIdentifier = GettingPendingBatchFromElrond, sm_Log = Some (),
            sm_StatusHandler = Some (lift_StatusHandler (statusHandler d)) \<rparr>)"

lemma createElrondToEthereumStateMachine_eq:
  "createElrondToEthereumStateMachine name d = NewStateMachine
     \<lparr> StateMachineName = name, Steps = Some (elrondToEth_steps (bridge d)),
       StartStateIdentifier = GettingPendingBatchFromElrond, sm_Log = Some (),
       sm_StatusHandler = Some (lift_StatusHandler (statusHandler d)) \<rparr>"
  by (simp add: createElrondToEthereumStateMachine_def elrondToEth_CreateSteps_eq)

lemma elrondToEth_inv_initial:
  "elrondToEth_inv d GettingPendingBatchFromElrond (initial_bridgeExecutor, s)"
  by (simp add: elrondToEth_inv_simps initial_bridgeExecutor_def)

lemma elrondToEth_run:
  assumes "NewBridgeExecutor sel lvl json args = Inr (d, ex0)"
    and "createElrondToEthereumStateMachine name d = Inr sm0"
    and "machine_reachable world_moves sm0 (ex0, s0) sm e"
  shows "\<exists>st. currentStep sm = Some st \<and> elrondToEth_inv d (step_Identifier st) e"
    and "stateMachine_Execute sm e = Some ((err, sm'), e') \<Longrightarrow> err = None"
    and "services_ok d \<Longrightarrow> stateMachine_Execute sm e \<noteq> None"
proof -
  note new = assms(2) [unfolded createElrondToEthereumStateMachine_eq]
  have start: "elrondToEth_inv d GettingPendingBatchFromElrond (ex0, s0)"
    using NewBridgeExecutor_initial [OF assms(1)] elrondToEth_inv_initial by simp
  note safe = elrondToEth.machine_safe [of _ sm0 d "(ex0, s0)", OF new _ _ _ assms(3), simplified, OF start]
  from safe show "\<exists>st. currentStep sm = Some st \<and> elrondToEth_inv d (step_Identifier st) e" by blast
  from safe show "stateMachine_Execute sm e = Some ((err, sm'), e') \<Longrightarrow> err = None" by blast
  from safe show "services_ok d \<Longrightarrow> stateMachine_Execute sm e \<noteq> None" by blast
qed

lemma elrondToEth_run_next:
  assumes "NewBridgeExecutor sel lvl json args = Inr (d, ex0)"
    and "createElrondToEthereumStateMachine name d = Inr sm0"
    and "machine_reachable world_moves sm0 (ex0, s0) sm e" and "services_ok d"
  shows "\<exists>sm' e'. stateMachine_Execute sm e = Some ((None, sm'), e')"
  using elrondToEth_run(2,3) [OF assms(1-3)] assms(4)
  by (cases "stateMachine_Execute sm e") fastforce+

subsection \<open>The scenario reaches the transfer and the set status\<close>

abbreviation demo_e2h :: "nat \<Rightarrow> nat exec_state stateMachine" where
  "demo_e2h \<equiv> demo_sm ''ElrondToEthereum'' (elrondToEth_stepsSlice (bridge demo_deps))"

abbreviation demo_e2h_state :: bridgeExecutor where
  "demo_e2h_state \<equiv> initial_bridgeExecutor\<lparr>batch := Some (demo_batch\<lparr>Statuses := [3]\<rparr>), msgHash := [9], quorumRetriesOnEthereum := 1\<rparr>"

lemma demo_elrondToEth_new:
  "createElrondToEthereumStateMachine ''ElrondToEthereum'' demo_deps = Inr (demo_e2h 0)"
  by (simp add: createElrondToEthereumStateMachine_eq NewStateMachine_def stateMachine_checkArgs_def
      getNextStep_def elrondToEth_steps_def elrondToEth_stepsSlice_def demo_sm_def)

lemma elrondToEth_slice_distinct: "distinct (map step_Identifier (elrondToEth_stepsSlice x))"
  by (simp add: elrondToEth_stepsSlice_def elrondToEth_ids)

lemma demo_WaitForTransferConfirmation [simp]:
  "batch ex \<noteq> None \<Longrightarrow> 3 < s \<Longrightarrow> bridgeExecutor_WaitForTransferConfirmation demo_deps (ex, s) = Some ((), (ex, s))"
  by (auto simp: bridgeExecutor_WaitForTransferConfirmation_def splits_def eval_nat_numeral(2,3)
      waitWithContextSucceeded_def executor_defs)

lemma demo_WaitAndReturnFinalBatchStatuses [simp]:
  "batch ex \<noteq> None \<Longrightarrow> bridgeExecutor_WaitAndReturnFinalBatchStatuses demo_deps (ex, s) = Some ([3], (ex, s))"
  by (auto simp: bridgeExecutor_WaitAndReturnFinalBatchStatuses_def bridgeExecutor_GetBatchStatusesFromEthereum_def
      splits_def eval_nat_numeral(2,3) waitWithContextSucceeded_def executor_defs)

lemma demo_elrondToEth_run:
  "run_polls (Suc (Suc (Suc (Suc (Suc (Suc (Suc 0))))))) (demo_e2h 0) (initial_bridgeExecutor, 0) = Some (demo_e2h 6, (demo_e2h_state, 4))"
proof -
  note poll = demo_poll [OF elrondToEth_slice_distinct]
  let ?b = "initial_bridgeExecutor\<lparr>batch := Some demo_batch\<rparr>"
  let ?h = "?b\<lparr>msgHash := [9], quorumRetriesOnEthereum := 1\<rparr>"
  have "stateMachine_Execute (demo_e2h 0) (initial_bridgeExecutor, 0) = Some ((None, demo_e2h 1), (?b, 0))"
    by (rule poll) (simp_all add: elrondToEth_stepsSlice_def elrondToEth_getPendingStep_Execute_def
       resetCountersOnElrond_def executor_defs print_if_err_def initial_bridgeExecutor_def)
  moreover have "stateMachine_Execute (demo_e2h 1) (?b, 0) = Some ((None, demo_e2h 2), (?b\<lparr>msgHash := [9]\<rparr>, 1))"
    by (rule poll) (simp_all add: elrondToEth_stepsSlice_def elrondToEth_signProposedTransferStep_Execute_def executor_defs)
  moreover have "stateMachine_Execute (demo_e2h 2) (?b\<lparr>msgHash := [9]\<rparr>, 1) = Some ((None, demo_e2h 3), (?h, 1))"
    by (rule poll) (simp_all add: elrondToEth_stepsSlice_def elrondToEth_waitForQuorumOnTransferStep_Execute_def
        executor_defs initial_bridgeExecutor_def)
  moreover have "stateMachine_Execute (demo_e2h 3) (?h, 1) = Some ((None, demo_e2h 4), (?h, 4))"
    by (rule poll) (simp_all add: elrondToEth_stepsSlice_def elrondToEth_performTransferStep_Execute_def executor_defs)
  moreover have "stateMachine_Execute (demo_e2h 4) (?h, 4) = Some ((None, demo_e2h 3), (?h, 4))"
    by (rule poll) (simp_all add: elrondToEth_stepsSlice_def elrondToEth_waitTransferConfirmationStep_Execute_def)
  moreover have "stateMachine_Execute (demo_e2h 3) (?h, 4) = Some ((None, demo_e2h 5), (?h, 4))"
    by (rule poll) (simp_all add: elrondToEth_stepsSlice_def elrondToEth_performTransferStep_Execute_def executor_defs)
  moreover have "stateMachine_Execute (demo_e2h 5) (?h, 4) = Some ((None, demo_e2h 6), (demo_e2h_state, 4))"
    by (rule poll) (simp_all add: elrondToEth_stepsSlice_def elrondToEth_resolveSetStatusStep_Execute_def
        bridgeExecutor_ResolveNewDepositsStatuses_def executor_defs ResolveNewDeposits_def demo_batch_def)
  ultimately show ?thesis by simp
qed

lemmas demo_elrondToEth_reachable =
  run_polls_reachable [OF demo_elrondToEth_run machine_reachable.start, of world_moves]

subsection \<open>Properties\<close>

text \<open>
  C2: in every reachable state of the Elrond to Ethereum machine the current step exists and its
  invariant holds: the stored batch was pending on Elrond and validated; a transfer is performed
  only for the message hash generated and broadcast for exactly that batch and only after its
  quorum was reached; statuses are resolved only after Ethereum reported the transfer executed; set
  status is proposed, signed and performed only for the batch with the statuses Ethereum reported,
  resolved against the pending deposits, under a valid action made for it; no retry counter exceeds
  its limit.
\<close>

theorem elrondToEth_invariant:
  assumes "NewBridgeExecutor sel lvl json args = Inr (d, ex0)"
    and "createElrondToEthereumStateMachine name d = Inr sm0"
    and "machine_reachable world_moves sm0 (ex0, s0) sm e"
  shows "\<exists>st. currentStep sm = Some st \<and> elrondToEth_inv d (step_Identifier st) e"
  using assms by (rule elrondToEth_run(1))

theorem elrondToEth_invariant_witness:
  "\<exists>st. currentStep (demo_e2h 6) = Some st \<and> elrondToEth_inv demo_deps (step_Identifier st) (demo_e2h_state, 4)"
  by (rule elrondToEth_invariant [OF demo_NewBridgeExecutor demo_elrondToEth_new demo_elrondToEth_reachable])

text \<open>
  C24: the Elrond to Ethereum machine never gets stuck: in every reachable state, when no service
  panics, \<^verbatim>\<open>GetPending\<close> never answers a nil batch without an error, the batches it answers have all amounts
  set and fewer than \<open>2 ^ 63\<close> statuses, and the quorum Ethereum reports is not negative, \<^verbatim>\<open>Execute\<close> returns without an
  error.
\<close>

theorem elrondToEth_never_stuck:
  assumes "NewBridgeExecutor sel lvl json args = Inr (d, ex0)"
    and "createElrondToEthereumStateMachine name d = Inr sm0"
    and "machine_reachable world_moves sm0 (ex0, s0) sm e" and "services_ok d"
  shows "\<exists>sm' e'. stateMachine_Execute sm e = Some ((None, sm'), e')"
  using assms by (rule elrondToEth_run_next)

theorem elrondToEth_never_stuck_witness:
  "\<exists>sm' e'. stateMachine_Execute (demo_e2h 6) (demo_e2h_state, 4) = Some ((None, sm'), e')"
  by (rule elrondToEth_never_stuck [OF demo_NewBridgeExecutor demo_elrondToEth_new demo_elrondToEth_reachable
        demo_services_ok])

end
