(* ===== verification/Leadership.thy ===== *)
theory Leadership
  imports ElrondToEth_Bridge
begin

section \<open>Only the leader writes\<close>

text \<open>
  Proposing a transfer or a set status, performing an action and executing a transfer on Ethereum
  are the calls that change the two chains on behalf of all relayers. \<open>with_writes\<close> replaces these
  four operations of the clients by arbitrary ones, which may also panic; the steps of a relayer
  that is never the leader are the same functions before and after, so they never call them.
\<close>

definition with_writes ::
  "'s bridgeDeps \<Rightarrow> (TransferBatch option \<Rightarrow> ('s, string res) go) \<Rightarrow> (TransferBatch option \<Rightarrow> ('s, string res) go)
   \<Rightarrow> (uint64 \<Rightarrow> TransferBatch option \<Rightarrow> ('s, string res) go)
   \<Rightarrow> (bytes \<Rightarrow> TransferBatch option \<Rightarrow> int \<Rightarrow> ('s, string res) go) \<Rightarrow> 's bridgeDeps" where
  "with_writes d propose setStatus perform execute =
     d\<lparr> elrondClient := (elrondClient d)\<lparr> ec_ProposeTransfer := propose, ec_ProposeSetStatus := setStatus,
                                         ec_PerformAction := perform \<rparr>,
        ethereumClient := (ethereumClient d)\<lparr> eth_ExecuteTransfer := execute \<rparr> \<rparr>"

definition never_leader :: "'s bridgeDeps \<Rightarrow> bool" where
  "never_leader d \<longleftrightarrow> (\<forall>s s'. topologyProvider d s \<noteq> Some (True, s'))"

lemma follower_bind:
  assumes "never_leader d"
  shows "Option.bind (bridgeExecutor_MyTurnAsLeader d e) (\<lambda>(leader, e). if \<not> leader then A e else B e)
       = Option.bind (bridgeExecutor_MyTurnAsLeader d e) (\<lambda>(_, e). A e)"
  and  "Option.bind (bridgeExecutor_MyTurnAsLeader d e) (\<lambda>(leader, e). if leader then B e else A e)
       = Option.bind (bridgeExecutor_MyTurnAsLeader d e) (\<lambda>(_, e). A e)"
  using assms
  by (cases e; cases "topologyProvider d (snd e)"; auto simp: bridgeExecutor_MyTurnAsLeader_def never_leader_def)+

lemma with_writes_sel [simp]:
  "topologyProvider (with_writes d p ss pa x) = topologyProvider d"
  "statusHandler (with_writes d p ss pa x) = statusHandler d"
  "sigsHolder_ClearStoredSignatures (with_writes d p ss pa x) = sigsHolder_ClearStoredSignatures d"
  "batchValidator (with_writes d p ss pa x) = batchValidator d"
  "select_ctx_or_timer (with_writes d p ss pa x) = select_ctx_or_timer d"
  "timeForWaitOnEthereum (with_writes d p ss pa x) = timeForWaitOnEthereum d"
  "maxQuorumRetriesOnEthereum (with_writes d p ss pa x) = maxQuorumRetriesOnEthereum d"
  "maxQuorumRetriesOnElrond (with_writes d p ss pa x) = maxQuorumRetriesOnElrond d"
  "maxRetriesOnWasProposed (with_writes d p ss pa x) = maxRetriesOnWasProposed d"
  "level_text (with_writes d p ss pa x) = level_text d"
  "marshal_batch (with_writes d p ss pa x) = marshal_batch d"
  "ec_GetPending (elrondClient (with_writes d p ss pa x)) = ec_GetPending (elrondClient d)"
  "ec_WasProposedTransfer (elrondClient (with_writes d p ss pa x)) = ec_WasProposedTransfer (elrondClient d)"
  "ec_QuorumReached (elrondClient (with_writes d p ss pa x)) = ec_QuorumReached (elrondClient d)"
  "ec_WasExecuted (elrondClient (with_writes d p ss pa x)) = ec_WasExecuted (elrondClient d)"
  "ec_GetActionIDForProposeTransfer (elrondClient (with_writes d p ss pa x)) = ec_GetActionIDForProposeTransfer (elrondClient d)"
  "ec_WasProposedSetStatus (elrondClient (with_writes d p ss pa x)) = ec_WasProposedSetStatus (elrondClient d)"
  "ec_GetActionIDForSetStatusOnPendingTransfer (elrondClient (with_writes d p ss pa x)) = ec_GetActionIDForSetStatusOnPendingTransfer (elrondClient d)"
  "ec_GetLastExecutedEthBatchID (elrondClient (with_writes d p ss pa x)) = ec_GetLastExecutedEthBatchID (elrondClient d)"
  "ec_GetLastExecutedEthTxID (elrondClient (with_writes d p ss pa x)) = ec_GetLastExecutedEthTxID (elrondClient d)"
  "ec_Sign (elrondClient (with_writes d p ss pa x)) = ec_Sign (elrondClient d)"
  "ec_WasSigned (elrondClient (with_writes d p ss pa x)) = ec_WasSigned (elrondClient d)"
  "ec_CheckClientAvailability (elrondClient (with_writes d p ss pa x)) = ec_CheckClientAvailability (elrondClient d)"
  "eth_GetBatch (ethereumClient (with_writes d p ss pa x)) = eth_GetBatch (ethereumClient d)"
  "eth_WasExecuted (ethereumClient (with_writes d p ss pa x)) = eth_WasExecuted (ethereumClient d)"
  "eth_GenerateMessageHash (ethereumClient (with_writes d p ss pa x)) = eth_GenerateMessageHash (ethereumClient d)"
  "eth_BroadcastSignatureForMessageHash (ethereumClient (with_writes d p ss pa x)) = eth_BroadcastSignatureForMessageHash (ethereumClient d)"
  "eth_GetTransactionsStatuses (ethereumClient (with_writes d p ss pa x)) = eth_GetTransactionsStatuses (ethereumClient d)"
  "eth_GetQuorumSize (ethereumClient (with_writes d p ss pa x)) = eth_GetQuorumSize (ethereumClient d)"
  "eth_IsQuorumReached (ethereumClient (with_writes d p ss pa x)) = eth_IsQuorumReached (ethereumClient d)"
  "eth_CheckClientAvailability (ethereumClient (with_writes d p ss pa x)) = eth_CheckClientAvailability (ethereumClient d)"
  by (simp_all add: with_writes_def)

lemma with_writes_never_leader [simp]: "never_leader (with_writes d p ss pa x) = never_leader d"
  by (simp add: never_leader_def)

lemma with_writes_methods [simp]:
  "bridgeExecutor_PrintInfo (with_writes d p ss pa x) = bridgeExecutor_PrintInfo d"
  "bridgeExecutor_MyTurnAsLeader (with_writes d p ss pa x) = bridgeExecutor_MyTurnAsLeader d"
  "bridgeExecutor_GetBatchFromElrond (with_writes d p ss pa x) = bridgeExecutor_GetBatchFromElrond d"
  "bridgeExecutor_StoreBatchFromElrond (with_writes d p ss pa x) = bridgeExecutor_StoreBatchFromElrond d"
  "bridgeExecutor_GetStoredBatch (with_writes d p ss pa x) = bridgeExecutor_GetStoredBatch d"
  "bridgeExecutor_SetStoredStatuses (with_writes d p ss pa x) = bridgeExecutor_SetStoredStatuses d"
  "bridgeExecutor_GetLastExecutedEthBatchIDFromElrond (with_writes d p ss pa x) = bridgeExecutor_GetLastExecutedEthBatchIDFromElrond d"
  "bridgeExecutor_VerifyLastDepositNonceExecutedOnEthereumBatch (with_writes d p ss pa x) = bridgeExecutor_VerifyLastDepositNonceExecutedOnEthereumBatch d"
  "bridgeExecutor_GetAndStoreActionIDForProposeTransferOnElrond (with_writes d p ss pa x) = bridgeExecutor_GetAndStoreActionIDForProposeTransferOnElrond d"
  "bridgeExecutor_GetAndStoreActionIDForProposeSetStatusFromElrond (with_writes d p ss pa x) = bridgeExecutor_GetAndStoreActionIDForProposeSetStatusFromElrond d"
  "bridgeExecutor_GetStoredActionID (with_writes d p ss pa x) = bridgeExecutor_GetStoredActionID d"
  "bridgeExecutor_WasTransferProposedOnElrond (with_writes d p ss pa x) = bridgeExecutor_WasTransferProposedOnElrond d"
  "bridgeExecutor_ProcessMaxRetriesOnWasTransferProposedOnElrond (with_writes d p ss pa x) = bridgeExecutor_ProcessMaxRetriesOnWasTransferProposedOnElrond d"
  "bridgeExecutor_ResetRetriesOnWasTransferProposedOnElrond (with_writes d p ss pa x) = bridgeExecutor_ResetRetriesOnWasTransferProposedOnElrond d"
  "bridgeExecutor_WasSetStatusProposedOnElrond (with_writes d p ss pa x) = bridgeExecutor_WasSetStatusProposedOnElrond d"
  "bridgeExecutor_WasActionSignedOnElrond (with_writes d p ss pa x) = bridgeExecutor_WasActionSignedOnElrond d"
  "bridgeExecutor_SignActionOnElrond (with_writes d p ss pa x) = bridgeExecutor_SignActionOnElrond d"
  "bridgeExecutor_ProcessQuorumReachedOnElrond (with_writes d p ss pa x) = bridgeExecutor_ProcessQuorumReachedOnElrond d"
  "bridgeExecutor_WasTransferPerformedOnEthereum (with_writes d p ss pa x) = bridgeExecutor_WasTransferPerformedOnEthereum d"
  "bridgeExecutor_GetBatchStatusesFromEthereum (with_writes d p ss pa x) = bridgeExecutor_GetBatchStatusesFromEthereum d"
  "bridgeExecutor_WasActionPerformedOnElrond (with_writes d p ss pa x) = bridgeExecutor_WasActionPerformedOnElrond d"
  "bridgeExecutor_ResolveNewDepositsStatuses (with_writes d p ss pa x) = bridgeExecutor_ResolveNewDepositsStatuses d"
  "bridgeExecutor_ProcessMaxQuorumRetriesOnElrond (with_writes d p ss pa x) = bridgeExecutor_ProcessMaxQuorumRetriesOnElrond d"
  "bridgeExecutor_ResetRetriesCountOnElrond (with_writes d p ss pa x) = bridgeExecutor_ResetRetriesCountOnElrond d"
  "bridgeExecutor_GetAndStoreBatchFromEthereum (with_writes d p ss pa x) = bridgeExecutor_GetAndStoreBatchFromEthereum d"
  "bridgeExecutor_SignTransferOnEthereum (with_writes d p ss pa x) = bridgeExecutor_SignTransferOnEthereum d"
  "bridgeExecutor_ProcessQuorumReachedOnEthereum (with_writes d p ss pa x) = bridgeExecutor_ProcessQuorumReachedOnEthereum d"
  "bridgeExecutor_ProcessMaxQuorumRetriesOnEthereum (with_writes d p ss pa x) = bridgeExecutor_ProcessMaxQuorumRetriesOnEthereum d"
  "bridgeExecutor_ResetRetriesCountOnEthereum (with_writes d p ss pa x) = bridgeExecutor_ResetRetriesCountOnEthereum d"
  "bridgeExecutor_ClearStoredP2PSignaturesForEthereum (with_writes d p ss pa x) = bridgeExecutor_ClearStoredP2PSignaturesForEthereum d"
  "bridgeExecutor_ValidateBatch (with_writes d p ss pa x) = bridgeExecutor_ValidateBatch d"
  "bridgeExecutor_CheckElrondClientAvailability (with_writes d p ss pa x) = bridgeExecutor_CheckElrondClientAvailability d"
  "bridgeExecutor_CheckEthereumClientAvailability (with_writes d p ss pa x) = bridgeExecutor_CheckEthereumClientAvailability d"
  unfolding executor_defs bridgeExecutor_PrintInfo_def setExecutionMessageInStatusHandler_def
      bridgeExecutor_GetBatchStatusesFromEthereum_def bridgeExecutor_ResolveNewDepositsStatuses_def
      with_writes_sel
  by (rule refl)+

lemma with_writes_loops:
  "waitForTransferConfirmation_loop (with_writes d p ss pa x) n b = waitForTransferConfirmation_loop d n b"
  "waitAndReturnFinalBatchStatuses_loop (with_writes d p ss pa x) n = waitAndReturnFinalBatchStatuses_loop d n"
proof -
  have w: "waitWithContextSucceeded (with_writes d p ss pa x) = waitWithContextSucceeded d"
    by (simp add: waitWithContextSucceeded_def)
  show "waitForTransferConfirmation_loop (with_writes d p ss pa x) n b = waitForTransferConfirmation_loop d n b"
    by (induction n arbitrary: b; rule ext) (simp_all add: w cong: if_cong)
  show "waitAndReturnFinalBatchStatuses_loop (with_writes d p ss pa x) n = waitAndReturnFinalBatchStatuses_loop d n"
    by (induction n; rule ext) (simp_all add: w cong: if_cong sum.case_cong)
qed

lemma with_writes_waits [simp]:
  "bridgeExecutor_WaitForTransferConfirmation (with_writes d p ss pa x) = bridgeExecutor_WaitForTransferConfirmation d"
  "bridgeExecutor_WaitAndReturnFinalBatchStatuses (with_writes d p ss pa x) = bridgeExecutor_WaitAndReturnFinalBatchStatuses d"
  by (simp_all add: fun_eq_iff bridgeExecutor_WaitForTransferConfirmation_def
      bridgeExecutor_WaitAndReturnFinalBatchStatuses_def with_writes_loops)

lemma with_writes_print [simp]: "print_if_err (bridge (with_writes d p ss pa x)) = print_if_err (bridge d)"
  by (simp add: fun_eq_iff print_if_err_def cong: option.case_cong)

lemma with_writes_marshal [simp]: "marshal_batch (with_writes d p ss pa x) = marshal_batch d"
  by (simp add: with_writes_def)

lemmas step_unfolds =
  ethToElrond_getPendingStep_Execute_def ethToElrond_proposeTransferStep_Execute_def
  ethToElrond_signProposedTransferStep_Execute_def ethToElrond_waitForQuorumStep_Execute_def
  ethToElrond_performActionIDStep_Execute_def
  elrondToEth_getPendingStep_Execute_def resetCountersOnElrond_def elrondToEth_signProposedTransferStep_Execute_def
  elrondToEth_waitForQuorumOnTransferStep_Execute_def elrondToEth_performTransferStep_Execute_def
  elrondToEth_waitTransferConfirmationStep_Execute_def elrondToEth_resolveSetStatusStep_Execute_def
  elrondToEth_proposeSetStatusStep_Execute_def elrondToEth_signProposedSetStatusStep_Execute_def
  elrondToEth_waitForQuorumOnSetStatusStep_Execute_def elrondToEth_performSetStatusStep_Execute_def

lemmas with_writes_unfolds = with_writes_methods with_writes_waits with_writes_print with_writes_sel

text \<open>
  C8: a relayer that is never the leader never proposes a transfer or a set status, never performs
  an action and never executes a transfer: the steps of both half-bridges do not depend on these
  four operations of the clients.
\<close>

theorem followers_never_write:
  assumes "never_leader d"
  shows "ethToElrond_stepsSlice (bridge (with_writes d p ss pa x)) = ethToElrond_stepsSlice (bridge d)
       \<and> elrondToEth_stepsSlice (bridge (with_writes d p ss pa x)) = elrondToEth_stepsSlice (bridge d)"
  unfolding ethToElrond_stepsSlice_def elrondToEth_stepsSlice_def step_unfolds bridge_simps with_writes_unfolds
    follower_bind [OF assms]
  by (intro conjI refl)

theorem followers_never_write_witness:
  "ethToElrond_stepsSlice (bridge (with_writes (demo_deps\<lparr>topologyProvider := (\<lambda>s. Some (False, s))\<rparr>)
      (\<lambda>_ _. None) (\<lambda>_ _. None) (\<lambda>_ _ _. None) (\<lambda>_ _ _ _. None)))
   = ethToElrond_stepsSlice (bridge (demo_deps\<lparr>topologyProvider := (\<lambda>s. Some (False, s))\<rparr>))"
  using followers_never_write [of "demo_deps\<lparr>topologyProvider := (\<lambda>s. Some (False, s))\<rparr>"
      "\<lambda>_ _. None" "\<lambda>_ _. None" "\<lambda>_ _ _. None" "\<lambda>_ _ _ _. None"]
  by (simp add: never_leader_def)

end
