(* ===== verification/Retry_Counters.thy ===== *)
theory Retry_Counters
  imports ElrondToEth_Bridge
begin

section \<open>Retry counters and bounded waiting\<close>

text \<open>
  The executor has three counters (quorum on Elrond, quorum on Ethereum, proposals on Elrond), each
  with a method that counts an attempt or reports that the limit is reached and one that resets it.
  The locale \<open>retry_counter\<close> is their contract; its lemmas say how many attempts there are and that
  a sequence of attempts is never longer than the limit.
\<close>

fun repeat_call :: "nat \<Rightarrow> ('e, 'a) go \<Rightarrow> ('e, 'a list) go" where
  "repeat_call 0 m e = Some ([], e)"
| "repeat_call (Suc n) m e = do {
     (x, e) \<leftarrow> m e;
     (xs, e) \<leftarrow> repeat_call n m e;
     Some (x # xs, e) }"

locale retry_counter =
  fixes counter :: "'e \<Rightarrow> uint64"
    and limit :: uint64
    and process_max :: "('e, bool) go"
    and reset_counter :: "('e, unit) go"
  assumes count: "counter e < limit \<Longrightarrow> \<exists>e'. process_max e = Some (False, e') \<and> counter e' = counter e + 1"
    and at_limit: "\<not> counter e < limit \<Longrightarrow> process_max e = Some (True, e)"
    and reset: "\<exists>e'. reset_counter e = Some ((), e') \<and> counter e' = 0"
begin

lemma attempts_until_limit:
  assumes "counter e \<le> limit"
  shows "\<exists>e'. repeat_call n process_max e
           = Some (replicate (min n (unat (limit - counter e))) False
                   @ replicate (n - unat (limit - counter e)) True, e')
         \<and> counter e' \<le> limit"
  using assms
proof (induction n arbitrary: e)
  case 0
  then show ?case by simp
next
  case (Suc n)
  show ?case
  proof (cases "counter e < limit")
    case True
    then obtain e1 where e1: "process_max e = Some (False, e1)" "counter e1 = counter e + 1"
      using count by blast
    with True have le: "counter e1 \<le> limit" by (simp add: inc_le)
    have "unat (limit - counter e) = Suc (unat (limit - counter e1))"
      using e1(2) unat_diff_inc [OF True] by simp
    with Suc.IH [OF le] e1(1) show ?thesis by auto
  next
    case False
    with Suc.prems have "counter e = limit" by simp
    with Suc.IH [OF Suc.prems] at_limit [OF False] show ?thesis by auto
  qed
qed

text \<open>After a reset exactly \<open>limit\<close> attempts are granted, and then none until the next reset.\<close>

lemma attempts_after_reset:
  "\<exists>e1 e2. reset_counter e = Some ((), e1)
     \<and> repeat_call n process_max e1
         = Some (replicate (min n (unat limit)) False @ replicate (n - unat limit) True, e2)"
proof -
  obtain e1 where e1: "reset_counter e = Some ((), e1)" "counter e1 = 0" using reset by blast
  then show ?thesis using attempts_until_limit [of e1 n] by auto
qed

text \<open>A state that counts an attempt each time it is visited is left after at most \<open>limit\<close> visits.\<close>

lemma bounded_waiting:
  assumes "\<And>i. i < n \<Longrightarrow> counter (es i) < limit \<and> counter (es (Suc i)) = counter (es i) + 1"
  shows "n \<le> unat limit"
proof -
  have counted: "unat (counter (es k)) = unat (counter (es 0)) + k" if "k \<le> n" for k
    using that
  proof (induction k)
    case 0
    then show ?case by simp
  next
    case (Suc k)
    then have "counter (es k) < limit" and "counter (es (Suc k)) = counter (es k) + 1"
      using assms [of k] by simp_all
    then have "unat (counter (es (Suc k))) = Suc (unat (counter (es k)))"
      using unat_inc by metis
    with Suc.IH Suc.prems show ?case by simp
  qed
  note total = counted [OF order_refl]
  show ?thesis
  proof (cases n)
    case 0
    then show ?thesis by simp
  next
    case (Suc k)
    with assms [of k] have "counter (es k) < limit" and "counter (es n) = counter (es k) + 1" by simp_all
    then have "counter (es n) \<le> limit" using inc_le by metis
    then show ?thesis using total by (simp add: word_le_nat_alt)
  qed
qed

end

interpretation elrond_quorum: retry_counter "\<lambda>e. quorumRetriesOnElrond (fst e)" "maxQuorumRetriesOnElrond d"
  "bridgeExecutor_ProcessMaxQuorumRetriesOnElrond d" "bridgeExecutor_ResetRetriesCountOnElrond d"
  for d :: "'s bridgeDeps"
  by unfold_locales
    (auto simp: bridgeExecutor_ProcessMaxQuorumRetriesOnElrond_def bridgeExecutor_ResetRetriesCountOnElrond_def)

interpretation ethereum_quorum: retry_counter "\<lambda>e. quorumRetriesOnEthereum (fst e)" "maxQuorumRetriesOnEthereum d"
  "bridgeExecutor_ProcessMaxQuorumRetriesOnEthereum d" "bridgeExecutor_ResetRetriesCountOnEthereum d"
  for d :: "'s bridgeDeps"
  by unfold_locales
    (auto simp: bridgeExecutor_ProcessMaxQuorumRetriesOnEthereum_def bridgeExecutor_ResetRetriesCountOnEthereum_def)

interpretation was_proposed: retry_counter "\<lambda>e. retriesOnWasProposed (fst e)" "maxRetriesOnWasProposed d"
  "bridgeExecutor_ProcessMaxRetriesOnWasTransferProposedOnElrond d"
  "bridgeExecutor_ResetRetriesOnWasTransferProposedOnElrond d"
  for d :: "'s bridgeDeps"
  by unfold_locales
    (auto simp: bridgeExecutor_ProcessMaxRetriesOnWasTransferProposedOnElrond_def
      bridgeExecutor_ResetRetriesOnWasTransferProposedOnElrond_def)

subsection \<open>A step that waits has counted an attempt\<close>

lemma ethToElrond_waitForQuorum_counts:
  assumes "ethToElrond_waitForQuorumStep_Execute (bridge d) e = Some (WaitingForQuorum, e')"
  shows "quorumRetriesOnElrond (fst e) < maxQuorumRetriesOnElrond d \<and> quorumRetriesOnElrond (fst e') = quorumRetriesOnElrond (fst e) + 1"
proof -
  obtain ex s where e: "e = (ex, s)" by (cases e)
  have "runs (services_ok d) (ethToElrond_waitForQuorumStep_Execute (bridge d) (ex, s))
    (\<lambda>nid e'. nid = WaitingForQuorum \<longrightarrow> quorumRetriesOnElrond ex < maxQuorumRetriesOnElrond d \<and> quorumRetriesOnElrond (fst e') = quorumRetriesOnElrond ex + 1)"
    unfolding ethToElrond_waitForQuorumStep_Execute_def executor_defs
    by (intro go_rules) (simp_all add: ethToElrond_ids)
  from runsD [OF this assms [unfolded e]] show ?thesis by (simp add: e)
qed

lemma elrondToEth_waitForQuorumOnTransfer_counts:
  assumes "elrondToEth_waitForQuorumOnTransferStep_Execute (bridge d) e = Some (WaitingForQuorumOnTransfer, e')"
  shows "quorumRetriesOnEthereum (fst e) < maxQuorumRetriesOnEthereum d \<and> quorumRetriesOnEthereum (fst e') = quorumRetriesOnEthereum (fst e) + 1"
proof -
  obtain ex s where e: "e = (ex, s)" by (cases e)
  have "runs (services_ok d) (elrondToEth_waitForQuorumOnTransferStep_Execute (bridge d) (ex, s))
    (\<lambda>nid e'. nid = WaitingForQuorumOnTransfer \<longrightarrow> quorumRetriesOnEthereum ex < maxQuorumRetriesOnEthereum d \<and> quorumRetriesOnEthereum (fst e') = quorumRetriesOnEthereum ex + 1)"
    unfolding elrondToEth_waitForQuorumOnTransferStep_Execute_def executor_defs
    by (intro go_rules) (simp_all add: elrondToEth_ids)
  from runsD [OF this assms [unfolded e]] show ?thesis by (simp add: e)
qed

lemma elrondToEth_waitForQuorumOnSetStatus_counts:
  assumes "elrondToEth_waitForQuorumOnSetStatusStep_Execute (bridge d) e = Some (WaitingForQuorumOnSetStatus, e')"
  shows "quorumRetriesOnElrond (fst e) < maxQuorumRetriesOnElrond d \<and> quorumRetriesOnElrond (fst e') = quorumRetriesOnElrond (fst e) + 1"
proof -
  obtain ex s where e: "e = (ex, s)" by (cases e)
  have "runs (services_ok d) (elrondToEth_waitForQuorumOnSetStatusStep_Execute (bridge d) (ex, s))
    (\<lambda>nid e'. nid = WaitingForQuorumOnSetStatus \<longrightarrow> quorumRetriesOnElrond ex < maxQuorumRetriesOnElrond d \<and> quorumRetriesOnElrond (fst e') = quorumRetriesOnElrond ex + 1)"
    unfolding elrondToEth_waitForQuorumOnSetStatusStep_Execute_def executor_defs
    by (intro go_rules) (simp_all add: elrondToEth_ids)
  from runsD [OF this assms [unfolded e]] show ?thesis by (simp add: e)
qed

lemma elrondToEth_proposeSetStatus_counts:
  assumes "elrondToEth_proposeSetStatusStep_Execute (bridge d) e = Some (ProposingSetStatusOnElrond, e')"
  shows "retriesOnWasProposed (fst e) < maxRetriesOnWasProposed d \<and> retriesOnWasProposed (fst e') = retriesOnWasProposed (fst e) + 1"
proof -
  obtain ex s where e: "e = (ex, s)" by (cases e)
  have "runs (services_ok d) (elrondToEth_proposeSetStatusStep_Execute (bridge d) (ex, s))
    (\<lambda>nid e'. nid = ProposingSetStatusOnElrond \<longrightarrow> retriesOnWasProposed ex < maxRetriesOnWasProposed d \<and> retriesOnWasProposed (fst e') = retriesOnWasProposed ex + 1)"
    unfolding elrondToEth_proposeSetStatusStep_Execute_def executor_defs
    by (intro go_rules) (simp_all add: elrondToEth_ids)
  from runsD [OF this assms [unfolded e]] show ?thesis by (simp add: e)
qed

definition demo_no_quorum :: "nat bridgeDeps" where
  "demo_no_quorum = demo_deps\<lparr>elrondClient := (elrondClient demo_deps)\<lparr>ec_QuorumReached := (\<lambda>_ s. Some (Inr False, s))\<rparr>\<rparr>"

lemma demo_no_quorum_waits:
  assumes "i < 3"
  shows "ethToElrond_waitForQuorumStep_Execute (bridge demo_no_quorum) (initial_bridgeExecutor\<lparr>quorumRetriesOnElrond := of_nat i\<rparr>, 0)
       = Some (WaitingForQuorum, (initial_bridgeExecutor\<lparr>quorumRetriesOnElrond := of_nat (Suc i)\<rparr>, 0))"
proof -
  have "i = 0 \<or> i = 1 \<or> i = 2" using assms by auto
  then show ?thesis
    by (auto simp: ethToElrond_waitForQuorumStep_Execute_def executor_defs demo_no_quorum_def bridgeExecutor_PrintInfo_def)
qed

text \<open>
  C25: waiting is bounded: a relayer that finds itself in the same waiting state at successive polls
  (for the quorum on a proposed transfer, on the transfer to Ethereum, on a set status, or for a set
  status to be proposed), with the world moving in between, leaves it after at most as many polls as
  the configured number of retries.
\<close>

theorem waiting_is_bounded:
  assumes step: "(step, waiting, limit) \<in> {
      (ethToElrond_waitForQuorumStep_Execute, WaitingForQuorum, maxQuorumRetriesOnElrond d),
      (elrondToEth_waitForQuorumOnTransferStep_Execute, WaitingForQuorumOnTransfer, maxQuorumRetriesOnEthereum d),
      (elrondToEth_waitForQuorumOnSetStatusStep_Execute, WaitingForQuorumOnSetStatus, maxQuorumRetriesOnElrond d),
      (elrondToEth_proposeSetStatusStep_Execute, ProposingSetStatusOnElrond, maxRetriesOnWasProposed d)}"
    and polls: "\<And>i. i < n \<Longrightarrow> \<exists>e'. step (bridge d) (es i) = Some (waiting, e') \<and> world_moves e' (es (Suc i))"
  shows "n \<le> unat limit"
proof -
  consider "step = ethToElrond_waitForQuorumStep_Execute" "waiting = WaitingForQuorum" "limit = maxQuorumRetriesOnElrond d"
    | "step = elrondToEth_waitForQuorumOnTransferStep_Execute" "waiting = WaitingForQuorumOnTransfer" "limit = maxQuorumRetriesOnEthereum d"
    | "step = elrondToEth_waitForQuorumOnSetStatusStep_Execute" "waiting = WaitingForQuorumOnSetStatus" "limit = maxQuorumRetriesOnElrond d"
    | "step = elrondToEth_proposeSetStatusStep_Execute" "waiting = ProposingSetStatusOnElrond" "limit = maxRetriesOnWasProposed d"
    using step by auto
  then show ?thesis
  proof cases
    case 1
    show ?thesis unfolding 1(3)
      by (rule elrond_quorum.bounded_waiting [of n es])
        (use polls 1 ethToElrond_waitForQuorum_counts in \<open>metis world_moves_def\<close>)
  next
    case 2
    show ?thesis unfolding 2(3)
      by (rule ethereum_quorum.bounded_waiting [of n es])
        (use polls 2 elrondToEth_waitForQuorumOnTransfer_counts in \<open>metis world_moves_def\<close>)
  next
    case 3
    show ?thesis unfolding 3(3)
      by (rule elrond_quorum.bounded_waiting [of n es])
        (use polls 3 elrondToEth_waitForQuorumOnSetStatus_counts in \<open>metis world_moves_def\<close>)
  next
    case 4
    show ?thesis unfolding 4(3)
      by (rule was_proposed.bounded_waiting [of n es])
        (use polls 4 elrondToEth_proposeSetStatus_counts in \<open>metis world_moves_def\<close>)
  qed
qed

theorem waiting_is_bounded_witness:
  "map (\<lambda>i. map_option fst (ethToElrond_waitForQuorumStep_Execute (bridge demo_no_quorum)
       (initial_bridgeExecutor\<lparr>quorumRetriesOnElrond := of_nat i\<rparr>, 0))) [0, 1, 2]
     = replicate 3 (Some WaitingForQuorum)
   \<and> 3 \<le> unat (maxQuorumRetriesOnElrond demo_no_quorum)"
  using waiting_is_bounded [of ethToElrond_waitForQuorumStep_Execute WaitingForQuorum
      "maxQuorumRetriesOnElrond demo_no_quorum" demo_no_quorum 3
      "\<lambda>i. (initial_bridgeExecutor\<lparr>quorumRetriesOnElrond := of_nat i\<rparr>, 0)"]
    demo_no_quorum_waits [of 0] demo_no_quorum_waits [of 1] demo_no_quorum_waits [of 2] demo_no_quorum_waits
  by (simp add: world_moves_def eval_nat_numeral)

text \<open>
  C33: after a reset of the quorum counter on Elrond exactly the configured number of retries is
  granted, and every further call reports that the limit is reached; the counter never wraps around.
\<close>

theorem quorum_retries_granted:
  "\<exists>e1 e2. bridgeExecutor_ResetRetriesCountOnElrond d e = Some ((), e1)
     \<and> repeat_call n (bridgeExecutor_ProcessMaxQuorumRetriesOnElrond d) e1
         = Some (replicate (min n (unat (maxQuorumRetriesOnElrond d))) False
                 @ replicate (n - unat (maxQuorumRetriesOnElrond d)) True, e2)"
  by (rule elrond_quorum.attempts_after_reset)

end
