(* ===== verification/Role_Providers.thy ===== *)
theory Role_Providers
  imports Core_Types
begin

section \<open>Role providers (clients/roleProviders)\<close>

text \<open>
  The whitelists of relayers, refreshed by a polling handler from the two chains. The address type of
  the Elrond SDK and the elliptic-curve operations of go-ethereum are not part of the repository:
  they are arguments (\<open>AddressLib\<close>, \<open>EthCrypto\<close>). The locale \<open>sorted_keys\<close> is what the topology needs of
  a whitelist.
\<close>

definition ErrNilEthereumChainInteractor :: gerror where
  "ErrNilEthereumChainInteractor =
     ErrNew ''roleProviders.ErrNilEthereumChainInteractor'' ''nil Ethereum chain interactor''"
definition ErrAddressIsNotWhitelisted :: gerror where
  "ErrAddressIsNotWhitelisted = ErrNew ''roleProviders.ErrAddressIsNotWhitelisted'' ''address is not whitelisted''"
definition ErrInvalidSignature :: gerror where
  "ErrInvalidSignature = ErrNew ''roleProviders.ErrInvalidSignature'' ''invalid signature''"
definition ErrInvalidAddressBytes :: gerror where
  "ErrInvalidAddressBytes = ErrNew ''roleProviders.ErrInvalidAddressBytes'' ''invalid address bytes''"
definition clients_ErrNilDataGetter :: gerror where
  "clients_ErrNilDataGetter = ErrNew ''clients.ErrNilDataGetter'' ''nil data getter''"
definition clients_ErrNilLogger :: gerror where
  "clients_ErrNilLogger = ErrNew ''clients.ErrNilLogger'' ''nil logger''"

record 'a AddressLib =
  NewAddressFromBytes :: "bytes \<Rightarrow> 'a"
  IsValid :: "'a \<Rightarrow> bool"
  AddressBytes :: "'a \<Rightarrow> bytes"

definition address_lib_ok :: "'a AddressLib \<Rightarrow> bool" where
  \<comment> \<open>an address made from bytes has these bytes\<close>
  "address_lib_ok L \<longleftrightarrow> (\<forall>b. AddressBytes L (NewAddressFromBytes L b) = b)"

subsection \<open>The Elrond role provider (elrondRoleProvider.go)\<close>

record 's ArgsElrondRoleProvider =
  erp_DataGetter :: "('s, bytes list res) go option"
  erp_Log :: "unit option"

record elrondRoleProvider =
  whitelistedAddresses :: "(string, unit) gomap"

definition checkElrondRoleProviderSpecificArgs :: "'s ArgsElrondRoleProvider \<Rightarrow> gerror option" where
  "checkElrondRoleProviderSpecificArgs args =
     (if erp_DataGetter args = None then Some clients_ErrNilDataGetter
      else if erp_Log args = None then Some clients_ErrNilLogger
      else None)"

definition NewElrondRoleProvider :: "'s ArgsElrondRoleProvider \<Rightarrow> elrondRoleProvider res" where
  "NewElrondRoleProvider args =
     (case checkElrondRoleProviderSpecificArgs args of
        Some err \<Rightarrow> Inl err
      | None \<Rightarrow> Inr \<lparr> whitelistedAddresses = [] \<rparr>)"

fun elrond_process_loop ::
  "'a AddressLib \<Rightarrow> nat \<Rightarrow> bytes list \<Rightarrow> (string, unit) gomap \<Rightarrow> (string, unit) gomap res" where
  "elrond_process_loop L i [] temporaryMap = Inr temporaryMap"
| "elrond_process_loop L i (result # results) temporaryMap =
     (let address = NewAddressFromBytes L result in
      if \<not> IsValid L address
      then Inl (Errorf '''' ErrInvalidAddressBytes
             ('' for index '' @ show_nat i @ '', malformed address: '' @ hex_EncodeToString result))
      else elrond_process_loop L (Suc i) results
             (AList.update (string_of_bytes (AddressBytes L address)) () temporaryMap))"

definition elrondRoleProvider_processResults ::
  "'a AddressLib \<Rightarrow> elrondRoleProvider \<Rightarrow> bytes list \<Rightarrow> gerror option \<times> elrondRoleProvider" where
  "elrondRoleProvider_processResults L erp results =
     (case elrond_process_loop L 0 results [] of
        Inl err \<Rightarrow> (Some err, erp)
      | Inr temporaryMap \<Rightarrow> (None, erp\<lparr>whitelistedAddresses := temporaryMap\<rparr>))"

definition elrondRoleProvider_Execute ::
  "'a AddressLib \<Rightarrow> ('s, bytes list res) go \<Rightarrow> (elrondRoleProvider \<times> 's, gerror option) go" where
  "elrondRoleProvider_Execute L GetAllStakedRelayers = (\<lambda>(erp, s). do {
     (r, s) \<leftarrow> GetAllStakedRelayers s;
     case r of
       Inl err \<Rightarrow> Some (Some err, (erp, s))
     | Inr results \<Rightarrow> (let (err, erp) = elrondRoleProvider_processResults L erp results in Some (err, (erp, s))) })"

definition elrondRoleProvider_IsWhitelisted :: "'a AddressLib \<Rightarrow> elrondRoleProvider \<Rightarrow> 'a option \<Rightarrow> bool" where
  "elrondRoleProvider_IsWhitelisted L erp address =
     (case address of
        None \<Rightarrow> False
      | Some a \<Rightarrow> map_of (whitelistedAddresses erp) (string_of_bytes (AddressBytes L a)) \<noteq> None)"

definition elrondRoleProvider_SortedPublicKeys ::
  "((string \<times> unit) list \<Rightarrow> (string \<times> unit) list) \<Rightarrow> elrondRoleProvider \<Rightarrow> bytes list" where
  \<comment> \<open>\<^verbatim>\<open>bytes.Compare\<close> is the lexicographic order of byte lists\<close>
  "elrondRoleProvider_SortedPublicKeys ord erp =
     sort (map (\<lambda>entry. bytes_of_string (fst entry)) (ord (whitelistedAddresses erp)))"

subsection \<open>The Ethereum role provider (ethereumRoleProvider.go)\<close>

definition ethSignatureSize :: nat where
  "ethSignatureSize = 64"

record ('addr, 'pk) EthCrypto =
  Ecrecover :: "bytes \<Rightarrow> bytes \<Rightarrow> bytes res"
  UnmarshalPubkey :: "bytes \<Rightarrow> 'pk res"
  PubkeyToAddress :: "'pk \<Rightarrow> 'addr"
  VerifySignature :: "bytes \<Rightarrow> bytes \<Rightarrow> bytes \<Rightarrow> bool"

record ('s, 'addr) ArgsEthereumRoleProvider =
  ethrp_EthereumChainInteractor :: "('s, 'addr list res) go option"
  ethrp_Log :: "unit option"

record 'addr ethereumRoleProvider =
  eth_whitelistedAddresses :: "('addr, unit) gomap"

definition checkEthereumRoleProviderSpecificArgs :: "('s, 'addr) ArgsEthereumRoleProvider \<Rightarrow> gerror option" where
  "checkEthereumRoleProviderSpecificArgs args =
     (if ethrp_EthereumChainInteractor args = None then Some ErrNilEthereumChainInteractor
      else if ethrp_Log args = None then Some clients_ErrNilLogger
      else None)"

definition NewEthereumRoleProvider ::
  "('s, 'addr) ArgsEthereumRoleProvider \<Rightarrow> 'addr ethereumRoleProvider res" where
  "NewEthereumRoleProvider args =
     (case checkEthereumRoleProviderSpecificArgs args of
        Some err \<Rightarrow> Inl err
      | None \<Rightarrow> Inr \<lparr> eth_whitelistedAddresses = [] \<rparr>)"

definition ethereumRoleProvider_processResults ::
  "'addr ethereumRoleProvider \<Rightarrow> 'addr list \<Rightarrow> 'addr ethereumRoleProvider" where
  "ethereumRoleProvider_processResults erp results =
     erp\<lparr>eth_whitelistedAddresses := fold (\<lambda>addr m. AList.update addr () m) results []\<rparr>"

definition ethereumRoleProvider_Execute ::
  "('s, 'addr list res) go \<Rightarrow> ('addr ethereumRoleProvider \<times> 's, gerror option) go" where
  "ethereumRoleProvider_Execute GetRelayers = (\<lambda>(erp, s). do {
     (r, s) \<leftarrow> GetRelayers s;
     case r of
       Inl err \<Rightarrow> Some (Some err, (erp, s))
     | Inr addresses \<Rightarrow> Some (None, (ethereumRoleProvider_processResults erp addresses, s)) })"

definition ethereumRoleProvider_isWhitelisted :: "'addr ethereumRoleProvider \<Rightarrow> 'addr \<Rightarrow> bool" where
  "ethereumRoleProvider_isWhitelisted erp address \<longleftrightarrow> map_of (eth_whitelistedAddresses erp) address \<noteq> None"

definition VerifyEthSignature ::
  "('addr, 'pk) EthCrypto \<Rightarrow> 'addr ethereumRoleProvider \<Rightarrow> bytes \<Rightarrow> bytes \<Rightarrow> gerror option" where
  "VerifyEthSignature C erp signature messageHash =
     (case Ecrecover C messageHash signature of
        Inl err \<Rightarrow> Some err
      | Inr pkBytes \<Rightarrow>
          (case UnmarshalPubkey C pkBytes of
             Inl err \<Rightarrow> Some err
           | Inr pk \<Rightarrow>
               (let address = PubkeyToAddress C pk in
                if \<not> ethereumRoleProvider_isWhitelisted erp address then Some ErrAddressIsNotWhitelisted
                else
                  (let signature = (if ethSignatureSize < length signature then take ethSignatureSize signature else signature) in
                   if \<not> VerifySignature C pkBytes messageHash signature then Some ErrInvalidSignature
                   else None))))"

subsection \<open>Lemmas\<close>

lemma elrond_process_loop_keys:
  assumes "address_lib_ok L"
  shows "elrond_process_loop L i results acc = Inr m
     \<Longrightarrow> fst ` set m = fst ` set acc \<union> string_of_bytes ` set results
       \<and> (distinct (map fst acc) \<longrightarrow> distinct (map fst m))"
  using assms
  by (induction L i results acc rule: elrond_process_loop.induct)
    (auto simp: Let_def address_lib_ok_def distinct_update split: if_split_asm)

lemma elrond_process_loop_error:
  "(\<exists>err. elrond_process_loop L i results acc = Inl err \<and> errors_Is err ErrInvalidAddressBytes)
    \<or> (\<exists>m. elrond_process_loop L i results acc = Inr m)"
  by (induction L i results acc rule: elrond_process_loop.induct) (auto simp: Let_def)

lemma elrond_process_loop_ok_iff:
  "(\<exists>m. elrond_process_loop L i results acc = Inr m) \<longleftrightarrow> list_all (\<lambda>b. IsValid L (NewAddressFromBytes L b)) results"
  by (induction L i results acc rule: elrond_process_loop.induct) (auto simp: Let_def)

lemma map_of_unit_keys: "map_of (m :: ('k \<times> unit) list) k \<noteq> None \<longleftrightarrow> k \<in> fst ` set m"
  by (simp add: map_of_eq_None_iff)

subsection \<open>What the topology needs of a whitelist\<close>

locale sorted_keys =
  fixes keys :: "'w \<Rightarrow> bytes list"
    and member :: "'w \<Rightarrow> bytes \<Rightarrow> bool"
    and valid :: "'w \<Rightarrow> bool"
  assumes keys_sorted: "valid w \<Longrightarrow> sorted (keys w)"
    and keys_distinct: "valid w \<Longrightarrow> distinct (keys w)"
    and keys_member: "valid w \<Longrightarrow> set (keys w) = {k. member w k}"
begin

text \<open>The list is determined by its members: relayers with the same whitelist see the same list.\<close>

lemma keys_determined: "valid w \<Longrightarrow> keys w = sorted_list_of_set {k. member w k}"
  using keys_sorted keys_distinct keys_member sorted_list_of_set.idem_if_sorted_distinct by metis

end

definition elrond_whitelist_valid :: "elrondRoleProvider \<Rightarrow> bool" where
  "elrond_whitelist_valid erp \<longleftrightarrow> distinct (map fst (whitelistedAddresses erp))"

lemma elrond_sorted_keys:
  assumes "range_order ord"
  shows "sorted_keys (elrondRoleProvider_SortedPublicKeys ord)
     (\<lambda>erp k. map_of (whitelistedAddresses erp) (string_of_bytes k) \<noteq> None) elrond_whitelist_valid"
proof (unfold_locales, goal_cases)
  case (1 w)
  show ?case by (simp add: elrondRoleProvider_SortedPublicKeys_def)
next
  case (2 w)
  then have "distinct (map fst (whitelistedAddresses w))" by (simp add: elrond_whitelist_valid_def)
  then have "distinct (map (bytes_of_string \<circ> fst) (ord (whitelistedAddresses w)))"
    by (simp add: distinct_map range_orderD [OF assms] comp_inj_on inj_on_bytes_of_string)
  then show ?case by (simp add: elrondRoleProvider_SortedPublicKeys_def comp_def)
next
  case (3 w)
  have "set (elrondRoleProvider_SortedPublicKeys ord w) = bytes_of_string ` fst ` set (whitelistedAddresses w)"
    by (simp add: elrondRoleProvider_SortedPublicKeys_def range_orderD [OF assms] image_image)
  also have "\<dots> = {k. string_of_bytes k \<in> fst ` set (whitelistedAddresses w)}"
    by (rule image_bytes_of_string)
  finally show ?case unfolding map_of_unit_keys .
qed

interpretation elrond_keys: sorted_keys "elrondRoleProvider_SortedPublicKeys (\<lambda>xs. xs)"
  "\<lambda>erp k. map_of (whitelistedAddresses erp) (string_of_bytes k) \<noteq> None" elrond_whitelist_valid
  by (rule elrond_sorted_keys) simp

subsection \<open>Properties\<close>

lemma eth_process_keys:
  "fst ` set (fold (\<lambda>addr m. AList.update addr () m) addrs m0) = fst ` set m0 \<union> set addrs"
  by (induction addrs arbitrary: m0) auto

lemma eth_whitelisted_iff:
  "ethereumRoleProvider_isWhitelisted (ethereumRoleProvider_processResults erp addrs) a \<longleftrightarrow> a \<in> set addrs"
proof -
  have "map_of (fold (\<lambda>addr m. AList.update addr () m) addrs []) a \<noteq> None \<longleftrightarrow> a \<in> set addrs"
    unfolding map_of_unit_keys eth_process_keys by simp
  then show ?thesis
    by (simp add: ethereumRoleProvider_isWhitelisted_def ethereumRoleProvider_processResults_def)
qed

text \<open>
  A refresh of the Elrond whitelist is atomic: if every address the contract returned is valid,
  afterwards exactly the returned addresses are whitelisted and the sorted public keys are their
  sorted list without duplicates (whatever order the map is visited in); if one is not valid, the
  refresh reports \<^verbatim>\<open>ErrInvalidAddressBytes\<close> and the old whitelist stays in force.
\<close>

theorem elrond_whitelist_refresh:
  assumes "address_lib_ok L" and "range_order ord"
  shows "if list_all (\<lambda>b. IsValid L (NewAddressFromBytes L b)) results
     then \<exists>erp'. elrondRoleProvider_processResults L erp results = (None, erp')
          \<and> (elrondRoleProvider_IsWhitelisted L erp' (Some a) \<longleftrightarrow> AddressBytes L a \<in> set results)
          \<and> elrondRoleProvider_SortedPublicKeys ord erp' = sorted_list_of_set (set results)
     else \<exists>err. elrondRoleProvider_processResults L erp results = (Some err, erp)
          \<and> errors_Is err ErrInvalidAddressBytes"
proof (cases "elrond_process_loop L 0 results []")
  case (Inl err)
  with elrond_process_loop_ok_iff [of L 0 results "[]"] elrond_process_loop_error [of L 0 results "[]"]
  show ?thesis by (auto simp: elrondRoleProvider_processResults_def)
next
  case (Inr m)
  then have valid: "list_all (\<lambda>b. IsValid L (NewAddressFromBytes L b)) results"
    using elrond_process_loop_ok_iff by blast
  from elrond_process_loop_keys [OF assms(1) Inr]
  have keys: "fst ` set m = string_of_bytes ` set results" and dist: "distinct (map fst m)" by simp_all
  let ?erp = "erp\<lparr>whitelistedAddresses := m\<rparr>"
  have ok: "elrond_whitelist_valid ?erp" using dist by (simp add: elrond_whitelist_valid_def)
  have member: "map_of m (string_of_bytes k) \<noteq> None \<longleftrightarrow> k \<in> set results" for k
    unfolding map_of_unit_keys keys by (auto simp: inj_image_mem_iff [OF injI])
  have "elrondRoleProvider_SortedPublicKeys ord ?erp = sorted_list_of_set (set results)"
    unfolding sorted_keys.keys_determined [OF elrond_sorted_keys [OF assms(2)] ok] by (simp add: member del: not_None_eq)
  with valid Inr member show ?thesis
    by (auto simp: elrondRoleProvider_processResults_def elrondRoleProvider_IsWhitelisted_def)
qed

definition demo_address_lib :: "bytes AddressLib" where
  "demo_address_lib = \<lparr> NewAddressFromBytes = (\<lambda>b. b), IsValid = (\<lambda>b. length b = 2), AddressBytes = (\<lambda>a. a) \<rparr>"

theorem elrond_whitelist_refresh_witness:
  "\<exists>erp'. elrondRoleProvider_processResults demo_address_lib \<lparr> whitelistedAddresses = [] \<rparr> [[2, 1], [1, 2], [2, 1]]
       = (None, erp') \<and> elrondRoleProvider_IsWhitelisted demo_address_lib erp' (Some [1, 2])
       \<and> elrondRoleProvider_SortedPublicKeys rev erp' = sorted_list_of_set {[1, 2], [2, 1]}"
  using elrond_whitelist_refresh [of demo_address_lib rev "[[2, 1], [1, 2], [2, 1]]" "\<lparr> whitelistedAddresses = [] \<rparr>" "[1, 2]"]
  by (simp add: demo_address_lib_def address_lib_ok_def range_order_def insert_commute)

text \<open>
  After a refresh of the Ethereum whitelist, an Ethereum signature is accepted exactly when a
  public key is recovered from it, the key's address is among the relayers the contract returned,
  and the first 64 bytes of the signature verify under that key.
\<close>

theorem VerifyEthSignature_iff:
  "VerifyEthSignature C (ethereumRoleProvider_processResults erp addrs) signature messageHash = None \<longleftrightarrow>
     (\<exists>pkBytes pk. Ecrecover C messageHash signature = Inr pkBytes \<and> UnmarshalPubkey C pkBytes = Inr pk
        \<and> PubkeyToAddress C pk \<in> set addrs \<and> VerifySignature C pkBytes messageHash (take 64 signature))"
  by (auto simp: VerifyEthSignature_def eth_whitelisted_iff Let_def ethSignatureSize_def split: sum.split)

end
