(* ===== verification/Topology.thy ===== *)
theory Topology
  imports Role_Providers
begin

section \<open>Leader selection (bridges/ethElrond/topology)\<close>

text \<open>
  Which relayer may write in the current interval. Every relayer hashes the number of the interval
  with the same hash function (\<open>hasher\<close>, the library's SHA-256) and takes the result modulo the
  number of relayers as an index into the sorted public keys.
\<close>

definition errNilPublicKeysProvider :: gerror where
  "errNilPublicKeysProvider = ErrNew ''topology.errNilPublicKeysProvider'' ''nil public keys provider''"
definition errInvalidIntervalForLeader :: gerror where
  "errInvalidIntervalForLeader = ErrNew ''topology.errInvalidIntervalForLeader'' ''invalid interval for leader''"
definition errNilTimer :: gerror where
  "errNilTimer = ErrNew ''topology.errNilTimer'' ''nil timer''"
definition errEmptyAddress :: gerror where
  "errEmptyAddress = ErrNew ''topology.errEmptyAddress'' ''empty address''"
definition topology_errNilLogger :: gerror where
  "topology_errNilLogger = ErrNew ''topology.errNilLogger'' ''nil logger''"
definition topology_errNilAddressConverter :: gerror where
  "topology_errNilAddressConverter = ErrNew ''topology.errNilAddressConverter'' ''nil address converter''"

definition int64_Seconds :: "int \<Rightarrow> int" where
  \<comment> \<open>\<^verbatim>\<open>int64(d.Seconds())\<close> of a duration in nanoseconds: the whole seconds, truncated towards zero.
    The sum of seconds and fraction in \<^verbatim>\<open>float64\<close> is exact for whole seconds, which the factory passes; a fraction within rounding
    distance of the next second would be rounded up there.\<close>
  "int64_Seconds d = d sdiv 1000000000"

record 's ArgsTopologyHandler =
  ta_PublicKeysProvider :: "('s, bytes list) go option"
  ta_Timer :: "('s, int) go option"
  ta_IntervalForLeader :: int
  ta_AddressBytes :: bytes
  ta_Log :: "unit option"
  ta_AddressConverter :: "unit option"

record 's topologyHandler =
  publicKeysProvider :: "('s, bytes list) go"
  timer :: "('s, int) go"
  intervalForLeader :: int
  addressBytes :: bytes

definition topology_checkArgs :: "'s ArgsTopologyHandler \<Rightarrow> gerror option" where
  "topology_checkArgs args =
     (if ta_PublicKeysProvider args = None then Some errNilPublicKeysProvider
      else if ta_Timer args = None then Some errNilTimer
      else if int64_Seconds (ta_IntervalForLeader args) \<le> 0 then Some errInvalidIntervalForLeader
      else if length (ta_AddressBytes args) = 0 then Some errEmptyAddress
      else if ta_Log args = None then Some topology_errNilLogger
      else if ta_AddressConverter args = None then Some topology_errNilAddressConverter
      else None)"

definition NewTopologyHandler :: "'s ArgsTopologyHandler \<Rightarrow> 's topologyHandler res" where
  "NewTopologyHandler args =
     (case topology_checkArgs args of
        Some err \<Rightarrow> Inl err
      | None \<Rightarrow> Inr \<lparr> publicKeysProvider = the (ta_PublicKeysProvider args), timer = the (ta_Timer args),
                     intervalForLeader = ta_IntervalForLeader args, addressBytes = ta_AddressBytes args \<rparr>)"

definition randomInt :: "(bytes \<Rightarrow> bytes) \<Rightarrow> uint64 \<Rightarrow> uint64 \<Rightarrow> uint64 option" where
  "randomInt hasher seed max' =
     (if max' = 0 then Some 0
      else do {
        let buff = PutUint64 seed;
        let hashedSeed = hasher buff;
        w \<leftarrow> BigEndian_Uint64 hashedSeed;
        Some (w mod max') })"

definition topologyHandler_MyTurnAsLeader ::
  "(bytes \<Rightarrow> bytes) \<Rightarrow> 's topologyHandler \<Rightarrow> ('s, bool) go" where
  \<comment> \<open>an interval of zero seconds panics, as does an index out of range\<close>
  "topologyHandler_MyTurnAsLeader hasher t = (\<lambda>s. do {
     (sortedPublicKeys, s) \<leftarrow> publicKeysProvider t s;
     if length sortedPublicKeys = 0 then Some (False, s)
     else do {
       let numberOfPeers = (of_nat (length sortedPublicKeys) :: uint64);
       (now, s) \<leftarrow> timer t s;
       if int64_Seconds (intervalForLeader t) = 0 then None
       else do {
         let seed = (word_of_int (now sdiv int64_Seconds (intervalForLeader t)) :: uint64);
         index \<leftarrow> randomInt hasher seed numberOfPeers;
         if unat index < length sortedPublicKeys
         then (let leaderAddress = sortedPublicKeys ! unat index in Some (leaderAddress = addressBytes t, s))
         else None } } })"

subsection \<open>Lemmas\<close>

lemma NewTopologyHandler_interval:
  "NewTopologyHandler args = Inr t \<Longrightarrow> 0 < int64_Seconds (intervalForLeader t)"
  by (auto simp: NewTopologyHandler_def topology_checkArgs_def split: option.split_asm if_split_asm)

lemma randomInt_bound:
  assumes "8 \<le> length (hasher (PutUint64 seed))" and "m \<noteq> 0"
  obtains i where "randomInt hasher seed m = Some i" and "i < m"
  using assms that by (auto simp: randomInt_def BigEndian_Uint64_def word_mod_less_divisor word_greater_zero_iff)

lemma length_as_word:
  assumes "xs \<noteq> []" and "length xs < 2 ^ 63"
  shows "(of_nat (length xs) :: uint64) \<noteq> 0" and "unat (of_nat (length xs) :: uint64) = length xs"
proof -
  show u: "unat (of_nat (length xs) :: uint64) = length xs"
    using assms(2) by (simp add: unsigned_of_nat take_bit_nat_eq_self)
  show "(of_nat (length xs) :: uint64) \<noteq> 0" using u assms(1) by fastforce
qed

text \<open>
  The index of the leader of an interval, which depends on the hash function, the number of the
  interval and the number of relayers only.
\<close>

definition leader_index :: "(bytes \<Rightarrow> bytes) \<Rightarrow> int \<Rightarrow> nat \<Rightarrow> nat" where
  "leader_index hasher interval n = unat (the (randomInt hasher (word_of_int interval) (of_nat n)))"

lemma leader_index_less:
  assumes "\<And>b. 8 \<le> length (hasher b)" and "0 < n" and "n < 2 ^ 63"
  shows "leader_index hasher k n < n"
    and "randomInt hasher (word_of_int k) (of_nat n) = Some (of_nat (leader_index hasher k n))"
proof -
  have n: "unat (of_nat n :: uint64) = n" "(of_nat n :: uint64) \<noteq> 0"
    using length_as_word [of "replicate n ()"] assms(2,3) by auto
  obtain i where i: "randomInt hasher (word_of_int k) (of_nat n) = Some i" "i < of_nat n"
    by (rule randomInt_bound [OF assms(1) n(2)])
  from i(2) have "unat i < n" unfolding word_less_nat_alt n(1) .
  then show "leader_index hasher k n < n" by (simp add: leader_index_def i(1))
  show "randomInt hasher (word_of_int k) (of_nat n) = Some (of_nat (leader_index hasher k n))"
    using i by (simp add: leader_index_def)
qed

lemma MyTurnAsLeader_eq:
  assumes "\<And>b. 8 \<le> length (hasher b)" and "0 < int64_Seconds (intervalForLeader t)"
    and "publicKeysProvider t s = Some (keys, s1)" and "keys \<noteq> []" and "length keys < 2 ^ 63"
    and "timer t s1 = Some (now, s2)"
  shows "topologyHandler_MyTurnAsLeader hasher t s
     = Some (keys ! leader_index hasher (now sdiv int64_Seconds (intervalForLeader t)) (length keys) = addressBytes t, s2)"
proof -
  let ?k = "now sdiv int64_Seconds (intervalForLeader t)"
  have len: "0 < length keys" using assms(4) by simp
  note index = leader_index_less [where hasher = hasher and k = ?k, OF assms(1) len assms(5)]
  have "unat (of_nat (leader_index hasher ?k (length keys)) :: uint64) = leader_index hasher ?k (length keys)"
    using index(1) assms(5) by (simp add: unsigned_of_nat take_bit_nat_eq_self)
  with index assms show ?thesis by (simp add: topologyHandler_MyTurnAsLeader_def)
qed

subsection \<open>Properties\<close>

text \<open>
  C13: at every moment exactly one relayer is the leader: among handlers that see the same non-empty
  list of keys and the same clock, whatever their addresses, exactly one address answers true, and it is one of
  the keys; in particular no address that is not on the list ever leads. The hash function returns at least eight
  bytes, the list has fewer than \<open>2 ^ 63\<close> keys, and the interval is at least a second, which the constructor enforces.
\<close>

theorem exactly_one_leader:
  assumes "\<And>b. 8 \<le> length (hasher b)" and "0 < int64_Seconds interval"
    and "keys \<noteq> []" and "length keys < 2 ^ 63"
  shows "\<exists>leader \<in> set keys. \<forall>k. topologyHandler_MyTurnAsLeader hasher
            \<lparr> publicKeysProvider = (\<lambda>s. Some (keys, s)), timer = (\<lambda>s. Some (now, s)),
              intervalForLeader = interval, addressBytes = k \<rparr> s = Some (k = leader, s)"
proof -
  let ?i = "leader_index hasher (now sdiv int64_Seconds interval) (length keys)"
  have turn: "topologyHandler_MyTurnAsLeader hasher
      \<lparr> publicKeysProvider = (\<lambda>s. Some (keys, s)), timer = (\<lambda>s. Some (now, s)),
        intervalForLeader = interval, addressBytes = k \<rparr> s = Some (keys ! ?i = k, s)" for k
    by (subst MyTurnAsLeader_eq [where keys = keys]) (use assms in simp_all)
  have "?i < length keys" using leader_index_less(1) [where hasher = hasher] assms by blast
  then show ?thesis unfolding turn by (intro bexI [of _ "keys ! ?i"]) (auto simp: eq_commute)
qed

definition demo_hasher :: "bytes \<Rightarrow> bytes" where
  "demo_hasher b = b @ replicate 8 0"

theorem exactly_one_leader_witness:
  "\<exists>leader \<in> set [[1], [2], [3]]. \<forall>k. topologyHandler_MyTurnAsLeader demo_hasher
      \<lparr> publicKeysProvider = (\<lambda>s. Some ([[1], [2], [3]], s)), timer = (\<lambda>s. Some (100, s)),
        intervalForLeader = 20000000000, addressBytes = k \<rparr> () = Some (k = leader, ())"
  by (rule exactly_one_leader) (simp_all add: demo_hasher_def int64_Seconds_def)

text \<open>
  C14: two relayers never both lead an interval: handlers of relayers whose Elrond whitelists have the
  same members, read through maps that may be visited in different orders, and whose clocks fall in
  the same interval, both answer true only if they have the same address.
\<close>

theorem no_two_leaders:
  assumes "\<And>b. 8 \<le> length (hasher b)" and "0 < int64_Seconds interval"
    and "range_order ord" and "range_order ord'"
    and "elrond_whitelist_valid w" and "elrond_whitelist_valid w'" and "length (whitelistedAddresses w) < 2 ^ 63"
    and "\<And>k. elrondRoleProvider_IsWhitelisted L w (Some k) \<longleftrightarrow> elrondRoleProvider_IsWhitelisted L w' (Some k)"
    and "surj (AddressBytes L)"
    and "now sdiv int64_Seconds interval = now' sdiv int64_Seconds interval"
    and "topologyHandler_MyTurnAsLeader hasher
            \<lparr> publicKeysProvider = (\<lambda>s. Some (elrondRoleProvider_SortedPublicKeys ord w, s)), timer = (\<lambda>s. Some (now, s)),
              intervalForLeader = interval, addressBytes = addr \<rparr> s = Some (True, s)"
    and "topologyHandler_MyTurnAsLeader hasher
            \<lparr> publicKeysProvider = (\<lambda>s. Some (elrondRoleProvider_SortedPublicKeys ord' w', s)), timer = (\<lambda>s. Some (now', s)),
              intervalForLeader = interval, addressBytes = addr' \<rparr> s = Some (True, s)"
  shows "addr = addr'"
proof -
  let ?keys = "elrondRoleProvider_SortedPublicKeys ord w"
  have listed: "elrondRoleProvider_IsWhitelisted L w (Some a)
      \<longleftrightarrow> map_of (whitelistedAddresses w) (string_of_bytes (AddressBytes L a)) \<noteq> None" for w a
    by (simp add: elrondRoleProvider_IsWhitelisted_def)
  have member: "map_of (whitelistedAddresses w) (string_of_bytes k) \<noteq> None
        \<longleftrightarrow> map_of (whitelistedAddresses w') (string_of_bytes k) \<noteq> None" for k
  proof -
    obtain a where "k = AddressBytes L a" using surjD [OF assms(9)] by blast
    then show ?thesis using assms(8) [of a] unfolding listed by simp
  qed
  have same: "elrondRoleProvider_SortedPublicKeys ord' w' = ?keys"
    unfolding sorted_keys.keys_determined [OF elrond_sorted_keys [OF assms(3)] assms(5)]
      sorted_keys.keys_determined [OF elrond_sorted_keys [OF assms(4)] assms(6)] member ..
  have ne: "?keys \<noteq> []"
    using assms(11) by (auto simp: topologyHandler_MyTurnAsLeader_def)
  have len: "length ?keys < 2 ^ 63"
    using assms(7) by (simp add: elrondRoleProvider_SortedPublicKeys_def range_orderD [OF assms(3)])
  have turn: "topologyHandler_MyTurnAsLeader hasher
      \<lparr> publicKeysProvider = (\<lambda>s. Some (?keys, s)), timer = (\<lambda>s. Some (now, s)),
        intervalForLeader = interval, addressBytes = k \<rparr> s
      = Some (?keys ! leader_index hasher (now sdiv int64_Seconds interval) (length ?keys) = k, s)" for now k
    by (subst MyTurnAsLeader_eq [where keys = ?keys]) (use assms(1,2) ne len in simp_all)
  from assms(10-12) show ?thesis unfolding same turn by simp
qed

abbreviation demo_relayer :: "((string \<times> unit) list \<Rightarrow> (string \<times> unit) list) \<Rightarrow> int \<Rightarrow> unit topologyHandler" where
  "demo_relayer ord now \<equiv>
     \<lparr> publicKeysProvider = (\<lambda>s. Some (elrondRoleProvider_SortedPublicKeys ord \<lparr> whitelistedAddresses = [(''a'', ()), (''b'', ())] \<rparr>, s)),
       timer = (\<lambda>s. Some (now, s)), intervalForLeader = 10000000000, addressBytes = bytes_of_string ''a'' \<rparr>"

lemma demo_relayer_leads:
  assumes "range_order ord"
  shows "topologyHandler_MyTurnAsLeader (\<lambda>_. replicate 8 0) (demo_relayer ord now) () = Some (True, ())"
proof -
  let ?w = "\<lparr> whitelistedAddresses = [(''a'', ()), (''b'', ())] \<rparr>"
  have valid: "elrond_whitelist_valid ?w" by (simp add: elrond_whitelist_valid_def)
  have "elrondRoleProvider_SortedPublicKeys ord ?w = elrondRoleProvider_SortedPublicKeys (\<lambda>xs. xs) ?w"
    unfolding sorted_keys.keys_determined [OF elrond_sorted_keys [OF assms] valid] elrond_keys.keys_determined [OF valid] ..
  also have "\<dots> = [bytes_of_string ''a'', bytes_of_string ''b'']"
    by (simp add: elrondRoleProvider_SortedPublicKeys_def bytes_of_string_def)
  finally show ?thesis
    by (simp add: topologyHandler_MyTurnAsLeader_def randomInt_def BigEndian_Uint64_def int64_Seconds_def)
qed

theorem no_two_leaders_witness:
  "addressBytes (demo_relayer (\<lambda>xs. xs) 21) = addressBytes (demo_relayer rev 27)"
proof -
  have "bytes_of_string ''a'' = bytes_of_string ''a''"
    by (rule no_two_leaders [where hasher = "\<lambda>_. replicate 8 0" and interval = 10000000000 and L = demo_address_lib
          and w = "\<lparr> whitelistedAddresses = [(''a'', ()), (''b'', ())] \<rparr>"
          and w' = "\<lparr> whitelistedAddresses = [(''a'', ()), (''b'', ())] \<rparr>"
          and now = 21 and now' = 27 and ord = "\<lambda>xs. xs" and ord' = rev,
          OF _ _ _ _ _ _ _ _ _ _ demo_relayer_leads demo_relayer_leads])
      (simp_all add: int64_Seconds_def range_order_def elrond_whitelist_valid_def demo_address_lib_def surj_def)
  then show ?thesis by simp
qed

end
