(* ===== verification/P2P_Messages.thy ===== *)
theory P2P_Messages
  imports Role_Providers
begin

section \<open>Signed messages between relayers (p2p/relayerMessageHandler.go, noncesOfPublicKeys.go)\<close>

text \<open>
  How a relayer makes a signed message and checks one it receives, and the table of nonces that
  keeps old messages from being replayed. The JSON marshalizer, the key generator, the single signer
  and the antiflood components come from libraries; the record \<open>p2pDeps\<close> has the operations the
  sources call, over the state \<open>'s\<close> behind them.
\<close>

definition ErrPeerNotWhitelisted :: gerror where
  "ErrPeerNotWhitelisted = ErrNew ''p2p.ErrPeerNotWhitelisted'' ''current peer is not whitelisted''"
definition p2p_ErrNilLogger :: gerror where
  "p2p_ErrNilLogger = ErrNew ''p2p.ErrNilLogger'' ''nil logger''"
definition ErrNilKeyGenerator :: gerror where
  "ErrNilKeyGenerator = ErrNew ''p2p.ErrNilKeyGenerator'' ''nil key generator''"
definition ErrNilPrivateKey :: gerror where
  "ErrNilPrivateKey = ErrNew ''p2p.ErrNilPrivateKey'' ''nil private key''"
definition ErrNilSingleSigner :: gerror where
  "ErrNilSingleSigner = ErrNew ''p2p.ErrNilSingleSigner'' ''nil single signer''"
definition ErrNilElrondRoleProvider :: gerror where
  "ErrNilElrondRoleProvider = ErrNew ''p2p.ErrNilElrondRoleProvider'' ''nil Elrond role provider''"
definition ErrNilMessenger :: gerror where
  "ErrNilMessenger = ErrNew ''p2p.ErrNilMessenger'' ''nil network messenger''"
definition ErrInvalidSize :: gerror where
  "ErrInvalidSize = ErrNew ''p2p.ErrInvalidSize'' ''invalid size''"
definition ErrNilSignatureProcessor :: gerror where
  "ErrNilSignatureProcessor = ErrNew ''p2p.ErrNilSignatureProcessor'' ''nil signature processor''"
definition ErrNonceTooLowInReceivedMessage :: gerror where
  "ErrNonceTooLowInReceivedMessage =
     ErrNew ''p2p.ErrNonceTooLowInReceivedMessage'' ''nonce too low in received message''"
definition ErrEmptyName :: gerror where
  "ErrEmptyName = ErrNew ''p2p.ErrEmptyName'' ''empty name''"
definition ErrNilBroadcastClient :: gerror where
  "ErrNilBroadcastClient = ErrNew ''p2p.ErrNilBroadcastClient'' ''nil broadcast client''"
definition p2p_ErrNilStatusHandler :: gerror where
  "p2p_ErrNilStatusHandler = ErrNew ''p2p.ErrNilStatusHandler'' ''nil status handler''"
definition ErrNilMessage :: gerror where
  "ErrNilMessage = ErrNew ''p2p.ErrNilMessage'' ''nil message''"
definition ErrNilAntifloodComponents :: gerror where
  "ErrNilAntifloodComponents = ErrNew ''p2p.ErrNilAntifloodComponents'' ''nil antiflood components''"
definition ErrNilBlackListIDsCache :: gerror where
  "ErrNilBlackListIDsCache = ErrNew ''p2p.ErrNilBlackListIDsCache'' ''nil blacklist cache''"
definition ErrNilBlackListedPublicKeysCache :: gerror where
  "ErrNilBlackListedPublicKeysCache =
     ErrNew ''p2p.ErrNilBlackListedPublicKeysCache'' ''nil blacklist public keys cache''"

definition absolutMaxSliceSize :: nat where
  "absolutMaxSliceSize = 1024"

record messageP2P =
  Data :: bytes
  Topic :: string
  Peer :: string
  SeqNo :: bytes

record ('s, 'pk) p2pDeps =
  Unmarshal_SignedMessage :: "bytes \<Rightarrow> SignedMessage res"
  Marshal_SignedMessage :: "SignedMessage \<Rightarrow> bytes res"
  Unmarshal_EthereumSignature :: "bytes \<Rightarrow> EthereumSignature res"
  Marshal_EthereumSignature :: "EthereumSignature \<Rightarrow> bytes res"
  PublicKeyFromByteArray :: "bytes \<Rightarrow> 'pk res"
  signer_Verify :: "'pk \<Rightarrow> bytes \<Rightarrow> bytes \<Rightarrow> gerror option"
  signer_Sign :: "bytes \<Rightarrow> bytes res"
  publicKeyBytes :: bytes
  CanProcessMessage :: "messageP2P \<Rightarrow> string \<Rightarrow> ('s, gerror option) go"
  CanProcessMessagesOnTopic :: "string \<Rightarrow> string \<Rightarrow> nat \<Rightarrow> nat \<Rightarrow> bytes \<Rightarrow> ('s, gerror option) go"
  BlacklistPeer :: "string \<Rightarrow> string \<Rightarrow> ('s, unit) go"

text \<open>\<open>signer_Sign\<close> signs with the relayer's private key, whose public key is \<open>publicKeyBytes\<close>.\<close>

subsection \<open>Receiving (relayerMessageHandler.go)\<close>

definition canProcessMessage ::
  "('s, 'pk, 'z) p2pDeps_scheme \<Rightarrow> messageP2P option \<Rightarrow> string \<Rightarrow> ('s, gerror option) go" where
  "canProcessMessage d message fromConnectedPeer = (\<lambda>s.
     case message of
       None \<Rightarrow> Some (Some ErrNilMessage, s)
     | Some m \<Rightarrow> do {
         (err, s) \<leftarrow> CanProcessMessage d m fromConnectedPeer s;
         case err of
           Some er \<Rightarrow> Some (Some (Errorf '''' er ('' on resolver topic '' @ Topic m)), s)
         | None \<Rightarrow> do {
             (err, s) \<leftarrow> CanProcessMessagesOnTopic d fromConnectedPeer (Topic m) 1 (length (Data m)) (SeqNo m) s;
             case err of
               Some er \<Rightarrow> Some (Some (Errorf '''' er ('' on resolver topic '' @ Topic m)), s)
             | None \<Rightarrow> Some (None, s) } })"

definition checkLengths :: "SignedMessage \<Rightarrow> gerror option" where
  "checkLengths msg =
     (if absolutMaxSliceSize < length (PublicKeyBytes msg) then Some (Errorf '''' ErrInvalidSize '' for PublicKeyBytes field'')
      else if absolutMaxSliceSize < length (Signature msg) then Some (Errorf '''' ErrInvalidSize '' for Signature field'')
      else if absolutMaxSliceSize < length (Payload msg) then Some (Errorf '''' ErrInvalidSize '' for Payload field'')
      else None)"

definition preProcessMessage ::
  "('s, 'pk, 'z) p2pDeps_scheme \<Rightarrow> messageP2P option \<Rightarrow> string \<Rightarrow> ('s, SignedMessage res) go" where
  \<comment> \<open>\<^verbatim>\<open>message.Data()\<close> panics on a nil message\<close>
  "preProcessMessage d message fromConnectedPeer = (\<lambda>s.
     case message of
       None \<Rightarrow> None
     | Some m \<Rightarrow>
         (case Unmarshal_SignedMessage d (Data m) of
            Inl err \<Rightarrow> do {
              let reason = ''unmarshalable data got on request topic '' @ Topic m;
              (_, s) \<leftarrow> BlacklistPeer d (Peer m) reason s;
              (_, s) \<leftarrow> BlacklistPeer d fromConnectedPeer reason s;
              Some (Inl err, s) }
          | Inr msg \<Rightarrow>
              (case checkLengths msg of
                 Some err \<Rightarrow> Some (Inl err, s)
               | None \<Rightarrow>
                   (case PublicKeyFromByteArray d (PublicKeyBytes msg) of
                      Inl err \<Rightarrow> Some (Inl err, s)
                    | Inr pk \<Rightarrow>
                        (let buffNonce = PutUint64 (msg_Nonce msg);
                             msgWithNonce = Payload msg @ buffNonce
                         in case signer_Verify d pk msgWithNonce (Signature msg) of
                              Some err \<Rightarrow> do {
                                let reason = ''unverifiable signature on request topic '' @ Topic m;
                                (_, s) \<leftarrow> BlacklistPeer d (Peer m) reason s;
                                (_, s) \<leftarrow> BlacklistPeer d fromConnectedPeer reason s;
                                Some (Inl err, s) }
                            | None \<Rightarrow> Some (Inr msg, s))))))"

subsection \<open>Sending\<close>

definition createMessage ::
  "('s, 'pk, 'z) p2pDeps_scheme \<Rightarrow> bytes \<Rightarrow> uint64 \<Rightarrow> SignedMessage res \<times> uint64" where
  \<comment> \<open>the last component is the counter, incremented atomically; it wraps around\<close>
  "createMessage d payload counter =
     (let nonce = counter + 1;
          buffNonce = PutUint64 nonce;
          msgWithNonce = payload @ buffNonce
      in case signer_Sign d msgWithNonce of
           Inl err \<Rightarrow> (Inl err, nonce)
         | Inr sig \<Rightarrow> (Inr \<lparr> Payload = payload, PublicKeyBytes = publicKeyBytes d,
                             Signature = sig, msg_Nonce = nonce \<rparr>, nonce))"

subsection \<open>Nonces (noncesOfPublicKeys.go)\<close>

type_synonym noncesOfPublicKeys = "(string, uint64) gomap"

definition newNoncesOfPublicKeys :: noncesOfPublicKeys where
  "newNoncesOfPublicKeys = []"

definition stored_nonce :: "noncesOfPublicKeys \<Rightarrow> bytes \<Rightarrow> uint64" where
  \<comment> \<open>a map lookup of a missing key gives the zero value\<close>
  "stored_nonce nonces pk = (case map_of nonces (string_of_bytes pk) of None \<Rightarrow> 0 | Some n \<Rightarrow> n)"

definition processNonce :: "noncesOfPublicKeys \<Rightarrow> SignedMessage \<Rightarrow> gerror option \<times> noncesOfPublicKeys" where
  "processNonce nonces msg =
     (let oldNonce = stored_nonce nonces (PublicKeyBytes msg) in
      if msg_Nonce msg \<le> oldNonce then (Some ErrNonceTooLowInReceivedMessage, nonces)
      else (None, AList.update (string_of_bytes (PublicKeyBytes msg)) (msg_Nonce msg) nonces))"

definition noncesOfPublicKeys_SortedPublicKeys ::
  "((string \<times> uint64) list \<Rightarrow> (string \<times> uint64) list) \<Rightarrow> noncesOfPublicKeys \<Rightarrow> bytes list" where
  "noncesOfPublicKeys_SortedPublicKeys ord nonces =
     sort (map (\<lambda>entry. bytes_of_string (fst entry)) (ord nonces))"

subsection \<open>Lemmas\<close>

lemma stored_nonce_update:
  "stored_nonce (AList.update (string_of_bytes pk) n nonces) pk' = (if pk' = pk then n else stored_nonce nonces pk')"
  by (simp add: stored_nonce_def update_conv')

lemma nonces_sorted_keys:
  assumes "range_order ord"
  shows "sorted_keys (noncesOfPublicKeys_SortedPublicKeys ord)
     (\<lambda>nonces k. string_of_bytes k \<in> fst ` set nonces) (\<lambda>nonces. distinct (map fst nonces))"
proof (unfold_locales, goal_cases)
  case (1 w)
  show ?case by (simp add: noncesOfPublicKeys_SortedPublicKeys_def)
next
  case (2 w)
  then have "distinct (map (bytes_of_string \<circ> fst) (ord w))"
    by (simp add: distinct_map range_orderD [OF assms] comp_inj_on inj_on_bytes_of_string)
  then show ?case by (simp add: noncesOfPublicKeys_SortedPublicKeys_def comp_def)
next
  case (3 w)
  have "set (noncesOfPublicKeys_SortedPublicKeys ord w) = bytes_of_string ` fst ` set w"
    by (simp add: noncesOfPublicKeys_SortedPublicKeys_def range_orderD [OF assms] image_image)
  then show ?case by (simp add: image_bytes_of_string)
qed

interpretation nonce_keys: sorted_keys "noncesOfPublicKeys_SortedPublicKeys (\<lambda>xs. xs)"
  "\<lambda>nonces k. string_of_bytes k \<in> fst ` set nonces" "\<lambda>nonces. distinct (map fst nonces)"
  by (rule nonces_sorted_keys) simp

text \<open>The messages a sequence of \<^verbatim>\<open>processNonce\<close> calls lets through.\<close>

fun accepted_messages :: "noncesOfPublicKeys \<Rightarrow> SignedMessage list \<Rightarrow> SignedMessage list" where
  "accepted_messages nonces [] = []"
| "accepted_messages nonces (msg # msgs) =
     (case processNonce nonces msg of
        (None, nonces') \<Rightarrow> msg # accepted_messages nonces' msgs
      | (Some _, nonces') \<Rightarrow> accepted_messages nonces' msgs)"

lemma accepted_above_stored:
  "m \<in> set (accepted_messages nonces msgs) \<Longrightarrow> stored_nonce nonces (PublicKeyBytes m) < msg_Nonce m"
proof (induction msgs arbitrary: nonces)
  case Nil
  then show ?case by simp
next
  case (Cons msg msgs)
  show ?case
  proof (cases "msg_Nonce msg \<le> stored_nonce nonces (PublicKeyBytes msg)")
    case True
    with Cons show ?thesis by (simp add: processNonce_def)
  next
    case False
    then have fresh: "stored_nonce nonces (PublicKeyBytes msg) < msg_Nonce msg" by simp
    from Cons.prems False consider "m = msg"
      | "m \<in> set (accepted_messages (AList.update (string_of_bytes (PublicKeyBytes msg)) (msg_Nonce msg) nonces) msgs)"
      by (auto simp: processNonce_def)
    then show ?thesis
    proof cases
      case 1
      with fresh show ?thesis by simp
    next
      case 2
      from Cons.IH [OF 2] fresh show ?thesis
        by (auto simp: stored_nonce_update split: if_split_asm)
    qed
  qed
qed

subsection \<open>Properties\<close>

text \<open>
  C28: replay protection: of any sequence of received messages, those of one public key that pass the
  nonce check have strictly increasing nonces, so no message is let through twice.
\<close>

theorem accepted_nonces_increase:
  "sorted_wrt (<) (map msg_Nonce (filter (\<lambda>m. PublicKeyBytes m = pk) (accepted_messages nonces msgs)))"
proof (induction msgs arbitrary: nonces)
  case Nil
  then show ?case by simp
next
  case (Cons msg msgs)
  let ?new = "AList.update (string_of_bytes (PublicKeyBytes msg)) (msg_Nonce msg) nonces"
  have "msg_Nonce msg < msg_Nonce m" if "m \<in> set (accepted_messages ?new msgs)" "PublicKeyBytes m = PublicKeyBytes msg" for m
    using accepted_above_stored [OF that(1)] that(2) by (simp add: stored_nonce_update)
  with Cons show ?case by (auto simp: processNonce_def)
qed

text \<open>
  C29: what one relayer sends another accepts: a message made by \<^verbatim>\<open>createMessage\<close> passes all checks of
  \<^verbatim>\<open>preProcessMessage\<close> unchanged, with the payload that was sent and the next nonce, when the two agree
  on the encoding, the signer's signatures verify under its public key and nothing is longer than
  the maximum size.
\<close>

theorem created_message_is_accepted:
  assumes "fst (createMessage ds payload counter) = Inr msg"
    and "Marshal_SignedMessage ds msg = Inr buff" and "Unmarshal_SignedMessage dr buff = Inr msg"
    and "PublicKeyFromByteArray dr (publicKeyBytes ds) = Inr pk"
    and "\<And>m sig. signer_Sign ds m = Inr sig \<Longrightarrow> signer_Verify dr pk m sig = None \<and> length sig \<le> 1024"
    and "length (publicKeyBytes ds) \<le> 1024" and "length payload \<le> 1024"
  shows "preProcessMessage dr (Some \<lparr> Data = buff, Topic = topic, Peer = peer, SeqNo = seq \<rparr>) from_peer s = Some (Inr msg, s)
       \<and> Payload msg = payload \<and> msg_Nonce msg = counter + 1 \<and> snd (createMessage ds payload counter) = counter + 1"
proof -
  obtain sig where sig: "signer_Sign ds (payload @ PutUint64 (counter + 1)) = Inr sig"
    using assms(1) by (cases "signer_Sign ds (payload @ PutUint64 (counter + 1))") (simp_all add: createMessage_def Let_def)
  then have msg: "msg = \<lparr> Payload = payload, PublicKeyBytes = publicKeyBytes ds, Signature = sig, msg_Nonce = counter + 1 \<rparr>"
    using assms(1) by (simp add: createMessage_def Let_def)
  note ok = assms(5) [OF sig]
  have "checkLengths msg = None"
    using ok assms(6,7) unfolding checkLengths_def absolutMaxSliceSize_def msg by simp
  then show ?thesis
    using assms(3,4) ok sig unfolding preProcessMessage_def Let_def msg by (simp add: createMessage_def Let_def)
qed

definition demo_p2p :: "(nat, bytes) p2pDeps" where
  \<comment> \<open>a toy library: a message is encoded by its payload, nonce and key, a signature is the signed text\<close>
  "demo_p2p =
     \<lparr> Unmarshal_SignedMessage = (\<lambda>b. if length b < 9 then Inl ErrNilMessage
         else Inr \<lparr> Payload = drop 9 b, PublicKeyBytes = take 1 b, Signature = drop 9 b @ take 8 (drop 1 b),
                    msg_Nonce = word_of_int (SetBytes (take 8 (drop 1 b))) \<rparr>),
       Marshal_SignedMessage = (\<lambda>m. Inr (PublicKeyBytes m @ PutUint64 (msg_Nonce m) @ Payload m)),
       Unmarshal_EthereumSignature = (\<lambda>b. Inr \<lparr> eth_Signature = b, MessageHash = b \<rparr>),
       Marshal_EthereumSignature = (\<lambda>e. Inr (eth_Signature e)),
       PublicKeyFromByteArray = (\<lambda>b. if length b = 1 then Inr b else Inl ErrInvalidSize),
       signer_Verify = (\<lambda>pk m sig. if sig = m then None else Some ErrInvalidSignature),
       signer_Sign = (\<lambda>m. if length m \<le> 1024 then Inr m else Inl ErrInvalidSize),
       publicKeyBytes = [7],
       CanProcessMessage = (\<lambda>_ _ s. Some (None, s)),
       CanProcessMessagesOnTopic = (\<lambda>_ _ _ _ _ s. Some (None, s)),
       BlacklistPeer = (\<lambda>_ _ s. Some ((), s + 1)) \<rparr>"

abbreviation demo_message :: SignedMessage where
  "demo_message \<equiv> \<lparr> Payload = [1, 2, 3], PublicKeyBytes = [7], Signature = [1, 2, 3] @ PutUint64 42, msg_Nonce = 42 \<rparr>"

theorem created_message_is_accepted_witness:
  "preProcessMessage demo_p2p (Some \<lparr> Data = [7] @ PutUint64 42 @ [1, 2, 3], Topic = ''t'', Peer = ''p'', SeqNo = [] \<rparr>) ''q'' 0
   = Some (Inr demo_message, 0)"
proof -
  have made: "fst (createMessage demo_p2p [1, 2, 3] 41) = Inr demo_message"
    by (simp add: createMessage_def demo_p2p_def)
  have sent: "Marshal_SignedMessage demo_p2p demo_message = Inr ([7] @ PutUint64 42 @ [1, 2, 3])"
    by (simp add: demo_p2p_def)
  have read: "Unmarshal_SignedMessage demo_p2p ([7] @ PutUint64 42 @ [1, 2, 3]) = Inr demo_message"
    by (simp add: demo_p2p_def)
  have pk: "PublicKeyFromByteArray demo_p2p (publicKeyBytes demo_p2p) = Inr [7]"
    by (simp add: demo_p2p_def)
  have ok: "signer_Verify demo_p2p [7] m sig = None \<and> length sig \<le> 1024" if "signer_Sign demo_p2p m = Inr sig" for m sig
    using that by (simp add: demo_p2p_def split: if_split_asm)
  show ?thesis
    by (rule created_message_is_accepted [OF made sent read pk ok, THEN conjunct1]) (simp_all add: demo_p2p_def)
qed

end
