(* ===== verification/Signatures_Holder.thy ===== *)
theory Signatures_Holder
  imports Core_Types
begin

section \<open>Signatures holders (bridges/ethElrond/signaturesHolder.go and disabled/)\<close>

text \<open>
  The broadcast client that keeps the signed messages of the other relayers and the Ethereum
  signatures they carry, and the disabled variant the other half-bridge uses. The mutex makes every
  method atomic, so a method is a function of the state. The locale \<open>signature_store\<close> is what the
  Ethereum client relies on: for every message hash, the set of distinct signatures received for it
  since the last clear.
\<close>

record signaturesHolder =
  signedMessages :: "(string, SignedMessage) gomap"
  ethMessages :: "EthereumSignature list"

definition NewSignatureHolder :: signaturesHolder where
  "NewSignatureHolder = \<lparr> signedMessages = [], ethMessages = [] \<rparr>"

definition signaturesHolder_ProcessNewMessage ::
  "signaturesHolder \<Rightarrow> SignedMessage option \<Rightarrow> EthereumSignature option \<Rightarrow> signaturesHolder" where
  "signaturesHolder_ProcessNewMessage sh msg ethMsg =
     (case (msg, ethMsg) of
        (Some m, Some em) \<Rightarrow>
          sh\<lparr> signedMessages := AList.update (UniqueID m) m (signedMessages sh),
              ethMessages := ethMessages sh @ [em] \<rparr>
      | _ \<Rightarrow> sh)"

definition signaturesHolder_AllStoredSignatures ::
  "((string \<times> SignedMessage) list \<Rightarrow> (string \<times> SignedMessage) list) \<Rightarrow> signaturesHolder \<Rightarrow> SignedMessage list" where
  "signaturesHolder_AllStoredSignatures ord sh = map snd (ord (signedMessages sh))"

fun unique_eth_sigs :: "EthereumSignature list \<Rightarrow> bytes \<Rightarrow> (string, unit) gomap \<Rightarrow> (string, unit) gomap" where
  "unique_eth_sigs [] msgHash uniqueEthSigs = uniqueEthSigs"
| "unique_eth_sigs (ethMsg # rest) msgHash uniqueEthSigs =
     unique_eth_sigs rest msgHash
       (if MessageHash ethMsg = msgHash
        then AList.update (string_of_bytes (eth_Signature ethMsg)) () uniqueEthSigs
        else uniqueEthSigs)"

definition signaturesHolder_Signatures ::
  "((string \<times> unit) list \<Rightarrow> (string \<times> unit) list) \<Rightarrow> signaturesHolder \<Rightarrow> bytes \<Rightarrow> bytes list" where
  "signaturesHolder_Signatures ord sh msgHash =
     map (\<lambda>entry. bytes_of_string (fst entry)) (ord (unique_eth_sigs (ethMessages sh) msgHash []))"

definition signaturesHolder_ClearStoredSignatures :: "signaturesHolder \<Rightarrow> signaturesHolder" where
  "signaturesHolder_ClearStoredSignatures sh = sh\<lparr> signedMessages := [], ethMessages := [] \<rparr>"

subsection \<open>The disabled holder\<close>

definition disabledSignaturesHolder_Signatures :: "unit \<Rightarrow> bytes \<Rightarrow> bytes list" where
  "disabledSignaturesHolder_Signatures disabled msgHash = []"

definition disabledSignaturesHolder_ClearStoredSignatures :: "unit \<Rightarrow> unit" where
  "disabledSignaturesHolder_ClearStoredSignatures disabled = disabled"

subsection \<open>The contract\<close>

locale signature_store =
  fixes process :: "'h \<Rightarrow> SignedMessage option \<Rightarrow> EthereumSignature option \<Rightarrow> 'h"
    and signatures :: "'h \<Rightarrow> bytes \<Rightarrow> bytes list"
    and clear :: "'h \<Rightarrow> 'h"
  assumes signatures_distinct: "distinct (signatures h mh)"
    and signatures_clear: "signatures (clear h) mh = []"
    and signatures_process: "set (signatures (process h (Some m) (Some em)) mh)
          = (if MessageHash em = mh then insert (eth_Signature em) (set (signatures h mh)) else set (signatures h mh))"
    and process_nil: "process h None em' = h" "process h m' None = h"
begin

text \<open>What a sequence of messages leaves behind: the signatures of the messages with that hash.\<close>

lemma signatures_after:
  "set (signatures (fold (\<lambda>(m, em) h. process h (Some m) (Some em)) msgs h) mh)
     = set (signatures h mh) \<union> set (map (\<lambda>(m, em). eth_Signature em) (filter (\<lambda>(m, em). MessageHash em = mh) msgs))"
proof (induction msgs arbitrary: h)
  case Nil
  then show ?case by simp
next
  case (Cons msg msgs)
  obtain m em where "msg = (m, em)" by (cases msg)
  with Cons show ?case by (cases "MessageHash em = mh") (auto simp: signatures_process)
qed

text \<open>A message that was already counted does not bring the quorum nearer.\<close>

lemma repeated_message_not_counted:
  assumes "eth_Signature em \<in> set (signatures h (MessageHash em))"
  shows "length (signatures (process h (Some m) (Some em)) mh) = length (signatures h mh)"
proof -
  have "set (signatures (process h (Some m) (Some em)) mh) = set (signatures h mh)"
    using assms by (auto simp: signatures_process)
  then show ?thesis using signatures_distinct by (metis distinct_card)
qed

lemma fresh_message_counted:
  assumes "eth_Signature em \<notin> set (signatures h (MessageHash em))"
  shows "length (signatures (process h (Some m) (Some em)) (MessageHash em))
       = Suc (length (signatures h (MessageHash em)))"
proof -
  have "card (set (signatures (process h (Some m) (Some em)) (MessageHash em)))
      = Suc (card (set (signatures h (MessageHash em))))"
    using assms by (simp add: signatures_process)
  then show ?thesis using signatures_distinct by (simp add: distinct_card)
qed

end

lemma unique_eth_sigs_keys:
  "fst ` set (unique_eth_sigs ems mh acc)
     = fst ` set acc \<union> string_of_bytes ` eth_Signature ` {em \<in> set ems. MessageHash em = mh}"
  by (induction ems mh acc rule: unique_eth_sigs.induct) auto

lemma unique_eth_sigs_distinct:
  "distinct (map fst acc) \<Longrightarrow> distinct (map fst (unique_eth_sigs ems mh acc))"
  by (induction ems mh acc rule: unique_eth_sigs.induct) (auto simp: distinct_update)

lemma signaturesHolder_Signatures_set:
  assumes "range_order ord"
  shows "set (signaturesHolder_Signatures ord sh mh)
       = eth_Signature ` {em \<in> set (ethMessages sh). MessageHash em = mh}"
proof -
  have "set (signaturesHolder_Signatures ord sh mh)
      = bytes_of_string ` fst ` set (unique_eth_sigs (ethMessages sh) mh [])"
    by (auto simp: signaturesHolder_Signatures_def range_orderD [OF assms] image_image)
  then show ?thesis by (simp add: unique_eth_sigs_keys image_image)
qed

lemma signaturesHolder_Signatures_distinct:
  assumes "range_order ord"
  shows "distinct (signaturesHolder_Signatures ord sh mh)"
proof -
  let ?es = "unique_eth_sigs (ethMessages sh) mh []"
  have "inj_on fst (set (ord ?es))"
    using unique_eth_sigs_distinct [of "[]"] by (simp add: range_orderD [OF assms] distinct_map)
  moreover have "distinct (ord ?es)"
    using unique_eth_sigs_distinct [of "[]"] by (simp add: range_orderD [OF assms] distinct_map)
  ultimately have "distinct (map (bytes_of_string \<circ> fst) (ord ?es))"
    by (simp add: distinct_map comp_inj_on inj_on_bytes_of_string)
  then show ?thesis by (simp add: signaturesHolder_Signatures_def comp_def)
qed

lemma signaturesHolder_store:
  assumes "range_order ord"
  shows "signature_store signaturesHolder_ProcessNewMessage (signaturesHolder_Signatures ord)
           signaturesHolder_ClearStoredSignatures"
proof (unfold_locales, goal_cases)
  case (1 h mh)
  show ?case by (rule signaturesHolder_Signatures_distinct [OF assms])
next
  case (2 h mh)
  have "set (signaturesHolder_Signatures ord (signaturesHolder_ClearStoredSignatures h) mh) = {}"
    by (simp add: signaturesHolder_Signatures_set [OF assms] signaturesHolder_ClearStoredSignatures_def)
  then show ?case by simp
next
  case (3 h m em mh)
  show ?case
    by (auto simp: signaturesHolder_Signatures_set [OF assms] signaturesHolder_ProcessNewMessage_def)
next
  case (4 h em')
  show ?case by (simp add: signaturesHolder_ProcessNewMessage_def)
next
  case (5 h m')
  show ?case by (simp add: signaturesHolder_ProcessNewMessage_def split: option.split)
qed

text \<open>The holder when \<^verbatim>\<open>range\<close> visits the entries in insertion order.\<close>

interpretation sigs: signature_store signaturesHolder_ProcessNewMessage
  "signaturesHolder_Signatures (\<lambda>xs. xs)" signaturesHolder_ClearStoredSignatures
  by (rule signaturesHolder_store) simp

subsection \<open>Properties\<close>

text \<open>
  C30: after a clear and any sequence of messages, the signatures the holder gives for a message
  hash are, each exactly once and whatever order the map is visited in, the signatures that came
  with that hash: nothing is lost, a signature sent twice counts once, and a signature for another
  hash never counts.
\<close>

theorem signatures_are_the_distinct_received:
  assumes "range_order ord"
  shows "distinct (signaturesHolder_Signatures ord
            (fold (\<lambda>(m, em) h. signaturesHolder_ProcessNewMessage h (Some m) (Some em)) msgs
               (signaturesHolder_ClearStoredSignatures h0)) mh)
       \<and> set (signaturesHolder_Signatures ord
            (fold (\<lambda>(m, em) h. signaturesHolder_ProcessNewMessage h (Some m) (Some em)) msgs
               (signaturesHolder_ClearStoredSignatures h0)) mh)
         = set (map (\<lambda>(m, em). eth_Signature em) (filter (\<lambda>(m, em). MessageHash em = mh) msgs))"
  using signature_store.signatures_after [OF signaturesHolder_store [OF assms]]
    signature_store.signatures_clear [OF signaturesHolder_store [OF assms]]
  by (simp add: signaturesHolder_Signatures_distinct [OF assms])

theorem signatures_are_the_distinct_received_witness:
  "set (signaturesHolder_Signatures rev
      (fold (\<lambda>(m, em) h. signaturesHolder_ProcessNewMessage h (Some m) (Some em))
         (map (\<lambda>(s, mh). (\<lparr> Payload = s, PublicKeyBytes = [1], Signature = [], msg_Nonce = 0 \<rparr>,
                          \<lparr> eth_Signature = s, MessageHash = mh \<rparr>))
            [([1], [7]), ([2], [7]), ([1], [7]), ([3], [8])])
         (signaturesHolder_ClearStoredSignatures NewSignatureHolder)) [7])
   = {[1], [2 :: byte]}"
proof -
  have "range_order (rev :: (string \<times> unit) list \<Rightarrow> _)" by (simp add: range_order_def)
  note received = signatures_are_the_distinct_received [OF this, THEN conjunct2]
  show ?thesis unfolding received by auto
qed

lemma map_of_signedMessages_fold:
  "map_of (signedMessages (fold (\<lambda>(m, em) h. signaturesHolder_ProcessNewMessage h (Some m) (Some em)) msgs h))
   = foldl (\<lambda>f (m, em). f(UniqueID m \<mapsto> m)) (map_of (signedMessages h)) msgs"
  by (induction msgs arbitrary: h)
    (auto simp: signaturesHolder_ProcessNewMessage_def update_conv')

text \<open>
  The stored signed messages are keyed by public key and payload: of the messages of one relayer
  with one payload only the last one is kept, and all other messages are kept.
\<close>

theorem last_message_per_key_is_stored:
  "map_of (signedMessages (fold (\<lambda>(m, em) h. signaturesHolder_ProcessNewMessage h (Some m) (Some em)) msgs NewSignatureHolder)) k
   = map_option fst (find (\<lambda>(m, em). UniqueID m = k) (rev msgs))"
proof -
  have "foldl (\<lambda>f (m, em). f(UniqueID m \<mapsto> m)) f msgs k
      = (case find (\<lambda>(m, em). UniqueID m = k) (rev msgs) of None \<Rightarrow> f k | Some (m, em) \<Rightarrow> Some m)" for f
  proof (induction msgs rule: rev_induct)
    case Nil
    then show ?case by simp
  next
    case (snoc x xs)
    then show ?case by (cases x) auto
  qed
  from this [of Map.empty] show ?thesis
    unfolding map_of_signedMessages_fold
    by (simp add: NewSignatureHolder_def split: option.split prod.split)
qed

end
