(* ===== verification/Broadcaster.thy ===== *)
theory Broadcaster
  imports P2P_Messages Signatures_Holder
begin

section \<open>The broadcaster (p2p/broadcaster.go) and its neighbours\<close>

text \<open>
  Passing messages between the network messenger and the broadcast clients. A run of a method works
  on the broadcaster's own fields (the counter, the nonces, the clients) and the state \<open>'s\<close> of the
  messenger, the role providers, the antiflood components and whatever the clients keep.
\<close>

definition joinTopicSuffix :: string where
  "joinTopicSuffix = ''_join''"
definition signTopicSuffix :: string where
  "signTopicSuffix = ''_sign''"
definition defaultTopicIdentifier :: string where
  "defaultTopicIdentifier = ''default''"
definition joinTopicMessage :: string where
  "joinTopicMessage = ''join topic''"

record 's BroadcastClient =
  ProcessNewMessage :: "SignedMessage \<Rightarrow> EthereumSignature \<Rightarrow> ('s, unit) go"
  AllStoredSignatures :: "('s, SignedMessage list) go"

record ('s, 'pk) broadcasterDeps = "('s, 'pk) p2pDeps" +
  p2p_IsWhitelisted :: "bytes \<Rightarrow> ('s, bool) go"
  p2p_VerifyEthSignature :: "bytes \<Rightarrow> bytes \<Rightarrow> ('s, gerror option) go"
  messenger_Broadcast :: "string \<Rightarrow> bytes \<Rightarrow> ('s, unit) go"
  messenger_SendToConnectedPeer :: "string \<Rightarrow> bytes \<Rightarrow> string \<Rightarrow> ('s, gerror option) go"
  messenger_CreateTopic :: "string \<Rightarrow> bool \<Rightarrow> ('s, gerror option) go"
  messenger_RegisterMessageProcessor :: "string \<Rightarrow> string \<Rightarrow> ('s, gerror option) go"
  messenger_Close :: "('s, gerror option) go"
  joinTopicName :: string
  signTopicName :: string

record 's broadcaster =
  counter :: uint64
  nonces :: noncesOfPublicKeys
  clients :: "'s BroadcastClient list"

text \<open>\<^verbatim>\<open>p2p_IsWhitelisted\<close> is asked with the bytes of the address made from the public key.\<close>

record ArgsBroadcaster =
  ab_Messenger :: "unit option"
  ab_Log :: "unit option"
  ab_ElrondRoleProvider :: "unit option"
  ab_SignatureProcessor :: "unit option"
  ab_KeyGen :: "unit option"
  ab_SingleSigner :: "unit option"
  ab_PrivateKey :: "unit option"
  ab_Name :: string
  ab_AntifloodComponents :: "unit option"

definition broadcaster_checkArgs :: "ArgsBroadcaster \<Rightarrow> gerror option" where
  "broadcaster_checkArgs args =
     (if length (ab_Name args) = 0 then Some ErrEmptyName
      else if ab_Log args = None then Some p2p_ErrNilLogger
      else if ab_KeyGen args = None then Some ErrNilKeyGenerator
      else if ab_PrivateKey args = None then Some ErrNilPrivateKey
      else if ab_SingleSigner args = None then Some ErrNilSingleSigner
      else if ab_ElrondRoleProvider args = None then Some ErrNilElrondRoleProvider
      else if ab_Messenger args = None then Some ErrNilMessenger
      else if ab_SignatureProcessor args = None then Some ErrNilSignatureProcessor
      else if ab_AntifloodComponents args = None then Some ErrNilAntifloodComponents
      else None)"

definition NewBroadcaster ::
  "uint64 \<Rightarrow> bytes res \<Rightarrow> ArgsBroadcaster \<Rightarrow> ('s broadcaster \<times> bytes \<times> string \<times> string) res" where
  \<comment> \<open>\<open>now\<close> is \<^verbatim>\<open>time.Now().UnixNano()\<close>, \<open>pk\<close> the private key's public key as a byte array; the result
     has the public key and the names of the two topics beside the mutable fields\<close>
  "NewBroadcaster now pk args =
     (case broadcaster_checkArgs args of
        Some err \<Rightarrow> Inl err
      | None \<Rightarrow>
          (case pk of
             Inl err \<Rightarrow> Inl err
           | Inr pkb \<Rightarrow> Inr (\<lparr> counter = now, nonces = newNoncesOfPublicKeys, clients = [] \<rparr>, pkb,
                            ab_Name args @ joinTopicSuffix, ab_Name args @ signTopicSuffix)))"

fun register_topics :: "('s, 'pk) broadcasterDeps \<Rightarrow> string list \<Rightarrow> ('s, gerror option) go" where
  "register_topics d [] s = Some (None, s)"
| "register_topics d (topic # topics) s = do {
     (err, s) \<leftarrow> messenger_CreateTopic d topic True s;
     case err of
       Some er \<Rightarrow> Some (Some er, s)
     | None \<Rightarrow> do {
         (err, s) \<leftarrow> messenger_RegisterMessageProcessor d topic defaultTopicIdentifier s;
         case err of
           Some er \<Rightarrow> Some (Some er, s)
         | None \<Rightarrow> register_topics d topics s } }"

definition broadcaster_RegisterOnTopics :: "('s, 'pk) broadcasterDeps \<Rightarrow> ('s, gerror option) go" where
  "broadcaster_RegisterOnTopics d = register_topics d [joinTopicName d, signTopicName d]"

subsection \<open>Sign messages\<close>

definition getEthereumSignature ::
  "('s, 'pk) broadcasterDeps \<Rightarrow> SignedMessage \<Rightarrow> ('s, EthereumSignature res) go" where
  "getEthereumSignature d msg = (\<lambda>s.
     case Unmarshal_EthereumSignature d (Payload msg) of
       Inl err \<Rightarrow> Some (Inl err, s)
     | Inr ethSignature \<Rightarrow> do {
         (err, s) \<leftarrow> p2p_VerifyEthSignature d (eth_Signature ethSignature) (MessageHash ethSignature) s;
         case err of
           Some er \<Rightarrow> Some (Inl er, s)
         | None \<Rightarrow> Some (Inr ethSignature, s) })"

fun notifyClients :: "'s BroadcastClient list \<Rightarrow> SignedMessage \<Rightarrow> EthereumSignature \<Rightarrow> ('s, unit) go" where
  "notifyClients [] msg ethMsg s = Some ((), s)"
| "notifyClients (client # cs) msg ethMsg s = do {
     (_, s) \<leftarrow> ProcessNewMessage client msg ethMsg s;
     notifyClients cs msg ethMsg s }"

definition processSignMessage ::
  "('s, 'pk) broadcasterDeps \<Rightarrow> SignedMessage \<Rightarrow> ('s broadcaster \<times> 's, unit) go" where
  "processSignMessage d msg = (\<lambda>(b, s). do {
     (r, s) \<leftarrow> getEthereumSignature d msg s;
     case r of
       Inl err \<Rightarrow> Some ((), (b, s))
     | Inr ethSignature \<Rightarrow> do {
         (_, s) \<leftarrow> notifyClients (clients b) msg ethSignature s;
         Some ((), (b, s)) } })"

subsection \<open>Join messages\<close>

fun retrieveUniqueMessages ::
  "'s BroadcastClient list \<Rightarrow> (string, SignedMessage) gomap \<Rightarrow> ('s, (string, SignedMessage) gomap) go" where
  "retrieveUniqueMessages [] allMessages s = Some (allMessages, s)"
| "retrieveUniqueMessages (client # cs) allMessages s = do {
     (messages, s) \<leftarrow> AllStoredSignatures client s;
     retrieveUniqueMessages cs (fold (\<lambda>msg m. AList.update (UniqueID msg) msg m) messages allMessages) s }"

definition sendSignedMessageToPeer ::
  "('s, 'pk) broadcasterDeps \<Rightarrow> SignedMessage \<Rightarrow> string \<Rightarrow> ('s, gerror option) go" where
  "sendSignedMessageToPeer d msg peerId = (\<lambda>s.
     case Marshal_SignedMessage d msg of
       Inl err \<Rightarrow> Some (Some err, s)
     | Inr buff \<Rightarrow> messenger_SendToConnectedPeer d (signTopicName d) buff peerId s)"

fun send_all :: "('s, 'pk) broadcasterDeps \<Rightarrow> SignedMessage list \<Rightarrow> string \<Rightarrow> ('s, unit) go" where
  \<comment> \<open>an error is logged and the loop goes on\<close>
  "send_all d [] peerId s = Some ((), s)"
| "send_all d (msg # msgs) peerId s = do {
     (_, s) \<leftarrow> sendSignedMessageToPeer d msg peerId s;
     send_all d msgs peerId s }"

definition broadcastCurrentSignatures ::
  "((string \<times> SignedMessage) list \<Rightarrow> (string \<times> SignedMessage) list) \<Rightarrow> ('s, 'pk) broadcasterDeps \<Rightarrow> string
   \<Rightarrow> ('s broadcaster \<times> 's, gerror option) go" where
  "broadcastCurrentSignatures ord d peerId = (\<lambda>(b, s). do {
     (allMessages, s) \<leftarrow> retrieveUniqueMessages (clients b) [] s;
     (_, s) \<leftarrow> send_all d (map snd (ord allMessages)) peerId s;
     Some (None, (b, s)) })"

definition processJoinMessage ::
  "((string \<times> SignedMessage) list \<Rightarrow> (string \<times> SignedMessage) list) \<Rightarrow> ('s, 'pk) broadcasterDeps
   \<Rightarrow> messageP2P \<Rightarrow> ('s broadcaster \<times> 's, unit) go" where
  "processJoinMessage ord d message = (\<lambda>e. do {
     (_, e) \<leftarrow> broadcastCurrentSignatures ord d (Peer message) e;
     Some ((), e) })"

subsection \<open>Receiving\<close>

definition broadcaster_ProcessReceivedMessage ::
  "((string \<times> SignedMessage) list \<Rightarrow> (string \<times> SignedMessage) list) \<Rightarrow> ('s, 'pk) broadcasterDeps
   \<Rightarrow> messageP2P option \<Rightarrow> string \<Rightarrow> ('s broadcaster \<times> 's, gerror option) go" where
  "broadcaster_ProcessReceivedMessage ord d message fromConnectedPeer = (\<lambda>(b, s). do {
     (r, s) \<leftarrow> preProcessMessage d message fromConnectedPeer s;
     case r of
       Inl err \<Rightarrow> Some (Some err, (b, s))
     | Inr msg \<Rightarrow> do {
         let hexPkBytes = hex_EncodeToString (PublicKeyBytes msg);
         (whitelisted, s) \<leftarrow> p2p_IsWhitelisted d (PublicKeyBytes msg) s;
         if \<not> whitelisted
         then Some (Some (Errorf '''' ErrPeerNotWhitelisted ('' for peer: '' @ hexPkBytes)), (b, s))
         else (case processNonce (nonces b) msg of
            (Some err, _) \<Rightarrow> Some (Some err, (b, s))
          | (None, nonces') \<Rightarrow> do {
              let b = b\<lparr>nonces := nonces'\<rparr>;
              (err, s) \<leftarrow> canProcessMessage d message fromConnectedPeer s;
              case err of
                Some er \<Rightarrow> Some (Some er, (b, s))
              | None \<Rightarrow>
                  (case message of
                     None \<Rightarrow> None
                   | Some m \<Rightarrow>
                       if Topic m = joinTopicName d then do {
                         (_, e) \<leftarrow> processJoinMessage ord d m (b, s);
                         Some (None, e) }
                       else if Topic m = signTopicName d then do {
                         (_, e) \<leftarrow> processSignMessage d msg (b, s);
                         Some (None, e) }
                       else Some (None, (b, s))) }) } })"

subsection \<open>Sending\<close>

definition broadcastMessage ::
  "('s, 'pk) broadcasterDeps \<Rightarrow> bytes \<Rightarrow> string \<Rightarrow> ('s broadcaster \<times> 's, gerror option) go" where
  "broadcastMessage d payload topic = (\<lambda>(b, s).
     (let (r, c) = createMessage d payload (counter b); b = b\<lparr>counter := c\<rparr> in
      case r of
        Inl err \<Rightarrow> Some (Some err, (b, s))
      | Inr msg \<Rightarrow>
          (case Marshal_SignedMessage d msg of
             Inl err \<Rightarrow> Some (Some err, (b, s))
           | Inr buff \<Rightarrow> do {
               (_, s) \<leftarrow> messenger_Broadcast d topic buff s;
               Some (None, (b, s)) })))"

definition BroadcastSignature :: "('s, 'pk) broadcasterDeps \<Rightarrow> bytes \<Rightarrow> bytes \<Rightarrow> ('s broadcaster \<times> 's, unit) go" where
  \<comment> \<open>an error of the marshalizer is logged, and the nil payload it left is broadcast\<close>
  "BroadcastSignature d signature messageHash = (\<lambda>e. do {
     let ethSig = \<lparr> eth_Signature = signature, MessageHash = messageHash \<rparr>;
     let payload = (case Marshal_EthereumSignature d ethSig of Inl _ \<Rightarrow> [] | Inr p \<Rightarrow> p);
     (_, e) \<leftarrow> broadcastMessage d payload (signTopicName d) e;
     Some ((), e) })"

definition BroadcastJoinTopic :: "('s, 'pk) broadcasterDeps \<Rightarrow> ('s broadcaster \<times> 's, unit) go" where
  "BroadcastJoinTopic d = (\<lambda>e. do {
     (_, e) \<leftarrow> broadcastMessage d (bytes_of_string joinTopicMessage) (joinTopicName d) e;
     Some ((), e) })"

definition AddBroadcastClient :: "'s BroadcastClient option \<Rightarrow> 's broadcaster \<Rightarrow> gerror option \<times> 's broadcaster" where
  "AddBroadcastClient client b =
     (case client of
        None \<Rightarrow> (Some ErrNilBroadcastClient, b)
      | Some c \<Rightarrow> (None, b\<lparr>clients := clients b @ [c]\<rparr>))"

definition broadcaster_Close :: "('s, 'pk) broadcasterDeps \<Rightarrow> ('s, gerror option) go" where
  "broadcaster_Close d = messenger_Close d"

subsection \<open>Peer denial (peerDenialEvaluator.go) and the status of the messenger (statusHandlerAdapter.go)\<close>

record 's peerDenialEvaluator =
  blackListIDsCache_Has :: "string \<Rightarrow> ('s, bool) go"
  blackListIDsCache_Upsert :: "string \<Rightarrow> int \<Rightarrow> ('s, gerror option) go"
  blackListedPublicKeysCache_Has :: "string \<Rightarrow> ('s, bool) go"

definition NewPeerDenialEvaluator ::
  "((string \<Rightarrow> ('s, bool) go) \<times> (string \<Rightarrow> int \<Rightarrow> ('s, gerror option) go)) option \<Rightarrow> (string \<Rightarrow> ('s, bool) go) option
   \<Rightarrow> 's peerDenialEvaluator res" where
  "NewPeerDenialEvaluator ids pks =
     (case ids of
        None \<Rightarrow> Inl ErrNilBlackListIDsCache
      | Some (has_id, upsert) \<Rightarrow>
          (case pks of
             None \<Rightarrow> Inl ErrNilBlackListedPublicKeysCache
           | Some has_pk \<Rightarrow> Inr \<lparr> blackListIDsCache_Has = has_id, blackListIDsCache_Upsert = upsert,
                               blackListedPublicKeysCache_Has = has_pk \<rparr>))"

definition peerDenialEvaluator_IsDenied :: "'s peerDenialEvaluator \<Rightarrow> string \<Rightarrow> ('s, bool) go" where
  "peerDenialEvaluator_IsDenied p pid = (\<lambda>s. do {
     (has, s) \<leftarrow> blackListIDsCache_Has p pid s;
     if has then Some (True, s)
     else blackListedPublicKeysCache_Has p pid s })"

definition peerDenialEvaluator_UpsertPeerID :: "'s peerDenialEvaluator \<Rightarrow> string \<Rightarrow> int \<Rightarrow> ('s, gerror option) go" where
  "peerDenialEvaluator_UpsertPeerID p pid duration = blackListIDsCache_Upsert p pid duration"

fun strings_Join :: "string list \<Rightarrow> string \<Rightarrow> string" where
  "strings_Join [] sep = ''''"
| "strings_Join [x] sep = x"
| "strings_Join (x # xs) sep = x @ sep @ strings_Join xs sep"

definition NewStatusHandlerAdapter ::
  "'s StatusHandler option \<Rightarrow> (('s, string list) go \<times> ('s, string list) go) option
   \<Rightarrow> ('s StatusHandler \<times> ('s, string list) go \<times> ('s, string list) go) res" where
  "NewStatusHandlerAdapter statusHandler messenger =
     (case statusHandler of
        None \<Rightarrow> Inl p2p_ErrNilStatusHandler
      | Some sh \<Rightarrow> (case messenger of None \<Rightarrow> Inl ErrNilMessenger | Some (a, c) \<Rightarrow> Inr (sh, a, c)))"

definition statusHandlerAdapter_Execute ::
  "'s StatusHandler \<times> ('s, string list) go \<times> ('s, string list) go \<Rightarrow> ('s, gerror option) go" where
  "statusHandlerAdapter_Execute = (\<lambda>(sh, addresses, connected) s. do {
     (hostAddresses, s) \<leftarrow> addresses s;
     (_, s) \<leftarrow> SetStringMetric sh MetricRelayerP2PAddresses (strings_Join hostAddresses '' '') s;
     (connectedAddresses, s) \<leftarrow> connected s;
     (_, s) \<leftarrow> SetStringMetric sh MetricConnectedP2PAddresses (strings_Join connectedAddresses '' '') s;
     Some (None, s) })"

subsection \<open>Lemmas\<close>

definition message_authentic :: "('s, 'pk, 'z) p2pDeps_scheme \<Rightarrow> messageP2P \<Rightarrow> SignedMessage \<Rightarrow> bool" where
  "message_authentic d m msg \<longleftrightarrow>
     Unmarshal_SignedMessage d (Data m) = Inr msg \<and> checkLengths msg = None
     \<and> (\<exists>pk. PublicKeyFromByteArray d (PublicKeyBytes msg) = Inr pk
          \<and> signer_Verify d pk (Payload msg @ PutUint64 (msg_Nonce msg)) (Signature msg) = None)"

lemma preProcessMessage_Inr:
  "preProcessMessage d (Some m) peer s = Some (Inr msg, s') \<longleftrightarrow> message_authentic d m msg \<and> s' = s"
  by (auto simp: preProcessMessage_def message_authentic_def Let_def elim!: go_bindE split: sum.splits option.splits)

lemma processNonce_None:
  "processNonce ns msg = (None, ns') \<longleftrightarrow> stored_nonce ns (PublicKeyBytes msg) < msg_Nonce msg
     \<and> ns' = AList.update (string_of_bytes (PublicKeyBytes msg)) (msg_Nonce msg) ns"
  by (auto simp: processNonce_def Let_def)

lemma processJoinMessage_frame: "processJoinMessage ord d m (b, s) = Some (u, (b', s')) \<Longrightarrow> b' = b"
  by (auto simp: processJoinMessage_def broadcastCurrentSignatures_def elim!: go_bindE)

lemma processSignMessage_frame: "processSignMessage d msg (b, s) = Some (u, (b', s')) \<Longrightarrow> b' = b"
  by (auto simp: processSignMessage_def elim!: go_bindE split: go_split_asm)

lemma ProcessReceivedMessage_None:
  assumes "broadcaster_ProcessReceivedMessage ord d (Some m) peer (b, s) = Some (None, (b', s'))"
  obtains msg s1 where "message_authentic d m msg" and "p2p_IsWhitelisted d (PublicKeyBytes msg) s = Some (True, s1)"
    and "stored_nonce (nonces b) (PublicKeyBytes msg) < msg_Nonce msg"
    and "b' = b\<lparr>nonces := AList.update (string_of_bytes (PublicKeyBytes msg)) (msg_Nonce msg) (nonces b)\<rparr>"
  using assms unfolding broadcaster_ProcessReceivedMessage_def Let_def
  by (auto simp: preProcessMessage_Inr processNonce_None elim!: go_bindE split: go_split_asm
       dest!: processJoinMessage_frame processSignMessage_frame)

subsection \<open>The signatures holder as a broadcast client\<close>

text \<open>
  The holder the Ethereum client reads is the broadcaster's client. Its state is the first part of
  the world; no other service touches it, nor what \<open>v\<close> shows of the rest (\<open>private_view v\<close>).
\<close>

definition holder_client :: "(signaturesHolder \<times> 't) BroadcastClient" where
  "holder_client =
     \<lparr> ProcessNewMessage = (\<lambda>m em (h, t). Some ((), (signaturesHolder_ProcessNewMessage h (Some m) (Some em), t))),
       AllStoredSignatures = (\<lambda>(h, t). Some (signaturesHolder_AllStoredSignatures (\<lambda>xs. xs) h, (h, t))) \<rparr>"

definition keeps_view :: "('t \<Rightarrow> 'v) \<Rightarrow> (signaturesHolder \<times> 't, 'a) go \<Rightarrow> bool" where
  "keeps_view v m \<longleftrightarrow> (\<forall>e r e'. m e = Some (r, e') \<longrightarrow> fst e' = fst e \<and> v (snd e') = v (snd e))"

abbreviation keeps_holder :: "(signaturesHolder \<times> 't, 'a) go \<Rightarrow> bool" where
  "keeps_holder \<equiv> keeps_view (\<lambda>_. ())"

definition private_view :: "('t \<Rightarrow> 'v) \<Rightarrow> (signaturesHolder \<times> 't, 'pk) broadcasterDeps \<Rightarrow> bool" where
  "private_view v d \<longleftrightarrow>
     (\<forall>m p. keeps_view v (CanProcessMessage d m p))
     \<and> (\<forall>p t n k q. keeps_view v (CanProcessMessagesOnTopic d p t n k q))
     \<and> (\<forall>p r. keeps_view v (BlacklistPeer d p r))
     \<and> (\<forall>a. keeps_view v (p2p_IsWhitelisted d a))
     \<and> (\<forall>g h. keeps_view v (p2p_VerifyEthSignature d g h))
     \<and> (\<forall>t b p. keeps_view v (messenger_SendToConnectedPeer d t b p))"

abbreviation holder_private :: "(signaturesHolder \<times> 't, 'pk) broadcasterDeps \<Rightarrow> bool" where
  "holder_private \<equiv> private_view (\<lambda>_. ())"

definition signatures_verified :: "(signaturesHolder \<times> 't, 'pk) broadcasterDeps \<Rightarrow> signaturesHolder \<Rightarrow> bool" where
  "signatures_verified d h \<longleftrightarrow>
     (\<forall>em \<in> set (ethMessages h). \<exists>e e'. p2p_VerifyEthSignature d (eth_Signature em) (MessageHash em) e = Some (None, e'))"

text \<open>What a received message adds to the holder was verified in a state with the same view.\<close>

definition adds_verified ::
  "('t \<Rightarrow> 'v) \<Rightarrow> (signaturesHolder \<times> 't, 'pk) broadcasterDeps \<Rightarrow> signaturesHolder \<times> 't \<Rightarrow> signaturesHolder \<times> 't \<Rightarrow> bool" where
  "adds_verified v d e e' \<longleftrightarrow> v (snd e') = v (snd e)
     \<and> (\<forall>em \<in> set (ethMessages (fst e')). em \<in> set (ethMessages (fst e))
          \<or> (\<exists>e1 e2. v (snd e1) = v (snd e) \<and> p2p_VerifyEthSignature d (eth_Signature em) (MessageHash em) e1 = Some (None, e2)))"

lemma adds_verified_same: "fst e' = fst e \<Longrightarrow> v (snd e') = v (snd e) \<Longrightarrow> adds_verified v d e e'"
  by (simp add: adds_verified_def)

lemma adds_verified_signatures: "adds_verified v d e e' \<Longrightarrow> signatures_verified d (fst e) \<Longrightarrow> signatures_verified d (fst e')"
  unfolding adds_verified_def signatures_verified_def by blast

lemma keeps_view_run:
  "keeps_view v m \<Longrightarrow> (\<And>r e'. m e = Some (r, e') \<Longrightarrow> fst e' = fst e \<Longrightarrow> v (snd e') = v (snd e) \<Longrightarrow> Q r e') \<Longrightarrow> runs False (m e) Q"
  by (rule runs_total) (simp, unfold keeps_view_def, blast)

lemma send_all_keeps:
  assumes "private_view v d"
  shows "runs False (send_all d msgs p e) (\<lambda>_ e'. fst e' = fst e \<and> v (snd e') = v (snd e))"
proof (induction msgs arbitrary: e)
  case Nil
  then show ?case by (simp add: runs_def)
next
  case (Cons msg msgs)
  have send: "keeps_view v (messenger_SendToConnectedPeer d t buff p)" for t buff
    using assms by (simp add: private_view_def)
  show ?case
    unfolding send_all.simps sendSignedMessageToPeer_def
    by (intro go_rules keeps_view_run [OF send] runs_weaken [OF Cons]) simp_all
qed

lemma processSignMessage_adds:
  assumes "private_view v d" and "clients b = [holder_client]"
  shows "runs False (processSignMessage d msg (b, e)) (\<lambda>_ (b', e'). b' = b \<and> adds_verified v d e e')"
proof -
  have verify: "keeps_view v (p2p_VerifyEthSignature d g h)" for g h
    using assms(1) by (simp add: private_view_def)
  have notify: "runs False (notifyClients (clients b) msg em e1) (\<lambda>_. adds_verified v d e)"
    if "fst e1 = fst e" and "v (snd e1) = v (snd e)" and "p2p_VerifyEthSignature d (eth_Signature em) (MessageHash em) e = Some (None, e1)" for em e1
    using that
    by (cases e; cases e1)
      (auto simp: holder_client_def signaturesHolder_ProcessNewMessage_def adds_verified_def runs_def assms(2))
  show ?thesis
    unfolding processSignMessage_def getEthereumSignature_def
    by (intro go_rules keeps_view_run [OF verify] runs_weaken [OF notify]) (simp_all add: adds_verified_same)
qed

lemma processJoinMessage_keeps:
  assumes "private_view v d" and "clients b = [holder_client]"
  shows "runs False (processJoinMessage ord d m (b, e)) (\<lambda>_ (b', e'). b' = b \<and> adds_verified v d e e')"
proof -
  have stored: "runs False (retrieveUniqueMessages (clients b) [] e) (\<lambda>_ e'. e' = e)"
    by (cases e) (simp add: holder_client_def runs_def assms(2))
  show ?thesis
    unfolding processJoinMessage_def broadcastCurrentSignatures_def
    by (intro go_rules runs_weaken [OF stored] runs_weaken [OF send_all_keeps [OF assms(1)]]) (simp_all add: adds_verified_same)
qed

lemma keeps_viewI: "(\<And>e. runs False (m e) (\<lambda>_ e'. fst e' = fst e \<and> v (snd e') = v (snd e))) \<Longrightarrow> keeps_view v m"
  unfolding keeps_view_def by (blast dest: runsD)

lemma checks_keep_view:
  assumes "private_view v d"
  shows "keeps_view v (preProcessMessage d message peer)" and "keeps_view v (canProcessMessage d message peer)"
    and "keeps_view v (p2p_IsWhitelisted d a)"
proof -
  have calls: "keeps_view v (CanProcessMessage d m p)" "keeps_view v (CanProcessMessagesOnTopic d p t n k q)"
    "keeps_view v (BlacklistPeer d p t)" for m p t n k q
    using assms by (simp_all add: private_view_def)
  show "keeps_view v (preProcessMessage d message peer)"
    unfolding preProcessMessage_def Let_def
    by (rule keeps_viewI) (intro go_rules calls [THEN keeps_view_run]; simp)
  show "keeps_view v (canProcessMessage d message peer)"
    unfolding canProcessMessage_def
    by (rule keeps_viewI) (intro go_rules calls [THEN keeps_view_run]; simp)
  show "keeps_view v (p2p_IsWhitelisted d a)" using assms by (simp add: private_view_def)
qed

lemma ProcessReceivedMessage_adds:
  assumes "private_view v d" and "clients b = [holder_client]"
  shows "runs False (broadcaster_ProcessReceivedMessage ord d message peer (b, e))
           (\<lambda>_ (b', e'). clients b' = clients b \<and> adds_verified v d e e')"
proof -
  note calls = checks_keep_view [OF assms(1), THEN keeps_view_run]
  have sign: "runs False (processSignMessage d msg (b\<lparr>nonces := ns\<rparr>, e')) (\<lambda>_ (b', e'). clients b' = clients b \<and> adds_verified v d e e')"
    if "fst e' = fst e" and "v (snd e') = v (snd e)" for ns e' msg
    by (rule runs_weaken [OF processSignMessage_adds [OF assms(1)]]) (use that assms in \<open>auto simp: adds_verified_def\<close>)
  have join: "runs False (processJoinMessage ord d m (b\<lparr>nonces := ns\<rparr>, e')) (\<lambda>_ (b', e'). clients b' = clients b \<and> adds_verified v d e e')"
    if "fst e' = fst e" and "v (snd e') = v (snd e)" for ns e' m
    by (rule runs_weaken [OF processJoinMessage_keeps [OF assms(1)]]) (use that assms in \<open>auto simp: adds_verified_def\<close>)
  show ?thesis
    unfolding broadcaster_ProcessReceivedMessage_def Let_def
    by (intro go_rules calls runs_weaken [OF sign] runs_weaken [OF join] runs_case_prod) (use assms in \<open>auto simp: adds_verified_same\<close>)
qed

lemma ProcessReceivedMessage_verified:
  assumes "holder_private d" and "signatures_verified d (fst e)" and "clients b = [holder_client]"
  shows "runs False (broadcaster_ProcessReceivedMessage ord d message peer (b, e))
           (\<lambda>_ (b', e'). clients b' = clients b \<and> signatures_verified d (fst e'))"
  by (rule runs_weaken [OF ProcessReceivedMessage_adds [OF assms(1,3)]])
    (auto dest: adds_verified_signatures [OF _ assms(2)])

subsection \<open>Properties\<close>

text \<open>
  C26: a message is accepted only if its bytes decode, none of its fields is oversized, its signature
  over payload and nonce verifies under its public key, that key is whitelisted at that moment, and
  its nonce is higher than the last accepted one of the key, which it replaces; nothing else of the
  broadcaster changes.
\<close>

theorem accepted_message_was_checked:
  assumes "broadcaster_ProcessReceivedMessage ord d (Some m) peer (b, s) = Some (None, (b', s'))"
  shows "\<exists>msg pk s1. Unmarshal_SignedMessage d (Data m) = Inr msg
     \<and> length (PublicKeyBytes msg) \<le> 1024 \<and> length (Signature msg) \<le> 1024 \<and> length (Payload msg) \<le> 1024
     \<and> PublicKeyFromByteArray d (PublicKeyBytes msg) = Inr pk
     \<and> signer_Verify d pk (Payload msg @ PutUint64 (msg_Nonce msg)) (Signature msg) = None
     \<and> p2p_IsWhitelisted d (PublicKeyBytes msg) s = Some (True, s1)
     \<and> stored_nonce (nonces b) (PublicKeyBytes msg) < msg_Nonce msg
     \<and> stored_nonce (nonces b') (PublicKeyBytes msg) = msg_Nonce msg \<and> b' = b\<lparr>nonces := nonces b'\<rparr>"
proof (rule ProcessReceivedMessage_None [OF assms])
  fix msg s1
  assume msg: "message_authentic d m msg" "p2p_IsWhitelisted d (PublicKeyBytes msg) s = Some (True, s1)"
    "stored_nonce (nonces b) (PublicKeyBytes msg) < msg_Nonce msg"
    "b' = b\<lparr>nonces := AList.update (string_of_bytes (PublicKeyBytes msg)) (msg_Nonce msg) (nonces b)\<rparr>"
  then have "checkLengths msg = None" by (simp add: message_authentic_def)
  then have "length (PublicKeyBytes msg) \<le> 1024 \<and> length (Signature msg) \<le> 1024 \<and> length (Payload msg) \<le> 1024"
    by (simp add: checkLengths_def absolutMaxSliceSize_def split: if_split_asm)
  with msg show ?thesis by (auto simp: message_authentic_def stored_nonce_update)
qed

definition demo_broadcaster :: "(nat, bytes) broadcasterDeps" where
  "demo_broadcaster =
     p2pDeps.extend demo_p2p
       \<lparr> p2p_IsWhitelisted = (\<lambda>a s. Some (a = [7], s)), p2p_VerifyEthSignature = (\<lambda>_ _ s. Some (None, s)),
         messenger_Broadcast = (\<lambda>_ _ s. Some ((), s + 1)), messenger_SendToConnectedPeer = (\<lambda>_ _ _ s. Some (None, s + 1)),
         messenger_CreateTopic = (\<lambda>_ _ s. Some (None, s)), messenger_RegisterMessageProcessor = (\<lambda>_ _ s. Some (None, s)),
         messenger_Close = (\<lambda>s. Some (None, s)), joinTopicName = ''b_join'', signTopicName = ''b_sign'' \<rparr>"

abbreviation demo_fresh :: "nat broadcaster" where
  "demo_fresh \<equiv> \<lparr> counter = 0, nonces = [], clients = [] \<rparr>"

abbreviation demo_incoming :: messageP2P where
  "demo_incoming \<equiv> \<lparr> Data = [7] @ PutUint64 42 @ [1, 2, 3], Topic = ''b_sign'', Peer = ''p'', SeqNo = [] \<rparr>"

lemma demo_incoming_accepted:
  "broadcaster_ProcessReceivedMessage (\<lambda>xs. xs) demo_broadcaster (Some demo_incoming) ''q'' (demo_fresh, 0)
   = Some (None, (demo_fresh\<lparr>nonces := [(string_of_bytes [7], 42)]\<rparr>, 0))"
  by (simp add: broadcaster_ProcessReceivedMessage_def preProcessMessage_def canProcessMessage_def checkLengths_def
      absolutMaxSliceSize_def processNonce_def stored_nonce_def processSignMessage_def getEthereumSignature_def
      demo_broadcaster_def demo_p2p_def p2pDeps.defs)

theorem accepted_message_was_checked_witness:
  "\<exists>msg. Unmarshal_SignedMessage demo_broadcaster (Data demo_incoming) = Inr msg
     \<and> stored_nonce (nonces demo_fresh) (PublicKeyBytes msg) < msg_Nonce msg"
  using accepted_message_was_checked [OF demo_incoming_accepted] by blast

text \<open>
  C27: a message that is rejected, for whatever reason, reaches no broadcast client: the outcome is
  the same whatever clients are registered.
\<close>

theorem rejected_message_reaches_no_client:
  assumes "broadcaster_ProcessReceivedMessage ord d message peer (b, s) = Some (Some err, (b', s'))"
  shows "broadcaster_ProcessReceivedMessage ord d message peer (b\<lparr>clients := cs\<rparr>, s)
         = Some (Some err, (b'\<lparr>clients := cs\<rparr>, s'))"
  using assms unfolding broadcaster_ProcessReceivedMessage_def Let_def
  by (auto elim!: go_bindE split: go_split_asm)

lemma demo_replay_rejected:
  "broadcaster_ProcessReceivedMessage (\<lambda>xs. xs) demo_broadcaster (Some demo_incoming) ''q''
     (demo_fresh\<lparr>nonces := [(string_of_bytes [7], 42)]\<rparr>, 0)
   = Some (Some ErrNonceTooLowInReceivedMessage, (demo_fresh\<lparr>nonces := [(string_of_bytes [7], 42)]\<rparr>, 0))"
  by (simp add: broadcaster_ProcessReceivedMessage_def preProcessMessage_def checkLengths_def
      absolutMaxSliceSize_def processNonce_def stored_nonce_def demo_broadcaster_def demo_p2p_def p2pDeps.defs)

theorem rejected_message_reaches_no_client_witness:
  "broadcaster_ProcessReceivedMessage (\<lambda>xs. xs) demo_broadcaster (Some demo_incoming) ''q''
     (demo_fresh\<lparr>nonces := [(string_of_bytes [7], 42)],
        clients := [\<lparr> ProcessNewMessage = (\<lambda>_ _ _. None), AllStoredSignatures = (\<lambda>_. None) \<rparr>]\<rparr>, 0)
   \<noteq> None"
  using rejected_message_reaches_no_client [OF demo_replay_rejected,
      of "[\<lparr> ProcessNewMessage = (\<lambda>_ _ _. None), AllStoredSignatures = (\<lambda>_. None) \<rparr>]"]
  by simp

text \<open>
  The signatures holder only ever holds verified signatures: when it is the broadcaster's client
  and every signature it holds was accepted by \<^verbatim>\<open>VerifyEthSignature\<close> for the hash it is stored under,
  the same is true after any received message.
\<close>

theorem stored_signatures_were_verified:
  assumes "holder_private d" and "signatures_verified d (fst e)" and "clients b = [holder_client]"
    and "broadcaster_ProcessReceivedMessage ord d message peer (b, e) = Some (err, (b', e'))"
  shows "clients b' = [holder_client] \<and> signatures_verified d (fst e')"
  using runsD [OF ProcessReceivedMessage_verified [OF assms(1-3)] assms(4)] assms(3) by simp

definition demo_holder_broadcaster :: "(signaturesHolder \<times> nat, bytes) broadcasterDeps" where
  "demo_holder_broadcaster =
     \<lparr> Unmarshal_SignedMessage = Unmarshal_SignedMessage demo_p2p, Marshal_SignedMessage = Marshal_SignedMessage demo_p2p,
       Unmarshal_EthereumSignature = Unmarshal_EthereumSignature demo_p2p,
       Marshal_EthereumSignature = Marshal_EthereumSignature demo_p2p,
       PublicKeyFromByteArray = PublicKeyFromByteArray demo_p2p, signer_Verify = signer_Verify demo_p2p,
       signer_Sign = signer_Sign demo_p2p, publicKeyBytes = [7],
       CanProcessMessage = (\<lambda>_ _ s. Some (None, s)), CanProcessMessagesOnTopic = (\<lambda>_ _ _ _ _ s. Some (None, s)),
       BlacklistPeer = (\<lambda>_ _ s. Some ((), s)),
       p2p_IsWhitelisted = (\<lambda>a s. Some (a = [7], s)), p2p_VerifyEthSignature = (\<lambda>_ _ s. Some (None, s)),
       messenger_Broadcast = (\<lambda>_ _ s. Some ((), s)), messenger_SendToConnectedPeer = (\<lambda>_ _ _ s. Some (None, s)),
       messenger_CreateTopic = (\<lambda>_ _ s. Some (None, s)), messenger_RegisterMessageProcessor = (\<lambda>_ _ s. Some (None, s)),
       messenger_Close = (\<lambda>s. Some (None, s)), joinTopicName = ''b_join'', signTopicName = ''b_sign'' \<rparr>"

lemma demo_holder_private: "holder_private demo_holder_broadcaster"
  by (simp add: private_view_def keeps_view_def demo_holder_broadcaster_def)

lemma demo_holder_receives:
  "broadcaster_ProcessReceivedMessage (\<lambda>xs. xs) demo_holder_broadcaster (Some demo_incoming) ''q''
     (\<lparr> counter = 0, nonces = [], clients = [holder_client] \<rparr>, (NewSignatureHolder, 0))
   = Some (None, (\<lparr> counter = 0, nonces = [(string_of_bytes [7], 42)], clients = [holder_client] \<rparr>,
       (\<lparr> signedMessages = [(UniqueID demo_message, demo_message)],
          ethMessages = [\<lparr> eth_Signature = [1, 2, 3], MessageHash = [1, 2, 3] \<rparr>] \<rparr>, 0)))"
  by (simp add: broadcaster_ProcessReceivedMessage_def preProcessMessage_def canProcessMessage_def checkLengths_def
      absolutMaxSliceSize_def processNonce_def stored_nonce_def processSignMessage_def getEthereumSignature_def
      demo_holder_broadcaster_def demo_p2p_def holder_client_def signaturesHolder_ProcessNewMessage_def NewSignatureHolder_def)

theorem stored_signatures_were_verified_witness:
  "signatures_verified demo_holder_broadcaster
     \<lparr> signedMessages = [(UniqueID demo_message, demo_message)],
       ethMessages = [\<lparr> eth_Signature = [1, 2, 3], MessageHash = [1, 2, 3] \<rparr>] \<rparr>"
  using stored_signatures_were_verified [OF demo_holder_private _ _ demo_holder_receives]
  by (simp add: signatures_verified_def NewSignatureHolder_def)

end
