(* ===== verification/Elrond_DataGetter.thy ===== *)
theory Elrond_DataGetter
  imports Transfer_Batch Role_Providers
begin

section \<open>Queries to the Elrond multisig contract (clients/elrond/dataGetter.go)\<close>

text \<open>
  The read-only half of the Elrond client: assembling a VM query, running it through the proxy and
  parsing the answer. The query and transaction builders of the SDK are not part of the repository. A
  builder is the list of the calls made on it, and what the SDK makes of these calls
  (\<^verbatim>\<open>ToVmValueRequest\<close>, \<^verbatim>\<open>ToDataBytes\<close>) is a parameter. The answer of \<^verbatim>\<open>ExecuteVMQuery\<close> is \<open>None\<close>
  when the pointer it returns, or the one in its \<^verbatim>\<open>Data\<close> field, is nil. The fields the constructor sets
  are the record \<open>dataGetterDeps\<close>, the cached shard is the record \<open>elrondClientDataGetter\<close>.
\<close>

subsection \<open>Constants and errors\<close>

definition okCodeAfterExecution :: string where
  "okCodeAfterExecution = ''ok''"
definition internalError :: string where
  "internalError = ''internal error''"
definition getCurrentTxBatchFuncName :: string where
  "getCurrentTxBatchFuncName = ''getCurrentTxBatch''"
definition wasTransferActionProposedFuncName :: string where
  "wasTransferActionProposedFuncName = ''wasTransferActionProposed''"
definition wasActionExecutedFuncName :: string where
  "wasActionExecutedFuncName = ''wasActionExecuted''"
definition getActionIdForTransferBatchFuncName :: string where
  "getActionIdForTransferBatchFuncName = ''getActionIdForTransferBatch''"
definition wasSetCurrentTransactionBatchStatusActionProposedFuncName :: string where
  "wasSetCurrentTransactionBatchStatusActionProposedFuncName =
     ''wasSetCurrentTransactionBatchStatusActionProposed''"
definition getStatusesAfterExecutionFuncName :: string where
  "getStatusesAfterExecutionFuncName = ''getStatusesAfterExecution''"
definition getActionIdForSetCurrentTransactionBatchStatusFuncName :: string where
  "getActionIdForSetCurrentTransactionBatchStatusFuncName = ''getActionIdForSetCurrentTransactionBatchStatus''"
definition getTokenIdForErc20AddressFuncName :: string where
  "getTokenIdForErc20AddressFuncName = ''getTokenIdForErc20Address''"
definition getErc20AddressForTokenIdFuncName :: string where
  "getErc20AddressForTokenIdFuncName = ''getErc20AddressForTokenId''"
definition quorumReachedFuncName :: string where
  "quorumReachedFuncName = ''quorumReached''"
definition getLastExecutedEthBatchIdFuncName :: string where
  "getLastExecutedEthBatchIdFuncName = ''getLastExecutedEthBatchId''"
definition getLastExecutedEthTxId :: string where
  "getLastExecutedEthTxId = ''getLastExecutedEthTxId''"
definition signedFuncName :: string where
  "signedFuncName = ''signed''"
definition getAllStakedRelayersFuncName :: string where
  "getAllStakedRelayersFuncName = ''getAllStakedRelayers''"
definition isPausedFuncName :: string where
  "isPausedFuncName = ''isPaused''"

definition elrond_errNilLogger :: gerror where
  "elrond_errNilLogger = ErrNew ''elrond.errNilLogger'' ''nil logger''"
definition errNilProxy :: gerror where
  "errNilProxy = ErrNew ''elrond.errNilProxy'' ''nil ElrondProxy''"
definition errNilAddressHandler :: gerror where
  "errNilAddressHandler = ErrNew ''elrond.errNilAddressHandler'' ''nil address handler''"
definition errNilRequest :: gerror where
  "errNilRequest = ErrNew ''elrond.errNilRequest'' ''nil request''"
definition errNotUint64Bytes :: gerror where
  "errNotUint64Bytes =
     ErrNew ''elrond.errNotUint64Bytes'' ''provided bytes do not represent a valid uint64 number''"
definition errNoStatusForBatchID :: gerror where
  "errNoStatusForBatchID = ErrNew ''elrond.errNoStatusForBatchID'' ''no status for batch ID''"
definition errBatchNotFinished :: gerror where
  "errBatchNotFinished = ErrNew ''elrond.errBatchNotFinished'' ''batch not finished''"
definition errMalformedBatchResponse :: gerror where
  "errMalformedBatchResponse = ErrNew ''elrond.errMalformedBatchResponse'' ''malformed batch response''"
definition errNilNodeStatusResponse :: gerror where
  "errNilNodeStatusResponse = ErrNew ''elrond.errNilNodeStatusResponse'' ''nil node status response''"
definition clients_ErrNilBatch :: gerror where
  "clients_ErrNilBatch = ErrNew ''clients.ErrNilBatch'' ''nil batch''"

text \<open>
  The error a failed query gives (\<^verbatim>\<open>queryResponseError.go\<close>). Nothing inspects it but through its
  \<^verbatim>\<open>Error\<close> method, so as an error value it is its type and its text. \<^verbatim>\<open>%v\<close> of a slice of strings puts
  the elements between brackets, separated by blanks.
\<close>

record queryResponseError =
  qre_code :: string
  qre_message :: string
  qre_function :: string
  qre_arguments :: "string list"
  qre_address :: string

fun blank_separated :: "string list \<Rightarrow> string" where
  "blank_separated [] = ''''"
| "blank_separated [x] = x"
| "blank_separated (x # y # xs) = x @ '' '' @ blank_separated (y # xs)"

definition queryResponseError_Error :: "queryResponseError \<Rightarrow> string" where
  "queryResponseError_Error err =
     ''got response code '' @ [CHR 0x27] @ qre_code err @ [CHR 0x27]
     @ '' and message '' @ [CHR 0x27] @ qre_message err @ [CHR 0x27]
     @ '' while querying function '' @ [CHR 0x27] @ qre_function err @ [CHR 0x27]
     @ '' with arguments ['' @ blank_separated (qre_arguments err) @ ''] and address '' @ qre_address err"

definition NewQueryResponseError :: "string \<Rightarrow> string \<Rightarrow> string \<Rightarrow> string \<Rightarrow> string list \<Rightarrow> gerror" where
  "NewQueryResponseError code message function address arguments =
     ErrNew ''elrond.queryResponseError''
       (queryResponseError_Error \<lparr> qre_code = code, qre_message = message, qre_function = function,
          qre_arguments = arguments, qre_address = address \<rparr>)"

subsection \<open>Builders, requests and the proxy\<close>

datatype 'a BuilderCall =
    Address 'a | CallerAddress 'a | Function string
  | ArgBytes bytes | ArgInt64 int | ArgBigInt "int option" | ArgAddress 'a

type_synonym 'a Builder = "'a BuilderCall list"

definition int64 :: "uint64 \<Rightarrow> int" where
  \<comment> \<open>the conversion \<^verbatim>\<open>int64(x)\<close> of an unsigned number keeps the bits\<close>
  "int64 w = sint w"

record VmValueRequest =
  req_Address :: string
  FuncName :: string
  CallerAddr :: string
  Args :: "string list"

record VMOutputApi =
  ReturnData :: "bytes list"
  ReturnCode :: string
  ReturnMessage :: string

record NetworkConfig =
  ChainID :: string
  MinTransactionVersion :: "32 word"
  MinGasPrice :: uint64

record 's ElrondProxy =
  ExecuteVMQuery :: "VmValueRequest \<Rightarrow> ('s, VMOutputApi option res) go"
  GetNetworkStatus :: "32 word \<Rightarrow> ('s, uint64 option res) go"
  GetShardOfAddress :: "string \<Rightarrow> ('s, 32 word \<times> gerror option) go"
  GetNetworkConfig :: "('s, NetworkConfig option res) go"

text \<open>\<open>GetNetworkStatus\<close> gives the nonce of the status, \<open>None\<close> for a nil status.\<close>

record ('s, 'a) dataGetterDeps =
  multisigContractAddress :: 'a
  relayerAddress :: 'a
  proxy :: "'s ElrondProxy"
  AddressAsBech32String :: "'a \<Rightarrow> string"
  ToVmValueRequest :: "'a Builder \<Rightarrow> VmValueRequest option res"

record elrondClientDataGetter =
  wasShardIDFetched :: bool
  shardID :: "32 word"

record ('s, 'a) ArgsDataGetter =
  dg_MultisigContractAddress :: "'a option"
  dg_RelayerAddress :: "'a option"
  dg_Proxy :: "'s ElrondProxy option"
  dg_Log :: "unit option"

definition NewDataGetter ::
  "('a \<Rightarrow> string) \<Rightarrow> ('a Builder \<Rightarrow> VmValueRequest option res) \<Rightarrow> ('s, 'a) ArgsDataGetter
   \<Rightarrow> (('s, 'a) dataGetterDeps \<times> elrondClientDataGetter) res" where
  "NewDataGetter bech toReq args =
     (if dg_Log args = None then Inl elrond_errNilLogger
      else if dg_Proxy args = None then Inl errNilProxy
      else if dg_RelayerAddress args = None
      then Inl (Errorf '''' errNilAddressHandler '' for the RelayerAddress argument'')
      else if dg_MultisigContractAddress args = None
      then Inl (Errorf '''' errNilAddressHandler '' for the MultisigContractAddress argument'')
      else Inr (\<lparr> multisigContractAddress = the (dg_MultisigContractAddress args),
                  relayerAddress = the (dg_RelayerAddress args),
                  proxy = the (dg_Proxy args),
                  AddressAsBech32String = bech, ToVmValueRequest = toReq \<rparr>,
                \<lparr> wasShardIDFetched = False, shardID = 0 \<rparr>))"

subsection \<open>Executing queries\<close>

definition ExecuteQueryReturningBytes ::
  "('s, 'a, 'z) dataGetterDeps_scheme \<Rightarrow> VmValueRequest option \<Rightarrow> ('s, bytes list res) go" where
  "ExecuteQueryReturningBytes d request = (\<lambda>s.
     case request of
       None \<Rightarrow> Some (Inl errNilRequest, s)
     | Some req \<Rightarrow> do {
         (r, s) \<leftarrow> ExecuteVMQuery (proxy d) req s;
         case r of
           Inl err \<Rightarrow> Some (Inl err, s)
         | Inr response \<Rightarrow>
             (case response of
                None \<Rightarrow> None
              | Some out \<Rightarrow>
                  if ReturnCode out \<noteq> okCodeAfterExecution
                  then Some (Inl (NewQueryResponseError (ReturnCode out) (ReturnMessage out)
                                    (FuncName req) (req_Address req) (Args req)), s)
                  else Some (Inr (ReturnData out), s)) })"

definition getShardID ::
  "('s, 'a, 'z) dataGetterDeps_scheme \<Rightarrow> ('y elrondClientDataGetter_scheme \<times> 's, 32 word \<times> gerror option) go" where
  "getShardID d = (\<lambda>(dg, s).
     if wasShardIDFetched dg then Some ((shardID dg, None), (dg, s))
     else do {
       ((shard, err), s) \<leftarrow> GetShardOfAddress (proxy d) (AddressAsBech32String d (multisigContractAddress d)) s;
       let dg = dg\<lparr>shardID := shard\<rparr>;
       let dg = (if err = None then dg\<lparr>wasShardIDFetched := True\<rparr> else dg);
       Some ((shardID dg, err), (dg, s)) })"

definition GetCurrentNonce ::
  "('s, 'a, 'z) dataGetterDeps_scheme \<Rightarrow> ('y elrondClientDataGetter_scheme \<times> 's, uint64 res) go" where
  "GetCurrentNonce d = (\<lambda>(dg, s). do {
     ((shard, err), (dg, s)) \<leftarrow> getShardID d (dg, s);
     case err of
       Some er \<Rightarrow> Some (Inl er, (dg, s))
     | None \<Rightarrow> do {
         (r, s) \<leftarrow> GetNetworkStatus (proxy d) shard s;
         case r of
           Inl er \<Rightarrow> Some (Inl er, (dg, s))
         | Inr nodeStatus \<Rightarrow>
             (case nodeStatus of
                None \<Rightarrow> Some (Inl errNilNodeStatusResponse, (dg, s))
              | Some nonce \<Rightarrow> Some (Inr nonce, (dg, s))) } })"

definition parseBool :: "bytes \<Rightarrow> string \<Rightarrow> string \<Rightarrow> string list \<Rightarrow> bool res" where
  \<comment> \<open>the text of a \<^verbatim>\<open>strconv.NumError\<close> quotes the input\<close>
  "parseBool buff funcName address args =
     (case buff of
        [] \<Rightarrow> Inr False
      | b # _ \<Rightarrow>
          (let text = show_nat (unat b) in
           case strconv_ParseBool text of
             None \<Rightarrow> Inl (NewQueryResponseError internalError
                (''error converting the received bytes to bool, strconv.ParseBool: parsing ''
                 @ [CHR 0x22] @ text @ [CHR 0x22] @ '': invalid syntax'')
                funcName address args)
           | Some result \<Rightarrow> Inr result))"

definition ExecuteQueryReturningBool ::
  "('s, 'a, 'z) dataGetterDeps_scheme \<Rightarrow> VmValueRequest option \<Rightarrow> ('s, bool res) go" where
  "ExecuteQueryReturningBool d request = (\<lambda>s. do {
     (r, s) \<leftarrow> ExecuteQueryReturningBytes d request s;
     case r of
       Inl err \<Rightarrow> Some (Inl err, s)
     | Inr response \<Rightarrow>
         (case response of
            [] \<Rightarrow> Some (Inr False, s)
          | buff # _ \<Rightarrow>
              (case request of
                 None \<Rightarrow> None
               | Some req \<Rightarrow> Some (parseBool buff (FuncName req) (req_Address req) (Args req), s))) })"

definition parseUInt64FromByteSlice :: "bytes \<Rightarrow> uint64 res" where
  \<comment> \<open>\<^verbatim>\<open>IsUint64\<close> asks whether the number lies in the range of the type\<close>
  "parseUInt64FromByteSlice buff =
     (let num = SetBytes buff in
      if \<not> (0 \<le> num \<and> num < 2 ^ 64) then Inl errNotUint64Bytes else Inr (big_Uint64 num))"

definition ExecuteQueryReturningUint64 ::
  "('s, 'a, 'z) dataGetterDeps_scheme \<Rightarrow> VmValueRequest option \<Rightarrow> ('s, uint64 res) go" where
  "ExecuteQueryReturningUint64 d request = (\<lambda>s. do {
     (r, s) \<leftarrow> ExecuteQueryReturningBytes d request s;
     case r of
       Inl err \<Rightarrow> Some (Inl err, s)
     | Inr response \<Rightarrow>
         (case response of
            [] \<Rightarrow> Some (Inr 0, s)
          | buff # _ \<Rightarrow>
              if buff = [] then Some (Inr 0, s)
              else (case parseUInt64FromByteSlice buff of
                      Inl err \<Rightarrow>
                        (case request of
                           None \<Rightarrow> None
                         | Some req \<Rightarrow> Some (Inl (NewQueryResponseError internalError (error_text err)
                                         (FuncName req) (req_Address req) (Args req)), s))
                    | Inr num \<Rightarrow> Some (Inr num, s))) })"

definition executeQueryFromBuilder ::
  "('s, 'a, 'z) dataGetterDeps_scheme \<Rightarrow> 'a Builder \<Rightarrow> ('s, bytes list res) go" where
  "executeQueryFromBuilder d builder = (\<lambda>s.
     case ToVmValueRequest d builder of
       Inl err \<Rightarrow> Some (Inl err, s)
     | Inr vmValuesRequest \<Rightarrow> ExecuteQueryReturningBytes d vmValuesRequest s)"

definition executeQueryUint64FromBuilder ::
  "('s, 'a, 'z) dataGetterDeps_scheme \<Rightarrow> 'a Builder \<Rightarrow> ('s, uint64 res) go" where
  "executeQueryUint64FromBuilder d builder = (\<lambda>s.
     case ToVmValueRequest d builder of
       Inl err \<Rightarrow> Some (Inl err, s)
     | Inr vmValuesRequest \<Rightarrow> ExecuteQueryReturningUint64 d vmValuesRequest s)"

definition executeQueryBoolFromBuilder ::
  "('s, 'a, 'z) dataGetterDeps_scheme \<Rightarrow> 'a Builder \<Rightarrow> ('s, bool res) go" where
  "executeQueryBoolFromBuilder d builder = (\<lambda>s.
     case ToVmValueRequest d builder of
       Inl err \<Rightarrow> Some (Inl err, s)
     | Inr vmValuesRequest \<Rightarrow> ExecuteQueryReturningBool d vmValuesRequest s)"

definition createDefaultVmQueryBuilder :: "('s, 'a, 'z) dataGetterDeps_scheme \<Rightarrow> 'a Builder" where
  "createDefaultVmQueryBuilder d = [Address (multisigContractAddress d), CallerAddress (relayerAddress d)]"

subsection \<open>The queries\<close>

definition addBatchInfo :: "'a Builder \<Rightarrow> TransferBatch \<Rightarrow> 'a Builder" where
  "addBatchInfo builder b =
     fold (\<lambda>dt builder. builder @ [ArgBytes (FromBytes dt), ArgBytes (ToBytes dt),
             ArgBytes (ConvertedTokenBytes dt), ArgBigInt (Amount dt), ArgInt64 (int64 (Nonce dt))])
       (Deposits b) builder"

definition GetCurrentBatchAsDataBytes :: "('s, 'a, 'z) dataGetterDeps_scheme \<Rightarrow> ('s, bytes list res) go" where
  "GetCurrentBatchAsDataBytes d =
     executeQueryFromBuilder d (createDefaultVmQueryBuilder d @ [Function getCurrentTxBatchFuncName])"

definition GetTokenIdForErc20Address ::
  "('s, 'a, 'z) dataGetterDeps_scheme \<Rightarrow> bytes \<Rightarrow> ('s, bytes list res) go" where
  "GetTokenIdForErc20Address d erc20Address =
     executeQueryFromBuilder d
       (createDefaultVmQueryBuilder d @ [Function getTokenIdForErc20AddressFuncName] @ [ArgBytes erc20Address])"

definition GetERC20AddressForTokenId ::
  "('s, 'a, 'z) dataGetterDeps_scheme \<Rightarrow> bytes \<Rightarrow> ('s, bytes list res) go" where
  "GetERC20AddressForTokenId d tokenId =
     executeQueryFromBuilder d
       (createDefaultVmQueryBuilder d @ [Function getErc20AddressForTokenIdFuncName] @ [ArgBytes tokenId])"

definition WasProposedTransfer ::
  "('s, 'a, 'z) dataGetterDeps_scheme \<Rightarrow> TransferBatch option \<Rightarrow> ('s, bool res) go" where
  "WasProposedTransfer d b = (\<lambda>s.
     case b of
       None \<Rightarrow> Some (Inl clients_ErrNilBatch, s)
     | Some b \<Rightarrow>
         (let builder = createDefaultVmQueryBuilder d;
              builder = builder @ [Function wasTransferActionProposedFuncName, ArgInt64 (int64 (ID b))];
              builder = addBatchInfo builder b
          in executeQueryBoolFromBuilder d builder s))"

definition getter_WasExecuted :: "('s, 'a, 'z) dataGetterDeps_scheme \<Rightarrow> uint64 \<Rightarrow> ('s, bool res) go" where
  "getter_WasExecuted d actID =
     executeQueryBoolFromBuilder d
       (createDefaultVmQueryBuilder d @ [Function wasActionExecutedFuncName, ArgInt64 (int64 actID)])"

definition GetActionIDForProposeTransfer ::
  "('s, 'a, 'z) dataGetterDeps_scheme \<Rightarrow> TransferBatch option \<Rightarrow> ('s, uint64 res) go" where
  "GetActionIDForProposeTransfer d b = (\<lambda>s.
     case b of
       None \<Rightarrow> Some (Inl clients_ErrNilBatch, s)
     | Some b \<Rightarrow>
         (let builder = createDefaultVmQueryBuilder d;
              builder = builder @ [Function getActionIdForTransferBatchFuncName, ArgInt64 (int64 (ID b))];
              builder = addBatchInfo builder b
          in executeQueryUint64FromBuilder d builder s))"

definition add_statuses :: "'a Builder \<Rightarrow> bytes \<Rightarrow> 'a Builder" where
  \<comment> \<open>the loop \<^verbatim>\<open>for _, stat := range batch.Statuses\<close> over the builder\<close>
  "add_statuses builder statuses = fold (\<lambda>stat builder. builder @ [ArgBytes [stat]]) statuses builder"

definition WasProposedSetStatus ::
  "('s, 'a, 'z) dataGetterDeps_scheme \<Rightarrow> TransferBatch option \<Rightarrow> ('s, bool res) go" where
  "WasProposedSetStatus d b = (\<lambda>s.
     case b of
       None \<Rightarrow> Some (Inl clients_ErrNilBatch, s)
     | Some b \<Rightarrow>
         (let builder = createDefaultVmQueryBuilder d;
              builder = builder @ [Function wasSetCurrentTransactionBatchStatusActionProposedFuncName,
                                   ArgInt64 (int64 (ID b))];
              builder = add_statuses builder (Statuses b)
          in executeQueryBoolFromBuilder d builder s))"

definition getStatusFromBuff :: "bytes \<Rightarrow> byte res" where
  "getStatusFromBuff buff =
     (if buff = [] then Inl errMalformedBatchResponse else Inr (buff ! (length buff - 1)))"

fun statuses_loop :: "nat \<Rightarrow> bytes list \<Rightarrow> bytes \<Rightarrow> bytes res" where
  \<comment> \<open>the loop over \<^verbatim>\<open>values[1:]\<close>, which fills \<^verbatim>\<open>results\<close>\<close>
  "statuses_loop i [] results = Inr results"
| "statuses_loop i (v # vs) results =
     (case getStatusFromBuff v of
        Inl err \<Rightarrow> Inl (Errorf '''' err ('' for result index '' @ show_nat (i - 1)))
      | Inr st \<Rightarrow> statuses_loop (i + 1) vs (results[i - 1 := st]))"

definition getter_GetTransactionsStatuses ::
  "('s, 'a, 'z) dataGetterDeps_scheme \<Rightarrow> uint64 \<Rightarrow> ('s, bytes res) go" where
  "getter_GetTransactionsStatuses d batchID = (\<lambda>s. do {
     let builder = createDefaultVmQueryBuilder d @ [Function getStatusesAfterExecutionFuncName, ArgInt64 (int64 batchID)];
     (r, s) \<leftarrow> executeQueryFromBuilder d builder s;
     case r of
       Inl err \<Rightarrow> Some (Inl err, s)
     | Inr values \<Rightarrow>
         (case values of
            [] \<Rightarrow> Some (Inl (Errorf '''' errNoStatusForBatchID ('' for batch ID '' @ show_uint64 batchID)), s)
          | v # vs \<Rightarrow>
              (case parseBool v getStatusesAfterExecutionFuncName
                      (AddressAsBech32String d (multisigContractAddress d)) [] of
                 Inl err \<Rightarrow> Some (Inl err, s)
               | Inr isFinished \<Rightarrow>
                   if \<not> isFinished
                   then Some (Inl (Errorf '''' errBatchNotFinished ('' for batch ID '' @ show_uint64 batchID)), s)
                   else (case statuses_loop 1 vs (replicate (length values - 1) 0) of
                           Inl err \<Rightarrow> Some (Inl err, s)
                         | Inr results \<Rightarrow>
                             if length results = 0
                             then Some (Inl (Errorf '''' errMalformedBatchResponse
                                         '' status is finished, no results are given''), s)
                             else Some (Inr results, s)))) })"

definition GetActionIDForSetStatusOnPendingTransfer ::
  "('s, 'a, 'z) dataGetterDeps_scheme \<Rightarrow> TransferBatch option \<Rightarrow> ('s, uint64 res) go" where
  "GetActionIDForSetStatusOnPendingTransfer d b = (\<lambda>s.
     case b of
       None \<Rightarrow> Some (Inl clients_ErrNilBatch, s)
     | Some b \<Rightarrow>
         (let builder = createDefaultVmQueryBuilder d;
              builder = builder @ [Function getActionIdForSetCurrentTransactionBatchStatusFuncName,
                                   ArgInt64 (int64 (ID b))];
              builder = add_statuses builder (Statuses b)
          in executeQueryUint64FromBuilder d builder s))"

definition QuorumReached :: "('s, 'a, 'z) dataGetterDeps_scheme \<Rightarrow> uint64 \<Rightarrow> ('s, bool res) go" where
  "QuorumReached d actID =
     executeQueryBoolFromBuilder d
       (createDefaultVmQueryBuilder d @ [Function quorumReachedFuncName, ArgInt64 (int64 actID)])"

definition GetLastExecutedEthBatchID :: "('s, 'a, 'z) dataGetterDeps_scheme \<Rightarrow> ('s, uint64 res) go" where
  "GetLastExecutedEthBatchID d =
     executeQueryUint64FromBuilder d
       (createDefaultVmQueryBuilder d @ [Function getLastExecutedEthBatchIdFuncName])"

definition GetLastExecutedEthTxID :: "('s, 'a, 'z) dataGetterDeps_scheme \<Rightarrow> ('s, uint64 res) go" where
  "GetLastExecutedEthTxID d =
     executeQueryUint64FromBuilder d
       (createDefaultVmQueryBuilder d @ [Function getLastExecutedEthTxId])"

definition WasSigned :: "('s, 'a, 'z) dataGetterDeps_scheme \<Rightarrow> uint64 \<Rightarrow> ('s, bool res) go" where
  "WasSigned d actID =
     executeQueryBoolFromBuilder d
       (createDefaultVmQueryBuilder d
        @ [Function signedFuncName, ArgAddress (relayerAddress d), ArgInt64 (int64 actID)])"

definition GetAllStakedRelayers :: "('s, 'a, 'z) dataGetterDeps_scheme \<Rightarrow> ('s, bytes list res) go" where
  "GetAllStakedRelayers d =
     executeQueryFromBuilder d (createDefaultVmQueryBuilder d @ [Function getAllStakedRelayersFuncName])"

definition IsPaused :: "('s, 'a, 'z) dataGetterDeps_scheme \<Rightarrow> ('s, bool res) go" where
  "IsPaused d = executeQueryBoolFromBuilder d (createDefaultVmQueryBuilder d @ [Function isPausedFuncName])"

subsection \<open>Parsing the answers\<close>

lemma hd_show_nat: "hd (show_nat n) \<in> set ''0123456789''"
proof (induction n rule: show_nat.induct)
  case (1 n)
  have m: "''0123456789'' ! k \<in> set ''0123456789''" if "k < 10" for k
    using that by (intro nth_mem) (simp add: eval_nat_numeral)
  show ?case
  proof (cases "n < 10")
    case True
    then show ?thesis using m [OF True] by (simp add: show_nat_small)
  next
    case False
    have "show_nat (n div 10) \<noteq> []" by (simp add: show_nat.simps [of "n div 10"])
    then show ?thesis using 1 [OF False] False by (simp add: show_nat.simps [of n])
  qed
qed

lemma ParseBool_show_nat:
  "strconv_ParseBool (show_nat n) = (if n = 1 then Some True else if n = 0 then Some False else None)"
proof (cases "n < 10")
  case True
  then have "n \<in> {0, 1, 2, 3, 4, 5, 6, 7, 8, 9}" by auto
  then show ?thesis by (auto simp: show_nat_small strconv_ParseBool_def)
next
  case False
  then have "2 \<le> length (show_nat n)" by (simp add: length_show_nat_ge)
  then show ?thesis using False hd_show_nat [of n] by (auto simp: strconv_ParseBool_def)
qed

text \<open>The first byte decides: 1 is true, 0 and an empty buffer are false, all else is an error.\<close>

lemma parseBool_Inr_iff:
  "parseBool buff f a args = Inr v \<longleftrightarrow> (buff = [] \<or> hd buff = 0 \<or> hd buff = 1) \<and> v = (buff \<noteq> [] \<and> hd buff = 1)"
proof (cases buff)
  case Nil
  then show ?thesis by (auto simp: parseBool_def)
next
  case (Cons b bs)
  have "(unat b = 1) = (b = 1)" "(unat b = 0) = (b = 0)"
    by (auto simp: word_unat_eq_iff)
  then show ?thesis using Cons by (auto simp: parseBool_def ParseBool_show_nat)
qed

lemma parseUInt64_Inr_iff: "parseUInt64FromByteSlice buff = Inr w \<longleftrightarrow> SetBytes buff = uint w"
proof
  assume "parseUInt64FromByteSlice buff = Inr w"
  then show "SetBytes buff = uint w"
    by (auto simp: parseUInt64FromByteSlice_def Let_def big_Uint64_def uint_word_of_int split: if_splits)
next
  assume "SetBytes buff = uint w"
  then show "parseUInt64FromByteSlice buff = Inr w"
    using uint_lt2p [of w] by (simp add: parseUInt64FromByteSlice_def big_Uint64_def)
qed

lemma parseUInt64_Inl_iff:
  "parseUInt64FromByteSlice buff = Inl e \<longleftrightarrow> 2 ^ 64 \<le> SetBytes buff \<and> e = errNotUint64Bytes"
  by (auto simp: parseUInt64FromByteSlice_def Let_def)

lemma parseUInt64_PutUint64 [simp]: "parseUInt64FromByteSlice (PutUint64 w) = Inr w"
  by (simp add: parseUInt64_Inr_iff)

lemma statuses_loop_Inr_iff:
  assumes "length results = n + length vs"
  shows "statuses_loop (Suc n) vs results = Inr r \<longleftrightarrow> [] \<notin> set vs \<and> r = take n results @ map last vs"
  using assms
proof (induction vs arbitrary: n results)
  case Nil
  then show ?case by auto
next
  case (Cons v vs)
  have "statuses_loop (Suc (Suc n)) vs (results[n := last v]) = Inr r \<longleftrightarrow>
      [] \<notin> set vs \<and> r = take (Suc n) (results[n := last v]) @ map last vs"
    using Cons.prems by (intro Cons.IH) simp
  moreover have "take (Suc n) (results[n := last v]) = take n results @ [last v]"
    using Cons.prems by (simp add: take_Suc_conv_app_nth)
  ultimately show ?case by (auto simp: getStatusFromBuff_def last_conv_nth)
qed

lemma statuses_loop_result:
  "statuses_loop (Suc 0) vs (replicate (length vs) 0) = Inr r \<longleftrightarrow> [] \<notin> set vs \<and> r = map last vs"
  by (subst statuses_loop_Inr_iff) auto

definition statuses_of_values ::
  "('s, 'a, 'z) dataGetterDeps_scheme \<Rightarrow> uint64 \<Rightarrow> bytes \<Rightarrow> bytes list \<Rightarrow> ('s, bytes res) go" where
  \<comment> \<open>what \<^verbatim>\<open>GetTransactionsStatuses\<close> does with a non-empty answer\<close>
  "statuses_of_values d batchID v vs s =
     (case parseBool v ''getStatusesAfterExecution'' (AddressAsBech32String d (multisigContractAddress d)) [] of
        Inl err \<Rightarrow> Some (Inl err, s)
      | Inr isFinished \<Rightarrow>
          if \<not> isFinished
          then Some (Inl (Errorf '''' errBatchNotFinished ('' for batch ID '' @ show_uint64 batchID)), s)
          else (case statuses_loop 1 vs (replicate (length (v # vs) - 1) 0) of
                  Inl err \<Rightarrow> Some (Inl err, s)
                | Inr results \<Rightarrow>
                    if length results = 0
                    then Some (Inl (Errorf '''' errMalformedBatchResponse
                                '' status is finished, no results are given''), s)
                    else Some (Inr results, s)))"

lemma statuses_of_values_state: "statuses_of_values d batchID v vs s = Some (r, s') \<Longrightarrow> s' = s"
  by (auto simp: statuses_of_values_def split: go_split_asm)

lemma statuses_of_values_Inr_iff:
  "statuses_of_values d batchID v vs s = Some (Inr st, s) \<longleftrightarrow>
     v \<noteq> [] \<and> hd v = 1 \<and> vs \<noteq> [] \<and> [] \<notin> set vs \<and> st = map last vs"
proof -
  have "statuses_of_values d batchID v vs s = Some (Inr st, s) \<longleftrightarrow>
     parseBool v ''getStatusesAfterExecution'' (AddressAsBech32String d (multisigContractAddress d)) [] = Inr True
     \<and> statuses_loop (Suc 0) vs (replicate (length vs) 0) = Inr st \<and> st \<noteq> []"
    by (auto simp: statuses_of_values_def split: sum.splits if_splits)
  then show ?thesis unfolding parseBool_Inr_iff statuses_loop_result by auto
qed

text \<open>
  \<^verbatim>\<open>GetTransactionsStatuses\<close> of the data getter gives statuses exactly when the contract answered
  with a first value that reads as true and at least one more value, none of them empty; the status of
  the i-th transaction is then the last byte of the i-th value after the first.
\<close>

theorem getter_GetTransactionsStatuses_iff:
  "getter_GetTransactionsStatuses d batchID s = Some (Inr st, s') \<longleftrightarrow>
   (\<exists>v vs. executeQueryFromBuilder d
        [Address (multisigContractAddress d), CallerAddress (relayerAddress d),
         Function ''getStatusesAfterExecution'', ArgInt64 (sint batchID)] s = Some (Inr (v # vs), s')
      \<and> v \<noteq> [] \<and> hd v = 1 \<and> vs \<noteq> [] \<and> [] \<notin> set vs \<and> st = map last vs)"
proof -
  define q where "q = executeQueryFromBuilder d
        [Address (multisigContractAddress d), CallerAddress (relayerAddress d),
         Function ''getStatusesAfterExecution'', ArgInt64 (sint batchID)] s"
  have run: "getter_GetTransactionsStatuses d batchID s = q \<bind> (\<lambda>(r, s). case r of
       Inl err \<Rightarrow> Some (Inl err, s)
     | Inr values \<Rightarrow>
         (case values of
            [] \<Rightarrow> Some (Inl (Errorf '''' errNoStatusForBatchID ('' for batch ID '' @ show_uint64 batchID)), s)
          | v # vs \<Rightarrow> statuses_of_values d batchID v vs s))"
    unfolding getter_GetTransactionsStatuses_def createDefaultVmQueryBuilder_def int64_def Let_def
      getStatusesAfterExecutionFuncName_def q_def statuses_of_values_def
    by (intro arg_cong2 [where f = Option.bind] refl ext) (auto split: prod.split sum.split list.split)
  have "getter_GetTransactionsStatuses d batchID s = Some (Inr st, s') \<longleftrightarrow>
    (\<exists>v vs. q = Some (Inr (v # vs), s') \<and> statuses_of_values d batchID v vs s' = Some (Inr st, s'))"
    unfolding run
    by (cases q) (auto split: sum.splits list.splits, (metis statuses_of_values_state)+)
  then show ?thesis
    unfolding q_def statuses_of_values_Inr_iff by auto
qed

text \<open>Once the shard of the contract is known it is not asked for again.\<close>

lemma getShardID_cached:
  assumes "getShardID d (dg, s) = Some ((shard, None), (dg', s'))"
  shows "getShardID d (dg', s'') = Some ((shard, None), (dg', s''))"
  using assms by (auto simp: getShardID_def Let_def elim!: go_bindE split: go_split_asm)

end
