(* ===== verification/Go_Strings.thy ===== *)
theory Go_Strings
  imports Bridge_Prelude
begin

section \<open>Hexadecimal and separated texts\<close>

text \<open>
  The parts of the standard library that read texts: \<^verbatim>\<open>hex.DecodeString\<close>, \<^verbatim>\<open>strings.Split\<close> with a separator
  of one character, and \<^verbatim>\<open>strconv.ParseUint\<close> in base 16. A failure is \<open>None\<close>; no caller looks at the error.
  The lemmas say that each of them inverts the corresponding writer.
\<close>

subsection \<open>Reading\<close>

definition fromHexChar :: "char \<Rightarrow> nat option" where
  "fromHexChar c =
     (let n = of_char c :: nat in
      if 48 \<le> n \<and> n \<le> 57 then Some (n - 48)
      else if 97 \<le> n \<and> n \<le> 102 then Some (n - 87)
      else if 65 \<le> n \<and> n \<le> 70 then Some (n - 55)
      else None)"

fun hex_DecodeString :: "string \<Rightarrow> bytes option" where
  "hex_DecodeString [] = Some []"
| "hex_DecodeString [c] = None"
| "hex_DecodeString (p # q # cs) = do {
     a \<leftarrow> fromHexChar p;
     b \<leftarrow> fromHexChar q;
     bs \<leftarrow> hex_DecodeString cs;
     Some (of_nat (16 * a + b) # bs) }"

fun strings_Split :: "char \<Rightarrow> string \<Rightarrow> string list" where
  "strings_Split sep [] = [[]]"
| "strings_Split sep (c # cs) =
     (if c = sep then [] # strings_Split sep cs
      else (case strings_Split sep cs of
              [] \<Rightarrow> [[c]]
            | w # ws \<Rightarrow> (c # w) # ws))"

fun hex_digits_value :: "string \<Rightarrow> nat \<Rightarrow> nat option" where
  "hex_digits_value [] acc = Some acc"
| "hex_digits_value (c # cs) acc =
     (case fromHexChar c of
        None \<Rightarrow> None
      | Some a \<Rightarrow> hex_digits_value cs (16 * acc + a))"

definition ParseUint_16_64 :: "string \<Rightarrow> uint64 option" where
  \<comment> \<open>\<^verbatim>\<open>strconv.ParseUint(s, 16, 64)\<close>\<close>
  "ParseUint_16_64 s =
     (if s = [] then None
      else (case hex_digits_value s 0 of
              None \<Rightarrow> None
            | Some n \<Rightarrow> if n < 2 ^ 64 then Some (of_nat n) else None))"

fun join_with :: "string \<Rightarrow> string list \<Rightarrow> string" where
  "join_with sep [] = []"
| "join_with sep [w] = w"
| "join_with sep (w # v # ws) = w @ sep @ join_with sep (v # ws)"

subsection \<open>Hexadecimal digits\<close>

definition hexdigit :: "nat \<Rightarrow> char" where
  "hexdigit n = ''0123456789abcdef'' ! n"

lemma hexdigit_cases: "(n :: nat) < 16 \<Longrightarrow> n \<in> {0, 1, 2, 3, 4, 5, 6, 7, 8, 9, 10, 11, 12, 13, 14, 15}"
  unfolding insert_iff empty_iff by presburger

lemma fromHexChar_hexdigit [simp]: "n < 16 \<Longrightarrow> fromHexChar (hexdigit n) = Some n"
  by (drule hexdigit_cases) (auto simp: fromHexChar_def hexdigit_def)

lemma hexdigit_not_at: "n < 16 \<Longrightarrow> hexdigit n \<noteq> CHR ''@''"
  by (drule hexdigit_cases) (auto simp: hexdigit_def)

lemma hex_EncodeToString_Nil [simp]: "hex_EncodeToString [] = []"
  by (simp add: hex_EncodeToString_def)

lemma hex_EncodeToString_Cons:
  "hex_EncodeToString (b # bs) = hexdigit (unat b div 16) # hexdigit (unat b mod 16) # hex_EncodeToString bs"
  by (simp add: hex_EncodeToString_def hexdigit_def)

lemma nibble_bounds: "unat (b :: byte) div 16 < 16" "unat b mod 16 < 16"
  using unsigned_less [of b, where 'a = nat] by simp_all

lemma hex_roundtrip [simp]: "hex_DecodeString (hex_EncodeToString bs) = Some bs"
proof (induction bs)
  case (Cons b bs)
  have "of_nat (16 * (unat b div 16) + unat b mod 16) = b" by (simp only: mult_div_mod_eq) simp
  with Cons show ?case by (simp add: hex_EncodeToString_Cons nibble_bounds del: of_nat_add of_nat_mult)
qed simp

lemma hex_EncodeToString_inject [simp]: "hex_EncodeToString a = hex_EncodeToString b \<longleftrightarrow> a = b"
  by (metis hex_roundtrip option.inject)

lemma hex_no_separator: "CHR ''@'' \<notin> set (hex_EncodeToString bs)"
  by (induction bs) (simp_all add: hex_EncodeToString_Cons hexdigit_not_at [OF nibble_bounds(1), symmetric]
      hexdigit_not_at [OF nibble_bounds(2), symmetric])

lemma hex_digits_value_encoded:
  "hex_digits_value (hex_EncodeToString bs) acc = Some (256 ^ length bs * acc + nat (SetBytes bs))"
proof (induction bs arbitrary: acc)
  case (Cons b bs)
  have split: "SetBytes (b # bs) = 256 ^ length bs * uint b + SetBytes bs"
  proof (induction bs rule: rev_induct)
    case (snoc x xs)
    then show ?case using SetBytes_snoc [of "b # xs" x] by (simp add: algebra_simps)
  qed (simp add: SetBytes_def)
  have "16 * (16 * acc + unat b div 16) + unat b mod 16 = 256 * acc + unat b" by simp
  then show ?case
    using Cons by (simp add: hex_EncodeToString_Cons nibble_bounds split nat_add_distrib nat_mult_distrib
        nat_power_eq algebra_simps)
qed simp

lemma ParseUint_encoded:
  assumes "bs \<noteq> []" and "length bs \<le> 8"
  shows "ParseUint_16_64 (hex_EncodeToString bs) = Some (word_of_int (SetBytes bs))"
proof -
  have "SetBytes bs < 256 ^ length bs" using SetBytes_bounds by blast
  also have "\<dots> \<le> (256 :: int) ^ 8" using assms(2) by (intro power_increasing) simp_all
  finally have "SetBytes bs < 2 ^ 64" by simp
  moreover have "hex_EncodeToString bs \<noteq> []" using assms(1) by (cases bs) (simp_all add: hex_EncodeToString_Cons)
  ultimately show ?thesis
    by (simp add: ParseUint_16_64_def hex_digits_value_encoded)
qed

subsection \<open>Splitting what was joined\<close>

lemma strings_Split_no_sep: "sep \<notin> set w \<Longrightarrow> strings_Split sep w = [w]"
  by (induction w) auto

lemma strings_Split_append: "sep \<notin> set w \<Longrightarrow> strings_Split sep (w @ sep # cs) = w # strings_Split sep cs"
  by (induction w) auto

lemma Split_join:
  assumes "ws \<noteq> []" and "\<forall>w \<in> set ws. sep \<notin> set w"
  shows "strings_Split sep (join_with [sep] ws) = ws"
  using assms by (induction "[sep]" ws rule: join_with.induct) (simp_all add: strings_Split_no_sep strings_Split_append)

subsection \<open>Decimal texts are unambiguous\<close>

lemma decdigit_inject: "m < 10 \<Longrightarrow> n < 10 \<Longrightarrow> ''0123456789'' ! m = ''0123456789'' ! n \<Longrightarrow> m = n"
proof -
  assume "m < 10" "n < 10" "''0123456789'' ! m = ''0123456789'' ! n"
  moreover have "distinct ''0123456789''" by simp
  ultimately show ?thesis using nth_eq_iff_index_eq [of "''0123456789''" m n] by simp
qed

lemma show_nat_inject: "show_nat m = show_nat n \<Longrightarrow> m = n"
proof (induction m arbitrary: n rule: show_nat.induct)
  case (1 m)
  show ?case
  proof (cases "m < 10 \<or> n < 10")
    case True
    then have "length (show_nat m) = 1 \<or> length (show_nat n) = 1" by (auto simp: show_nat_small)
    with 1(2) length_show_nat_ge [of m] length_show_nat_ge [of n] have "m < 10" "n < 10" by fastforce+
    with 1(2) show ?thesis by (auto simp: show_nat_small dest: decdigit_inject)
  next
    case False
    with 1(2) have "show_nat (m div 10) = show_nat (n div 10)" "''0123456789'' ! (m mod 10) = ''0123456789'' ! (n mod 10)"
      by (auto simp: show_nat.simps [of m] show_nat.simps [of n])
    with 1(1) False have "m div 10 = n div 10" "m mod 10 = n mod 10"
      using decdigit_inject [of "m mod 10" "n mod 10"] by simp_all
    then show ?thesis by (metis div_mult_mod_eq)
  qed
qed

lemma show_nat_not_minus: "''-'' @ w \<noteq> show_nat n"
proof (induction n arbitrary: w rule: show_nat.induct)
  case (1 n)
  have "''0123456789'' ! k \<noteq> CHR ''-''" if "k < 10" for k
  proof -
    have "''0123456789'' ! k \<in> set ''0123456789''" using that by (intro nth_mem) simp
    then show ?thesis by auto
  qed
  moreover have "show_nat (n div 10) \<noteq> []" by (simp add: show_nat.simps [of "n div 10"])
  ultimately show ?case using 1 by (cases "n < 10") (fastforce simp: show_nat.simps [of n] Cons_eq_append_conv)+
qed

lemma show_int_inject [simp]: "show_int a = show_int b \<longleftrightarrow> a = b"
  using show_nat_not_minus [of "show_nat (nat (- a))" "nat b"] show_nat_not_minus [of "show_nat (nat (- b))" "nat a"]
  by (auto simp: show_int_def dest!: show_nat_inject split: if_splits)

end
