(* ===== verification/Token_Mapping.thy ===== *)
theory Token_Mapping
  imports Elrond_DataGetter Go_Strings
begin

section \<open>Token and address conversion (clients/elrond/mappers, core/converters)\<close>

text \<open>
  The mappers that turn a token of one chain into the token of the other by asking the multisig
  contract, the address converter, and the block \<^verbatim>\<open>cachedTokens\<close> that both clients run for every
  deposit of a batch, so that each token is asked for once.
\<close>

definition errUnknownToken :: gerror where
  "errUnknownToken = ErrNew ''mappers.errUnknownToken'' ''unknown token''"

record 's mappersDataGetter =
  dg_GetTokenIdForErc20Address :: "bytes \<Rightarrow> ('s, bytes list res) go"
  dg_GetERC20AddressForTokenId :: "bytes \<Rightarrow> ('s, bytes list res) go"

definition NewElrondToErc20Mapper :: "'s mappersDataGetter option \<Rightarrow> 's mappersDataGetter res" where
  "NewElrondToErc20Mapper dg = (case dg of None \<Rightarrow> Inl clients_ErrNilDataGetter | Some g \<Rightarrow> Inr g)"

definition elrondToErc20_ConvertToken :: "'s mappersDataGetter \<Rightarrow> bytes \<Rightarrow> ('s, bytes res) go" where
  "elrondToErc20_ConvertToken dg sourceBytes = (\<lambda>s. do {
     (r, s) \<leftarrow> dg_GetERC20AddressForTokenId dg sourceBytes s;
     case r of
       Inl err \<Rightarrow> Some (Inl err, s)
     | Inr response \<Rightarrow>
         (case response of
            [] \<Rightarrow> Some (Inl (Errorf '''' errUnknownToken ('' for provided '' @ hex_EncodeToString sourceBytes)), s)
          | b # _ \<Rightarrow> Some (Inr b, s)) })"

definition NewErc20ToElrondMapper :: "'s mappersDataGetter option \<Rightarrow> 's mappersDataGetter res" where
  "NewErc20ToElrondMapper dg = (case dg of None \<Rightarrow> Inl clients_ErrNilDataGetter | Some g \<Rightarrow> Inr g)"

definition erc20ToElrond_ConvertToken :: "'s mappersDataGetter \<Rightarrow> bytes \<Rightarrow> ('s, bytes res) go" where
  "erc20ToElrond_ConvertToken dg sourceBytes = (\<lambda>s. do {
     (r, s) \<leftarrow> dg_GetTokenIdForErc20Address dg sourceBytes s;
     case r of
       Inl err \<Rightarrow> Some (Inl err, s)
     | Inr response \<Rightarrow>
         (case response of
            [] \<Rightarrow> Some (Inl (Errorf '''' errUnknownToken ('' for provided '' @ hex_EncodeToString sourceBytes)), s)
          | b # _ \<Rightarrow> Some (Inr b, s)) })"

subsection \<open>Address converter (core/converters/converters.go)\<close>

definition hexPrefix :: string where
  "hexPrefix = ''0x''"

definition ToHexString :: "bytes \<Rightarrow> string" where
  "ToHexString addressBytes = hex_EncodeToString addressBytes"

definition ToHexStringWithPrefix :: "bytes \<Rightarrow> string" where
  "ToHexStringWithPrefix addressBytes = hexPrefix @ hex_EncodeToString addressBytes"

record addressConverter =
  converter_Encode :: "bytes \<Rightarrow> string"

definition NewAddressConverter :: "(bytes \<Rightarrow> string) res \<Rightarrow> addressConverter res" where
  \<comment> \<open>the argument is what \<^verbatim>\<open>NewBech32PubkeyConverter\<close> of the library returns\<close>
  "NewAddressConverter newConverter =
     (case newConverter of
        Inl err \<Rightarrow> Inl err
      | Inr encode \<Rightarrow> Inr \<lparr> converter_Encode = encode \<rparr>)"

definition addressConverter_ToBech32String :: "addressConverter \<Rightarrow> bytes \<Rightarrow> string" where
  "addressConverter_ToBech32String ac addressBytes = converter_Encode ac addressBytes"

lemma NewAddressConverter_iff [simp]:
  "NewAddressConverter (Inl err) = Inl err"
  "NewAddressConverter (Inr encode) = Inr \<lparr> converter_Encode = encode \<rparr>"
  "addressConverter_ToBech32String \<lparr> converter_Encode = encode \<rparr> = encode"
  by (simp_all add: NewAddressConverter_def addressConverter_ToBech32String_def [abs_def])

definition TrimWhiteSpaceCharacters :: "string \<Rightarrow> string" where
  \<comment> \<open>\<^verbatim>\<open>strings.Trim\<close> removes the characters of the cutset from both ends\<close>
  "TrimWhiteSpaceCharacters input =
     (let cutset = {CHR 0x0A, CHR 0x09, CHR 0x20};
          trimLeft = dropWhile (\<lambda>c. c \<in> cutset) input
      in rev (dropWhile (\<lambda>c. c \<in> cutset) (rev trimLeft)))"

subsection \<open>The token cache\<close>

definition convert_cached ::
  "(bytes \<Rightarrow> ('s, bytes res) go) \<Rightarrow> string \<Rightarrow> bytes \<Rightarrow> (string, bytes) gomap
   \<Rightarrow> ('s, (bytes \<times> (string, bytes) gomap) res) go" where
  "convert_cached convert displayable token cachedTokens = (\<lambda>s.
     case map_of cachedTokens displayable of
       Some stored \<Rightarrow> Some (Inr (stored, cachedTokens), s)
     | None \<Rightarrow> do {
         (r, s) \<leftarrow> convert token s;
         case r of
           Inl err \<Rightarrow> Some (Inl err, s)
         | Inr converted \<Rightarrow> Some (Inr (converted, AList.update displayable converted cachedTokens), s) })"

lemma convert_cached_run:
  assumes "ok \<longrightarrow> (\<forall>token. panic_free (convert token))"
    and "\<And>r s'. convert_cached convert k token m s = Some (r, s') \<Longrightarrow> Q r s'"
  shows "runs ok (convert_cached convert k token m s) Q"
proof (rule runs_total)
  assume ok
  with assms(1) have "panic_free (convert token)" by simp
  from panic_freeD [OF this, of s] obtain r s' where "convert token s = Some (r, s')" by blast
  then show "convert_cached convert k token m s \<noteq> None"
    by (cases "map_of m k"; cases r) (simp_all add: convert_cached_def)
qed (rule assms(2))

text \<open>
  \<open>converts_to convert token c\<close>: \<open>c\<close> is an answer the mapper can give for the token. A cache is valid
  when each of its entries is such an answer for the token of its key.
\<close>

definition converts_to :: "(bytes \<Rightarrow> ('s, bytes res) go) \<Rightarrow> bytes \<Rightarrow> bytes \<Rightarrow> bool" where
  "converts_to convert token c \<longleftrightarrow> (\<exists>s s'. convert token s = Some (Inr c, s'))"

definition valid_cache ::
  "(bytes \<Rightarrow> ('s, bytes res) go) \<Rightarrow> (bytes \<Rightarrow> string) \<Rightarrow> (string, bytes) gomap \<Rightarrow> bool" where
  "valid_cache convert key m \<longleftrightarrow> (\<forall>token c. map_of m (key token) = Some c \<longrightarrow> converts_to convert token c)"

text \<open>The deposits read so far carry the entries of the cache.\<close>

definition cached_deposits ::
  "(bytes \<Rightarrow> ('s, bytes res) go) \<Rightarrow> (bytes \<Rightarrow> string) \<Rightarrow> (string, bytes) gomap \<Rightarrow> DepositTransfer list \<Rightarrow> bool" where
  "cached_deposits convert key m ds \<longleftrightarrow>
     valid_cache convert key m \<and> (\<forall>dep \<in> set ds. map_of m (key (TokenBytes dep)) = Some (ConvertedTokenBytes dep))"

text \<open>What a batch read through the cache guarantees, whatever the mapper answers in between.\<close>

definition tokens_converted :: "(bytes \<Rightarrow> ('s, bytes res) go) \<Rightarrow> DepositTransfer list \<Rightarrow> bool" where
  "tokens_converted convert ds \<longleftrightarrow>
     (\<forall>dep \<in> set ds. converts_to convert (TokenBytes dep) (ConvertedTokenBytes dep))
     \<and> (\<forall>dep \<in> set ds. \<forall>dep' \<in> set ds. TokenBytes dep = TokenBytes dep' \<longrightarrow> ConvertedTokenBytes dep = ConvertedTokenBytes dep')"

text \<open>
  The contract of the cache block for a client whose map keys are \<open>key token\<close>: the entries stay valid,
  old entries are kept, and the token's entry is the value used for the deposit.
\<close>

locale token_cache =
  fixes convert :: "bytes \<Rightarrow> ('s, bytes res) go" and key :: "bytes \<Rightarrow> string"
  assumes key_inject: "key a = key b \<longleftrightarrow> a = b"
begin

lemma empty_cache: "cached_deposits convert key [] []"
  by (simp add: cached_deposits_def valid_cache_def)

lemma cached_result:
  assumes "convert_cached convert (key token) token m s = Some (Inr (c, m'), s')"
    and "valid_cache convert key m"
  shows "valid_cache convert key m' \<and> map_of m' (key token) = Some c
      \<and> (map_of m k = Some v \<longrightarrow> map_of m' k = Some v)"
proof -
  consider (hit) "map_of m (key token) = Some c" "m' = m"
    | (miss) "map_of m (key token) = None" "convert token s = Some (Inr c, s')"
        "m' = AList.update (key token) c m"
    using assms(1) by (auto simp: convert_cached_def elim!: go_bindE split: go_split_asm)
  then show ?thesis
  proof cases
    case hit
    with assms(2) show ?thesis by auto
  next
    case miss
    then have "converts_to convert token c" by (auto simp: converts_to_def)
    with miss assms(2) show ?thesis
      by (auto simp: valid_cache_def update_conv' key_inject)
  qed
qed

lemma cached_deposits_append:
  assumes "convert_cached convert (key token) token m s = Some (Inr (c, m'), s')"
    and "cached_deposits convert key m ds"
    and "TokenBytes dep = token" and "ConvertedTokenBytes dep = c"
  shows "cached_deposits convert key m' (ds @ [dep])"
  using cached_result [OF assms(1)] assms(2-4) by (auto simp: cached_deposits_def)

lemma cached_deposits_converted:
  assumes "cached_deposits convert key m ds"
  shows "tokens_converted convert ds"
proof -
  have "converts_to convert (TokenBytes dep) (ConvertedTokenBytes dep)"
    and "map_of m (key (TokenBytes dep)) = Some (ConvertedTokenBytes dep)" if "dep \<in> set ds" for dep
    using assms that by (auto simp: cached_deposits_def valid_cache_def)
  then show ?thesis unfolding tokens_converted_def by (metis option.inject)
qed

end

end
