(* ===== verification/Elrond_Client.thy ===== *)
theory Elrond_Client
  imports Token_Mapping Bridge_Executor
begin

section \<open>The Elrond client (clients/elrond/client.go, transactionHandler.go)\<close>

text \<open>
  The client that reads the pending batch from the multisig contract on Elrond and sends the four
  transactions of the bridge (propose a transfer, propose the statuses, sign, perform). The fields the
  constructor sets are the record \<open>elrondClientDeps\<close>, which extends that of the data getter as the struct
  embeds it; the fields the methods write are the record \<open>elrond_client\<close>. The network, the nonce
  handler, the signer and the serialisation of a transaction are libraries, hence parameters.
\<close>

definition proposeTransferFuncName :: string where
  "proposeTransferFuncName = ''proposeMultiTransferEsdtBatch''"
definition proposeSetStatusFuncName :: string where
  "proposeSetStatusFuncName = ''proposeEsdtSafeSetCurrentTransactionBatchStatus''"
definition signFuncName :: string where
  "signFuncName = ''sign''"
definition performActionFuncName :: string where
  "performActionFuncName = ''performAction''"
definition elrond_minAllowedDelta :: uint64 where
  "elrond_minAllowedDelta = 1"

definition errInvalidNumberOfArguments :: gerror where
  "errInvalidNumberOfArguments = ErrNew ''elrond.errInvalidNumberOfArguments'' ''invalid number of arguments''"
definition errInvalidGasValue :: gerror where
  "errInvalidGasValue = ErrNew ''elrond.errInvalidGasValue'' ''invalid gas value''"
definition errNilRoleProvider :: gerror where
  "errNilRoleProvider = ErrNew ''elrond.errNilRoleProvider'' ''nil role provider''"
definition errRelayerNotWhitelisted :: gerror where
  "errRelayerNotWhitelisted = ErrNew ''elrond.errRelayerNotWhitelisted'' ''relayer not whitelisted''"
definition ErrNoPendingBatchAvailable :: gerror where
  "ErrNoPendingBatchAvailable = ErrNew ''elrond.ErrNoPendingBatchAvailable'' ''no pending batch available''"
definition clients_ErrNilPrivateKey :: gerror where
  "clients_ErrNilPrivateKey = ErrNew ''clients.ErrNilPrivateKey'' ''nil private key''"
definition clients_ErrNilTokensMapper :: gerror where
  "clients_ErrNilTokensMapper = ErrNew ''clients.ErrNilTokensMapper'' ''nil tokens mapper''"
definition clients_ErrNilStatusHandler :: gerror where
  "clients_ErrNilStatusHandler = ErrNew ''clients.ErrNilStatusHandler'' ''nil status handler''"
definition clients_ErrNilAddressConverter :: gerror where
  "clients_ErrNilAddressConverter = ErrNew ''clients.ErrNilAddressConverter'' ''nil address converter''"
definition ErrMultisigContractPaused :: gerror where
  "ErrMultisigContractPaused = ErrNew ''clients.ErrMultisigContractPaused'' ''multisig contract paused''"

subsection \<open>Transactions (transactionHandler.go)\<close>

record Transaction =
  tx_ChainID :: string
  tx_Version :: "32 word"
  tx_GasLimit :: uint64
  tx_GasPrice :: uint64
  tx_Nonce :: uint64
  tx_Data :: bytes
  tx_SndAddr :: string
  tx_RcvAddr :: string
  tx_Value :: string
  tx_Signature :: string

record ('s, 'a) transactionHandler =
  th_proxy :: "'s ElrondProxy"
  th_relayerAddress :: 'a
  multisigAddressAsBech32 :: string
  GetNonce :: "'a \<Rightarrow> ('s, uint64 res) go"
  SendTransaction :: "Transaction \<Rightarrow> ('s, string res) go"
  nonceTxHandler_Close :: "('s, gerror option) go"
  singleSigner_Sign :: "bytes \<Rightarrow> bytes res"
  IsWhitelisted :: "'a \<Rightarrow> ('s, bool) go"
  th_AddressAsBech32String :: "'a \<Rightarrow> string"
  ToDataBytes :: "'a Builder \<Rightarrow> bytes res"
  Marshal_Transaction :: "Transaction \<Rightarrow> bytes res"

definition signTransactionWithPrivateKey :: "('s, 'a) transactionHandler \<Rightarrow> Transaction \<Rightarrow> Transaction res" where
  "signTransactionWithPrivateKey th tx =
     (let tx = tx\<lparr>tx_Signature := ''''\<rparr> in
      case Marshal_Transaction th tx of
        Inl err \<Rightarrow> Inl err
      | Inr buff \<Rightarrow>
          (case singleSigner_Sign th buff of
             Inl err \<Rightarrow> Inl err
           | Inr signature \<Rightarrow> Inr (tx\<lparr>tx_Signature := hex_EncodeToString signature\<rparr>)))"

definition signTransaction ::
  "('s, 'a) transactionHandler \<Rightarrow> 'a Builder \<Rightarrow> uint64 \<Rightarrow> ('s, Transaction res) go" where
  \<comment> \<open>a nil network configuration is dereferenced\<close>
  "signTransaction th builder gasLimit = (\<lambda>s. do {
     (r, s) \<leftarrow> GetNetworkConfig (th_proxy th) s;
     case r of
       Inl err \<Rightarrow> Some (Inl err, s)
     | Inr networkConfig \<Rightarrow> do {
         (r, s) \<leftarrow> GetNonce th (th_relayerAddress th) s;
         case r of
           Inl err \<Rightarrow> Some (Inl err, s)
         | Inr nonce \<Rightarrow>
             (case ToDataBytes th builder of
                Inl err \<Rightarrow> Some (Inl err, s)
              | Inr dataBytes \<Rightarrow>
                  (case networkConfig of
                     None \<Rightarrow> None
                   | Some cfg \<Rightarrow>
                       (let tx = \<lparr> tx_ChainID = ChainID cfg, tx_Version = MinTransactionVersion cfg,
                                   tx_GasLimit = gasLimit, tx_GasPrice = MinGasPrice cfg, tx_Nonce = nonce,
                                   tx_Data = dataBytes,
                                   tx_SndAddr = th_AddressAsBech32String th (th_relayerAddress th),
                                   tx_RcvAddr = multisigAddressAsBech32 th, tx_Value = ''0'',
                                   tx_Signature = '''' \<rparr>
                        in Some (signTransactionWithPrivateKey th tx, s)))) } })"

definition SendTransactionReturnHash ::
  "('s, 'a) transactionHandler \<Rightarrow> 'a Builder \<Rightarrow> uint64 \<Rightarrow> ('s, string res) go" where
  "SendTransactionReturnHash th builder gasLimit = (\<lambda>s. do {
     (whitelisted, s) \<leftarrow> IsWhitelisted th (th_relayerAddress th) s;
     if \<not> whitelisted then Some (Inl errRelayerNotWhitelisted, s)
     else do {
       (r, s) \<leftarrow> signTransaction th builder gasLimit s;
       case r of
         Inl err \<Rightarrow> Some (Inl err, s)
       | Inr tx \<Rightarrow> SendTransaction th tx s } })"

definition transactionHandler_Close :: "('s, 'a) transactionHandler \<Rightarrow> ('s, gerror option) go" where
  "transactionHandler_Close th = nonceTxHandler_Close th"

subsection \<open>State and construction\<close>

record ElrondGasMapConfig =
  gas_Sign :: uint64
  gas_ProposeTransferBase :: uint64
  gas_ProposeTransferForEach :: uint64
  gas_ProposeStatusBase :: uint64
  gas_ProposeStatusForEach :: uint64
  gas_PerformActionBase :: uint64
  gas_PerformActionForEach :: uint64

record ('s, 'a) elrondClientDeps = "('s, 'a) dataGetterDeps" +
  txHandler :: "('s, 'a) transactionHandler"
  tokensMapper :: "bytes \<Rightarrow> ('s, bytes res) go"
  gasMapConfig :: ElrondGasMapConfig
  ToBech32String :: "bytes \<Rightarrow> string"
  elrond_statusHandler :: "'s StatusHandler"
  elrond_allowDelta :: uint64

record elrond_client = elrondClientDataGetter +
  lastNonce :: uint64
  retriesAvailabilityCheck :: uint64

record ('s, 'a) ElrondClientArgs =
  eca_GasMapConfig :: ElrondGasMapConfig
  eca_Proxy :: "'s ElrondProxy option"
  eca_Log :: "unit option"
  eca_RelayerPrivateKey :: "unit option"
  eca_MultisigContractAddress :: "'a option"
  eca_IntervalToResendTxsInSeconds :: uint64
  eca_TokensMapper :: "(bytes \<Rightarrow> ('s, bytes res) go) option"
  eca_RoleProvider :: "('a \<Rightarrow> ('s, bool) go) option"
  eca_StatusHandler :: "'s StatusHandler option"
  eca_AllowDelta :: uint64

fun first_zero_gas :: "(string \<times> uint64) list \<Rightarrow> gerror option" where
  "first_zero_gas [] = None"
| "first_zero_gas ((name, fieldVal) # more_fields) =
     (if fieldVal = 0 then Some (Errorf '''' errInvalidGasValue ('' for field '' @ name))
      else first_zero_gas more_fields)"

definition checkGasMapValues :: "ElrondGasMapConfig \<Rightarrow> gerror option" where
  \<comment> \<open>reflection walks the fields of the struct in their order\<close>
  "checkGasMapValues gasMap =
     first_zero_gas
       [(''Sign'', gas_Sign gasMap),
        (''ProposeTransferBase'', gas_ProposeTransferBase gasMap),
        (''ProposeTransferForEach'', gas_ProposeTransferForEach gasMap),
        (''ProposeStatusBase'', gas_ProposeStatusBase gasMap),
        (''ProposeStatusForEach'', gas_ProposeStatusForEach gasMap),
        (''PerformActionBase'', gas_PerformActionBase gasMap),
        (''PerformActionForEach'', gas_PerformActionForEach gasMap)]"

definition elrond_checkArgs :: "('s, 'a) ElrondClientArgs \<Rightarrow> gerror option" where
  "elrond_checkArgs args =
     (if eca_Proxy args = None then Some errNilProxy
      else if eca_RelayerPrivateKey args = None then Some clients_ErrNilPrivateKey
      else if eca_MultisigContractAddress args = None
      then Some (Errorf '''' errNilAddressHandler '' for the MultisigContractAddress argument'')
      else if eca_Log args = None then Some clients_ErrNilLogger
      else if eca_TokensMapper args = None then Some clients_ErrNilTokensMapper
      else if eca_RoleProvider args = None then Some errNilRoleProvider
      else if eca_StatusHandler args = None then Some clients_ErrNilStatusHandler
      else if eca_AllowDelta args < elrond_minAllowedDelta
      then Some (Errorf '''' clients_ErrInvalidValue
             ('' for args.AllowedDelta, got: '' @ show_uint64 (eca_AllowDelta args)
              @ '', minimum: '' @ show_uint64 elrond_minAllowedDelta))
      else checkGasMapValues (eca_GasMapConfig args))"

text \<open>
  What the constructor takes from libraries: the nonce handler it builds (its methods), the public key
  of the relayer, addresses, the address converter, the signer and the serialisations.
\<close>

record ('s, 'a) elrondSDK =
  NewNonceTransactionHandler ::
    "'s ElrondProxy \<Rightarrow> uint64 \<Rightarrow> (('a \<Rightarrow> ('s, uint64 res) go) \<times> (Transaction \<Rightarrow> ('s, string res) go) \<times> ('s, gerror option) go) res"
  PublicKey_ToByteArray :: "bytes res"
  sdk_NewAddressFromBytes :: "bytes \<Rightarrow> 'a"
  sdk_AddressAsBech32String :: "'a \<Rightarrow> string"
  sdk_NewBech32PubkeyConverter :: "(bytes \<Rightarrow> string) res"
  sdk_ToVmValueRequest :: "'a Builder \<Rightarrow> VmValueRequest option res"
  sdk_ToDataBytes :: "'a Builder \<Rightarrow> bytes res"
  sdk_Marshal_Transaction :: "Transaction \<Rightarrow> bytes res"
  Ed25519_Sign :: "bytes \<Rightarrow> bytes res"

definition NewElrondClient ::
  "('s, 'a) elrondSDK \<Rightarrow> ('s, 'a) ElrondClientArgs \<Rightarrow> (('s, 'a) elrondClientDeps \<times> elrond_client) res" where
  "NewElrondClient sdk args =
     (case elrond_checkArgs args of
        Some err \<Rightarrow> Inl err
      | None \<Rightarrow>
     (case NewNonceTransactionHandler sdk (the (eca_Proxy args)) (eca_IntervalToResendTxsInSeconds args) of
        Inl err \<Rightarrow> Inl err
      | Inr (nth_GetNonce, nth_SendTransaction, nth_Close) \<Rightarrow>
     (case PublicKey_ToByteArray sdk of
        Inl err \<Rightarrow> Inl err
      | Inr publicKeyBytes \<Rightarrow>
     (let relayerAddr = sdk_NewAddressFromBytes sdk publicKeyBytes;
          multisig = the (eca_MultisigContractAddress args)
      in case NewDataGetter (sdk_AddressAsBech32String sdk) (sdk_ToVmValueRequest sdk)
               \<lparr> dg_MultisigContractAddress = Some multisig, dg_RelayerAddress = Some relayerAddr,
                 dg_Proxy = eca_Proxy args, dg_Log = Some () \<rparr> of
        Inl err \<Rightarrow> Inl err
      | Inr (getter, dg) \<Rightarrow>
     (case NewAddressConverter (sdk_NewBech32PubkeyConverter sdk) of
        Inl err \<Rightarrow> Inl clients_ErrNilAddressConverter
      | Inr ac \<Rightarrow>
          Inr (dataGetterDeps.extend getter
                 (elrondClientDeps.fields
                   \<lparr> th_proxy = the (eca_Proxy args), th_relayerAddress = relayerAddr,
                     multisigAddressAsBech32 = sdk_AddressAsBech32String sdk multisig,
                     GetNonce = nth_GetNonce, SendTransaction = nth_SendTransaction,
                     nonceTxHandler_Close = nth_Close,
                     singleSigner_Sign = Ed25519_Sign sdk,
                     IsWhitelisted = the (eca_RoleProvider args),
                     th_AddressAsBech32String = sdk_AddressAsBech32String sdk,
                     ToDataBytes = sdk_ToDataBytes sdk,
                     Marshal_Transaction = sdk_Marshal_Transaction sdk \<rparr>
                   (the (eca_TokensMapper args)) (eca_GasMapConfig args) (addressConverter_ToBech32String ac)
                   (the (eca_StatusHandler args)) (eca_AllowDelta args)),
               elrondClientDataGetter.extend dg (elrond_client.fields 0 0)))))))"

subsection \<open>Reading the pending batch\<close>

definition emptyResponse :: "bytes list \<Rightarrow> bool" where
  "emptyResponse response \<longleftrightarrow> length response = 0 \<or> (length response = 1 \<and> length (response ! 0) = 0)"

definition numFieldsForTransaction :: int where
  "numFieldsForTransaction = 6"

text \<open>
  The loop over \<^verbatim>\<open>responseData\<close> advances by six; its argument is \<^verbatim>\<open>responseData[i:]\<close>. An index past the
  end panics.
\<close>

fun pending_loop ::
  "('s, 'a, 'z) elrondClientDeps_scheme \<Rightarrow> nat \<Rightarrow> bytes list \<Rightarrow> (string, bytes) gomap \<Rightarrow> TransferBatch
   \<Rightarrow> ('s, TransferBatch res) go" where
  "pending_loop d transferIndex [] cachedTokens b s = Some (Inr b, s)"
| "pending_loop d transferIndex (blockNonce # nonceBytes # from # to # token # amountBytes # rest) cachedTokens b s =
     (case parseUInt64FromByteSlice nonceBytes of
        Inl errParse \<Rightarrow>
          Some (Inl (Errorf '''' errParse
                  ('' while parsing the deposit nonce, transfer index '' @ show_nat transferIndex)), s)
      | Inr depositNonce \<Rightarrow>
          (let amount = SetBytes amountBytes;
               deposit = \<lparr> Nonce = depositNonce, ToBytes = to, DisplayableTo = ToHexStringWithPrefix to,
                           FromBytes = from, DisplayableFrom = ToBech32String d from,
                           TokenBytes = token, ConvertedTokenBytes = [],
                           DisplayableToken = string_of_bytes token, Amount = Some amount \<rparr>
           in do {
             (r, s) \<leftarrow> convert_cached (tokensMapper d) (DisplayableToken deposit) (TokenBytes deposit) cachedTokens s;
             case r of
               Inl err \<Rightarrow>
                 Some (Inl (Errorf '''' err
                        ('' while converting token bytes, transfer index '' @ show_nat transferIndex)), s)
             | Inr (converted, cachedTokens) \<Rightarrow>
                 pending_loop d (transferIndex + 1) rest cachedTokens
                   (b\<lparr>Deposits := Deposits b @ [deposit\<lparr>ConvertedTokenBytes := converted\<rparr>]\<rparr>) s }))"
| "pending_loop d transferIndex _ cachedTokens b s = None"

definition createPendingBatchFromResponse ::
  "('s, 'a, 'z) elrondClientDeps_scheme \<Rightarrow> bytes list \<Rightarrow> ('s, TransferBatch option res) go" where
  "createPendingBatchFromResponse d responseData = (\<lambda>s.
     (let dataLen = int (length responseData);
          haveCorrectNumberOfArgs = (dataLen - 1) smod numFieldsForTransaction = 0 \<and> dataLen > 1
      in if \<not> haveCorrectNumberOfArgs
         then Some (Inl (Errorf '''' errInvalidNumberOfArguments ('', got '' @ show_int dataLen @ '' argument(s)'')), s)
         else (case parseUInt64FromByteSlice (responseData ! 0) of
                 Inl err \<Rightarrow> Some (Inl (Errorf '''' err '' while parsing batch ID''), s)
               | Inr batchID \<Rightarrow> do {
                   (r, s) \<leftarrow> pending_loop d 0 (drop 1 responseData) []
                              \<lparr> ID = batchID, Deposits = [], Statuses = [] \<rparr> s;
                   case r of
                     Inl err \<Rightarrow> Some (Inl err, s)
                   | Inr b \<Rightarrow> Some (Inr (Some (b\<lparr>Statuses := replicate (length (Deposits b)) 0\<rparr>)), s) })))"

definition GetPending :: "('s, 'a, 'z) elrondClientDeps_scheme \<Rightarrow> ('s, TransferBatch option res) go" where
  "GetPending d = (\<lambda>s. do {
     (r, s) \<leftarrow> GetCurrentBatchAsDataBytes d s;
     case r of
       Inl err \<Rightarrow> Some (Inl err, s)
     | Inr responseData \<Rightarrow>
         if emptyResponse responseData then Some (Inl ErrNoPendingBatchAvailable, s)
         else createPendingBatchFromResponse d responseData s })"

subsection \<open>Sending transactions\<close>

definition createCommonTxDataBuilder :: "string \<Rightarrow> int \<Rightarrow> 'a Builder" where
  "createCommonTxDataBuilder funcName i = [Function funcName, ArgInt64 i]"

definition checkIsPaused :: "('s, 'a, 'z) elrondClientDeps_scheme \<Rightarrow> ('s, gerror option) go" where
  "checkIsPaused d = (\<lambda>s. do {
     (r, s) \<leftarrow> IsPaused d s;
     case r of
       Inl err \<Rightarrow> Some (Some (Errorf '''' err '' in client.ExecuteTransfer''), s)
     | Inr isPaused \<Rightarrow>
         if isPaused then Some (Some (Errorf '''' ErrMultisigContractPaused '' in client.ExecuteTransfer''), s)
         else Some (None, s) })"

definition uint64_len :: "'x list \<Rightarrow> uint64" where
  \<comment> \<open>\<^verbatim>\<open>uint64(len(xs))\<close>\<close>
  "uint64_len xs = of_nat (length xs)"

definition ProposeSetStatus ::
  "('s, 'a, 'z) elrondClientDeps_scheme \<Rightarrow> TransferBatch option \<Rightarrow> ('s, string res) go" where
  "ProposeSetStatus d b = (\<lambda>s.
     case b of
       None \<Rightarrow> Some (Inl clients_ErrNilBatch, s)
     | Some b \<Rightarrow> do {
         (err, s) \<leftarrow> checkIsPaused d s;
         case err of
           Some er \<Rightarrow> Some (Inl er, s)
         | None \<Rightarrow>
             (let txBuilder = createCommonTxDataBuilder proposeSetStatusFuncName (int64 (ID b));
                  txBuilder = add_statuses txBuilder (Statuses b);
                  gasLimit = gas_ProposeStatusBase (gasMapConfig d)
                             + uint64_len (Deposits b) * gas_ProposeStatusForEach (gasMapConfig d)
              in SendTransactionReturnHash (txHandler d) txBuilder gasLimit s) })"

definition ProposeTransfer ::
  "('s, 'a, 'z) elrondClientDeps_scheme \<Rightarrow> TransferBatch option \<Rightarrow> ('s, string res) go" where
  "ProposeTransfer d b = (\<lambda>s.
     case b of
       None \<Rightarrow> Some (Inl clients_ErrNilBatch, s)
     | Some b \<Rightarrow> do {
         (err, s) \<leftarrow> checkIsPaused d s;
         case err of
           Some er \<Rightarrow> Some (Inl er, s)
         | None \<Rightarrow>
             (let txBuilder = createCommonTxDataBuilder proposeTransferFuncName (int64 (ID b));
                  txBuilder = fold (\<lambda>dt txBuilder. txBuilder @
                                [ArgBytes (FromBytes dt), ArgBytes (ToBytes dt), ArgBytes (ConvertedTokenBytes dt),
                                 ArgBigInt (Amount dt), ArgInt64 (int64 (Nonce dt))]) (Deposits b) txBuilder;
                  gasLimit = gas_ProposeTransferBase (gasMapConfig d)
                             + uint64_len (Deposits b) * gas_ProposeTransferForEach (gasMapConfig d)
              in SendTransactionReturnHash (txHandler d) txBuilder gasLimit s) })"

definition Sign :: "('s, 'a, 'z) elrondClientDeps_scheme \<Rightarrow> uint64 \<Rightarrow> ('s, string res) go" where
  "Sign d actID = (\<lambda>s. do {
     (err, s) \<leftarrow> checkIsPaused d s;
     case err of
       Some er \<Rightarrow> Some (Inl er, s)
     | None \<Rightarrow>
         (let txBuilder = createCommonTxDataBuilder signFuncName (int64 actID)
          in SendTransactionReturnHash (txHandler d) txBuilder (gas_Sign (gasMapConfig d)) s) })"

definition PerformAction ::
  "('s, 'a, 'z) elrondClientDeps_scheme \<Rightarrow> uint64 \<Rightarrow> TransferBatch option \<Rightarrow> ('s, string res) go" where
  "PerformAction d actID b = (\<lambda>s.
     case b of
       None \<Rightarrow> Some (Inl clients_ErrNilBatch, s)
     | Some b \<Rightarrow> do {
         (err, s) \<leftarrow> checkIsPaused d s;
         case err of
           Some er \<Rightarrow> Some (Inl er, s)
         | None \<Rightarrow>
             (let txBuilder = createCommonTxDataBuilder performActionFuncName (int64 actID);
                  gasLimit = gas_PerformActionBase (gasMapConfig d)
                             + uint64_len (Statuses b) * gas_PerformActionForEach (gasMapConfig d)
              in SendTransactionReturnHash (txHandler d) txBuilder gasLimit s) })"

subsection \<open>Availability\<close>

definition elrond_setStatusForAvailabilityCheck ::
  "('s, 'a, 'z) elrondClientDeps_scheme \<Rightarrow> ClientStatus \<Rightarrow> string \<Rightarrow> uint64 \<Rightarrow> ('s, unit) go" where
  "elrond_setStatusForAvailabilityCheck d status message nonce = (\<lambda>s. do {
     (_, s) \<leftarrow> SetStringMetric (elrond_statusHandler d) MetricElrondClientStatus (ClientStatus_String status) s;
     (_, s) \<leftarrow> SetStringMetric (elrond_statusHandler d) MetricLastElrondClientError message s;
     SetIntMetric (elrond_statusHandler d) MetricLastBlockNonce (int64 nonce) s })"

definition elrond_incrementRetriesAvailabilityCheck :: "elrond_client \<Rightarrow> elrond_client" where
  "elrond_incrementRetriesAvailabilityCheck c = c\<lparr>retriesAvailabilityCheck := retriesAvailabilityCheck c + 1\<rparr>"

definition elrond_CheckClientAvailability ::
  "('s, 'a, 'z) elrondClientDeps_scheme \<Rightarrow> (elrond_client \<times> 's, gerror option) go" where
  \<comment> \<open>the deferred increment runs last; \<^verbatim>\<open>GetCurrentNonce\<close> gives 0 beside an error\<close>
  "elrond_CheckClientAvailability d = (\<lambda>(c, s). do {
     (r, (c, s)) \<leftarrow> GetCurrentNonce d (c, s);
     case r of
       Inl err \<Rightarrow> do {
         (_, s) \<leftarrow> elrond_setStatusForAvailabilityCheck d Unavailable (error_text err) 0 s;
         Some (Some err, (c, s)) }
     | Inr currentNonce \<Rightarrow> do {
         let c = (if currentNonce \<noteq> lastNonce c then c\<lparr>retriesAvailabilityCheck := 0, lastNonce := currentNonce\<rparr> else c);
         if retriesAvailabilityCheck c > elrond_allowDelta d then do {
           let message = ''nonce '' @ show_uint64 currentNonce @ '' fetched for ''
                         @ show_uint64 (retriesAvailabilityCheck c) @ '' times in a row'';
           (_, s) \<leftarrow> elrond_setStatusForAvailabilityCheck d Unavailable message currentNonce s;
           Some (None, (elrond_incrementRetriesAvailabilityCheck c, s)) }
         else do {
           (_, s) \<leftarrow> elrond_setStatusForAvailabilityCheck d Available '''' currentNonce s;
           Some (None, (elrond_incrementRetriesAvailabilityCheck c, s)) } } })"

definition elrond_Close :: "('s, 'a, 'z) elrondClientDeps_scheme \<Rightarrow> ('s, gerror option) go" where
  "elrond_Close d = transactionHandler_Close (txHandler d)"

end
