(* ===== verification/Elrond_Client_Correct.thy ===== *)
theory Elrond_Client_Correct
  imports Elrond_Client
begin

section \<open>Correctness of the Elrond client\<close>

text \<open>
  What the client of \<^verbatim>\<open>clients/elrond\<close> promises: the batch it reads from the contract (against a
  reference without the token cache, and against the encoding of the contract), the transactions it
  sends and when it sends none, and that it fulfils the contract the bridge executor relies on.
\<close>

subsection \<open>Reading the pending batch, without the cache\<close>

text \<open>
  The reference: split the answer of the contract into groups of six fields and convert the token of
  every group afresh.
\<close>

definition read_deposit ::
  "('s, 'a, 'z) elrondClientDeps_scheme \<Rightarrow> uint64 \<Rightarrow> bytes \<Rightarrow> bytes \<Rightarrow> bytes \<Rightarrow> bytes \<Rightarrow> int \<Rightarrow> DepositTransfer" where
  "read_deposit d nonce from to token converted amount =
     \<lparr> Nonce = nonce, ToBytes = to, DisplayableTo = ToHexStringWithPrefix to,
       FromBytes = from, DisplayableFrom = ToBech32String d from,
       TokenBytes = token, ConvertedTokenBytes = converted,
       DisplayableToken = string_of_bytes token, Amount = Some amount \<rparr>"

fun read_deposits ::
  "('s, 'a, 'z) elrondClientDeps_scheme \<Rightarrow> (bytes \<Rightarrow> bytes res) \<Rightarrow> nat \<Rightarrow> bytes list \<Rightarrow> DepositTransfer list res" where
  "read_deposits d conv i (blockNonce # nonceBytes # from # to # token # amountBytes # rest) =
     (if 2 ^ 64 \<le> SetBytes nonceBytes
      then Inl (Errorf '''' errNotUint64Bytes ('' while parsing the deposit nonce, transfer index '' @ show_nat i))
      else case conv token of
          Inl err \<Rightarrow> Inl (Errorf '''' err ('' while converting token bytes, transfer index '' @ show_nat i))
        | Inr converted \<Rightarrow>
            map_sum id ((#) (read_deposit d (word_of_int (SetBytes nonceBytes)) from to token converted (SetBytes amountBytes)))
              (read_deposits d conv (i + 1) rest))"
| "read_deposits d conv i _ = Inr []"

definition read_batch ::
  "('s, 'a, 'z) elrondClientDeps_scheme \<Rightarrow> (bytes \<Rightarrow> bytes res) \<Rightarrow> bytes list \<Rightarrow> TransferBatch option res" where
  "read_batch d conv response =
     (if response = [] \<or> response = [[]] then Inl ErrNoPendingBatchAvailable
      else if length response mod 6 \<noteq> 1 \<or> length response = 1
      then Inl (Errorf '''' errInvalidNumberOfArguments ('', got '' @ show_nat (length response) @ '' argument(s)''))
      else if 2 ^ 64 \<le> SetBytes (hd response)
      then Inl (Errorf '''' errNotUint64Bytes '' while parsing batch ID'')
      else map_sum id (\<lambda>ds. Some \<lparr> ID = word_of_int (SetBytes (hd response)), Deposits = ds,
                                   Statuses = replicate (length ds) 0 \<rparr>)
             (read_deposits d conv 0 (tl response)))"

lemma parseUInt64_cases:
  "parseUInt64FromByteSlice b =
     (if 2 ^ 64 \<le> SetBytes b then Inl errNotUint64Bytes else Inr (word_of_int (SetBytes b)))"
  by (simp add: parseUInt64FromByteSlice_def Let_def big_Uint64_def)

lemma pending_loop_reference:
  assumes pure: "\<And>token s. tokensMapper d token s = Some (conv token, s)"
    and cache: "\<And>token c. map_of m (string_of_bytes token) = Some c \<Longrightarrow> conv token = Inr c"
    and "length rs mod 6 = 0"
  shows "pending_loop d i rs m b s =
     Some (map_sum id (\<lambda>ds. b\<lparr>Deposits := Deposits b @ ds\<rparr>) (read_deposits d conv i rs), s)"
  using assms
proof (induction d conv i rs arbitrary: m b rule: read_deposits.induct)
  case (1 d conv i bn n f t tok am rest)
  note pure = "1.prems"(1) and cache = "1.prems"(2)
  show ?case
  proof (cases "2 ^ 64 \<le> SetBytes n")
    case True
    then show ?thesis by (simp add: parseUInt64_cases)
  next
    case parsed: False
    define dep where "dep = (\<lambda>c. read_deposit d (word_of_int (SetBytes n)) f t tok c (SetBytes am))"
    have loop: "pending_loop d i (bn # n # f # t # tok # am # rest) m b s =
        (convert_cached (tokensMapper d) (string_of_bytes tok) tok m s \<bind> (\<lambda>(r, s). case r of
             Inl err \<Rightarrow> Some (Inl (Errorf '''' err ('' while converting token bytes, transfer index '' @ show_nat i)), s)
           | Inr (c, m') \<Rightarrow> pending_loop d (i + 1) rest m' (b\<lparr>Deposits := Deposits b @ [dep c]\<rparr>) s))"
      using parsed
      by (auto simp add: parseUInt64_cases dep_def read_deposit_def Let_def
          intro!: arg_cong2 [where f = Option.bind] ext split: prod.split sum.split)
    have IH: "pending_loop d (i + 1) rest m' b' s =
        Some (map_sum id (\<lambda>ds. b'\<lparr>Deposits := Deposits b' @ ds\<rparr>) (read_deposits d conv (i + 1) rest), s)"
      if "conv tok = Inr c" "\<And>token c. map_of m' (string_of_bytes token) = Some c \<Longrightarrow> conv token = Inr c" for c m' b'
      by (rule "1.IH" [OF parsed that(1) pure that(2)]) (use "1.prems"(3) in simp_all)
    show ?thesis
    proof (cases "conv tok")
      case (Inl e)
      then have "map_of m (string_of_bytes tok) = None" using cache [of tok] by (cases "map_of m (string_of_bytes tok)") auto
      with Inl parsed show ?thesis unfolding loop by (simp add: convert_cached_def pure)
    next
      case (Inr c)
      obtain m' where m': "convert_cached (tokensMapper d) (string_of_bytes tok) tok m s = Some (Inr (c, m'), s)"
        "\<And>token c. map_of m' (string_of_bytes token) = Some c \<Longrightarrow> conv token = Inr c"
      proof (cases "map_of m (string_of_bytes tok)")
        case None
        with Inr cache show thesis
          by (intro that [of "AList.update (string_of_bytes tok) c m"])
            (auto simp: convert_cached_def pure update_conv' split: if_splits)
      next
        case (Some c')
        with Inr cache [of tok c'] cache show thesis by (intro that [of m]) (auto simp: convert_cached_def)
      qed
      show ?thesis
        by (cases "read_deposits d conv (i + 1) rest")
          (use parsed Inr m'(1) IH [OF Inr m'(2)] in \<open>simp_all only: loop\<close>, simp_all add: dep_def)
    qed
  qed
qed simp_all


lemma emptyResponse_iff: "emptyResponse response \<longleftrightarrow> response = [] \<or> response = [[]]"
  by (auto simp: emptyResponse_def length_Suc_conv)

lemma correct_number_of_args:
  "(int n - 1) smod numFieldsForTransaction = 0 \<and> int n > 1 \<longleftrightarrow> n mod 6 = 1 \<and> n \<noteq> 1"
proof (cases "n > 1")
  case True
  then have "(int n - 1) smod 6 = int ((n - 1) mod 6)"
    by (simp add: smod_int_alt_def of_nat_diff zmod_int)
  with True show ?thesis by (simp add: numFieldsForTransaction_def) presburger
qed auto

lemma createPendingBatch_reference:
  assumes pure: "\<And>token s. tokensMapper d token s = Some (conv token, s)"
    and "response \<noteq> []" and "response \<noteq> [[]]"
  shows "createPendingBatchFromResponse d response s = Some (read_batch d conv response, s)"
proof (cases "length response mod 6 = 1 \<and> length response \<noteq> 1")
  case False
  then show ?thesis
    unfolding createPendingBatchFromResponse_def Let_def correct_number_of_args
    using assms(2,3) by (auto simp: read_batch_def show_int_def)
next
  case True
  then obtain idb rest where r: "response = idb # rest" by (cases response) auto
  have "Suc n mod 6 = 1 \<Longrightarrow> n mod 6 = 0" for n :: nat by presburger
  with True r have "length rest mod 6 = 0" by simp
  note r = r this
  have loop: "pending_loop d 0 rest [] b s = Some (map_sum id (\<lambda>ds. b\<lparr>Deposits := Deposits b @ ds\<rparr>) (read_deposits d conv 0 rest), s)" for b
    using r(2) by (intro pending_loop_reference [OF pure]) auto
  show ?thesis
    unfolding createPendingBatchFromResponse_def Let_def correct_number_of_args
    using True assms(2,3) r
    by (cases "read_deposits d conv 0 rest") (auto simp: read_batch_def parseUInt64_cases loop)
qed

lemma GetPending_reads:
  assumes "\<And>token s. tokensMapper d token s = Some (conv token, s)"
    and "GetCurrentBatchAsDataBytes d s = Some (Inr response, s')"
  shows "GetPending d s = Some (read_batch d conv response, s')"
  using createPendingBatch_reference [OF assms(1), of response s'] assms(2)
  by (auto simp: GetPending_def emptyResponse_iff read_batch_def)

text \<open>
  C15: When the tokens mapper answers every query for a token the same way, \<^verbatim>\<open>GetPending\<close> gives exactly
  what the reference reads from the answer of the contract: converting each token once and keeping it
  in the map is the same as converting it for every deposit, for each error as well.
\<close>

theorem GetPending_is_read_batch:
  assumes "\<And>token s. tokensMapper d token s = Some (conv token, s)"
    and "GetCurrentBatchAsDataBytes d s = Some (Inr response, s')"
  shows "GetPending d s = Some (read_batch d conv response, s')"
  using assms by (rule GetPending_reads)

subsection \<open>The tokens of a batch\<close>

interpretation elrond_cache: token_cache "tokensMapper d" string_of_bytes for d
  by unfold_locales simp

lemma pending_loop_converted:
  assumes "cached_deposits (tokensMapper d) string_of_bytes m (Deposits b)"
  shows "runs False (pending_loop d i rs m b s)
     (\<lambda>r _. \<forall>b'. r = Inr b' \<longrightarrow> tokens_converted (tokensMapper d) (Deposits b'))"
  using assms
proof (induction d i rs m b s rule: pending_loop.induct)
  case (1 d i m b s)
  then show ?case by (auto intro!: go_rules elrond_cache.cached_deposits_converted)
next
  case (2 d i bn n f t tok am rest m b s)
  show ?case
    unfolding pending_loop.simps Let_def
    by (intro go_rules runs_case_prod convert_cached_run "2.IH" refl)
      (use "2.prems" in \<open>auto intro: elrond_cache.cached_deposits_append\<close>)
qed (auto intro!: go_rules)

text \<open>
  In the batch \<^verbatim>\<open>GetPending\<close> returns, the converted token of each deposit is an answer the tokens
  mapper gave for the token of this deposit, and deposits with the same token have the same converted
  token, even if the answers of the mapper change between two calls.
\<close>

theorem GetPending_converts_tokens:
  assumes "GetPending d s = Some (Inr (Some b), s')"
  shows "tokens_converted (tokensMapper d) (Deposits b)"
proof -
  have "pending_loop d i rs [] \<lparr> ID = x, Deposits = [], Statuses = y \<rparr> t = Some (Inr b', t')
      \<Longrightarrow> tokens_converted (tokensMapper d) (Deposits b')" for i rs x y t b' t'
    using pending_loop_converted [of d "[]" "\<lparr> ID = x, Deposits = [], Statuses = y \<rparr>" i rs t]
      elrond_cache.empty_cache by (auto dest: runsD)
  with assms show ?thesis
    by (auto simp: GetPending_def createPendingBatchFromResponse_def Let_def elim!: go_bindE split: go_split_asm)
qed

subsection \<open>Round trip\<close>

text \<open>
  The encoding of the contract: numbers are the shortest big-endian byte strings, a deposit is six
  fields, the first of which (the block nonce) the client ignores.
\<close>

fun big_Bytes :: "nat \<Rightarrow> bytes" where
  "big_Bytes n = (if n = 0 then [] else big_Bytes (n div 256) @ [of_nat (n mod 256)])"

declare big_Bytes.simps [simp del]

lemma SetBytes_big_Bytes [simp]: "SetBytes (big_Bytes n) = int n"
proof (induction n rule: big_Bytes.induct)
  case (1 n)
  show ?case
  proof (cases "n = 0")
    case True
    then show ?thesis by (simp add: big_Bytes.simps)
  next
    case False
    have "uint (of_nat (n mod 256) :: byte) = int (n mod 256)"
      by (simp add: unsigned_of_nat take_bit_eq_mod zmod_int flip: of_nat_mod)
    with False 1 show ?thesis
      by (simp add: big_Bytes.simps [of n] zdiv_int zmod_int)
  qed
qed

definition encode_deposit :: "bytes \<Rightarrow> DepositTransfer \<Rightarrow> bytes list" where
  "encode_deposit blockNonce dep =
     [blockNonce, big_Bytes (unat (Nonce dep)), FromBytes dep, ToBytes dep, TokenBytes dep,
      big_Bytes (nat (the (Amount dep)))]"

definition encode_batch :: "bytes list \<Rightarrow> TransferBatch \<Rightarrow> bytes list" where
  "encode_batch blockNonces b =
     big_Bytes (unat (ID b)) # concat (map2 encode_deposit blockNonces (Deposits b))"

definition deposit_as_read ::
  "('s, 'a, 'z) elrondClientDeps_scheme \<Rightarrow> (bytes \<Rightarrow> bytes res) \<Rightarrow> DepositTransfer \<Rightarrow> bool" where
  "deposit_as_read d conv dep \<longleftrightarrow>
     (\<exists>a \<ge> 0. dep = read_deposit d (Nonce dep) (FromBytes dep) (ToBytes dep) (TokenBytes dep) (ConvertedTokenBytes dep) a)
     \<and> conv (TokenBytes dep) = Inr (ConvertedTokenBytes dep)"

lemma word_of_int_int_unat [simp]: "word_of_int (int (unat w)) = w"
  by simp

lemma read_encoded_deposits:
  assumes "length bns = length ds" and "list_all (deposit_as_read d conv) ds"
  shows "read_deposits d conv i (concat (map2 encode_deposit bns ds)) = Inr ds"
  using assms
proof (induction bns ds arbitrary: i rule: list_induct2)
  case (Cons bn bns dep ds)
  then obtain a where a: "0 \<le> a" "dep = read_deposit d (Nonce dep) (FromBytes dep) (ToBytes dep) (TokenBytes dep) (ConvertedTokenBytes dep) a"
    and c: "conv (TokenBytes dep) = Inr (ConvertedTokenBytes dep)"
    by (auto simp: deposit_as_read_def)
  from a have am: "Amount dep = Some a" by (metis DepositTransfer.select_convs(9) read_deposit_def)
  have "int (unat (Nonce dep)) < 2 ^ 64" using uint_lt2p [of "Nonce dep"] by simp
  with Cons a am c show ?case by (simp add: encode_deposit_def)
qed simp

lemma length_encode: "length bns = length ds \<Longrightarrow> length (concat (map2 encode_deposit bns ds)) = 6 * length ds"
  by (induction bns ds rule: list_induct2) (simp_all add: encode_deposit_def)

text \<open>
  \<^verbatim>\<open>GetPending\<close> inverts the encoding of the contract: when the contract holds a non-empty batch whose
  deposits have non-negative amounts and tokens the mapper knows, the client returns this batch, with
  one zero status per deposit.
\<close>

theorem GetPending_decodes:
  assumes "\<And>token s. tokensMapper d token s = Some (conv token, s)"
    and "list_all (deposit_as_read d conv) (Deposits b)" and "Deposits b \<noteq> []"
    and "Statuses b = replicate (length (Deposits b)) 0"
    and "length blockNonces = length (Deposits b)"
    and "GetCurrentBatchAsDataBytes d s = Some (Inr (encode_batch blockNonces b), s')"
  shows "GetPending d s = Some (Inr (Some b), s')"
proof -
  have "int (unat (ID b)) < 2 ^ 64" using uint_lt2p [of "ID b"] by simp
  moreover have "concat (map2 encode_deposit blockNonces (Deposits b)) \<noteq> []"
    using length_encode [OF assms(5)] assms(3) by (metis length_0_conv mult_is_0 zero_neq_numeral)
  moreover have "Suc (6 * n) mod 6 = 1" for n :: nat by presburger
  ultimately have "read_batch d conv (encode_batch blockNonces b) = Inr (Some b)"
    using assms(2-5) read_encoded_deposits [OF assms(5,2), of 0] length_encode [OF assms(5)]
    by (simp add: read_batch_def encode_batch_def)
  then show ?thesis using GetPending_reads [OF assms(1,6)] by simp
qed

subsection \<open>What is sent\<close>

definition deposit_args :: "DepositTransfer \<Rightarrow> 'a Builder" where
  "deposit_args dt = [ArgBytes (FromBytes dt), ArgBytes (ToBytes dt), ArgBytes (ConvertedTokenBytes dt),
                      ArgBigInt (Amount dt), ArgInt64 (sint (Nonce dt))]"

definition transfer_args :: "TransferBatch \<Rightarrow> 'a Builder" where
  "transfer_args b = ArgInt64 (sint (ID b)) # concat (map deposit_args (Deposits b))"

definition status_args :: "TransferBatch \<Rightarrow> 'a Builder" where
  "status_args b = ArgInt64 (sint (ID b)) # map (\<lambda>st. ArgBytes [st]) (Statuses b)"

lemma batch_info: "addBatchInfo (bl @ [f, ArgInt64 (int64 (ID b))]) b = bl @ f # transfer_args b"
  unfolding addBatchInfo_def fold_append transfer_args_def deposit_args_def int64_def by simp

lemma add_statuses_args: "add_statuses bl sts = bl @ map (\<lambda>st. ArgBytes [st]) sts"
  unfolding add_statuses_def fold_append by (induction sts) auto

text \<open>The transaction the client sends when the contract is not paused.\<close>

definition send_unless_paused ::
  "('s, 'a, 'z) elrondClientDeps_scheme \<Rightarrow> 'a Builder \<Rightarrow> uint64 \<Rightarrow> ('s, string res) go" where
  "send_unless_paused d builder gas = (\<lambda>s. do {
     (err, s) \<leftarrow> checkIsPaused d s;
     case err of
       Some er \<Rightarrow> Some (Inl er, s)
     | None \<Rightarrow> SendTransactionReturnHash (txHandler d) builder gas s })"

lemma writes_send:
  "ProposeTransfer d (Some b) = send_unless_paused d (Function ''proposeMultiTransferEsdtBatch'' # transfer_args b)
     (gas_ProposeTransferBase (gasMapConfig d) + of_nat (length (Deposits b)) * gas_ProposeTransferForEach (gasMapConfig d))"
  "ProposeSetStatus d (Some b) = send_unless_paused d (Function ''proposeEsdtSafeSetCurrentTransactionBatchStatus'' # status_args b)
     (gas_ProposeStatusBase (gasMapConfig d) + of_nat (length (Deposits b)) * gas_ProposeStatusForEach (gasMapConfig d))"
  "Sign d i = send_unless_paused d [Function ''sign'', ArgInt64 (sint i)] (gas_Sign (gasMapConfig d))"
  "PerformAction d i (Some b) = send_unless_paused d [Function ''performAction'', ArgInt64 (sint i)]
     (gas_PerformActionBase (gasMapConfig d) + of_nat (length (Statuses b)) * gas_PerformActionForEach (gasMapConfig d))"
  unfolding ProposeTransfer_def ProposeSetStatus_def Sign_def PerformAction_def send_unless_paused_def Let_def
    createCommonTxDataBuilder_def proposeTransferFuncName_def proposeSetStatusFuncName_def signFuncName_def
    performActionFuncName_def uint64_len_def int64_def add_statuses_args fold_append transfer_args_def
    deposit_args_def status_args_def append_Cons append_Nil
  by simp_all

text \<open>
  The question whether a transfer was proposed, the question for its action identifier and the
  proposal itself carry the same arguments, in the same order: the batch identifier, then sender,
  recipient, converted token, amount and nonce of each deposit; only the called function differs. The
  same holds for the three operations on the statuses.
\<close>

theorem queries_ask_for_what_is_proposed:
  "WasProposedTransfer d (Some b) = executeQueryBoolFromBuilder d
       (createDefaultVmQueryBuilder d @ Function ''wasTransferActionProposed'' # transfer_args b)
   \<and> GetActionIDForProposeTransfer d (Some b) = executeQueryUint64FromBuilder d
       (createDefaultVmQueryBuilder d @ Function ''getActionIdForTransferBatch'' # transfer_args b)
   \<and> ProposeTransfer d (Some b) = send_unless_paused d
       (Function ''proposeMultiTransferEsdtBatch'' # transfer_args b)
       (gas_ProposeTransferBase (gasMapConfig d) + of_nat (length (Deposits b)) * gas_ProposeTransferForEach (gasMapConfig d))
   \<and> WasProposedSetStatus d (Some b) = executeQueryBoolFromBuilder d
       (createDefaultVmQueryBuilder d @ Function ''wasSetCurrentTransactionBatchStatusActionProposed'' # status_args b)
   \<and> GetActionIDForSetStatusOnPendingTransfer d (Some b) = executeQueryUint64FromBuilder d
       (createDefaultVmQueryBuilder d @ Function ''getActionIdForSetCurrentTransactionBatchStatus'' # status_args b)
   \<and> ProposeSetStatus d (Some b) = send_unless_paused d
       (Function ''proposeEsdtSafeSetCurrentTransactionBatchStatus'' # status_args b)
       (gas_ProposeStatusBase (gasMapConfig d) + of_nat (length (Deposits b)) * gas_ProposeStatusForEach (gasMapConfig d))"
  unfolding writes_send WasProposedTransfer_def GetActionIDForProposeTransfer_def WasProposedSetStatus_def
      GetActionIDForSetStatusOnPendingTransfer_def Let_def wasTransferActionProposedFuncName_def
      getActionIdForTransferBatchFuncName_def wasSetCurrentTransactionBatchStatusActionProposedFuncName_def
      getActionIdForSetCurrentTransactionBatchStatusFuncName_def add_statuses_args
      batch_info
    by (simp add: status_args_def int64_def)

text \<open>
  C12: A transaction the client reports as sent went out with the relayer as sender and the multisig
  contract as receiver, no value, the gas limit and the data asked for, and a signature over the
  serialised transaction with an empty signature field; the relayer was whitelisted when it was made.
\<close>

theorem sent_transaction_is_signed:
  assumes "SendTransactionReturnHash th builder gas s = Some (Inr hash, s')"
  shows "\<exists>tx buff sig sent before. SendTransaction th tx sent = Some (Inr hash, s')
     \<and> IsWhitelisted th (th_relayerAddress th) s = Some (True, before)
     \<and> tx_SndAddr tx = th_AddressAsBech32String th (th_relayerAddress th)
     \<and> tx_RcvAddr tx = multisigAddressAsBech32 th \<and> tx_Value tx = ''0'' \<and> tx_GasLimit tx = gas
     \<and> ToDataBytes th builder = Inr (tx_Data tx)
     \<and> Marshal_Transaction th (tx\<lparr>tx_Signature := ''''\<rparr>) = Inr buff
     \<and> singleSigner_Sign th buff = Inr sig \<and> tx_Signature tx = hex_EncodeToString sig"
proof -
  from assms obtain b tx t where w: "IsWhitelisted th (th_relayerAddress th) s = Some (True, b)"
    and tx: "signTransaction th builder gas b = Some (Inr tx, t)"
    and send: "SendTransaction th tx t = Some (Inr hash, s')"
    by (auto simp: SendTransactionReturnHash_def elim!: go_bindE split: go_split_asm)
  from tx obtain buff sig
    where "Marshal_Transaction th (tx\<lparr>tx_Signature := ''''\<rparr>) = Inr buff" "singleSigner_Sign th buff = Inr sig"
      "tx_Signature tx = hex_EncodeToString sig"
      "tx_SndAddr tx = th_AddressAsBech32String th (th_relayerAddress th)"
      "tx_RcvAddr tx = multisigAddressAsBech32 th" "tx_Value tx = ''0''" "tx_GasLimit tx = gas"
      "ToDataBytes th builder = Inr (tx_Data tx)"
    by (auto simp: signTransaction_def signTransactionWithPrivateKey_def Let_def elim!: go_bindE split: go_split_asm)
  with w send show ?thesis by blast
qed

text \<open>The four operations that send a transaction.\<close>

definition elrond_writes ::
  "('s, 'a, 'z) elrondClientDeps_scheme \<Rightarrow> uint64 \<Rightarrow> TransferBatch option \<Rightarrow> ('s, string res) go list" where
  "elrond_writes d i b = [ProposeTransfer d b, ProposeSetStatus d b, Sign d i, PerformAction d i b]"

definition with_send ::
  "('s, 'a) elrondClientDeps \<Rightarrow> (Transaction \<Rightarrow> ('s, string res) go) \<Rightarrow> ('s, 'a) elrondClientDeps" where
  "with_send d send = d\<lparr>txHandler := (txHandler d)\<lparr>SendTransaction := send\<rparr>\<rparr>"

lemma with_send_fields:
  "proxy (with_send d send) = proxy d" "multisigContractAddress (with_send d send) = multisigContractAddress d"
  "relayerAddress (with_send d send) = relayerAddress d" "ToVmValueRequest (with_send d send) = ToVmValueRequest d"
  "gasMapConfig (with_send d send) = gasMapConfig d"
  by (simp_all add: with_send_def)

lemma send_unless_paused_with_send:
  assumes "(\<exists>s'. IsPaused d s = Some (Inr True, s'))
         \<or> (\<forall>t. \<exists>t'. IsWhitelisted (txHandler d) (th_relayerAddress (txHandler d)) t = Some (False, t'))"
  shows "send_unless_paused (with_send d send) bl gas s = send_unless_paused d bl gas s
    \<and> (\<forall>hash s'. send_unless_paused d bl gas s \<noteq> Some (Inr hash, s'))"
proof -
  have paused: "IsPaused (with_send d send) = IsPaused d"
    unfolding IsPaused_def executeQueryBoolFromBuilder_def ExecuteQueryReturningBool_def
      ExecuteQueryReturningBytes_def createDefaultVmQueryBuilder_def with_send_fields ..
  then have check: "checkIsPaused (with_send d send) = checkIsPaused d"
    by (simp add: checkIsPaused_def)
  from assms show ?thesis
  proof
    assume "\<exists>s'. IsPaused d s = Some (Inr True, s')"
    then show ?thesis unfolding send_unless_paused_def check by (auto simp: checkIsPaused_def)
  next
    assume w: "\<forall>t. \<exists>t'. IsWhitelisted (txHandler d) (th_relayerAddress (txHandler d)) t = Some (False, t')"
    have "SendTransactionReturnHash (txHandler (with_send d send)) bl gas t = SendTransactionReturnHash (txHandler d) bl gas t
       \<and> (\<forall>hash s'. SendTransactionReturnHash (txHandler d) bl gas t \<noteq> Some (Inr hash, s'))" for t
      using w [rule_format, of t] by (auto simp: SendTransactionReturnHash_def with_send_def)
    then show ?thesis unfolding send_unless_paused_def check
      by (cases "checkIsPaused d s") (auto split: option.splits)
  qed
qed

text \<open>
  C11: While the multisig contract is paused, and while the relayer is not whitelisted, none of the
  operations sends a transaction: each runs as it would with any other network in the place of the
  real one, and none reports a transaction hash.
\<close>

theorem paused_or_unlisted_sends_nothing:
  assumes "(\<exists>s'. IsPaused d s = Some (Inr True, s'))
         \<or> (\<forall>t. \<exists>t'. IsWhitelisted (txHandler d) (th_relayerAddress (txHandler d)) t = Some (False, t'))"
  shows "map (\<lambda>m. m s) (elrond_writes (with_send d send) i b) = map (\<lambda>m. m s) (elrond_writes d i b)
    \<and> (\<forall>hash s'. Some (Inr hash, s') \<notin> set (map (\<lambda>m. m s) (elrond_writes d i b)))"
proof -
  note same = conjunct1 [OF send_unless_paused_with_send [OF assms]]
  have none: "Some (Inr hash, s') \<noteq> send_unless_paused d bl gas s" for hash s' bl gas
    using send_unless_paused_with_send [OF assms] by metis
  show ?thesis
  proof (cases b)
    case None
    with same none show ?thesis
      by (auto simp: elrond_writes_def ProposeTransfer_def ProposeSetStatus_def PerformAction_def writes_send(3) with_send_fields)
  next
    case (Some b')
    with same none show ?thesis by (auto simp: elrond_writes_def writes_send with_send_fields)
  qed
qed

subsection \<open>The contract of the executor\<close>

definition elrond_world_ok :: "('s, 'a, 'z) elrondClientDeps_scheme \<Rightarrow> bool" where
  "elrond_world_ok d \<longleftrightarrow>
     (\<forall>req. panic_free (ExecuteVMQuery (proxy d) req))
     \<and> (\<forall>req s s'. ExecuteVMQuery (proxy d) req s \<noteq> Some (Inr None, s'))
     \<and> (\<forall>req s out s'. ExecuteVMQuery (proxy d) req s = Some (Inr (Some out), s') \<longrightarrow> length (ReturnData out) < 2 ^ 63)
     \<and> (\<forall>x. panic_free (GetNetworkStatus (proxy d) x))
     \<and> (\<forall>x. panic_free (GetShardOfAddress (proxy d) x))
     \<and> panic_free (GetNetworkConfig (th_proxy (txHandler d)))
     \<and> (\<forall>s s'. GetNetworkConfig (th_proxy (txHandler d)) s \<noteq> Some (Inr None, s'))
     \<and> (\<forall>x. panic_free (GetNonce (txHandler d) x))
     \<and> (\<forall>x. panic_free (SendTransaction (txHandler d) x))
     \<and> (\<forall>x. panic_free (IsWhitelisted (txHandler d) x))
     \<and> (\<forall>x. panic_free (tokensMapper d x))
     \<and> (\<forall>x y. panic_free (SetStringMetric (elrond_statusHandler d) x y))
     \<and> (\<forall>x y. panic_free (SetIntMetric (elrond_statusHandler d) x y))"

lemma elrond_world_total:
  "elrond_world_ok d \<longrightarrow> panic_free (ExecuteVMQuery (proxy d) req)"
  "elrond_world_ok d \<longrightarrow> panic_free (GetNetworkStatus (proxy d) x)"
  "elrond_world_ok d \<longrightarrow> panic_free (GetShardOfAddress (proxy d) str)"
  "elrond_world_ok d \<longrightarrow> panic_free (GetNetworkConfig (th_proxy (txHandler d)))"
  "elrond_world_ok d \<longrightarrow> panic_free (GetNonce (txHandler d) a)"
  "elrond_world_ok d \<longrightarrow> panic_free (SendTransaction (txHandler d) tx)"
  "elrond_world_ok d \<longrightarrow> panic_free (IsWhitelisted (txHandler d) a)"
  "elrond_world_ok d \<longrightarrow> panic_free (tokensMapper d bs)"
  "elrond_world_ok d \<longrightarrow> panic_free (SetStringMetric (elrond_statusHandler d) str val)"
  "elrond_world_ok d \<longrightarrow> panic_free (SetIntMetric (elrond_statusHandler d) str v)"
  by (simp_all add: elrond_world_ok_def)

lemma elrond_world_answers:
  "elrond_world_ok d \<Longrightarrow> ExecuteVMQuery (proxy d) req s \<noteq> Some (Inr None, s')"
  "elrond_world_ok d \<Longrightarrow> ExecuteVMQuery (proxy d) req s = Some (Inr (Some out), s') \<Longrightarrow> length (ReturnData out) < 2 ^ 63"
  "elrond_world_ok d \<Longrightarrow> GetNetworkConfig (th_proxy (txHandler d)) s \<noteq> Some (Inr None, s')"
  unfolding elrond_world_ok_def by blast+

lemmas elrond_world_run = elrond_world_total [THEN service_run]

lemma ExecuteQueryReturningBytes_runs:
  assumes "\<And>e s'. Q (Inl e) s'"
    and "\<And>rs s'. request \<noteq> None \<Longrightarrow> (elrond_world_ok d \<Longrightarrow> length rs < 2 ^ 63) \<Longrightarrow> Q (Inr rs) s'"
  shows "runs (elrond_world_ok d) (ExecuteQueryReturningBytes d request s) Q"
proof (cases request)
  case None
  then show ?thesis by (simp add: ExecuteQueryReturningBytes_def runs_def assms)
next
  case (Some req)
  show ?thesis
    unfolding ExecuteQueryReturningBytes_def Some option.case
    by (intro go_rules elrond_world_run assms; (metis elrond_world_answers(1) elrond_world_answers(2) | simp add: Some))
qed

lemma ExecuteQueryReturningBool_runs:
  assumes "\<And>r s'. Q r s'"
  shows "runs (elrond_world_ok d) (ExecuteQueryReturningBool d request s) Q"
  unfolding ExecuteQueryReturningBool_def
  by (intro go_rules ExecuteQueryReturningBytes_runs assms) auto

lemma ExecuteQueryReturningUint64_runs:
  assumes "\<And>r s'. Q r s'"
  shows "runs (elrond_world_ok d) (ExecuteQueryReturningUint64 d request s) Q"
  unfolding ExecuteQueryReturningUint64_def
  by (intro go_rules ExecuteQueryReturningBytes_runs assms) auto

lemma executeQueryFromBuilder_runs:
  assumes "\<And>e s'. Q (Inl e) s'" and "\<And>rs s'. (elrond_world_ok d \<Longrightarrow> length rs < 2 ^ 63) \<Longrightarrow> Q (Inr rs) s'"
  shows "runs (elrond_world_ok d) (executeQueryFromBuilder d builder s) Q"
  unfolding executeQueryFromBuilder_def by (intro go_rules ExecuteQueryReturningBytes_runs assms)

lemma executeQueryBoolFromBuilder_runs:
  assumes "\<And>r s'. Q r s'"
  shows "runs (elrond_world_ok d) (executeQueryBoolFromBuilder d builder s) Q"
  unfolding executeQueryBoolFromBuilder_def by (intro go_rules ExecuteQueryReturningBool_runs assms)

lemma executeQueryUint64FromBuilder_runs:
  assumes "\<And>r s'. Q r s'"
  shows "runs (elrond_world_ok d) (executeQueryUint64FromBuilder d builder s) Q"
  unfolding executeQueryUint64FromBuilder_def by (intro go_rules ExecuteQueryReturningUint64_runs assms)

lemmas query_runs = executeQueryFromBuilder_runs executeQueryBoolFromBuilder_runs executeQueryUint64FromBuilder_runs

lemma SendTransactionReturnHash_runs:
  assumes "\<And>r s'. Q r s'"
  shows "runs (elrond_world_ok d) (SendTransactionReturnHash (txHandler d) builder gas s) Q"
  unfolding SendTransactionReturnHash_def signTransaction_def Let_def
  by (intro go_rules elrond_world_run assms) (metis elrond_world_answers(3))

lemma checkIsPaused_runs:
  assumes "\<And>r s'. Q r s'"
  shows "runs (elrond_world_ok d) (checkIsPaused d s) Q"
  unfolding checkIsPaused_def IsPaused_def by (intro go_rules query_runs assms)

lemma pending_loop_runs:
  assumes "\<And>e s'. Q (Inl e) s'"
    and "\<And>b' s'. length (Deposits b') \<le> length (Deposits b) + length rs \<Longrightarrow> amounts_set (Some b') \<Longrightarrow> Q (Inr b') s'"
    and "length rs mod 6 = 0" and "amounts_set (Some b)"
  shows "runs (elrond_world_ok d) (pending_loop d i rs m b s) Q"
  using assms
proof (induction d i rs m b s rule: pending_loop.induct)
  case (2 d i bn n f t tok am rest m b s)
  show ?case
    unfolding pending_loop.simps Let_def convert_cached_def
    by (intro go_rules elrond_world_run runs_case_prod "2.IH" "2.prems"(1) "2.prems"(2)) (use "2.prems"(3,4) in \<open>auto simp: convert_cached_def amounts_set_def\<close>)
qed (auto intro!: go_rules)

lemma GetPending_runs:
  assumes "\<And>e s'. Q (Inl e) s'"
    and "\<And>b s'. (elrond_world_ok d \<Longrightarrow> length (Statuses b) < 2 ^ 63) \<Longrightarrow> length (Statuses b) = length (Deposits b)
           \<Longrightarrow> amounts_set (Some b) \<Longrightarrow> Q (Inr (Some b)) s'"
  shows "runs (elrond_world_ok d) (GetPending d s) Q"
proof -
  have "n mod 6 = Suc 0 \<Longrightarrow> (n - Suc 0) mod 6 = 0" for n :: nat by presburger
  then show ?thesis
    unfolding GetPending_def GetCurrentBatchAsDataBytes_def createPendingBatchFromResponse_def Let_def correct_number_of_args
    by (intro go_rules query_runs pending_loop_runs assms) (auto simp: amounts_set_def)
qed

text \<open>
  The client as the executor sees it: the interface \<^verbatim>\<open>ElrondClient\<close> of \<^verbatim>\<open>bridges/ethElrond\<close>, over the
  state of the client and of the network.
\<close>

definition elrond_interface :: "('s, 'a, 'z) elrondClientDeps_scheme \<Rightarrow> (elrond_client \<times> 's) ElrondClient" where
  "elrond_interface d =
     \<lparr> ec_GetPending = beside (GetPending d),
       ec_WasProposedTransfer = (\<lambda>b. beside (WasProposedTransfer d b)),
       ec_QuorumReached = (\<lambda>i. beside (QuorumReached d i)),
       ec_WasExecuted = (\<lambda>i. beside (getter_WasExecuted d i)),
       ec_GetActionIDForProposeTransfer = (\<lambda>b. beside (GetActionIDForProposeTransfer d b)),
       ec_WasProposedSetStatus = (\<lambda>b. beside (WasProposedSetStatus d b)),
       ec_GetActionIDForSetStatusOnPendingTransfer = (\<lambda>b. beside (GetActionIDForSetStatusOnPendingTransfer d b)),
       ec_GetLastExecutedEthBatchID = beside (GetLastExecutedEthBatchID d),
       ec_GetLastExecutedEthTxID = beside (GetLastExecutedEthTxID d),
       ec_ProposeSetStatus = (\<lambda>b. beside (ProposeSetStatus d b)),
       ec_ProposeTransfer = (\<lambda>b. beside (ProposeTransfer d b)),
       ec_Sign = (\<lambda>i. beside (Sign d i)),
       ec_WasSigned = (\<lambda>i. beside (WasSigned d i)),
       ec_PerformAction = (\<lambda>i b. beside (PerformAction d i b)),
       ec_CheckClientAvailability = elrond_CheckClientAvailability d \<rparr>"

lemma elrond_CheckClientAvailability_runs:
  assumes "\<And>r cs'. Q r cs'"
  shows "runs (elrond_world_ok d) (elrond_CheckClientAvailability d cs) Q"
  unfolding elrond_CheckClientAvailability_def GetCurrentNonce_def getShardID_def Let_def
    elrond_setStatusForAvailabilityCheck_def
  by (intro go_rules runs_case_prod_app runs_case_prod elrond_world_run assms)

lemma elrond_client_ok_of_world:
  assumes ok: "elrond_world_ok d"
  shows "elrond_client_ok (elrond_interface d)"
proof -
  note rules = go_rules query_runs checkIsPaused_runs SendTransactionReturnHash_runs
  note pf = panic_free_runs [OF beside_runs ok]
  have pending: "amounts_set b \<and> (\<exists>pb. b = Some pb \<and> length (Statuses pb) < 2 ^ 63)"
    if "beside (GetPending d) cs = Some (Inr b, cs')" for cs b cs'
  proof -
    have "runs (elrond_world_ok d) (beside (GetPending d) cs)
        (\<lambda>r _. \<forall>b. r = Inr b \<longrightarrow> amounts_set b \<and> (\<exists>pb. b = Some pb \<and> length (Statuses pb) < 2 ^ 63))"
      by (intro beside_runs GetPending_runs) (use ok in auto)
    then show ?thesis using that by (auto dest: runsD)
  qed
  have reads: "panic_free (beside (GetPending d))" "panic_free (beside (WasProposedTransfer d b))"
    "panic_free (beside (QuorumReached d i))" "panic_free (beside (getter_WasExecuted d i))"
    "panic_free (beside (GetActionIDForProposeTransfer d b))" "panic_free (beside (WasProposedSetStatus d b))"
    "panic_free (beside (GetActionIDForSetStatusOnPendingTransfer d b))"
    "panic_free (beside (GetLastExecutedEthBatchID d))" "panic_free (beside (GetLastExecutedEthTxID d))"
    "panic_free (beside (WasSigned d i))" for b i
    unfolding WasProposedTransfer_def QuorumReached_def getter_WasExecuted_def GetActionIDForProposeTransfer_def
      WasProposedSetStatus_def GetActionIDForSetStatusOnPendingTransfer_def GetLastExecutedEthBatchID_def
      GetLastExecutedEthTxID_def WasSigned_def Let_def
    by ((rule pf, intro rules GetPending_runs TrueI)+)
  have writes: "panic_free (beside (ProposeSetStatus d b))" "panic_free (beside (ProposeTransfer d b))"
    "panic_free (beside (Sign d i))" "panic_free (beside (PerformAction d i b))" for b i
    unfolding ProposeSetStatus_def ProposeTransfer_def Sign_def PerformAction_def Let_def
    by ((rule pf, intro rules TrueI)+)
  have "panic_free (elrond_CheckClientAvailability d)"
    by (rule panic_free_runs [OF _ ok]) (intro elrond_CheckClientAvailability_runs TrueI)
  with pending reads writes show ?thesis
    unfolding elrond_client_ok_def elrond_interface_def by (simp only: ElrondClient.select_convs) blast
qed

text \<open>
  C21: The Elrond client implements the contract the executor relies on: when the proxy, the nonce
  handler, the mapper and the status handler do not panic and the proxy gives no nil answer without an
  error, no operation of the client panics, and \<^verbatim>\<open>GetPending\<close> gives either an error or a batch in which
  every deposit has an amount.
\<close>

theorem elrond_client_implements_contract:
  assumes "elrond_world_ok d"
  shows "elrond_client_ok (elrond_interface d)"
  using assms by (rule elrond_client_ok_of_world)

subsection \<open>A concrete client\<close>

text \<open>
  A network whose state counts the transactions sent, with a contract that answers \<^verbatim>\<open>isPaused\<close> and
  \<^verbatim>\<open>getCurrentTxBatch\<close>; every token is converted by putting a byte in front.
\<close>

definition demo_query :: "nat Builder \<Rightarrow> VmValueRequest option res" where
  "demo_query builder =
     Inr (Some \<lparr> req_Address = ''sc'', FuncName = (case builder ! 2 of Function f \<Rightarrow> f | _ \<Rightarrow> ''''),
                 CallerAddr = ''relayer'', Args = [] \<rparr>)"

definition demo_proxy :: "bool \<Rightarrow> bytes list \<Rightarrow> nat ElrondProxy" where
  "demo_proxy paused pending =
     \<lparr> ExecuteVMQuery = (\<lambda>req s. Some (Inr (Some
         \<lparr> ReturnData = (if FuncName req = ''getCurrentTxBatch'' then pending else [[if paused then 1 else 0]]),
           ReturnCode = ''ok'', ReturnMessage = '''' \<rparr>), s)),
       GetNetworkStatus = (\<lambda>_ s. Some (Inr (Some 1), s)),
       GetShardOfAddress = (\<lambda>_ s. Some ((0, None), s)),
       GetNetworkConfig = (\<lambda>s. Some (Inr (Some \<lparr> ChainID = ''T'', MinTransactionVersion = 1, MinGasPrice = 1 \<rparr>), s)) \<rparr>"

definition demo_handler :: "nat ElrondProxy \<Rightarrow> (nat, nat) transactionHandler" where
  "demo_handler p =
     \<lparr> th_proxy = p, th_relayerAddress = 7, multisigAddressAsBech32 = ''erd1sc'',
       GetNonce = (\<lambda>_ s. Some (Inr (of_nat s), s)),
       SendTransaction = (\<lambda>_ s. Some (Inr ''hash'', s + 1)),
       nonceTxHandler_Close = (\<lambda>s. Some (None, s)),
       singleSigner_Sign = (\<lambda>b. Inr [1, 2]),
       IsWhitelisted = (\<lambda>_ s. Some (True, s)),
       th_AddressAsBech32String = (\<lambda>_. ''erd1relayer''),
       ToDataBytes = (\<lambda>_. Inr [9]),
       Marshal_Transaction = (\<lambda>_. Inr [8]) \<rparr>"

definition demo_mapper :: "bytes \<Rightarrow> bytes res" where
  "demo_mapper token = Inr (255 # token)"

definition demo_client :: "bool \<Rightarrow> bytes list \<Rightarrow> (nat, nat) elrondClientDeps" where
  "demo_client paused pending =
     \<lparr> multisigContractAddress = 3, relayerAddress = 7, proxy = demo_proxy paused pending,
       AddressAsBech32String = (\<lambda>_. ''erd1''), ToVmValueRequest = demo_query,
       txHandler = demo_handler (demo_proxy paused pending),
       tokensMapper = (\<lambda>token s. Some (demo_mapper token, s)),
       gasMapConfig = \<lparr> gas_Sign = 1, gas_ProposeTransferBase = 1, gas_ProposeTransferForEach = 1,
         gas_ProposeStatusBase = 1, gas_ProposeStatusForEach = 1, gas_PerformActionBase = 1, gas_PerformActionForEach = 1 \<rparr>,
       ToBech32String = (\<lambda>_. ''erd1from''),
       elrond_statusHandler = \<lparr> SetIntMetric = (\<lambda>_ _ s. Some ((), s)), AddIntMetric = (\<lambda>_ _ s. Some ((), s)),
         SetStringMetric = (\<lambda>_ _ s. Some ((), s)) \<rparr>,
       elrond_allowDelta = 10 \<rparr>"

definition demo_pending :: TransferBatch where
  "demo_pending =
     \<lparr> ID = 3,
       Deposits = [read_deposit (demo_client False []) 7 [1] [2] [65] [255, 65] 5,
                   read_deposit (demo_client False []) 8 [1] [2] [65] [255, 65] 6],
       Statuses = [0, 0] \<rparr>"

definition demo_answer :: "bytes list" where
  "demo_answer = [[3], [], [7], [1], [2], [65], [5], [], [8], [1], [2], [65], [6]]"

lemmas demo_client_defs =
  demo_client_def demo_proxy_def demo_handler_def demo_query_def demo_mapper_def

lemma demo_current_batch:
  "GetCurrentBatchAsDataBytes (demo_client False demo_answer) s = Some (Inr demo_answer, s)"
  by (simp add: GetCurrentBatchAsDataBytes_def executeQueryFromBuilder_def ExecuteQueryReturningBytes_def
      createDefaultVmQueryBuilder_def getCurrentTxBatchFuncName_def okCodeAfterExecution_def demo_client_defs)

lemma demo_answer_encodes: "encode_batch [[], []] demo_pending = demo_answer"
  by (simp add: demo_answer_def demo_pending_def encode_batch_def encode_deposit_def read_deposit_def big_Bytes.simps)

lemma demo_pending_read: "GetPending (demo_client False demo_answer) s = Some (Inr (Some demo_pending), s)"
proof -
  have "GetPending (demo_client False demo_answer) s =
      Some (read_batch (demo_client False demo_answer) demo_mapper demo_answer, s)"
    by (rule GetPending_reads [OF _ demo_current_batch]) (simp add: demo_client_def)
  then show ?thesis
    by (simp add: read_batch_def demo_answer_def demo_pending_def demo_mapper_def SetBytes_def
        read_deposit_def demo_client_def)
qed

lemma demo_pending_as_read:
  "list_all (deposit_as_read (demo_client False demo_answer) demo_mapper) (Deposits demo_pending)"
  by (simp add: demo_pending_def deposit_as_read_def read_deposit_def demo_mapper_def demo_client_def)

theorem GetPending_decodes_witness:
  "GetPending (demo_client False demo_answer) 0 = Some (Inr (Some demo_pending), 0)"
proof (rule GetPending_decodes [where conv = demo_mapper and blockNonces = "[[], []]"])
  show "tokensMapper (demo_client False demo_answer) token s = Some (demo_mapper token, s)" for token s
    by (simp add: demo_client_def)
  show "GetCurrentBatchAsDataBytes (demo_client False demo_answer) 0 = Some (Inr (encode_batch [[], []] demo_pending), 0)"
    using demo_current_batch by (simp add: demo_answer_encodes)
qed (use demo_pending_as_read in \<open>simp_all add: demo_pending_def\<close>)

theorem GetPending_is_read_batch_witness:
  "GetPending (demo_client False demo_answer) 0
     = Some (read_batch (demo_client False demo_answer) demo_mapper demo_answer, 0)"
  by (rule GetPending_is_read_batch) (simp_all add: demo_client_def demo_current_batch [unfolded demo_client_def])

theorem GetPending_converts_tokens_witness:
  "tokens_converted (tokensMapper (demo_client False demo_answer)) (Deposits demo_pending)"
  by (rule GetPending_converts_tokens [OF demo_pending_read])

theorem sent_transaction_is_signed_witness:
  "\<exists>tx :: Transaction. tx_SndAddr tx = ''erd1relayer'' \<and> tx_GasLimit tx = 5 \<and> tx_Signature tx = ''0102''"
proof -
  let ?th = "demo_handler (demo_proxy False [])"
  have "SendTransactionReturnHash ?th [] 5 0 = Some (Inr ''hash'', 1)"
    by (simp add: SendTransactionReturnHash_def signTransaction_def signTransactionWithPrivateKey_def demo_client_defs)
  from sent_transaction_is_signed [OF this] obtain tx :: Transaction and buff sig
    where tx: "tx_SndAddr tx = th_AddressAsBech32String ?th (th_relayerAddress ?th)" "tx_GasLimit tx = 5"
      "singleSigner_Sign ?th buff = Inr sig" "tx_Signature tx = hex_EncodeToString sig" by (elim exE conjE) (rule that)
  have "singleSigner_Sign ?th buff = Inr [1, 2]" by (simp add: demo_handler_def)
  with tx(3) have "sig = [1, 2]" by (simp only: sum.inject)
  moreover have "hex_EncodeToString [1, 2] = ''0102''" by (simp add: hex_EncodeToString_def)
  moreover have "th_AddressAsBech32String ?th (th_relayerAddress ?th) = ''erd1relayer''" by (simp add: demo_handler_def)
  ultimately have "tx_SndAddr tx = ''erd1relayer'' \<and> tx_GasLimit tx = 5 \<and> tx_Signature tx = ''0102''"
    using tx(1,2,4) by (simp only: simp_thms)
  then show ?thesis by (rule exI [of _ tx])
qed

theorem paused_or_unlisted_sends_nothing_witness:
  "ProposeTransfer (with_send (demo_client True []) (\<lambda>_ _. None)) (Some demo_pending) 0
     = ProposeTransfer (demo_client True []) (Some demo_pending) 0"
proof -
  have "IsPaused (demo_client True []) 0 = Some (Inr True, 0)"
    by (simp add: IsPaused_def executeQueryBoolFromBuilder_def ExecuteQueryReturningBool_def
        ExecuteQueryReturningBytes_def createDefaultVmQueryBuilder_def isPausedFuncName_def okCodeAfterExecution_def
        parseBool_Inr_iff demo_client_defs)
  then show ?thesis
    using paused_or_unlisted_sends_nothing [of "demo_client True []" 0 "\<lambda>_ _. None" 0 "Some demo_pending"]
    by (auto simp: elrond_writes_def)
qed

theorem elrond_client_implements_contract_witness:
  "elrond_client_ok (elrond_interface (demo_client False []))"
  by (rule elrond_client_implements_contract)
    (simp add: elrond_world_ok_def panic_free_def demo_client_defs)

end
