(* ===== verification/Ethereum_Wrappers.thy ===== *)
theory Ethereum_Wrappers
  imports Elrond_Client
begin

section \<open>Access to the Ethereum chain (clients/ethereum/wrappers, erc20ContractsHolder.go)\<close>

text \<open>
  The wrapper around the generated bindings of the multisig contract and the JSON-RPC client, which
  counts requests and transactions in the status handler, and the holder that keeps one wrapper per
  ERC20 contract. The bindings and the node are parameters; an address of go-ethereum is of an abstract
  type \<open>'addr\<close>. The \<^verbatim>\<open>*big.Int\<close> values the bindings decode are never nil.
\<close>

record Batch =
  Batch_Nonce :: int
  BlockNumber :: uint64
  LastUpdatedBlockNumber :: uint64
  DepositsCount :: "16 word"

record 'addr Deposit =
  Deposit_Nonce :: int
  TokenAddress :: 'addr
  Deposit_Amount :: int
  Depositor :: 'addr
  Recipient :: bytes
  Deposit_Status :: byte

record TransactOpts =
  opts_ChainID :: int
  opts_Nonce :: int
  opts_Value :: int
  opts_GasLimit :: uint64
  opts_GasPrice :: int

record ('s, 'addr) multiSigContract =
  msc_GetBatch :: "int \<Rightarrow> ('s, Batch res) go"
  msc_GetBatchDeposits :: "int \<Rightarrow> ('s, 'addr Deposit list res) go"
  msc_GetRelayers :: "('s, 'addr list res) go"
  msc_WasBatchExecuted :: "int \<Rightarrow> ('s, bool res) go"
  msc_ExecuteTransfer ::
    "TransactOpts \<Rightarrow> 'addr list \<Rightarrow> 'addr list \<Rightarrow> int list \<Rightarrow> int list \<Rightarrow> int \<Rightarrow> bytes list \<Rightarrow> ('s, string res) go"
  msc_Quorum :: "('s, int res) go"
  msc_GetStatusesAfterExecution :: "int \<Rightarrow> ('s, bytes res) go"
  msc_Paused :: "('s, bool res) go"

text \<open>\<open>msc_ExecuteTransfer\<close> gives the hash of the transaction, the only thing the client asks of it.\<close>

record ('s, 'addr) blockchainClient =
  bcc_BlockNumber :: "('s, uint64 res) go"
  bcc_NonceAt :: "'addr \<Rightarrow> int \<Rightarrow> ('s, uint64 res) go"
  bcc_ChainID :: "('s, int res) go"
  bcc_BalanceAt :: "'addr \<Rightarrow> ('s, int res) go"

record ('s, 'addr) ethereumChainWrapper =
  wrapper_StatusHandler :: "'s StatusHandler"
  wrapper_multiSigContract :: "('s, 'addr) multiSigContract"
  wrapper_blockchainClient :: "('s, 'addr) blockchainClient"

definition errNilErc20Contract :: gerror where
  "errNilErc20Contract = ErrNew ''wrappers.errNilErc20Contract'' ''nil ERC20 contract''"
definition errNilBlockchainClient :: gerror where
  "errNilBlockchainClient = ErrNew ''wrappers.errNilBlockchainClient'' ''nil blockchain client''"
definition errNilMultiSigContract :: gerror where
  "errNilMultiSigContract = ErrNew ''wrappers.errNilMultiSigContract'' ''nil multi sig contract''"

subsection \<open>The chain wrapper (ethereumChainWrapper.go)\<close>

definition wrappers_checkArgs ::
  "'s StatusHandler option \<Rightarrow> ('s, 'addr) multiSigContract option \<Rightarrow> ('s, 'addr) blockchainClient option \<Rightarrow> gerror option" where
  "wrappers_checkArgs sh msc bcc =
     (if sh = None then Some clients_ErrNilStatusHandler
      else if msc = None then Some errNilMultiSigContract
      else if bcc = None then Some errNilBlockchainClient
      else None)"

definition NewEthereumChainWrapper ::
  "'s StatusHandler option \<Rightarrow> ('s, 'addr) multiSigContract option \<Rightarrow> ('s, 'addr) blockchainClient option
   \<Rightarrow> ('s, 'addr) ethereumChainWrapper res" where
  "NewEthereumChainWrapper sh msc bcc =
     (case wrappers_checkArgs sh msc bcc of
        Some err \<Rightarrow> Inl err
      | None \<Rightarrow> Inr \<lparr> wrapper_StatusHandler = the sh, wrapper_multiSigContract = the msc,
                      wrapper_blockchainClient = the bcc \<rparr>)"

definition wrapper_GetBatch :: "('s, 'addr) ethereumChainWrapper \<Rightarrow> int \<Rightarrow> ('s, Batch res) go" where
  "wrapper_GetBatch w batchNonce = (\<lambda>s. do {
     (_, s) \<leftarrow> AddIntMetric (wrapper_StatusHandler w) MetricNumEthClientRequests 1 s;
     msc_GetBatch (wrapper_multiSigContract w) batchNonce s })"

definition wrapper_GetBatchDeposits ::
  "('s, 'addr) ethereumChainWrapper \<Rightarrow> int \<Rightarrow> ('s, 'addr Deposit list res) go" where
  "wrapper_GetBatchDeposits w batchNonce = (\<lambda>s. do {
     (_, s) \<leftarrow> AddIntMetric (wrapper_StatusHandler w) MetricNumEthClientRequests 1 s;
     msc_GetBatchDeposits (wrapper_multiSigContract w) batchNonce s })"

definition wrapper_GetRelayers :: "('s, 'addr) ethereumChainWrapper \<Rightarrow> ('s, 'addr list res) go" where
  "wrapper_GetRelayers w = (\<lambda>s. do {
     (_, s) \<leftarrow> AddIntMetric (wrapper_StatusHandler w) MetricNumEthClientRequests 1 s;
     msc_GetRelayers (wrapper_multiSigContract w) s })"

definition wrapper_WasBatchExecuted :: "('s, 'addr) ethereumChainWrapper \<Rightarrow> int \<Rightarrow> ('s, bool res) go" where
  "wrapper_WasBatchExecuted w batchNonce = (\<lambda>s. do {
     (_, s) \<leftarrow> AddIntMetric (wrapper_StatusHandler w) MetricNumEthClientRequests 1 s;
     msc_WasBatchExecuted (wrapper_multiSigContract w) batchNonce s })"

definition wrapper_ChainID :: "('s, 'addr) ethereumChainWrapper \<Rightarrow> ('s, int res) go" where
  "wrapper_ChainID w = (\<lambda>s. do {
     (_, s) \<leftarrow> AddIntMetric (wrapper_StatusHandler w) MetricNumEthClientRequests 1 s;
     bcc_ChainID (wrapper_blockchainClient w) s })"

definition wrapper_BlockNumber :: "('s, 'addr) ethereumChainWrapper \<Rightarrow> ('s, uint64 res) go" where
  "wrapper_BlockNumber w = (\<lambda>s. do {
     (_, s) \<leftarrow> AddIntMetric (wrapper_StatusHandler w) MetricNumEthClientRequests 1 s;
     (r, s) \<leftarrow> bcc_BlockNumber (wrapper_blockchainClient w) s;
     case r of
       Inl err \<Rightarrow> Some (Inl err, s)
     | Inr val \<Rightarrow> do {
         (_, s) \<leftarrow> SetIntMetric (wrapper_StatusHandler w) MetricLastQueriedEthereumBlockNumber (int64 val) s;
         Some (Inr val, s) } })"

definition wrapper_NonceAt :: "('s, 'addr) ethereumChainWrapper \<Rightarrow> 'addr \<Rightarrow> int \<Rightarrow> ('s, uint64 res) go" where
  "wrapper_NonceAt w account blockNumber = (\<lambda>s. do {
     (_, s) \<leftarrow> AddIntMetric (wrapper_StatusHandler w) MetricNumEthClientRequests 1 s;
     bcc_NonceAt (wrapper_blockchainClient w) account blockNumber s })"

definition wrapper_ExecuteTransfer ::
  "('s, 'addr) ethereumChainWrapper \<Rightarrow> TransactOpts \<Rightarrow> 'addr list \<Rightarrow> 'addr list \<Rightarrow> int list \<Rightarrow> int list \<Rightarrow> int
   \<Rightarrow> bytes list \<Rightarrow> ('s, string res) go" where
  "wrapper_ExecuteTransfer w opts tokens recipients amounts nonces batchNonce signatures = (\<lambda>s. do {
     (_, s) \<leftarrow> AddIntMetric (wrapper_StatusHandler w) MetricNumEthClientTransactions 1 s;
     msc_ExecuteTransfer (wrapper_multiSigContract w) opts tokens recipients amounts nonces batchNonce signatures s })"

definition wrapper_Quorum :: "('s, 'addr) ethereumChainWrapper \<Rightarrow> ('s, int res) go" where
  "wrapper_Quorum w = (\<lambda>s. do {
     (_, s) \<leftarrow> AddIntMetric (wrapper_StatusHandler w) MetricNumEthClientRequests 1 s;
     msc_Quorum (wrapper_multiSigContract w) s })"

definition wrapper_GetStatusesAfterExecution :: "('s, 'addr) ethereumChainWrapper \<Rightarrow> int \<Rightarrow> ('s, bytes res) go" where
  "wrapper_GetStatusesAfterExecution w batchID = (\<lambda>s. do {
     (_, s) \<leftarrow> AddIntMetric (wrapper_StatusHandler w) MetricNumEthClientRequests 1 s;
     msc_GetStatusesAfterExecution (wrapper_multiSigContract w) batchID s })"

definition wrapper_BalanceAt :: "('s, 'addr) ethereumChainWrapper \<Rightarrow> 'addr \<Rightarrow> ('s, int res) go" where
  \<comment> \<open>the client always asks for the latest block, a nil block number\<close>
  "wrapper_BalanceAt w account = (\<lambda>s. do {
     (_, s) \<leftarrow> AddIntMetric (wrapper_StatusHandler w) MetricNumEthClientRequests 1 s;
     bcc_BalanceAt (wrapper_blockchainClient w) account s })"

definition wrapper_IsPaused :: "('s, 'addr) ethereumChainWrapper \<Rightarrow> ('s, bool res) go" where
  "wrapper_IsPaused w = msc_Paused (wrapper_multiSigContract w)"

subsection \<open>ERC20 balances (erc20ContractWrapper.go, erc20ContractsHolder.go)\<close>

type_synonym ('s, 'addr) genericErc20Contract = "'addr \<Rightarrow> ('s, int res) go"

record ('s, 'addr) erc20ContractWrapper =
  erc20_statusHandler :: "'s StatusHandler"
  erc20Contract :: "('s, 'addr) genericErc20Contract"

definition NewErc20ContractWrapper ::
  "'s StatusHandler option \<Rightarrow> ('s, 'addr) genericErc20Contract option \<Rightarrow> ('s, 'addr) erc20ContractWrapper res" where
  "NewErc20ContractWrapper sh c =
     (if c = None then Inl errNilErc20Contract
      else if sh = None then Inl clients_ErrNilStatusHandler
      else Inr \<lparr> erc20_statusHandler = the sh, erc20Contract = the c \<rparr>)"

definition erc20ContractWrapper_BalanceOf ::
  "('s, 'addr) erc20ContractWrapper \<Rightarrow> 'addr \<Rightarrow> ('s, int res) go" where
  "erc20ContractWrapper_BalanceOf w account = (\<lambda>s. do {
     (_, s) \<leftarrow> AddIntMetric (erc20_statusHandler w) MetricNumEthClientRequests 1 s;
     erc20Contract w account s })"

definition errNilEthClient :: gerror where
  "errNilEthClient = ErrNew ''ethereum.errNilEthClient'' ''nil eth client''"

text \<open>
  The holder: \<open>NewGenericErc20\<close> is the generated binding's constructor on the holder's backend. The
  map of the wrappers is the part of its state that changes.
\<close>

record ('s, 'addr) erc20HolderDeps =
  NewGenericErc20 :: "'addr \<Rightarrow> ('s, 'addr) genericErc20Contract res"
  ethClientStatusHandler :: "'s StatusHandler"
  erc20_Address_String :: "'addr \<Rightarrow> string"

type_synonym ('s, 'addr) erc20SafeContractsHolder = "('addr, ('s, 'addr) erc20ContractWrapper) gomap"

definition NewErc20SafeContractsHolder ::
  "('addr \<Rightarrow> string) \<Rightarrow> ('addr \<Rightarrow> ('s, 'addr) genericErc20Contract res) option \<Rightarrow> 's StatusHandler option
   \<Rightarrow> (('s, 'addr) erc20HolderDeps \<times> ('s, 'addr) erc20SafeContractsHolder) res" where
  "NewErc20SafeContractsHolder str backend sh =
     (if backend = None then Inl errNilEthClient
      else if sh = None then Inl clients_ErrNilStatusHandler
      else Inr (\<lparr> NewGenericErc20 = the backend, ethClientStatusHandler = the sh, erc20_Address_String = str \<rparr>, []))"

definition erc20SafeContractsHolder_BalanceOf ::
  "('s, 'addr) erc20HolderDeps \<Rightarrow> 'addr \<Rightarrow> 'addr \<Rightarrow> (('s, 'addr) erc20SafeContractsHolder \<times> 's, int res) go" where
  "erc20SafeContractsHolder_BalanceOf h erc20Address address = (\<lambda>(contracts, s).
     case map_of contracts erc20Address of
       Some wrapper \<Rightarrow> do {
         (r, s) \<leftarrow> erc20ContractWrapper_BalanceOf wrapper address s;
         Some (r, (contracts, s)) }
     | None \<Rightarrow>
         (case NewGenericErc20 h erc20Address of
            Inl err \<Rightarrow> Some (Inl (Errorf '''' err ('' for '' @ erc20_Address_String h erc20Address)), (contracts, s))
          | Inr contractInstance \<Rightarrow>
              (case NewErc20ContractWrapper (Some (ethClientStatusHandler h)) (Some contractInstance) of
                 Inl err \<Rightarrow> Some (Inl err, (contracts, s))
               | Inr wrapper \<Rightarrow> do {
                   let contracts = AList.update erc20Address wrapper contracts;
                   (r, s) \<leftarrow> erc20ContractWrapper_BalanceOf wrapper address s;
                   Some (r, (contracts, s)) })))"

text \<open>
  The cache of the holder is transparent: it only holds wrappers of the contracts they are stored for,
  so a balance is the answer of the contract itself, whether its wrapper was created now or before.
\<close>

definition erc20_holder_valid :: "('s, 'addr) erc20HolderDeps \<Rightarrow> ('s, 'addr) erc20SafeContractsHolder \<Rightarrow> bool" where
  "erc20_holder_valid h contracts \<longleftrightarrow>
     (\<forall>a w. map_of contracts a = Some w \<longrightarrow>
        NewGenericErc20 h a = Inr (erc20Contract w) \<and> erc20_statusHandler w = ethClientStatusHandler h)"

definition erc20_balance :: "('s, 'addr) erc20HolderDeps \<Rightarrow> 'addr \<Rightarrow> 'addr \<Rightarrow> ('s, int res) go" where
  "erc20_balance h token address = (\<lambda>s.
     case NewGenericErc20 h token of
       Inl err \<Rightarrow> Some (Inl (Errorf '''' err ('' for '' @ erc20_Address_String h token)), s)
     | Inr c \<Rightarrow> do {
         (_, s) \<leftarrow> AddIntMetric (ethClientStatusHandler h) MetricNumEthClientRequests 1 s;
         c address s })"

lemma bind_return: "(m \<bind> (\<lambda>(r, s). Some (r, (c, s)))) = map_option (\<lambda>(r, s). (r, (c, s))) m"
  by (cases m) auto

lemma erc20_BalanceOf_transparent:
  assumes "erc20_holder_valid h contracts"
  shows "\<exists>contracts'. erc20_holder_valid h contracts'
    \<and> erc20SafeContractsHolder_BalanceOf h token address (contracts, s)
       = map_option (\<lambda>(r, s). (r, (contracts', s))) (erc20_balance h token address s)"
proof (cases "map_of contracts token")
  case None
  show ?thesis
  proof (cases "NewGenericErc20 h token")
    case (Inl e)
    with None assms show ?thesis
      by (intro exI [of _ contracts]) (simp add: erc20SafeContractsHolder_BalanceOf_def erc20_balance_def)
  next
    case (Inr c)
    let ?w = "\<lparr> erc20_statusHandler = ethClientStatusHandler h, erc20Contract = c \<rparr>"
    have "erc20_holder_valid h (AList.update token ?w contracts)"
      using assms Inr by (auto simp: erc20_holder_valid_def update_conv')
    with None Inr show ?thesis
      by (intro exI [of _ "AList.update token ?w contracts"])
        (simp add: erc20SafeContractsHolder_BalanceOf_def erc20_balance_def NewErc20ContractWrapper_def
          erc20ContractWrapper_BalanceOf_def bind_return)
  qed
next
  case (Some w)
  then have "NewGenericErc20 h token = Inr (erc20Contract w)" "erc20_statusHandler w = ethClientStatusHandler h"
    using assms by (auto simp: erc20_holder_valid_def)
  with Some assms show ?thesis
    by (intro exI [of _ contracts])
      (simp add: erc20SafeContractsHolder_BalanceOf_def erc20_balance_def
        erc20ContractWrapper_BalanceOf_def bind_return)
qed

end
