(* ===== verification/Ethereum_Client.thy ===== *)
theory Ethereum_Client
  imports Ethereum_Wrappers
begin

section \<open>The Ethereum client (clients/ethereum/client.go)\<close>

text \<open>
  The client that reads deposits from the Ethereum contract, builds and signs the message relayers agree
  on, and executes the transfer. The fields the constructor sets are the record \<open>ethereumClientDeps\<close>,
  the ones the methods write the record \<open>ethereum_client\<close>. Addresses, the ABI encoding, Keccak and the
  signing functions of go-ethereum are parameters. \<^verbatim>\<open>GetBatch\<close> and its neighbours are named \<open>ethc_...\<close>
  where the Elrond client has an operation of the same name.
\<close>

definition messagePrefix :: string where
  "messagePrefix = [CHR 0x19] @ ''Ethereum Signed Message:'' @ [CHR 0x0A] @ ''32''"
definition minQuorumValue :: uint64 where
  "minQuorumValue = 1"
definition ethereum_minAllowedDelta :: uint64 where
  "ethereum_minAllowedDelta = 1"

definition errQuorumNotReached :: gerror where
  "errQuorumNotReached = ErrNew ''ethereum.errQuorumNotReached'' ''quorum not reached''"
definition errInsufficientErc20Balance :: gerror where
  "errInsufficientErc20Balance = ErrNew ''ethereum.errInsufficientErc20Balance'' ''insufficient ERC20 balance''"
definition errInsufficientBalance :: gerror where
  "errInsufficientBalance = ErrNew ''ethereum.errInsufficientBalance'' ''insufficient balance''"
definition errPublicKeyCast :: gerror where
  "errPublicKeyCast = ErrNew ''ethereum.errPublicKeyCast'' ''error casting public key to ECDSA''"
definition errNilClientWrapper :: gerror where
  "errNilClientWrapper = ErrNew ''ethereum.errNilClientWrapper'' ''nil client wrapper''"
definition errNilERC20ContractsHandler :: gerror where
  "errNilERC20ContractsHandler = ErrNew ''ethereum.errNilERC20ContractsHandler'' ''nil ERC20 contracts handler''"
definition errNilBroadcaster :: gerror where
  "errNilBroadcaster = ErrNew ''ethereum.errNilBroadcaster'' ''nil broadcaster''"
definition errNilSignaturesHolder :: gerror where
  "errNilSignaturesHolder = ErrNew ''ethereum.errNilSignaturesHolder'' ''nil signatures holder''"
definition errNilGasHandler :: gerror where
  "errNilGasHandler = ErrNew ''ethereum.errNilGasHandler'' ''nil gas handler''"
definition errInvalidGasLimit :: gerror where
  "errInvalidGasLimit = ErrNew ''ethereum.errInvalidGasLimit'' ''invalid gas limit''"
definition errDepositsAndBatchDepositsCountDiffer :: gerror where
  "errDepositsAndBatchDepositsCountDiffer =
     ErrNew ''ethereum.errDepositsAndBatchDepositsCountDiffer'' ''deposits and batch.DepositsCount differs''"

subsection \<open>State and construction\<close>

text \<open>The values packed into the signed message, and the functions of go-ethereum the client calls.\<close>

datatype 'addr abi_value = AbiAddresses "'addr list" | AbiUints "int list" | AbiUint int | AbiString string

record ('addr, 'ty) gethLib =
  BytesToAddress :: "bytes \<Rightarrow> 'addr"
  Address_Bytes :: "'addr \<Rightarrow> bytes"
  Address_String :: "'addr \<Rightarrow> string"
  abi_NewType :: "string \<Rightarrow> 'ty res"
  abi_Pack :: "(string \<times> 'ty) list \<Rightarrow> 'addr abi_value list \<Rightarrow> bytes res"
  Keccak256Hash :: "bytes \<Rightarrow> bytes"
  NewKeyedTransactorWithChainID :: "int \<Rightarrow> gerror option"
  crypto_Sign :: "bytes \<Rightarrow> bytes res"

text \<open>
  \<open>NewKeyedTransactorWithChainID\<close> and \<open>crypto_Sign\<close> use the client's private key; the options the first
  gives are kept as the record \<open>TransactOpts\<close>.
\<close>

record ('s, 'addr, 'ty) ethereumClientDeps =
  geth :: "('addr, 'ty) gethLib"
  clientWrapper :: "('s, 'addr) ethereumChainWrapper"
  erc20_BalanceOf :: "'addr \<Rightarrow> 'addr \<Rightarrow> ('s, int res) go"
  eth_ToBech32String :: "bytes \<Rightarrow> string"
  broadcaster_BroadcastSignature :: "bytes \<Rightarrow> bytes \<Rightarrow> ('s, unit) go"
  ethereumRelayerAddress :: 'addr
  eth_tokensMapper :: "bytes \<Rightarrow> ('s, bytes res) go"
  signatureHolder_Signatures :: "bytes \<Rightarrow> ('s, bytes list) go"
  safeContractAddress :: 'addr
  gasHandler_GetCurrentGasPrice :: "('s, int res) go"
  transferGasLimitBase :: uint64
  transferGasLimitForEach :: uint64
  eth_allowDelta :: uint64
  range_transfers :: "('addr \<times> int) list \<Rightarrow> ('addr \<times> int) list"

text \<open>
  \<open>ethereumRelayerAddress\<close> is \<^verbatim>\<open>crypto.PubkeyToAddress(*c.publicKey)\<close>; \<open>range_transfers\<close> is the order in
  which the loop of \<^verbatim>\<open>checkCumulatedTransfers\<close> visits the map.
\<close>

record ethereum_client =
  lastBlockNumber :: uint64
  eth_retriesAvailabilityCheck :: uint64

record ('s, 'addr) ArgsEthereumClient =
  ethargs_ClientWrapper :: "('s, 'addr) ethereumChainWrapper option"
  ethargs_Erc20ContractsHandler :: "('addr \<Rightarrow> 'addr \<Rightarrow> ('s, int res) go) option"
  ethargs_Log :: "unit option"
  ethargs_AddressConverter :: "(bytes \<Rightarrow> string) option"
  ethargs_Broadcaster :: "(bytes \<Rightarrow> bytes \<Rightarrow> ('s, unit) go) option"
  ethargs_PrivateKey :: "unit option"
  ethargs_TokensMapper :: "(bytes \<Rightarrow> ('s, bytes res) go) option"
  ethargs_SignatureHolder :: "(bytes \<Rightarrow> ('s, bytes list) go) option"
  ethargs_SafeContractAddress :: 'addr
  ethargs_GasHandler :: "('s, int res) go option"
  ethargs_TransferGasLimitBase :: uint64
  ethargs_TransferGasLimitForEach :: uint64
  ethargs_AllowDelta :: uint64

definition ethereum_checkArgs :: "('s, 'addr) ArgsEthereumClient \<Rightarrow> gerror option" where
  "ethereum_checkArgs args =
     (if ethargs_ClientWrapper args = None then Some errNilClientWrapper
      else if ethargs_Erc20ContractsHandler args = None then Some errNilERC20ContractsHandler
      else if ethargs_Log args = None then Some clients_ErrNilLogger
      else if ethargs_AddressConverter args = None then Some clients_ErrNilAddressConverter
      else if ethargs_Broadcaster args = None then Some errNilBroadcaster
      else if ethargs_PrivateKey args = None then Some clients_ErrNilPrivateKey
      else if ethargs_TokensMapper args = None then Some clients_ErrNilTokensMapper
      else if ethargs_SignatureHolder args = None then Some errNilSignaturesHolder
      else if ethargs_GasHandler args = None then Some errNilGasHandler
      else if ethargs_TransferGasLimitBase args = 0 then Some errInvalidGasLimit
      else if ethargs_TransferGasLimitForEach args = 0 then Some errInvalidGasLimit
      else if ethargs_AllowDelta args < ethereum_minAllowedDelta
      then Some (Errorf '''' clients_ErrInvalidValue
             ('' for args.AllowedDelta, got: '' @ show_uint64 (ethargs_AllowDelta args)
              @ '', minimum: '' @ show_uint64 ethereum_minAllowedDelta))
      else None)"

definition NewEthereumClient ::
  "('addr, 'ty) gethLib \<Rightarrow> 'addr option \<Rightarrow> (('addr \<times> int) list \<Rightarrow> ('addr \<times> int) list)
   \<Rightarrow> ('s, 'addr) ArgsEthereumClient \<Rightarrow> (('s, 'addr, 'ty) ethereumClientDeps \<times> ethereum_client) res" where
  \<comment> \<open>the second argument is the relayer's address, \<open>None\<close> when the public key is not an ECDSA key\<close>
  "NewEthereumClient lib publicKeyECDSA ord args =
     (case ethereum_checkArgs args of
        Some err \<Rightarrow> Inl err
      | None \<Rightarrow>
          (case publicKeyECDSA of
             None \<Rightarrow> Inl errPublicKeyCast
           | Some relayer \<Rightarrow>
               Inr (\<lparr> geth = lib, clientWrapper = the (ethargs_ClientWrapper args),
                      erc20_BalanceOf = the (ethargs_Erc20ContractsHandler args),
                      eth_ToBech32String = the (ethargs_AddressConverter args),
                      broadcaster_BroadcastSignature = the (ethargs_Broadcaster args),
                      ethereumRelayerAddress = relayer,
                      eth_tokensMapper = the (ethargs_TokensMapper args),
                      signatureHolder_Signatures = the (ethargs_SignatureHolder args),
                      safeContractAddress = ethargs_SafeContractAddress args,
                      gasHandler_GetCurrentGasPrice = the (ethargs_GasHandler args),
                      transferGasLimitBase = ethargs_TransferGasLimitBase args,
                      transferGasLimitForEach = ethargs_TransferGasLimitForEach args,
                      eth_allowDelta = ethargs_AllowDelta args, range_transfers = ord \<rparr>,
                    \<lparr> lastBlockNumber = 0, eth_retriesAvailabilityCheck = 0 \<rparr>)))"

subsection \<open>Reading a batch\<close>

fun getBatch_loop ::
  "('s, 'addr, 'ty) ethereumClientDeps \<Rightarrow> 'addr Deposit list \<Rightarrow> (string, bytes) gomap \<Rightarrow> TransferBatch
   \<Rightarrow> ('s, TransferBatch res) go" where
  "getBatch_loop d [] cachedTokens transferBatch s = Some (Inr transferBatch, s)"
| "getBatch_loop d (deposit # deposits) cachedTokens transferBatch s =
     (let toBytes = Recipient deposit;
          fromBytes = Address_Bytes (geth d) (Depositor deposit);
          tokenBytes = Address_Bytes (geth d) (TokenAddress deposit);
          depositTransfer =
            \<lparr> Nonce = big_Uint64 (Deposit_Nonce deposit), ToBytes = toBytes,
              DisplayableTo = eth_ToBech32String d toBytes,
              FromBytes = fromBytes, DisplayableFrom = ToHexString fromBytes,
              TokenBytes = tokenBytes, ConvertedTokenBytes = [], DisplayableToken = ToHexString tokenBytes,
              Amount = Some (Deposit_Amount deposit) \<rparr>
      in do {
        (r, s) \<leftarrow> convert_cached (eth_tokensMapper d) (DisplayableToken depositTransfer)
                    (TokenBytes depositTransfer) cachedTokens s;
        case r of
          Inl err \<Rightarrow> Some (Inl err, s)
        | Inr (converted, cachedTokens) \<Rightarrow>
            getBatch_loop d deposits cachedTokens
              (transferBatch\<lparr>Deposits := Deposits transferBatch @ [depositTransfer\<lparr>ConvertedTokenBytes := converted\<rparr>]\<rparr>) s })"

definition ethc_GetBatch ::
  "('s, 'addr, 'ty) ethereumClientDeps \<Rightarrow> uint64 \<Rightarrow> ('s, TransferBatch res) go" where
  "ethc_GetBatch d nonce = (\<lambda>s. do {
     let nonceAsBigInt = uint nonce;
     (r, s) \<leftarrow> wrapper_GetBatch (clientWrapper d) nonceAsBigInt s;
     case r of
       Inl err \<Rightarrow> Some (Inl err, s)
     | Inr b \<Rightarrow> do {
         (r, s) \<leftarrow> wrapper_GetBatchDeposits (clientWrapper d) nonceAsBigInt s;
         case r of
           Inl err \<Rightarrow> Some (Inl err, s)
         | Inr deposits \<Rightarrow>
             if unat (DepositsCount b) \<noteq> length deposits
             then Some (Inl (Errorf '''' errDepositsAndBatchDepositsCountDiffer
                         ('', batch.DepositsCount: '' @ show_nat (unat (DepositsCount b))
                          @ '', fetched deposits len: '' @ show_nat (length deposits))), s)
             else do {
               (r, s) \<leftarrow> getBatch_loop d deposits []
                           \<lparr> ID = big_Uint64 (Batch_Nonce b), Deposits = [], Statuses = [] \<rparr> s;
               case r of
                 Inl err \<Rightarrow> Some (Inl err, s)
               | Inr tb \<Rightarrow> Some (Inr (tb\<lparr>Statuses := replicate (length (Deposits tb)) 0\<rparr>), s) } } })"

definition ethc_WasExecuted :: "('s, 'addr, 'ty) ethereumClientDeps \<Rightarrow> uint64 \<Rightarrow> ('s, bool res) go" where
  "ethc_WasExecuted d batchID = wrapper_WasBatchExecuted (clientWrapper d) (uint batchID)"

subsection \<open>The signed message\<close>

definition BroadcastSignatureForMessageHash ::
  "('s, 'addr, 'ty) ethereumClientDeps \<Rightarrow> bytes \<Rightarrow> ('s, unit) go" where
  "BroadcastSignatureForMessageHash d mHash = (\<lambda>s.
     case crypto_Sign (geth d) mHash of
       Inl err \<Rightarrow> Some ((), s)
     | Inr signature \<Rightarrow> broadcaster_BroadcastSignature d signature mHash s)"

definition generateTransferArgs :: "('addr, 'ty) gethLib \<Rightarrow> (string \<times> 'ty) list res" where
  "generateTransferArgs lib =
     (case abi_NewType lib ''address[]'' of
        Inl err \<Rightarrow> Inl err
      | Inr addressesType \<Rightarrow>
     (case abi_NewType lib ''uint256[]'' of
        Inl err \<Rightarrow> Inl err
      | Inr uint256ArrayType \<Rightarrow>
     (case abi_NewType lib ''uint256'' of
        Inl err \<Rightarrow> Inl err
      | Inr uint256Type \<Rightarrow>
     (case abi_NewType lib ''string'' of
        Inl err \<Rightarrow> Inl err
      | Inr stringType \<Rightarrow>
          Inr [(''recipients'', addressesType), (''tokens'', addressesType), (''amounts'', uint256ArrayType),
               (''nonces'', uint256ArrayType), (''nonce'', uint256Type), (''executeTransfer'', stringType)]))))"

record 'addr argListsBatch =
  tokens :: "'addr list"
  recipients :: "'addr list"
  amounts :: "int list"
  nonces :: "int list"

fun extractList_loop ::
  "('addr, 'ty) gethLib \<Rightarrow> DepositTransfer list \<Rightarrow> 'addr argListsBatch \<Rightarrow> 'addr argListsBatch option" where
  \<comment> \<open>\<^verbatim>\<open>Set\<close> dereferences the amount, so a nil amount panics\<close>
  "extractList_loop lib [] arg = Some arg"
| "extractList_loop lib (dt # dts) arg =
     (let arg = arg\<lparr>recipients := recipients arg @ [BytesToAddress lib (ToBytes dt)]\<rparr>;
          arg = arg\<lparr>tokens := tokens arg @ [BytesToAddress lib (ConvertedTokenBytes dt)]\<rparr>
      in case Amount dt of
           None \<Rightarrow> None
         | Some amount \<Rightarrow>
             (let arg = arg\<lparr>amounts := amounts arg @ [amount]\<rparr>;
                  arg = arg\<lparr>nonces := nonces arg @ [uint (Nonce dt)]\<rparr>
              in extractList_loop lib dts arg))"

definition extractList :: "('addr, 'ty) gethLib \<Rightarrow> TransferBatch \<Rightarrow> 'addr argListsBatch option" where
  \<comment> \<open>the error the method declares is always nil\<close>
  "extractList lib b =
     extractList_loop lib (Deposits b) \<lparr> tokens = [], recipients = [], amounts = [], nonces = [] \<rparr>"

definition ethc_GenerateMessageHash ::
  "('s, 'addr, 'ty) ethereumClientDeps \<Rightarrow> TransferBatch option \<Rightarrow> ('s, bytes res) go" where
  "ethc_GenerateMessageHash d b = (\<lambda>s.
     case b of
       None \<Rightarrow> Some (Inl clients_ErrNilBatch, s)
     | Some b \<Rightarrow>
         (case generateTransferArgs (geth d) of
            Inl err \<Rightarrow> Some (Inl err, s)
          | Inr args \<Rightarrow>
              (case extractList (geth d) b of
                 None \<Rightarrow> None
               | Some argLists \<Rightarrow>
                   (case abi_Pack (geth d) args
                          [AbiAddresses (recipients argLists), AbiAddresses (tokens argLists),
                           AbiUints (amounts argLists), AbiUints (nonces argLists), AbiUint (uint (ID b)),
                           AbiString ''ExecuteBatchedTransfer''] of
                      Inl err \<Rightarrow> Some (Inl err, s)
                    | Inr pack \<Rightarrow>
                        (let hash = Keccak256Hash (geth d) pack
                         in Some (Inr (Keccak256Hash (geth d) (bytes_of_string messagePrefix @ hash)), s))))))"

subsection \<open>Executing a transfer\<close>

fun getCumulatedTransfers :: "'addr list \<Rightarrow> int list \<Rightarrow> ('addr, int) gomap \<Rightarrow> ('addr, int) gomap option" where
  \<comment> \<open>the map holds pointers, so adding to \<^verbatim>\<open>existing\<close> changes the entry; \<^verbatim>\<open>amounts[i]\<close> may be out of range\<close>
  "getCumulatedTransfers [] amts transfers = Some transfers"
| "getCumulatedTransfers (token # toks) [] transfers = None"
| "getCumulatedTransfers (token # toks) (amount # amts) transfers =
     (let existing = (case map_of transfers token of None \<Rightarrow> 0 | Some x \<Rightarrow> x)
      in getCumulatedTransfers toks amts (AList.update token (existing + amount) transfers))"

fun checkCumulatedTransfers ::
  "('s, 'addr, 'ty) ethereumClientDeps \<Rightarrow> ('addr \<times> int) list \<Rightarrow> ('s, gerror option) go" where
  "checkCumulatedTransfers d [] s = Some (None, s)"
| "checkCumulatedTransfers d ((erc20Address, value) # transfers) s = do {
     (r, s) \<leftarrow> erc20_BalanceOf d erc20Address (safeContractAddress d) s;
     case r of
       Inl err \<Rightarrow>
         Some (Some (Errorf '''' err
           ('' for address '' @ Address_String (geth d) (safeContractAddress d)
            @ '' for ERC20 token '' @ Address_String (geth d) erc20Address)), s)
     | Inr existingBalance \<Rightarrow>
         if value > existingBalance
         then Some (Some (Errorf '''' errInsufficientErc20Balance
                ('', existing: '' @ show_int existingBalance @ '', required: '' @ show_int value
                 @ '' for ERC20 token '' @ Address_String (geth d) erc20Address
                 @ '' and address '' @ Address_String (geth d) (safeContractAddress d))), s)
         else checkCumulatedTransfers d transfers s }"

definition checkAvailableTokens ::
  "('s, 'addr, 'ty) ethereumClientDeps \<Rightarrow> 'addr list \<Rightarrow> int list \<Rightarrow> ('s, gerror option) go" where
  "checkAvailableTokens d toks amts = (\<lambda>s. do {
     transfers \<leftarrow> getCumulatedTransfers toks amts [];
     checkCumulatedTransfers d (range_transfers d transfers) s })"

definition checkRelayerFundsForFee :: "('s, 'addr, 'ty) ethereumClientDeps \<Rightarrow> int \<Rightarrow> ('s, gerror option) go" where
  "checkRelayerFundsForFee d transferFee = (\<lambda>s. do {
     (r, s) \<leftarrow> wrapper_BalanceAt (clientWrapper d) (ethereumRelayerAddress d) s;
     case r of
       Inl err \<Rightarrow> Some (Some err, s)
     | Inr existingBalance \<Rightarrow>
         if transferFee > existingBalance
         then Some (Some (Errorf '''' errInsufficientBalance
                ('', existing: '' @ show_int existingBalance @ '', required: '' @ show_int transferFee)), s)
         else Some (None, s) })"

definition getNonce :: "('s, 'addr, 'ty) ethereumClientDeps \<Rightarrow> 'addr \<Rightarrow> ('s, int res) go" where
  "getNonce d fromAddress = (\<lambda>s. do {
     (r, s) \<leftarrow> wrapper_BlockNumber (clientWrapper d) s;
     case r of
       Inl err \<Rightarrow> Some (Inl (Errorf '''' err '' in getNonce, BlockNumber call''), s)
     | Inr blockNonce \<Rightarrow> do {
         (r, s) \<leftarrow> wrapper_NonceAt (clientWrapper d) fromAddress (int64 blockNonce) s;
         case r of
           Inl err \<Rightarrow> Some (Inl err, s)
         | Inr nonce \<Rightarrow> Some (Inr (int64 nonce), s) } })"

text \<open>
  \<^verbatim>\<open>ExecuteTransfer\<close>, from the point where the signatures are fetched; \<open>auth\<close> are the options built so
  far. The slice expression \<^verbatim>\<open>signatures[:quorum]\<close> panics for a negative quorum.
\<close>

definition executeTransfer_signed ::
  "('s, 'addr, 'ty) ethereumClientDeps \<Rightarrow> bytes \<Rightarrow> TransferBatch \<Rightarrow> int \<Rightarrow> TransactOpts \<Rightarrow> ('s, string res) go" where
  "executeTransfer_signed d mHash b quorum auth = (\<lambda>s. do {
     (signatures, s) \<leftarrow> signatureHolder_Signatures d mHash s;
     if int (length signatures) < quorum
     then Some (Inl (Errorf '''' errQuorumNotReached
            ('' num signatures: '' @ show_nat (length signatures) @ '', quorum: '' @ show_int quorum)), s)
     else if int (length signatures) > quorum \<and> quorum < 0 then None
     else do {
       let signatures = (if int (length signatures) > quorum then take (nat quorum) signatures else signatures);
       argLists \<leftarrow> extractList (geth d) b;
       (err, s) \<leftarrow> checkAvailableTokens d (tokens argLists) (amounts argLists) s;
       case err of
         Some er \<Rightarrow> Some (Inl er, s)
       | None \<Rightarrow> do {
           let minimumForFee = int64 (opts_GasLimit auth) * opts_GasPrice auth;
           (err, s) \<leftarrow> checkRelayerFundsForFee d minimumForFee s;
           case err of
             Some er \<Rightarrow> Some (Inl er, s)
           | None \<Rightarrow>
               wrapper_ExecuteTransfer (clientWrapper d) auth (tokens argLists) (recipients argLists)
                 (amounts argLists) (nonces argLists) (uint (ID b)) signatures s } } })"

definition ethc_ExecuteTransfer ::
  "('s, 'addr, 'ty) ethereumClientDeps \<Rightarrow> bytes \<Rightarrow> TransferBatch option \<Rightarrow> int \<Rightarrow> ('s, string res) go" where
  "ethc_ExecuteTransfer d mHash b quorum = (\<lambda>s.
     case b of
       None \<Rightarrow> Some (Inl clients_ErrNilBatch, s)
     | Some b \<Rightarrow> do {
         (r, s) \<leftarrow> wrapper_IsPaused (clientWrapper d) s;
         case r of
           Inl err \<Rightarrow> Some (Inl (Errorf '''' err '' in client.ExecuteTransfer''), s)
         | Inr isPaused \<Rightarrow>
             if isPaused
             then Some (Inl (Errorf '''' ErrMultisigContractPaused '' in client.ExecuteTransfer''), s)
             else do {
               (r, s) \<leftarrow> getNonce d (ethereumRelayerAddress d) s;
               case r of
                 Inl err \<Rightarrow> Some (Inl err, s)
               | Inr nonce \<Rightarrow> do {
                   (r, s) \<leftarrow> wrapper_ChainID (clientWrapper d) s;
                   case r of
                     Inl err \<Rightarrow> Some (Inl err, s)
                   | Inr chainId \<Rightarrow>
                       (case NewKeyedTransactorWithChainID (geth d) chainId of
                          Some err \<Rightarrow> Some (Inl err, s)
                        | None \<Rightarrow> do {
                            (r, s) \<leftarrow> gasHandler_GetCurrentGasPrice d s;
                            case r of
                              Inl err \<Rightarrow> Some (Inl err, s)
                            | Inr gasPrice \<Rightarrow>
                                executeTransfer_signed d mHash b quorum
                                  \<lparr> opts_ChainID = chainId, opts_Nonce = nonce, opts_Value = 0,
                                    opts_GasLimit = transferGasLimitBase d
                                      + uint64_len (Deposits b) * transferGasLimitForEach d,
                                    opts_GasPrice = gasPrice \<rparr> s }) } } })"

subsection \<open>Availability, statuses and quorum\<close>

definition eth_setStatusForAvailabilityCheck ::
  "('s, 'addr, 'ty) ethereumClientDeps \<Rightarrow> ClientStatus \<Rightarrow> string \<Rightarrow> uint64 \<Rightarrow> ('s, unit) go" where
  \<comment> \<open>the code writes the metrics of the Elrond client\<close>
  "eth_setStatusForAvailabilityCheck d status message nonce = (\<lambda>s. do {
     (_, s) \<leftarrow> SetStringMetric (wrapper_StatusHandler (clientWrapper d)) MetricElrondClientStatus (ClientStatus_String status) s;
     (_, s) \<leftarrow> SetStringMetric (wrapper_StatusHandler (clientWrapper d)) MetricLastElrondClientError message s;
     SetIntMetric (wrapper_StatusHandler (clientWrapper d)) MetricLastBlockNonce (int64 nonce) s })"

definition eth_incrementRetriesAvailabilityCheck :: "ethereum_client \<Rightarrow> ethereum_client" where
  "eth_incrementRetriesAvailabilityCheck c =
     c\<lparr>eth_retriesAvailabilityCheck := eth_retriesAvailabilityCheck c + 1\<rparr>"

definition ethc_CheckClientAvailability ::
  "('s, 'addr, 'ty) ethereumClientDeps \<Rightarrow> (ethereum_client \<times> 's, gerror option) go" where
  \<comment> \<open>the deferred increment runs last; the wrapper gives block 0 beside an error\<close>
  "ethc_CheckClientAvailability d = (\<lambda>(c, s). do {
     (r, s) \<leftarrow> wrapper_BlockNumber (clientWrapper d) s;
     case r of
       Inl err \<Rightarrow> do {
         (_, s) \<leftarrow> eth_setStatusForAvailabilityCheck d Unavailable (error_text err) 0 s;
         Some (Some err, (c, s)) }
     | Inr currentBlock \<Rightarrow> do {
         let c = (if currentBlock \<noteq> lastBlockNumber c
                  then c\<lparr>eth_retriesAvailabilityCheck := 0, lastBlockNumber := currentBlock\<rparr> else c);
         if eth_retriesAvailabilityCheck c > eth_allowDelta d then do {
           let message = ''block '' @ show_uint64 currentBlock @ '' fetched for ''
                         @ show_uint64 (eth_retriesAvailabilityCheck c) @ '' times in a row'';
           (_, s) \<leftarrow> eth_setStatusForAvailabilityCheck d Unavailable message currentBlock s;
           Some (None, (eth_incrementRetriesAvailabilityCheck c, s)) }
         else do {
           (_, s) \<leftarrow> eth_setStatusForAvailabilityCheck d Available '''' currentBlock s;
           Some (None, (eth_incrementRetriesAvailabilityCheck c, s)) } } })"

definition ethc_GetTransactionsStatuses ::
  "('s, 'addr, 'ty) ethereumClientDeps \<Rightarrow> uint64 \<Rightarrow> ('s, bytes res) go" where
  "ethc_GetTransactionsStatuses d batchId = wrapper_GetStatusesAfterExecution (clientWrapper d) (uint batchId)"

definition ethc_GetQuorumSize :: "('s, 'addr, 'ty) ethereumClientDeps \<Rightarrow> ('s, int res) go" where
  "ethc_GetQuorumSize d = wrapper_Quorum (clientWrapper d)"

definition ethc_IsQuorumReached :: "('s, 'addr, 'ty) ethereumClientDeps \<Rightarrow> bytes \<Rightarrow> ('s, bool res) go" where
  "ethc_IsQuorumReached d mHash = (\<lambda>s. do {
     (signatures, s) \<leftarrow> signatureHolder_Signatures d mHash s;
     (r, s) \<leftarrow> wrapper_Quorum (clientWrapper d) s;
     case r of
       Inl err \<Rightarrow> Some (Inl (Errorf '''' err '' in IsQuorumReached, Quorum call''), s)
     | Inr quorum \<Rightarrow>
         if big_Uint64 quorum < minQuorumValue
         then Some (Inl (Errorf '''' clients_ErrInvalidValue
                ('' in IsQuorumReached, minQuorum '' @ show_uint64 minQuorumValue @ '', got: '' @ show_int quorum)), s)
         else Some (Inr (int (length signatures) \<ge> big_Int64 quorum), s) })"

end
