(* ===== verification/Ethereum_Client_Correct.thy ===== *)
theory Ethereum_Client_Correct
  imports Ethereum_Client
begin

section \<open>Correctness of the Ethereum client\<close>

text \<open>
  What the client of \<^verbatim>\<open>clients/ethereum\<close> promises: what a transaction it sends carries and what was
  checked before, that the signed message describes this transaction, how a batch is read, when the
  quorum is reached, and that it fulfils the contract the bridge executor relies on.
\<close>

subsection \<open>The lists of a batch\<close>

definition batch_lists :: "('addr, 'ty) gethLib \<Rightarrow> DepositTransfer list \<Rightarrow> 'addr argListsBatch" where
  "batch_lists lib ds =
     \<lparr> tokens = map (\<lambda>dt. BytesToAddress lib (ConvertedTokenBytes dt)) ds,
       recipients = map (\<lambda>dt. BytesToAddress lib (ToBytes dt)) ds,
       amounts = map (\<lambda>dt. the (Amount dt)) ds,
       nonces = map (\<lambda>dt. uint (Nonce dt)) ds \<rparr>"

lemma extractList_loop_lists:
  "extractList_loop lib ds arg =
     (if list_all (\<lambda>dt. Amount dt \<noteq> None) ds
      then Some \<lparr> tokens = tokens arg @ tokens (batch_lists lib ds),
                  recipients = recipients arg @ recipients (batch_lists lib ds),
                  amounts = amounts arg @ amounts (batch_lists lib ds),
                  nonces = nonces arg @ nonces (batch_lists lib ds) \<rparr>
      else None)"
  by (induction ds arbitrary: arg) (auto simp: batch_lists_def Let_def split: option.split)

lemma extractList_iff:
  "extractList lib b = (if amounts_set (Some b) then Some (batch_lists lib (Deposits b)) else None)"
  by (simp add: extractList_def extractList_loop_lists amounts_set_def batch_lists_def)

subsection \<open>Sums per token\<close>

definition total_of :: "'addr \<Rightarrow> 'addr list \<Rightarrow> int list \<Rightarrow> int" where
  "total_of token toks amts = sum_list (map snd (filter (\<lambda>(t, _). t = token) (zip toks amts)))"

lemma getCumulatedTransfers_totals:
  assumes "length toks \<le> length amts"
  shows "\<exists>m'. getCumulatedTransfers toks amts m = Some m' \<and>
    (\<forall>token. map_of m' token =
       (if token \<in> set toks then Some ((case map_of m token of None \<Rightarrow> 0 | Some x \<Rightarrow> x) + total_of token toks amts)
        else map_of m token))"
  using assms
proof (induction toks amts m rule: getCumulatedTransfers.induct)
  case (3 t ts a as m)
  define m1 where "m1 = AList.update t ((case map_of m t of None \<Rightarrow> 0 | Some x \<Rightarrow> x) + a) m"
  from 3 obtain m' where m': "getCumulatedTransfers ts as m1 = Some m'"
    "\<And>token. map_of m' token =
       (if token \<in> set ts then Some ((case map_of m1 token of None \<Rightarrow> 0 | Some x \<Rightarrow> x) + total_of token ts as)
        else map_of m1 token)"
    unfolding m1_def by auto
  have "token \<notin> set ts \<Longrightarrow> total_of token ts as = 0" for token
    by (auto simp: total_of_def filter_empty_conv dest: set_zip_leftD intro!: arg_cong [where f = sum_list, of _ "[]", simplified])
  with m' show ?case
    by (auto simp: m1_def update_conv' total_of_def)
qed (auto simp: total_of_def)

lemma checkCumulatedTransfers_covered:
  assumes "checkCumulatedTransfers d transfers s = Some (None, s')" and "(token, value) \<in> set transfers"
  shows "\<exists>balance t t'. erc20_BalanceOf d token (safeContractAddress d) t = Some (Inr balance, t') \<and> value \<le> balance"
  using assms
proof (induction d transfers s rule: checkCumulatedTransfers.induct)
  case (2 d a v transfers s)
  then show ?case by (auto elim!: go_bindE split: go_split_asm) force+
qed simp

lemma checkAvailableTokens_covered:
  assumes "range_order (range_transfers d)" and "length toks = length amts"
    and "checkAvailableTokens d toks amts s = Some (None, s')" and "token \<in> set toks"
  shows "\<exists>balance t t'. erc20_BalanceOf d token (safeContractAddress d) t = Some (Inr balance, t')
     \<and> total_of token toks amts \<le> balance"
proof -
  obtain m where m: "getCumulatedTransfers toks amts [] = Some m" "map_of m token = Some (total_of token toks amts)"
    using getCumulatedTransfers_totals [of toks amts "[]"] assms(2,4) by auto
  then have "(token, total_of token toks amts) \<in> set (range_transfers d m)"
    using range_orderD(1) [OF assms(1)] by (auto dest: map_of_SomeD)
  with m(1) assms(3) show ?thesis
    by (intro checkCumulatedTransfers_covered) (auto simp: checkAvailableTokens_def)
qed

text \<open>What a successful \<^verbatim>\<open>ExecuteTransfer\<close> has checked and sent.\<close>

lemma executeTransfer_signed_outcome:
  assumes "executeTransfer_signed d h b q auth s = Some (Inr hash, s')"
  obtains sigs t1 t2 t3 where "signatureHolder_Signatures d h s = Some (sigs, t1)"
    "0 \<le> q" "q \<le> int (length sigs)" "amounts_set (Some b)"
    "checkAvailableTokens d (tokens (batch_lists (geth d) (Deposits b))) (amounts (batch_lists (geth d) (Deposits b))) t1 = Some (None, t2)"
    "checkRelayerFundsForFee d (sint (opts_GasLimit auth) * opts_GasPrice auth) t2 = Some (None, t3)"
    "wrapper_ExecuteTransfer (clientWrapper d) auth (tokens (batch_lists (geth d) (Deposits b)))
        (recipients (batch_lists (geth d) (Deposits b))) (amounts (batch_lists (geth d) (Deposits b)))
        (nonces (batch_lists (geth d) (Deposits b))) (uint (ID b)) (take (nat q) sigs) t3 = Some (Inr hash, s')"
proof -
  from assms obtain sigs t1 where s1: "signatureHolder_Signatures d h s = Some (sigs, t1)"
    unfolding executeTransfer_signed_def by (auto elim!: go_bindE)
  let ?sent = "if int (length sigs) > q then take (nat q) sigs else sigs"
  from assms s1 have q: "q \<le> int (length sigs)" "\<not> (int (length sigs) > q \<and> q < 0)"
    unfolding executeTransfer_signed_def by (auto split: if_split_asm)
  then have "0 \<le> q" by linarith
  moreover have "?sent = take (nat q) sigs" using q by auto
  moreover from assms s1 q have am: "amounts_set (Some b)"
    unfolding executeTransfer_signed_def extractList_iff by (auto split: if_split_asm)
  ultimately show thesis
    using assms s1 q that
    unfolding executeTransfer_signed_def extractList_iff
    by (auto simp: Let_def int64_def elim!: go_bindE split: option.split_asm)
qed

lemma ExecuteTransfer_outcome:
  assumes "ethc_ExecuteTransfer d h b q s = Some (Inr hash, s')"
  obtains bb auth t t' where "b = Some bb" "wrapper_IsPaused (clientWrapper d) s = Some (Inr False, t)"
    "opts_GasLimit auth = transferGasLimitBase d + of_nat (length (Deposits bb)) * transferGasLimitForEach d"
    "opts_Value auth = 0" "executeTransfer_signed d h bb q auth t' = Some (Inr hash, s')"
proof (cases b)
  case None
  with assms show thesis by (simp add: ethc_ExecuteTransfer_def)
next
  case (Some bb)
  with assms obtain chainId nonce price t t' where run: "wrapper_IsPaused (clientWrapper d) s = Some (Inr False, t)"
    "executeTransfer_signed d h bb q \<lparr> opts_ChainID = chainId, opts_Nonce = nonce, opts_Value = 0,
       opts_GasLimit = transferGasLimitBase d + of_nat (length (Deposits bb)) * transferGasLimitForEach d,
       opts_GasPrice = price \<rparr> t' = Some (Inr hash, s')"
    unfolding ethc_ExecuteTransfer_def uint64_len_def
    by (auto elim!: go_bindE split: go_split_asm)
  show thesis by (rule that [OF Some run(1) _ _ run(2)]) simp_all
qed

lemma checkRelayerFundsForFee_covered:
  "checkRelayerFundsForFee d fee s = Some (None, s') \<Longrightarrow>
   \<exists>balance. wrapper_BalanceAt (clientWrapper d) (ethereumRelayerAddress d) s = Some (Inr balance, s') \<and> fee \<le> balance"
  by (auto simp: checkRelayerFundsForFee_def elim!: go_bindE split: go_split_asm)

text \<open>
  C3: When \<^verbatim>\<open>ExecuteTransfer\<close> reports a transaction hash, the contract was not paused and the transaction
  that was sent carries exactly \<^verbatim>\<open>quorum\<close> signatures, taken from those the signatures holder has for the
  message hash; it moves the converted tokens, recipients, amounts and nonces of the batch; for each
  token the safe contract held at least the sum of the amounts of this token, whatever the order in
  which the map of sums was visited; and the relayer could pay the gas limit at the gas price.
\<close>

theorem executed_transfer_is_covered:
  assumes "ethc_ExecuteTransfer d h b q s = Some (Inr hash, s')" and "range_order (range_transfers d)"
  shows "\<exists>bb sigs auth t fee. b = Some bb
     \<and> (\<exists>t. wrapper_IsPaused (clientWrapper d) s = Some (Inr False, t))
     \<and> (\<exists>t t'. signatureHolder_Signatures d h t = Some (sigs, t')) \<and> int (length (take (nat q) sigs)) = q
     \<and> wrapper_ExecuteTransfer (clientWrapper d) auth
          (map (\<lambda>dt. BytesToAddress (geth d) (ConvertedTokenBytes dt)) (Deposits bb))
          (map (\<lambda>dt. BytesToAddress (geth d) (ToBytes dt)) (Deposits bb))
          (map (\<lambda>dt. the (Amount dt)) (Deposits bb)) (map (\<lambda>dt. uint (Nonce dt)) (Deposits bb))
          (uint (ID bb)) (take (nat q) sigs) t = Some (Inr hash, s')
     \<and> (\<forall>dt \<in> set (Deposits bb). let token = BytesToAddress (geth d) (ConvertedTokenBytes dt) in
          \<exists>balance t t'. erc20_BalanceOf d token (safeContractAddress d) t = Some (Inr balance, t')
            \<and> total_of token (map (\<lambda>dt. BytesToAddress (geth d) (ConvertedTokenBytes dt)) (Deposits bb))
                 (map (\<lambda>dt. the (Amount dt)) (Deposits bb)) \<le> balance)
     \<and> fee = sint (opts_GasLimit auth) * opts_GasPrice auth
     \<and> opts_GasLimit auth = transferGasLimitBase d + of_nat (length (Deposits bb)) * transferGasLimitForEach d
     \<and> (\<exists>balance t t'. wrapper_BalanceAt (clientWrapper d) (ethereumRelayerAddress d) t = Some (Inr balance, t')
          \<and> fee \<le> balance)"
proof -
  from assms(1) obtain bb auth t t' where 1: "b = Some bb" "wrapper_IsPaused (clientWrapper d) s = Some (Inr False, t)"
    "opts_GasLimit auth = transferGasLimitBase d + of_nat (length (Deposits bb)) * transferGasLimitForEach d"
    "executeTransfer_signed d h bb q auth t' = Some (Inr hash, s')"
    by (elim ExecuteTransfer_outcome)
  from 1(4) obtain sigs t1 t2 t3 where 2: "signatureHolder_Signatures d h t' = Some (sigs, t1)"
    "0 \<le> q" "q \<le> int (length sigs)"
    "checkAvailableTokens d (tokens (batch_lists (geth d) (Deposits bb))) (amounts (batch_lists (geth d) (Deposits bb))) t1 = Some (None, t2)"
    "checkRelayerFundsForFee d (sint (opts_GasLimit auth) * opts_GasPrice auth) t2 = Some (None, t3)"
    "wrapper_ExecuteTransfer (clientWrapper d) auth (tokens (batch_lists (geth d) (Deposits bb)))
        (recipients (batch_lists (geth d) (Deposits bb))) (amounts (batch_lists (geth d) (Deposits bb)))
        (nonces (batch_lists (geth d) (Deposits bb))) (uint (ID bb)) (take (nat q) sigs) t3 = Some (Inr hash, s')"
    by (elim executeTransfer_signed_outcome)
  have "\<forall>dt \<in> set (Deposits bb). let token = BytesToAddress (geth d) (ConvertedTokenBytes dt) in
          \<exists>balance t t'. erc20_BalanceOf d token (safeContractAddress d) t = Some (Inr balance, t')
            \<and> total_of token (map (\<lambda>dt. BytesToAddress (geth d) (ConvertedTokenBytes dt)) (Deposits bb))
                 (map (\<lambda>dt. the (Amount dt)) (Deposits bb)) \<le> balance"
    unfolding Let_def using checkAvailableTokens_covered [OF assms(2) _ 2(4)] by (simp add: batch_lists_def)
  with 1 2 checkRelayerFundsForFee_covered [OF 2(5)] show ?thesis
    by (intro exI [of _ bb] exI [of _ sigs] exI [of _ auth] exI [of _ t3] exI [of _ "sint (opts_GasLimit auth) * opts_GasPrice auth"])
      (auto simp: batch_lists_def)
qed

text \<open>
  C7: What the relayers sign is what is executed: the message hash of a batch is the hash of the packed
  recipients, tokens, amounts, nonces and batch identifier, in this order, and these are the lists the
  transaction of \<^verbatim>\<open>ExecuteTransfer\<close> carries for the same batch.
\<close>

theorem signed_message_is_the_executed_transfer:
  assumes "ethc_GenerateMessageHash d (Some b) s = Some (Inr h, s')"
    and "ethc_ExecuteTransfer d h (Some b) q t = Some (Inr hash, t')"
  shows "\<exists>args pack auth sigs u.
     generateTransferArgs (geth d) = Inr args
     \<and> (let l = batch_lists (geth d) (Deposits b) in
          abi_Pack (geth d) args [AbiAddresses (recipients l), AbiAddresses (tokens l), AbiUints (amounts l),
            AbiUints (nonces l), AbiUint (uint (ID b)), AbiString ''ExecuteBatchedTransfer''] = Inr pack
        \<and> h = Keccak256Hash (geth d) (bytes_of_string messagePrefix @ Keccak256Hash (geth d) pack)
        \<and> wrapper_ExecuteTransfer (clientWrapper d) auth (tokens l) (recipients l) (amounts l) (nonces l)
            (uint (ID b)) sigs u = Some (Inr hash, t'))"
proof -
  from assms(1) obtain args pack where 1: "generateTransferArgs (geth d) = Inr args"
    "abi_Pack (geth d) args [AbiAddresses (recipients (batch_lists (geth d) (Deposits b))),
        AbiAddresses (tokens (batch_lists (geth d) (Deposits b))), AbiUints (amounts (batch_lists (geth d) (Deposits b))),
        AbiUints (nonces (batch_lists (geth d) (Deposits b))), AbiUint (uint (ID b)), AbiString ''ExecuteBatchedTransfer''] = Inr pack"
    "h = Keccak256Hash (geth d) (bytes_of_string messagePrefix @ Keccak256Hash (geth d) pack)"
    unfolding ethc_GenerateMessageHash_def extractList_iff
    by (auto simp: Let_def split: sum.split_asm if_split_asm)
  from assms(2) obtain auth u where "executeTransfer_signed d h b q auth u = Some (Inr hash, t')"
    by (elim ExecuteTransfer_outcome) auto
  then obtain sigs u' where "wrapper_ExecuteTransfer (clientWrapper d) auth (tokens (batch_lists (geth d) (Deposits b)))
        (recipients (batch_lists (geth d) (Deposits b))) (amounts (batch_lists (geth d) (Deposits b)))
        (nonces (batch_lists (geth d) (Deposits b))) (uint (ID b)) sigs u' = Some (Inr hash, t')"
    by (elim executeTransfer_signed_outcome)
  with 1 show ?thesis unfolding Let_def by blast
qed

subsection \<open>Reading a batch\<close>

interpretation ethereum_cache: token_cache "eth_tokensMapper d" ToHexString for d
  by unfold_locales (simp add: ToHexString_def)

definition deposit_from_ethereum :: "('s, 'addr, 'ty) ethereumClientDeps \<Rightarrow> 'addr Deposit \<Rightarrow> DepositTransfer" where
  \<comment> \<open>the deposit as it is read, before its token is converted\<close>
  "deposit_from_ethereum d dep =
     \<lparr> Nonce = big_Uint64 (Deposit_Nonce dep), ToBytes = Recipient dep,
       DisplayableTo = eth_ToBech32String d (Recipient dep),
       FromBytes = Address_Bytes (geth d) (Depositor dep),
       DisplayableFrom = ToHexString (Address_Bytes (geth d) (Depositor dep)),
       TokenBytes = Address_Bytes (geth d) (TokenAddress dep), ConvertedTokenBytes = [],
       DisplayableToken = ToHexString (Address_Bytes (geth d) (TokenAddress dep)),
       Amount = Some (Deposit_Amount dep) \<rparr>"

lemma getBatch_loop_runs:
  assumes "cached_deposits (eth_tokensMapper d) ToHexString m (Deposits tb)"
    and "ok \<longrightarrow> (\<forall>token. panic_free (eth_tokensMapper d token))"
    and "\<And>e s'. Q (Inl e) s'"
    and "\<And>tb' s'. ID tb' = ID tb \<Longrightarrow> tokens_converted (eth_tokensMapper d) (Deposits tb')
        \<Longrightarrow> map (\<lambda>dt. dt\<lparr>ConvertedTokenBytes := []\<rparr>) (Deposits tb')
              = map (\<lambda>dt. dt\<lparr>ConvertedTokenBytes := []\<rparr>) (Deposits tb) @ map (deposit_from_ethereum d) deposits
        \<Longrightarrow> Q (Inr tb') s'"
  shows "runs ok (getBatch_loop d deposits m tb s) Q"
  using assms
proof (induction d deposits m tb s rule: getBatch_loop.induct)
  case (1 d m tb s)
  then show ?case by (auto intro!: go_rules ethereum_cache.cached_deposits_converted)
next
  case (2 d dep deposits m tb s)
  show ?case
    unfolding getBatch_loop.simps Let_def
    by (intro go_rules runs_case_prod convert_cached_run "2.IH" "2.prems"(2) "2.prems"(3) "2.prems"(4) refl)
      (use "2.prems"(1) in \<open>auto intro: ethereum_cache.cached_deposits_append simp: deposit_from_ethereum_def\<close>)
qed

text \<open>
  A batch \<^verbatim>\<open>GetBatch\<close> returns has the identifier the contract gave and as many deposits as the contract
  announced, each with the fields of the deposit it was read from, a converted token that the mapper gave
  for its own token (the same for equal tokens), and one zero status per deposit.
\<close>

theorem ethereum_batch_is_read:
  assumes "ethc_GetBatch d nonce s = Some (Inr tb, s')"
  shows "\<exists>b deposits. (\<exists>t t'. wrapper_GetBatch (clientWrapper d) (uint nonce) t = Some (Inr b, t'))
     \<and> (\<exists>t t'. wrapper_GetBatchDeposits (clientWrapper d) (uint nonce) t = Some (Inr deposits, t'))
     \<and> unat (DepositsCount b) = length deposits \<and> ID tb = big_Uint64 (Batch_Nonce b)
     \<and> map (\<lambda>dt. dt\<lparr>ConvertedTokenBytes := []\<rparr>) (Deposits tb) = map (deposit_from_ethereum d) deposits
     \<and> tokens_converted (eth_tokensMapper d) (Deposits tb) \<and> Statuses tb = replicate (length deposits) 0"
proof -
  from assms obtain b deposits t t' u tb' where r: "wrapper_GetBatch (clientWrapper d) (uint nonce) s = Some (Inr b, t)"
    "wrapper_GetBatchDeposits (clientWrapper d) (uint nonce) t = Some (Inr deposits, t')"
    "unat (DepositsCount b) = length deposits"
    "getBatch_loop d deposits [] \<lparr> ID = big_Uint64 (Batch_Nonce b), Deposits = [], Statuses = [] \<rparr> t' = Some (Inr tb', u)"
    "tb = tb'\<lparr>Statuses := replicate (length (Deposits tb')) 0\<rparr>"
    by (auto simp: ethc_GetBatch_def Let_def elim!: go_bindE split: go_split_asm)
  have "runs False (getBatch_loop d deposits [] \<lparr> ID = big_Uint64 (Batch_Nonce b), Deposits = [], Statuses = [] \<rparr> t')
     (\<lambda>r _. \<forall>tb'. r = Inr tb' \<longrightarrow> ID tb' = big_Uint64 (Batch_Nonce b) \<and> tokens_converted (eth_tokensMapper d) (Deposits tb')
        \<and> map (\<lambda>dt. dt\<lparr>ConvertedTokenBytes := []\<rparr>) (Deposits tb') = map (deposit_from_ethereum d) deposits)"
    using ethereum_cache.empty_cache by (intro getBatch_loop_runs) auto
  then have "ID tb' = big_Uint64 (Batch_Nonce b) \<and> tokens_converted (eth_tokensMapper d) (Deposits tb')
      \<and> map (\<lambda>dt. dt\<lparr>ConvertedTokenBytes := []\<rparr>) (Deposits tb') = map (deposit_from_ethereum d) deposits"
    using r(4) by (auto dest: runsD)
  moreover from this have "length (Deposits tb') = length deposits" by (metis length_map)
  ultimately show ?thesis using r by auto
qed

subsection \<open>Quorum\<close>

text \<open>
  For a quorum between 1 and the largest \<^verbatim>\<open>int64\<close>, \<^verbatim>\<open>IsQuorumReached\<close> says whether the signatures holder
  has at least that many signatures for the message hash; for a quorum of 0 it gives an error.
\<close>

theorem IsQuorumReached_counts:
  assumes "signatureHolder_Signatures d h s = Some (sigs, t)" and "wrapper_Quorum (clientWrapper d) t = Some (Inr q, t')"
    and "0 \<le> q" and "q < 2 ^ 63"
  shows "ethc_IsQuorumReached d h s =
     (if q = 0
      then Some (Inl (Errorf '''' clients_ErrInvalidValue '' in IsQuorumReached, minQuorum 1, got: 0''), t')
      else Some (Inr (q \<le> int (length sigs)), t'))"
proof -
  have w: "sint (word_of_int q :: uint64) = q" "uint (word_of_int q :: uint64) = q"
    using assms(3,4) by (simp_all add: signed_take_bit_int_eq_self sint_sbintrunc' uint_word_of_int)
  then have "big_Int64 q = q" and "big_Uint64 q < minQuorumValue \<longleftrightarrow> q = 0"
    using assms(3) by (auto simp: big_Int64_def big_Uint64_def minQuorumValue_def word_less_alt)
  then show ?thesis
    using assms by (simp add: ethc_IsQuorumReached_def minQuorumValue_def show_uint64_def show_int_def show_nat.simps)
qed

subsection \<open>The contract of the executor\<close>

definition ethereum_interface :: "('s, 'addr, 'ty) ethereumClientDeps \<Rightarrow> (ethereum_client \<times> 's) EthereumClient" where
  "ethereum_interface d =
     \<lparr> eth_GetBatch = (\<lambda>n. beside (ethc_GetBatch d n)),
       eth_WasExecuted = (\<lambda>n. beside (ethc_WasExecuted d n)),
       eth_GenerateMessageHash = (\<lambda>b. beside (ethc_GenerateMessageHash d b)),
       eth_BroadcastSignatureForMessageHash = (\<lambda>h. beside (BroadcastSignatureForMessageHash d h)),
       eth_ExecuteTransfer = (\<lambda>h b q. beside (ethc_ExecuteTransfer d h b q)),
       eth_GetTransactionsStatuses = (\<lambda>n. beside (ethc_GetTransactionsStatuses d n)),
       eth_GetQuorumSize = beside (ethc_GetQuorumSize d),
       eth_IsQuorumReached = (\<lambda>h. beside (ethc_IsQuorumReached d h)),
       eth_CheckClientAvailability = ethc_CheckClientAvailability d \<rparr>"

text \<open>
  The libraries and the node do not panic, and the quorum of the contract (a \<^verbatim>\<open>uint256\<close>) fits an \<^verbatim>\<open>int64\<close>.
\<close>

definition ethereum_world_ok :: "('s, 'addr, 'ty) ethereumClientDeps \<Rightarrow> bool" where
  "ethereum_world_ok d \<longleftrightarrow>
     (\<forall>x y. panic_free (AddIntMetric (wrapper_StatusHandler (clientWrapper d)) x y))
     \<and> (\<forall>x y. panic_free (SetIntMetric (wrapper_StatusHandler (clientWrapper d)) x y))
     \<and> (\<forall>x y. panic_free (SetStringMetric (wrapper_StatusHandler (clientWrapper d)) x y))
     \<and> (\<forall>x. panic_free (msc_GetBatch (wrapper_multiSigContract (clientWrapper d)) x))
     \<and> (\<forall>x. panic_free (msc_GetBatchDeposits (wrapper_multiSigContract (clientWrapper d)) x))
     \<and> (\<forall>x. panic_free (msc_WasBatchExecuted (wrapper_multiSigContract (clientWrapper d)) x))
     \<and> (\<forall>a b c e f g h. panic_free (msc_ExecuteTransfer (wrapper_multiSigContract (clientWrapper d)) a b c e f g h))
     \<and> panic_free (msc_Quorum (wrapper_multiSigContract (clientWrapper d)))
     \<and> (\<forall>s q s'. msc_Quorum (wrapper_multiSigContract (clientWrapper d)) s = Some (Inr q, s') \<longrightarrow> 0 \<le> q \<and> q < 2 ^ 63)
     \<and> (\<forall>x. panic_free (msc_GetStatusesAfterExecution (wrapper_multiSigContract (clientWrapper d)) x))
     \<and> panic_free (msc_Paused (wrapper_multiSigContract (clientWrapper d)))
     \<and> panic_free (bcc_BlockNumber (wrapper_blockchainClient (clientWrapper d)))
     \<and> (\<forall>x y. panic_free (bcc_NonceAt (wrapper_blockchainClient (clientWrapper d)) x y))
     \<and> panic_free (bcc_ChainID (wrapper_blockchainClient (clientWrapper d)))
     \<and> (\<forall>x. panic_free (bcc_BalanceAt (wrapper_blockchainClient (clientWrapper d)) x))
     \<and> (\<forall>x y. panic_free (erc20_BalanceOf d x y))
     \<and> (\<forall>x y. panic_free (broadcaster_BroadcastSignature d x y))
     \<and> (\<forall>x. panic_free (eth_tokensMapper d x))
     \<and> (\<forall>x. panic_free (signatureHolder_Signatures d x))
     \<and> panic_free (gasHandler_GetCurrentGasPrice d)"

lemma ethereum_world_total:
  "ethereum_world_ok d \<longrightarrow> panic_free (AddIntMetric (wrapper_StatusHandler (clientWrapper d)) str i)"
  "ethereum_world_ok d \<longrightarrow> panic_free (SetIntMetric (wrapper_StatusHandler (clientWrapper d)) str i)"
  "ethereum_world_ok d \<longrightarrow> panic_free (SetStringMetric (wrapper_StatusHandler (clientWrapper d)) str val)"
  "ethereum_world_ok d \<longrightarrow> panic_free (msc_GetBatch (wrapper_multiSigContract (clientWrapper d)) i)"
  "ethereum_world_ok d \<longrightarrow> panic_free (msc_GetBatchDeposits (wrapper_multiSigContract (clientWrapper d)) i)"
  "ethereum_world_ok d \<longrightarrow> panic_free (msc_WasBatchExecuted (wrapper_multiSigContract (clientWrapper d)) i)"
  "ethereum_world_ok d \<longrightarrow> panic_free (msc_ExecuteTransfer (wrapper_multiSigContract (clientWrapper d)) auth toks recs ams ns i sigs)"
  "ethereum_world_ok d \<longrightarrow> panic_free (msc_Quorum (wrapper_multiSigContract (clientWrapper d)))"
  "ethereum_world_ok d \<longrightarrow> panic_free (msc_GetStatusesAfterExecution (wrapper_multiSigContract (clientWrapper d)) i)"
  "ethereum_world_ok d \<longrightarrow> panic_free (msc_Paused (wrapper_multiSigContract (clientWrapper d)))"
  "ethereum_world_ok d \<longrightarrow> panic_free (bcc_BlockNumber (wrapper_blockchainClient (clientWrapper d)))"
  "ethereum_world_ok d \<longrightarrow> panic_free (bcc_NonceAt (wrapper_blockchainClient (clientWrapper d)) a i)"
  "ethereum_world_ok d \<longrightarrow> panic_free (bcc_ChainID (wrapper_blockchainClient (clientWrapper d)))"
  "ethereum_world_ok d \<longrightarrow> panic_free (bcc_BalanceAt (wrapper_blockchainClient (clientWrapper d)) a)"
  "ethereum_world_ok d \<longrightarrow> panic_free (erc20_BalanceOf d a a')"
  "ethereum_world_ok d \<longrightarrow> panic_free (broadcaster_BroadcastSignature d bs bs')"
  "ethereum_world_ok d \<longrightarrow> panic_free (signatureHolder_Signatures d bs)"
  "ethereum_world_ok d \<longrightarrow> panic_free (gasHandler_GetCurrentGasPrice d)"
  unfolding ethereum_world_ok_def by (intro impI, elim conjE, (simp; fail))+

lemma ethereum_world_mapper: "ethereum_world_ok d \<longrightarrow> (\<forall>token. panic_free (eth_tokensMapper d token))"
  unfolding ethereum_world_ok_def by simp

lemma ethereum_world_quorum:
  assumes "ethereum_world_ok d" and "msc_Quorum (wrapper_multiSigContract (clientWrapper d)) s = Some (Inr q, s')"
  shows "0 \<le> q \<and> q < 2 ^ 63"
proof -
  have "\<forall>s q s'. msc_Quorum (wrapper_multiSigContract (clientWrapper d)) s = Some (Inr q, s') \<longrightarrow> 0 \<le> q \<and> q < 2 ^ 63"
    using assms(1) unfolding ethereum_world_ok_def by (elim conjE)
  with assms(2) show ?thesis by blast
qed

lemmas ethereum_world_run = ethereum_world_total [THEN service_run]

lemmas wrapper_defs =
  wrapper_GetBatch_def wrapper_GetBatchDeposits_def wrapper_GetRelayers_def wrapper_WasBatchExecuted_def
  wrapper_ChainID_def wrapper_BlockNumber_def wrapper_NonceAt_def wrapper_ExecuteTransfer_def wrapper_Quorum_def
  wrapper_GetStatusesAfterExecution_def wrapper_BalanceAt_def wrapper_IsPaused_def

lemma checkCumulatedTransfers_runs:
  assumes "\<And>r s'. Q r s'"
  shows "runs (ethereum_world_ok d) (checkCumulatedTransfers d transfers s) Q"
proof (induction transfers arbitrary: s)
  case Nil
  then show ?case by (simp add: runs_Some assms)
next
  case (Cons x transfers)
  obtain a v where "x = (a, v)" by (cases x)
  with Cons show ?case
    by (simp only: checkCumulatedTransfers.simps) (intro go_rules ethereum_world_run assms Cons)
qed

lemma checkAvailableTokens_runs:
  assumes "\<And>r s'. Q r s'" and "length toks = length amts"
  shows "runs (ethereum_world_ok d) (checkAvailableTokens d toks amts s) Q"
proof -
  obtain m where "getCumulatedTransfers toks amts [] = Some m"
    using getCumulatedTransfers_totals [of toks amts "[]"] assms(2) by auto
  then show ?thesis by (simp add: checkAvailableTokens_def checkCumulatedTransfers_runs assms(1))
qed

lemma executeTransfer_signed_runs:
  assumes "\<And>r s'. Q r s'" and "amounts_set (Some b)" and "0 \<le> q"
  shows "runs (ethereum_world_ok d) (executeTransfer_signed d h b q auth s) Q"
proof -
  have lists: "extractList (geth d) b = Some (batch_lists (geth d) (Deposits b))" by (simp add: extractList_iff assms(2))
  show ?thesis
    unfolding executeTransfer_signed_def lists Let_def Option.bind.bind_lunit checkRelayerFundsForFee_def wrapper_defs
    by (intro go_rules ethereum_world_run checkAvailableTokens_runs assms(1))
      (use assms(3) in \<open>auto simp: batch_lists_def\<close>)
qed

lemma ethc_ExecuteTransfer_runs:
  assumes "\<And>r s'. Q r s'" and "amounts_set b" and "0 \<le> q"
  shows "runs (ethereum_world_ok d) (ethc_ExecuteTransfer d h b q s) Q"
  unfolding ethc_ExecuteTransfer_def getNonce_def wrapper_defs
  by (intro go_rules ethereum_world_run executeTransfer_signed_runs assms) (use assms(2) in simp)+

lemma ethc_GenerateMessageHash_runs:
  assumes "\<And>r s'. Q r s'" and "amounts_set b"
  shows "runs (ethereum_world_ok d) (ethc_GenerateMessageHash d b s) Q"
  unfolding ethc_GenerateMessageHash_def extractList_iff Let_def
  by (intro go_rules assms(1)) (use assms(2) in \<open>simp add: if_split_asm\<close>)

lemma ethc_GetBatch_runs:
  assumes "\<And>r s'. Q r s'"
  shows "runs (ethereum_world_ok d) (ethc_GetBatch d n s) Q"
  unfolding ethc_GetBatch_def Let_def wrapper_defs
  by (intro go_rules ethereum_world_run getBatch_loop_runs ethereum_world_mapper ethereum_cache.empty_cache assms)
    (simp add: ethereum_cache.empty_cache)

lemma ethereum_client_ok_of_world:
  assumes ok: "ethereum_world_ok d"
  shows "ethereum_client_ok (ethereum_interface d)"
proof -
  note pf = panic_free_runs [OF beside_runs ok]
  have "0 \<le> big_Int64 q" if "beside (ethc_GetQuorumSize d) cs = Some (Inr q, cs')" for cs q cs'
  proof -
    from that obtain t t' where "msc_Quorum (wrapper_multiSigContract (clientWrapper d)) t = Some (Inr q, t')"
      by (cases cs) (auto simp: beside_def ethc_GetQuorumSize_def wrapper_Quorum_def elim!: go_bindE)
    from ethereum_world_quorum [OF ok this] show ?thesis
      by (simp add: big_Int64_def sint_sbintrunc' signed_take_bit_int_eq_self)
  qed
  moreover have "panic_free (beside (ethc_GetBatch d n))" "panic_free (beside (ethc_WasExecuted d n))"
    "panic_free (beside (BroadcastSignatureForMessageHash d h))" "panic_free (beside (ethc_GetTransactionsStatuses d n))"
    "panic_free (beside (ethc_GetQuorumSize d))" "panic_free (beside (ethc_IsQuorumReached d h))" for n h
    unfolding ethc_WasExecuted_def BroadcastSignatureForMessageHash_def ethc_GetTransactionsStatuses_def
      ethc_GetQuorumSize_def ethc_IsQuorumReached_def wrapper_defs
    by ((rule pf, intro go_rules ethc_GetBatch_runs ethereum_world_run TrueI)+)
  moreover have "panic_free (beside (ethc_GenerateMessageHash d b))" if "amounts_set b" for b
    by (rule pf, intro ethc_GenerateMessageHash_runs that TrueI)
  moreover have "panic_free (beside (ethc_ExecuteTransfer d h b q))" if "amounts_set b" "0 \<le> q" for h b q
    by (rule pf, intro ethc_ExecuteTransfer_runs that TrueI)
  moreover have "panic_free (ethc_CheckClientAvailability d)"
    unfolding ethc_CheckClientAvailability_def Let_def eth_setStatusForAvailabilityCheck_def wrapper_defs
    by (rule panic_free_runs [OF _ ok]) (intro go_rules runs_case_prod ethereum_world_run TrueI)
  ultimately show ?thesis
    unfolding ethereum_client_ok_def ethereum_interface_def by (simp only: EthereumClient.select_convs) blast
qed

text \<open>
  C22: The Ethereum client implements the contract the executor relies on: when the node, the contract
  bindings and the other services do not panic and the quorum of the contract fits an \<^verbatim>\<open>int64\<close>, no
  operation of the client panics, provided that the batch has all its amounts and the quorum it is
  called with is not negative; the size of the quorum it reports is not negative.
\<close>

theorem ethereum_client_implements_contract:
  assumes "ethereum_world_ok d"
  shows "ethereum_client_ok (ethereum_interface d)"
  using assms by (rule ethereum_client_ok_of_world)

subsection \<open>A concrete client\<close>

text \<open>A node whose state counts the transfers executed; the contract holds one deposit of 20 tokens.\<close>

definition demo_geth :: "(bytes, string) gethLib" where
  "demo_geth =
     \<lparr> BytesToAddress = (\<lambda>b. b), Address_Bytes = (\<lambda>a. a), Address_String = (\<lambda>_. ''0x''),
       abi_NewType = Inr, abi_Pack = (\<lambda>_ _. Inr [1]), Keccak256Hash = (\<lambda>b. 9 # b),
       NewKeyedTransactorWithChainID = (\<lambda>_. None), crypto_Sign = (\<lambda>h. Inr [5]) \<rparr>"

definition demo_eth_wrapper :: "(nat, bytes) ethereumChainWrapper" where
  "demo_eth_wrapper =
     \<lparr> wrapper_StatusHandler = \<lparr> SetIntMetric = (\<lambda>_ _ s. Some ((), s)), AddIntMetric = (\<lambda>_ _ s. Some ((), s)),
         SetStringMetric = (\<lambda>_ _ s. Some ((), s)) \<rparr>,
       wrapper_multiSigContract =
         \<lparr> msc_GetBatch = (\<lambda>_ s. Some (Inr \<lparr> Batch_Nonce = 3, BlockNumber = 1, LastUpdatedBlockNumber = 1,
              DepositsCount = 1 \<rparr>, s)),
           msc_GetBatchDeposits = (\<lambda>_ s. Some (Inr [\<lparr> Deposit_Nonce = 7, TokenAddress = [65], Deposit_Amount = 20,
              Depositor = [1], Recipient = [2], Deposit_Status = 0 \<rparr>], s)),
           msc_GetRelayers = (\<lambda>s. Some (Inr [], s)),
           msc_WasBatchExecuted = (\<lambda>_ s. Some (Inr False, s)),
           msc_ExecuteTransfer = (\<lambda>_ _ _ _ _ _ _ s. Some (Inr ''0xabc'', s + 1)),
           msc_Quorum = (\<lambda>s. Some (Inr 2, s)),
           msc_GetStatusesAfterExecution = (\<lambda>_ s. Some (Inr [3], s)),
           msc_Paused = (\<lambda>s. Some (Inr False, s)) \<rparr>,
       wrapper_blockchainClient =
         \<lparr> bcc_BlockNumber = (\<lambda>s. Some (Inr 10, s)), bcc_NonceAt = (\<lambda>_ _ s. Some (Inr 4, s)),
           bcc_ChainID = (\<lambda>s. Some (Inr 1, s)), bcc_BalanceAt = (\<lambda>_ s. Some (Inr 1000, s)) \<rparr> \<rparr>"

definition demo_eth :: "(nat, bytes, string) ethereumClientDeps" where
  "demo_eth =
     \<lparr> geth = demo_geth, clientWrapper = demo_eth_wrapper,
       erc20_BalanceOf = (\<lambda>_ _ s. Some (Inr 50, s)),
       eth_ToBech32String = (\<lambda>_. ''erd1''),
       broadcaster_BroadcastSignature = (\<lambda>_ _ s. Some ((), s)),
       ethereumRelayerAddress = [7],
       eth_tokensMapper = (\<lambda>t s. Some (Inr (255 # t), s)),
       signatureHolder_Signatures = (\<lambda>_ s. Some ([[1], [2], [3]], s)),
       safeContractAddress = [8],
       gasHandler_GetCurrentGasPrice = (\<lambda>s. Some (Inr 1, s)),
       transferGasLimitBase = 10, transferGasLimitForEach = 5, eth_allowDelta = 10,
       range_transfers = (\<lambda>xs. xs) \<rparr>"

definition demo_eth_batch :: TransferBatch where
  "demo_eth_batch =
     \<lparr> ID = 3,
       Deposits = [\<lparr> Nonce = 7, ToBytes = [2], DisplayableTo = ''erd1'', FromBytes = [1], DisplayableFrom = ''01'',
         TokenBytes = [65], ConvertedTokenBytes = [255, 65], DisplayableToken = ''41'', Amount = Some 20 \<rparr>],
       Statuses = [0] \<rparr>"

lemmas demo_eth_defs = demo_eth_def demo_eth_wrapper_def demo_geth_def

lemma demo_GetBatch: "ethc_GetBatch demo_eth 3 s = Some (Inr demo_eth_batch, s)"
  by (simp add: Let_def ethc_GetBatch_def wrapper_GetBatch_def wrapper_GetBatchDeposits_def convert_cached_def
      big_Uint64_def ToHexString_def hex_EncodeToString_def demo_eth_batch_def demo_eth_defs)

lemma demo_ExecuteTransfer: "ethc_ExecuteTransfer demo_eth h (Some demo_eth_batch) 2 s = Some (Inr ''0xabc'', s + 1)"
  by (simp add: ethc_ExecuteTransfer_def executeTransfer_signed_def getNonce_def checkAvailableTokens_def
      checkRelayerFundsForFee_def extractList_def wrapper_defs int64_def uint64_len_def demo_eth_batch_def demo_eth_defs)

theorem ethereum_batch_is_read_witness:
  "tokens_converted (eth_tokensMapper demo_eth) (Deposits demo_eth_batch) \<and> ID demo_eth_batch = 3"
  using ethereum_batch_is_read [OF demo_GetBatch [of 0]] by (auto simp: demo_eth_batch_def)

theorem executed_transfer_is_covered_witness:
  "\<exists>auth t. wrapper_ExecuteTransfer (clientWrapper demo_eth) auth [[255, 65]] [[2]] [20] [7] 3 [[1], [2]] t = Some (Inr ''0xabc'', 1)"
proof -
  have "range_order (range_transfers demo_eth)" by (simp add: demo_eth_def)
  from executed_transfer_is_covered [OF demo_ExecuteTransfer [of "[9]" 0] this] show ?thesis
    by (auto simp: demo_eth_batch_def demo_eth_def demo_geth_def)
qed

theorem signed_message_is_the_executed_transfer_witness:
  "\<exists>pack. [9] @ bytes_of_string messagePrefix @ [9, 1]
     = Keccak256Hash (geth demo_eth) (bytes_of_string messagePrefix @ Keccak256Hash (geth demo_eth) pack)"
proof -
  have "ethc_GenerateMessageHash demo_eth (Some demo_eth_batch) 0 = Some (Inr ([9] @ bytes_of_string messagePrefix @ [9, 1]), 0)"
    by (simp add: ethc_GenerateMessageHash_def generateTransferArgs_def extractList_def demo_eth_batch_def demo_eth_defs)
  from signed_message_is_the_executed_transfer [OF this demo_ExecuteTransfer] show ?thesis unfolding Let_def by blast
qed

theorem IsQuorumReached_counts_witness: "ethc_IsQuorumReached demo_eth [9] 0 = Some (Inr True, 0)"
  using IsQuorumReached_counts [of demo_eth "[9]" 0 "[[1], [2], [3]]" 0 2 0]
  by (simp add: wrapper_Quorum_def demo_eth_defs)

theorem ethereum_client_implements_contract_witness: "ethereum_client_ok (ethereum_interface demo_eth)"
  by (rule ethereum_client_implements_contract) (simp add: ethereum_world_ok_def panic_free_def demo_eth_defs)

end
