(* ===== verification/Status_Handler.thy ===== *)
theory Status_Handler
  imports Core_Types
begin

section \<open>Metrics (status/)\<close>

text \<open>
  The status handler keeps the metrics of a component and writes the persistent ones to a storer after
  each change; the metrics holder collects the handlers for the API. The storer and the JSON
  marshalizer are libraries and hence parameters. The fields that change are the record
  \<open>statusHandler\<close>; a handler whose storer was nil cannot be constructed. A method runs on the pair of the
  handler and the state \<open>'s\<close> of the storer.
\<close>

definition status_ErrEmptyName :: gerror where
  "status_ErrEmptyName = ErrNew ''status.ErrEmptyName'' ''empty name''"
definition ErrStatusHandlerExists :: gerror where
  "ErrStatusHandlerExists =
     ErrNew ''status.ErrStatusHandlerExists'' ''status handler exists with the same name''"
definition ErrMissingStatusHandler :: gerror where
  "ErrMissingStatusHandler = ErrNew ''status.ErrMissingStatusHandler'' ''missing status handler''"
definition ErrNilStorer :: gerror where
  "ErrNilStorer = ErrNew ''status.ErrNilStorer'' ''nil storer''"

record 's Storer =
  Put :: "bytes \<Rightarrow> bytes \<Rightarrow> ('s, gerror option) go"
  Get :: "bytes \<Rightarrow> ('s, bytes res) go"

record statusHandlerPersistenceData =
  pers_IntMetrics :: "(string, int) gomap"
  pers_StringMetrics :: "(string, string) gomap"

record 's statusDeps =
  storer :: "'s Storer"
  Marshal_persistence :: "statusHandlerPersistenceData \<Rightarrow> bytes res"
  Unmarshal_persistence :: "bytes \<Rightarrow> statusHandlerPersistenceData res"

record statusHandler =
  intMetrics :: "(string, int) gomap"
  stringMetrics :: "(string, string) gomap"
  handlerName :: string

subsection \<open>Persistence (persistence.go)\<close>

fun is_persisted :: "string list \<Rightarrow> string \<Rightarrow> bool" where
  "is_persisted [] metric = False"
| "is_persisted (persistedMetric # others) metric = (if persistedMetric = metric then True else is_persisted others metric)"

definition shouldPersistMetric :: "string \<Rightarrow> bool" where
  "shouldPersistMetric metric = is_persisted PersistedMetrics metric"

definition neededMetrics :: "(string, 'v) gomap \<Rightarrow> (string, 'v) gomap" where
  \<comment> \<open>the loops that copy the entries to persist into a new map\<close>
  "neededMetrics m =
     fold (\<lambda>(key, val) needed. if \<not> shouldPersistMetric key then needed else AList.update key val needed) m []"

definition loadFromBuff :: "'s statusDeps \<Rightarrow> bytes \<Rightarrow> statusHandlerPersistenceData res" where
  "loadFromBuff d buff =
     (case Unmarshal_persistence d buff of
        Inl err \<Rightarrow> Inl err
      | Inr data \<Rightarrow> Inr \<lparr> pers_IntMetrics = neededMetrics (pers_IntMetrics data),
                         pers_StringMetrics = neededMetrics (pers_StringMetrics data) \<rparr>)"

definition convertToBuff :: "'s statusDeps \<Rightarrow> statusHandlerPersistenceData \<Rightarrow> (bytes \<times> nat) res" where
  "convertToBuff d persistence =
     (let neededData = \<lparr> pers_IntMetrics = neededMetrics (pers_IntMetrics persistence),
                         pers_StringMetrics = neededMetrics (pers_StringMetrics persistence) \<rparr>;
          numMetrics = length (pers_StringMetrics neededData) + length (pers_IntMetrics neededData)
      in case Marshal_persistence d neededData of Inl err \<Rightarrow> Inl err | Inr buff \<Rightarrow> Inr (buff, numMetrics))"

subsection \<open>The status handler (statusHandler.go)\<close>

definition persistChanges :: "'s statusDeps \<Rightarrow> string \<Rightarrow> (statusHandler \<times> 's, unit) go" where
  \<comment> \<open>errors are only logged\<close>
  "persistChanges d metric = (\<lambda>(sh, s).
     if \<not> shouldPersistMetric metric then Some ((), (sh, s))
     else (let persistence = \<lparr> pers_IntMetrics = intMetrics sh, pers_StringMetrics = stringMetrics sh \<rparr>
           in case convertToBuff d persistence of
                Inl err \<Rightarrow> Some ((), (sh, s))
              | Inr (buff, num) \<Rightarrow> do {
                  (err, s) \<leftarrow> Put (storer d) (bytes_of_string (handlerName sh)) buff s;
                  Some ((), (sh, s)) }))"

definition tryLoadPersistedData :: "'s statusDeps \<Rightarrow> (statusHandler \<times> 's, unit) go" where
  "tryLoadPersistedData d = (\<lambda>(sh, s). do {
     (r, s) \<leftarrow> Get (storer d) (bytes_of_string (handlerName sh)) s;
     case r of
       Inl err \<Rightarrow> Some ((), (sh, s))
     | Inr data \<Rightarrow>
         (case loadFromBuff d data of
            Inl err \<Rightarrow> Some ((), (sh, s))
          | Inr persistence \<Rightarrow>
              Some ((), (sh\<lparr>intMetrics := fold (\<lambda>(key, val) m. AList.update key val m) (pers_IntMetrics persistence) (intMetrics sh),
                            stringMetrics := fold (\<lambda>(key, val) m. AList.update key val m) (pers_StringMetrics persistence) (stringMetrics sh)\<rparr>, s))) })"

definition NewStatusHandler :: "'s statusDeps option \<Rightarrow> string \<Rightarrow> ('s, statusHandler res) go" where
  \<comment> \<open>the dependencies are \<open>None\<close> when the storer is nil\<close>
  "NewStatusHandler d name = (\<lambda>s.
     if length name = 0 then Some (Inl status_ErrEmptyName, s)
     else (case d of
             None \<Rightarrow> Some (Inl ErrNilStorer, s)
           | Some d \<Rightarrow> do {
               (_, (sh, s)) \<leftarrow> tryLoadPersistedData d (\<lparr> intMetrics = [], stringMetrics = [], handlerName = name \<rparr>, s);
               Some (Inr sh, s) }))"

definition statusHandler_SetIntMetric :: "'s statusDeps \<Rightarrow> string \<Rightarrow> int \<Rightarrow> (statusHandler \<times> 's, unit) go" where
  "statusHandler_SetIntMetric d metric value = (\<lambda>(sh, s).
     persistChanges d metric (sh\<lparr>intMetrics := AList.update metric value (intMetrics sh)\<rparr>, s))"

definition statusHandler_AddIntMetric :: "'s statusDeps \<Rightarrow> string \<Rightarrow> int \<Rightarrow> (statusHandler \<times> 's, unit) go" where
  \<comment> \<open>a missing entry counts as 0\<close>
  "statusHandler_AddIntMetric d metric delta = (\<lambda>(sh, s).
     let old = (case map_of (intMetrics sh) metric of None \<Rightarrow> 0 | Some v \<Rightarrow> v)
     in persistChanges d metric (sh\<lparr>intMetrics := AList.update metric (int_add old delta) (intMetrics sh)\<rparr>, s))"

definition statusHandler_SetStringMetric :: "'s statusDeps \<Rightarrow> string \<Rightarrow> string \<Rightarrow> (statusHandler \<times> 's, unit) go" where
  "statusHandler_SetStringMetric d metric val = (\<lambda>(sh, s).
     persistChanges d metric (sh\<lparr>stringMetrics := AList.update metric val (stringMetrics sh)\<rparr>, s))"

definition GetStringMetrics :: "statusHandler \<Rightarrow> (string, string) gomap" where
  "GetStringMetrics sh = fold (\<lambda>(metric, value) m. AList.update metric value m) (stringMetrics sh) []"

definition GetIntMetrics :: "statusHandler \<Rightarrow> (string, int) gomap" where
  "GetIntMetrics sh = fold (\<lambda>(metric, value) m. AList.update metric value m) (intMetrics sh) []"

datatype metricValue = IntMetric int | StringMetric string

definition statusHandler_GetAllMetrics :: "statusHandler \<Rightarrow> (string, metricValue) gomap" where
  "statusHandler_GetAllMetrics sh =
     (let generalMetrics = fold (\<lambda>(key, val) m. AList.update key (IntMetric val) m) (intMetrics sh) []
      in fold (\<lambda>(key, val) m. AList.update key (StringMetric val) m) (stringMetrics sh) generalMetrics)"

definition statusHandler_Name :: "statusHandler \<Rightarrow> string" where
  "statusHandler_Name sh = handlerName sh"

text \<open>The handler as the interface the other components write to.\<close>

definition status_interface :: "'s statusDeps \<Rightarrow> (statusHandler \<times> 's) StatusHandler" where
  "status_interface d =
     \<lparr> SetIntMetric = statusHandler_SetIntMetric d, AddIntMetric = statusHandler_AddIntMetric d,
       SetStringMetric = statusHandler_SetStringMetric d \<rparr>"

subsection \<open>The metrics holder (metricsHolder.go)\<close>

type_synonym metricsHolder = "(string, statusHandler) gomap"

definition NewMetricsHolder :: metricsHolder where
  "NewMetricsHolder = []"

definition AddStatusHandler :: "statusHandler \<Rightarrow> metricsHolder \<Rightarrow> gerror option \<times> metricsHolder" where
  "AddStatusHandler sh mh =
     (let name = statusHandler_Name sh
      in if map_of mh name \<noteq> None
         then (Some (Errorf '''' ErrStatusHandlerExists ('' for '' @ name)), mh)
         else (None, AList.update name sh mh))"

definition GetAvailableStatusHandlers ::
  "((string \<times> statusHandler) list \<Rightarrow> (string \<times> statusHandler) list) \<Rightarrow> metricsHolder \<Rightarrow> string list" where
  "GetAvailableStatusHandlers ord mh =
     (let names = map fst (ord mh)
      in map string_of_bytes (sort (map bytes_of_string names)))"

definition metricsHolder_GetAllMetrics :: "metricsHolder \<Rightarrow> string \<Rightarrow> (string, metricValue) gomap res" where
  "metricsHolder_GetAllMetrics mh name =
     (case map_of mh name of
        None \<Rightarrow> Inl ErrMissingStatusHandler
      | Some sh \<Rightarrow> Inr (statusHandler_GetAllMetrics sh))"

subsection \<open>Copies of maps\<close>

lemma is_persisted_iff: "is_persisted ms metric \<longleftrightarrow> metric \<in> set ms"
  by (induction ms) auto

lemma map_of_fold_update:
  "distinct (map fst xs) \<Longrightarrow>
   map_of (fold (\<lambda>(k, v) m. AList.update k (f v) m) xs m) key =
     (case map_of xs key of Some v \<Rightarrow> Some (f v) | None \<Rightarrow> map_of m key)"
proof (induction xs arbitrary: m)
  case (Cons x xs)
  then have "map_of xs (fst x) = None" by (simp add: map_of_eq_None_iff)
  with Cons show ?case by (cases x) (auto simp: update_conv' split: option.split)
qed simp

lemma map_of_neededMetrics:
  assumes "distinct (map fst xs)"
  shows "map_of (neededMetrics xs) key = (if key \<in> set PersistedMetrics then map_of xs key else None)"
proof -
  have "map_of (fold (\<lambda>(key, val) needed. if \<not> shouldPersistMetric key then needed else AList.update key val needed) xs m) key
      = (if key \<in> set PersistedMetrics \<and> map_of xs key \<noteq> None then map_of xs key else map_of m key)" for m
    using assms
  proof (induction xs arbitrary: m)
    case (Cons x xs)
    then have "map_of xs (fst x) = None" by (simp add: map_of_eq_None_iff)
    with Cons show ?case
      by (cases x) (auto simp: update_conv' shouldPersistMetric_def is_persisted_iff)
  qed simp
  then show ?thesis unfolding neededMetrics_def by simp
qed

lemma distinct_neededMetrics: "distinct (map fst (neededMetrics xs))"
proof -
  have "distinct (map fst m) \<Longrightarrow>
    distinct (map fst (fold (\<lambda>(key, val) needed. if \<not> shouldPersistMetric key then needed else AList.update key val needed) xs m))"
    for m :: "(string, 'a) gomap"
    by (induction xs arbitrary: m) (auto simp: distinct_update split: prod.split)
  then show ?thesis unfolding neededMetrics_def by simp
qed

lemma set_neededMetrics: "set (neededMetrics xs) \<subseteq> set xs"
proof -
  have "set (fold (\<lambda>(key, val) needed. if \<not> shouldPersistMetric key then needed else AList.update key val needed) xs m)
      \<subseteq> set m \<union> set xs" for m :: "(string, 'a) gomap"
  proof (induction xs arbitrary: m)
    case (Cons x xs)
    obtain k v where x: "x = (k, v)" by (cases x)
    have u: "set (AList.update k v m) \<subseteq> insert (k, v) (set m)"
      by (induction m) auto
    show ?case
    proof (cases "shouldPersistMetric k")
      case True
      then show ?thesis using x u Cons [of "AList.update k v m"] by (simp only: fold_simps) auto
    next
      case False
      then show ?thesis using x Cons [of m] by (simp only: fold_simps) auto
    qed
  qed simp
  from this [of "[]"] show ?thesis unfolding neededMetrics_def by simp
qed

subsection \<open>Restarts\<close>

text \<open>
  What the persistence relies on. The storer keeps what was put under a key until the next put, and
  reading does not change it. \<^verbatim>\<open>encoding/json\<close> writes and reads back maps whose strings are ASCII (it
  replaces the bytes of a string that are not valid UTF-8), and an object it reads has one entry per
  key.
\<close>

definition ascii :: "string \<Rightarrow> bool" where
  "ascii cs = list_all (\<lambda>c. of_char c < (128 :: nat)) cs"

definition ascii_values :: "(string, string) gomap \<Rightarrow> bool" where
  "ascii_values m = list_all (\<lambda>(key, val). ascii val) m"

definition storer_ok :: "'s Storer \<Rightarrow> bool" where
  "storer_ok st \<longleftrightarrow>
     (\<forall>key s. \<exists>r. Get st key s = Some (r, s)) \<and>
     (\<forall>key buff s. \<exists>s'. Put st key buff s = Some (None, s') \<and> Get st key s' = Some (Inr buff, s'))"

definition json_ok :: "'s statusDeps \<Rightarrow> bool" where
  "json_ok d \<longleftrightarrow>
     (\<forall>data. list_all ascii (map fst (pers_IntMetrics data)) \<and>
             list_all ascii (map fst (pers_StringMetrics data)) \<and> ascii_values (pers_StringMetrics data) \<longrightarrow>
        (\<exists>buff data'. Marshal_persistence d data = Inr buff \<and> Unmarshal_persistence d buff = Inr data' \<and>
           map_of (pers_IntMetrics data') = map_of (pers_IntMetrics data) \<and>
           map_of (pers_StringMetrics data') = map_of (pers_StringMetrics data))) \<and>
     (\<forall>buff data. Unmarshal_persistence d buff = Inr data \<longrightarrow>
        distinct (map fst (pers_IntMetrics data)) \<and> distinct (map fst (pers_StringMetrics data)))"

datatype metric_update = SetInt string int | AddInt string int | SetString string string

fun apply_update :: "'s statusDeps \<Rightarrow> metric_update \<Rightarrow> (statusHandler \<times> 's, unit) go" where
  "apply_update d (SetInt metric value) = statusHandler_SetIntMetric d metric value"
| "apply_update d (AddInt metric delta) = statusHandler_AddIntMetric d metric delta"
| "apply_update d (SetString metric val) = statusHandler_SetStringMetric d metric val"

fun apply_updates :: "'s statusDeps \<Rightarrow> metric_update list \<Rightarrow> (statusHandler \<times> 's, unit) go" where
  "apply_updates d [] w = Some ((), w)"
| "apply_updates d (u # us) w = do { (_, w) \<leftarrow> apply_update d u w; apply_updates d us w }"

fun ascii_update :: "metric_update \<Rightarrow> bool" where
  "ascii_update (SetString metric val) = ascii val"
| "ascii_update _ = True"

definition restored :: "statusHandler \<Rightarrow> statusHandler \<Rightarrow> bool" where
  \<comment> \<open>the first has exactly the metrics to persist of the second\<close>
  "restored sh' sh \<longleftrightarrow>
     (\<forall>metric. map_of (intMetrics sh') metric =
         (if metric \<in> set PersistedMetrics then map_of (intMetrics sh) metric else None)) \<and>
     (\<forall>metric. map_of (stringMetrics sh') metric =
         (if metric \<in> set PersistedMetrics then map_of (stringMetrics sh) metric else None))"

text \<open>The invariant: a restart now would give back the metrics to persist.\<close>

definition metrics_saved :: "'s statusDeps \<Rightarrow> statusHandler \<times> 's \<Rightarrow> bool" where
  "metrics_saved d = (\<lambda>(sh, s).
     distinct (map fst (intMetrics sh)) \<and> distinct (map fst (stringMetrics sh)) \<and>
     ascii_values (stringMetrics sh) \<and> handlerName sh \<noteq> [] \<and>
     (\<exists>sh'. NewStatusHandler (Some d) (handlerName sh) s = Some (Inr sh', s) \<and> restored sh' sh))"

lemma ascii_values_update:
  "ascii_values m \<Longrightarrow> ascii val \<Longrightarrow> ascii_values (AList.update key val m)"
  unfolding ascii_values_def by (induction m) auto

lemma ascii_values_needed: "ascii_values m \<Longrightarrow> ascii_values (neededMetrics m)"
  using set_neededMetrics [of m] unfolding ascii_values_def list_all_iff by blast

lemma ascii_PersistedMetrics: "list_all ascii PersistedMetrics"
  by (simp add: PersistedMetrics_def metric_defs ascii_def)

lemma ascii_needed_keys: "list_all ascii (map fst (neededMetrics m))"
proof -
  have "key \<in> set PersistedMetrics" if "key \<in> fst ` set (neededMetrics m)" for key
  proof -
    have "list_all (\<lambda>(key, _). key \<in> set PersistedMetrics) acc \<Longrightarrow>
      list_all (\<lambda>(key, _). key \<in> set PersistedMetrics)
        (fold (\<lambda>(key, val) needed. if \<not> shouldPersistMetric key then needed else AList.update key val needed) m acc)"
      for acc :: "(string, 'a) gomap"
    proof (induction m arbitrary: acc)
      case (Cons x xs)
      obtain k v where x: "x = (k, v)" by (cases x)
      have "list_all (\<lambda>(key, _). key \<in> set PersistedMetrics) (AList.update k v acc)" if "k \<in> set PersistedMetrics"
        using Cons.prems that by (induction acc) auto
      with Cons x show ?case by (simp add: shouldPersistMetric_def is_persisted_iff)
    qed simp
    from this [of "[]"] that show ?thesis
      unfolding neededMetrics_def by (auto simp: list_all_iff)
  qed
  with ascii_PersistedMetrics show ?thesis by (auto simp: list_all_iff)
qed

lemma map_of_copied: "distinct (map fst xs) \<Longrightarrow> map_of (fold (\<lambda>(k, v) m. AList.update k v m) xs []) = map_of xs"
  using map_of_fold_update [of xs "\<lambda>v. v" "[]"] by (intro ext) (simp split: option.split)

lemma distinct_copied: "distinct (map fst (fold (\<lambda>(k, v) m. AList.update k v m) xs []))"
proof -
  have "distinct (map fst m) \<Longrightarrow> distinct (map fst (fold (\<lambda>(k, v) m. AList.update k v m) xs m))" for m :: "('a \<times> 'b) list"
    by (induction xs arbitrary: m) (auto simp: distinct_update)
  then show ?thesis by simp
qed

lemma NewStatusHandler_stored:
  assumes "name \<noteq> []" and "Get (storer d) (bytes_of_string name) s = Some (Inr buff, s)"
    and "Unmarshal_persistence d buff = Inr data" and "json_ok d"
  obtains sh where "NewStatusHandler (Some d) name s = Some (Inr sh, s)"
    and "map_of (intMetrics sh) = map_of (neededMetrics (pers_IntMetrics data))"
    and "map_of (stringMetrics sh) = map_of (neededMetrics (pers_StringMetrics data))"
  using assms that
  by (simp add: NewStatusHandler_def tryLoadPersistedData_def loadFromBuff_def map_of_copied distinct_neededMetrics)

lemma persistChanges_saves:
  assumes "storer_ok (storer d)" and "json_ok d" and "metric \<in> set PersistedMetrics"
    and "distinct (map fst (intMetrics sh))" and "distinct (map fst (stringMetrics sh))"
    and "ascii_values (stringMetrics sh)" and "handlerName sh \<noteq> []"
  shows "\<exists>s'. persistChanges d metric (sh, s) = Some ((), (sh, s')) \<and> metrics_saved d (sh, s')"
proof -
  let ?needed = "\<lparr> pers_IntMetrics = neededMetrics (intMetrics sh), pers_StringMetrics = neededMetrics (stringMetrics sh) \<rparr>"
  have "ascii_values (pers_StringMetrics ?needed)" using assms(6) by (simp add: ascii_values_needed)
  moreover have "list_all ascii (map fst (pers_IntMetrics ?needed))" "list_all ascii (map fst (pers_StringMetrics ?needed))"
    by (simp_all only: statusHandlerPersistenceData.simps ascii_needed_keys)
  ultimately obtain buff data' where m: "Marshal_persistence d ?needed = Inr buff" "Unmarshal_persistence d buff = Inr data'"
    and same: "map_of (pers_IntMetrics data') = map_of (neededMetrics (intMetrics sh))"
      "map_of (pers_StringMetrics data') = map_of (neededMetrics (stringMetrics sh))"
    using assms(2) unfolding json_ok_def by fastforce
  from m(2) assms(2) have dist: "distinct (map fst (pers_IntMetrics data'))" "distinct (map fst (pers_StringMetrics data'))"
    by (auto simp: json_ok_def)
  obtain s' where put: "Put (storer d) (bytes_of_string (handlerName sh)) buff s = Some (None, s')"
    and get: "Get (storer d) (bytes_of_string (handlerName sh)) s' = Some (Inr buff, s')"
    using assms(1) unfolding storer_ok_def by blast
  obtain sh' where "NewStatusHandler (Some d) (handlerName sh) s' = Some (Inr sh', s')"
    and "map_of (intMetrics sh') = map_of (neededMetrics (pers_IntMetrics data'))"
    and "map_of (stringMetrics sh') = map_of (neededMetrics (pers_StringMetrics data'))"
    by (rule NewStatusHandler_stored [OF assms(7) get m(2) assms(2)])
  then have "metrics_saved d (sh, s')"
    using assms(4-7) dist same by (auto simp: metrics_saved_def restored_def map_of_neededMetrics)
  moreover have "persistChanges d metric (sh, s) = Some ((), (sh, s'))"
    using assms(3) m(1) put by (simp add: persistChanges_def shouldPersistMetric_def is_persisted_iff convertToBuff_def)
  ultimately show ?thesis by blast
qed

lemma changed_metric_saved:
  assumes "storer_ok (storer d)" and "json_ok d" and "metrics_saved d (sh, s)"
    and "handlerName sh' = handlerName sh"
    and "distinct (map fst (intMetrics sh'))" and "distinct (map fst (stringMetrics sh'))"
    and "ascii_values (stringMetrics sh')"
    and "\<And>k. k \<noteq> metric \<Longrightarrow> map_of (intMetrics sh') k = map_of (intMetrics sh) k"
    and "\<And>k. k \<noteq> metric \<Longrightarrow> map_of (stringMetrics sh') k = map_of (stringMetrics sh) k"
  shows "\<exists>w. persistChanges d metric (sh', s) = Some ((), w) \<and> fst w = sh' \<and> metrics_saved d w"
proof (cases "metric \<in> set PersistedMetrics")
  case True
  then show ?thesis
    using persistChanges_saves [of d metric sh' s] assms by (auto simp: metrics_saved_def)
next
  case False
  then have "persistChanges d metric (sh', s) = Some ((), (sh', s))"
    by (simp add: persistChanges_def shouldPersistMetric_def is_persisted_iff)
  moreover have "map_of (intMetrics sh') k = map_of (intMetrics sh) k"
      "map_of (stringMetrics sh') k = map_of (stringMetrics sh) k" if "k \<in> set PersistedMetrics" for k
    using False that assms(8,9) by metis+
  then have "metrics_saved d (sh', s)"
    using assms(3-7) by (auto simp: metrics_saved_def restored_def)
  ultimately show ?thesis by auto
qed

lemma apply_update_saved:
  assumes "storer_ok (storer d)" and "json_ok d" and "metrics_saved d (sh, s)" and "ascii_update u"
  shows "\<exists>w. apply_update d u (sh, s) = Some ((), w) \<and> handlerName (fst w) = handlerName sh \<and> metrics_saved d w"
proof (cases u)
  case (SetInt metric v)
  then show ?thesis
    using changed_metric_saved [OF assms(1-3), of "sh\<lparr>intMetrics := AList.update metric v (intMetrics sh)\<rparr>" metric] assms(3)
    by (fastforce simp: statusHandler_SetIntMetric_def metrics_saved_def distinct_update update_conv')
next
  case (AddInt metric v)
  let ?new = "int_add (case map_of (intMetrics sh) metric of None \<Rightarrow> 0 | Some v \<Rightarrow> v) v"
  show ?thesis
    using changed_metric_saved [OF assms(1-3), of "sh\<lparr>intMetrics := AList.update metric ?new (intMetrics sh)\<rparr>" metric] assms(3) AddInt
    by (fastforce simp: statusHandler_AddIntMetric_def metrics_saved_def distinct_update update_conv')
next
  case (SetString metric v)
  then show ?thesis
    using changed_metric_saved [OF assms(1-3), of "sh\<lparr>stringMetrics := AList.update metric v (stringMetrics sh)\<rparr>" metric] assms(3,4)
    by (fastforce simp: statusHandler_SetStringMetric_def metrics_saved_def distinct_update update_conv' ascii_values_update)
qed

lemma apply_updates_saved:
  assumes "storer_ok (storer d)" and "json_ok d" and "metrics_saved d w" and "list_all ascii_update us"
  shows "\<exists>w'. apply_updates d us w = Some ((), w') \<and> handlerName (fst w') = handlerName (fst w) \<and> metrics_saved d w'"
  using assms(3,4)
proof (induction us arbitrary: w)
  case (Cons u us)
  then obtain w' where "apply_update d u w = Some ((), w')" "handlerName (fst w') = handlerName (fst w)" "metrics_saved d w'"
    using apply_update_saved [OF assms(1,2), of "fst w" "snd w" u] by auto
  with Cons.IH [of w'] Cons.prems show ?case by auto
qed simp

lemma NewStatusHandler_saved:
  assumes "storer_ok (storer d)" and "json_ok d"
    and "NewStatusHandler (Some d) name s = Some (Inr sh, s')" and "ascii_values (stringMetrics sh)"
  shows "metrics_saved d (sh, s') \<and> handlerName sh = name"
proof -
  from assms(3) have name: "name \<noteq> []" by (auto simp: NewStatusHandler_def split: if_splits)
  obtain r where get: "Get (storer d) (bytes_of_string name) s = Some (r, s)"
    using assms(1) unfolding storer_ok_def by blast
  have "s' = s \<and> handlerName sh = name \<and> distinct (map fst (intMetrics sh)) \<and> distinct (map fst (stringMetrics sh))
      \<and> (\<forall>k. k \<notin> set PersistedMetrics \<longrightarrow> map_of (intMetrics sh) k = None \<and> map_of (stringMetrics sh) k = None)"
    using assms(2,3) name get
    by (auto simp: NewStatusHandler_def tryLoadPersistedData_def loadFromBuff_def json_ok_def distinct_copied
        map_of_copied distinct_neededMetrics map_of_neededMetrics split: sum.splits)
  with assms(3,4) name show ?thesis by (auto simp: metrics_saved_def restored_def)
qed

text \<open>
  C31: a status handler that is restarted has lost nothing it promises to keep: after any sequence of
  metric updates, which never panic, a handler created anew with the same name over the same storer has
  exactly the persistent metrics with their current values, and no other metric. The storer keeps what is
  put, the JSON library reads back what it wrote, and the strings are ASCII.
\<close>
theorem metrics_survive_a_restart:
  assumes "storer_ok (storer d)" and "json_ok d"
    and "NewStatusHandler (Some d) name s0 = Some (Inr sh0, s1)" and "ascii_values (stringMetrics sh0)"
    and "list_all ascii_update us"
  shows "\<exists>sh s sh'. apply_updates d us (sh0, s1) = Some ((), (sh, s)) \<and>
           NewStatusHandler (Some d) name s = Some (Inr sh', s) \<and> restored sh' sh"
proof -
  from NewStatusHandler_saved [OF assms(1-4)] have "metrics_saved d (sh0, s1)" and name: "handlerName sh0 = name"
    by auto
  from apply_updates_saved [OF assms(1,2) this(1) assms(5)] obtain sh s
    where "apply_updates d us (sh0, s1) = Some ((), (sh, s))" "handlerName sh = name" "metrics_saved d (sh, s)"
    using name by fastforce
  then show ?thesis by (auto simp: metrics_saved_def)
qed

subsection \<open>A concrete store\<close>

text \<open>
  A storer that is a map and an encoding of the two maps as bytes, which satisfy the hypotheses: numbers
  are unary, strings and lists are preceded by their length.
\<close>

definition put_nat :: "nat \<Rightarrow> bytes" where
  "put_nat n = replicate n 1 @ [0]"
definition get_nat :: "bytes \<Rightarrow> nat \<times> bytes" where
  "get_nat bs = (length (takeWhile (\<lambda>b. b = 1) bs), tl (dropWhile (\<lambda>b. b = 1) bs))"
definition put_string :: "string \<Rightarrow> bytes" where
  "put_string cs = put_nat (length cs) @ bytes_of_string cs"
definition get_string :: "bytes \<Rightarrow> string \<times> bytes" where
  "get_string bs = (let (n, rest) = get_nat bs in (string_of_bytes (take n rest), drop n rest))"
definition put_int :: "int \<Rightarrow> bytes" where
  "put_int i = (if i < 0 then put_nat 1 else put_nat 0) @ put_nat (nat \<bar>i\<bar>)"
definition get_int :: "bytes \<Rightarrow> int \<times> bytes" where
  "get_int bs = (let (sign, bs) = get_nat bs; (n, rest) = get_nat bs in (if sign = 1 then - int n else int n, rest))"
definition put_pair :: "('a \<Rightarrow> bytes) \<Rightarrow> ('b \<Rightarrow> bytes) \<Rightarrow> 'a \<times> 'b \<Rightarrow> bytes" where
  "put_pair p q = (\<lambda>(a, b). p a @ q b)"
definition get_pair :: "(bytes \<Rightarrow> 'a \<times> bytes) \<Rightarrow> (bytes \<Rightarrow> 'b \<times> bytes) \<Rightarrow> bytes \<Rightarrow> ('a \<times> 'b) \<times> bytes" where
  "get_pair g h bs = (let (a, bs) = g bs; (b, bs) = h bs in ((a, b), bs))"
definition put_list :: "('a \<Rightarrow> bytes) \<Rightarrow> 'a list \<Rightarrow> bytes" where
  "put_list p xs = put_nat (length xs) @ concat (map p xs)"
primrec get_times :: "(bytes \<Rightarrow> 'a \<times> bytes) \<Rightarrow> nat \<Rightarrow> bytes \<Rightarrow> 'a list \<times> bytes" where
  "get_times g 0 bs = ([], bs)"
| "get_times g (Suc n) bs = (let (x, bs) = g bs; (xs, bs) = get_times g n bs in (x # xs, bs))"
definition get_list :: "(bytes \<Rightarrow> 'a \<times> bytes) \<Rightarrow> bytes \<Rightarrow> 'a list \<times> bytes" where
  "get_list g bs = (let (n, bs) = get_nat bs in get_times g n bs)"

lemma get_put_nat [simp]: "get_nat (put_nat n @ rest) = (n, rest)"
  by (induction n) (simp_all add: get_nat_def put_nat_def)

lemma get_put_string [simp]: "get_string (put_string cs @ rest) = (cs, rest)"
  by (simp add: get_string_def put_string_def bytes_of_string_def [of cs])
    (simp add: string_of_bytes_def comp_def)

lemma get_put_int [simp]: "get_int (put_int i @ rest) = (i, rest)"
  by (auto simp: get_int_def put_int_def)

lemma get_put_pair:
  "(\<And>a rest. g (p a @ rest) = (a, rest)) \<Longrightarrow> (\<And>b rest. h (q b @ rest) = (b, rest)) \<Longrightarrow>
   get_pair g h (put_pair p q x @ rest) = (x, rest)"
  by (cases x) (simp add: get_pair_def put_pair_def)

lemma get_put_list:
  assumes "\<And>x rest. g (p x @ rest) = (x, rest)"
  shows "get_list g (put_list p xs @ rest) = (xs, rest)"
proof -
  have "get_times g (length xs) (concat (map p xs) @ rest) = (xs, rest)"
    by (induction xs) (simp_all add: assms)
  then show ?thesis by (simp add: get_list_def put_list_def)
qed

definition demo_status :: "(bytes \<times> bytes) list statusDeps" where
  "demo_status =
     \<lparr> storer = \<lparr> Put = (\<lambda>key buff s. Some (None, AList.update key buff s)),
                  Get = (\<lambda>key s. Some (case map_of s key of None \<Rightarrow> Inl ErrMissingStatusHandler | Some buff \<Rightarrow> Inr buff, s)) \<rparr>,
       Marshal_persistence = (\<lambda>data. Inr (put_list (put_pair put_string put_int) (pers_IntMetrics data)
                                         @ put_list (put_pair put_string put_string) (pers_StringMetrics data))),
       Unmarshal_persistence = (\<lambda>buff.
         let (ints, buff) = get_list (get_pair get_string get_int) buff;
             (strings, buff) = get_list (get_pair get_string get_string) buff
         in Inr \<lparr> pers_IntMetrics = AList.clearjunk ints, pers_StringMetrics = AList.clearjunk strings \<rparr>) \<rparr>"

lemma demo_storer_ok: "storer_ok (storer demo_status)"
  by (simp add: storer_ok_def demo_status_def update_conv')

lemma demo_json_ok: "json_ok demo_status"
proof -
  have strings: "get_list (get_pair get_string get_string) (put_list (put_pair put_string put_string) ss) = (ss, [])" for ss
    using get_put_list [of "get_pair get_string get_string" "put_pair put_string put_string" ss "[]"]
    by (simp add: get_put_pair)
  show ?thesis
    unfolding json_ok_def demo_status_def
    by (auto simp: get_put_list get_put_pair strings map_of_clearjunk distinct_clearjunk Let_def split: prod.splits)
qed

theorem metrics_survive_a_restart_witness:
  "\<exists>sh s sh'. apply_updates demo_status
       [AddInt MetricNumBatches 5, SetString MetricElrondClientStatus ''Available'', SetString MetricLastError ''timeout'']
       (\<lparr> intMetrics = [], stringMetrics = [], handlerName = ''elrond-client'' \<rparr>, []) = Some ((), (sh, s)) \<and>
     NewStatusHandler (Some demo_status) ''elrond-client'' s = Some (Inr sh', s) \<and> restored sh' sh"
  by (rule metrics_survive_a_restart [OF demo_storer_ok demo_json_ok, where ?s0.0 = "[]"])
    (simp_all add: NewStatusHandler_def tryLoadPersistedData_def demo_status_def ascii_values_def ascii_def)

end
