(* ===== verification/Batch_Validator.thy ===== *)
theory Batch_Validator
  imports Transfer_Batch Core_Types
begin

section \<open>Batch validation (clients/batchValidator/, clients/chain/)\<close>

text \<open>
  Before a batch is processed a web service is asked whether it knows the same batch. The HTTP and JSON
  libraries are parameters. A request that \<^verbatim>\<open>http.NewRequestWithContext\<close> refuses is a nil pointer, which
  the code dereferences before it looks at the error.
\<close>

subsection \<open>Chains (chain.go)\<close>

type_synonym Chain = string

definition Elrond :: Chain where
  "Elrond = ''Elrond''"
definition Ethereum :: Chain where
  "Ethereum = ''Ethereum''"
definition Bsc :: Chain where
  "Bsc = ''Bsc''"

definition lower_char :: "char \<Rightarrow> char" where
  "lower_char c = (let n = of_char c :: nat in if 65 \<le> n \<and> n \<le> 90 then char_of (n + 32) else c)"

definition Chain_ToLower :: "Chain \<Rightarrow> string" where
  \<comment> \<open>\<^verbatim>\<open>strings.ToLower\<close> on ASCII, which the supported names are\<close>
  "Chain_ToLower c = map lower_char c"

definition EvmCompatibleChainToElrondName :: "Chain \<Rightarrow> string" where
  "EvmCompatibleChainToElrondName c = c @ ''ToElrond''"
definition ElrondToEvmCompatibleChainName :: "Chain \<Rightarrow> string" where
  "ElrondToEvmCompatibleChainName c = ''ElrondTo'' @ c"
definition BaseLogId :: "Chain \<Rightarrow> string" where
  "BaseLogId c = c @ ''Elrond-Base''"
definition ElrondClientLogId :: "Chain \<Rightarrow> string" where
  "ElrondClientLogId c = c @ ''Elrond-ElrondClient''"
definition ElrondDataGetterLogId :: "Chain \<Rightarrow> string" where
  "ElrondDataGetterLogId c = c @ ''Elrond-ElrondDataGetter''"
definition EvmCompatibleChainClientLogId :: "Chain \<Rightarrow> string" where
  "EvmCompatibleChainClientLogId c = c @ ''Elrond-'' @ c @ ''Client''"
definition ElrondRoleProviderLogId :: "Chain \<Rightarrow> string" where
  "ElrondRoleProviderLogId c = c @ ''Elrond-ElrondRoleProvider''"
definition EvmCompatibleChainRoleProviderLogId :: "Chain \<Rightarrow> string" where
  "EvmCompatibleChainRoleProviderLogId c = c @ ''Elrond-'' @ c @ ''RoleProvider''"
definition BroadcasterLogId :: "Chain \<Rightarrow> string" where
  "BroadcasterLogId c = c @ ''Elrond-Broadcaster''"

subsection \<open>The validator (batchValidator.go)\<close>

definition validator_minRequestTime :: int where
  "validator_minRequestTime = 1000000"

definition StatusOK :: int where
  "StatusOK = 200"
definition StatusBadRequest :: int where
  "StatusBadRequest = 400"

text \<open>
  \<open>bv_ReadAll\<close> gives what could be read and an error; \<open>bv_NoBody\<close> says whether the body of a response is
  \<^verbatim>\<open>http.NoBody\<close>; the two decoders give the fields the code uses, \<^verbatim>\<open>Valid\<close> and \<^verbatim>\<open>Message\<close>;
  \<open>bv_quoted\<close> is the rendering of \<^verbatim>\<open>%q\<close>.
\<close>

record ('s, 'req, 'resp) validatorHttp =
  bv_NewRequest :: "string \<Rightarrow> bytes \<Rightarrow> 'req res"
  bv_SetHeader :: "string \<Rightarrow> string \<Rightarrow> 'req \<Rightarrow> 'req"
  bv_Do :: "'req \<Rightarrow> ('s, 'resp res) go"
  bv_StatusCode :: "'resp \<Rightarrow> int"
  bv_Status :: "'resp \<Rightarrow> string"
  bv_NoBody :: "'resp \<Rightarrow> bool"
  bv_ReadAll :: "'resp \<Rightarrow> ('s, bytes \<times> gerror option) go"
  Marshal_batch :: "TransferBatch \<Rightarrow> bytes res"
  Unmarshal_microserviceResponse :: "bytes \<Rightarrow> bool res"
  Unmarshal_microserviceBadRequestBody :: "bytes \<Rightarrow> string res"
  bv_quoted :: "string \<Rightarrow> string"

record ArgsBatchValidator =
  SourceChain :: Chain
  DestinationChain :: Chain
  bvarg_RequestURL :: string
  bvarg_RequestTime :: int

record batchValidator =
  bv_requestURL :: string
  bv_requestTime :: int

definition validator_checkArgs :: "('s, 'req, 'resp) validatorHttp \<Rightarrow> ArgsBatchValidator \<Rightarrow> gerror option" where
  "validator_checkArgs lib args =
     (if SourceChain args \<notin> {Ethereum, Bsc, Elrond}
      then Some (Errorf '''' clients_ErrInvalidValue ('': '' @ bv_quoted lib (SourceChain args)))
      else if DestinationChain args \<notin> {Ethereum, Bsc, Elrond}
      then Some (Errorf '''' clients_ErrInvalidValue ('': '' @ bv_quoted lib (DestinationChain args)))
      else if bvarg_RequestTime args < validator_minRequestTime
      then Some (Errorf '''' clients_ErrInvalidValue '' in checkArgs for value RequestTime'')
      else None)"

definition NewBatchValidator :: "('s, 'req, 'resp) validatorHttp \<Rightarrow> ArgsBatchValidator \<Rightarrow> batchValidator res" where
  "NewBatchValidator lib args =
     (case validator_checkArgs lib args of
        Some err \<Rightarrow> Inl err
      | None \<Rightarrow>
          Inr \<lparr> bv_requestURL = bvarg_RequestURL args @ ''/'' @ Chain_ToLower (SourceChain args) @ ''/''
                                @ Chain_ToLower (DestinationChain args),
                bv_requestTime = bvarg_RequestTime args \<rparr>)"

definition bv_doRequestReturningBytes ::
  "('s, 'req, 'resp) validatorHttp \<Rightarrow> batchValidator \<Rightarrow> bytes \<Rightarrow> ('s, bytes res) go" where
  \<comment> \<open>the header is set on the request before the error is looked at\<close>
  "bv_doRequestReturningBytes lib bv body = (\<lambda>s.
     case bv_NewRequest lib (bv_requestURL bv) body of
       Inl err \<Rightarrow> None
     | Inr request \<Rightarrow> do {
         (r, s) \<leftarrow> bv_Do lib (bv_SetHeader lib ''Content-Type'' ''application/json'' request) s;
         case r of
           Inl err \<Rightarrow> Some (Inl err, s)
         | Inr response \<Rightarrow>
             if bv_StatusCode lib response = StatusBadRequest \<and> \<not> bv_NoBody lib response then do {
               ((data, _), s) \<leftarrow> bv_ReadAll lib response s;
               case Unmarshal_microserviceBadRequestBody lib data of
                 Inl err \<Rightarrow> Some (Inl (Errorf '''' err '' during bad response unmarshal''), s)
               | Inr message \<Rightarrow>
                   Some (Inl (ErrNew '''' (''got status '' @ bv_Status lib response @ '': '' @ message)), s) }
             else if bv_StatusCode lib response \<noteq> StatusOK
             then Some (Inl (ErrNew '''' (''got status '' @ bv_Status lib response)), s)
             else do {
               ((data, err), s) \<leftarrow> bv_ReadAll lib response s;
               case err of
                 Some er \<Rightarrow> Some (Inl er, s)
               | None \<Rightarrow> Some (Inr data, s) } })"

definition bv_doRequest ::
  "('s, 'req, 'resp) validatorHttp \<Rightarrow> batchValidator \<Rightarrow> bytes \<Rightarrow> ('s, bytes res) go" where
  "bv_doRequest lib bv body = (\<lambda>s. do {
     (r, s) \<leftarrow> bv_doRequestReturningBytes lib bv body s;
     case r of
       Inl err \<Rightarrow> Some (Inl err, s)
     | Inr responseAsBytes \<Rightarrow> Some (Inr responseAsBytes, s) })"

definition batchValidator_ValidateBatch ::
  "('s, 'req, 'resp) validatorHttp \<Rightarrow> batchValidator \<Rightarrow> TransferBatch \<Rightarrow> ('s, bool res) go" where
  "batchValidator_ValidateBatch lib bv b = (\<lambda>s.
     case Marshal_batch lib b of
       Inl err \<Rightarrow> Some (Inl (Errorf '''' err '' during request marshal''), s)
     | Inr body \<Rightarrow> do {
         (r, s) \<leftarrow> bv_doRequest lib bv body s;
         case r of
           Inl err \<Rightarrow> Some (Inl (Errorf '''' err '' while executing request''), s)
         | Inr responseAsBytes \<Rightarrow>
             if length responseAsBytes = 0 then Some (Inl (ErrNew '''' ''empty response''), s)
             else (case Unmarshal_microserviceResponse lib responseAsBytes of
                     Inl err \<Rightarrow> Some (Inl (Errorf '''' err '' during response unmarshal''), s)
                   | Inr valid \<Rightarrow> Some (Inr valid, s)) })"

definition disabledBatchValidator_ValidateBatch :: "TransferBatch \<Rightarrow> ('s, bool res) go" where
  "disabledBatchValidator_ValidateBatch b = (\<lambda>s. Some (Inr True, s))"

definition CreateBatchValidator ::
  "('s, 'req, 'resp) validatorHttp \<Rightarrow> ArgsBatchValidator \<Rightarrow> bool \<Rightarrow> (TransferBatch \<Rightarrow> ('s, bool res) go) res" where
  "CreateBatchValidator lib args enabled =
     (if enabled
      then (case NewBatchValidator lib args of Inl err \<Rightarrow> Inl err | Inr bv \<Rightarrow> Inr (batchValidator_ValidateBatch lib bv))
      else Inr disabledBatchValidator_ValidateBatch)"

subsection \<open>What a verdict rests on\<close>

text \<open>\<open>service_said lib url b verdict\<close>: the service at \<open>url\<close> was posted the batch and answered the verdict.\<close>

definition service_said ::
  "('s, 'req, 'resp) validatorHttp \<Rightarrow> string \<Rightarrow> TransferBatch \<Rightarrow> bool \<Rightarrow> 's \<Rightarrow> 's \<Rightarrow> bool" where
  "service_said lib url b verdict s s' \<longleftrightarrow>
     (\<exists>body request response answer s1.
        Marshal_batch lib b = Inr body \<and> bv_NewRequest lib url body = Inr request
        \<and> bv_Do lib (bv_SetHeader lib ''Content-Type'' ''application/json'' request) s = Some (Inr response, s1)
        \<and> bv_StatusCode lib response = StatusOK
        \<and> bv_ReadAll lib response s1 = Some ((answer, None), s')
        \<and> answer \<noteq> [] \<and> Unmarshal_microserviceResponse lib answer = Inr verdict)"

lemma ValidateBatch_iff:
  "batchValidator_ValidateBatch lib bv b s = Some (Inr verdict, s') \<longleftrightarrow> service_said lib (bv_requestURL bv) b verdict s s'"
proof
  assume "batchValidator_ValidateBatch lib bv b s = Some (Inr verdict, s')"
  then show "service_said lib (bv_requestURL bv) b verdict s s'"
    by (auto simp: batchValidator_ValidateBatch_def bv_doRequest_def bv_doRequestReturningBytes_def service_said_def
        elim!: go_bindE split: sum.split_asm if_split_asm option.split_asm)
next
  assume "service_said lib (bv_requestURL bv) b verdict s s'"
  then show "batchValidator_ValidateBatch lib bv b s = Some (Inr verdict, s')"
    by (auto simp: batchValidator_ValidateBatch_def bv_doRequest_def bv_doRequestReturningBytes_def service_said_def
        StatusOK_def StatusBadRequest_def)
qed

text \<open>
  A URL from which no request can be made is accepted by the constructor, and the first validation of a
  batch panics instead of giving the error.
\<close>

theorem malformed_validator_url_panics:
  assumes "NewBatchValidator lib args = Inr bv" and "\<And>body. \<exists>err. bv_NewRequest lib (bv_requestURL bv) body = Inl err"
    and "Marshal_batch lib b = Inr body"
  shows "batchValidator_ValidateBatch lib bv b s = None"
proof -
  obtain err where "bv_NewRequest lib (bv_requestURL bv) body = Inl err" using assms(2) by blast
  then show ?thesis
    using assms(3) by (simp add: batchValidator_ValidateBatch_def bv_doRequest_def bv_doRequestReturningBytes_def)
qed

end
