(* ===== verification/Relayer_Factory.thy ===== *)
theory Relayer_Factory
  imports ElrondToEth_Bridge Elrond_Client_Correct Ethereum_Client_Correct Status_Handler Batch_Validator
    Topology Signatures_Holder
begin

section \<open>Putting the half-bridges together (factory/ethElrondBridgeComponents.go)\<close>

text \<open>
  How the factory builds the two half-bridges from the clients, the topology handler, the status
  handlers, the batch validator and the configuration. The state of a half-bridge is the executor, its
  own status handler and the rest of the world \<open>'w\<close>, in which the storer of the metrics, the role
  provider, the clock and the two clients live; a service of the world is lifted by \<open>beside\<close>.
\<close>

definition errNilProxy_factory :: gerror where
  "errNilProxy_factory = ErrNew ''factory.errNilProxy'' ''nil ElrondProxy''"
definition errNilMessenger :: gerror where
  "errNilMessenger = ErrNew ''factory.errNilMessenger'' ''nil network messenger''"
definition errNilEthClient_factory :: gerror where
  "errNilEthClient_factory = ErrNew ''factory.errNilEthClient'' ''nil eth client''"
definition errNilStatusStorer :: gerror where
  "errNilStatusStorer = ErrNew ''factory.errNilStatusStorer'' ''nil status storer''"
definition errNilErc20ContractsHolder :: gerror where
  "errNilErc20ContractsHolder = ErrNew ''factory.errNilErc20ContractsHolder'' ''nil ERC20 contracts holder''"
definition errMissingConfig :: gerror where
  "errMissingConfig = ErrNew ''factory.errMissingConfig'' ''missing config''"
definition errInvalidValue_factory :: gerror where
  "errInvalidValue_factory = ErrNew ''factory.errInvalidValue'' ''invalid value''"
definition errNilMetricsHolder :: gerror where
  "errNilMetricsHolder = ErrNew ''factory.errNilMetricsHolder'' ''nil metrics holder''"
definition errNilStatusHandler_factory :: gerror where
  "errNilStatusHandler_factory = ErrNew ''factory.errNilStatusHandler'' ''nil status handler''"

definition minTimeForBootstrap :: int where
  "minTimeForBootstrap = 100000000"
definition minTimeBeforeRepeatJoin :: int where
  "minTimeBeforeRepeatJoin = 30000000000"

subsection \<open>Configuration (config/config.go)\<close>

text \<open>The fields the half-bridges are configured with. A product of durations wraps at 64 bits.\<close>

record ConfigStateMachine =
  StepDurationInMillis :: uint64
  IntervalForLeaderInSeconds :: uint64

record BatchValidatorConfig =
  bvc_Enabled :: bool
  bvc_URL :: string
  bvc_RequestTimeInSeconds :: int

record bridgeConfig =
  cfg_StateMachine :: "(string, ConfigStateMachine) gomap"
  cfg_BatchValidator :: BatchValidatorConfig
  Eth_IntervalToWaitForTransferInSeconds :: uint64
  Eth_MaxRetriesOnQuorumReached :: uint64
  Elrond_MaxRetriesOnQuorumReached :: uint64
  Elrond_MaxRetriesOnWasTransferProposed :: uint64

definition times :: "int \<Rightarrow> uint64 \<Rightarrow> int" where
  \<comment> \<open>\<^verbatim>\<open>unit * time.Duration(n)\<close>\<close>
  "times unit_ns n = sint (word_of_int unit_ns * n)"

subsection \<open>The components\<close>

record ('w, 'req, 'resp) ethElrondBridgeComponents =
  evmCompatibleChain :: Chain
  fc_elrondClient :: "'w ElrondClient"
  fc_ethClient :: "'w EthereumClient"
  elrondRoleProvider_keys :: "('w, bytes list) go"
  fc_timer :: "('w, int) go"
  elrondRelayerAddress :: bytes
  status_deps :: "'w statusDeps"
  fc_signaturesHolder_Clear :: "('w, unit) go"
  validator_http :: "('w, 'req, 'resp) validatorHttp"
  topology_hasher :: "bytes \<Rightarrow> bytes"
  fc_select :: "int \<Rightarrow> ('w, bool) go"
  fc_level_text :: "LogLevel \<Rightarrow> string"
  fc_marshal_batch :: "TransferBatch \<Rightarrow> string"
  fc_quoted :: "string \<Rightarrow> string"

text \<open>
  \<open>elrondRoleProvider_keys\<close> is \<^verbatim>\<open>SortedPublicKeys\<close> of the role provider, \<open>fc_timer\<close> is \<^verbatim>\<open>NowUnix\<close>,
  \<open>fc_signaturesHolder_Clear\<close> is \<^verbatim>\<open>ClearStoredSignatures\<close> of the holder both half-bridges share.
\<close>

definition beside_elrond :: "'w ElrondClient \<Rightarrow> ('c \<times> 'w) ElrondClient" where
  "beside_elrond c =
     \<lparr> ec_GetPending = beside (ec_GetPending c),
       ec_WasProposedTransfer = (\<lambda>b. beside (ec_WasProposedTransfer c b)),
       ec_QuorumReached = (\<lambda>i. beside (ec_QuorumReached c i)),
       ec_WasExecuted = (\<lambda>i. beside (ec_WasExecuted c i)),
       ec_GetActionIDForProposeTransfer = (\<lambda>b. beside (ec_GetActionIDForProposeTransfer c b)),
       ec_WasProposedSetStatus = (\<lambda>b. beside (ec_WasProposedSetStatus c b)),
       ec_GetActionIDForSetStatusOnPendingTransfer = (\<lambda>b. beside (ec_GetActionIDForSetStatusOnPendingTransfer c b)),
       ec_GetLastExecutedEthBatchID = beside (ec_GetLastExecutedEthBatchID c),
       ec_GetLastExecutedEthTxID = beside (ec_GetLastExecutedEthTxID c),
       ec_ProposeSetStatus = (\<lambda>b. beside (ec_ProposeSetStatus c b)),
       ec_ProposeTransfer = (\<lambda>b. beside (ec_ProposeTransfer c b)),
       ec_Sign = (\<lambda>i. beside (ec_Sign c i)),
       ec_WasSigned = (\<lambda>i. beside (ec_WasSigned c i)),
       ec_PerformAction = (\<lambda>i b. beside (ec_PerformAction c i b)),
       ec_CheckClientAvailability = beside (ec_CheckClientAvailability c) \<rparr>"

definition beside_ethereum :: "'w EthereumClient \<Rightarrow> ('c \<times> 'w) EthereumClient" where
  "beside_ethereum c =
     \<lparr> eth_GetBatch = (\<lambda>n. beside (eth_GetBatch c n)),
       eth_WasExecuted = (\<lambda>n. beside (eth_WasExecuted c n)),
       eth_GenerateMessageHash = (\<lambda>b. beside (eth_GenerateMessageHash c b)),
       eth_BroadcastSignatureForMessageHash = (\<lambda>h. beside (eth_BroadcastSignatureForMessageHash c h)),
       eth_ExecuteTransfer = (\<lambda>h b q. beside (eth_ExecuteTransfer c h b q)),
       eth_GetTransactionsStatuses = (\<lambda>n. beside (eth_GetTransactionsStatuses c n)),
       eth_GetQuorumSize = beside (eth_GetQuorumSize c),
       eth_IsQuorumReached = (\<lambda>h. beside (eth_IsQuorumReached c h)),
       eth_CheckClientAvailability = beside (eth_CheckClientAvailability c) \<rparr>"

definition createBatchValidator ::
  "('w, 'req, 'resp) ethElrondBridgeComponents \<Rightarrow> Chain \<Rightarrow> Chain \<Rightarrow> BatchValidatorConfig
   \<Rightarrow> (TransferBatch \<Rightarrow> ('w, bool res) go) res" where
  "createBatchValidator c sourceChain destinationChain args =
     CreateBatchValidator (validator_http c)
       \<lparr> SourceChain = sourceChain, DestinationChain = destinationChain, bvarg_RequestURL = bvc_URL args,
         bvarg_RequestTime = times 1000000000 (word_of_int (bvc_RequestTimeInSeconds args)) \<rparr>
       (bvc_Enabled args)"

text \<open>What a half-bridge is made of: the executor, the steps and its status handler.\<close>

record 'w half_bridge =
  hb_deps :: "(statusHandler \<times> 'w) bridgeDeps"
  hb_executor :: bridgeExecutor
  hb_machineStates :: "(statusHandler \<times> 'w) exec_state MachineStates"
  hb_stepDuration :: int
  hb_statusHandler :: statusHandler

text \<open>The arguments both directions hand to the topology handler and to the executor.\<close>

definition argsTopologyHandler ::
  "('w, 'req, 'resp) ethElrondBridgeComponents \<Rightarrow> ConfigStateMachine \<Rightarrow> 'w ArgsTopologyHandler" where
  "argsTopologyHandler c configs =
     \<lparr> ta_PublicKeysProvider = Some (elrondRoleProvider_keys c), ta_Timer = Some (fc_timer c),
       ta_IntervalForLeader = times 1000000000 (IntervalForLeaderInSeconds configs),
       ta_AddressBytes = elrondRelayerAddress c, ta_Log = Some (), ta_AddressConverter = Some () \<rparr>"

definition argsBridgeExecutor ::
  "('w, 'req, 'resp) ethElrondBridgeComponents \<Rightarrow> bridgeConfig \<Rightarrow> 'w topologyHandler \<Rightarrow> ('w, unit) go
   \<Rightarrow> (TransferBatch \<Rightarrow> ('w, bool res) go) \<Rightarrow> (statusHandler \<times> 'w) ArgsBridgeExecutor" where
  "argsBridgeExecutor c cfg topologyHandler clearSignatures validator =
     \<lparr> arg_Log = Some (),
       arg_TopologyProvider = Some (beside (topologyHandler_MyTurnAsLeader (topology_hasher c) topologyHandler)),
       arg_ElrondClient = Some (beside_elrond (fc_elrondClient c)),
       arg_EthereumClient = Some (beside_ethereum (fc_ethClient c)),
       arg_TimeForWaitOnEthereum = times 1000000000 (Eth_IntervalToWaitForTransferInSeconds cfg),
       arg_StatusHandler = Some (status_interface (status_deps c)),
       arg_SignaturesHolder = Some (beside clearSignatures),
       arg_BatchValidator = Some (\<lambda>b. beside (validator b)),
       arg_MaxQuorumRetriesOnEthereum = Eth_MaxRetriesOnQuorumReached cfg,
       arg_MaxQuorumRetriesOnElrond = Elrond_MaxRetriesOnQuorumReached cfg,
       arg_MaxRestriesOnWasProposed = Elrond_MaxRetriesOnWasTransferProposed cfg \<rparr>"

definition newBridge ::
  "('w, 'req, 'resp) ethElrondBridgeComponents \<Rightarrow> (statusHandler \<times> 'w) ArgsBridgeExecutor
   \<Rightarrow> ((statusHandler \<times> 'w) bridgeDeps \<times> bridgeExecutor) res" where
  "newBridge c args = NewBridgeExecutor (\<lambda>n. beside (fc_select c n)) (fc_level_text c) (fc_marshal_batch c) args"

definition disabled_clear :: "('w, unit) go" where
  \<comment> \<open>\<^verbatim>\<open>ClearStoredSignatures\<close> of the disabled signatures holder\<close>
  "disabled_clear = (\<lambda>w. Some (disabledSignaturesHolder_ClearStoredSignatures (), w))"

definition createEthereumToElrondBridge ::
  "('w, 'req, 'resp) ethElrondBridgeComponents \<Rightarrow> bridgeConfig \<Rightarrow> (metricsHolder \<times> 'w, 'w half_bridge res) go" where
  "createEthereumToElrondBridge c cfg = (\<lambda>(mh, w).
     let ethToElrondName = EvmCompatibleChainToElrondName (evmCompatibleChain c)
     in case map_of (cfg_StateMachine cfg) ethToElrondName of
          None \<Rightarrow> Some (Inl (Errorf '''' errMissingConfig ('' for '' @ fc_quoted c ethToElrondName)), (mh, w))
        | Some configs \<Rightarrow>
            (case NewTopologyHandler (argsTopologyHandler c configs) of
               Inl err \<Rightarrow> Some (Inl err, (mh, w))
             | Inr topologyHandler \<Rightarrow> do {
                 (r, w) \<leftarrow> NewStatusHandler (Some (status_deps c)) ethToElrondName w;
                 case r of
                   Inl err \<Rightarrow> Some (Inl err, (mh, w))
                 | Inr sh \<Rightarrow>
                     (case AddStatusHandler sh mh of
                        (Some err, mh) \<Rightarrow> Some (Inl err, (mh, w))
                      | (None, mh) \<Rightarrow>
                          (case createBatchValidator c (evmCompatibleChain c) Elrond (cfg_BatchValidator cfg) of
                             Inl err \<Rightarrow> Some (Inl err, (mh, w))
                           | Inr validator \<Rightarrow>
                               (case newBridge c (argsBridgeExecutor c cfg topologyHandler disabled_clear validator) of
                                  Inl err \<Rightarrow> Some (Inl err, (mh, w))
                                | Inr (d, ex) \<Rightarrow>
                                    (case ethToElrond_CreateSteps (Some (bridge d)) of
                                       Inl err \<Rightarrow> Some (Inl err, (mh, w))
                                     | Inr ms \<Rightarrow>
                                         Some (Inr \<lparr> hb_deps = d, hb_executor = ex, hb_machineStates = ms,
                                                     hb_stepDuration = times 1000000 (StepDurationInMillis configs),
                                                     hb_statusHandler = sh \<rparr>, (mh, w)))))) }))"

definition createElrondToEthereumBridge ::
  "('w, 'req, 'resp) ethElrondBridgeComponents \<Rightarrow> bridgeConfig \<Rightarrow> (metricsHolder \<times> 'w, 'w half_bridge res) go" where
  "createElrondToEthereumBridge c cfg = (\<lambda>(mh, w).
     let elrondToEthName = ElrondToEvmCompatibleChainName (evmCompatibleChain c)
     in case map_of (cfg_StateMachine cfg) elrondToEthName of
          None \<Rightarrow> Some (Inl (Errorf '''' errMissingConfig ('' for '' @ fc_quoted c elrondToEthName)), (mh, w))
        | Some configs \<Rightarrow>
            (case NewTopologyHandler (argsTopologyHandler c configs) of
               Inl err \<Rightarrow> Some (Inl err, (mh, w))
             | Inr topologyHandler \<Rightarrow> do {
                 (r, w) \<leftarrow> NewStatusHandler (Some (status_deps c)) elrondToEthName w;
                 case r of
                   Inl err \<Rightarrow> Some (Inl err, (mh, w))
                 | Inr sh \<Rightarrow>
                     (case AddStatusHandler sh mh of
                        (Some err, mh) \<Rightarrow> Some (Inl err, (mh, w))
                      | (None, mh) \<Rightarrow>
                          (case createBatchValidator c Elrond (evmCompatibleChain c) (cfg_BatchValidator cfg) of
                             Inl err \<Rightarrow> Some (Inl err, (mh, w))
                           | Inr validator \<Rightarrow>
                               (case newBridge c (argsBridgeExecutor c cfg topologyHandler (fc_signaturesHolder_Clear c) validator) of
                                  Inl err \<Rightarrow> Some (Inl err, (mh, w))
                                | Inr (d, ex) \<Rightarrow>
                                    (case elrondToEth_CreateSteps (Some (bridge d)) of
                                       Inl err \<Rightarrow> Some (Inl err, (mh, w))
                                     | Inr ms \<Rightarrow>
                                         Some (Inr \<lparr> hb_deps = d, hb_executor = ex, hb_machineStates = ms,
                                                     hb_stepDuration = times 1000000 (StepDurationInMillis configs),
                                                     hb_statusHandler = sh \<rparr>, (mh, w)))))) }))"


subsection \<open>What a half-bridge is built from\<close>

lemma createEthereumToElrondBridge_parts:
  assumes "createEthereumToElrondBridge c cfg (mh, w) = Some (Inr hb, (mh', w'))"
  obtains configs t v where "NewTopologyHandler (argsTopologyHandler c configs) = Inr t"
    and "createBatchValidator c (evmCompatibleChain c) Elrond (cfg_BatchValidator cfg) = Inr v"
    and "newBridge c (argsBridgeExecutor c cfg t disabled_clear v) = Inr (hb_deps hb, hb_executor hb)"
  using assms unfolding createEthereumToElrondBridge_def Let_def
  by (auto elim!: go_bindE split: option.split_asm sum.split_asm prod.split_asm)

lemma createElrondToEthereumBridge_parts:
  assumes "createElrondToEthereumBridge c cfg (mh, w) = Some (Inr hb, (mh', w'))"
  obtains configs t v where "NewTopologyHandler (argsTopologyHandler c configs) = Inr t"
    and "createBatchValidator c Elrond (evmCompatibleChain c) (cfg_BatchValidator cfg) = Inr v"
    and "newBridge c (argsBridgeExecutor c cfg t (fc_signaturesHolder_Clear c) v) = Inr (hb_deps hb, hb_executor hb)"
  using assms unfolding createElrondToEthereumBridge_def Let_def
  by (auto elim!: go_bindE split: option.split_asm sum.split_asm prod.split_asm)

lemma newBridge_deps:
  assumes "newBridge c (argsBridgeExecutor c cfg t clear v) = Inr (d, ex)"
  shows "topologyProvider d = beside (topologyHandler_MyTurnAsLeader (topology_hasher c) t)"
    and "elrondClient d = beside_elrond (fc_elrondClient c)" and "ethereumClient d = beside_ethereum (fc_ethClient c)"
    and "statusHandler d = status_interface (status_deps c)" and "sigsHolder_ClearStoredSignatures d = beside clear"
    and "batchValidator d = (\<lambda>b. beside (v b))" and "select_ctx_or_timer d = (\<lambda>n. beside (fc_select c n))"
  using assms
  by (auto simp: newBridge_def argsBridgeExecutor_def NewBridgeExecutor_def createBridgeExecutor_def split: option.split_asm)

subsection \<open>No panic in the whole relayer\<close>

lemma beside_panic_free: "panic_free m \<Longrightarrow> panic_free (beside m)"
proof -
  assume m: "panic_free m"
  have "beside m (c, s) \<noteq> None" for c s
    using panic_freeD [OF m, of s] by (auto simp: beside_def)
  then show ?thesis unfolding panic_free_def by (metis surj_pair)
qed

lemma beside_answer: "beside m cs = Some (r, cs') \<Longrightarrow> \<exists>s s'. m s = Some (r, s')"
  by (cases cs) (auto simp: beside_def elim!: go_bindE)

lemma beside_elrond_ok:
  assumes "elrond_client_ok c"
  shows "elrond_client_ok (beside_elrond c)"
proof -
  have "amounts_set b \<and> (\<exists>pb. b = Some pb \<and> length (Statuses pb) < 2 ^ 63)"
    if "beside (ec_GetPending c) cs = Some (Inr b, cs')" for cs b cs'
  proof -
    from beside_answer [OF that] obtain s s' where "ec_GetPending c s = Some (Inr b, s')" by blast
    with assms show ?thesis
      unfolding elrond_client_ok_def by (elim conjE) (drule spec, drule spec, drule spec, erule (1) mp)
  qed
  with assms show ?thesis
    unfolding elrond_client_ok_def beside_elrond_def
    by (simp only: ElrondClient.select_convs beside_panic_free simp_thms) blast
qed

lemma beside_ethereum_ok:
  assumes "ethereum_client_ok c"
  shows "ethereum_client_ok (beside_ethereum c)"
proof -
  have "0 \<le> big_Int64 q" if "beside (eth_GetQuorumSize c) cs = Some (Inr q, cs')" for cs q cs'
    using beside_answer [OF that] assms unfolding ethereum_client_ok_def by blast
  with assms show ?thesis
    unfolding ethereum_client_ok_def beside_ethereum_def
    by (simp only: EthereumClient.select_convs beside_panic_free simp_thms) (blast intro: beside_panic_free)
qed

text \<open>
  What the rest of the world promises: the storer, the role provider, the clock, the signatures holder
  and the wait do not panic, the list of relayers fits an \<^verbatim>\<open>int\<close>, the hash has at least eight bytes; and
  if the validator is enabled, a request can be made from the configured URL and the HTTP client does not
  panic.
\<close>

definition surroundings_ok :: "('w, 'req, 'resp) ethElrondBridgeComponents \<Rightarrow> bridgeConfig \<Rightarrow> bool" where
  "surroundings_ok c cfg \<longleftrightarrow>
     (\<forall>key buff. panic_free (Put (storer (status_deps c)) key buff))
     \<and> panic_free (elrondRoleProvider_keys c) \<and> panic_free (fc_timer c)
     \<and> (\<forall>w keys w'. elrondRoleProvider_keys c w = Some (keys, w') \<longrightarrow> length keys < 2 ^ 63)
     \<and> (\<forall>b. 8 \<le> length (topology_hasher c b))
     \<and> panic_free (fc_signaturesHolder_Clear c) \<and> (\<forall>n. panic_free (fc_select c n))
     \<and> (\<forall>request. panic_free (bv_Do (validator_http c) request))
     \<and> (\<forall>response. panic_free (bv_ReadAll (validator_http c) response))
     \<and> (bvc_Enabled (cfg_BatchValidator cfg) \<longrightarrow>
          (\<forall>path body. \<exists>request. bv_NewRequest (validator_http c) (bvc_URL (cfg_BatchValidator cfg) @ path) body = Inr request))"

lemma metric_updates_total:
  assumes "\<And>key buff. panic_free (Put (storer d) key buff)"
  shows "panic_free (SetIntMetric (status_interface d) metric i)"
    and "panic_free (SetStringMetric (status_interface d) metric text)"
proof -
  have "persistChanges d metric (sh, s) \<noteq> None" for sh s
  proof (cases "convertToBuff d \<lparr> pers_IntMetrics = intMetrics sh, pers_StringMetrics = stringMetrics sh \<rparr>")
    case (Inr p)
    obtain x s' where "Put (storer d) (bytes_of_string (handlerName sh)) (fst p) s = Some (x, s')"
      using panic_freeD [OF assms] by blast
    with Inr show ?thesis by (cases p) (simp add: persistChanges_def Let_def)
  qed (simp add: persistChanges_def Let_def)
  then show "panic_free (SetIntMetric (status_interface d) metric i)"
    and "panic_free (SetStringMetric (status_interface d) metric text)"
    by (auto simp: panic_free_def status_interface_def statusHandler_SetIntMetric_def statusHandler_SetStringMetric_def)
qed

lemma MyTurnAsLeader_total:
  assumes "NewTopologyHandler args = Inr t" and "ta_PublicKeysProvider args = Some keys" and "ta_Timer args = Some clock"
    and "panic_free keys" and "panic_free clock" and "\<And>b. 8 \<le> length (hasher b)"
    and "\<And>w ks w'. keys w = Some (ks, w') \<Longrightarrow> length ks < 2 ^ 63"
  shows "panic_free (topologyHandler_MyTurnAsLeader hasher t)"
  unfolding panic_free_def
proof (intro allI)
  fix w
  from assms(1-3) have t: "publicKeysProvider t = keys" "timer t = clock"
    by (auto simp: NewTopologyHandler_def split: option.split_asm)
  obtain ks w1 where keys: "keys w = Some (ks, w1)" using panic_freeD [OF assms(4)] by blast
  obtain now w2 where clock: "clock w1 = Some (now, w2)" using panic_freeD [OF assms(5)] by blast
  show "topologyHandler_MyTurnAsLeader hasher t w \<noteq> None"
  proof (cases "ks = []")
    case True
    then show ?thesis using keys t by (simp add: topologyHandler_MyTurnAsLeader_def)
  next
    case False
    note len = length_as_word [OF False assms(7) [OF keys]]
    obtain i where "randomInt hasher (word_of_int (now sdiv int64_Seconds (intervalForLeader t))) (of_nat (length ks)) = Some i"
      and "i < of_nat (length ks)"
      by (rule randomInt_bound [OF assms(6) len(1)])
    with len(2) have "unat i < length ks" by (simp add: word_less_nat_alt)
    then show ?thesis
      using NewTopologyHandler_interval [OF assms(1)] keys clock t False
        \<open>randomInt hasher _ _ = Some i\<close>
      by (simp add: topologyHandler_MyTurnAsLeader_def Let_def)
  qed
qed

lemma ValidateBatch_total:
  assumes "createBatchValidator c src dst (cfg_BatchValidator cfg) = Inr v" and "surroundings_ok c cfg"
  shows "panic_free (v b)"
proof (cases "bvc_Enabled (cfg_BatchValidator cfg)")
  case False
  with assms(1) show ?thesis
    by (simp add: createBatchValidator_def CreateBatchValidator_def disabledBatchValidator_ValidateBatch_def panic_free_def)
next
  case True
  with assms(1) obtain bv path where v: "v = batchValidator_ValidateBatch (validator_http c) bv"
    and url: "bv_requestURL bv = bvc_URL (cfg_BatchValidator cfg) @ path"
    by (auto simp: createBatchValidator_def CreateBatchValidator_def NewBatchValidator_def
        split: sum.split_asm option.split_asm)
  have "\<exists>request. bv_NewRequest (validator_http c) (bv_requestURL bv) body = Inr request" for body
    using assms(2) True unfolding surroundings_ok_def url by (elim conjE) (drule (1) mp, elim allE)
  then have url: "bv_NewRequest (validator_http c) (bv_requestURL bv) body \<noteq> Inl err" for body err
    by (metis sum.distinct(1))
  have "True \<longrightarrow> panic_free (bv_Do (validator_http c) r)" "True \<longrightarrow> panic_free (bv_ReadAll (validator_http c) r')" for r r'
    using assms(2) by (auto simp: surroundings_ok_def)
  note services = this [THEN service_run]
  have "runs True (batchValidator_ValidateBatch (validator_http c) bv b s) (\<lambda>_ _. True)" for s
    unfolding batchValidator_ValidateBatch_def bv_doRequest_def bv_doRequestReturningBytes_def
    by (intro go_rules services runs_case_prod runs_case_prod_app TrueI) (use url in auto)
  then show ?thesis using v panic_free_runs by blast
qed

lemma half_bridge_services:
  assumes "elrond_client_ok (fc_elrondClient c)" and "ethereum_client_ok (fc_ethClient c)" and "surroundings_ok c cfg"
    and "NewTopologyHandler (argsTopologyHandler c configs) = Inr t"
    and "createBatchValidator c src dst (cfg_BatchValidator cfg) = Inr v"
    and "newBridge c (argsBridgeExecutor c cfg t clear v) = Inr (d, ex)" and "panic_free clear"
  shows "services_ok d"
proof -
  note d = newBridge_deps [OF assms(6)]
  have keys: "length ks < 2 ^ 63" if "elrondRoleProvider_keys c w = Some (ks, w')" for w ks w'
    using assms(3) that unfolding surroundings_ok_def by blast
  have "panic_free (topologyHandler_MyTurnAsLeader (topology_hasher c) t)"
    by (rule MyTurnAsLeader_total [OF assms(4), of "elrondRoleProvider_keys c" "fc_timer c"])
      (use assms(3) keys in \<open>simp_all add: argsTopologyHandler_def surroundings_ok_def\<close>)
  moreover have "\<And>key buff. panic_free (Put (storer (status_deps c)) key buff)" "\<And>n. panic_free (fc_select c n)"
    using assms(3) by (auto simp: surroundings_ok_def)
  ultimately show ?thesis
    unfolding services_ok_def d
    by (intro conjI allI beside_elrond_ok beside_ethereum_ok assms beside_panic_free metric_updates_total
        ValidateBatch_total [OF assms(5,3)])
qed

lemma disabled_clear_total: "panic_free disabled_clear"
  by (simp add: panic_free_def disabled_clear_def)

subsection \<open>Properties of the whole relayer\<close>

text \<open>
  C9: the relayer as the factory puts it together never gets stuck: with the modelled clients of the two
  chains, the topology handler, the persistent status handlers and the batch validator, in every state
  that either state machine can reach, \<^verbatim>\<open>Execute\<close> returns without a panic and without an error, under these conditions
  on what is outside: no call of the nodes, the storer, the role provider, the clock, the signatures holder, the mappers, the broadcaster, the
  gas station or the HTTP client panics; the Elrond proxy answers a query and the question for the network
  configuration with an error or an object, never with nil, and with fewer than \<open>2 ^ 63\<close> values; the quorum the Ethereum contract
  reports is at least zero and below \<open>2 ^ 63\<close>, as is the number of relayers; the hash has at least eight bytes; and if the
  validator is enabled, a request can be made from its configured URL (from a URL that cannot be parsed the code panics).
\<close>

theorem relayer_never_stuck:
  assumes clients: "fc_elrondClient c = elrond_interface del" "fc_ethClient c = beside_ethereum (ethereum_interface deth)"
    and worlds: "elrond_world_ok del" "ethereum_world_ok deth" "surroundings_ok c cfg"
    and machine: "createEthereumToElrondBridge c cfg (mh, w) = Some (Inr hb, (mh', w'))
        \<and> createEthereumToElrondStateMachine name (hb_deps hb) = Inr sm0
      \<or> createElrondToEthereumBridge c cfg (mh, w) = Some (Inr hb, (mh', w'))
        \<and> createElrondToEthereumStateMachine name (hb_deps hb) = Inr sm0"
    and run: "machine_reachable world_moves sm0 (hb_executor hb, (hb_statusHandler hb, w1)) sm e"
  shows "\<exists>sm' e'. stateMachine_Execute sm e = Some ((None, sm'), e')"
proof -
  have ok: "elrond_client_ok (fc_elrondClient c)" "ethereum_client_ok (fc_ethClient c)"
    unfolding clients by (intro elrond_client_ok_of_world worlds beside_ethereum_ok ethereum_client_ok_of_world)+
  from machine show ?thesis
  proof (elim disjE conjE)
    assume "createEthereumToElrondBridge c cfg (mh, w) = Some (Inr hb, (mh', w'))"
      and sm: "createEthereumToElrondStateMachine name (hb_deps hb) = Inr sm0"
    then show ?thesis
      using half_bridge_services [OF ok worlds(3) _ _ _ disabled_clear_total] run
      by (elim createEthereumToElrondBridge_parts) (metis ethToElrond_run_next newBridge_def)
  next
    assume "createElrondToEthereumBridge c cfg (mh, w) = Some (Inr hb, (mh', w'))"
      and sm: "createElrondToEthereumStateMachine name (hb_deps hb) = Inr sm0"
    moreover have "panic_free (fc_signaturesHolder_Clear c)" using worlds(3) by (simp add: surroundings_ok_def)
    ultimately show ?thesis
      using half_bridge_services [OF ok worlds(3)] run
      by (elim createElrondToEthereumBridge_parts) (metis elrondToEth_run_next newBridge_def)
  qed
qed

lemma validator_service:
  assumes "createBatchValidator c src dst (cfg_BatchValidator cfg) = Inr v" and "bvc_Enabled (cfg_BatchValidator cfg)"
    and "newBridge c (argsBridgeExecutor c cfg t clear v) = Inr (d, ex)"
    and "batchValidator d b s = Some (Inr verdict, s')"
  shows "\<exists>w w'. service_said (validator_http c)
           (bvc_URL (cfg_BatchValidator cfg) @ ''/'' @ Chain_ToLower src @ ''/'' @ Chain_ToLower dst) b verdict w w'"
proof -
  from assms(1,2) obtain bv where v: "v = batchValidator_ValidateBatch (validator_http c) bv"
    and url: "bv_requestURL bv = bvc_URL (cfg_BatchValidator cfg) @ ''/'' @ Chain_ToLower src @ ''/'' @ Chain_ToLower dst"
    by (auto simp: createBatchValidator_def CreateBatchValidator_def NewBatchValidator_def
        split: sum.split_asm option.split_asm)
  from assms(4) have "beside (v b) s = Some (Inr verdict, s')"
    by (simp only: newBridge_deps(6) [OF assms(3)])
  from beside_answer [OF this] obtain w w' where "v b w = Some (Inr verdict, w')" by (elim exE)
  then have "service_said (validator_http c) (bv_requestURL bv) b verdict w w'"
    unfolding v by (rule ValidateBatch_iff [THEN iffD1])
  then show ?thesis unfolding url by (intro exI)
qed

text \<open>
  C10: no batch is processed that the validation service did not confirm: when the validator is enabled,
  the batch that the relayer proposes, signs or performs on Elrond, or signs and transfers on Ethereum,
  was posted to the service at the URL of its direction, and the service answered with status 200 and a
  body that says the batch is valid.
\<close>

theorem processed_batch_was_validated:
  assumes "bvc_Enabled (cfg_BatchValidator cfg)"
    and machine: "createEthereumToElrondBridge c cfg (mh, w) = Some (Inr hb, (mh', w'))
        \<and> createEthereumToElrondStateMachine name (hb_deps hb) = Inr sm0
        \<and> step_Identifier st \<noteq> GettingPendingBatchFromEthereum
        \<and> url = bvc_URL (cfg_BatchValidator cfg) @ ''/'' @ Chain_ToLower (evmCompatibleChain c) @ ''/'' @ Chain_ToLower Elrond
      \<or> createElrondToEthereumBridge c cfg (mh, w) = Some (Inr hb, (mh', w'))
        \<and> createElrondToEthereumStateMachine name (hb_deps hb) = Inr sm0
        \<and> step_Identifier st \<in> {SigningProposedTransferOnEthereum, WaitingForQuorumOnTransfer, PerformingTransfer}
        \<and> url = bvc_URL (cfg_BatchValidator cfg) @ ''/'' @ Chain_ToLower Elrond @ ''/'' @ Chain_ToLower (evmCompatibleChain c)"
    and run: "machine_reachable world_moves sm0 (hb_executor hb, s0) sm e" and "currentStep sm = Some st"
  shows "\<exists>b s s'. batch (fst e) = Some b \<and> service_said (validator_http c) url b True s s'"
  using machine
proof (elim disjE conjE)
  assume "createEthereumToElrondBridge c cfg (mh, w) = Some (Inr hb, (mh', w'))"
    and sm: "createEthereumToElrondStateMachine name (hb_deps hb) = Inr sm0" and st: "step_Identifier st \<noteq> GettingPendingBatchFromEthereum"
    and url: "url = bvc_URL (cfg_BatchValidator cfg) @ ''/'' @ Chain_ToLower (evmCompatibleChain c) @ ''/'' @ Chain_ToLower Elrond"
  then obtain t v where v: "createBatchValidator c (evmCompatibleChain c) Elrond (cfg_BatchValidator cfg) = Inr v"
    and new: "newBridge c (argsBridgeExecutor c cfg t disabled_clear v) = Inr (hb_deps hb, hb_executor hb)"
    by (elim createEthereumToElrondBridge_parts)
  from ethToElrond_run(1) [OF new [unfolded newBridge_def] sm run] assms(4) st
  obtain b where b: "batch (fst e) = Some b" and "eth_batch_accepted (hb_deps hb) b"
    by (auto simp: ethToElrond_inv_def)
  then obtain s s' where "batchValidator (hb_deps hb) b s = Some (Inr True, s')"
    unfolding eth_batch_accepted_def by blast
  from validator_service [OF v assms(1) new this] b url show ?thesis by blast
next
  assume "createElrondToEthereumBridge c cfg (mh, w) = Some (Inr hb, (mh', w'))"
    and sm: "createElrondToEthereumStateMachine name (hb_deps hb) = Inr sm0"
    and st: "step_Identifier st \<in> {SigningProposedTransferOnEthereum, WaitingForQuorumOnTransfer, PerformingTransfer}"
    and url: "url = bvc_URL (cfg_BatchValidator cfg) @ ''/'' @ Chain_ToLower Elrond @ ''/'' @ Chain_ToLower (evmCompatibleChain c)"
  then obtain t v where v: "createBatchValidator c Elrond (evmCompatibleChain c) (cfg_BatchValidator cfg) = Inr v"
    and new: "newBridge c (argsBridgeExecutor c cfg t (fc_signaturesHolder_Clear c) v) = Inr (hb_deps hb, hb_executor hb)"
    by (elim createElrondToEthereumBridge_parts)
  from elrondToEth_run(1) [OF new [unfolded newBridge_def] sm run] assms(4) st
  obtain b where b: "batch (fst e) = Some b" and "elrond_batch_accepted (hb_deps hb) b"
    by (auto simp: elrondToEth_inv_simps)
  then obtain s s' where "batchValidator (hb_deps hb) b s = Some (Inr True, s')"
    unfolding elrond_batch_accepted_def by blast
  from validator_service [OF v assms(1) new this] b url show ?thesis by blast
qed

subsection \<open>A concrete relayer\<close>

text \<open>Nodes that answer at once and change nothing, a relayer that is alone, a service that finds every batch valid.\<close>

definition quiet_status :: "'s StatusHandler" where
  "quiet_status = \<lparr> SetIntMetric = (\<lambda>_ _ s. Some ((), s)), AddIntMetric = (\<lambda>_ _ s. Some ((), s)),
                    SetStringMetric = (\<lambda>_ _ s. Some ((), s)) \<rparr>"

definition quiet_proxy :: "'s ElrondProxy" where
  "quiet_proxy =
     \<lparr> ExecuteVMQuery = (\<lambda>req s. Some (Inr (Some \<lparr> ReturnData = [], ReturnCode = ''ok'', ReturnMessage = '''' \<rparr>), s)),
       GetNetworkStatus = (\<lambda>_ s. Some (Inr (Some 1), s)),
       GetShardOfAddress = (\<lambda>_ s. Some ((0, None), s)),
       GetNetworkConfig = (\<lambda>s. Some (Inr (Some \<lparr> ChainID = ''T'', MinTransactionVersion = 1, MinGasPrice = 1 \<rparr>), s)) \<rparr>"

definition quiet_elrond :: "('s, nat) elrondClientDeps" where
  "quiet_elrond =
     \<lparr> multisigContractAddress = 3, relayerAddress = 7, proxy = quiet_proxy,
       AddressAsBech32String = (\<lambda>_. ''erd1''), ToVmValueRequest = demo_query,
       txHandler =
         \<lparr> th_proxy = quiet_proxy, th_relayerAddress = 7, multisigAddressAsBech32 = ''erd1sc'',
           GetNonce = (\<lambda>_ s. Some (Inr 4, s)), SendTransaction = (\<lambda>_ s. Some (Inr ''hash'', s)),
           nonceTxHandler_Close = (\<lambda>s. Some (None, s)), singleSigner_Sign = (\<lambda>b. Inr [1, 2]),
           IsWhitelisted = (\<lambda>_ s. Some (True, s)), th_AddressAsBech32String = (\<lambda>_. ''erd1relayer''),
           ToDataBytes = (\<lambda>_. Inr [9]), Marshal_Transaction = (\<lambda>_. Inr [8]) \<rparr>,
       tokensMapper = (\<lambda>token s. Some (Inr token, s)),
       gasMapConfig = \<lparr> gas_Sign = 1, gas_ProposeTransferBase = 1, gas_ProposeTransferForEach = 1,
         gas_ProposeStatusBase = 1, gas_ProposeStatusForEach = 1, gas_PerformActionBase = 1, gas_PerformActionForEach = 1 \<rparr>,
       ToBech32String = (\<lambda>_. ''erd1from''), elrond_statusHandler = quiet_status, elrond_allowDelta = 10 \<rparr>"

lemma quiet_elrond_ok: "elrond_world_ok quiet_elrond"
  by (simp add: elrond_world_ok_def panic_free_def quiet_elrond_def quiet_proxy_def quiet_status_def)

definition quiet_eth :: "(nat, bytes, string) ethereumClientDeps" where
  "quiet_eth = demo_eth\<lparr>clientWrapper := demo_eth_wrapper\<lparr>wrapper_multiSigContract :=
     (wrapper_multiSigContract demo_eth_wrapper)
       \<lparr>msc_GetBatch := (\<lambda>n s. Some (Inr \<lparr> Batch_Nonce = n, BlockNumber = 1, LastUpdatedBlockNumber = 1, DepositsCount = 1 \<rparr>, s)),
        msc_GetBatchDeposits := (\<lambda>_ s. Some (Inr [\<lparr> Deposit_Nonce = 1, TokenAddress = [65], Deposit_Amount = 20,
              Depositor = [1], Recipient = [2], Deposit_Status = 0 \<rparr>], s))\<rparr>\<rparr>\<rparr>"

lemma quiet_eth_ok: "ethereum_world_ok quiet_eth"
  by (simp add: ethereum_world_ok_def panic_free_def quiet_eth_def demo_eth_defs)

definition quiet_relayer ::
  "(elrond_client \<times> ethereum_client \<times> nat, bytes, bytes) ethElrondBridgeComponents" where
  "quiet_relayer =
     \<lparr> evmCompatibleChain = Ethereum, fc_elrondClient = elrond_interface (quiet_elrond :: (_, nat) elrondClientDeps),
       fc_ethClient = beside_ethereum (ethereum_interface quiet_eth),
       elrondRoleProvider_keys = (\<lambda>w. Some ([[7]], w)), fc_timer = (\<lambda>w. Some (1000, w)), elrondRelayerAddress = [7],
       status_deps = \<lparr> storer = \<lparr> Put = (\<lambda>_ _ w. Some (None, w)), Get = (\<lambda>_ w. Some (Inl ErrMissingStatusHandler, w)) \<rparr>,
                       Marshal_persistence = (\<lambda>_. Inr []), Unmarshal_persistence = (\<lambda>_. Inl ErrMissingStatusHandler) \<rparr>,
       fc_signaturesHolder_Clear = (\<lambda>w. Some ((), w)),
       validator_http = \<lparr> bv_NewRequest = (\<lambda>url body. Inr body), bv_SetHeader = (\<lambda>_ _ request. request),
         bv_Do = (\<lambda>request w. Some (Inr request, w)), bv_StatusCode = (\<lambda>_. 200), bv_Status = (\<lambda>_. ''200 OK''),
         bv_NoBody = (\<lambda>_. False), bv_ReadAll = (\<lambda>_ w. Some (([1], None), w)), Marshal_batch = (\<lambda>_. Inr [2]),
         Unmarshal_microserviceResponse = (\<lambda>_. Inr True), Unmarshal_microserviceBadRequestBody = (\<lambda>_. Inr ''bad''),
         bv_quoted = (\<lambda>text. text) \<rparr>,
       topology_hasher = (\<lambda>b. replicate 32 0), fc_select = (\<lambda>_ w. Some (True, w)), fc_level_text = (\<lambda>_. ''LEVEL''),
       fc_marshal_batch = (\<lambda>_. ''batch''), fc_quoted = (\<lambda>text. text) \<rparr>"

definition quiet_config :: bridgeConfig where
  "quiet_config =
     \<lparr> cfg_StateMachine =
         [(''EthereumToElrond'', \<lparr> StepDurationInMillis = 12000, IntervalForLeaderInSeconds = 120 \<rparr>),
          (''ElrondToEthereum'', \<lparr> StepDurationInMillis = 12000, IntervalForLeaderInSeconds = 720 \<rparr>)],
       cfg_BatchValidator = \<lparr> bvc_Enabled = True, bvc_URL = ''https://validator'', bvc_RequestTimeInSeconds = 2 \<rparr>,
       Eth_IntervalToWaitForTransferInSeconds = 600, Eth_MaxRetriesOnQuorumReached = 3,
       Elrond_MaxRetriesOnQuorumReached = 3, Elrond_MaxRetriesOnWasTransferProposed = 3 \<rparr>"

lemma quiet_surroundings: "surroundings_ok quiet_relayer quiet_config"
  by (simp add: surroundings_ok_def panic_free_def quiet_relayer_def)

lemma quiet_bridge: "\<exists>hb mh. createEthereumToElrondBridge quiet_relayer quiet_config ([], w) = Some (Inr hb, (mh, w))"
  by (simp add: createEthereumToElrondBridge_def quiet_relayer_def quiet_config_def EvmCompatibleChainToElrondName_def
      Ethereum_def Elrond_def Bsc_def argsTopologyHandler_def NewTopologyHandler_def topology_checkArgs_def times_def int64_Seconds_def
      NewStatusHandler_def tryLoadPersistedData_def AddStatusHandler_def statusHandler_Name_def createBatchValidator_def
      CreateBatchValidator_def NewBatchValidator_def validator_checkArgs_def validator_minRequestTime_def newBridge_def
      argsBridgeExecutor_def NewBridgeExecutor_def bridgeExecutor_checkArgs_def durationLimit_def minRetries_def
      createBridgeExecutor_def ethToElrond_CreateSteps_eq Let_def)

lemma StateMachine_exists: "\<exists>sm0. createEthereumToElrondStateMachine name d = Inr sm0"
  by (simp add: createEthereumToElrondStateMachine_eq NewStateMachine_def stateMachine_checkArgs_def
      getNextStep_def ethToElrond_steps_def ethToElrond_stepsSlice_def)

abbreviation quiet_world :: "elrond_client \<times> ethereum_client \<times> nat" where
  "quiet_world \<equiv> (\<lparr> wasShardIDFetched = False, shardID = 0, lastNonce = 0, retriesAvailabilityCheck = 0 \<rparr>,
                   \<lparr> lastBlockNumber = 0, eth_retriesAvailabilityCheck = 0 \<rparr>, 0)"

theorem relayer_never_stuck_witness:
  "\<exists>hb mh sm0 sm' e'. createEthereumToElrondBridge quiet_relayer quiet_config ([], quiet_world) = Some (Inr hb, (mh, quiet_world))
   \<and> createEthereumToElrondStateMachine ''EthereumToElrond'' (hb_deps hb) = Inr sm0
   \<and> stateMachine_Execute sm0 (hb_executor hb, hb_statusHandler hb, quiet_world) = Some ((None, sm'), e')"
proof -
  obtain hb mh where hb: "createEthereumToElrondBridge quiet_relayer quiet_config ([], quiet_world) = Some (Inr hb, (mh, quiet_world))"
    using quiet_bridge [of quiet_world] by blast
  obtain sm0 where sm0: "createEthereumToElrondStateMachine ''EthereumToElrond'' (hb_deps hb) = Inr sm0"
    using StateMachine_exists by blast
  have clients: "fc_elrondClient quiet_relayer = elrond_interface quiet_elrond"
    "fc_ethClient quiet_relayer = beside_ethereum (ethereum_interface quiet_eth)"
    by (simp_all add: quiet_relayer_def)
  from relayer_never_stuck [OF clients quiet_elrond_ok quiet_eth_ok quiet_surroundings, OF disjI1, OF conjI, OF hb sm0
      machine_reachable.start]
  obtain sm' e' where "stateMachine_Execute sm0 (hb_executor hb, hb_statusHandler hb, quiet_world) = Some ((None, sm'), e')"
    by blast
  with hb sm0 show ?thesis by blast
qed

lemma quiet_elrond_answers:
  fixes w :: "'h \<times> elrond_client \<times> ethereum_client \<times> nat"
  shows "ec_GetLastExecutedEthBatchID (beside_elrond (elrond_interface quiet_elrond)) w = Some (Inr 0, w)"
    and "ec_GetLastExecutedEthTxID (beside_elrond (elrond_interface quiet_elrond)) w = Some (Inr 0, w)"
  by (cases w; simp add: beside_elrond_def elrond_interface_def beside_def GetLastExecutedEthBatchID_def
      GetLastExecutedEthTxID_def quiet_elrond_def quiet_proxy_def executeQueryUint64FromBuilder_def
      ExecuteQueryReturningUint64_def ExecuteQueryReturningBytes_def demo_query_def okCodeAfterExecution_def)+

lemma quiet_eth_answers:
  "\<exists>b. eth_GetBatch (beside_ethereum (beside_ethereum (ethereum_interface quiet_eth))) n w = Some (Inr b, w)
     \<and> ID b = n \<and> map Nonce (Deposits b) = [1]"
  by (cases w) (simp add: beside_ethereum_def ethereum_interface_def beside_def ethc_GetBatch_def wrapper_GetBatch_def
      wrapper_GetBatchDeposits_def convert_cached_def quiet_eth_def demo_eth_defs big_Uint64_def Let_def)

lemma quiet_validator_answers:
  "createBatchValidator quiet_relayer src dst (cfg_BatchValidator quiet_config) = Inr v \<Longrightarrow> beside (v b) w = Some (Inr True, w)"
  by (cases w) (auto simp: createBatchValidator_def CreateBatchValidator_def quiet_relayer_def quiet_config_def beside_def
      batchValidator_ValidateBatch_def bv_doRequest_def bv_doRequestReturningBytes_def StatusOK_def StatusBadRequest_def
      split: sum.split_asm)

lemma quiet_getPending:
  assumes "services_ok d" and "elrondClient d = beside_elrond (elrond_interface quiet_elrond)"
    and "ethereumClient d = beside_ethereum (beside_ethereum (ethereum_interface quiet_eth))"
    and "\<And>b w. batchValidator d b w = Some (Inr True, w)"
  shows "runs (services_ok d) (ethToElrond_getPendingStep_Execute (bridge d) (ex, w)) (\<lambda>r _. r = ProposingTransferOnElrond)"
proof -
  note ask = assms(2-4) quiet_elrond_answers
  have batch: "\<exists>b. r = Inr b \<and> ID b = n \<and> Deposits b \<noteq> [] \<and> verifyDepositNonces (Deposits b) 1 = None"
    if "eth_GetBatch (beside_ethereum (beside_ethereum (ethereum_interface quiet_eth))) n w = Some (r, w')" for n w w' r
    using quiet_eth_answers [of n w] that by (auto simp: verifyDepositNonces_iff)
  show ?thesis
    unfolding ethToElrond_getPendingStep_Execute_def executor_defs
    by (intro go_rules) (simp_all add: ask, (drule batch, clarsimp)+)
qed

lemma quiet_first_poll:
  assumes "services_ok d" and "elrondClient d = beside_elrond (elrond_interface quiet_elrond)"
    and "ethereumClient d = beside_ethereum (beside_ethereum (ethereum_interface quiet_eth))"
    and "\<And>b w. batchValidator d b w = Some (Inr True, w)"
    and "createEthereumToElrondStateMachine name d = Inr sm0"
  shows "\<exists>err sm st e. stateMachine_Execute sm0 (ex, w) = Some ((err, sm), e) \<and> currentStep sm = Some st
     \<and> step_Identifier st = ProposingTransferOnElrond"
proof -
  note first = runs_weaken [OF quiet_getPending [OF assms(1-4)]]
  have "runs (services_ok d) (stateMachine_Execute sm0 (ex, w))
      (\<lambda>(err, sm) e. \<exists>st. currentStep sm = Some st \<and> step_Identifier st = ProposingTransferOnElrond)"
    using assms(5)
    by (auto simp: createEthereumToElrondStateMachine_eq NewStateMachine_def stateMachine_checkArgs_def getNextStep_def
        ethToElrond_steps_def ethToElrond_stepsSlice_def stateMachine_Execute_def executeStep_def lift_StatusHandler_def ethToElrond_ids
        intro!: go_rules first)
  then show ?thesis using assms(1) by (auto simp: runs_def split: option.splits)
qed

lemma char_101: "char_of (101 :: nat) = CHR ''e''"
proof -
  have "(of_char (char_of (101 :: nat)) :: nat) = of_char (CHR ''e'')" by simp
  then show ?thesis by (simp only: of_char_eq_iff)
qed

theorem processed_batch_was_validated_witness:
  "\<exists>hb mh sm0 sm e st b s s'. createEthereumToElrondBridge quiet_relayer quiet_config ([], quiet_world) = Some (Inr hb, (mh, quiet_world))
   \<and> createEthereumToElrondStateMachine ''EthereumToElrond'' (hb_deps hb) = Inr sm0
   \<and> machine_reachable world_moves sm0 (hb_executor hb, hb_statusHandler hb, quiet_world) sm e
   \<and> currentStep sm = Some st \<and> step_Identifier st = ProposingTransferOnElrond
   \<and> batch (fst e) = Some b \<and> service_said (validator_http quiet_relayer) ''https://validator/ethereum/elrond'' b True s s'"
proof -
  obtain hb mh where hb: "createEthereumToElrondBridge quiet_relayer quiet_config ([], quiet_world) = Some (Inr hb, (mh, quiet_world))"
    using quiet_bridge [of quiet_world] by blast
  obtain sm0 where sm0: "createEthereumToElrondStateMachine ''EthereumToElrond'' (hb_deps hb) = Inr sm0"
    using StateMachine_exists by blast
  from hb obtain configs t v where parts: "NewTopologyHandler (argsTopologyHandler quiet_relayer configs) = Inr t"
      "createBatchValidator quiet_relayer (evmCompatibleChain quiet_relayer) Elrond (cfg_BatchValidator quiet_config) = Inr v"
      "newBridge quiet_relayer (argsBridgeExecutor quiet_relayer quiet_config t disabled_clear v) = Inr (hb_deps hb, hb_executor hb)"
    by (elim createEthereumToElrondBridge_parts)
  have ok: "elrond_client_ok (fc_elrondClient quiet_relayer)" "ethereum_client_ok (fc_ethClient quiet_relayer)"
    by (simp_all add: quiet_relayer_def elrond_client_ok_of_world quiet_elrond_ok beside_ethereum_ok
        ethereum_client_ok_of_world quiet_eth_ok)
  note services = half_bridge_services [OF ok quiet_surroundings parts disabled_clear_total]
  note d = newBridge_deps [OF parts(3)]
  have "\<exists>err sm st e. stateMachine_Execute sm0 (hb_executor hb, hb_statusHandler hb, quiet_world) = Some ((err, sm), e)
      \<and> currentStep sm = Some st \<and> step_Identifier st = ProposingTransferOnElrond"
    by (rule quiet_first_poll [OF services _ _ _ sm0])
      (simp_all add: d quiet_validator_answers [OF parts(2)], simp_all add: quiet_relayer_def)
  then obtain err sm st e where run: "stateMachine_Execute sm0 (hb_executor hb, hb_statusHandler hb, quiet_world) = Some ((err, sm), e)"
    and st: "currentStep sm = Some st" "step_Identifier st = ProposingTransferOnElrond"
    by blast
  note reach = machine_reachable.poll [OF machine_reachable.start run, of world_moves]
  have "\<exists>b s s'. batch (fst e) = Some b \<and> service_said (validator_http quiet_relayer)
      (bvc_URL (cfg_BatchValidator quiet_config) @ ''/'' @ Chain_ToLower (evmCompatibleChain quiet_relayer) @ ''/'' @ Chain_ToLower Elrond) b True s s'"
    by (rule processed_batch_was_validated [OF _ disjI1 reach st(1)])
      (use hb sm0 st(2) in \<open>auto simp: quiet_config_def ethToElrond_ids\<close>)
  moreover have "bvc_URL (cfg_BatchValidator quiet_config) @ ''/'' @ Chain_ToLower (evmCompatibleChain quiet_relayer) @ ''/'' @ Chain_ToLower Elrond
      = ''https://validator/ethereum/elrond''"
    by (simp add: quiet_config_def quiet_relayer_def Chain_ToLower_def Ethereum_def Elrond_def lower_char_def char_101)
  ultimately show ?thesis using hb sm0 reach st by metis
qed

end
