(* ===== verification/Client_Availability.thy ===== *)
theory Client_Availability
  imports Relayer_Factory
begin

section \<open>Client availability and its metrics\<close>

text \<open>
  Both clients report whether their node makes progress: \<^verbatim>\<open>CheckClientAvailability\<close> fetches the current
  block number and writes the status to the metrics. The locale states what the two have in common; it
  is interpreted on both, with the status handler of \<^verbatim>\<open>status/\<close> as the place the metrics go to.
\<close>

subsection \<open>The rule\<close>

definition avail_step :: "uint64 \<Rightarrow> uint64 \<times> uint64 \<Rightarrow> uint64 option \<Rightarrow> ClientStatus \<times> uint64 \<times> uint64" where
  "avail_step delta = (\<lambda>(prev, retries) answer.
     case answer of
       None \<Rightarrow> (Unavailable, (prev, retries))
     | Some n \<Rightarrow>
         (let r = (if n \<noteq> prev then 0 else retries)
          in (if r > delta then Unavailable else Available, (n, r + 1))))"

text \<open>How often the last number was fetched in a row.\<close>

definition trailing_run :: "'a list \<Rightarrow> nat" where
  "trailing_run xs = (if xs = [] then 0 else length (takeWhile (\<lambda>x. x = last xs) (rev xs)))"

definition node_unavailable :: "uint64 \<Rightarrow> uint64 option list \<Rightarrow> bool" where
  "node_unavailable delta answers \<longleftrightarrow>
     last answers = None \<or> trailing_run (List.map_filter (\<lambda>a. a) answers) > unat delta + 1"

lemma trailing_run_Nil [simp]: "trailing_run [] = 0"
  by (simp add: trailing_run_def)

lemma trailing_run_snoc [simp]:
  "trailing_run (xs @ [x]) = (if xs \<noteq> [] \<and> last xs = x then Suc (trailing_run xs) else 1)"
  by (cases xs rule: rev_cases) (auto simp: trailing_run_def)

lemma trailing_run_le: "trailing_run xs \<le> length xs"
  by (simp add: trailing_run_def) (metis length_rev length_takeWhile_le)

lemma length_map_filter_le: "length (List.map_filter f xs) \<le> length xs"
  by (simp add: map_filter_def)

lemma map_filter_snoc:
  "List.map_filter (\<lambda>a. a) (xs @ [None]) = List.map_filter (\<lambda>a. a) xs"
  "List.map_filter (\<lambda>a. a) (xs @ [Some x]) = List.map_filter (\<lambda>a. a) xs @ [x]"
  by (simp_all add: map_filter_def)

subsection \<open>Histories of checks\<close>

inductive check_history ::
  "('c \<times> 's, gerror option) go \<Rightarrow> ('c \<times> 's \<Rightarrow> uint64 option) \<Rightarrow> 'c \<times> 's \<Rightarrow> uint64 option list \<Rightarrow> 'c \<times> 's \<Rightarrow> bool"
  for check fetch w0 where
  start: "check_history check fetch w0 [] w0"
| moved: "check_history check fetch w0 answers (c, s) \<Longrightarrow> check_history check fetch w0 answers (c, s')"
| checked: "check_history check fetch w0 answers w \<Longrightarrow> check w = Some (err, w')
     \<Longrightarrow> check_history check fetch w0 (answers @ [fetch w]) w'"

locale availability =
  fixes check :: "('c \<times> 's, gerror option) go" and fetch :: "'c \<times> 's \<Rightarrow> uint64 option"
    and view :: "'c \<Rightarrow> uint64 \<times> uint64" and delta :: uint64 and reported :: "'s \<Rightarrow> string option"
  assumes check_view: "check w = Some (err, w') \<Longrightarrow> view (fst w') = snd (avail_step delta (view (fst w)) (fetch w))"
    and check_reports: "check w = Some (err, w') \<Longrightarrow>
      reported (snd w') = Some (ClientStatus_String (fst (avail_step delta (view (fst w)) (fetch w))))"
begin

lemma view_of_history:
  assumes "check_history check fetch w0 answers w" and "view (fst w0) = (0, 0)"
  shows "view (fst w) = (let oks = List.map_filter (\<lambda>a. a) answers
           in (if oks = [] then 0 else last oks, of_nat (trailing_run oks)))"
  using assms
proof (induction rule: check_history.induct)
  case (checked answers w err w')
  then show ?case
    by (cases "fetch w") (auto simp: check_view avail_step_def Let_def map_filter_snoc split: if_splits)
qed (simp_all add: map_filter_def)

lemma reported_after_history:
  assumes "check_history check fetch w0 answers w" and "view (fst w0) = (0, 0)"
    and "length answers < 2 ^ 64" and "check w = Some (err, w')"
  shows "reported (snd w') =
    Some (ClientStatus_String (if node_unavailable delta (answers @ [fetch w]) then Unavailable else Available))"
proof -
  let ?oks = "List.map_filter (\<lambda>a. a) answers"
  have "trailing_run ?oks < 2 ^ 64"
    using trailing_run_le [of ?oks] length_map_filter_le [of "\<lambda>a. a" answers] assms(3) by linarith
  then have run: "unat (of_nat (trailing_run ?oks) :: uint64) = trailing_run ?oks"
    by (simp add: unsigned_of_nat take_bit_nat_eq_self)
  show ?thesis
    unfolding check_reports [OF assms(4)] view_of_history [OF assms(1,2)]
    by (cases "fetch w")
      (auto simp: avail_step_def node_unavailable_def Let_def map_filter_snoc word_less_nat_alt run)
qed

end

subsection \<open>Both clients\<close>

definition metric_text :: "string \<Rightarrow> statusHandler \<times> 's \<Rightarrow> string option" where
  "metric_text metric = (\<lambda>(sh, s). map_of (stringMetrics sh) metric)"

lemma persistChanges_keeps: "persistChanges d metric (sh, s) = Some (r, (sh', s')) \<Longrightarrow> sh' = sh"
  by (auto simp: persistChanges_def Let_def elim!: go_bindE split: if_split_asm sum.split_asm prod.split_asm)

lemma metric_text_SetString:
  "SetStringMetric (status_interface sd) metric val w = Some (r, w') \<Longrightarrow>
   metric_text m w' = (if m = metric then Some val else metric_text m w)"
  by (cases w; cases w') (auto simp: status_interface_def statusHandler_SetStringMetric_def metric_text_def update_conv'
      dest!: persistChanges_keeps)

lemma metric_text_SetInt:
  "SetIntMetric (status_interface sd) metric val w = Some (r, w') \<Longrightarrow> metric_text m w' = metric_text m w"
  by (cases w; cases w') (auto simp: status_interface_def statusHandler_SetIntMetric_def metric_text_def
      dest!: persistChanges_keeps)

lemma metric_text_AddInt:
  "AddIntMetric (status_interface sd) metric val w = Some (r, w') \<Longrightarrow> metric_text m w' = metric_text m w"
  by (cases w; cases w') (auto simp: status_interface_def statusHandler_AddIntMetric_def metric_text_def
      dest!: persistChanges_keeps)

lemma status_metric_neq: "MetricElrondClientStatus \<noteq> MetricLastElrondClientError"
  by (simp add: MetricElrondClientStatus_def MetricLastElrondClientError_def)

text \<open>The clients with the status handler of \<^verbatim>\<open>status/\<close>.\<close>

definition elrond_with_status ::
  "(statusHandler \<times> 't, 'a) elrondClientDeps \<Rightarrow> 't statusDeps \<Rightarrow> (statusHandler \<times> 't, 'a) elrondClientDeps" where
  "elrond_with_status d sd = d\<lparr>elrond_statusHandler := status_interface sd\<rparr>"

definition ethereum_with_status ::
  "(statusHandler \<times> 't, 'addr, 'ty) ethereumClientDeps \<Rightarrow> 't statusDeps \<Rightarrow> (statusHandler \<times> 't, 'addr, 'ty) ethereumClientDeps" where
  "ethereum_with_status d sd = d\<lparr>clientWrapper := (clientWrapper d)\<lparr>wrapper_StatusHandler := status_interface sd\<rparr>\<rparr>"

definition elrond_fetch :: "('s, 'a) elrondClientDeps \<Rightarrow> elrond_client \<times> 's \<Rightarrow> uint64 option" where
  "elrond_fetch d w = (case GetCurrentNonce d w of Some (Inr n, _) \<Rightarrow> Some n | _ \<Rightarrow> None)"

definition ethereum_fetch :: "('s, 'addr, 'ty) ethereumClientDeps \<Rightarrow> ethereum_client \<times> 's \<Rightarrow> uint64 option" where
  "ethereum_fetch d = (\<lambda>(c, s). case wrapper_BlockNumber (clientWrapper d) s of Some (Inr n, _) \<Rightarrow> Some n | _ \<Rightarrow> None)"

lemma elrond_with_status_sel [simp]:
  "elrond_statusHandler (elrond_with_status d sd) = status_interface sd"
  "elrond_allowDelta (elrond_with_status d sd) = elrond_allowDelta d"
  by (simp_all add: elrond_with_status_def)

lemma ethereum_with_status_sel [simp]:
  "wrapper_StatusHandler (clientWrapper (ethereum_with_status d sd)) = status_interface sd"
  "eth_allowDelta (ethereum_with_status d sd) = eth_allowDelta d"
  by (simp_all add: ethereum_with_status_def)

lemma set_status_reports:
  assumes "SetStringMetric (status_interface sd) MetricElrondClientStatus (ClientStatus_String status) s = Some (x, s1)"
    and "SetStringMetric (status_interface sd) MetricLastElrondClientError message s1 = Some (y, s2)"
    and "SetIntMetric (status_interface sd) MetricLastBlockNonce n s2 = Some (z, s3)"
  shows "metric_text MetricElrondClientStatus s3 = Some (ClientStatus_String status)"
    and "metric_text MetricEthereumClientStatus s3 = metric_text MetricEthereumClientStatus s"
  using metric_text_SetString [OF assms(1)] metric_text_SetString [OF assms(2)] metric_text_SetInt [OF assms(3)]
  by (simp_all add: metric_defs)

lemma elrond_setStatus_reports:
  assumes "elrond_setStatusForAvailabilityCheck (elrond_with_status d sd) status message nonce s = Some (r, s')"
  shows "metric_text MetricElrondClientStatus s' = Some (ClientStatus_String status)"
  using assms unfolding elrond_setStatusForAvailabilityCheck_def elrond_with_status_sel
  by (auto elim!: go_bindE dest: set_status_reports(1))

lemma eth_setStatus_reports:
  assumes "eth_setStatusForAvailabilityCheck (ethereum_with_status d sd) status message nonce s = Some (r, s')"
  shows "metric_text MetricElrondClientStatus s' = Some (ClientStatus_String status)"
    and "metric_text MetricEthereumClientStatus s' = metric_text MetricEthereumClientStatus s"
  using assms unfolding eth_setStatusForAvailabilityCheck_def ethereum_with_status_sel
  by (auto elim!: go_bindE dest: set_status_reports)

lemma GetCurrentNonce_keeps:
  assumes "GetCurrentNonce d (c, s) = Some (r, (c', s'))"
  shows "lastNonce c' = lastNonce c \<and> retriesAvailabilityCheck c' = retriesAvailabilityCheck c"
  using assms unfolding GetCurrentNonce_def getShardID_def
  by (auto simp: Let_def elim!: go_bindE split: go_split_asm)

interpretation elrond_availability: availability "elrond_CheckClientAvailability (elrond_with_status d sd)"
  "elrond_fetch (elrond_with_status d sd)" "\<lambda>c. (lastNonce c, retriesAvailabilityCheck c)" "elrond_allowDelta d"
  "metric_text MetricElrondClientStatus" for d sd
proof
  fix w err w'
  assume check: "elrond_CheckClientAvailability (elrond_with_status d sd) w = Some (err, w')"
  obtain c s where w: "w = (c, s)" by (cases w)
  from check w obtain r c1 s1 where r: "GetCurrentNonce (elrond_with_status d sd) (c, s) = Some (r, (c1, s1))"
    unfolding elrond_CheckClientAvailability_def by (auto elim!: go_bindE)
  note keep = GetCurrentNonce_keeps [OF r]
  have fetch: "elrond_fetch (elrond_with_status d sd) w = (case r of Inr n \<Rightarrow> Some n | _ \<Rightarrow> None)"
    using r w by (simp add: elrond_fetch_def split: sum.split)
  have "(lastNonce (fst w'), retriesAvailabilityCheck (fst w'))
        = snd (avail_step (elrond_allowDelta d) (lastNonce (fst w), retriesAvailabilityCheck (fst w)) (elrond_fetch (elrond_with_status d sd) w))
      \<and> metric_text MetricElrondClientStatus (snd w') =
         Some (ClientStatus_String (fst (avail_step (elrond_allowDelta d) (lastNonce (fst w), retriesAvailabilityCheck (fst w))
           (elrond_fetch (elrond_with_status d sd) w))))"
    using check r keep unfolding w fetch [unfolded w] elrond_CheckClientAvailability_def
    by (auto simp: Let_def avail_step_def elrond_incrementRetriesAvailabilityCheck_def
        elim!: go_bindE split: sum.split_asm if_split_asm dest: elrond_setStatus_reports)
  then show "(lastNonce (fst w'), retriesAvailabilityCheck (fst w'))
        = snd (avail_step (elrond_allowDelta d) (lastNonce (fst w), retriesAvailabilityCheck (fst w)) (elrond_fetch (elrond_with_status d sd) w))"
    and "metric_text MetricElrondClientStatus (snd w') =
         Some (ClientStatus_String (fst (avail_step (elrond_allowDelta d) (lastNonce (fst w), retriesAvailabilityCheck (fst w))
           (elrond_fetch (elrond_with_status d sd) w))))"
    by simp_all
qed

interpretation ethereum_availability: availability "ethc_CheckClientAvailability (ethereum_with_status d sd)"
  "ethereum_fetch (ethereum_with_status d sd)" "\<lambda>c. (lastBlockNumber c, eth_retriesAvailabilityCheck c)" "eth_allowDelta d"
  "metric_text MetricElrondClientStatus" for d sd
proof
  fix w err w'
  assume check: "ethc_CheckClientAvailability (ethereum_with_status d sd) w = Some (err, w')"
  obtain c s where w: "w = (c, s)" by (cases w)
  from check w obtain r s1 where r: "wrapper_BlockNumber (clientWrapper (ethereum_with_status d sd)) s = Some (r, s1)"
    unfolding ethc_CheckClientAvailability_def by (auto elim!: go_bindE)
  have fetch: "ethereum_fetch (ethereum_with_status d sd) w = (case r of Inr n \<Rightarrow> Some n | _ \<Rightarrow> None)"
    using r w by (simp add: ethereum_fetch_def split: sum.split)
  have "(lastBlockNumber (fst w'), eth_retriesAvailabilityCheck (fst w'))
        = snd (avail_step (eth_allowDelta d) (lastBlockNumber (fst w), eth_retriesAvailabilityCheck (fst w)) (ethereum_fetch (ethereum_with_status d sd) w))
      \<and> metric_text MetricElrondClientStatus (snd w') =
         Some (ClientStatus_String (fst (avail_step (eth_allowDelta d) (lastBlockNumber (fst w), eth_retriesAvailabilityCheck (fst w))
           (ethereum_fetch (ethereum_with_status d sd) w))))"
    using check r unfolding w fetch [unfolded w] ethc_CheckClientAvailability_def
    by (auto simp: Let_def avail_step_def eth_incrementRetriesAvailabilityCheck_def
        elim!: go_bindE split: sum.split_asm if_split_asm dest: eth_setStatus_reports(1))
  then show "(lastBlockNumber (fst w'), eth_retriesAvailabilityCheck (fst w'))
        = snd (avail_step (eth_allowDelta d) (lastBlockNumber (fst w), eth_retriesAvailabilityCheck (fst w)) (ethereum_fetch (ethereum_with_status d sd) w))"
    and "metric_text MetricElrondClientStatus (snd w') =
         Some (ClientStatus_String (fst (avail_step (eth_allowDelta d) (lastBlockNumber (fst w), eth_retriesAvailabilityCheck (fst w))
           (ethereum_fetch (ethereum_with_status d sd) w))))"
    by simp_all
qed

subsection \<open>Properties\<close>

text \<open>
  The status metric of the Elrond client tells whether the node makes progress: for any history of
  checks since the client was created, with the world moving in between, the metric reads \<^verbatim>\<open>Unavailable\<close>
  exactly if the last request for the nonce failed or the same nonce was fetched more than
  \<^verbatim>\<open>allowDelta + 1\<close> times in a row (failed requests in between do not count), and \<^verbatim>\<open>Available\<close> otherwise.
\<close>

theorem elrond_status_metric:
  assumes "check_history (elrond_CheckClientAvailability (elrond_with_status d sd)) (elrond_fetch (elrond_with_status d sd))
      (c0, s0) answers w"
    and "lastNonce c0 = 0" and "retriesAvailabilityCheck c0 = 0" and "length answers < 2 ^ 64"
    and "elrond_CheckClientAvailability (elrond_with_status d sd) w = Some (err, w')"
  shows "metric_text MetricElrondClientStatus (snd w') =
    Some (if node_unavailable (elrond_allowDelta d) (answers @ [elrond_fetch (elrond_with_status d sd) w])
          then ''Unavailable'' else ''Available'')"
  using elrond_availability.reported_after_history [OF assms(1) _ assms(4,5)] assms(2,3)
  by (simp add: ClientStatus_String_def Available_def Unavailable_def)

text \<open>
  C34: the Ethereum client reports by the same rule, but under the wrong name: after a check the metric
  of the \<^emph>\<open>Elrond\<close> client reads the status of the Ethereum node, and the metric
  \<^verbatim>\<open>MetricEthereumClientStatus\<close> keeps the value it had before.
\<close>

theorem ethereum_status_is_reported_as_elrond:
  assumes "check_history (ethc_CheckClientAvailability (ethereum_with_status d sd)) (ethereum_fetch (ethereum_with_status d sd))
      (c0, s0) answers w"
    and "lastBlockNumber c0 = 0" and "eth_retriesAvailabilityCheck c0 = 0" and "length answers < 2 ^ 64"
    and "ethc_CheckClientAvailability (ethereum_with_status d sd) w = Some (err, w')"
    and apart: "\<And>s r s'. bcc_BlockNumber (wrapper_blockchainClient (clientWrapper d)) s = Some (r, s') \<Longrightarrow> fst s' = fst s"
  shows "metric_text MetricElrondClientStatus (snd w') =
      Some (if node_unavailable (eth_allowDelta d) (answers @ [ethereum_fetch (ethereum_with_status d sd) w])
            then ''Unavailable'' else ''Available'')
    \<and> metric_text MetricEthereumClientStatus (snd w') = metric_text MetricEthereumClientStatus (snd w)"
proof
  show "metric_text MetricElrondClientStatus (snd w') =
      Some (if node_unavailable (eth_allowDelta d) (answers @ [ethereum_fetch (ethereum_with_status d sd) w])
            then ''Unavailable'' else ''Available'')"
    using ethereum_availability.reported_after_history [OF assms(1) _ assms(4,5)] assms(2,3)
    by (simp add: ClientStatus_String_def Available_def Unavailable_def)
next
  have block: "metric_text m s' = metric_text m s"
    if "wrapper_BlockNumber (clientWrapper (ethereum_with_status d sd)) s = Some (r, s')" for m s r s'
    using that apart unfolding wrapper_BlockNumber_def
    by (fastforce simp: ethereum_with_status_def metric_text_def split_beta elim!: go_bindE split: sum.split_asm
        dest: metric_text_AddInt [where m = m] metric_text_SetInt [where m = m])
  from assms(5) show "metric_text MetricEthereumClientStatus (snd w') = metric_text MetricEthereumClientStatus (snd w)"
    unfolding ethc_CheckClientAvailability_def
    by (cases w) (auto simp: Let_def elim!: go_bindE split: sum.split_asm if_split_asm
        dest!: block [where m = MetricEthereumClientStatus] eth_setStatus_reports(2))
qed

subsection \<open>Nodes that stand still\<close>

definition still_status :: "'s statusDeps" where
  "still_status =
     \<lparr> storer = \<lparr> Put = (\<lambda>_ _ w. Some (None, w)), Get = (\<lambda>_ w. Some (Inl ErrMissingStatusHandler, w)) \<rparr>,
       Marshal_persistence = (\<lambda>_. Inr []), Unmarshal_persistence = (\<lambda>_. Inl ErrMissingStatusHandler) \<rparr>"

abbreviation still_metrics :: "string \<Rightarrow> string \<Rightarrow> statusHandler" where
  "still_metrics status message \<equiv>
     \<lparr> intMetrics = [(MetricLastBlockNonce, 1)],
       stringMetrics = [(MetricElrondClientStatus, status), (MetricLastElrondClientError, message)], handlerName = ''client'' \<rparr>"

definition still_eth :: "('s, bytes, string) ethereumClientDeps" where
  "still_eth =
     \<lparr> geth = demo_geth,
       clientWrapper =
         \<lparr> wrapper_StatusHandler = quiet_status,
           wrapper_multiSigContract =
             \<lparr> msc_GetBatch = (\<lambda>_ s. Some (Inl errQuorumNotReached, s)), msc_GetBatchDeposits = (\<lambda>_ s. Some (Inr [], s)),
               msc_GetRelayers = (\<lambda>s. Some (Inr [], s)), msc_WasBatchExecuted = (\<lambda>_ s. Some (Inr False, s)),
               msc_ExecuteTransfer = (\<lambda>_ _ _ _ _ _ _ s. Some (Inr ''0xabc'', s)), msc_Quorum = (\<lambda>s. Some (Inr 1, s)),
               msc_GetStatusesAfterExecution = (\<lambda>_ s. Some (Inr [3], s)), msc_Paused = (\<lambda>s. Some (Inr False, s)) \<rparr>,
           wrapper_blockchainClient =
             \<lparr> bcc_BlockNumber = (\<lambda>s. Some (Inr 1, s)), bcc_NonceAt = (\<lambda>_ _ s. Some (Inr 4, s)),
               bcc_ChainID = (\<lambda>s. Some (Inr 1, s)), bcc_BalanceAt = (\<lambda>_ s. Some (Inr 1000, s)) \<rparr> \<rparr>,
       erc20_BalanceOf = (\<lambda>_ _ s. Some (Inr 50, s)), eth_ToBech32String = (\<lambda>_. ''erd1''),
       broadcaster_BroadcastSignature = (\<lambda>_ _ s. Some ((), s)), ethereumRelayerAddress = [7],
       eth_tokensMapper = (\<lambda>t s. Some (Inr t, s)), signatureHolder_Signatures = (\<lambda>_ s. Some ([], s)),
       safeContractAddress = [8], gasHandler_GetCurrentGasPrice = (\<lambda>s. Some (Inr 1, s)),
       transferGasLimitBase = 10, transferGasLimitForEach = 5, eth_allowDelta = 0, range_transfers = (\<lambda>xs. xs) \<rparr>"

definition still_elrond :: "(statusHandler \<times> nat, nat) elrondClientDeps" where
  "still_elrond = quiet_elrond\<lparr>elrond_allowDelta := 0\<rparr>"

abbreviation "no_metrics \<equiv> \<lparr> intMetrics = [], stringMetrics = [], handlerName = ''client'' \<rparr>"
abbreviation "still_client b n \<equiv> \<lparr> wasShardIDFetched = b, shardID = 0, lastNonce = n, retriesAvailabilityCheck = n \<rparr>"

lemma still_persistChanges [simp]: "persistChanges still_status metric w = Some ((), w)"
  by (cases w) (simp add: persistChanges_def convertToBuff_def still_status_def Let_def)

lemmas status_run_defs =
  status_interface_def statusHandler_SetStringMetric_def statusHandler_SetIntMetric_def statusHandler_AddIntMetric_def
  ClientStatus_String_def Available_def Unavailable_def int64_def show_uint64_def show_nat_small metric_defs

lemma still_elrond_check:
  "elrond_CheckClientAvailability (elrond_with_status still_elrond still_status) (still_client False 0, (no_metrics, 0))
   = Some (None, (still_client True 1, (still_metrics ''Available'' '''', 0)))"
  "elrond_CheckClientAvailability (elrond_with_status still_elrond still_status) (still_client True 1, (still_metrics ''Available'' '''', 0))
   = Some (None, ((still_client True 1)\<lparr>retriesAvailabilityCheck := 2\<rparr>, (still_metrics ''Unavailable'' ''nonce 1 fetched for 1 times in a row'', 0)))"
  by (simp_all add: elrond_CheckClientAvailability_def GetCurrentNonce_def getShardID_def elrond_with_status_def still_elrond_def quiet_elrond_def
      quiet_proxy_def elrond_setStatusForAvailabilityCheck_def elrond_incrementRetriesAvailabilityCheck_def Let_def status_run_defs)

theorem elrond_status_metric_witness:
  "metric_text MetricElrondClientStatus (still_metrics ''Unavailable'' ''nonce 1 fetched for 1 times in a row'', 0 :: nat) = Some ''Unavailable''"
proof -
  let ?check = "elrond_CheckClientAvailability (elrond_with_status still_elrond still_status)"
  let ?fetch = "elrond_fetch (elrond_with_status still_elrond still_status)"
  have fetch: "?fetch (still_client b n, s) = Some 1" for b n s
    by (simp add: elrond_fetch_def GetCurrentNonce_def getShardID_def elrond_with_status_def still_elrond_def quiet_elrond_def
        quiet_proxy_def Let_def)
  have "check_history ?check ?fetch (still_client False 0, (no_metrics, 0))
      ([] @ [?fetch (still_client False 0, (no_metrics, 0))]) (still_client True 1, (still_metrics ''Available'' '''', 0))"
    by (rule check_history.checked [where w = "(still_client False 0, (no_metrics, 0))", OF check_history.start])
      (rule still_elrond_check(1))
  moreover have "elrond_allowDelta still_elrond = 0"
    by (simp add: still_elrond_def)
  ultimately show ?thesis
    using elrond_status_metric [OF _ _ _ _ still_elrond_check(2)]
    by (simp add: fetch node_unavailable_def map_filter_def trailing_run_def)
qed

lemma still_eth_check:
  "ethc_CheckClientAvailability (ethereum_with_status still_eth still_status)
     (\<lparr> lastBlockNumber = 0, eth_retriesAvailabilityCheck = 0 \<rparr>, (no_metrics, 0 :: nat))
   = Some (None, (\<lparr> lastBlockNumber = 1, eth_retriesAvailabilityCheck = 1 \<rparr>,
       ((still_metrics ''Available'' '''')\<lparr>intMetrics := [(MetricNumEthClientRequests, 1), (MetricLastQueriedEthereumBlockNumber, 1),
          (MetricLastBlockNonce, 1)]\<rparr>, 0)))"
  by (simp add: ethc_CheckClientAvailability_def wrapper_BlockNumber_def ethereum_with_status_def still_eth_def
      eth_setStatusForAvailabilityCheck_def eth_incrementRetriesAvailabilityCheck_def int_add_def Let_def status_run_defs)

theorem ethereum_status_is_reported_as_elrond_witness:
  "metric_text MetricElrondClientStatus (snd (\<lparr> lastBlockNumber = 1, eth_retriesAvailabilityCheck = 1 \<rparr>,
       ((still_metrics ''Available'' '''')\<lparr>intMetrics := [(MetricNumEthClientRequests, 1), (MetricLastQueriedEthereumBlockNumber, 1),
          (MetricLastBlockNonce, 1)]\<rparr>, 0 :: nat))) = Some ''Available''"
  using ethereum_status_is_reported_as_elrond [OF check_history.start _ _ _ still_eth_check]
  by (simp add: still_eth_def node_unavailable_def map_filter_def trailing_run_def ethereum_fetch_def wrapper_BlockNumber_def
      ethereum_with_status_def Let_def status_run_defs)

end
