(* ===== verification/Transfer_Signatures.thy ===== *)
theory Transfer_Signatures
  imports Broadcaster Ethereum_Client_Correct
begin

section \<open>The signatures of an executed transfer\<close>

text \<open>
  The Ethereum client takes the signatures of a transfer from the signatures holder, which the
  broadcaster fills. The holder is the first part of the state both components run in.
\<close>

definition reads_holder ::
  "((string \<times> unit) list \<Rightarrow> (string \<times> unit) list) \<Rightarrow> (signaturesHolder \<times> 't, 'addr, 'ty) ethereumClientDeps \<Rightarrow> bool" where
  \<comment> \<open>the client asks the holder, and what it asks before does not touch the holder\<close>
  "reads_holder ord d \<longleftrightarrow>
     signatureHolder_Signatures d = (\<lambda>h (holder, t). Some (signaturesHolder_Signatures ord holder h, (holder, t)))
     \<and> (\<forall>x y. keeps_holder (AddIntMetric (wrapper_StatusHandler (clientWrapper d)) x y))
     \<and> (\<forall>x y. keeps_holder (SetIntMetric (wrapper_StatusHandler (clientWrapper d)) x y))
     \<and> keeps_holder (msc_Paused (wrapper_multiSigContract (clientWrapper d)))
     \<and> keeps_holder (bcc_BlockNumber (wrapper_blockchainClient (clientWrapper d)))
     \<and> (\<forall>x y. keeps_holder (bcc_NonceAt (wrapper_blockchainClient (clientWrapper d)) x y))
     \<and> keeps_holder (bcc_ChainID (wrapper_blockchainClient (clientWrapper d)))
     \<and> keeps_holder (gasHandler_GetCurrentGasPrice d)"

lemma ExecuteTransfer_reads:
  assumes "reads_holder ord d"
  shows "runs False (ethc_ExecuteTransfer d h (Some b) q w)
     (\<lambda>r w'. \<forall>hash. r = Inr hash \<longrightarrow> (\<exists>auth t. executeTransfer_signed d h b q auth (fst w, t) = Some (Inr hash, w')))"
proof -
  have "keeps_holder (AddIntMetric (wrapper_StatusHandler (clientWrapper d)) x y)"
    "keeps_holder (SetIntMetric (wrapper_StatusHandler (clientWrapper d)) x y)"
    "keeps_holder (msc_Paused (wrapper_multiSigContract (clientWrapper d)))"
    "keeps_holder (bcc_BlockNumber (wrapper_blockchainClient (clientWrapper d)))"
    "keeps_holder (bcc_NonceAt (wrapper_blockchainClient (clientWrapper d)) a n)"
    "keeps_holder (bcc_ChainID (wrapper_blockchainClient (clientWrapper d)))"
    "keeps_holder (gasHandler_GetCurrentGasPrice d)" for x y a n
    using assms by (simp_all add: reads_holder_def)
  note calls = this [THEN keeps_view_run]
  have last: "runs False (executeTransfer_signed d h b q auth e)
      (\<lambda>r w'. \<forall>hash. r = Inr hash \<longrightarrow> (\<exists>auth t. executeTransfer_signed d h b q auth (fst w, t) = Some (Inr hash, w')))"
    if "fst e = fst w" for auth e
    using that by (intro runs_total) (simp, metis prod.collapse)
  show ?thesis
    unfolding ethc_ExecuteTransfer_def option.case getNonce_def wrapper_IsPaused_def wrapper_ChainID_def
      wrapper_BlockNumber_def wrapper_NonceAt_def
    by (intro go_rules calls last) auto
qed

text \<open>
  The states the broadcaster and the holder reach from a new holder: messages arrive, the signatures are
  cleared, everything but the holder moves.
\<close>

inductive holder_reachable ::
  "((string \<times> SignedMessage) list \<Rightarrow> (string \<times> SignedMessage) list) \<Rightarrow> (signaturesHolder \<times> 't, 'pk) broadcasterDeps
   \<Rightarrow> (signaturesHolder \<times> 't) broadcaster \<times> signaturesHolder \<times> 't \<Rightarrow> bool" for ord d where
  start: "clients b = [holder_client] \<Longrightarrow> holder_reachable ord d (b, (NewSignatureHolder, t))"
| received: "holder_reachable ord d w \<Longrightarrow> broadcaster_ProcessReceivedMessage ord d message peer w = Some (err, w')
     \<Longrightarrow> holder_reachable ord d w'"
| cleared: "holder_reachable ord d (b, (h, t)) \<Longrightarrow> holder_reachable ord d (b, (signaturesHolder_ClearStoredSignatures h, t))"
| moved: "holder_reachable ord d (b, (h, t)) \<Longrightarrow> clients b' = clients b \<Longrightarrow> holder_reachable ord d (b', (h, t'))"

lemma holder_reachable_verified:
  assumes "holder_reachable ord d w" and "holder_private d"
  shows "clients (fst w) = [holder_client] \<and> signatures_verified d (fst (snd w))"
  using assms(1)
proof (induction rule: holder_reachable.induct)
  case (received w message peer err w')
  then show ?case
    using runsD [OF ProcessReceivedMessage_verified [OF assms(2), of "snd w" "fst w" ord message peer], of err w'] by auto
qed (simp_all add: signatures_verified_def NewSignatureHolder_def signaturesHolder_ClearStoredSignatures_def)

text \<open>A successful transfer carries \<open>q\<close> different signatures the holder has for the message hash.\<close>

lemma ExecuteTransfer_signatures:
  assumes "reads_holder ord d" and "range_order ord"
    and "ethc_ExecuteTransfer d h (Some b) q (holder, t) = Some (Inr hash, w')"
  obtains auth sigs u where
    "let l = batch_lists (geth d) (Deposits b) in
      wrapper_ExecuteTransfer (clientWrapper d) auth (tokens l) (recipients l) (amounts l) (argListsBatch.nonces l)
          (uint (ID b)) sigs u = Some (Inr hash, w')"
    and "distinct sigs" and "int (length sigs) = q"
    and "\<And>sig. sig \<in> set sigs \<Longrightarrow> \<exists>em \<in> set (ethMessages holder). eth_Signature em = sig \<and> MessageHash em = h"
proof -
  from runsD [OF ExecuteTransfer_reads [OF assms(1)] assms(3)]
  obtain auth t' where "executeTransfer_signed d h b q auth (holder, t') = Some (Inr hash, w')" by auto
  then obtain sigs t1 t2 t3 where s: "signatureHolder_Signatures d h (holder, t') = Some (sigs, t1)" "0 \<le> q" "q \<le> int (length sigs)"
    and sent: "wrapper_ExecuteTransfer (clientWrapper d) auth (tokens (batch_lists (geth d) (Deposits b)))
        (recipients (batch_lists (geth d) (Deposits b))) (amounts (batch_lists (geth d) (Deposits b)))
        (argListsBatch.nonces (batch_lists (geth d) (Deposits b))) (uint (ID b)) (take (nat q) sigs) t3 = Some (Inr hash, w')"
    by (elim executeTransfer_signed_outcome)
  from s(1) assms(1) have sigs: "sigs = signaturesHolder_Signatures ord holder h" by (simp add: reads_holder_def)
  show thesis
  proof (rule that)
    show "distinct (take (nat q) sigs)"
      unfolding sigs by (intro distinct_take signaturesHolder_Signatures_distinct assms(2))
    show "\<exists>em \<in> set (ethMessages holder). eth_Signature em = sig \<and> MessageHash em = h" if "sig \<in> set (take (nat q) sigs)" for sig
      using in_set_takeD [OF that] unfolding sigs signaturesHolder_Signatures_set [OF assms(2)] by auto
  qed (use s sent in \<open>simp_all add: Let_def\<close>)
qed

text \<open>
  Every signature in an executed transfer was verified: when the Ethereum client reports a
  transaction hash, the transaction it sent for the batch carries exactly \<^verbatim>\<open>quorum\<close> different signatures,
  and each of them was accepted by \<^verbatim>\<open>VerifyEthSignature\<close> for the message hash of this transfer, whatever
  messages the peers have sent, in whatever order, since the holder was created.
\<close>

theorem transfer_signatures_were_verified:
  assumes "holder_private db" and "reads_holder ord d" and "range_order ord"
    and "holder_reachable mord db (bc, (holder, t))"
    and "ethc_ExecuteTransfer d h (Some b) q (holder, t) = Some (Inr hash, w')"
  shows "\<exists>auth sigs u. let l = batch_lists (geth d) (Deposits b) in
      wrapper_ExecuteTransfer (clientWrapper d) auth (tokens l) (recipients l) (amounts l) (argListsBatch.nonces l)
          (uint (ID b)) sigs u = Some (Inr hash, w')
      \<and> distinct sigs \<and> int (length sigs) = q
      \<and> (\<forall>sig \<in> set sigs. \<exists>e e'. p2p_VerifyEthSignature db sig h e = Some (None, e'))"
proof -
  have "signatures_verified db holder"
    using holder_reachable_verified [OF assms(4,1)] by simp
  moreover obtain auth sigs u where
    "let l = batch_lists (geth d) (Deposits b) in
      wrapper_ExecuteTransfer (clientWrapper d) auth (tokens l) (recipients l) (amounts l) (argListsBatch.nonces l)
          (uint (ID b)) sigs u = Some (Inr hash, w')" "distinct sigs" "int (length sigs) = q"
    "\<And>sig. sig \<in> set sigs \<Longrightarrow> \<exists>em \<in> set (ethMessages holder). eth_Signature em = sig \<and> MessageHash em = h"
    by (rule ExecuteTransfer_signatures [OF assms(2,3,5)]) blast
  ultimately show ?thesis unfolding signatures_verified_def Let_def by metis
qed

text \<open>A node over the state of the holder, and a holder that has received one signature.\<close>

definition demo_signed_wrapper :: "(signaturesHolder \<times> nat, bytes) ethereumChainWrapper" where
  "demo_signed_wrapper =
     \<lparr> wrapper_StatusHandler = \<lparr> SetIntMetric = (\<lambda>_ _ s. Some ((), s)), AddIntMetric = (\<lambda>_ _ s. Some ((), s)),
         SetStringMetric = (\<lambda>_ _ s. Some ((), s)) \<rparr>,
       wrapper_multiSigContract =
         \<lparr> msc_GetBatch = (\<lambda>_ s. Some (Inl errQuorumNotReached, s)), msc_GetBatchDeposits = (\<lambda>_ s. Some (Inr [], s)),
           msc_GetRelayers = (\<lambda>s. Some (Inr [], s)), msc_WasBatchExecuted = (\<lambda>_ s. Some (Inr False, s)),
           msc_ExecuteTransfer = (\<lambda>_ _ _ _ _ _ _ (h, n). Some (Inr ''0xabc'', (h, n + 1))),
           msc_Quorum = (\<lambda>s. Some (Inr 1, s)), msc_GetStatusesAfterExecution = (\<lambda>_ s. Some (Inr [3], s)),
           msc_Paused = (\<lambda>s. Some (Inr False, s)) \<rparr>,
       wrapper_blockchainClient =
         \<lparr> bcc_BlockNumber = (\<lambda>s. Some (Inr 10, s)), bcc_NonceAt = (\<lambda>_ _ s. Some (Inr 4, s)),
           bcc_ChainID = (\<lambda>s. Some (Inr 1, s)), bcc_BalanceAt = (\<lambda>_ s. Some (Inr 1000, s)) \<rparr> \<rparr>"

definition demo_signed_eth :: "(signaturesHolder \<times> nat, bytes, string) ethereumClientDeps" where
  "demo_signed_eth =
     \<lparr> geth = demo_geth, clientWrapper = demo_signed_wrapper, erc20_BalanceOf = (\<lambda>_ _ s. Some (Inr 50, s)),
       eth_ToBech32String = (\<lambda>_. ''erd1''), broadcaster_BroadcastSignature = (\<lambda>_ _ s. Some ((), s)),
       ethereumRelayerAddress = [7], eth_tokensMapper = (\<lambda>t s. Some (Inr (255 # t), s)),
       signatureHolder_Signatures = (\<lambda>h (holder, n). Some (signaturesHolder_Signatures (\<lambda>xs. xs) holder h, (holder, n))),
       safeContractAddress = [8], gasHandler_GetCurrentGasPrice = (\<lambda>s. Some (Inr 1, s)),
       transferGasLimitBase = 10, transferGasLimitForEach = 5, eth_allowDelta = 10, range_transfers = (\<lambda>xs. xs) \<rparr>"

lemmas demo_signed_defs = demo_signed_eth_def demo_signed_wrapper_def demo_geth_def

abbreviation demo_holder :: signaturesHolder where
  "demo_holder \<equiv> \<lparr> signedMessages = [(UniqueID demo_message, demo_message)],
                   ethMessages = [\<lparr> eth_Signature = [1, 2, 3], MessageHash = [1, 2, 3] \<rparr>] \<rparr>"

lemma demo_reads_holder: "reads_holder (\<lambda>xs. xs) demo_signed_eth"
  by (simp add: reads_holder_def keeps_view_def demo_signed_defs)

lemma demo_holder_reachable:
  "holder_reachable (\<lambda>xs. xs) demo_holder_broadcaster
     (\<lparr> counter = 0, nonces = [(string_of_bytes [7], 42)], clients = [holder_client] \<rparr>, (demo_holder, 0))"
  by (rule holder_reachable.received [OF holder_reachable.start demo_holder_receives]) simp

lemma demo_signed_transfer:
  "ethc_ExecuteTransfer demo_signed_eth [1, 2, 3] (Some demo_eth_batch) 1 (demo_holder, 0)
   = Some (Inr ''0xabc'', (demo_holder, 1))"
  by (simp add: ethc_ExecuteTransfer_def executeTransfer_signed_def wrapper_IsPaused_def wrapper_ChainID_def getNonce_def
      wrapper_BlockNumber_def wrapper_NonceAt_def wrapper_BalanceAt_def wrapper_ExecuteTransfer_def extractList_def
      checkAvailableTokens_def checkRelayerFundsForFee_def signaturesHolder_Signatures_def demo_eth_batch_def
      uint64_len_def int64_def demo_signed_defs)

theorem transfer_signatures_were_verified_witness:
  "\<exists>auth sig u e e'. wrapper_ExecuteTransfer (clientWrapper demo_signed_eth) auth [[255, 65]] [[2]] [20] [7] 3 [sig] u
     = Some (Inr ''0xabc'', (demo_holder, 1))
   \<and> p2p_VerifyEthSignature demo_holder_broadcaster sig [1, 2, 3] e = Some (None, e')"
proof -
  have "range_order (\<lambda>xs :: (string \<times> unit) list. xs)" by simp
  note sent = transfer_signatures_were_verified [OF demo_holder_private demo_reads_holder this demo_holder_reachable demo_signed_transfer]
  have lists: "batch_lists (geth demo_signed_eth) (Deposits demo_eth_batch)
      = \<lparr> tokens = [[255, 65]], recipients = [[2]], amounts = [20], nonces = [7] \<rparr>" "uint (ID demo_eth_batch) = 3"
    by (simp_all add: batch_lists_def demo_eth_batch_def demo_signed_defs)
  from sent obtain auth sigs u where
    "wrapper_ExecuteTransfer (clientWrapper demo_signed_eth) auth [[255, 65]] [[2]] [20] [7] 3 sigs u
       = Some (Inr ''0xabc'', (demo_holder, 1))" "length sigs = 1"
    "\<forall>sig \<in> set sigs. \<exists>e e'. p2p_VerifyEthSignature demo_holder_broadcaster sig [1, 2, 3] e = Some (None, e')"
    unfolding lists Let_def argListsBatch.select_convs by auto
  moreover then obtain sig where "sigs = [sig]" by (auto simp: length_Suc_conv)
  moreover from this calculation(3) have "\<exists>e e'. p2p_VerifyEthSignature demo_holder_broadcaster sig [1, 2, 3] e = Some (None, e')"
    by (simp only: list.set(1,2)) blast
  ultimately show ?thesis by blast
qed

end
