(* ===== verification/Gas_Station.thy ===== *)
theory Gas_Station
  imports Core_Types
begin

section \<open>Gas prices (clients/gasManagement/)\<close>

text \<open>
  The gas station polls a web service for the price of gas, keeps the last price and hands it to the
  Ethereum client. The HTTP client, the JSON library and the rendering of \<^verbatim>\<open>%q\<close> (which only reaches error
  texts) are parameters; a duration is its number of nanoseconds. The fields that change are the record
  \<open>gasStation\<close>; \<^verbatim>\<open>processLoop\<close> runs on the answers of its \<^verbatim>\<open>select\<close> statement.
\<close>

definition EthFastGasPrice :: string where
  "EthFastGasPrice = ''FastGasPrice''"
definition EthSafeGasPrice :: string where
  "EthSafeGasPrice = ''SafeGasPrice''"
definition EthProposeGasPrice :: string where
  "EthProposeGasPrice = ''ProposeGasPrice''"

definition ErrLatestGasPricesWereNotFetched :: gerror where
  "ErrLatestGasPricesWereNotFetched =
     ErrNew ''gasManagement.ErrLatestGasPricesWereNotFetched'' ''latest gas price values couldn't have been fetched''"
definition ErrInvalidGasPriceSelector :: gerror where
  "ErrInvalidGasPriceSelector =
     ErrNew ''gasManagement.ErrInvalidGasPriceSelector'' ''invalid gas price selector''"
definition ErrGasPriceIsHigherThanTheMaximumSet :: gerror where
  "ErrGasPriceIsHigherThanTheMaximumSet =
     ErrNew ''gasManagement.ErrGasPriceIsHigherThanTheMaximumSet'' ''fetched gas price is higher than the maximum set''"

definition minPollingInterval :: int where
  "minPollingInterval = 1000000000"
definition gas_minRequestTime :: int where
  "gas_minRequestTime = 1000000"
definition minGasPriceMultiplier :: int where
  "minGasPriceMultiplier = 1"
definition minFetchRetries :: int where
  "minFetchRetries = 2"

subsection \<open>Reading a number\<close>

text \<open>
  \<^verbatim>\<open>fmt.Sscanf(str, "%d", &x)\<close> for an \<^verbatim>\<open>int\<close>: blanks are skipped (a line break is an error), a sign may
  follow, then the longest run of decimal digits is read; what comes after it is ignored. A value that
  does not fit 64 bits is an error. On an error \<^verbatim>\<open>x\<close> is not assigned.
\<close>

definition is_digit :: "char \<Rightarrow> bool" where
  "is_digit c \<longleftrightarrow> 48 \<le> (of_char c :: nat) \<and> (of_char c :: nat) \<le> 57"

definition digits_value :: "string \<Rightarrow> int" where
  "digits_value ds = foldl (\<lambda>acc c. acc * 10 + (of_char c - 48)) 0 ds"

definition scan_error :: "string \<Rightarrow> gerror" where
  "scan_error text = ErrNew ''fmt'' text"

fun skip_blanks :: "string \<Rightarrow> string res" where
  "skip_blanks [] = Inr []"
| "skip_blanks (c # cs) =
     (if c = CHR 0x0A then Inl (scan_error ''unexpected newline'')
      else if c \<in> {CHR 0x09, CHR 0x0B, CHR 0x0C, CHR 0x0D, CHR 0x20} then skip_blanks cs
      else Inr (c # cs))"

definition Sscanf_d :: "string \<Rightarrow> int res" where
  "Sscanf_d str =
     (case skip_blanks str of
        Inl err \<Rightarrow> Inl err
      | Inr [] \<Rightarrow> Inl (scan_error ''unexpected EOF'')
      | Inr (c # cs) \<Rightarrow>
          (let ds = takeWhile is_digit (if c = CHR ''+'' \<or> c = CHR ''-'' then cs else c # cs);
               v = (if c = CHR ''-'' then - digits_value ds else digits_value ds)
           in if ds = [] then Inl (scan_error ''expected integer'')
              else if v < - (2 ^ 63) \<or> v \<ge> 2 ^ 63 then Inl (scan_error ''integer overflow on token'')
              else Inr v))"

subsection \<open>Construction\<close>

record ArgsGasStation =
  gsarg_RequestURL :: string
  gsarg_RequestPollingInterval :: int
  gsarg_RequestRetryDelay :: int
  gsarg_MaximumFetchRetries :: int
  gsarg_RequestTime :: int
  gsarg_MaximumGasPrice :: int
  gsarg_GasPriceSelector :: string
  gsarg_GasPriceMultiplier :: int

record gasStationResponse =
  gsr_Status :: string
  gsr_Message :: string
  gsr_LastBlock :: string
  gsr_SafeGasPrice :: string
  gsr_ProposeGasPrice :: string
  gsr_FastGasPrice :: string
  gsr_SuggestBaseFee :: string
  gsr_GasUsedRatio :: string

text \<open>Only the three prices are used; the rest of the response is logged.\<close>

record ('s, 'req, 'resp) gasHttp =
  gas_NewRequest :: "string \<Rightarrow> 'req res"
  gas_Do :: "'req \<Rightarrow> ('s, 'resp res) go"
  gas_ReadAll :: "'resp \<Rightarrow> ('s, bytes res) go"
  Unmarshal_gasStationResponse :: "bytes \<Rightarrow> gasStationResponse res"
  gas_quoted :: "string \<Rightarrow> string"

record ('s, 'req, 'resp) gasStationDeps =
  gas_http :: "('s, 'req, 'resp) gasHttp"
  gas_requestURL :: string
  requestPollingInterval :: int
  requestRetryDelay :: int
  maximumFetchRetries :: int
  maximumGasPrice :: int
  gasPriceSelector :: string
  gasPriceMultiplier :: int

record gasStation =
  latestGasPrice :: int
  fetchRetries :: int
  loopStatus :: bool

definition gasStation_checkArgs :: "('s, 'req, 'resp) gasHttp \<Rightarrow> ArgsGasStation \<Rightarrow> gerror option" where
  "gasStation_checkArgs lib args =
     (if gsarg_RequestPollingInterval args < minPollingInterval
      then Some (Errorf '''' clients_ErrInvalidValue '' in checkArgs for value RequestPollingInterval'')
      else if gsarg_RequestRetryDelay args < minPollingInterval
      then Some (Errorf '''' clients_ErrInvalidValue '' in checkArgs for value RequestRetryDelay'')
      else if gsarg_RequestTime args < gas_minRequestTime
      then Some (Errorf '''' clients_ErrInvalidValue '' in checkArgs for value RequestTime'')
      else if gsarg_GasPriceMultiplier args < minGasPriceMultiplier
      then Some (Errorf '''' clients_ErrInvalidValue '' in checkArgs for value GasPriceMultiplier'')
      else if gsarg_MaximumFetchRetries args < minFetchRetries
      then Some (Errorf '''' clients_ErrInvalidValue '' in checkArgs for value MaximumFetchRetries'')
      else if gsarg_GasPriceSelector args \<in> {EthFastGasPrice, EthProposeGasPrice, EthSafeGasPrice} then None
      else Some (Errorf '''' ErrInvalidGasPriceSelector ('': '' @ gas_quoted lib (gsarg_GasPriceSelector args))))"

definition NewGasStation ::
  "('s, 'req, 'resp) gasHttp \<Rightarrow> ArgsGasStation \<Rightarrow> (('s, 'req, 'resp) gasStationDeps \<times> gasStation) res" where
  \<comment> \<open>the goroutine that is started is \<open>processLoop\<close>\<close>
  "NewGasStation lib args =
     (case gasStation_checkArgs lib args of
        Some err \<Rightarrow> Inl err
      | None \<Rightarrow>
          Inr (\<lparr> gas_http = lib, gas_requestURL = gsarg_RequestURL args,
                 requestPollingInterval = gsarg_RequestPollingInterval args,
                 requestRetryDelay = gsarg_RequestRetryDelay args,
                 maximumFetchRetries = gsarg_MaximumFetchRetries args,
                 maximumGasPrice = gsarg_MaximumGasPrice args,
                 gasPriceSelector = gsarg_GasPriceSelector args,
                 gasPriceMultiplier = gsarg_GasPriceMultiplier args \<rparr>,
               \<lparr> latestGasPrice = - 1, fetchRetries = 0, loopStatus = False \<rparr>))"

subsection \<open>Requests\<close>

definition gas_doRequestReturningBytes :: "('s, 'req, 'resp) gasStationDeps \<Rightarrow> ('s, bytes res) go" where
  "gas_doRequestReturningBytes d = (\<lambda>s.
     case gas_NewRequest (gas_http d) (gas_requestURL d) of
       Inl err \<Rightarrow> Some (Inl err, s)
     | Inr request \<Rightarrow> do {
         (r, s) \<leftarrow> gas_Do (gas_http d) request s;
         case r of
           Inl err \<Rightarrow> Some (Inl err, s)
         | Inr response \<Rightarrow> gas_ReadAll (gas_http d) response s })"

definition scan_selected :: "('s, 'req, 'resp) gasStationDeps \<Rightarrow> gasStationResponse \<Rightarrow> int res" where
  \<comment> \<open>the \<^verbatim>\<open>switch\<close> on the selector\<close>
  "scan_selected d response =
     (if gasPriceSelector d = EthFastGasPrice then Sscanf_d (gsr_FastGasPrice response)
      else if gasPriceSelector d = EthProposeGasPrice then Sscanf_d (gsr_ProposeGasPrice response)
      else if gasPriceSelector d = EthSafeGasPrice then Sscanf_d (gsr_SafeGasPrice response)
      else Inl (Errorf '''' ErrInvalidGasPriceSelector ('': '' @ gas_quoted (gas_http d) (gasPriceSelector d))))"

definition gas_doRequest :: "('s, 'req, 'resp) gasStationDeps \<Rightarrow> (gasStation \<times> 's, gerror option) go" where
  "gas_doRequest d = (\<lambda>(gs, s). do {
     (r, s) \<leftarrow> gas_doRequestReturningBytes d s;
     case r of
       Inl err \<Rightarrow> Some (Some (Errorf '''' err ('': '' @ gas_quoted (gas_http d) '''')), (gs, s))
     | Inr body \<Rightarrow>
         (let failed = (\<lambda>err. Some (Errorf '''' err ('': '' @ gas_quoted (gas_http d) (string_of_bytes body))))
          in case Unmarshal_gasStationResponse (gas_http d) body of
               Inl err \<Rightarrow> Some (failed err, (gs, s))
             | Inr response \<Rightarrow>
                 (let gs = gs\<lparr>latestGasPrice := - 1\<rparr>
                  in case scan_selected d response of
                       Inl err \<Rightarrow> Some (failed err, (gs, s))
                     | Inr price \<Rightarrow> Some (None, (gs\<lparr>latestGasPrice := price\<rparr>, s)))) })"

definition doRequestWithRetryMechanism :: "('s, 'req, 'resp) gasStationDeps \<Rightarrow> (gasStation \<times> 's, int) go" where
  "doRequestWithRetryMechanism d = (\<lambda>w. do {
     (err, (gs, s)) \<leftarrow> gas_doRequest d w;
     case err of
       None \<Rightarrow> Some (requestPollingInterval d, (gs\<lparr>fetchRetries := 0\<rparr>, s))
     | Some err \<Rightarrow>
         (let gs = gs\<lparr>fetchRetries := int_add (fetchRetries gs) 1\<rparr>
          in if fetchRetries gs \<le> maximumFetchRetries d then Some (requestRetryDelay d, (gs, s))
             else Some (requestPollingInterval d, (gs\<lparr>fetchRetries := 0\<rparr>, s))) })"

text \<open>
  The loop. Each element of the second argument is the branch a \<^verbatim>\<open>select\<close> took: \<open>True\<close> when the context was
  done, \<open>False\<close> when the timer fired; the list is empty when the loop still waits. The result is the list
  of the intervals the timer was set to.
\<close>

fun gas_loop :: "('s, 'req, 'resp) gasStationDeps \<Rightarrow> bool list \<Rightarrow> (gasStation \<times> 's, int list) go" where
  "gas_loop d selected w = do {
     (next_interval, w) \<leftarrow> doRequestWithRetryMechanism d w;
     case selected of
       [] \<Rightarrow> Some ([next_interval], w)
     | True # _ \<Rightarrow> Some ([next_interval], (fst w)\<lparr>loopStatus := False\<rparr>, snd w)
     | False # selected \<Rightarrow> do {
         (intervals, w) \<leftarrow> gas_loop d selected w;
         Some (next_interval # intervals, w) } }"

definition processLoop :: "('s, 'req, 'resp) gasStationDeps \<Rightarrow> bool list \<Rightarrow> (gasStation \<times> 's, int list) go" where
  "processLoop d selected = (\<lambda>(gs, s). gas_loop d selected (gs\<lparr>loopStatus := True\<rparr>, s))"

subsection \<open>The price\<close>

definition GetCurrentGasPrice :: "('s, 'req, 'resp) gasStationDeps \<Rightarrow> gasStation \<Rightarrow> int res" where
  "GetCurrentGasPrice d gs =
     (if latestGasPrice gs = - 1 then Inl ErrLatestGasPricesWereNotFetched
      else if latestGasPrice gs > maximumGasPrice d
      then Inl (Errorf '''' ErrGasPriceIsHigherThanTheMaximumSet
             ('' maximum value: '' @ show_int (maximumGasPrice d) @ '', fetched value: '' @ show_int (latestGasPrice gs)
              @ '', gas price selector: '' @ gasPriceSelector d))
      else Inr (latestGasPrice gs * gasPriceMultiplier d))"

definition DisabledGasStation_GetCurrentGasPrice :: "int res" where
  "DisabledGasStation_GetCurrentGasPrice = Inr 0"

datatype ('s, 'req, 'resp) GasHandler =
  GasStation "('s, 'req, 'resp) gasStationDeps" gasStation | DisabledGasStation

definition CreateGasStation ::
  "('s, 'req, 'resp) gasHttp \<Rightarrow> ArgsGasStation \<Rightarrow> bool \<Rightarrow> ('s, 'req, 'resp) GasHandler res" where
  "CreateGasStation lib args enabled =
     (if enabled then (case NewGasStation lib args of Inl err \<Rightarrow> Inl err | Inr (d, gs) \<Rightarrow> Inr (GasStation d gs))
      else Inr DisabledGasStation)"

subsection \<open>The polling history\<close>

text \<open>
  \<open>gas_reachable d served w\<close>: the station got into the state \<open>w\<close> by polling, while the world moved in
  between and the loop set its flag when it started or ended; \<open>served\<close> are the responses it could decode, the oldest first.
\<close>

definition decoded :: "('s, 'req, 'resp) gasStationDeps \<Rightarrow> bytes res \<Rightarrow> gasStationResponse list" where
  "decoded d r =
     (case r of
        Inl _ \<Rightarrow> []
      | Inr body \<Rightarrow> (case Unmarshal_gasStationResponse (gas_http d) body of Inl _ \<Rightarrow> [] | Inr response \<Rightarrow> [response]))"

inductive gas_reachable ::
  "('s, 'req, 'resp) gasStationDeps \<Rightarrow> gasStation \<Rightarrow> gasStationResponse list \<Rightarrow> gasStation \<times> 's \<Rightarrow> bool"
  for d gs0 where
  start: "gas_reachable d gs0 [] (gs0, s)"
| moved: "gas_reachable d gs0 served (gs, s) \<Longrightarrow> gas_reachable d gs0 served (gs, s')"
| flagged: "gas_reachable d gs0 served (gs, s) \<Longrightarrow> gas_reachable d gs0 served (gs\<lparr>loopStatus := running\<rparr>, s)"
| polled: "gas_reachable d gs0 served (gs, s) \<Longrightarrow> gas_doRequestReturningBytes d s = Some (r, s') \<Longrightarrow>
     doRequestWithRetryMechanism d (gs, s) = Some (interval, w) \<Longrightarrow> gas_reachable d gs0 (served @ decoded d r) w"

text \<open>The price a history of responses calls for.\<close>

definition price_of_history :: "('s, 'req, 'resp) gasStationDeps \<Rightarrow> gasStationResponse list \<Rightarrow> int" where
  "price_of_history d served =
     (if served = [] then - 1 else (case scan_selected d (last served) of Inl _ \<Rightarrow> - 1 | Inr v \<Rightarrow> v))"

lemma poll_outcome:
  assumes "gas_doRequestReturningBytes d s = Some (r, s')"
    and "doRequestWithRetryMechanism d (gs, s) = Some (interval, (gs', s''))"
  shows "latestGasPrice gs' = (if decoded d r = [] then latestGasPrice gs else price_of_history d (decoded d r))"
    and "fetchRetries gs' = 0 \<or> (fetchRetries gs' = int_add (fetchRetries gs) 1 \<and> fetchRetries gs' \<le> maximumFetchRetries d)"
  using assms
  by (auto simp: doRequestWithRetryMechanism_def gas_doRequest_def decoded_def price_of_history_def Let_def
      split: sum.splits if_splits)

lemma gas_reachable_history:
  assumes "gas_reachable d gs0 served w" and "latestGasPrice gs0 = - 1"
  shows "latestGasPrice (fst w) = price_of_history d served"
  using assms(1)
proof (induction rule: gas_reachable.induct)
  case (polled served gs s r s' interval w)
  then have "latestGasPrice (fst w) = (if decoded d r = [] then latestGasPrice gs else price_of_history d (decoded d r))"
    using poll_outcome(1) [of d s r s' gs interval "fst w" "snd w"] by simp
  with polled.IH show ?case by (auto simp: price_of_history_def)
qed (simp_all add: assms(2) price_of_history_def)

lemma gas_retries_bounded:
  assumes "gas_reachable d gs0 served w" and "fetchRetries gs0 = 0"
    and "0 \<le> maximumFetchRetries d" and "maximumFetchRetries d < 2 ^ 63 - 1"
  shows "0 \<le> fetchRetries (fst w) \<and> fetchRetries (fst w) \<le> maximumFetchRetries d"
  using assms(1)
proof (induction rule: gas_reachable.induct)
  case (polled served gs s r s' interval w)
  then have "fetchRetries (fst w) = 0 \<or> fetchRetries (fst w) = fetchRetries gs + 1 \<and> fetchRetries (fst w) \<le> maximumFetchRetries d"
    using poll_outcome(2) [of d s r s' gs interval "fst w" "snd w"] assms(4) int_add_exact [of "fetchRetries gs" 1] by auto
  with polled.IH assms(3) show ?case by auto
qed (use assms in auto)

text \<open>
  C32: the price of gas that the relayer pays follows the last decodable answer of the web service: in
  every state the polling loop can reach, \<^verbatim>\<open>GetCurrentGasPrice\<close> gives the number read from the configured
  field of the last answer, times the multiplier, and only when it does not exceed the maximum; there is
  no price before the first answer, when its field is not a number or when it is -1, by which the code marks a missing price, and requests that fail leave the
  price as it was. The number of retries in a row never exceeds the configured one.
\<close>

theorem gas_price_follows_last_answer:
  assumes "NewGasStation lib args = Inr (d, gs0)" and "gsarg_MaximumFetchRetries args < 2 ^ 63 - 1"
    and "gas_reachable d gs0 served (gs, s)"
  shows "(GetCurrentGasPrice d gs = Inr price \<longleftrightarrow>
            served \<noteq> [] \<and> (\<exists>v. scan_selected d (last served) = Inr v \<and> v \<noteq> - 1 \<and> v \<le> gsarg_MaximumGasPrice args
                         \<and> price = v * gsarg_GasPriceMultiplier args))
       \<and> 0 \<le> fetchRetries gs \<and> fetchRetries gs \<le> gsarg_MaximumFetchRetries args"
proof -
  from assms(1) have d: "maximumGasPrice d = gsarg_MaximumGasPrice args" "gasPriceMultiplier d = gsarg_GasPriceMultiplier args"
      "maximumFetchRetries d = gsarg_MaximumFetchRetries args" "2 \<le> maximumFetchRetries d"
      "latestGasPrice gs0 = - 1" "fetchRetries gs0 = 0"
    by (auto simp: NewGasStation_def gasStation_checkArgs_def minFetchRetries_def split: if_splits)
  have "latestGasPrice gs = price_of_history d served"
    using gas_reachable_history [OF assms(3) d(5)] by simp
  then have "GetCurrentGasPrice d gs = Inr price \<longleftrightarrow>
      served \<noteq> [] \<and> (\<exists>v. scan_selected d (last served) = Inr v \<and> v \<noteq> - 1 \<and> v \<le> maximumGasPrice d
                   \<and> price = v * gasPriceMultiplier d)"
    by (auto simp: GetCurrentGasPrice_def price_of_history_def split: sum.splits if_splits)
  moreover have "0 \<le> fetchRetries gs \<and> fetchRetries gs \<le> maximumFetchRetries d"
    using gas_retries_bounded [OF assms(3) d(6)] d(3,4) assms(2) by simp
  ultimately show ?thesis by (simp only: d(1-3))
qed

text \<open>A service that always answers with a fast price of 35.\<close>

definition demo_gasResponse :: gasStationResponse where
  "demo_gasResponse =
     \<lparr> gsr_Status = ''1'', gsr_Message = ''OK'', gsr_LastBlock = ''14836699'', gsr_SafeGasPrice = ''81'',
       gsr_ProposeGasPrice = ''82'', gsr_FastGasPrice = '' 35.5'', gsr_SuggestBaseFee = ''80.9'', gsr_GasUsedRatio = ''0.8'' \<rparr>"

definition demo_gasHttp :: "(nat, string, unit) gasHttp" where
  "demo_gasHttp =
     \<lparr> gas_NewRequest = (\<lambda>url. Inr url), gas_Do = (\<lambda>_ s. Some (Inr (), s + 1)), gas_ReadAll = (\<lambda>_ s. Some (Inr [123], s)),
       Unmarshal_gasStationResponse = (\<lambda>_. Inr demo_gasResponse),
       gas_quoted = (\<lambda>str. str) \<rparr>"

definition demo_gasArgs :: ArgsGasStation where
  "demo_gasArgs =
     \<lparr> gsarg_RequestURL = ''http://gas'', gsarg_RequestPollingInterval = 60000000000, gsarg_RequestRetryDelay = 5000000000,
       gsarg_MaximumFetchRetries = 3, gsarg_RequestTime = 2000000000, gsarg_MaximumGasPrice = 100,
       gsarg_GasPriceSelector = EthFastGasPrice, gsarg_GasPriceMultiplier = 1000000000 \<rparr>"

definition demo_gasStation :: "(nat, string, unit) gasStationDeps" where
  "demo_gasStation =
     \<lparr> gas_http = demo_gasHttp, gas_requestURL = ''http://gas'', requestPollingInterval = 60000000000,
       requestRetryDelay = 5000000000, maximumFetchRetries = 3, maximumGasPrice = 100,
       gasPriceSelector = EthFastGasPrice, gasPriceMultiplier = 1000000000 \<rparr>"

lemmas demo_gas_defs = demo_gasResponse_def demo_gasHttp_def demo_gasArgs_def demo_gasStation_def

lemma demo_NewGasStation:
  "NewGasStation demo_gasHttp demo_gasArgs
   = Inr (demo_gasStation, \<lparr> latestGasPrice = - 1, fetchRetries = 0, loopStatus = False \<rparr>)"
  by (simp add: NewGasStation_def gasStation_checkArgs_def minPollingInterval_def gas_minRequestTime_def
      minGasPriceMultiplier_def minFetchRetries_def demo_gas_defs)

lemma demo_scan: "Sscanf_d '' 35.5'' = Inr 35"
  by (simp add: Sscanf_d_def is_digit_def digits_value_def)

lemma demo_gas_reachable:
  "gas_reachable demo_gasStation \<lparr> latestGasPrice = - 1, fetchRetries = 0, loopStatus = False \<rparr>
     [demo_gasResponse]
     (\<lparr> latestGasPrice = 35, fetchRetries = 0, loopStatus = False \<rparr>, 1)"
proof -
  have "gas_doRequestReturningBytes demo_gasStation 0 = Some (Inr [123], 1)"
    by (simp add: gas_doRequestReturningBytes_def demo_gas_defs)
  moreover from this have "doRequestWithRetryMechanism demo_gasStation (\<lparr> latestGasPrice = - 1, fetchRetries = 0, loopStatus = False \<rparr>, 0)
      = Some (60000000000, (\<lparr> latestGasPrice = 35, fetchRetries = 0, loopStatus = False \<rparr>, 1))"
    by (simp add: doRequestWithRetryMechanism_def gas_doRequest_def scan_selected_def demo_gas_defs demo_scan)
  ultimately have "gas_reachable demo_gasStation \<lparr> latestGasPrice = - 1, fetchRetries = 0, loopStatus = False \<rparr>
      ([] @ decoded demo_gasStation (Inr [123])) (\<lparr> latestGasPrice = 35, fetchRetries = 0, loopStatus = False \<rparr>, 1)"
    by (rule gas_reachable.polled [OF gas_reachable.start])
  then show ?thesis by (simp add: decoded_def demo_gas_defs)
qed

theorem gas_price_follows_last_answer_witness:
  "GetCurrentGasPrice demo_gasStation \<lparr> latestGasPrice = 35, fetchRetries = 0, loopStatus = False \<rparr> = Inr 35000000000"
  using gas_price_follows_last_answer [OF demo_NewGasStation _ demo_gas_reachable, of 35000000000]
  by (simp add: scan_selected_def demo_gas_defs demo_scan)

end
