(* ===== verification/Logger_Timer.thy ===== *)
theory Logger_Timer
  imports Core_Types
begin

section \<open>The logger with an identifier and the NTP timer\<close>

text \<open>
  Models \<^verbatim>\<open>core/loggerWithIdentifier.go\<close>, the decorator every component of the relayer logs through, and
  \<^verbatim>\<open>core/timer/ntpTimer.go\<close>. The logger and the NTP synchronisation themselves are libraries, given by their operations.
\<close>

subsection \<open>The decorated logger\<close>

record 'x LogLine =
  line_Message :: string
  line_other :: 'x

record ('s, 'lvl, 'x) Logger =
  lg_Trace :: "string \<Rightarrow> goval list \<Rightarrow> ('s, unit) go"
  lg_Debug :: "string \<Rightarrow> goval list \<Rightarrow> ('s, unit) go"
  lg_Info :: "string \<Rightarrow> goval list \<Rightarrow> ('s, unit) go"
  lg_Warn :: "string \<Rightarrow> goval list \<Rightarrow> ('s, unit) go"
  lg_Error :: "string \<Rightarrow> goval list \<Rightarrow> ('s, unit) go"
  lg_Log :: "'lvl \<Rightarrow> string \<Rightarrow> goval list \<Rightarrow> ('s, unit) go"
  lg_LogLine :: "'x LogLine \<Rightarrow> ('s, unit) go"
  lg_SetLevel :: "'lvl \<Rightarrow> ('s, unit) go"
  lg_GetLevel :: "('s, 'lvl) go"

record ('s, 'lvl, 'x) loggerWithIdentifier =
  lwi_logger :: "('s, 'lvl, 'x) Logger"
  lwi_identifier :: string

definition NewLoggerWithIdentifier ::
  "('s, 'lvl, 'x) Logger option \<Rightarrow> string \<Rightarrow> ('s, 'lvl, 'x) loggerWithIdentifier option" where
  "NewLoggerWithIdentifier lg ident =
     (case lg of None \<Rightarrow> None | Some lg \<Rightarrow> Some \<lparr> lwi_logger = lg, lwi_identifier = ident \<rparr>)"

definition formatMessage :: "('s, 'lvl, 'x) loggerWithIdentifier \<Rightarrow> string \<Rightarrow> string" where
  "formatMessage l message = lwi_identifier l @ '' '' @ message"

definition lwi_Trace :: "('s, 'lvl, 'x) loggerWithIdentifier \<Rightarrow> string \<Rightarrow> goval list \<Rightarrow> ('s, unit) go" where
  "lwi_Trace l message args = lg_Trace (lwi_logger l) (formatMessage l message) args"

definition lwi_Debug :: "('s, 'lvl, 'x) loggerWithIdentifier \<Rightarrow> string \<Rightarrow> goval list \<Rightarrow> ('s, unit) go" where
  "lwi_Debug l message args = lg_Debug (lwi_logger l) (formatMessage l message) args"

definition lwi_Info :: "('s, 'lvl, 'x) loggerWithIdentifier \<Rightarrow> string \<Rightarrow> goval list \<Rightarrow> ('s, unit) go" where
  "lwi_Info l message args = lg_Info (lwi_logger l) (formatMessage l message) args"

definition lwi_Warn :: "('s, 'lvl, 'x) loggerWithIdentifier \<Rightarrow> string \<Rightarrow> goval list \<Rightarrow> ('s, unit) go" where
  "lwi_Warn l message args = lg_Warn (lwi_logger l) (formatMessage l message) args"

definition lwi_Error :: "('s, 'lvl, 'x) loggerWithIdentifier \<Rightarrow> string \<Rightarrow> goval list \<Rightarrow> ('s, unit) go" where
  "lwi_Error l message args = lg_Error (lwi_logger l) (formatMessage l message) args"

definition lwi_LogIfError :: "('s, 'lvl, 'x) loggerWithIdentifier \<Rightarrow> gerror option \<Rightarrow> goval list \<Rightarrow> ('s, unit) go" where
  \<comment> \<open>the message is formatted here and again in \<^verbatim>\<open>Error\<close>\<close>
  "lwi_LogIfError l err args =
     (case err of None \<Rightarrow> (\<lambda>s. Some ((), s)) | Some er \<Rightarrow> lwi_Error l (formatMessage l (error_text er)) args)"

definition lwi_Log :: "('s, 'lvl, 'x) loggerWithIdentifier \<Rightarrow> 'lvl \<Rightarrow> string \<Rightarrow> goval list \<Rightarrow> ('s, unit) go" where
  "lwi_Log l logLevel message args = lg_Log (lwi_logger l) logLevel (formatMessage l message) args"

definition lwi_LogLine :: "('s, 'lvl, 'x) loggerWithIdentifier \<Rightarrow> 'x LogLine option \<Rightarrow> ('s, 'x LogLine option) go" where
  \<comment> \<open>the line is changed in place: it is returned as the caller has it afterwards\<close>
  "lwi_LogLine l line = (\<lambda>s.
     case line of
       None \<Rightarrow> Some (None, s)
     | Some ln \<Rightarrow> let ln = ln\<lparr>line_Message := formatMessage l (line_Message ln)\<rparr> in do {
         (_, s) \<leftarrow> lg_LogLine (lwi_logger l) ln s;
         Some (Some ln, s) })"

definition lwi_SetLevel :: "('s, 'lvl, 'x) loggerWithIdentifier \<Rightarrow> 'lvl \<Rightarrow> ('s, unit) go" where
  "lwi_SetLevel l logLevel = lg_SetLevel (lwi_logger l) logLevel"

definition lwi_GetLevel :: "('s, 'lvl, 'x) loggerWithIdentifier \<Rightarrow> ('s, 'lvl) go" where
  "lwi_GetLevel l = lg_GetLevel (lwi_logger l)"

lemma LogIfError_prefixes_twice:
  "lwi_LogIfError l (Some er) args = lg_Error (lwi_logger l) (lwi_identifier l @ '' '' @ lwi_identifier l @ '' '' @ error_text er) args"
  by (simp add: lwi_LogIfError_def lwi_Error_def formatMessage_def)

lemma LogLine_twice:
  \<comment> \<open>a line that is logged a second time carries the identifier twice, since the caller's line was changed\<close>
  assumes "lwi_LogLine l (Some ln) s = Some (ln', s')" and "lwi_LogLine l ln' s' = Some (Some ln'', s'')"
  shows "line_Message ln'' = lwi_identifier l @ '' '' @ lwi_identifier l @ '' '' @ line_Message ln"
  using assms by (auto simp: lwi_LogLine_def formatMessage_def Let_def elim!: go_bindE)

subsection \<open>The timer\<close>

text \<open>The operations of the NTP synchronisation; times are Unix seconds.\<close>

record 's SyncTimer =
  CurrentTime_Unix :: "('s, int) go"
  StartSyncingTime :: "('s, unit) go"
  SyncTimer_Close :: "('s, gerror option) go"

record 's ntpTimer =
  ntpSyncTimer :: "'s SyncTimer"

record NTPConfig =
  ntp_Hosts :: "string list"
  ntp_Port :: int
  ntp_Version :: int
  TimeoutMilliseconds :: int
  SyncPeriodSeconds :: int

definition defaultNTPConfig :: NTPConfig where
  "defaultNTPConfig =
     \<lparr> ntp_Hosts = [''time.google.com'', ''time.cloudflare.com'', ''time.apple.com'', ''time.windows.com''],
       ntp_Port = 123, ntp_Version = 0, TimeoutMilliseconds = 100, SyncPeriodSeconds = 3600 \<rparr>"

definition NewNTPTimer :: "(NTPConfig \<Rightarrow> 's SyncTimer) \<Rightarrow> 's ntpTimer" where
  \<comment> \<open>the argument is \<^verbatim>\<open>ntp.NewSyncTime\<close>\<close>
  "NewNTPTimer newSyncTime = \<lparr> ntpSyncTimer = newSyncTime defaultNTPConfig \<rparr>"

definition ntpTimer_NowUnix :: "'s ntpTimer \<Rightarrow> ('s, int) go" where
  "ntpTimer_NowUnix n = CurrentTime_Unix (ntpSyncTimer n)"

definition ntpTimer_Start :: "'s ntpTimer \<Rightarrow> ('s, unit) go" where
  "ntpTimer_Start n = StartSyncingTime (ntpSyncTimer n)"

definition ntpTimer_Close :: "'s ntpTimer \<Rightarrow> ('s, gerror option) go" where
  "ntpTimer_Close n = SyncTimer_Close (ntpSyncTimer n)"

end
