(* ===== verification/Relayer_Components.thy ===== *)
theory Relayer_Components
  imports Relayer_Factory Transfer_Signatures Gas_Station Logger_Timer
begin

section \<open>Building the relayer (factory/ethElrondBridgeComponents.go)\<close>

text \<open>
  \<^verbatim>\<open>NewEthElrondBridgeComponents\<close> allocates every component and connects them by pointers. The memory the
  components share is the state \<open>relayerState\<close>: the signatures holder, which the broadcaster fills, the
  Ethereum client reads and one of the half-bridges clears, and the record \<open>relayerParts\<close> of the
  other components. What lies outside the process (the nodes, the disk, the peers, the clock) is the field
  \<open>rp_outside\<close>; a service of the outside is lifted by \<open>outside\<close> and cannot touch the memory of the relayer.
\<close>

subsection \<open>The memory of a relayer\<close>

record ('addr, 'e) relayerParts =
  rp_dataGetter :: elrondClientDataGetter
  rp_elrondRoleProvider :: elrondRoleProvider
  rp_elrondClient :: elrond_client
  rp_ethereumRoleProvider :: "'addr ethereumRoleProvider"
  rp_counter :: uint64
  rp_nonces :: noncesOfPublicKeys
  rp_gasStation :: gasStation
  rp_ethClient :: ethereum_client
  rp_outside :: 'e

type_synonym ('addr, 'e) relayerState = "signaturesHolder \<times> ('addr, 'e) relayerParts"

definition outside :: "('e, 'r) go \<Rightarrow> (('addr, 'e) relayerState, 'r) go" where
  "outside m = (\<lambda>(h, p). do { (r, e) \<leftarrow> m (rp_outside p); Some (r, (h, p\<lparr>rp_outside := e\<rparr>)) })"

text \<open>An operation of a component that owns one part of the memory and may call the others.\<close>

definition within :: "('p \<Rightarrow> 'c) \<Rightarrow> ('c \<Rightarrow> 'p \<Rightarrow> 'p) \<Rightarrow> ('c \<times> 'h \<times> 'p, 'r) go \<Rightarrow> ('h \<times> 'p, 'r) go" where
  "within get put m = (\<lambda>(h, p). do { (r, (c, (h, p))) \<leftarrow> m (get p, (h, p)); Some (r, (h, put c p)) })"

definition broadcaster_get ::
  "('addr, 'e) relayerState BroadcastClient list \<Rightarrow> ('addr, 'e) relayerParts \<Rightarrow> ('addr, 'e) relayerState broadcaster" where
  \<comment> \<open>the clients are registered by the factory, before any message can arrive\<close>
  "broadcaster_get cs p = \<lparr> counter = rp_counter p, nonces = rp_nonces p, clients = cs \<rparr>"

definition broadcaster_put :: "('addr, 'e) relayerState broadcaster \<Rightarrow> ('addr, 'e) relayerParts \<Rightarrow> ('addr, 'e) relayerParts" where
  "broadcaster_put b p = p\<lparr>rp_counter := counter b, rp_nonces := nonces b\<rparr>"

abbreviation at_elrondClient :: "(elrond_client \<times> ('addr, 'e) relayerState, 'r) go \<Rightarrow> (('addr, 'e) relayerState, 'r) go" where
  "at_elrondClient \<equiv> within rp_elrondClient (\<lambda>c p. p\<lparr>rp_elrondClient := c\<rparr>)"

abbreviation at_ethClient :: "(ethereum_client \<times> ('addr, 'e) relayerState, 'r) go \<Rightarrow> (('addr, 'e) relayerState, 'r) go" where
  "at_ethClient \<equiv> within rp_ethClient (\<lambda>c p. p\<lparr>rp_ethClient := c\<rparr>)"

abbreviation at_broadcaster ::
  "('addr, 'e) relayerState BroadcastClient list \<Rightarrow> (('addr, 'e) relayerState broadcaster \<times> ('addr, 'e) relayerState, 'r) go
   \<Rightarrow> (('addr, 'e) relayerState, 'r) go" where
  "at_broadcaster cs \<equiv> within (broadcaster_get cs) broadcaster_put"

text \<open>The interfaces of the outside, lifted operation by operation.\<close>

definition outside_status :: "'e StatusHandler \<Rightarrow> ('addr, 'e) relayerState StatusHandler" where
  "outside_status sh =
     \<lparr> SetIntMetric = (\<lambda>m i. outside (SetIntMetric sh m i)), AddIntMetric = (\<lambda>m i. outside (AddIntMetric sh m i)),
       SetStringMetric = (\<lambda>m t. outside (SetStringMetric sh m t)) \<rparr>"

definition outside_proxy :: "'e ElrondProxy \<Rightarrow> ('addr, 'e) relayerState ElrondProxy" where
  "outside_proxy p =
     \<lparr> ExecuteVMQuery = (\<lambda>req. outside (ExecuteVMQuery p req)),
       GetNetworkStatus = (\<lambda>shard. outside (GetNetworkStatus p shard)),
       GetShardOfAddress = (\<lambda>a. outside (GetShardOfAddress p a)),
       GetNetworkConfig = outside (GetNetworkConfig p) \<rparr>"

definition outside_wrapper :: "('e, 'addr) ethereumChainWrapper \<Rightarrow> (('addr, 'e) relayerState, 'addr) ethereumChainWrapper" where
  "outside_wrapper w =
     (let c = wrapper_multiSigContract w; b = wrapper_blockchainClient w in
      \<lparr> wrapper_StatusHandler = outside_status (wrapper_StatusHandler w),
        wrapper_multiSigContract =
          \<lparr> msc_GetBatch = (\<lambda>n. outside (msc_GetBatch c n)), msc_GetBatchDeposits = (\<lambda>n. outside (msc_GetBatchDeposits c n)),
            msc_GetRelayers = outside (msc_GetRelayers c), msc_WasBatchExecuted = (\<lambda>n. outside (msc_WasBatchExecuted c n)),
            msc_ExecuteTransfer = (\<lambda>opts ts rs as ns n sigs. outside (msc_ExecuteTransfer c opts ts rs as ns n sigs)),
            msc_Quorum = outside (msc_Quorum c),
            msc_GetStatusesAfterExecution = (\<lambda>n. outside (msc_GetStatusesAfterExecution c n)),
            msc_Paused = outside (msc_Paused c) \<rparr>,
        wrapper_blockchainClient =
          \<lparr> bcc_BlockNumber = outside (bcc_BlockNumber b), bcc_NonceAt = (\<lambda>a n. outside (bcc_NonceAt b a n)),
            bcc_ChainID = outside (bcc_ChainID b), bcc_BalanceAt = (\<lambda>a. outside (bcc_BalanceAt b a)) \<rparr> \<rparr>)"

definition outside_statusDeps :: "'e statusDeps \<Rightarrow> ('addr, 'e) relayerState statusDeps" where
  "outside_statusDeps d =
     \<lparr> storer = \<lparr> Put = (\<lambda>k v. outside (Put (storer d) k v)), Get = (\<lambda>k. outside (Get (storer d) k)) \<rparr>,
       Marshal_persistence = Marshal_persistence d, Unmarshal_persistence = Unmarshal_persistence d \<rparr>"

subsection \<open>Configuration (config/config.go)\<close>

record GasStationConfig =
  gsc_Enabled :: bool
  gsc_URL :: string
  PollingIntervalInSeconds :: int
  RequestRetryDelayInSeconds :: int
  MaxFetchRetries :: int
  RequestTimeInSeconds :: int
  MaximumAllowedGasPrice :: int
  gsc_GasPriceSelector :: string
  gsc_GasPriceMultiplier :: int

record EthereumConfig =
  ethcfg_Chain :: Chain
  ethcfg_NetworkAddress :: string
  ethcfg_MultisigContractAddress :: string
  SafeContractAddress :: string
  ethcfg_PrivateKeyFile :: string
  ethcfg_IntervalToResendTxsInSeconds :: uint64
  GasLimitBase :: uint64
  GasLimitForEach :: uint64
  ethcfg_GasStation :: GasStationConfig
  ethcfg_MaxRetriesOnQuorumReached :: uint64
  IntervalToWaitForTransferInSeconds :: uint64
  MaxBlocksDelta :: uint64

record ElrondConfig =
  elcfg_NetworkAddress :: string
  elcfg_MultisigContractAddress :: string
  elcfg_PrivateKeyFile :: string
  elcfg_IntervalToResendTxsInSeconds :: uint64
  GasMap :: ElrondGasMapConfig
  elcfg_MaxRetriesOnQuorumReached :: uint64
  MaxRetriesOnWasTransferProposed :: uint64
  ProxyCacherExpirationSeconds :: uint64
  ProxyRestAPIEntityType :: string
  ProxyMaxNoncesDelta :: int
  ProxyFinalityCheck :: bool

record Config =
  cfg_Eth :: EthereumConfig
  cfg_Elrond :: ElrondConfig
  StateMachine :: "(string, ConfigStateMachine) gomap"
  PollingIntervalInMillis :: uint64
  BatchValidator :: BatchValidatorConfig

text \<open>
  \<open>PollingIntervalInMillis\<close> is \<^verbatim>\<open>Relayer.RoleProvider.PollingIntervalInMillis\<close>. The sections of the
  configuration that are handed to libraries (the p2p and antiflood settings, the storage, the logs) are
  part of the library functions that read them.
\<close>

definition bridgeConfig_of :: "Config \<Rightarrow> bridgeConfig" where
  "bridgeConfig_of cfg =
     \<lparr> cfg_StateMachine = StateMachine cfg, cfg_BatchValidator = BatchValidator cfg,
       Eth_IntervalToWaitForTransferInSeconds = IntervalToWaitForTransferInSeconds (cfg_Eth cfg),
       Eth_MaxRetriesOnQuorumReached = ethcfg_MaxRetriesOnQuorumReached (cfg_Eth cfg),
       Elrond_MaxRetriesOnQuorumReached = elcfg_MaxRetriesOnQuorumReached (cfg_Elrond cfg),
       Elrond_MaxRetriesOnWasTransferProposed = MaxRetriesOnWasTransferProposed (cfg_Elrond cfg) \<rparr>"

subsection \<open>Arguments\<close>

text \<open>The messenger is the network; \<open>SetPeerDenialEvaluator\<close> hands it the evaluator the factory makes.\<close>

record 'e NetMessenger =
  Bootstrap :: "('e, gerror option) go"
  SetPeerDenialEvaluator :: "'e peerDenialEvaluator \<Rightarrow> ('e, gerror option) go"
  msg_Broadcast :: "string \<Rightarrow> bytes \<Rightarrow> ('e, unit) go"
  msg_SendToConnectedPeer :: "string \<Rightarrow> bytes \<Rightarrow> string \<Rightarrow> ('e, gerror option) go"
  msg_CreateTopic :: "string \<Rightarrow> bool \<Rightarrow> ('e, gerror option) go"
  msg_RegisterMessageProcessor :: "string \<Rightarrow> string \<Rightarrow> ('e, gerror option) go"
  msg_Close :: "('e, gerror option) go"

record ('addr, 'e) ArgsEthereumToElrondBridge =
  Configs :: Config
  Messenger :: "'e NetMessenger option"
  StatusStorer :: "'e statusDeps option"
  Proxy :: "'e ElrondProxy option"
  ElrondClientStatusHandler :: "'e StatusHandler option"
  Erc20ContractsHolder :: "('addr \<Rightarrow> 'addr \<Rightarrow> ('e, int res) go) option"
  ClientWrapper :: "('e, 'addr) ethereumChainWrapper option"
  TimeForBootstrap :: int
  TimeBeforeRepeatJoin :: int
  MetricsHolder :: "unit option"
  AppStatusHandler :: "unit option"

text \<open>
  \<open>StatusStorer\<close> is the storer with the JSON codec the status handlers use; the metrics holder is part of
  the state the constructor runs in. \<open>duration_text\<close> is the rendering of a duration by \<^verbatim>\<open>%v\<close>.
\<close>

definition checkArgsEthereumToElrondBridge ::
  "(int \<Rightarrow> string) \<Rightarrow> ('addr, 'e) ArgsEthereumToElrondBridge \<Rightarrow> gerror option" where
  "checkArgsEthereumToElrondBridge duration_text args =
     (if Proxy args = None then Some errNilProxy_factory
      else if Messenger args = None then Some errNilMessenger
      else if ClientWrapper args = None then Some errNilEthClient_factory
      else if StatusStorer args = None then Some errNilStatusStorer
      else if Erc20ContractsHolder args = None then Some errNilErc20ContractsHolder
      else if TimeForBootstrap args < minTimeForBootstrap
      then Some (Errorf '''' errInvalidValue_factory
             ('' for TimeForBootstrap, received: '' @ duration_text (TimeForBootstrap args)
              @ '', minimum: '' @ duration_text minTimeForBootstrap))
      else if TimeBeforeRepeatJoin args < minTimeBeforeRepeatJoin
      then Some (Errorf '''' errInvalidValue_factory
             ('' for TimeBeforeRepeatJoin, received: '' @ duration_text (TimeBeforeRepeatJoin args)
              @ '', minimum: '' @ duration_text minTimeBeforeRepeatJoin))
      else if MetricsHolder args = None then Some errNilMetricsHolder
      else if AppStatusHandler args = None then Some errNilStatusHandler_factory
      else None)"

subsection \<open>Libraries\<close>

text \<open>
  What the factory takes from the SDKs: keys and addresses, the antiflood components, the polling handler
  (which calls \<^verbatim>\<open>Execute\<close> of a component at an interval), the NTP timer, files. \<open>lib_elrondSDK\<close> and
  \<open>lib_geth\<close> are the libraries of the clients with the private key they use; \<open>lib_ethAddress\<close> is the
  address of the public key, \<open>None\<close> if it is not an ECDSA key.
\<close>

record 'e antiFloodComponents =
  af_CanProcessMessage :: "messageP2P \<Rightarrow> string \<Rightarrow> ('e, gerror option) go"
  af_CanProcessMessagesOnTopic :: "string \<Rightarrow> string \<Rightarrow> nat \<Rightarrow> nat \<Rightarrow> bytes \<Rightarrow> ('e, gerror option) go"
  af_BlacklistPeer :: "string \<Rightarrow> string \<Rightarrow> ('e, unit) go"
  af_BlacklistHandler :: "((string \<Rightarrow> ('e, bool) go) \<times> (string \<Rightarrow> int \<Rightarrow> ('e, gerror option) go)) option"
  af_PubKeysCacher :: "(string \<Rightarrow> ('e, bool) go) option"

datatype pollExecutor =
  Execute_elrondRoleProvider | Execute_ethereumRoleProvider | Execute_ethToElrondStateMachine | Execute_elrondToEthStateMachine

record PollingHandler =
  ph_Name :: string
  ph_PollingInterval :: int
  ph_PollingWhenError :: int
  ph_Executor :: pollExecutor

record p2pCodec =
  codec_Unmarshal_SignedMessage :: "bytes \<Rightarrow> SignedMessage res"
  codec_Marshal_SignedMessage :: "SignedMessage \<Rightarrow> bytes res"
  codec_Unmarshal_EthereumSignature :: "bytes \<Rightarrow> EthereumSignature res"
  codec_Marshal_EthereumSignature :: "EthereumSignature \<Rightarrow> bytes res"

record ('addr, 'e, 'a, 'sk, 'pk, 'esk, 'epk, 'ty, 'req, 'resp) relayerLibs =
  lib_NewBech32PubkeyConverter :: "(bytes \<Rightarrow> string) res"
  lib_LoadPrivateKeyFromPemFile :: "string \<Rightarrow> ('e, bytes res) go"
  lib_PrivateKeyFromByteArray :: "bytes \<Rightarrow> 'sk res"
  lib_GetAddressFromPrivateKey :: "bytes \<Rightarrow> 'a res"
  lib_NewAddressFromBech32String :: "string \<Rightarrow> 'a res"
  lib_addresses :: "'a AddressLib"
  lib_elrondSDK :: "'sk \<Rightarrow> (('addr, 'e) relayerState, 'a) elrondSDK"
  lib_codec :: p2pCodec
  lib_PublicKeyFromByteArray :: "bytes \<Rightarrow> 'pk res"
  lib_signer_Verify :: "'pk \<Rightarrow> bytes \<Rightarrow> bytes \<Rightarrow> gerror option"
  lib_UnixNano :: "('e, uint64) go"
  lib_NewP2PAntiFloodComponents :: "('e, 'e antiFloodComponents res) go"
  lib_NewPollingHandler :: "PollingHandler \<Rightarrow> gerror option"
  lib_StartProcessingLoop :: "PollingHandler \<Rightarrow> ('e, gerror option) go"
  lib_ClosePollingHandler :: "PollingHandler \<Rightarrow> ('e, gerror option) go"
  lib_NewSyncTime :: "NTPConfig \<Rightarrow> 'e SyncTimer"
  lib_ReadFile :: "string \<Rightarrow> ('e, bytes res) go"
  lib_HexToECDSA :: "string \<Rightarrow> 'esk res"
  lib_ethAddress :: "'esk \<Rightarrow> 'addr option"
  lib_HexToAddress :: "string \<Rightarrow> 'addr"
  lib_geth :: "'esk \<Rightarrow> ('addr, 'ty) gethLib"
  lib_ethCrypto :: "('addr, 'epk) EthCrypto"
  lib_gasHttp :: "(('addr, 'e) relayerState, 'req, 'resp) gasHttp"
  lib_validatorHttp :: "(('addr, 'e) relayerState, 'req, 'resp) validatorHttp"
  lib_range_keys :: "(string \<times> unit) list \<Rightarrow> (string \<times> unit) list"
  lib_range_transfers :: "('addr \<times> int) list \<Rightarrow> ('addr \<times> int) list"
  lib_hasher :: "bytes \<Rightarrow> bytes"
  lib_select :: "int \<Rightarrow> ('e, bool) go"
  lib_Sleep :: "int \<Rightarrow> ('e, unit) go"
  lib_level_text :: "LogLevel \<Rightarrow> string"
  lib_marshal_batch :: "TransferBatch \<Rightarrow> string"
  lib_quoted :: "string \<Rightarrow> string"
  lib_duration_text :: "int \<Rightarrow> string"

definition pollingDurationOnError :: int where
  "pollingDurationOnError = 5000000000"

definition errPublicKeyCast_factory :: gerror where
  "errPublicKeyCast_factory = ErrNew ''factory.errPublicKeyCast'' ''error casting public key to ECDSA''"

subsection \<open>Handlers to start and to close\<close>

text \<open>A nil closable is \<open>None\<close>.\<close>

datatype Closable = Close_timer | Close_elrondClient | Close_pollingHandler PollingHandler

record handlers =
  closableHandlers :: "Closable option list"
  pollingHandlers :: "PollingHandler list"

definition addClosableComponent :: "Closable option \<Rightarrow> handlers \<Rightarrow> handlers" where
  "addClosableComponent closable hs = hs\<lparr>closableHandlers := closableHandlers hs @ [closable]\<rparr>"

definition addPollingHandler ::
  "('addr, 'e, 'a, 'sk, 'pk, 'esk, 'epk, 'ty, 'req, 'resp) relayerLibs \<Rightarrow> PollingHandler \<Rightarrow> handlers \<Rightarrow> handlers res" where
  "addPollingHandler L ph hs =
     (case lib_NewPollingHandler L ph of
        Some err \<Rightarrow> Inl err
      | None \<Rightarrow>
          (let hs = addClosableComponent (Some (Close_pollingHandler ph)) hs
           in Inr (hs\<lparr>pollingHandlers := pollingHandlers hs @ [ph]\<rparr>)))"

subsection \<open>The Elrond side\<close>

definition createElrondKeysAndAddresses ::
  "('addr, 'e, 'a, 'sk, 'pk, 'esk, 'epk, 'ty, 'req, 'resp) relayerLibs \<Rightarrow> ElrondConfig
   \<Rightarrow> (('addr, 'e) relayerState, ('sk \<times> 'a \<times> 'a) res) go" where
  \<comment> \<open>the private key, the address of the relayer, the address of the multisig contract\<close>
  "createElrondKeysAndAddresses L elrondConfigs = (\<lambda>s. do {
     (r, s) \<leftarrow> outside (lib_LoadPrivateKeyFromPemFile L (elcfg_PrivateKeyFile elrondConfigs)) s;
     case r of
       Inl err \<Rightarrow> Some (Inl err, s)
     | Inr elrondPrivateKeyBytes \<Rightarrow>
         (case lib_PrivateKeyFromByteArray L elrondPrivateKeyBytes of
            Inl err \<Rightarrow> Some (Inl err, s)
          | Inr sk \<Rightarrow>
              (case lib_GetAddressFromPrivateKey L elrondPrivateKeyBytes of
                 Inl err \<Rightarrow> Some (Inl err, s)
               | Inr relayer \<Rightarrow>
                   (case lib_NewAddressFromBech32String L (elcfg_MultisigContractAddress elrondConfigs) of
                      Inl err \<Rightarrow> Some (Inl (Errorf '''' err '' for elrondConfigs.MultisigContractAddress''), s)
                    | Inr multisig \<Rightarrow> Some (Inr (sk, relayer, multisig), s)))) })"

definition createDataGetter ::
  "('addr, 'e, 'a, 'sk, 'pk, 'esk, 'epk, 'ty, 'req, 'resp) relayerLibs \<Rightarrow> 'sk \<Rightarrow> 'a \<Rightarrow> 'a \<Rightarrow> 'e ElrondProxy
   \<Rightarrow> (('addr, 'e) relayerState, (('addr, 'e) relayerState, 'a) dataGetterDeps res) go" where
  "createDataGetter L sk relayer multisig p = (\<lambda>(h, parts).
     case NewDataGetter (sdk_AddressAsBech32String (lib_elrondSDK L sk)) (sdk_ToVmValueRequest (lib_elrondSDK L sk))
            \<lparr> dg_MultisigContractAddress = Some multisig, dg_RelayerAddress = Some relayer,
              dg_Proxy = Some (outside_proxy p), dg_Log = Some () \<rparr> of
       Inl err \<Rightarrow> Some (Inl err, (h, parts))
     | Inr (getter, dg) \<Rightarrow> Some (Inr getter, (h, parts\<lparr>rp_dataGetter := dg\<rparr>)))"

definition createElrondRoleProvider ::
  "('addr, 'e, 'a, 'sk, 'pk, 'esk, 'epk, 'ty, 'req, 'resp) relayerLibs \<Rightarrow> Config
   \<Rightarrow> (('addr, 'e) relayerState, 'a) dataGetterDeps \<Rightarrow> handlers \<Rightarrow> (('addr, 'e) relayerState, handlers res) go" where
  "createElrondRoleProvider L configs getter hs = (\<lambda>(h, parts).
     case NewElrondRoleProvider \<lparr> erp_DataGetter = Some (GetAllStakedRelayers getter), erp_Log = Some () \<rparr> of
       Inl err \<Rightarrow> Some (Inl err, (h, parts))
     | Inr erp \<Rightarrow>
         Some (addPollingHandler L
                 \<lparr> ph_Name = ''Elrond role provider'', ph_PollingInterval = times 1000000 (PollingIntervalInMillis configs),
                   ph_PollingWhenError = pollingDurationOnError, ph_Executor = Execute_elrondRoleProvider \<rparr> hs,
               (h, parts\<lparr>rp_elrondRoleProvider := erp\<rparr>)))"

definition createElrondClient ::
  "('addr, 'e, 'a, 'sk, 'pk, 'esk, 'epk, 'ty, 'req, 'resp) relayerLibs \<Rightarrow> ('addr, 'e) ArgsEthereumToElrondBridge
   \<Rightarrow> 'sk \<Rightarrow> 'a \<Rightarrow> (('addr, 'e) relayerState, 'a) dataGetterDeps \<Rightarrow> handlers
   \<Rightarrow> (('addr, 'e) relayerState, ((('addr, 'e) relayerState, 'a) elrondClientDeps \<times> handlers) res) go" where
  "createElrondClient L args sk multisig getter hs = (\<lambda>(h, parts).
     let elrondConfigs = cfg_Elrond (Configs args)
     in case NewElrondToErc20Mapper (Some \<lparr> dg_GetTokenIdForErc20Address = GetTokenIdForErc20Address getter,
                                           dg_GetERC20AddressForTokenId = GetERC20AddressForTokenId getter \<rparr>) of
          Inl err \<Rightarrow> Some (Inl err, (h, parts))
        | Inr mapper \<Rightarrow>
            (let clientArgs =
                   \<lparr> eca_GasMapConfig = GasMap elrondConfigs, eca_Proxy = map_option outside_proxy (Proxy args),
                     eca_Log = Some (), eca_RelayerPrivateKey = Some (), eca_MultisigContractAddress = Some multisig,
                     eca_IntervalToResendTxsInSeconds = elcfg_IntervalToResendTxsInSeconds elrondConfigs,
                     eca_TokensMapper = Some (elrondToErc20_ConvertToken mapper),
                     eca_RoleProvider = Some (\<lambda>a s. Some (elrondRoleProvider_IsWhitelisted (lib_addresses L)
                                                          (rp_elrondRoleProvider (snd s)) (Some a), s)),
                     eca_StatusHandler = map_option outside_status (ElrondClientStatusHandler args),
                     eca_AllowDelta = word_of_int (ProxyMaxNoncesDelta elrondConfigs) \<rparr>
             in case NewElrondClient (lib_elrondSDK L sk) clientArgs of
                  Inl err \<Rightarrow> Some (Inl err, (h, parts))
                | Inr (d, c) \<Rightarrow>
                    Some (Inr (d, addClosableComponent (Some Close_elrondClient) hs), (h, parts\<lparr>rp_elrondClient := c\<rparr>))))"

subsection \<open>The Ethereum side\<close>

definition createEthereumRoleProvider ::
  "('addr, 'e, 'a, 'sk, 'pk, 'esk, 'epk, 'ty, 'req, 'resp) relayerLibs \<Rightarrow> ('addr, 'e) ArgsEthereumToElrondBridge
   \<Rightarrow> handlers \<Rightarrow> (('addr, 'e) relayerState, handlers res) go" where
  "createEthereumRoleProvider L args hs = (\<lambda>(h, parts).
     case NewEthereumRoleProvider
            \<lparr> ethrp_EthereumChainInteractor = map_option (\<lambda>w. wrapper_GetRelayers (outside_wrapper w)) (ClientWrapper args)
                :: (('addr, 'e) relayerState, 'addr list res) go option,
              ethrp_Log = Some () \<rparr> of
       Inl err \<Rightarrow> Some (Inl err, (h, parts))
     | Inr erp \<Rightarrow>
         Some (addPollingHandler L
                 \<lparr> ph_Name = ethcfg_Chain (cfg_Eth (Configs args)) @ '' role provider'',
                   ph_PollingInterval = times 1000000 (PollingIntervalInMillis (Configs args)),
                   ph_PollingWhenError = pollingDurationOnError, ph_Executor = Execute_ethereumRoleProvider \<rparr> hs,
               (h, parts\<lparr>rp_ethereumRoleProvider := erp\<rparr>)))"

definition createAntifloodComponents ::
  "('addr, 'e, 'a, 'sk, 'pk, 'esk, 'epk, 'ty, 'req, 'resp) relayerLibs \<Rightarrow> (('addr, 'e) relayerState, 'e antiFloodComponents res) go" where
  "createAntifloodComponents L = (\<lambda>s. do {
     (r, s) \<leftarrow> outside (lib_NewP2PAntiFloodComponents L) s;
     case r of
       Inl err \<Rightarrow> Some (Inl err, s)
     | Inr antiFloodComponents \<Rightarrow> Some (Inr antiFloodComponents, s) })"

definition argsGasStation :: "GasStationConfig \<Rightarrow> ArgsGasStation" where
  "argsGasStation gasStationConfig =
     \<lparr> gsarg_RequestURL = gsc_URL gasStationConfig,
       gsarg_RequestPollingInterval = times 1000000000 (word_of_int (PollingIntervalInSeconds gasStationConfig)),
       gsarg_RequestRetryDelay = times 1000000000 (word_of_int (RequestRetryDelayInSeconds gasStationConfig)),
       gsarg_MaximumFetchRetries = MaxFetchRetries gasStationConfig,
       gsarg_RequestTime = times 1000000000 (word_of_int (RequestTimeInSeconds gasStationConfig)),
       gsarg_MaximumGasPrice = MaximumAllowedGasPrice gasStationConfig,
       gsarg_GasPriceSelector = gsc_GasPriceSelector gasStationConfig,
       gsarg_GasPriceMultiplier = gsc_GasPriceMultiplier gasStationConfig \<rparr>"

definition gas_price_of :: "(('addr, 'e) relayerState, 'req, 'resp) GasHandler \<Rightarrow> (('addr, 'e) relayerState, int res) go" where
  \<comment> \<open>\<^verbatim>\<open>GetCurrentGasPrice\<close> of the gas handler, on the state of the station\<close>
  "gas_price_of gs = (\<lambda>s. case gs of
     GasStation d _ \<Rightarrow> Some (GetCurrentGasPrice d (rp_gasStation (snd s)), s)
   | DisabledGasStation \<Rightarrow> Some (DisabledGasStation_GetCurrentGasPrice, s))"

definition store_gasStation :: "('s, 'req, 'resp) GasHandler \<Rightarrow> ('addr, 'e) relayerState \<Rightarrow> ('addr, 'e) relayerState" where
  "store_gasStation gs = (\<lambda>(h, parts).
     case gs of GasStation _ g \<Rightarrow> (h, parts\<lparr>rp_gasStation := g\<rparr>) | DisabledGasStation \<Rightarrow> (h, parts))"

definition broadcasterDeps_of ::
  "('addr, 'e, 'a, 'sk, 'pk, 'esk, 'epk, 'ty, 'req, 'resp) relayerLibs \<Rightarrow> 'e NetMessenger \<Rightarrow> 'sk
   \<Rightarrow> 'e antiFloodComponents \<Rightarrow> bytes \<Rightarrow> string \<Rightarrow> string \<Rightarrow> (('addr, 'e) relayerState, 'pk) broadcasterDeps" where
  \<comment> \<open>the fields of the broadcaster that \<^verbatim>\<open>argsBroadcaster\<close> sets\<close>
  "broadcasterDeps_of L net sk af pkBytes joinName signName =
     \<lparr> Unmarshal_SignedMessage = codec_Unmarshal_SignedMessage (lib_codec L),
       Marshal_SignedMessage = codec_Marshal_SignedMessage (lib_codec L),
       Unmarshal_EthereumSignature = codec_Unmarshal_EthereumSignature (lib_codec L),
       Marshal_EthereumSignature = codec_Marshal_EthereumSignature (lib_codec L),
       PublicKeyFromByteArray = lib_PublicKeyFromByteArray L, signer_Verify = lib_signer_Verify L,
       signer_Sign = Ed25519_Sign (lib_elrondSDK L sk), publicKeyBytes = pkBytes,
       CanProcessMessage = (\<lambda>m peer. outside (af_CanProcessMessage af m peer)),
       CanProcessMessagesOnTopic = (\<lambda>peer t n size sq. outside (af_CanProcessMessagesOnTopic af peer t n size sq)),
       BlacklistPeer = (\<lambda>peer reason. outside (af_BlacklistPeer af peer reason)),
       p2p_IsWhitelisted = (\<lambda>pk s. Some (elrondRoleProvider_IsWhitelisted (lib_addresses L) (rp_elrondRoleProvider (snd s))
                                        (Some (NewAddressFromBytes (lib_addresses L) pk)), s)),
       p2p_VerifyEthSignature = (\<lambda>sig h s. Some (VerifyEthSignature (lib_ethCrypto L) (rp_ethereumRoleProvider (snd s)) sig h, s)),
       messenger_Broadcast = (\<lambda>t b. outside (msg_Broadcast net t b)),
       messenger_SendToConnectedPeer = (\<lambda>t b peer. outside (msg_SendToConnectedPeer net t b peer)),
       messenger_CreateTopic = (\<lambda>t b. outside (msg_CreateTopic net t b)),
       messenger_RegisterMessageProcessor = (\<lambda>t i. outside (msg_RegisterMessageProcessor net t i)),
       messenger_Close = outside (msg_Close net), joinTopicName = joinName, signTopicName = signName \<rparr>"

text \<open>\<^verbatim>\<open>x, err := m; if err != nil { return err }\<close>, followed by \<open>f x\<close>; \<open>of_res\<close> is a call without effects.\<close>

definition if_no_err :: "('s, 'x res) go \<Rightarrow> ('x \<Rightarrow> ('s, 'y res) go) \<Rightarrow> ('s, 'y res) go" where
  "if_no_err m f = (\<lambda>s. do { (r, s) \<leftarrow> m s; case r of Inl err \<Rightarrow> Some (Inl err, s) | Inr x \<Rightarrow> f x s })"

definition of_res :: "'x res \<Rightarrow> ('s, 'x res) go" where
  "of_res r = (\<lambda>s. Some (r, s))"

definition of_err :: "('s, gerror option) go \<Rightarrow> ('s, unit res) go" where
  "of_err m = (\<lambda>s. do { (r, s) \<leftarrow> m s; Some (case r of None \<Rightarrow> Inr () | Some err \<Rightarrow> Inl err, s) })"

text \<open>What \<^verbatim>\<open>createEthereumClient\<close> sets: the broadcaster with its clients, the gas handler, the client.\<close>

record ('addr, 'e, 'pk, 'ty, 'req, 'resp) ethereumSide =
  es_broadcaster :: "(('addr, 'e) relayerState, 'pk) broadcasterDeps"
  es_clients :: "('addr, 'e) relayerState BroadcastClient list"
  es_gasHandler :: "(('addr, 'e) relayerState, 'req, 'resp) GasHandler"
  es_relayerAddress :: 'addr
  es_ethClient :: "(('addr, 'e) relayerState, 'addr, 'ty) ethereumClientDeps"

definition createBroadcaster ::
  "('addr, 'e, 'a, 'sk, 'pk, 'esk, 'epk, 'ty, 'req, 'resp) relayerLibs \<Rightarrow> Chain \<Rightarrow> 'e NetMessenger \<Rightarrow> 'sk
   \<Rightarrow> (('addr, 'e) relayerState, ((('addr, 'e) relayerState, 'pk) broadcasterDeps \<times> ('addr, 'e) relayerState broadcaster) res) go" where
  \<comment> \<open>the first part of \<^verbatim>\<open>createEthereumClient\<close>, after the gas station\<close>
  "createBroadcaster L chain net sk =
     if_no_err (createAntifloodComponents L) (\<lambda>af.
     if_no_err (of_res (NewPeerDenialEvaluator (af_BlacklistHandler af) (af_PubKeysCacher af))) (\<lambda>evaluator.
     if_no_err (of_err (outside (SetPeerDenialEvaluator net evaluator))) (\<lambda>_. (\<lambda>s. do {
       (now, s) \<leftarrow> outside (lib_UnixNano L) s;
       case NewBroadcaster now (PublicKey_ToByteArray (lib_elrondSDK L sk))
              \<lparr> ab_Messenger = Some (), ab_Log = Some (), ab_ElrondRoleProvider = Some (), ab_SignatureProcessor = Some (),
                ab_KeyGen = Some (), ab_SingleSigner = Some (), ab_PrivateKey = Some (),
                ab_Name = EvmCompatibleChainToElrondName chain, ab_AntifloodComponents = Some () \<rparr> of
         Inl err \<Rightarrow> Some (Inl err, s)
       | Inr (b, pkBytes, joinName, signName) \<Rightarrow>
           Some (Inr (broadcasterDeps_of L net sk af pkBytes joinName signName, b), s) }))))"

definition argsEthClient ::
  "('addr, 'e, 'a, 'sk, 'pk, 'esk, 'epk, 'ty, 'req, 'resp) relayerLibs \<Rightarrow> ('addr, 'e) ArgsEthereumToElrondBridge
   \<Rightarrow> (bytes \<Rightarrow> string) \<Rightarrow> (('addr, 'e) relayerState, 'pk) broadcasterDeps \<Rightarrow> ('addr, 'e) relayerState BroadcastClient list
   \<Rightarrow> ('addr, 'e) relayerState mappersDataGetter \<Rightarrow> (('addr, 'e) relayerState, 'req, 'resp) GasHandler
   \<Rightarrow> (('addr, 'e) relayerState, 'addr) ArgsEthereumClient" where
  "argsEthClient L args bech32 bdeps cs mapper gs =
     (let ethereumConfigs = cfg_Eth (Configs args) in
      \<lparr> ethargs_ClientWrapper = map_option outside_wrapper (ClientWrapper args),
        ethargs_Erc20ContractsHandler = map_option (\<lambda>balanceOf token a. outside (balanceOf token a)) (Erc20ContractsHolder args),
        ethargs_Log = Some (), ethargs_AddressConverter = Some bech32,
        ethargs_Broadcaster = Some (\<lambda>sig h. at_broadcaster cs (BroadcastSignature bdeps sig h)),
        ethargs_PrivateKey = Some (), ethargs_TokensMapper = Some (erc20ToElrond_ConvertToken mapper),
        ethargs_SignatureHolder = Some (\<lambda>h (holder, t). Some (signaturesHolder_Signatures (lib_range_keys L) holder h, (holder, t))),
        ethargs_SafeContractAddress = lib_HexToAddress L (SafeContractAddress ethereumConfigs),
        ethargs_GasHandler = Some (gas_price_of gs),
        ethargs_TransferGasLimitBase = GasLimitBase ethereumConfigs,
        ethargs_TransferGasLimitForEach = GasLimitForEach ethereumConfigs,
        ethargs_AllowDelta = MaxBlocksDelta ethereumConfigs \<rparr>)"

definition readEthereumKey ::
  "('addr, 'e, 'a, 'sk, 'pk, 'esk, 'epk, 'ty, 'req, 'resp) relayerLibs \<Rightarrow> string
   \<Rightarrow> (('addr, 'e) relayerState, ('esk \<times> 'addr) res) go" where
  "readEthereumKey L file =
     if_no_err (outside (lib_ReadFile L file)) (\<lambda>privateKeyBytes.
     if_no_err (of_res (lib_HexToECDSA L (TrimWhiteSpaceCharacters (string_of_bytes privateKeyBytes)))) (\<lambda>privateKey.
     of_res (case lib_ethAddress L privateKey of
               None \<Rightarrow> Inl errPublicKeyCast_factory
             | Some a \<Rightarrow> Inr (privateKey, a))))"

definition createEthereumClient ::
  "('addr, 'e, 'a, 'sk, 'pk, 'esk, 'epk, 'ty, 'req, 'resp) relayerLibs \<Rightarrow> ('addr, 'e) ArgsEthereumToElrondBridge
   \<Rightarrow> 'sk \<Rightarrow> (bytes \<Rightarrow> string) \<Rightarrow> (('addr, 'e) relayerState, 'a) dataGetterDeps
   \<Rightarrow> (('addr, 'e) relayerState, ('addr, 'e, 'pk, 'ty, 'req, 'resp) ethereumSide res) go" where
  "createEthereumClient L args sk bech32 getter =
     (let ethereumConfigs = cfg_Eth (Configs args); gasStationConfig = ethcfg_GasStation ethereumConfigs in
      if_no_err (of_res (CreateGasStation (lib_gasHttp L) (argsGasStation gasStationConfig) (gsc_Enabled gasStationConfig))) (\<lambda>gs.
      if_no_err (\<lambda>s. createBroadcaster L (ethcfg_Chain ethereumConfigs) (the (Messenger args)) sk (store_gasStation gs s)) (\<lambda>(bdeps, b).
      if_no_err (readEthereumKey L (ethcfg_PrivateKeyFile ethereumConfigs)) (\<lambda>(privateKey, relayer).
      if_no_err (of_res (NewErc20ToElrondMapper (Some \<lparr> dg_GetTokenIdForErc20Address = GetTokenIdForErc20Address getter,
                                                     dg_GetERC20AddressForTokenId = GetERC20AddressForTokenId getter \<rparr>))) (\<lambda>mapper.
        (\<lambda>(_, parts).
           let s = (NewSignatureHolder, parts); (err, b) = AddBroadcastClient (Some holder_client) b
           in case err of
                Some er \<Rightarrow> Some (Inl er, s)
              | None \<Rightarrow>
                  (case NewEthereumClient (lib_geth L privateKey) (Some relayer) (lib_range_transfers L)
                          (argsEthClient L args bech32 bdeps (clients b) mapper gs) of
                     Inl er \<Rightarrow> Some (Inl er, s)
                   | Inr (d, c) \<Rightarrow>
                       Some (Inr \<lparr> es_broadcaster = bdeps, es_clients = clients b, es_gasHandler = gs,
                                   es_relayerAddress = relayer, es_ethClient = d \<rparr>,
                             (NewSignatureHolder, (broadcaster_put b parts)\<lparr>rp_ethClient := c\<rparr>)))))))))"


subsection \<open>The components holder\<close>

text \<open>The interfaces of the two clients over the memory of the relayer.\<close>

definition within_elrond :: "(elrond_client \<times> ('addr, 'e) relayerState) ElrondClient \<Rightarrow> ('addr, 'e) relayerState ElrondClient" where
  "within_elrond c =
     \<lparr> ec_GetPending = at_elrondClient (ec_GetPending c),
       ec_WasProposedTransfer = (\<lambda>b. at_elrondClient (ec_WasProposedTransfer c b)),
       ec_QuorumReached = (\<lambda>i. at_elrondClient (ec_QuorumReached c i)),
       ec_WasExecuted = (\<lambda>i. at_elrondClient (ec_WasExecuted c i)),
       ec_GetActionIDForProposeTransfer = (\<lambda>b. at_elrondClient (ec_GetActionIDForProposeTransfer c b)),
       ec_WasProposedSetStatus = (\<lambda>b. at_elrondClient (ec_WasProposedSetStatus c b)),
       ec_GetActionIDForSetStatusOnPendingTransfer = (\<lambda>b. at_elrondClient (ec_GetActionIDForSetStatusOnPendingTransfer c b)),
       ec_GetLastExecutedEthBatchID = at_elrondClient (ec_GetLastExecutedEthBatchID c),
       ec_GetLastExecutedEthTxID = at_elrondClient (ec_GetLastExecutedEthTxID c),
       ec_ProposeSetStatus = (\<lambda>b. at_elrondClient (ec_ProposeSetStatus c b)),
       ec_ProposeTransfer = (\<lambda>b. at_elrondClient (ec_ProposeTransfer c b)),
       ec_Sign = (\<lambda>i. at_elrondClient (ec_Sign c i)),
       ec_WasSigned = (\<lambda>i. at_elrondClient (ec_WasSigned c i)),
       ec_PerformAction = (\<lambda>i b. at_elrondClient (ec_PerformAction c i b)),
       ec_CheckClientAvailability = at_elrondClient (ec_CheckClientAvailability c) \<rparr>"

definition within_ethereum :: "(ethereum_client \<times> ('addr, 'e) relayerState) EthereumClient \<Rightarrow> ('addr, 'e) relayerState EthereumClient" where
  "within_ethereum c =
     \<lparr> eth_GetBatch = (\<lambda>n. at_ethClient (eth_GetBatch c n)),
       eth_WasExecuted = (\<lambda>n. at_ethClient (eth_WasExecuted c n)),
       eth_GenerateMessageHash = (\<lambda>b. at_ethClient (eth_GenerateMessageHash c b)),
       eth_BroadcastSignatureForMessageHash = (\<lambda>h. at_ethClient (eth_BroadcastSignatureForMessageHash c h)),
       eth_ExecuteTransfer = (\<lambda>h b q. at_ethClient (eth_ExecuteTransfer c h b q)),
       eth_GetTransactionsStatuses = (\<lambda>n. at_ethClient (eth_GetTransactionsStatuses c n)),
       eth_GetQuorumSize = at_ethClient (eth_GetQuorumSize c),
       eth_IsQuorumReached = (\<lambda>h. at_ethClient (eth_IsQuorumReached c h)),
       eth_CheckClientAvailability = at_ethClient (eth_CheckClientAvailability c) \<rparr>"

definition components_of ::
  "('addr, 'e, 'a, 'sk, 'pk, 'esk, 'epk, 'ty, 'req, 'resp) relayerLibs \<Rightarrow> ('addr, 'e) ArgsEthereumToElrondBridge \<Rightarrow> 'a
   \<Rightarrow> (('addr, 'e) relayerState, 'a) elrondClientDeps \<Rightarrow> (('addr, 'e) relayerState, 'addr, 'ty) ethereumClientDeps
   \<Rightarrow> (('addr, 'e) relayerState, 'req, 'resp) ethElrondBridgeComponents" where
  \<comment> \<open>the fields of the components holder the half-bridges are made from\<close>
  "components_of L args relayer del deth =
     \<lparr> evmCompatibleChain = ethcfg_Chain (cfg_Eth (Configs args)),
       fc_elrondClient = within_elrond (elrond_interface del), fc_ethClient = within_ethereum (ethereum_interface deth),
       elrondRoleProvider_keys =
         (\<lambda>s. Some (elrondRoleProvider_SortedPublicKeys (lib_range_keys L) (rp_elrondRoleProvider (snd s)), s)),
       fc_timer = outside (ntpTimer_NowUnix (NewNTPTimer (lib_NewSyncTime L))), elrondRelayerAddress = AddressBytes (lib_addresses L) relayer,
       status_deps = outside_statusDeps (the (StatusStorer args)),
       fc_signaturesHolder_Clear = (\<lambda>(h, p). Some ((), (signaturesHolder_ClearStoredSignatures h, p))),
       validator_http = lib_validatorHttp L, topology_hasher = lib_hasher L, fc_select = (\<lambda>n. outside (lib_select L n)),
       fc_level_text = lib_level_text L, fc_marshal_batch = lib_marshal_batch L, fc_quoted = lib_quoted L \<rparr>"

type_synonym ('addr, 'e) bridge_machine = "(statusHandler \<times> ('addr, 'e) relayerState) exec_state stateMachine"

record ('addr, 'e, 'a, 'pk, 'ty, 'req, 'resp) relayer =
  rel_components :: "(('addr, 'e) relayerState, 'req, 'resp) ethElrondBridgeComponents"
  rel_elrondClient :: "(('addr, 'e) relayerState, 'a) elrondClientDeps"
  rel_ethereum :: "('addr, 'e, 'pk, 'ty, 'req, 'resp) ethereumSide"
  rel_ethToElrond :: "('addr, 'e) relayerState half_bridge"
  rel_ethToElrondStateMachine :: "('addr, 'e) bridge_machine"
  rel_elrondToEth :: "('addr, 'e) relayerState half_bridge"
  rel_elrondToEthStateMachine :: "('addr, 'e) bridge_machine"
  rel_handlers :: handlers
  rel_messenger :: "'e NetMessenger"
  rel_timeForBootstrap :: int
  rel_timeBeforeRepeatJoin :: int

definition machineHandler :: "string \<Rightarrow> int \<Rightarrow> pollExecutor \<Rightarrow> PollingHandler" where
  "machineHandler name interval executor =
     \<lparr> ph_Name = name @ '' State machine'', ph_PollingInterval = interval,
       ph_PollingWhenError = pollingDurationOnError, ph_Executor = executor \<rparr>"

definition pollEthereumToElrondStateMachine ::
  "('addr, 'e, 'a, 'sk, 'pk, 'esk, 'epk, 'ty, 'req, 'resp) relayerLibs \<Rightarrow> Chain \<Rightarrow> ('addr, 'e) relayerState half_bridge
   \<Rightarrow> handlers \<Rightarrow> (('addr, 'e) bridge_machine \<times> handlers) res" where
  "pollEthereumToElrondStateMachine L chain hb hs =
     (let ethToElrondName = EvmCompatibleChainToElrondName chain in
      case createEthereumToElrondStateMachine ethToElrondName (hb_deps hb) of
        Inl err \<Rightarrow> Inl err
      | Inr sm \<Rightarrow>
          (case addPollingHandler L (machineHandler ethToElrondName (hb_stepDuration hb) Execute_ethToElrondStateMachine) hs of
             Inl err \<Rightarrow> Inl err
           | Inr hs \<Rightarrow> Inr (sm, hs)))"

definition pollElrondToEthereumStateMachine ::
  "('addr, 'e, 'a, 'sk, 'pk, 'esk, 'epk, 'ty, 'req, 'resp) relayerLibs \<Rightarrow> Chain \<Rightarrow> ('addr, 'e) relayerState half_bridge
   \<Rightarrow> handlers \<Rightarrow> (('addr, 'e) bridge_machine \<times> handlers) res" where
  "pollElrondToEthereumStateMachine L chain hb hs =
     (let elrondToEthName = ElrondToEvmCompatibleChainName chain in
      case createElrondToEthereumStateMachine elrondToEthName (hb_deps hb) of
        Inl err \<Rightarrow> Inl err
      | Inr sm \<Rightarrow>
          (case addPollingHandler L (machineHandler elrondToEthName (hb_stepDuration hb) Execute_elrondToEthStateMachine) hs of
             Inl err \<Rightarrow> Inl err
           | Inr hs \<Rightarrow> Inr (sm, hs)))"

definition NewEthElrondBridgeComponents ::
  "('addr, 'e, 'a, 'sk, 'pk, 'esk, 'epk, 'ty, 'req, 'resp) relayerLibs \<Rightarrow> ('addr, 'e) ArgsEthereumToElrondBridge
   \<Rightarrow> (metricsHolder \<times> ('addr, 'e) relayerState, ('addr, 'e, 'a, 'pk, 'ty, 'req, 'resp) relayer res) go" where
  "NewEthElrondBridgeComponents L args =
     (let configs = Configs args; chain = ethcfg_Chain (cfg_Eth configs) in
      if_no_err (of_res (case checkArgsEthereumToElrondBridge (lib_duration_text L) args of Some err \<Rightarrow> Inl err | None \<Rightarrow> Inr ())) (\<lambda>_.
      if_no_err (of_res (case NewAddressConverter (lib_NewBech32PubkeyConverter L) of Inl _ \<Rightarrow> Inl clients_ErrNilAddressConverter
          | Inr ac \<Rightarrow> Inr (addressConverter_ToBech32String ac))) (\<lambda>bech32.
      let hs = addClosableComponent (Some Close_timer) \<lparr> closableHandlers = [], pollingHandlers = [] \<rparr> in
      if_no_err (beside (createElrondKeysAndAddresses L (cfg_Elrond configs))) (\<lambda>(sk, relayer, multisig).
      if_no_err (beside (createDataGetter L sk relayer multisig (the (Proxy args)))) (\<lambda>getter.
      if_no_err (beside (createElrondRoleProvider L configs getter hs)) (\<lambda>hs.
      if_no_err (beside (createElrondClient L args sk multisig getter hs)) (\<lambda>(del, hs).
      if_no_err (beside (createEthereumRoleProvider L args hs)) (\<lambda>hs.
      if_no_err (beside (createEthereumClient L args sk bech32 getter)) (\<lambda>es.
      let c = components_of L args relayer del (es_ethClient es); cfg = bridgeConfig_of configs in
      if_no_err (createEthereumToElrondBridge c cfg) (\<lambda>hb1.
      if_no_err (of_res (pollEthereumToElrondStateMachine L chain hb1 hs)) (\<lambda>(sm1, hs).
      if_no_err (createElrondToEthereumBridge c cfg) (\<lambda>hb2.
      if_no_err (of_res (pollElrondToEthereumStateMachine L chain hb2 hs)) (\<lambda>(sm2, hs).
      of_res (Inr \<lparr> rel_components = c, rel_elrondClient = del, rel_ethereum = es, rel_ethToElrond = hb1,
                    rel_ethToElrondStateMachine = sm1, rel_elrondToEth = hb2, rel_elrondToEthStateMachine = sm2,
                    rel_handlers = hs, rel_messenger = the (Messenger args),
                    rel_timeForBootstrap = TimeForBootstrap args,
                    rel_timeBeforeRepeatJoin = TimeBeforeRepeatJoin args \<rparr>))))))))))))))"

subsection \<open>Starting and closing\<close>

fun startPollingHandlers ::
  "('addr, 'e, 'a, 'sk, 'pk, 'esk, 'epk, 'ty, 'req, 'resp) relayerLibs \<Rightarrow> PollingHandler list \<Rightarrow> (('addr, 'e) relayerState, gerror option) go" where
  "startPollingHandlers L [] s = Some (None, s)"
| "startPollingHandlers L (pollingHandler # others) s = do {
     (err, s) \<leftarrow> outside (lib_StartProcessingLoop L pollingHandler) s;
     case err of
       Some er \<Rightarrow> Some (Some er, s)
     | None \<Rightarrow> startPollingHandlers L others s }"

definition components_Start ::
  "('addr, 'e, 'a, 'sk, 'pk, 'esk, 'epk, 'ty, 'req, 'resp) relayerLibs \<Rightarrow> ('addr, 'e, 'a, 'pk, 'ty, 'req, 'resp) relayer
   \<Rightarrow> (('addr, 'e) relayerState, gerror option) go" where
  \<comment> \<open>the goroutine that is started last is \<open>startBroadcastJoinRetriesLoop\<close>\<close>
  "components_Start L rel = (\<lambda>s. do {
     (err, s) \<leftarrow> outside (Bootstrap (rel_messenger rel)) s;
     case err of
       Some er \<Rightarrow> Some (Some er, s)
     | None \<Rightarrow> do {
         (_, s) \<leftarrow> outside (lib_Sleep L (rel_timeForBootstrap rel)) s;
         (err, s) \<leftarrow> broadcaster_RegisterOnTopics (es_broadcaster (rel_ethereum rel)) s;
         case err of
           Some er \<Rightarrow> Some (Some er, s)
         | None \<Rightarrow> do {
             (_, s) \<leftarrow> at_broadcaster (es_clients (rel_ethereum rel)) (BroadcastJoinTopic (es_broadcaster (rel_ethereum rel))) s;
             startPollingHandlers L (pollingHandlers (rel_handlers rel)) s } } })"

text \<open>
  The loop of the join messages runs until its context is done; the events are given: \<open>True\<close> when the
  timer fires first, \<open>False\<close> when the context is done.
\<close>

fun startBroadcastJoinRetriesLoop ::
  "('addr, 'e, 'a, 'pk, 'ty, 'req, 'resp) relayer \<Rightarrow> bool list \<Rightarrow> (('addr, 'e) relayerState, unit) go" where
  "startBroadcastJoinRetriesLoop rel [] s = Some ((), s)"
| "startBroadcastJoinRetriesLoop rel (fired # events) s =
     (if fired then do {
        (_, s) \<leftarrow> at_broadcaster (es_clients (rel_ethereum rel)) (BroadcastJoinTopic (es_broadcaster (rel_ethereum rel))) s;
        startBroadcastJoinRetriesLoop rel events s }
      else Some ((), s))"

definition close_one ::
  "('addr, 'e, 'a, 'sk, 'pk, 'esk, 'epk, 'ty, 'req, 'resp) relayerLibs \<Rightarrow> ('addr, 'e, 'a, 'pk, 'ty, 'req, 'resp) relayer
   \<Rightarrow> Closable \<Rightarrow> (('addr, 'e) relayerState, gerror option) go" where
  "close_one L rel closable =
     (case closable of
        Close_timer \<Rightarrow> outside (ntpTimer_Close (NewNTPTimer (lib_NewSyncTime L)))
      | Close_elrondClient \<Rightarrow> elrond_Close (rel_elrondClient rel)
      | Close_pollingHandler ph \<Rightarrow> outside (lib_ClosePollingHandler L ph))"

fun close_loop ::
  "(Closable \<Rightarrow> ('s, gerror option) go) \<Rightarrow> Closable option list \<Rightarrow> gerror option \<Rightarrow> ('s, gerror option) go" where
  "close_loop close [] lastError s = Some (lastError, s)"
| "close_loop close (None # others) lastError s = close_loop close others lastError s"
| "close_loop close (Some closable # others) lastError s = do {
     (err, s) \<leftarrow> close closable s;
     case err of
       None \<Rightarrow> close_loop close others lastError s
     | Some er \<Rightarrow> close_loop close others (Some er) s }"

definition components_Close ::
  "('addr, 'e, 'a, 'sk, 'pk, 'esk, 'epk, 'ty, 'req, 'resp) relayerLibs \<Rightarrow> ('e, unit) go option
   \<Rightarrow> ('addr, 'e, 'a, 'pk, 'ty, 'req, 'resp) relayer \<Rightarrow> (('addr, 'e) relayerState, gerror option) go" where
  \<comment> \<open>the second argument is \<^verbatim>\<open>cancelFunc\<close>, nil until the loop of the join messages has started\<close>
  "components_Close L cancelFunc rel = (\<lambda>s. do {
     (_, s) \<leftarrow> (case cancelFunc of None \<Rightarrow> Some ((), s) | Some cancel \<Rightarrow> outside cancel s);
     close_loop (close_one L rel) (closableHandlers (rel_handlers rel)) None s })"

definition ElrondRelayerAddress :: "('addr, 'e, 'a, 'pk, 'ty, 'req, 'resp) relayer \<Rightarrow> bytes" where
  "ElrondRelayerAddress rel = elrondRelayerAddress (rel_components rel)"

definition EthereumRelayerAddress :: "('addr, 'e, 'a, 'pk, 'ty, 'req, 'resp) relayer \<Rightarrow> 'addr" where
  "EthereumRelayerAddress rel = es_relayerAddress (rel_ethereum rel)"


end
