(* ===== verification/Assembled_Relayer.thy ===== *)
theory Assembled_Relayer
  imports Relayer_Components
begin

section \<open>The assembled relayer\<close>

text \<open>
  What \<^verbatim>\<open>NewEthElrondBridgeComponents\<close> builds, and the properties that hold of the relayer as a whole because
  of how its components are connected: which handlers are polled and closed, and whose signatures an executed transfer
  carries.
\<close>

subsection \<open>Inversion of construction steps\<close>

lemma if_no_errE:
  assumes "if_no_err m f s = Some (Inr y, s')"
  obtains x s1 where "m s = Some (Inr x, s1)" and "f x s1 = Some (Inr y, s')"
  using assms by (auto simp: if_no_err_def elim!: go_bindE split: sum.split_asm)

lemma of_res_iff [simp]: "of_res r s = Some (x, s') \<longleftrightarrow> x = r \<and> s' = s"
  by (auto simp: of_res_def)

lemma of_err_iff [simp]: "of_err m s = Some (Inr u, s') \<longleftrightarrow> m s = Some (None, s')"
  by (auto simp: of_err_def bind_eq_Some_conv split: option.splits)

lemma no_err_then_iff:
  "(do { (err, s) \<leftarrow> m; case err of Some er \<Rightarrow> Some (Some er, s) | None \<Rightarrow> f s }) = Some (None, s')
     \<longleftrightarrow> (\<exists>t. m = Some (None, t) \<and> f t = Some (None, s'))"
  by (auto simp: bind_eq_Some_conv split: option.split_asm)

lemma unit_then_iff: "(do { ((_ :: unit), s) \<leftarrow> m; f s }) = Some r \<longleftrightarrow> (\<exists>t. m = Some ((), t) \<and> f t = Some r)"
  by (auto simp: bind_eq_Some_conv)

lemma beside_iff: "beside m (c, s) = Some (r, (c', s')) \<longleftrightarrow> c' = c \<and> m s = Some (r, s')"
  by (auto simp: beside_def bind_eq_Some_conv)

subsection \<open>What the outside cannot touch\<close>

lemma keeps_outside: "keeps_view v (outside m)" if "\<And>p e. v (p\<lparr>rp_outside := e\<rparr>) = v p"
  using that by (auto simp: keeps_view_def outside_def elim!: go_bindE)

lemma keeps_view_iff: "keeps_view v m \<Longrightarrow> m (h, p) = Some (r, (h', p')) \<Longrightarrow> h' = h \<and> v p' = v p"
  unfolding keeps_view_def by fastforce

lemma keeps_pure: "keeps_view v (\<lambda>s. Some (f s, s))"
  by (simp add: keeps_view_def)

lemma broadcaster_private: "private_view rp_ethereumRoleProvider (broadcasterDeps_of L net sk af pk j sn)"
  unfolding private_view_def broadcasterDeps_of_def
  by (simp add: keeps_outside keeps_pure)

lemma gas_price_keeps: "keeps_view v (gas_price_of gs)"
  by (cases gs) (simp_all add: gas_price_of_def keeps_view_def)

lemma NewEthereumClient_reads:
  assumes "NewEthereumClient lib a ord (argsEthClient L args bech32 bdeps cs mapper gs) = Inr (d, c)"
  shows "reads_holder (lib_range_keys L) d" and "clientWrapper d = outside_wrapper (the (ClientWrapper args))" and "geth d = lib"
proof -
  from assms have d: "signatureHolder_Signatures d = (\<lambda>h (holder, t). Some (signaturesHolder_Signatures (lib_range_keys L) holder h, (holder, t)))"
      "gasHandler_GetCurrentGasPrice d = gas_price_of gs"
    and w: "clientWrapper d = outside_wrapper (the (ClientWrapper args))" and "geth d = lib"
    by (auto simp: NewEthereumClient_def argsEthClient_def ethereum_checkArgs_def Let_def split: option.split_asm if_split_asm)
  then show "clientWrapper d = outside_wrapper (the (ClientWrapper args))" "geth d = lib" by simp_all
  show "reads_holder (lib_range_keys L) d"
    unfolding reads_holder_def d w outside_wrapper_def outside_status_def Let_def
    by (simp add: keeps_outside gas_price_keeps)
qed

abbreviation roles :: "('addr, 'e) relayerState \<Rightarrow> 'addr ethereumRoleProvider" where
  "roles s \<equiv> rp_ethereumRoleProvider (snd s)"

lemma outside_frame: "outside m s = Some (r, s') \<Longrightarrow> fst s' = fst s \<and> roles s' = roles s"
  by (cases s) (auto simp: outside_def elim!: go_bindE)

definition checks_signatures ::
  "('addr, 'e, 'a, 'sk, 'pk, 'esk, 'epk, 'ty, 'req, 'resp) relayerLibs \<Rightarrow> (('addr, 'e) relayerState, 'pk) broadcasterDeps \<Rightarrow> bool" where
  \<comment> \<open>the broadcaster asks the Ethereum role provider and leaves it and the holder alone\<close>
  "checks_signatures L d \<longleftrightarrow> private_view rp_ethereumRoleProvider d
     \<and> p2p_VerifyEthSignature d = (\<lambda>sig h s. Some (VerifyEthSignature (lib_ethCrypto L) (roles s) sig h, s))"

lemma broadcasterDeps_check: "checks_signatures L (broadcasterDeps_of L net sk af pk j sn)"
  unfolding checks_signatures_def using broadcaster_private by (simp add: broadcasterDeps_of_def)

lemma createBroadcaster_result:
  assumes "createBroadcaster L chain net sk s = Some (Inr (bdeps, b), s')"
  shows "checks_signatures L bdeps \<and> clients b = [] \<and> roles s' = roles s"
  using assms unfolding createBroadcaster_def
  by (auto simp: createAntifloodComponents_def NewBroadcaster_def broadcasterDeps_check elim!: if_no_errE go_bindE
      split: sum.split_asm option.split_asm dest!: outside_frame)

lemma readEthereumKey_frame: "readEthereumKey L file s = Some (Inr k, s') \<Longrightarrow> roles s' = roles s"
  unfolding readEthereumKey_def by (auto elim!: if_no_errE dest!: outside_frame)

lemma store_gasStation_frame [simp]: "roles (store_gasStation gs s) = roles s"
  by (cases gs; cases s) (simp_all add: store_gasStation_def)

lemma createEthereumClient_result:
  assumes "createEthereumClient L args sk bech32 getter s = Some (Inr es, s')"
  shows "checks_signatures L (es_broadcaster es) \<and> es_clients es = [holder_client]
    \<and> fst s' = NewSignatureHolder \<and> roles s' = roles s
    \<and> reads_holder (lib_range_keys L) (es_ethClient es)
    \<and> clientWrapper (es_ethClient es) = outside_wrapper (the (ClientWrapper args))"
  using assms unfolding createEthereumClient_def Let_def AddBroadcastClient_def
  by (auto elim!: if_no_errE split: sum.split_asm prod.split_asm
      dest!: createBroadcaster_result readEthereumKey_frame
      simp: broadcaster_put_def NewEthereumClient_reads)

lemma NewStatusHandler_frame:
  "NewStatusHandler (Some (outside_statusDeps d)) name s = Some (r, s') \<Longrightarrow> fst s' = fst s \<and> roles s' = roles s"
  by (auto simp: NewStatusHandler_def tryLoadPersistedData_def outside_statusDeps_def elim!: go_bindE
      split: sum.split_asm if_split_asm dest!: outside_frame)

lemma half_bridge_frame:
  assumes "status_deps c = outside_statusDeps d"
  shows "createEthereumToElrondBridge c cfg (mh, s) = Some (r, (mh', s')) \<Longrightarrow> fst s' = fst s \<and> roles s' = roles s"
    and "createElrondToEthereumBridge c cfg (mh, s) = Some (r, (mh', s')) \<Longrightarrow> fst s' = fst s \<and> roles s' = roles s"
  unfolding createEthereumToElrondBridge_def createElrondToEthereumBridge_def Let_def assms
  by (auto elim!: go_bindE split: option.split_asm sum.split_asm prod.split_asm dest!: NewStatusHandler_frame)

lemma components_of_sel [simp]:
  "status_deps (components_of L args a del deth) = outside_statusDeps (the (StatusStorer args))"
  "evmCompatibleChain (components_of L args a del deth) = ethcfg_Chain (cfg_Eth (Configs args))"
  "fc_ethClient (components_of L args a del deth) = within_ethereum (ethereum_interface deth)"
  "fc_elrondClient (components_of L args a del deth) = within_elrond (elrond_interface del)"
  by (simp_all add: components_of_def)

lemma addPollingHandler_iff:
  "addPollingHandler L ph hs = Inr hs' \<longleftrightarrow> lib_NewPollingHandler L ph = None
     \<and> hs' = hs\<lparr>closableHandlers := closableHandlers hs @ [Some (Close_pollingHandler ph)], pollingHandlers := pollingHandlers hs @ [ph]\<rparr>"
  by (auto simp: addPollingHandler_def addClosableComponent_def Let_def split: option.splits)

text \<open>The handlers the relayer polls, in the order they are created.\<close>

definition relayer_pollers :: "Config \<Rightarrow> int \<Rightarrow> int \<Rightarrow> PollingHandler list" where
  "relayer_pollers configs step1 step2 =
     (let chain = ethcfg_Chain (cfg_Eth configs); interval = times 1000000 (PollingIntervalInMillis configs) in
      [\<lparr> ph_Name = ''Elrond role provider'', ph_PollingInterval = interval,
         ph_PollingWhenError = pollingDurationOnError, ph_Executor = Execute_elrondRoleProvider \<rparr>,
       \<lparr> ph_Name = chain @ '' role provider'', ph_PollingInterval = interval,
         ph_PollingWhenError = pollingDurationOnError, ph_Executor = Execute_ethereumRoleProvider \<rparr>,
       machineHandler (EvmCompatibleChainToElrondName chain) step1 Execute_ethToElrondStateMachine,
       machineHandler (ElrondToEvmCompatibleChainName chain) step2 Execute_elrondToEthStateMachine])"

lemma createElrondRoleProvider_result:
  "createElrondRoleProvider L configs getter hs s = Some (Inr hs', s') \<Longrightarrow>
     hs' = (let ph = relayer_pollers configs 0 0 ! 0 in
            hs\<lparr>closableHandlers := closableHandlers hs @ [Some (Close_pollingHandler ph)], pollingHandlers := pollingHandlers hs @ [ph]\<rparr>)"
  by (cases s) (auto simp: createElrondRoleProvider_def addPollingHandler_iff relayer_pollers_def Let_def
      split: sum.split_asm option.split_asm dest!: sym [of _ "addPollingHandler _ _ _"])

lemma createEthereumRoleProvider_result:
  "createEthereumRoleProvider L args hs s = Some (Inr hs', s') \<Longrightarrow>
     eth_whitelistedAddresses (roles s') = []
     \<and> hs' = (let ph = relayer_pollers (Configs args) 0 0 ! 1 in
            hs\<lparr>closableHandlers := closableHandlers hs @ [Some (Close_pollingHandler ph)], pollingHandlers := pollingHandlers hs @ [ph]\<rparr>)"
  by (cases s) (auto simp: createEthereumRoleProvider_def addPollingHandler_iff relayer_pollers_def Let_def NewEthereumRoleProvider_def
      split: sum.split_asm option.split_asm dest!: sym [of _ "addPollingHandler _ _ _"])

lemma createElrondClient_result:
  "createElrondClient L args sk multisig getter hs s = Some (Inr (del, hs'), s') \<Longrightarrow>
     hs' = hs\<lparr>closableHandlers := closableHandlers hs @ [Some Close_elrondClient]\<rparr>"
  by (cases s) (auto simp: createElrondClient_def addClosableComponent_def Let_def split: sum.split_asm)

lemma pollStateMachine_result:
  "pollEthereumToElrondStateMachine L (ethcfg_Chain (cfg_Eth configs)) hb hs = Inr (sm, hs') \<Longrightarrow>
     createEthereumToElrondStateMachine (EvmCompatibleChainToElrondName (ethcfg_Chain (cfg_Eth configs))) (hb_deps hb) = Inr sm
     \<and> hs' = (let ph = relayer_pollers configs (hb_stepDuration hb) y ! 2 in
            hs\<lparr>closableHandlers := closableHandlers hs @ [Some (Close_pollingHandler ph)], pollingHandlers := pollingHandlers hs @ [ph]\<rparr>)"
  "pollElrondToEthereumStateMachine L (ethcfg_Chain (cfg_Eth configs)) hb hs = Inr (sm, hs') \<Longrightarrow>
     createElrondToEthereumStateMachine (ElrondToEvmCompatibleChainName (ethcfg_Chain (cfg_Eth configs))) (hb_deps hb) = Inr sm
     \<and> hs' = (let ph = relayer_pollers configs y (hb_stepDuration hb) ! 3 in
            hs\<lparr>closableHandlers := closableHandlers hs @ [Some (Close_pollingHandler ph)], pollingHandlers := pollingHandlers hs @ [ph]\<rparr>)"
  by (auto simp: pollEthereumToElrondStateMachine_def pollElrondToEthereumStateMachine_def addPollingHandler_iff relayer_pollers_def Let_def
      split: sum.split_asm)

lemma NewComponents_result:
  assumes "NewEthElrondBridgeComponents L args (mh, s0) = Some (Inr rel, (mh', s1))"
  shows "checks_signatures L (es_broadcaster (rel_ethereum rel)) \<and> es_clients (rel_ethereum rel) = [holder_client]
      \<and> fst s1 = NewSignatureHolder \<and> eth_whitelistedAddresses (roles s1) = []
      \<and> reads_holder (lib_range_keys L) (es_ethClient (rel_ethereum rel))
      \<and> clientWrapper (es_ethClient (rel_ethereum rel)) = outside_wrapper (the (ClientWrapper args))
      \<and> fc_ethClient (rel_components rel) = within_ethereum (ethereum_interface (es_ethClient (rel_ethereum rel)))"
  using assms unfolding NewEthElrondBridgeComponents_def Let_def
  by (auto simp: beside_iff split: option.split_asm prod.split_asm elim!: if_no_errE
      dest!: createEthereumClient_result createEthereumRoleProvider_result half_bridge_frame [OF components_of_sel(1)])

lemma NewComponents_handlers:
  assumes "NewEthElrondBridgeComponents L args (mh, s0) = Some (Inr rel, (mh', s1))"
  shows "pollingHandlers (rel_handlers rel)
      = relayer_pollers (Configs args) (hb_stepDuration (rel_ethToElrond rel)) (hb_stepDuration (rel_elrondToEth rel))
    \<and> closableHandlers (rel_handlers rel) = map Some
        (let ps = map Close_pollingHandler (pollingHandlers (rel_handlers rel)) in
         [Close_timer, ps ! 0, Close_elrondClient, ps ! 1, ps ! 2, ps ! 3])"
  using assms unfolding NewEthElrondBridgeComponents_def Let_def
  by (auto simp: beside_iff addClosableComponent_def relayer_pollers_def Let_def split: option.split_asm prod.split_asm elim!: if_no_errE
      dest!: createElrondRoleProvider_result createElrondClient_result createEthereumRoleProvider_result pollStateMachine_result [OF sym])

subsection \<open>Start and Close\<close>

fun run_all :: "('s, 'r) go list \<Rightarrow> ('s, 'r list) go" where
  "run_all [] s = Some ([], s)"
| "run_all (m # ms) s = do { (r, s) \<leftarrow> m s; (rs, s) \<leftarrow> run_all ms s; Some (r # rs, s) }"

definition last_error :: "gerror option list \<Rightarrow> gerror option" where
  "last_error errs = fold (\<lambda>err acc. case err of None \<Rightarrow> acc | Some er \<Rightarrow> Some er) errs None"

lemma close_loop_eq:
  "close_loop close (map Some cs) lastError s =
     map_option (\<lambda>(errs, s). (fold (\<lambda>err acc. case err of None \<Rightarrow> acc | Some er \<Rightarrow> Some er) errs lastError, s)) (run_all (map close cs) s)"
  by (induction cs arbitrary: lastError s) (auto simp: map_option_bind split: Option.bind_splits option.splits)

lemma startPollingHandlers_iff:
  "startPollingHandlers L phs s = Some (None, s') \<longleftrightarrow>
     run_all (map (\<lambda>ph. outside (lib_StartProcessingLoop L ph)) phs) s = Some (replicate (length phs) None, s')"
  by (cases s', induction phs arbitrary: s) (auto simp: bind_eq_Some_conv split: option.splits)

lemma components_Start_iff:
  assumes "NewEthElrondBridgeComponents L args (mh, s0) = Some (Inr rel, (mh', s1))"
  shows "components_Start L rel s = Some (None, s') \<longleftrightarrow>
    (\<exists>t1 t2 t3 t4. outside (Bootstrap (rel_messenger rel)) s = Some (None, t1)
      \<and> outside (lib_Sleep L (rel_timeForBootstrap rel)) t1 = Some ((), t2)
      \<and> broadcaster_RegisterOnTopics (es_broadcaster (rel_ethereum rel)) t2 = Some (None, t3)
      \<and> at_broadcaster [holder_client] (BroadcastJoinTopic (es_broadcaster (rel_ethereum rel))) t3 = Some ((), t4)
      \<and> run_all (map (\<lambda>ph. outside (lib_StartProcessingLoop L ph))
          (relayer_pollers (Configs args) (hb_stepDuration (rel_ethToElrond rel)) (hb_stepDuration (rel_elrondToEth rel)))) t4
        = Some ([None, None, None, None], s'))"
proof -
  let ?phs = "relayer_pollers (Configs args) (hb_stepDuration (rel_ethToElrond rel)) (hb_stepDuration (rel_elrondToEth rel))"
  have "replicate (length ?phs) (None :: gerror option) = [None, None, None, None]"
    by (simp add: relayer_pollers_def Let_def)
  then have polled: "startPollingHandlers L (pollingHandlers (rel_handlers rel)) t = Some (None, s') \<longleftrightarrow>
      run_all (map (\<lambda>ph. outside (lib_StartProcessingLoop L ph)) ?phs) t = Some ([None, None, None, None], s')" for t
    using NewComponents_handlers [OF assms] by (simp only: startPollingHandlers_iff)
  have clients: "es_clients (rel_ethereum rel) = [holder_client]" using NewComponents_result [OF assms] by blast
  show ?thesis
    by (simp only: components_Start_def clients no_err_then_iff unit_then_iff polled ex_simps)
qed

lemma components_Close_eq:
  assumes "NewEthElrondBridgeComponents L args (mh, s0) = Some (Inr rel, (mh', s1))"
    and "ps = relayer_pollers (Configs args) (hb_stepDuration (rel_ethToElrond rel)) (hb_stepDuration (rel_elrondToEth rel))"
  shows "components_Close L None rel s = map_option (\<lambda>(errs, s'). (last_error errs, s'))
    (run_all [outside (ntpTimer_Close (NewNTPTimer (lib_NewSyncTime L))), outside (lib_ClosePollingHandler L (ps ! 0)), elrond_Close (rel_elrondClient rel),
              outside (lib_ClosePollingHandler L (ps ! 1)), outside (lib_ClosePollingHandler L (ps ! 2)),
              outside (lib_ClosePollingHandler L (ps ! 3))] s)"
proof -
  from NewComponents_handlers [OF assms(1), folded assms(2)]
  have "closableHandlers (rel_handlers rel) = map Some [Close_timer, Close_pollingHandler (ps ! 0), Close_elrondClient,
      Close_pollingHandler (ps ! 1), Close_pollingHandler (ps ! 2), Close_pollingHandler (ps ! 3)]"
    by (simp add: Let_def assms(2) relayer_pollers_def)
  then have "components_Close L None rel s = map_option (\<lambda>(errs, s'). (last_error errs, s'))
      (run_all (map (close_one L rel) [Close_timer, Close_pollingHandler (ps ! 0), Close_elrondClient,
        Close_pollingHandler (ps ! 1), Close_pollingHandler (ps ! 2), Close_pollingHandler (ps ! 3)]) s)"
    by (simp only: components_Close_def option.case bind.bind_lunit case_prod_conv close_loop_eq last_error_def)
  then show ?thesis by (simp only: list.map close_one_def Closable.case)
qed

lemma components_Close_any:
  assumes "NewEthElrondBridgeComponents L args (mh, s0) = Some (Inr rel, (mh', s1))"
    and "ps = relayer_pollers (Configs args) (hb_stepDuration (rel_ethToElrond rel)) (hb_stepDuration (rel_elrondToEth rel))"
  shows "components_Close L cancelFunc rel s = do {
    (_, t) \<leftarrow> (case cancelFunc of None \<Rightarrow> Some ((), s) | Some cancel \<Rightarrow> outside cancel s);
    (errs, s') \<leftarrow> run_all [outside (ntpTimer_Close (NewNTPTimer (lib_NewSyncTime L))), outside (lib_ClosePollingHandler L (ps ! 0)),
              elrond_Close (rel_elrondClient rel), outside (lib_ClosePollingHandler L (ps ! 1)), outside (lib_ClosePollingHandler L (ps ! 2)),
              outside (lib_ClosePollingHandler L (ps ! 3))] t;
    Some (last_error errs, s') }" (is "_ = Option.bind ?c (\<lambda>(_, t). Option.bind (run_all ?ms t) _)")
proof -
  have "components_Close L cancelFunc rel s = Option.bind ?c (\<lambda>(_, t). components_Close L None rel t)"
    by (simp add: components_Close_def)
  also have "\<dots> = Option.bind ?c (\<lambda>(_, t). map_option (\<lambda>(errs, s'). (last_error errs, s')) (run_all ?ms t))"
    by (simp only: components_Close_eq [OF assms])
  finally show ?thesis by (simp only: map_conv_bind_option comp_def split_def)
qed

text \<open>
  \<^verbatim>\<open>Start\<close> of a relayer the factory built succeeds exactly if the network is bootstrapped, then, after the configured wait,
  the broadcaster registers on its topics and sends its join message, and then all four polling handlers start, in the order
  role provider of Elrond, role provider of Ethereum, Ethereum to Elrond machine, Elrond to Ethereum machine, each with
  the interval of its configuration.
\<close>

theorem start_polls_every_component:
  assumes "NewEthElrondBridgeComponents L args (mh, s0) = Some (Inr rel, (mh', s1))"
  shows "components_Start L rel s = Some (None, s') \<longleftrightarrow>
    (\<exists>t1 t2 t3 t4. outside (Bootstrap (rel_messenger rel)) s = Some (None, t1)
      \<and> outside (lib_Sleep L (rel_timeForBootstrap rel)) t1 = Some ((), t2)
      \<and> broadcaster_RegisterOnTopics (es_broadcaster (rel_ethereum rel)) t2 = Some (None, t3)
      \<and> at_broadcaster [holder_client] (BroadcastJoinTopic (es_broadcaster (rel_ethereum rel))) t3 = Some ((), t4)
      \<and> run_all (map (\<lambda>ph. outside (lib_StartProcessingLoop L ph))
          (relayer_pollers (Configs args) (hb_stepDuration (rel_ethToElrond rel)) (hb_stepDuration (rel_elrondToEth rel)))) t4
        = Some ([None, None, None, None], s'))"
  by (rule components_Start_iff [OF assms])

text \<open>
  C39: \<^verbatim>\<open>Close\<close> of a relayer the factory built cancels the loop of the join messages if it has begun, and then, in either case,
  closes the timer, the four polling handlers and the Elrond client, each exactly once and in the order they were
  created, whether or not an earlier one reports an error; it reports the last error. These are all its calls: the broadcaster,
  the messenger and the gas station are not closed.
\<close>

theorem close_closes_every_handler:
  assumes "NewEthElrondBridgeComponents L args (mh, s0) = Some (Inr rel, (mh', s1))"
    and "ps = relayer_pollers (Configs args) (hb_stepDuration (rel_ethToElrond rel)) (hb_stepDuration (rel_elrondToEth rel))"
  shows "components_Close L cancelFunc rel s = do {
    (_, t) \<leftarrow> (case cancelFunc of None \<Rightarrow> Some ((), s) | Some cancel \<Rightarrow> outside cancel s);
    (errs, s') \<leftarrow> run_all [outside (ntpTimer_Close (NewNTPTimer (lib_NewSyncTime L))), outside (lib_ClosePollingHandler L (ps ! 0)),
              elrond_Close (rel_elrondClient rel), outside (lib_ClosePollingHandler L (ps ! 1)), outside (lib_ClosePollingHandler L (ps ! 2)),
              outside (lib_ClosePollingHandler L (ps ! 3))] t;
    Some (last_error errs, s') }"
  by (rule components_Close_any [OF assms])

subsection \<open>Whose signatures a transfer carries\<close>

text \<open>
  A relayer of the contract is an address the multisig contract has reported; a signature is by a relayer if the key recovered from
  it has such an address and the signature verifies under that key.
\<close>

definition contract_relayer :: "('e, 'addr) ethereumChainWrapper \<Rightarrow> 'addr \<Rightarrow> bool" where
  "contract_relayer w a \<longleftrightarrow> (\<exists>e rs e'. msc_GetRelayers (wrapper_multiSigContract w) e = Some (Inr rs, e') \<and> a \<in> set rs)"

definition signed_by_relayer :: "('addr, 'epk) EthCrypto \<Rightarrow> ('e, 'addr) ethereumChainWrapper \<Rightarrow> bytes \<Rightarrow> bytes \<Rightarrow> bool" where
  "signed_by_relayer C w sig h \<longleftrightarrow>
     (\<exists>pkBytes pk. Ecrecover C h sig = Inr pkBytes \<and> UnmarshalPubkey C pkBytes = Inr pk
        \<and> VerifySignature C pkBytes h (take 64 sig) \<and> contract_relayer w (PubkeyToAddress C pk))"

text \<open>
  The states a relayer reaches: a message of a peer is processed, the role provider of Ethereum is polled, the signatures are
  cleared, and everything else moves (the clients, the counters, the other role provider, the outside).
\<close>

inductive relayer_reachable ::
  "((string \<times> SignedMessage) list \<Rightarrow> (string \<times> SignedMessage) list) \<Rightarrow> ('addr, 'e, 'a, 'pk, 'ty, 'req, 'resp) relayer
   \<Rightarrow> ('addr, 'e) relayerState \<Rightarrow> ('addr, 'e) relayerState \<Rightarrow> bool" for mord rel s0 where
  start: "relayer_reachable mord rel s0 s0"
| received: "relayer_reachable mord rel s0 s
     \<Longrightarrow> at_broadcaster (es_clients (rel_ethereum rel))
           (broadcaster_ProcessReceivedMessage mord (es_broadcaster (rel_ethereum rel)) message peer) s = Some (err, s')
     \<Longrightarrow> relayer_reachable mord rel s0 s'"
| refreshed: "relayer_reachable mord rel s0 s
     \<Longrightarrow> within rp_ethereumRoleProvider (\<lambda>erp p. p\<lparr>rp_ethereumRoleProvider := erp\<rparr>)
           (ethereumRoleProvider_Execute (wrapper_GetRelayers (clientWrapper (es_ethClient (rel_ethereum rel))))) s = Some (err, s')
     \<Longrightarrow> relayer_reachable mord rel s0 s'"
| cleared: "relayer_reachable mord rel s0 (h, p) \<Longrightarrow> relayer_reachable mord rel s0 (signaturesHolder_ClearStoredSignatures h, p)"
| moved: "relayer_reachable mord rel s0 (h, p) \<Longrightarrow> rp_ethereumRoleProvider p' = rp_ethereumRoleProvider p
     \<Longrightarrow> relayer_reachable mord rel s0 (h, p')"

definition whitelist_ok :: "('e, 'addr) ethereumChainWrapper \<Rightarrow> 'addr ethereumRoleProvider \<Rightarrow> bool" where
  "whitelist_ok w erp \<longleftrightarrow> (\<forall>a. ethereumRoleProvider_isWhitelisted erp a \<longrightarrow> contract_relayer w a)"

lemma VerifyEthSignature_relayer:
  assumes "VerifyEthSignature C erp sig h = None" and "whitelist_ok w erp"
  shows "signed_by_relayer C w sig h"
proof -
  have "(if 64 < length sig then take 64 sig else sig) = take 64 sig" by simp
  with assms show ?thesis
    by (auto simp: VerifyEthSignature_def signed_by_relayer_def whitelist_ok_def ethSignatureSize_def Let_def
        split: sum.split_asm if_split_asm)
qed

lemma GetRelayers_outside:
  "wrapper_GetRelayers (outside_wrapper w) s = Some (Inr rs, s') \<Longrightarrow> \<exists>e e'. msc_GetRelayers (wrapper_multiSigContract w) e = Some (Inr rs, e')"
  by (cases s) (auto simp: wrapper_GetRelayers_def outside_wrapper_def outside_status_def outside_def Let_def elim!: go_bindE)

lemma GetRelayers_frame: "wrapper_GetRelayers (outside_wrapper w) s = Some (r, s') \<Longrightarrow> fst s' = fst s"
  by (auto simp: wrapper_GetRelayers_def outside_wrapper_def outside_status_def Let_def elim!: go_bindE dest!: outside_frame)

lemma whitelist_refreshed:
  assumes "ethereumRoleProvider_Execute (wrapper_GetRelayers (outside_wrapper w)) (erp, s) = Some (err, (erp', s'))" and "whitelist_ok w erp"
  shows "whitelist_ok w erp' \<and> fst s' = fst s"
proof -
  from assms(1) obtain r where r: "wrapper_GetRelayers (outside_wrapper w) s = Some (r, s')"
    and erp': "erp' = (case r of Inl _ \<Rightarrow> erp | Inr rs \<Rightarrow> ethereumRoleProvider_processResults erp rs)"
    unfolding ethereumRoleProvider_Execute_def by (auto elim!: go_bindE split: sum.split_asm)
  have "whitelist_ok w erp'"
  proof (cases r)
    case (Inr rs)
    with GetRelayers_outside [of w s rs s'] r show ?thesis
      by (auto simp: erp' whitelist_ok_def contract_relayer_def eth_whitelisted_iff)
  qed (simp add: erp' assms(2))
  with GetRelayers_frame [OF r] show ?thesis by simp
qed

lemma within_Some: "within get put m (h, p) = Some (r, s') \<Longrightarrow> \<exists>c h' p'. m (get p, (h, p)) = Some (r, (c, (h', p'))) \<and> s' = (h', put c p')"
  by (auto simp: within_def elim!: go_bindE split: prod.split_asm)

lemma reachable_signatures:
  assumes "relayer_reachable mord rel s0 s"
    and rel: "checks_signatures L (es_broadcaster (rel_ethereum rel))" "es_clients (rel_ethereum rel) = [holder_client]"
      "clientWrapper (es_ethClient (rel_ethereum rel)) = outside_wrapper w"
    and start: "ethMessages (fst s0) = []" "whitelist_ok w (roles s0)"
  shows "whitelist_ok w (roles s) \<and> (\<forall>em \<in> set (ethMessages (fst s)). signed_by_relayer (lib_ethCrypto L) w (eth_Signature em) (MessageHash em))"
  using assms(1)
proof (induction rule: relayer_reachable.induct)
  case start
  with start assms(5,6) show ?case by simp
next
  case (received s message peer err s')
  obtain h p where s: "s = (h, p)" by fastforce
  from within_Some [OF received.hyps(2) [unfolded s]] obtain b h' p' where
    run: "broadcaster_ProcessReceivedMessage mord (es_broadcaster (rel_ethereum rel)) message peer
        (broadcaster_get [holder_client] p, (h, p)) = Some (err, (b, (h', p')))" and s': "s' = (h', broadcaster_put b p')"
    unfolding rel(2) by blast
  have "clients (broadcaster_get [holder_client] p) = [holder_client]" by (simp add: broadcaster_get_def)
  from runsD [OF ProcessReceivedMessage_adds [OF _ this, of rp_ethereumRoleProvider] run] rel(1)
  have adds: "adds_verified rp_ethereumRoleProvider (es_broadcaster (rel_ethereum rel)) (h, p) (h', p')"
    by (simp add: checks_signatures_def)
  then have same: "roles s' = roles s" by (simp add: s s' adds_verified_def broadcaster_put_def)
  show ?case
  proof (intro conjI ballI)
    show "whitelist_ok w (roles s')" using received.IH same by simp
    fix em assume "em \<in> set (ethMessages (fst s'))"
    then consider "em \<in> set (ethMessages (fst s))"
      | erp where "erp = roles s" "VerifyEthSignature (lib_ethCrypto L) erp (eth_Signature em) (MessageHash em) = None"
      using adds rel(1) unfolding adds_verified_def checks_signatures_def s s' by fastforce
    then show "signed_by_relayer (lib_ethCrypto L) w (eth_Signature em) (MessageHash em)"
      using received.IH VerifyEthSignature_relayer by cases blast+
  qed
next
  case (refreshed s err s')
  obtain h p where s: "s = (h, p)" by fastforce
  from within_Some [OF refreshed.hyps(2) [unfolded s rel(3)]] obtain erp h' p' where
    run: "ethereumRoleProvider_Execute (wrapper_GetRelayers (outside_wrapper w)) (rp_ethereumRoleProvider p, (h, p)) = Some (err, (erp, (h', p')))"
    and s': "s' = (h', p'\<lparr>rp_ethereumRoleProvider := erp\<rparr>)" by blast
  from whitelist_refreshed [OF run] refreshed.IH show ?case by (simp add: s s')
qed (simp_all add: signaturesHolder_ClearStoredSignatures_def)

text \<open>
  C6: a transfer that a relayer executes on Ethereum is backed by a quorum of relayers: whatever messages peers have sent since the
  factory built the relayer, when the Ethereum client reports a transaction, the contract was called with the lists of the
  batch and exactly \<^verbatim>\<open>quorum\<close> different signatures, and from each of them a public key is recovered under which it verifies for
  the hash of this transfer and whose address the multisig contract has reported as a relayer.
\<close>

theorem transfer_is_signed_by_relayers:
  assumes "NewEthElrondBridgeComponents L args (mh, s0) = Some (Inr rel, (mh', s1))" and "range_order (lib_range_keys L)"
    and "relayer_reachable mord rel s1 s"
    and "eth_ExecuteTransfer (fc_ethClient (rel_components rel)) h (Some b) q s = Some (Inr hash, s')"
  shows "\<exists>opts sigs e e'. let l = batch_lists (geth (es_ethClient (rel_ethereum rel))) (Deposits b); w = the (ClientWrapper args) in
      msc_ExecuteTransfer (wrapper_multiSigContract w) opts (tokens l) (recipients l) (amounts l) (argListsBatch.nonces l)
          (uint (ID b)) sigs e = Some (Inr hash, e')
      \<and> distinct sigs \<and> int (length sigs) = q \<and> list_all (\<lambda>sig. signed_by_relayer (lib_ethCrypto L) w sig h) sigs"
proof -
  note new = NewComponents_result [OF assms(1)]
  let ?w = "the (ClientWrapper args)" let ?d = "es_ethClient (rel_ethereum rel)"
  have "ethMessages (fst s1) = []" "whitelist_ok ?w (roles s1)"
    using new by (simp_all add: NewSignatureHolder_def whitelist_ok_def ethereumRoleProvider_isWhitelisted_def)
  with reachable_signatures [OF assms(3), of L ?w] new
  have signed: "\<forall>em \<in> set (ethMessages (fst s)). signed_by_relayer (lib_ethCrypto L) ?w (eth_Signature em) (MessageHash em)"
    by blast
  obtain holder p where s: "s = (holder, p)" by fastforce
  from assms(4) new obtain s2 where run: "ethc_ExecuteTransfer ?d h (Some b) q (holder, p) = Some (Inr hash, s2)"
    by (auto simp: s within_ethereum_def ethereum_interface_def beside_iff dest!: within_Some)
  from new have reads: "reads_holder (lib_range_keys L) ?d" by blast
  obtain auth sigs u where sent: "let l = batch_lists (geth ?d) (Deposits b) in
      wrapper_ExecuteTransfer (clientWrapper ?d) auth (tokens l) (recipients l) (amounts l) (argListsBatch.nonces l)
          (uint (ID b)) sigs u = Some (Inr hash, s2)" and sigs: "distinct sigs" "int (length sigs) = q"
      "\<And>sig. sig \<in> set sigs \<Longrightarrow> \<exists>em \<in> set (ethMessages holder). eth_Signature em = sig \<and> MessageHash em = h"
    by (rule ExecuteTransfer_signatures [OF reads assms(2) run]) blast
  from sent obtain e e' where "msc_ExecuteTransfer (wrapper_multiSigContract ?w) auth (tokens (batch_lists (geth ?d) (Deposits b)))
      (recipients (batch_lists (geth ?d) (Deposits b))) (amounts (batch_lists (geth ?d) (Deposits b)))
      (argListsBatch.nonces (batch_lists (geth ?d) (Deposits b))) (uint (ID b)) sigs e = Some (Inr hash, e')"
    using new by (cases u) (auto simp: wrapper_ExecuteTransfer_def outside_wrapper_def outside_status_def outside_def Let_def elim!: go_bindE)
  moreover have "list_all (\<lambda>sig. signed_by_relayer (lib_ethCrypto L) ?w sig h) sigs"
    using sigs(3) signed unfolding list_all_iff s by fastforce
  ultimately show ?thesis using sigs(1,2) unfolding Let_def by blast
qed

end
