(* ===== verification/Assembled_Demo.thy ===== *)
theory Assembled_Demo
  imports Assembled_Relayer
begin

subsection \<open>A concrete relayer\<close>

text \<open>Libraries, nodes and peers that answer at once, whatever the outside is; in the examples below it counts the calls of the contract.\<close>

definition town_sdk :: "('s, bytes) elrondSDK" where
  "town_sdk =
     \<lparr> NewNonceTransactionHandler = (\<lambda>_ _. Inr ((\<lambda>_ s. Some (Inr 4, s)), (\<lambda>_ s. Some (Inr ''hash'', s)), (\<lambda>s. Some (None, s)))),
       PublicKey_ToByteArray = Inr [7], sdk_NewAddressFromBytes = (\<lambda>b. b), sdk_AddressAsBech32String = (\<lambda>_. ''erd1''),
       sdk_NewBech32PubkeyConverter = Inr (\<lambda>_. ''erd1''), sdk_ToVmValueRequest = (\<lambda>_. Inr None),
       sdk_ToDataBytes = (\<lambda>_. Inr []), sdk_Marshal_Transaction = (\<lambda>_. Inr []), Ed25519_Sign = (\<lambda>m. Inr m) \<rparr>"

definition town_crypto :: "(bytes, bytes) EthCrypto" where
  "town_crypto = \<lparr> Ecrecover = (\<lambda>_ sig. Inr sig), UnmarshalPubkey = Inr, PubkeyToAddress = take 1, VerifySignature = (\<lambda>_ _ _. True) \<rparr>"

definition town_antiflood :: "'e antiFloodComponents" where
  "town_antiflood =
     \<lparr> af_CanProcessMessage = (\<lambda>_ _ e. Some (None, e)), af_CanProcessMessagesOnTopic = (\<lambda>_ _ _ _ _ e. Some (None, e)),
       af_BlacklistPeer = (\<lambda>_ _ e. Some ((), e)),
       af_BlacklistHandler = Some ((\<lambda>_ e. Some (False, e)), (\<lambda>_ _ e. Some (None, e))), af_PubKeysCacher = Some (\<lambda>_ e. Some (False, e)) \<rparr>"

definition town_gasHttp :: "('s, bytes, bytes) gasHttp" where
  "town_gasHttp = \<lparr> gas_NewRequest = (\<lambda>_. Inr []), gas_Do = (\<lambda>r s. Some (Inr r, s)), gas_ReadAll = (\<lambda>r s. Some (Inr r, s)),
     Unmarshal_gasStationResponse = (\<lambda>_. Inl ErrInvalidSize), gas_quoted = (\<lambda>t. t) \<rparr>"

definition town_validatorHttp :: "('s, bytes, bytes) validatorHttp" where
  "town_validatorHttp = \<lparr> bv_NewRequest = (\<lambda>url body. Inr body), bv_SetHeader = (\<lambda>_ _ request. request),
     bv_Do = (\<lambda>request w. Some (Inr request, w)), bv_StatusCode = (\<lambda>_. 200), bv_Status = (\<lambda>_. ''200 OK''),
     bv_NoBody = (\<lambda>_. False), bv_ReadAll = (\<lambda>_ w. Some (([1], None), w)), Marshal_batch = (\<lambda>_. Inr [2]),
     Unmarshal_microserviceResponse = (\<lambda>_. Inr True), Unmarshal_microserviceBadRequestBody = (\<lambda>_. Inr ''bad''), bv_quoted = (\<lambda>text. text) \<rparr>"

definition town_libs :: "(bytes, 'e, bytes, unit, bytes, unit, bytes, string, bytes, bytes) relayerLibs" where
  "town_libs =
     \<lparr> lib_NewBech32PubkeyConverter = Inr (\<lambda>_. ''erd1''), lib_LoadPrivateKeyFromPemFile = (\<lambda>_ e. Some (Inr [1], e)),
       lib_PrivateKeyFromByteArray = (\<lambda>_. Inr ()), lib_GetAddressFromPrivateKey = (\<lambda>_. Inr [7]),
       lib_NewAddressFromBech32String = (\<lambda>_. Inr [3]), lib_addresses = demo_address_lib, lib_elrondSDK = (\<lambda>_. town_sdk),
       lib_codec = \<lparr> codec_Unmarshal_SignedMessage = Unmarshal_SignedMessage demo_p2p,
         codec_Marshal_SignedMessage = Marshal_SignedMessage demo_p2p,
         codec_Unmarshal_EthereumSignature = Unmarshal_EthereumSignature demo_p2p,
         codec_Marshal_EthereumSignature = Marshal_EthereumSignature demo_p2p \<rparr>,
       lib_PublicKeyFromByteArray = PublicKeyFromByteArray demo_p2p, lib_signer_Verify = signer_Verify demo_p2p,
       lib_UnixNano = (\<lambda>e. Some (5, e)), lib_NewP2PAntiFloodComponents = (\<lambda>e. Some (Inr town_antiflood, e)),
       lib_NewPollingHandler = (\<lambda>_. None), lib_StartProcessingLoop = (\<lambda>_ e. Some (None, e)),
       lib_ClosePollingHandler = (\<lambda>_ e. Some (None, e)), lib_NewSyncTime = (\<lambda>_. \<lparr> CurrentTime_Unix = (\<lambda>e. Some (1000, e)),
         StartSyncingTime = (\<lambda>e. Some ((), e)), SyncTimer_Close = (\<lambda>e. Some (None, e)) \<rparr>), lib_ReadFile = (\<lambda>_ e. Some (Inr [], e)),
       lib_HexToECDSA = (\<lambda>_. Inr ()), lib_ethAddress = (\<lambda>_. Some [6]), lib_HexToAddress = (\<lambda>_. [8]), lib_geth = (\<lambda>_. demo_geth),
       lib_ethCrypto = town_crypto, lib_gasHttp = town_gasHttp, lib_validatorHttp = town_validatorHttp,
       lib_range_keys = (\<lambda>xs. xs), lib_range_transfers = (\<lambda>xs. xs), lib_hasher = (\<lambda>_. replicate 32 0),
       lib_select = (\<lambda>_ e. Some (True, e)), lib_Sleep = (\<lambda>_ e. Some ((), e)), lib_level_text = (\<lambda>_. ''LEVEL''),
       lib_marshal_batch = (\<lambda>_. ''batch''), lib_quoted = (\<lambda>t. t), lib_duration_text = (\<lambda>_. ''d'') \<rparr>"

definition town_wrapper :: "(nat, bytes) ethereumChainWrapper" where
  "town_wrapper =
     \<lparr> wrapper_StatusHandler = quiet_status,
       wrapper_multiSigContract =
         \<lparr> msc_GetBatch = (\<lambda>_ e. Some (Inl errQuorumNotReached, e)), msc_GetBatchDeposits = (\<lambda>_ e. Some (Inr [], e)),
           msc_GetRelayers = (\<lambda>e. Some (Inr [[1]], e)), msc_WasBatchExecuted = (\<lambda>_ e. Some (Inr False, e)),
           msc_ExecuteTransfer = (\<lambda>_ _ _ _ _ _ _ e. Some (Inr ''0xabc'', e + 1)),
           msc_Quorum = (\<lambda>e. Some (Inr 1, e)), msc_GetStatusesAfterExecution = (\<lambda>_ e. Some (Inr [3], e)),
           msc_Paused = (\<lambda>e. Some (Inr False, e)) \<rparr>,
       wrapper_blockchainClient =
         \<lparr> bcc_BlockNumber = (\<lambda>e. Some (Inr 10, e)), bcc_NonceAt = (\<lambda>_ _ e. Some (Inr 4, e)),
           bcc_ChainID = (\<lambda>e. Some (Inr 1, e)), bcc_BalanceAt = (\<lambda>_ e. Some (Inr 1000, e)) \<rparr> \<rparr>"

definition town_messenger :: "'e NetMessenger" where
  "town_messenger =
     \<lparr> Bootstrap = (\<lambda>e. Some (None, e)), SetPeerDenialEvaluator = (\<lambda>_ e. Some (None, e)), msg_Broadcast = (\<lambda>_ _ e. Some ((), e)),
       msg_SendToConnectedPeer = (\<lambda>_ _ _ e. Some (None, e)), msg_CreateTopic = (\<lambda>_ _ e. Some (None, e)),
       msg_RegisterMessageProcessor = (\<lambda>_ _ e. Some (None, e)), msg_Close = (\<lambda>e. Some (None, e)) \<rparr>"

definition town_config :: Config where
  "town_config =
     \<lparr> cfg_Eth = \<lparr> ethcfg_Chain = Ethereum, ethcfg_NetworkAddress = '''', ethcfg_MultisigContractAddress = '''', SafeContractAddress = ''0x8'',
         ethcfg_PrivateKeyFile = ''eth.sk'', ethcfg_IntervalToResendTxsInSeconds = 60, GasLimitBase = 10, GasLimitForEach = 5,
         ethcfg_GasStation = \<lparr> gsc_Enabled = False, gsc_URL = '''', PollingIntervalInSeconds = 60, RequestRetryDelayInSeconds = 5,
           MaxFetchRetries = 3, RequestTimeInSeconds = 2, MaximumAllowedGasPrice = 300, gsc_GasPriceSelector = ''SafeGasPrice'',
           gsc_GasPriceMultiplier = 1 \<rparr>,
         ethcfg_MaxRetriesOnQuorumReached = 3, IntervalToWaitForTransferInSeconds = 600, MaxBlocksDelta = 10 \<rparr>,
       cfg_Elrond = \<lparr> elcfg_NetworkAddress = ''https://gateway'', elcfg_MultisigContractAddress = ''erd1sc'', elcfg_PrivateKeyFile = ''elrond.pem'',
         elcfg_IntervalToResendTxsInSeconds = 60, GasMap = \<lparr> gas_Sign = 1, gas_ProposeTransferBase = 1, gas_ProposeTransferForEach = 1,
           gas_ProposeStatusBase = 1, gas_ProposeStatusForEach = 1, gas_PerformActionBase = 1, gas_PerformActionForEach = 1 \<rparr>,
         elcfg_MaxRetriesOnQuorumReached = 3, MaxRetriesOnWasTransferProposed = 3, ProxyCacherExpirationSeconds = 600,
         ProxyRestAPIEntityType = ''observer'', ProxyMaxNoncesDelta = 5, ProxyFinalityCheck = True \<rparr>,
       StateMachine =
         [(''EthereumToElrond'', \<lparr> StepDurationInMillis = 12000, IntervalForLeaderInSeconds = 120 \<rparr>),
          (''ElrondToEthereum'', \<lparr> StepDurationInMillis = 12000, IntervalForLeaderInSeconds = 720 \<rparr>)],
       PollingIntervalInMillis = 60000, BatchValidator = \<lparr> bvc_Enabled = True, bvc_URL = ''https://validator'', bvc_RequestTimeInSeconds = 2 \<rparr> \<rparr>"

definition town_storer :: "'e statusDeps" where
  "town_storer = \<lparr> storer = \<lparr> Put = (\<lambda>_ _ e. Some (None, e)), Get = (\<lambda>_ e. Some (Inl ErrMissingStatusHandler, e)) \<rparr>,
     Marshal_persistence = (\<lambda>_. Inr []), Unmarshal_persistence = (\<lambda>_. Inl ErrMissingStatusHandler) \<rparr>"

definition town_args ::
  "('e, bytes) ethereumChainWrapper \<Rightarrow> 'e StatusHandler \<Rightarrow> (bytes \<Rightarrow> bytes \<Rightarrow> ('e, int res) go) \<Rightarrow> (bytes, 'e) ArgsEthereumToElrondBridge" where
  "town_args w sh bal =
     \<lparr> Configs = town_config, Messenger = Some town_messenger,
       StatusStorer = Some town_storer,
       Proxy = Some quiet_proxy, ElrondClientStatusHandler = Some sh,
       Erc20ContractsHolder = Some bal, ClientWrapper = Some w,
       TimeForBootstrap = 20000000000, TimeBeforeRepeatJoin = 300000000000, MetricsHolder = Some (), AppStatusHandler = Some () \<rparr>"

text \<open>The memory before construction.\<close>

definition town_memory :: "'e \<Rightarrow> (bytes, 'e) relayerState" where
  "town_memory e =
     (NewSignatureHolder,
      \<lparr> rp_dataGetter = \<lparr> wasShardIDFetched = False, shardID = 0 \<rparr>, rp_elrondRoleProvider = \<lparr> whitelistedAddresses = [] \<rparr>,
        rp_elrondClient = \<lparr> wasShardIDFetched = False, shardID = 0, lastNonce = 0, retriesAvailabilityCheck = 0 \<rparr>,
        rp_ethereumRoleProvider = \<lparr> eth_whitelistedAddresses = [] \<rparr>, rp_counter = 0, rp_nonces = [],
        rp_gasStation = \<lparr> latestGasPrice = 0, fetchRetries = 0, loopStatus = False \<rparr>,
        rp_ethClient = \<lparr> lastBlockNumber = 0, eth_retriesAvailabilityCheck = 0 \<rparr>, rp_outside = e \<rparr>)"

lemmas town_defs = town_libs_def town_args_def town_sdk_def town_config_def town_storer_def

lemma town_keys: "createElrondKeysAndAddresses town_libs (cfg_Elrond town_config) s = Some (Inr ((), [7], [3]), s)"
  by (cases s) (simp add: createElrondKeysAndAddresses_def outside_def town_defs)

abbreviation town_getter :: "((bytes, 'e) relayerState, bytes) dataGetterDeps" where
  "town_getter \<equiv> \<lparr> multisigContractAddress = [3], relayerAddress = [7], proxy = outside_proxy quiet_proxy,
    AddressAsBech32String = (\<lambda>_. ''erd1''), ToVmValueRequest = (\<lambda>_. Inr None) \<rparr>"

lemma town_createDataGetter:
  "createDataGetter town_libs () [7] [3] quiet_proxy (h, p) = Some (Inr town_getter, (h, p\<lparr>rp_dataGetter := \<lparr> wasShardIDFetched = False, shardID = 0 \<rparr>\<rparr>))"
  by (simp add: createDataGetter_def NewDataGetter_def town_libs_def town_sdk_def)

abbreviation town_add :: "PollingHandler \<Rightarrow> handlers \<Rightarrow> handlers" where
  "town_add ph hs \<equiv> hs\<lparr>closableHandlers := closableHandlers hs @ [Some (Close_pollingHandler ph)], pollingHandlers := pollingHandlers hs @ [ph]\<rparr>"

lemma town_addPollingHandler: "addPollingHandler town_libs ph hs = Inr (town_add ph hs)"
  by (simp add: addPollingHandler_iff town_libs_def)

lemma town_roleProviders:
  "\<exists>ph. createElrondRoleProvider town_libs town_config getter hs (h, p)
     = Some (Inr (town_add ph hs), (h, p\<lparr>rp_elrondRoleProvider := \<lparr> whitelistedAddresses = [] \<rparr>\<rparr>))"
  "\<exists>ph. createEthereumRoleProvider town_libs (town_args w sh bal) hs (h, p)
     = Some (Inr (town_add ph hs), (h, p\<lparr>rp_ethereumRoleProvider := \<lparr> eth_whitelistedAddresses = [] \<rparr>\<rparr>))"
  by (simp_all add: createElrondRoleProvider_def createEthereumRoleProvider_def NewElrondRoleProvider_def NewEthereumRoleProvider_def
      checkElrondRoleProviderSpecificArgs_def checkEthereumRoleProviderSpecificArgs_def town_addPollingHandler town_args_def) blast+

lemma town_createElrondClient:
  "\<exists>del c hs'. createElrondClient town_libs (town_args w sh bal) () [3] town_getter hs (h, p)
     = Some (Inr (del, hs'), (h, p\<lparr>rp_elrondClient := c\<rparr>)) \<and> elrond_Close del = (\<lambda>s. Some (None, s))"
  by (simp add: createElrondClient_def NewElrondToErc20Mapper_def NewElrondClient_def elrond_checkArgs_def checkGasMapValues_def NewDataGetter_def
      elrond_minAllowedDelta_def elrond_Close_def transactionHandler_Close_def elrondClientDeps.defs dataGetterDeps.defs town_defs Let_def) blast

abbreviation town_mapper :: "(bytes, 'e) relayerState mappersDataGetter" where
  "town_mapper \<equiv> \<lparr> dg_GetTokenIdForErc20Address = GetTokenIdForErc20Address town_getter,
                    dg_GetERC20AddressForTokenId = GetERC20AddressForTokenId town_getter \<rparr>"

definition town_broadcaster :: "((bytes, 'e) relayerState, bytes) broadcasterDeps" where
  "town_broadcaster = broadcasterDeps_of town_libs town_messenger () town_antiflood [7] ''EthereumToElrond_join'' ''EthereumToElrond_sign''"

definition town_eth ::
  "('e, bytes) ethereumChainWrapper \<Rightarrow> (bytes \<Rightarrow> bytes \<Rightarrow> ('e, int res) go) \<Rightarrow> ((bytes, 'e) relayerState, bytes, string) ethereumClientDeps" where
  "town_eth w bal =
     \<lparr> geth = demo_geth, clientWrapper = outside_wrapper w, erc20_BalanceOf = (\<lambda>a b. outside (bal a b)),
       eth_ToBech32String = (\<lambda>_. ''erd1''),
       broadcaster_BroadcastSignature = (\<lambda>sig h. at_broadcaster [holder_client] (BroadcastSignature town_broadcaster sig h)),
       ethereumRelayerAddress = [6], eth_tokensMapper = erc20ToElrond_ConvertToken town_mapper,
       signatureHolder_Signatures = (\<lambda>h (holder, t). Some (signaturesHolder_Signatures (\<lambda>xs. xs) holder h, (holder, t))),
       safeContractAddress = [8], gasHandler_GetCurrentGasPrice = gas_price_of (DisabledGasStation :: ((bytes, 'e) relayerState, bytes, bytes) GasHandler),
       transferGasLimitBase = 10, transferGasLimitForEach = 5, eth_allowDelta = 10, range_transfers = (\<lambda>xs. xs) \<rparr>"

lemma town_createBroadcaster:
  "createBroadcaster town_libs Ethereum town_messenger () (h, p)
   = Some (Inr (town_broadcaster, \<lparr> counter = 5, nonces = [], clients = [] \<rparr>), (h, p))"
  by (simp add: createBroadcaster_def createAntifloodComponents_def if_no_err_def of_res_def of_err_def outside_def town_broadcaster_def
      town_libs_def town_sdk_def town_messenger_def town_antiflood_def NewPeerDenialEvaluator_def NewBroadcaster_def broadcaster_checkArgs_def
      EvmCompatibleChainToElrondName_def Ethereum_def joinTopicSuffix_def signTopicSuffix_def newNoncesOfPublicKeys_def)

lemma town_args_sel:
  "Configs (town_args w sh bal) = town_config" "Messenger (town_args w sh bal) = Some town_messenger" "ethcfg_Chain (cfg_Eth town_config) = Ethereum"
  "Proxy (town_args w sh bal) = Some quiet_proxy" "ClientWrapper (town_args w sh bal) = Some w"
  by (simp_all add: town_args_def town_config_def)

lemma town_readEthereumKey: "readEthereumKey town_libs path (h, p) = Some (Inr ((), [6]), (h, p))"
  by (simp add: readEthereumKey_def if_no_err_def of_res_def outside_def town_libs_def)

lemma town_gasStation: "CreateGasStation (lib_gasHttp town_libs) a (gsc_Enabled (ethcfg_GasStation (cfg_Eth town_config))) = Inr DisabledGasStation"
  by (simp add: CreateGasStation_def town_config_def)

lemma town_newEthereumClient:
  "NewEthereumClient (lib_geth town_libs ()) (Some [6]) (lib_range_transfers town_libs)
      (argsEthClient town_libs (town_args w sh bal) (\<lambda>_. ''erd1'') town_broadcaster [holder_client] town_mapper DisabledGasStation)
      = Inr (town_eth w bal, \<lparr> lastBlockNumber = 0, eth_retriesAvailabilityCheck = 0 \<rparr>)"
  by (simp add: NewEthereumClient_def argsEthClient_def ethereum_checkArgs_def ethereum_minAllowedDelta_def town_eth_def town_libs_def
      town_args_def town_config_def Let_def)

lemma town_createEthereumClient:
  "createEthereumClient town_libs (town_args w sh bal) () (\<lambda>_. ''erd1'') town_getter (h, p)
   = Some (Inr \<lparr> es_broadcaster = town_broadcaster, es_clients = [holder_client], es_gasHandler = DisabledGasStation,
                 es_relayerAddress = [6], es_ethClient = town_eth w bal \<rparr>,
           (NewSignatureHolder, p\<lparr>rp_counter := 5, rp_nonces := [], rp_ethClient := \<lparr> lastBlockNumber = 0, eth_retriesAvailabilityCheck = 0 \<rparr>\<rparr>))"
  by (simp add: createEthereumClient_def if_no_err_def of_res_def town_createBroadcaster town_args_sel store_gasStation_def
      town_readEthereumKey town_gasStation town_newEthereumClient
      NewErc20ToElrondMapper_def AddBroadcastClient_def broadcaster_put_def Let_def)

lemma town_bridges:
  fixes s :: "(bytes, 'e) relayerState" and del :: "((bytes, 'e) relayerState, bytes) elrondClientDeps"
    and w :: "('e, bytes) ethereumChainWrapper" and sh :: "'e StatusHandler" and bal :: "bytes \<Rightarrow> bytes \<Rightarrow> ('e, int res) go"
  defines "c \<equiv> components_of town_libs (town_args w sh bal) [7] del (town_eth w bal)"
  shows "map_of mh ''EthereumToElrond'' = None
      \<Longrightarrow> \<exists>hb sh. createEthereumToElrondBridge c (bridgeConfig_of town_config) (mh, s) = Some (Inr hb, (mh @ [(''EthereumToElrond'', sh)], s))"
    and "map_of mh ''ElrondToEthereum'' = None
      \<Longrightarrow> \<exists>hb mh'. createElrondToEthereumBridge c (bridgeConfig_of town_config) (mh, s) = Some (Inr hb, (mh', s))"
  unfolding c_def
  by (cases s; simp add: update_fresh createEthereumToElrondBridge_def createElrondToEthereumBridge_def components_of_def bridgeConfig_of_def town_defs
      EvmCompatibleChainToElrondName_def ElrondToEvmCompatibleChainName_def outside_statusDeps_def outside_def
      Ethereum_def Elrond_def Bsc_def argsTopologyHandler_def NewTopologyHandler_def topology_checkArgs_def times_def int64_Seconds_def
      NewStatusHandler_def tryLoadPersistedData_def AddStatusHandler_def statusHandler_Name_def createBatchValidator_def
      CreateBatchValidator_def NewBatchValidator_def validator_checkArgs_def validator_minRequestTime_def newBridge_def
      argsBridgeExecutor_def NewBridgeExecutor_def bridgeExecutor_checkArgs_def durationLimit_def minRetries_def
      createBridgeExecutor_def ethToElrond_CreateSteps_eq elrondToEth_CreateSteps_eq demo_address_lib_def Let_def)+

lemma town_machines:
  "\<exists>sm hs'. pollEthereumToElrondStateMachine town_libs chain hb hs = Inr (sm, hs')"
  "\<exists>sm hs'. pollElrondToEthereumStateMachine town_libs chain hb hs = Inr (sm, hs')"
  by (simp_all add: pollEthereumToElrondStateMachine_def pollElrondToEthereumStateMachine_def addPollingHandler_def town_libs_def
      createEthereumToElrondStateMachine_eq createElrondToEthereumStateMachine_eq NewStateMachine_def stateMachine_checkArgs_def
      getNextStep_def ethToElrond_steps_def ethToElrond_stepsSlice_def elrondToEth_steps_def elrondToEth_stepsSlice_def Let_def)


text \<open>The whole construction.\<close>

abbreviation town_start :: "'e \<Rightarrow> (bytes, 'e) relayerParts \<Rightarrow> bool" where
  "town_start e p \<equiv> rp_ethereumRoleProvider p = \<lparr> eth_whitelistedAddresses = [] \<rparr> \<and> rp_nonces p = [] \<and> rp_outside p = e"

lemma town_relayer:
  assumes "map_of mh0 ''EthereumToElrond'' = None" and "map_of mh0 ''ElrondToEthereum'' = None"
  shows "\<exists>rel mh p'. NewEthElrondBridgeComponents town_libs (town_args w sh bal) (mh0, (h, p)) = Some (Inr rel, (mh, (NewSignatureHolder, p')))
     \<and> town_start (rp_outside p) p' \<and> es_ethClient (rel_ethereum rel) = (town_eth w bal) \<and> es_broadcaster (rel_ethereum rel) = town_broadcaster
     \<and> es_clients (rel_ethereum rel) = [holder_client] \<and> rel_messenger rel = town_messenger
     \<and> elrond_Close (rel_elrondClient rel) = (\<lambda>s. Some (None, s))"
proof -
  have check: "checkArgsEthereumToElrondBridge (lib_duration_text town_libs) (town_args w sh bal) = None" "lib_NewBech32PubkeyConverter town_libs = Inr (\<lambda>_. ''erd1'')"
    by (simp_all add: checkArgsEthereumToElrondBridge_def town_args_def town_libs_def minTimeForBootstrap_def minTimeBeforeRepeatJoin_def)
  let ?hs0 = "addClosableComponent (Some Close_timer) \<lparr> closableHandlers = [], pollingHandlers = [] \<rparr>"
  let ?p1 = "p\<lparr>rp_dataGetter := \<lparr> wasShardIDFetched = False, shardID = 0 \<rparr>\<rparr>"
  let ?p2 = "?p1\<lparr>rp_elrondRoleProvider := \<lparr> whitelistedAddresses = [] \<rparr>\<rparr>"
  obtain ph1 where s1: "createElrondRoleProvider town_libs town_config town_getter ?hs0 (h, ?p1) = Some (Inr (town_add ph1 ?hs0), (h, ?p2))"
    using town_roleProviders(1) by blast
  obtain del c hs2 where s2: "createElrondClient town_libs (town_args w sh bal) () [3] town_getter (town_add ph1 ?hs0) (h, ?p2)
      = Some (Inr (del, hs2), (h, ?p2\<lparr>rp_elrondClient := c\<rparr>))" and close: "elrond_Close del = (\<lambda>s. Some (None, s))"
    using town_createElrondClient by blast
  let ?p3 = "?p2\<lparr>rp_elrondClient := c\<rparr>"
  let ?p4 = "?p3\<lparr>rp_ethereumRoleProvider := \<lparr> eth_whitelistedAddresses = [] \<rparr>\<rparr>"
  obtain ph2 where s3: "createEthereumRoleProvider town_libs (town_args w sh bal) hs2 (h, ?p3) = Some (Inr (town_add ph2 hs2), (h, ?p4))"
    using town_roleProviders(2) by blast
  let ?p5 = "?p4\<lparr>rp_counter := 5, rp_nonces := [], rp_ethClient := \<lparr> lastBlockNumber = 0, eth_retriesAvailabilityCheck = 0 \<rparr>\<rparr>"
  let ?c = "components_of town_libs (town_args w sh bal) [7] del (town_eth w bal)"
  obtain hb1 sh1 where b1: "createEthereumToElrondBridge ?c (bridgeConfig_of town_config) (mh0, (NewSignatureHolder, ?p5))
      = Some (Inr hb1, (mh0 @ [(''EthereumToElrond'', sh1)], (NewSignatureHolder, ?p5)))"
    using town_bridges(1) [OF assms(1)] by blast
  have fresh: "map_of (mh0 @ [(''EthereumToElrond'', sh1)]) ''ElrondToEthereum'' = None" using assms(2) by simp
  obtain hb2 mh where b2: "createElrondToEthereumBridge ?c (bridgeConfig_of town_config) (mh0 @ [(''EthereumToElrond'', sh1)], (NewSignatureHolder, ?p5))
      = Some (Inr hb2, (mh, (NewSignatureHolder, ?p5)))"
    using town_bridges(2) [of "mh0 @ [(''EthereumToElrond'', sh1)]"] fresh by blast
  obtain sm1 hs4 where m1: "pollEthereumToElrondStateMachine town_libs Ethereum hb1 (town_add ph2 hs2) = Inr (sm1, hs4)"
    using town_machines(1) by blast
  obtain sm2 hs5 where m2: "pollElrondToEthereumStateMachine town_libs Ethereum hb2 hs4 = Inr (sm2, hs5)"
    using town_machines(2) by blast
  have "\<exists>rel. NewEthElrondBridgeComponents town_libs (town_args w sh bal) (mh0, (h, p)) = Some (Inr rel, (mh, (NewSignatureHolder, ?p5)))
     \<and> es_ethClient (rel_ethereum rel) = (town_eth w bal) \<and> es_broadcaster (rel_ethereum rel) = town_broadcaster
     \<and> es_clients (rel_ethereum rel) = [holder_client] \<and> rel_messenger rel = town_messenger
     \<and> elrond_Close (rel_elrondClient rel) = (\<lambda>s. Some (None, s))"
    by (simp add: NewEthElrondBridgeComponents_def if_no_err_def of_res_def beside_def check town_args_sel town_keys town_createDataGetter
        s1 s2 s3 town_createEthereumClient b1 b2 m1 m2 close Let_def)
  moreover have "town_start (rp_outside p) ?p5" by simp
  ultimately show ?thesis by blast
qed


definition town_balance :: "bytes \<Rightarrow> bytes \<Rightarrow> ('e, int res) go" where
  "town_balance = (\<lambda>_ _ e. Some (Inr 50, e))"

abbreviation demo_args :: "(bytes, nat) ArgsEthereumToElrondBridge" where
  "demo_args \<equiv> town_args town_wrapper quiet_status town_balance"

lemma demo_relayer:
  "\<exists>rel mh p. NewEthElrondBridgeComponents town_libs demo_args ([], town_memory 0) = Some (Inr rel, (mh, (NewSignatureHolder, p)))
     \<and> town_start 0 p \<and> es_ethClient (rel_ethereum rel) = town_eth town_wrapper town_balance \<and> es_broadcaster (rel_ethereum rel) = town_broadcaster
     \<and> es_clients (rel_ethereum rel) = [holder_client] \<and> rel_messenger rel = town_messenger
     \<and> elrond_Close (rel_elrondClient rel) = (\<lambda>s. Some (None, s))"
proof -
  obtain h p where "town_memory 0 = (h, p)" and "rp_outside p = (0 :: nat)" by (simp add: town_memory_def)
  then show ?thesis using town_relayer [of "[]" town_wrapper quiet_status town_balance h p] by simp
qed

lemma town_refresh:
  "within rp_ethereumRoleProvider (\<lambda>erp p. p\<lparr>rp_ethereumRoleProvider := erp\<rparr>)
     (ethereumRoleProvider_Execute (wrapper_GetRelayers (outside_wrapper town_wrapper))) (h, p)
   = Some (None, (h, p\<lparr>rp_ethereumRoleProvider := (rp_ethereumRoleProvider p)\<lparr>eth_whitelistedAddresses := [([1], ())]\<rparr>\<rparr>))"
  by (simp add: within_def ethereumRoleProvider_Execute_def wrapper_GetRelayers_def outside_wrapper_def outside_status_def outside_def
      town_wrapper_def quiet_status_def ethereumRoleProvider_processResults_def Let_def)

abbreviation town_message :: messageP2P where
  "town_message \<equiv> \<lparr> Data = [7] @ PutUint64 42 @ [1, 2, 3], Topic = ''EthereumToElrond_sign'', Peer = ''p'', SeqNo = [] \<rparr>"

lemma town_receive:
  assumes "rp_nonces p = []" and "rp_elrondRoleProvider p = \<lparr> whitelistedAddresses = [(string_of_bytes [7], ())] \<rparr>"
    and "rp_ethereumRoleProvider p = \<lparr> eth_whitelistedAddresses = [([1], ())] \<rparr>"
  shows "at_broadcaster [holder_client] (broadcaster_ProcessReceivedMessage (\<lambda>xs. xs) town_broadcaster (Some town_message) ''q'') (NewSignatureHolder, p)
   = Some (None, (demo_holder, p\<lparr>rp_nonces := [(string_of_bytes [7], 42)]\<rparr>))"
  using assms
  by (simp add: within_def broadcaster_get_def broadcaster_put_def broadcaster_ProcessReceivedMessage_def preProcessMessage_def
      checkLengths_def absolutMaxSliceSize_def processNonce_def stored_nonce_def canProcessMessage_def processSignMessage_def
      getEthereumSignature_def holder_client_def signaturesHolder_ProcessNewMessage_def town_broadcaster_def broadcasterDeps_of_def
      town_libs_def town_antiflood_def outside_def demo_p2p_def elrondRoleProvider_IsWhitelisted_def demo_address_lib_def
      VerifyEthSignature_def ethereumRoleProvider_isWhitelisted_def town_crypto_def NewSignatureHolder_def Let_def)

lemma town_transfer:
  "\<exists>s'. eth_ExecuteTransfer (within_ethereum (ethereum_interface (town_eth town_wrapper town_balance))) [1, 2, 3] (Some demo_eth_batch) 1 (demo_holder, p) = Some (Inr ''0xabc'', s')"
  by (simp add: within_ethereum_def within_def ethereum_interface_def beside_def ethc_ExecuteTransfer_def executeTransfer_signed_def
      wrapper_IsPaused_def wrapper_ChainID_def getNonce_def
      wrapper_BlockNumber_def wrapper_NonceAt_def wrapper_BalanceAt_def wrapper_ExecuteTransfer_def extractList_def
      checkAvailableTokens_def checkRelayerFundsForFee_def signaturesHolder_Signatures_def demo_eth_batch_def
      uint64_len_def int64_def town_eth_def outside_wrapper_def outside_status_def outside_def town_wrapper_def quiet_status_def demo_geth_def
      gas_price_of_def DisabledGasStation_GetCurrentGasPrice_def town_balance_def Let_def)

theorem transfer_is_signed_by_relayers_witness:
  "\<exists>opts sig e e'. msc_ExecuteTransfer (wrapper_multiSigContract town_wrapper) opts [[255, 65]] [[2]] [20] [7] 3 [sig] e = Some (Inr ''0xabc'', e')
     \<and> signed_by_relayer town_crypto town_wrapper sig [1, 2, 3]"
proof -
  obtain rel mh p where rel: "NewEthElrondBridgeComponents town_libs demo_args ([], town_memory 0) = Some (Inr rel, (mh, (NewSignatureHolder, p)))"
    and p: "town_start 0 p" and parts: "es_ethClient (rel_ethereum rel) = (town_eth town_wrapper town_balance)" "es_broadcaster (rel_ethereum rel) = town_broadcaster"
      "es_clients (rel_ethereum rel) = [holder_client]"
    using demo_relayer by blast
  let ?p1 = "p\<lparr>rp_ethereumRoleProvider := (rp_ethereumRoleProvider p)\<lparr>eth_whitelistedAddresses := [([1], ())]\<rparr>\<rparr>"
  let ?p2 = "?p1\<lparr>rp_elrondRoleProvider := \<lparr> whitelistedAddresses = [(string_of_bytes [7], ())] \<rparr>\<rparr>"
  let ?s = "(demo_holder, ?p2\<lparr>rp_nonces := [(string_of_bytes [7], 42)]\<rparr>)"
  have wrapper: "clientWrapper (es_ethClient (rel_ethereum rel)) = outside_wrapper town_wrapper" by (simp add: parts town_eth_def)
  have "relayer_reachable (\<lambda>xs. xs) rel (NewSignatureHolder, p) (NewSignatureHolder, ?p1)"
    by (rule relayer_reachable.refreshed [OF relayer_reachable.start]) (simp only: wrapper town_refresh)
  then have "relayer_reachable (\<lambda>xs. xs) rel (NewSignatureHolder, p) (NewSignatureHolder, ?p2)"
    by (rule relayer_reachable.moved) simp
  then have reach: "relayer_reachable (\<lambda>xs. xs) rel (NewSignatureHolder, p) ?s"
    by (rule relayer_reachable.received [where message = "Some town_message" and peer = "''q''"])
      (simp only: parts, rule town_receive, use p in simp_all)
  have client: "fc_ethClient (rel_components rel) = within_ethereum (ethereum_interface (town_eth town_wrapper town_balance))"
    using NewComponents_result [OF rel] parts(1) by simp
  obtain s' where sent: "eth_ExecuteTransfer (fc_ethClient (rel_components rel)) [1, 2, 3] (Some demo_eth_batch) 1 ?s = Some (Inr ''0xabc'', s')"
    unfolding client using town_transfer by blast
  have "range_order (lib_range_keys town_libs)" by (simp add: town_libs_def)
  note signed = transfer_is_signed_by_relayers [OF rel this reach sent]
  have lists: "batch_lists (geth (town_eth town_wrapper town_balance)) (Deposits demo_eth_batch)
      = \<lparr> tokens = [[255, 65]], recipients = [[2]], amounts = [20], nonces = [7] \<rparr>" "uint (ID demo_eth_batch) = 3"
    by (simp_all add: batch_lists_def demo_eth_batch_def town_eth_def demo_geth_def)
  from signed obtain opts sigs e e' where call: "msc_ExecuteTransfer (wrapper_multiSigContract town_wrapper) opts [[255, 65]] [[2]] [20] [7] 3 sigs e
        = Some (Inr ''0xabc'', e')" and sigs: "length sigs = 1" "list_all (\<lambda>sig. signed_by_relayer town_crypto town_wrapper sig [1, 2, 3]) sigs"
    unfolding parts lists Let_def argListsBatch.select_convs town_args_sel option.sel by (auto simp: town_libs_def)
  from sigs(1) obtain sig where "sigs = [sig]" by (auto simp: length_Suc_conv)
  with call sigs(2) show ?thesis by auto
qed

lemma town_registers: "broadcaster_RegisterOnTopics town_broadcaster s = Some (None, s)"
  by (cases s) (simp add: broadcaster_RegisterOnTopics_def town_broadcaster_def broadcasterDeps_of_def town_messenger_def outside_def)

lemma town_Broadcast: "messenger_Broadcast town_broadcaster = (\<lambda>_ _ (h, p). Some ((), (h, p)))"
  by (simp add: town_broadcaster_def broadcasterDeps_of_def town_messenger_def outside_def fun_eq_iff)

lemma town_joins: "\<exists>p'. at_broadcaster [holder_client] (BroadcastJoinTopic town_broadcaster) (h, p) = Some ((), (h, p'))"
  by (simp add: town_Broadcast within_def BroadcastJoinTopic_def broadcastMessage_def Let_def split: prod.split sum.split)

lemma town_starts:
  assumes rel: "NewEthElrondBridgeComponents town_libs args (mh0, s0) = Some (Inr rel, (mh, s1))"
    and parts: "es_broadcaster (rel_ethereum rel) = town_broadcaster" "rel_messenger rel = town_messenger"
  shows "\<exists>p'. components_Start town_libs rel (h, p) = Some (None, (h, p'))"
proof -
  obtain p' where join: "at_broadcaster [holder_client] (BroadcastJoinTopic town_broadcaster) (h, p) = Some ((), (h, p'))"
    using town_joins by blast
  have "components_Start town_libs rel (h, p) = Some (None, (h, p'))"
    unfolding components_Start_iff [OF rel] parts
    by (intro exI conjI, simp add: town_messenger_def outside_def, simp add: town_libs_def outside_def, rule town_registers, rule join)
      (simp add: town_libs_def relayer_pollers_def outside_def Let_def)
  then show ?thesis by blast
qed

lemma town_closes:
  assumes "NewEthElrondBridgeComponents town_libs args (mh0, s0) = Some (Inr rel, (mh, s1))"
    and close: "elrond_Close (rel_elrondClient rel) = (\<lambda>s. Some (None, s))"
  shows "components_Close town_libs None rel s = Some (None, s)"
  unfolding components_Close_eq [OF assms(1) refl] close
  by (cases s) (simp add: town_libs_def outside_def last_error_def NewNTPTimer_def ntpTimer_Close_def)

theorem start_polls_every_component_witness:
  "\<exists>rel s s'. components_Start town_libs rel (s :: (bytes, nat) relayerState) = Some (None, s') \<and> length (pollingHandlers (rel_handlers rel)) = 4"
proof -
  obtain rel mh p where rel: "NewEthElrondBridgeComponents town_libs demo_args ([], town_memory 0) = Some (Inr rel, (mh, (NewSignatureHolder, p)))"
    and parts: "es_broadcaster (rel_ethereum rel) = town_broadcaster" "rel_messenger rel = town_messenger"
    using demo_relayer by blast
  obtain p' where start: "components_Start town_libs rel (NewSignatureHolder, p) = Some (None, (NewSignatureHolder, p'))"
    using town_starts [OF rel parts] by blast
  then obtain t where "run_all (map (\<lambda>ph. outside (lib_StartProcessingLoop town_libs ph))
      (relayer_pollers (Configs demo_args) (hb_stepDuration (rel_ethToElrond rel)) (hb_stepDuration (rel_elrondToEth rel)))) t
        = Some ([None, None, None, None], (NewSignatureHolder, p'))"
    unfolding start_polls_every_component [OF rel] by blast
  moreover have "length (pollingHandlers (rel_handlers rel)) = 4"
    using NewComponents_handlers [OF rel] by (simp add: relayer_pollers_def Let_def)
  ultimately show ?thesis using start by blast
qed

theorem close_closes_every_handler_witness:
  "\<exists>rel h (p :: (bytes, nat) relayerParts).
     components_Close town_libs (Some (\<lambda>cancelled. Some ((), Suc cancelled))) rel (h, p) = Some (None, (h, p\<lparr>rp_outside := Suc (rp_outside p)\<rparr>))"
proof -
  obtain rel mh p where rel: "NewEthElrondBridgeComponents town_libs demo_args ([], town_memory 0) = Some (Inr rel, (mh, (NewSignatureHolder, p)))"
    and close: "elrond_Close (rel_elrondClient rel) = (\<lambda>s. Some (None, s))"
    using demo_relayer by blast
  have "components_Close town_libs (Some (\<lambda>cancelled. Some ((), Suc cancelled))) rel (NewSignatureHolder, p)
      = Some (None, (NewSignatureHolder, p\<lparr>rp_outside := Suc (rp_outside p)\<rparr>))"
    unfolding close_closes_every_handler [OF rel refl] close
    by (simp add: town_libs_def outside_def last_error_def NewNTPTimer_def ntpTimer_Close_def)
  then show ?thesis by blast
qed

end
