(* ===== verification/Web_Server.thy ===== *)
theory Web_Server
  imports Relayer_Factory
begin

section \<open>The facade and the web server\<close>

text \<open>
  Models \<^verbatim>\<open>facade/relayerFacade.go\<close>, \<^verbatim>\<open>api/groups/\<close>, \<^verbatim>\<open>api/gin/\<close> and \<^verbatim>\<open>factory/webServer.go\<close>: the REST interface
  through which the metrics of a relayer are read. The gin engine is the list of the calls the code makes on it; the
  HTTP server, the throttlers and the scheduler are parameters.
\<close>

subsection \<open>Metrics holder and facade\<close>

record 's MetricsHolder =
  mh_GetAvailableStatusHandlers :: "('s, string list) go"
  mh_GetAllMetrics :: "string \<Rightarrow> ('s, (string, metricValue) gomap res) go"

text \<open>The holder of the status package behind that interface; the first part of the state is the holder with the handlers as they are.\<close>

definition metricsHolder_interface ::
  "((string \<times> statusHandler) list \<Rightarrow> (string \<times> statusHandler) list) \<Rightarrow> (metricsHolder \<times> 'w) MetricsHolder" where
  "metricsHolder_interface ord =
     \<lparr> mh_GetAvailableStatusHandlers = (\<lambda>(mh, w). Some (GetAvailableStatusHandlers ord mh, (mh, w))),
       mh_GetAllMetrics = (\<lambda>name (mh, w). Some (metricsHolder_GetAllMetrics mh name, (mh, w))) \<rparr>"

definition availableMetrics :: string where
  "availableMetrics = ''available metrics''"

definition facade_ErrNilMetricsHolder :: gerror where
  "facade_ErrNilMetricsHolder = ErrNew ''facade.ErrNilMetricsHolder'' ''nil metrics holder''"

text \<open>A value of \<^verbatim>\<open>GeneralMetrics\<close> is a metric or, in the list of the available handlers, a slice of names.\<close>

datatype generalValue = MetricValue metricValue | Names "string list"

type_synonym GeneralMetrics = "(string, generalValue) gomap"

record 's FacadeHandler =
  RestApiInterface :: string
  PprofEnabled :: bool
  GetMetrics :: "string \<Rightarrow> ('s, GeneralMetrics res) go"
  GetMetricsList :: "('s, GeneralMetrics) go"

record 's ArgsRelayerFacade =
  facade_MetricsHolder :: "'s MetricsHolder option"
  ApiInterface :: string
  facade_PprofEnabled :: bool

record 's relayerFacade =
  rf_metricsHolder :: "'s MetricsHolder"
  apiInterface :: string
  pprofEnabled :: bool

definition NewRelayerFacade :: "'s ArgsRelayerFacade \<Rightarrow> 's relayerFacade res" where
  "NewRelayerFacade args =
     (case facade_MetricsHolder args of
        None \<Rightarrow> Inl facade_ErrNilMetricsHolder
      | Some mh \<Rightarrow> Inr \<lparr> rf_metricsHolder = mh, apiInterface = ApiInterface args, pprofEnabled = facade_PprofEnabled args \<rparr>)"

definition relayerFacade_GetMetrics :: "'s relayerFacade \<Rightarrow> string \<Rightarrow> ('s, GeneralMetrics res) go" where
  "relayerFacade_GetMetrics rf name = (\<lambda>s. do {
     (r, s) \<leftarrow> mh_GetAllMetrics (rf_metricsHolder rf) name s;
     case r of
       Inl err \<Rightarrow> Some (Inl err, s)
     | Inr metrics \<Rightarrow> Some (Inr (map (\<lambda>(key, value). (key, MetricValue value)) metrics), s) })"

definition relayerFacade_GetMetricsList :: "'s relayerFacade \<Rightarrow> ('s, GeneralMetrics) go" where
  "relayerFacade_GetMetricsList rf = (\<lambda>s. do {
     (availableNames, s) \<leftarrow> mh_GetAvailableStatusHandlers (rf_metricsHolder rf) s;
     let result = [] in
     Some (AList.update availableMetrics (Names availableNames) result, s) })"

definition facade_interface :: "'s relayerFacade \<Rightarrow> 's FacadeHandler" where
  "facade_interface rf =
     \<lparr> RestApiInterface = apiInterface rf, PprofEnabled = pprofEnabled rf,
       GetMetrics = relayerFacade_GetMetrics rf, GetMetricsList = relayerFacade_GetMetricsList rf \<rparr>"

subsection \<open>Endpoint groups\<close>

text \<open>The configuration of the routes.\<close>

record RouteConfig =
  route_Name :: string
  route_Open :: bool

record APIPackageConfig =
  Routes :: "RouteConfig list"

record ApiLoggingConfig =
  LoggingEnabled :: bool
  ThresholdInMicroSeconds :: int

record ApiRoutesConfig =
  api_Logging :: ApiLoggingConfig
  APIPackages :: "(string, APIPackageConfig) gomap"

text \<open>The methods of the node group that are used as handlers, and what they answer.\<close>

datatype nodeHandler = StatusMetrics | StatusListMetrics

datatype returnCode = ReturnCodeSuccess | ReturnCodeInternalError

record apiResponse =
  resp_status :: int
  resp_Data :: "GeneralMetrics option"
  resp_Error :: string
  resp_Code :: returnCode

record EndpointHandlerData =
  ep_Path :: string
  ep_Method :: string
  ep_Handler :: nodeHandler

record 's nodeGroup =
  ng_endpoints :: "EndpointHandlerData list"
  ng_facade :: "'s FacadeHandler"

definition clientQueryParam :: string where "clientQueryParam = ''name''"
definition statusPath :: string where "statusPath = ''/status''"
definition statusListPath :: string where "statusListPath = ''/status/list''"

definition ErrGettingMetrics :: gerror where
  "ErrGettingMetrics = ErrNew ''groups.ErrGettingMetrics'' ''error getting metrics''"

definition NewNodeGroup :: "gerror \<Rightarrow> 's FacadeHandler option \<Rightarrow> 's nodeGroup res" where
  \<comment> \<open>the first argument is \<^verbatim>\<open>errors.ErrNilFacadeHandler\<close> of the node's API package\<close>
  "NewNodeGroup errNilFacadeHandler facade =
     (case facade of
        None \<Rightarrow> Inl (Errorf '''' errNilFacadeHandler '' for node group'')
      | Some f \<Rightarrow> Inr
          \<lparr> ng_endpoints =
              [\<lparr> ep_Path = statusPath, ep_Method = ''GET'', ep_Handler = StatusMetrics \<rparr>,
               \<lparr> ep_Path = statusListPath, ep_Method = ''GET'', ep_Handler = StatusListMetrics \<rparr>],
            ng_facade = f \<rparr>)"

definition statusListMetrics :: "('s nodeGroup \<times> 's, apiResponse) go" where
  "statusListMetrics = (\<lambda>(ng, s). do {
     (metrics_list, s) \<leftarrow> GetMetricsList (ng_facade ng) s;
     Some (\<lparr> resp_status = 200, resp_Data = Some metrics_list, resp_Error = '''', resp_Code = ReturnCodeSuccess \<rparr>, (ng, s)) })"

definition statusMetrics :: "(string, string list) gomap \<Rightarrow> ('s nodeGroup \<times> 's, apiResponse) go" where
  \<comment> \<open>the argument holds the values of the query\<close>
  "statusMetrics queryVals = (\<lambda>(ng, s).
     let params = (case map_of queryVals clientQueryParam of None \<Rightarrow> [] | Some values \<Rightarrow> values);
         name = (if length params > 0 then params ! 0 else '''') in
     do {
       (r, s) \<leftarrow> GetMetrics (ng_facade ng) name s;
       case r of
         Inl err \<Rightarrow> Some (\<lparr> resp_status = 500, resp_Data = None,
             resp_Error = error_text ErrGettingMetrics @ '': '' @ error_text err, resp_Code = ReturnCodeInternalError \<rparr>, (ng, s))
       | Inr info \<Rightarrow> Some (\<lparr> resp_status = 200, resp_Data = Some info, resp_Error = '''', resp_Code = ReturnCodeSuccess \<rparr>, (ng, s)) })"

fun serve :: "nodeHandler \<Rightarrow> (string, string list) gomap \<Rightarrow> ('s nodeGroup \<times> 's, apiResponse) go" where
  "serve StatusMetrics queryVals = statusMetrics queryVals"
| "serve StatusListMetrics queryVals = statusListMetrics"

definition nodeGroup_UpdateFacade :: "gerror \<Rightarrow> 's FacadeHandler option \<Rightarrow> 's nodeGroup \<Rightarrow> gerror option \<times> 's nodeGroup" where
  "nodeGroup_UpdateFacade errNilFacadeHandler newFacade ng =
     (case newFacade of
        None \<Rightarrow> (Some errNilFacadeHandler, ng)
      | Some f \<Rightarrow> (None, ng\<lparr>ng_facade := f\<rparr>))"

text \<open>\<^verbatim>\<open>strings.Split\<close> with the separator \<^verbatim>\<open>/\<close>.\<close>

fun split_slash :: "string \<Rightarrow> string list" where
  "split_slash [] = [[]]"
| "split_slash (c # cs) =
     (if c = CHR ''/'' then [] # split_slash cs
      else case split_slash cs of [] \<Rightarrow> [[c]] | t # ts \<Rightarrow> (c # t) # ts)"

fun route_open :: "RouteConfig list \<Rightarrow> string \<Rightarrow> bool" where
  "route_open [] path = False"
| "route_open (route # others) path = (if route_Name route = path then route_Open route else route_open others path)"

definition getEndpointProperties :: "string \<Rightarrow> string \<Rightarrow> ApiRoutesConfig \<Rightarrow> bool" where
  \<comment> \<open>the result is \<^verbatim>\<open>isOpen\<close>\<close>
  "getEndpointProperties basePath path apiConfig =
     (let splitPath = split_slash basePath;
          basePath = splitPath ! (length splitPath - 1)
      in case map_of (APIPackages apiConfig) basePath of
           None \<Rightarrow> False
         | Some package \<Rightarrow> route_open (Routes package) path)"

subsection \<open>Calls on the gin engine\<close>

datatype middlewareProcessor = Cors | ResponseLogger int | SourceThrottler "32 word" | GlobalThrottler "32 word"

datatype ginCall = Use middlewareProcessor | HandleRoute string string string nodeHandler | GetLog | RegisterPprof

fun RegisterRoutes :: "string \<Rightarrow> EndpointHandlerData list \<Rightarrow> ApiRoutesConfig \<Rightarrow> ginCall list" where
  \<comment> \<open>the first argument is the base path of the router group\<close>
  "RegisterRoutes base [] apiConfig = []"
| "RegisterRoutes base (handlerData # others) apiConfig =
     (if \<not> getEndpointProperties base (ep_Path handlerData) apiConfig then RegisterRoutes base others apiConfig
      else HandleRoute base (ep_Method handlerData) (ep_Path handlerData) (ep_Handler handlerData) # RegisterRoutes base others apiConfig)"

text \<open>
  The handler the engine calls for a request: that of the first route registered for the verb and the whole path (the documented
  dispatch of gin for routes without parameters).
\<close>

fun routed :: "ginCall list \<Rightarrow> string \<Rightarrow> string \<Rightarrow> nodeHandler option" where
  "routed [] verb url = None"
| "routed (HandleRoute base v path h # calls) verb url = (if v = verb \<and> base @ path = url then Some h else routed calls verb url)"
| "routed (_ # calls) verb url = routed calls verb url"

subsection \<open>The HTTP server\<close>

record 's server =
  ListenAndServe :: "('s, gerror option) go"
  Shutdown :: "int \<Rightarrow> ('s, gerror option) go"

record 's httpServer =
  hs_server :: "'s server"

definition http_ErrServerClosed :: gerror where
  "http_ErrServerClosed = ErrNew ''http.ErrServerClosed'' ''http: Server closed''"

definition NewHttpServer :: "gerror \<Rightarrow> 's server option \<Rightarrow> 's httpServer res" where
  \<comment> \<open>the first argument is \<^verbatim>\<open>ErrNilHttpServer\<close> of the node's API package\<close>
  "NewHttpServer errNilHttpServer server =
     (case server of None \<Rightarrow> Inl errNilHttpServer | Some srv \<Rightarrow> Inr \<lparr> hs_server = srv \<rparr>)"

definition httpServer_Start :: "'s httpServer \<Rightarrow> ('s, string option) go" where
  \<comment> \<open>the result is the text that is logged as an error\<close>
  "httpServer_Start h = (\<lambda>s. do {
     (err, s) \<leftarrow> ListenAndServe (hs_server h) s;
     case err of
       None \<Rightarrow> Some (None, s)
     | Some er \<Rightarrow> if er \<noteq> http_ErrServerClosed then Some (Some (error_text er), s) else Some (None, s) })"

definition httpServer_Close :: "'s httpServer \<Rightarrow> ('s, gerror option) go" where
  "httpServer_Close h = Shutdown (hs_server h) 1000000000"

subsection \<open>The web server\<close>

record WebServerAntifloodConfig =
  SimultaneousRequests :: "32 word"
  SameSourceRequests :: "32 word"
  SameSourceResetIntervalInSec :: "32 word"

text \<open>The goroutines the web server starts; a context is named by a number.\<close>

datatype goroutine = SourceLimiterReset nat int | HttpServerStart

record 's webLibs =
  gin_BasePath :: "string \<Rightarrow> string"
  IfNilReflect_antiFlood :: "WebServerAntifloodConfig \<Rightarrow> bool"
  IfNilReflect_apiConfig :: "ApiRoutesConfig \<Rightarrow> bool"
  NewSourceThrottler :: "32 word \<Rightarrow> gerror option"
  NewGlobalThrottler :: "32 word \<Rightarrow> gerror option"
  WithCancel :: "('s, nat) go"
  web_cancel :: "nat \<Rightarrow> ('s, unit) go"
  web_go :: "goroutine \<Rightarrow> ('s, unit) go"
  http_Server :: "string \<Rightarrow> ginCall list \<Rightarrow> 's server"
  web_ErrNilFacadeHandler :: gerror
  web_ErrNilHttpServer :: gerror

definition api_ErrNilFacade :: gerror where "api_ErrNilFacade = ErrNew ''errors.ErrNilFacade'' ''nil facade''"
definition ErrNilAntiFloodConfig :: gerror where "ErrNilAntiFloodConfig = ErrNew ''errors.ErrNilAntiFloodConfig'' ''nil antiflood config''"
definition ErrNilApiConfig :: gerror where "ErrNilApiConfig = ErrNew ''errors.ErrNilApiConfig'' ''nil api config''"

definition WebServerOffString :: string where "WebServerOffString = ''off''"

record 's ArgsNewWebServer =
  web_Facade :: "'s FacadeHandler option"
  web_ApiConfig :: ApiRoutesConfig
  web_AntiFloodConfig :: WebServerAntifloodConfig

record 's webServer =
  ws_facade :: "'s FacadeHandler"
  ws_apiConfig :: ApiRoutesConfig
  ws_antiFloodConfig :: WebServerAntifloodConfig
  ws_httpServer :: "'s httpServer option"
  ws_groups :: "(string, 's nodeGroup) gomap"
  ws_cancelFunc :: "nat option"

definition webServer_checkArgs :: "'s webLibs \<Rightarrow> 's ArgsNewWebServer \<Rightarrow> gerror option" where
  "webServer_checkArgs W args =
     (if web_Facade args = None then Some api_ErrNilFacade
      else if IfNilReflect_antiFlood W (web_AntiFloodConfig args) then Some ErrNilAntiFloodConfig
      else if IfNilReflect_apiConfig W (web_ApiConfig args) then Some ErrNilApiConfig
      else None)"

definition NewWebServerHandler :: "'s webLibs \<Rightarrow> 's ArgsNewWebServer \<Rightarrow> 's webServer res" where
  "NewWebServerHandler W args =
     (case webServer_checkArgs W args of
        Some err \<Rightarrow> Inl err
      | None \<Rightarrow> Inr \<lparr> ws_facade = the (web_Facade args), ws_apiConfig = web_ApiConfig args,
          ws_antiFloodConfig = web_AntiFloodConfig args, ws_httpServer = None, ws_groups = [], ws_cancelFunc = None \<rparr>)"

definition createGroups :: "'s webLibs \<Rightarrow> 's webServer \<Rightarrow> 's webServer res" where
  "createGroups W ws =
     (case NewNodeGroup (web_ErrNilFacadeHandler W) (Some (ws_facade ws)) of
        Inl err \<Rightarrow> Inl err
      | Inr nodeGroup \<Rightarrow> Inr (ws\<lparr>ws_groups := AList.update ''node'' nodeGroup []\<rparr>))"

definition createMiddlewareLimiters :: "'s webLibs \<Rightarrow> ('s webServer \<times> 's, middlewareProcessor option list res) go" where
  "createMiddlewareLimiters W = (\<lambda>(ws, s).
     let middlewares = (if LoggingEnabled (api_Logging (ws_apiConfig ws))
           then [Some (ResponseLogger (times 1000 (word_of_int (ThresholdInMicroSeconds (api_Logging (ws_apiConfig ws))))))] else []);
         same = SameSourceRequests (ws_antiFloodConfig ws); simultaneous = SimultaneousRequests (ws_antiFloodConfig ws) in
     case NewSourceThrottler W same of
       Some err \<Rightarrow> Some (Inl err, (ws, s))
     | None \<Rightarrow> do {
         (ctx, s) \<leftarrow> WithCancel W s;
         let ws = ws\<lparr>ws_cancelFunc := Some ctx\<rparr>;
             betweenResetDuration = times 1000000000 (ucast (SameSourceResetIntervalInSec (ws_antiFloodConfig ws))) in do {
         (_, s) \<leftarrow> web_go W (SourceLimiterReset ctx betweenResetDuration) s;
         let middlewares = middlewares @ [Some (SourceThrottler same)] in
         case NewGlobalThrottler W simultaneous of
           Some err \<Rightarrow> Some (Inl err, (ws, s))
         | None \<Rightarrow> Some (Inr (middlewares @ [Some (GlobalThrottler simultaneous)]), (ws, s)) } })"

text \<open>The loop of the goroutine: \<open>True\<close> when the timer fires first, \<open>False\<close> when the context is done.\<close>

fun sourceLimiterReset :: "('s, unit) go \<Rightarrow> bool list \<Rightarrow> ('s, unit) go" where
  "sourceLimiterReset reset [] s = Some ((), s)"
| "sourceLimiterReset reset (fired # events) s =
     (if fired then do { (_, s) \<leftarrow> reset s; sourceLimiterReset reset events s } else Some ((), s))"

fun use_processors :: "middlewareProcessor option list \<Rightarrow> ginCall list" where
  "use_processors [] = []"
| "use_processors (None # procs) = use_processors procs"
| "use_processors (Some proc # procs) = Use proc # use_processors procs"

definition registerRoutes ::
  "((string \<times> 's nodeGroup) list \<Rightarrow> (string \<times> 's nodeGroup) list) \<Rightarrow> 's webLibs \<Rightarrow> 's webServer \<Rightarrow> ginCall list" where
  "registerRoutes ord W ws =
     concat (map (\<lambda>(groupName, groupHandler). RegisterRoutes (gin_BasePath W (''/'' @ groupName)) (ng_endpoints groupHandler) (ws_apiConfig ws))
       (ord (ws_groups ws)))
     @ [GetLog] @ (if PprofEnabled (ws_facade ws) then [RegisterPprof] else [])"

definition StartHttpServer ::
  "((string \<times> 's nodeGroup) list \<Rightarrow> (string \<times> 's nodeGroup) list) \<Rightarrow> 's webLibs \<Rightarrow> ('s webServer \<times> 's, gerror option) go" where
  "StartHttpServer ord W = (\<lambda>(ws, s).
     if RestApiInterface (ws_facade ws) = WebServerOffString then Some (None, (ws, s))
     else let engine = [Use Cors] in
     case createGroups W ws of
       Inl err \<Rightarrow> Some (Some err, (ws, s))
     | Inr ws \<Rightarrow> do {
         (r, (ws, s)) \<leftarrow> createMiddlewareLimiters W (ws, s);
         case r of
           Inl err \<Rightarrow> Some (Some err, (ws, s))
         | Inr processors \<Rightarrow>
             let engine = engine @ use_processors processors;
                 engine = engine @ registerRoutes ord W ws;
                 server = http_Server W (RestApiInterface (ws_facade ws)) engine in
             (case NewHttpServer (web_ErrNilHttpServer W) (Some server) of
                Inl err \<Rightarrow> Some (Some err, (ws, s))
              | Inr h \<Rightarrow> do {
                  (_, s) \<leftarrow> web_go W HttpServerStart s;
                  Some (None, (ws\<lparr>ws_httpServer := Some h\<rparr>, s)) }) })"

definition webServer_UpdateFacade :: "'s webLibs \<Rightarrow> 's FacadeHandler option \<Rightarrow> 's webServer \<Rightarrow> gerror option \<times> 's webServer" where
  \<comment> \<open>the errors of the groups are only logged\<close>
  "webServer_UpdateFacade W facade ws =
     (case facade of
        None \<Rightarrow> (Some api_ErrNilFacade, ws)
      | Some f \<Rightarrow> (None, ws\<lparr>ws_facade := f,
          ws_groups := map (\<lambda>(groupName, groupHandler). (groupName, snd (nodeGroup_UpdateFacade (web_ErrNilFacadeHandler W) facade groupHandler))) (ws_groups ws)\<rparr>))"

definition webServer_Close :: "'s webLibs \<Rightarrow> 's webServer \<Rightarrow> ('s, gerror option) go" where
  "webServer_Close W ws = (\<lambda>s. do {
     (_, s) \<leftarrow> (case ws_cancelFunc ws of None \<Rightarrow> Some ((), s) | Some ctx \<Rightarrow> web_cancel W ctx s);
     (err, s) \<leftarrow> (case ws_httpServer ws of None \<Rightarrow> Some (None, s) | Some h \<Rightarrow> httpServer_Close h s);
     case err of
       None \<Rightarrow> Some (None, s)
     | Some er \<Rightarrow> Some (Some (Errorf '''' er '' while closing the http server in gin/webServer''), s) })"

record webConfigs =
  flags_RestApiInterface :: string
  flags_EnablePprof :: bool
  configs_ApiRoutesConfig :: ApiRoutesConfig
  configs_WebServer :: WebServerAntifloodConfig

definition StartWebServer ::
  "((string \<times> 's nodeGroup) list \<Rightarrow> (string \<times> 's nodeGroup) list) \<Rightarrow> 's webLibs \<Rightarrow> webConfigs
   \<Rightarrow> 's MetricsHolder option \<Rightarrow> ('s, 's webServer res) go" where
  "StartWebServer ord W configs metricsHolder = (\<lambda>s.
     case NewRelayerFacade \<lparr> facade_MetricsHolder = metricsHolder, ApiInterface = flags_RestApiInterface configs,
            facade_PprofEnabled = flags_EnablePprof configs \<rparr> of
       Inl err \<Rightarrow> Some (Inl err, s)
     | Inr relayerFacade \<Rightarrow>
        (case NewWebServerHandler W \<lparr> web_Facade = Some (facade_interface relayerFacade), web_ApiConfig = configs_ApiRoutesConfig configs,
               web_AntiFloodConfig = configs_WebServer configs \<rparr> of
           Inl err \<Rightarrow> Some (Inl err, s)
         | Inr ws \<Rightarrow> do {
             (err, (ws, s)) \<leftarrow> StartHttpServer ord W (ws, s);
             case err of
               Some er \<Rightarrow> Some (Inl er, s)
             | None \<Rightarrow> Some (Inr ws, s) }))"

subsection \<open>What a facade promises\<close>

text \<open>
  The contract between the node group and the facade: in a well-formed state, the facade gives the metrics of exactly the
  names it lists, and reading changes nothing.
\<close>

locale metrics_facade =
  fixes f :: "'s FacadeHandler" and inv :: "'s \<Rightarrow> bool" and lookup :: "'s \<Rightarrow> string \<Rightarrow> GeneralMetrics option" and missing :: gerror
  assumes GetMetrics_law:
      "inv s \<Longrightarrow> GetMetrics f name s = Some ((case lookup s name of None \<Rightarrow> Inl missing | Some info \<Rightarrow> Inr info), s)"
    and GetMetricsList_law:
      "inv s \<Longrightarrow> \<exists>names. GetMetricsList f s = Some ([(availableMetrics, Names names)], s) \<and> set names = dom (lookup s)"
begin

lemma status_served:
  assumes "inv s" and "ng_facade ng = f"
  shows "serve StatusMetrics [(clientQueryParam, name # names)] (ng, s) = Some
    ((case lookup s name of
        Some info \<Rightarrow> \<lparr> resp_status = 200, resp_Data = Some info, resp_Error = [], resp_Code = ReturnCodeSuccess \<rparr>
      | None \<Rightarrow> \<lparr> resp_status = 500, resp_Data = None, resp_Error = error_text ErrGettingMetrics @ '': '' @ error_text missing,
                  resp_Code = ReturnCodeInternalError \<rparr>), (ng, s))"
  using assms by (simp add: statusMetrics_def GetMetrics_law split: option.split)

lemma list_served:
  assumes "inv s" and "ng_facade ng = f"
  obtains names where "serve StatusListMetrics q (ng, s) = Some (\<lparr> resp_status = 200, resp_Data = Some [(availableMetrics, Names names)],
      resp_Error = [], resp_Code = ReturnCodeSuccess \<rparr>, (ng, s))" and "set names = dom (lookup s)"
  using GetMetricsList_law [OF assms(1)] assms(2) by (auto simp: statusListMetrics_def)

end

definition holder_facade :: "((string \<times> statusHandler) list \<Rightarrow> (string \<times> statusHandler) list) \<Rightarrow> string \<Rightarrow> bool \<Rightarrow> (metricsHolder \<times> 'w) FacadeHandler" where
  "holder_facade ord api pprof =
     facade_interface \<lparr> rf_metricsHolder = metricsHolder_interface ord, apiInterface = api, pprofEnabled = pprof \<rparr>"

definition holder_lookup :: "metricsHolder \<times> 'w \<Rightarrow> string \<Rightarrow> GeneralMetrics option" where
  "holder_lookup s name =
     map_option (\<lambda>sh. map (\<lambda>(key, val). (key, MetricValue val)) (statusHandler_GetAllMetrics sh)) (map_of (fst s) name)"

lemma dom_holder_lookup: "dom (holder_lookup (mh, w)) = fst ` set mh"
  by (auto simp: holder_lookup_def dom_map_of_conv_image_fst [symmetric])

lemma set_GetAvailableStatusHandlers: "range_order ord \<Longrightarrow> set (GetAvailableStatusHandlers ord mh) = fst ` set mh"
  by (simp add: GetAvailableStatusHandlers_def Let_def image_image range_orderD)

interpretation relayer_facade: metrics_facade "holder_facade ord api pprof" "\<lambda>_. range_order ord" holder_lookup ErrMissingStatusHandler
proof
  fix s :: "metricsHolder \<times> 'w" and name
  assume "range_order ord"
  obtain mh w where s: "s = (mh, w)" by fastforce
  show "GetMetrics (holder_facade ord api pprof) name s
      = Some ((case holder_lookup s name of None \<Rightarrow> Inl ErrMissingStatusHandler | Some info \<Rightarrow> Inr info), s)"
    by (simp add: holder_facade_def facade_interface_def relayerFacade_GetMetrics_def metricsHolder_interface_def
        metricsHolder_GetAllMetrics_def holder_lookup_def s split: option.split)
  show "\<exists>names. GetMetricsList (holder_facade ord api pprof) s = Some ([(availableMetrics, Names names)], s) \<and> set names = dom (holder_lookup s)"
    using set_GetAvailableStatusHandlers [OF \<open>range_order ord\<close>]
    by (simp add: holder_facade_def facade_interface_def relayerFacade_GetMetricsList_def metricsHolder_interface_def s dom_holder_lookup)
qed

subsection \<open>Routes\<close>

definition is_open :: "ApiRoutesConfig \<Rightarrow> string \<Rightarrow> string \<Rightarrow> bool" where
  \<comment> \<open>the package is configured and the first of its routes with this name is open\<close>
  "is_open apiConfig package path \<longleftrightarrow>
     (\<exists>pc route. map_of (APIPackages apiConfig) package = Some pc
        \<and> find (\<lambda>route. route_Name route = path) (Routes pc) = Some route \<and> route_Open route)"

lemma route_open_find: "route_open routes path \<longleftrightarrow> (\<exists>route. find (\<lambda>route. route_Name route = path) routes = Some route \<and> route_Open route)"
  by (induction routes) auto

lemma getEndpointProperties_node: "getEndpointProperties ''/node'' path apiConfig \<longleftrightarrow> is_open apiConfig ''node'' path"
  by (simp add: getEndpointProperties_def is_open_def Let_def route_open_find split: option.split)



lemma range_order_single: "range_order ord \<Longrightarrow> ord [x] = [x]"
  unfolding range_order_def by (metis mset_single_iff_right mset_single_iff)

lemma createMiddlewareLimiters_result:
  assumes "createMiddlewareLimiters W (ws, s) = Some (Inr procs, (ws', s'))"
  shows "{Some (SourceThrottler (SameSourceRequests (ws_antiFloodConfig ws))), Some (GlobalThrottler (SimultaneousRequests (ws_antiFloodConfig ws)))} \<subseteq> set procs
    \<and> (\<exists>ctx. ws' = ws\<lparr>ws_cancelFunc := Some ctx\<rparr>)"
  using assms unfolding createMiddlewareLimiters_def Let_def
  by (auto elim!: go_bindE split: option.split_asm)

definition node_group :: "'s FacadeHandler \<Rightarrow> 's nodeGroup" where
  "node_group f =
     \<lparr> ng_endpoints = [\<lparr> ep_Path = statusPath, ep_Method = [CHR ''G'', CHR ''E'', CHR ''T''], ep_Handler = StatusMetrics \<rparr>,
         \<lparr> ep_Path = statusListPath, ep_Method = [CHR ''G'', CHR ''E'', CHR ''T''], ep_Handler = StatusListMetrics \<rparr>],
       ng_facade = f \<rparr>"

lemma createGroups_eq: "createGroups W ws = Inr (ws\<lparr>ws_groups := [(''node'', node_group (ws_facade ws))]\<rparr>)"
  by (simp add: createGroups_def NewNodeGroup_def node_group_def)

lemma StartHttpServer_result:
  assumes "StartHttpServer ord W (ws, s) = Some (None, (ws', s'))" and "RestApiInterface (ws_facade ws) \<noteq> WebServerOffString"
  obtains procs ctx where
    "{Some (SourceThrottler (SameSourceRequests (ws_antiFloodConfig ws))), Some (GlobalThrottler (SimultaneousRequests (ws_antiFloodConfig ws)))} \<subseteq> set procs"
    and "ws_groups ws' = [(''node'', node_group (ws_facade ws))]" and "ws_apiConfig ws' = ws_apiConfig ws" and "ws_facade ws' = ws_facade ws"
    and "ws_cancelFunc ws' = Some ctx"
    and "ws_httpServer ws' = Some \<lparr> hs_server =
        http_Server W (RestApiInterface (ws_facade ws)) ((Use Cors # use_processors procs) @ registerRoutes ord W ws') \<rparr>"
proof -
  from assms obtain procs ws1 s1 where mid: "createMiddlewareLimiters W (ws\<lparr>ws_groups := [(''node'', node_group (ws_facade ws))]\<rparr>, s) = Some (Inr procs, (ws1, s1))"
    and ws': "ws' = ws1\<lparr>ws_httpServer := Some \<lparr> hs_server =
        http_Server W (RestApiInterface (ws_facade ws1)) ((Use Cors # use_processors procs) @ registerRoutes ord W ws1) \<rparr>\<rparr>"
    unfolding StartHttpServer_def createGroups_eq NewHttpServer_def Let_def by (auto elim!: go_bindE split: sum.split_asm)
  from createMiddlewareLimiters_result [OF mid] obtain ctx where
    "ws1 = ws\<lparr>ws_groups := [(''node'', node_group (ws_facade ws))], ws_cancelFunc := Some ctx\<rparr>" by auto
  with that [of procs ctx] createMiddlewareLimiters_result [OF mid] ws' show thesis
    by (simp add: registerRoutes_def)
qed

lemma StartWebServer_result:
  assumes "StartWebServer ord W configs (Some mh) s = Some (Inr ws, s')" and "flags_RestApiInterface configs \<noteq> WebServerOffString"
  obtains procs f ctx where
    "f = facade_interface \<lparr> rf_metricsHolder = mh, apiInterface = flags_RestApiInterface configs, pprofEnabled = flags_EnablePprof configs \<rparr>"
    and "ws_groups ws = [(''node'', node_group f)]" and "ws_apiConfig ws = configs_ApiRoutesConfig configs" and "ws_facade ws = f"
    and "{Some (SourceThrottler (SameSourceRequests (configs_WebServer configs))), Some (GlobalThrottler (SimultaneousRequests (configs_WebServer configs)))} \<subseteq> set procs"
    and "ws_httpServer ws = Some \<lparr> hs_server = http_Server W (flags_RestApiInterface configs) ((Use Cors # use_processors procs) @ registerRoutes ord W ws) \<rparr>"
    and "ws_cancelFunc ws = Some ctx"
proof -
  let ?f = "facade_interface \<lparr> rf_metricsHolder = mh, apiInterface = flags_RestApiInterface configs, pprofEnabled = flags_EnablePprof configs \<rparr>"
  from assms(1) obtain ws0 s0 where ws0: "ws0 = \<lparr> ws_facade = ?f, ws_apiConfig = configs_ApiRoutesConfig configs,
      ws_antiFloodConfig = configs_WebServer configs, ws_httpServer = None, ws_groups = [], ws_cancelFunc = None \<rparr>"
    and run: "StartHttpServer ord W (ws0, s0) = Some (None, (ws, s'))"
    unfolding StartWebServer_def NewRelayerFacade_def NewWebServerHandler_def
    by (auto elim!: go_bindE split: option.split_asm)
  have "RestApiInterface (ws_facade ws0) \<noteq> WebServerOffString" using assms(2) by (simp add: ws0 facade_interface_def)
  from run this show thesis
    by (rule StartHttpServer_result) (rule that [of ?f], simp_all add: ws0, simp add: facade_interface_def)
qed

lemma StartWebServer_off:
  assumes "StartWebServer ord W configs (Some mh) s = Some (Inr ws, s')" and "flags_RestApiInterface configs = WebServerOffString"
  shows "ws_cancelFunc ws = None \<and> ws_httpServer ws = None"
  using assms unfolding StartWebServer_def NewRelayerFacade_def NewWebServerHandler_def
  by (auto simp: StartHttpServer_def facade_interface_def elim!: go_bindE split: option.split_asm)

lemma routed_processors [simp]: "routed (use_processors procs @ calls) verb url = routed calls verb url"
  by (induction procs rule: use_processors.induct) simp_all

lemma routed_StartWebServer:
  assumes "StartWebServer ord W configs (Some mh) s = Some (Inr ws, s')" and "range_order ord"
    and "gin_BasePath W ''/node'' = ''/node''" and "flags_RestApiInterface configs \<noteq> WebServerOffString"
  obtains calls where "ws_httpServer ws = Some \<lparr> hs_server = http_Server W (flags_RestApiInterface configs) calls \<rparr>"
    and "\<And>verb url. routed calls verb url =
      (if verb = ''GET'' \<and> url = ''/node/status'' \<and> is_open (configs_ApiRoutesConfig configs) ''node'' statusPath then Some StatusMetrics
       else if verb = ''GET'' \<and> url = ''/node/status/list'' \<and> is_open (configs_ApiRoutesConfig configs) ''node'' statusListPath
         then Some StatusListMetrics else None)"
  using assms(1,4)
proof (rule StartWebServer_result)
  fix procs f
  assume f: "f = facade_interface \<lparr> rf_metricsHolder = mh, apiInterface = flags_RestApiInterface configs, pprofEnabled = flags_EnablePprof configs \<rparr>"
    and ws: "ws_groups ws = [(''node'', node_group f)]" "ws_apiConfig ws = configs_ApiRoutesConfig configs" "ws_facade ws = f"
    and server: "ws_httpServer ws = Some \<lparr> hs_server = http_Server W (flags_RestApiInterface configs) ((Use Cors # use_processors procs) @ registerRoutes ord W ws) \<rparr>"
  have "registerRoutes ord W ws = RegisterRoutes ''/node'' (ng_endpoints (node_group f)) (configs_ApiRoutesConfig configs) @ [GetLog]
      @ (if flags_EnablePprof configs then [RegisterPprof] else [])"
    using assms(3) by (simp add: registerRoutes_def ws range_order_single [OF assms(2)] f facade_interface_def)
  then show thesis
    by (intro that [OF server])
      (auto simp: node_group_def getEndpointProperties_node statusPath_def statusListPath_def)
qed

subsection \<open>The REST interface of a relayer\<close>


text \<open>
  What the REST interface tells of the metrics, at every later state of the metrics holder: \<^verbatim>\<open>/status/list\<close> answers with the names of
  all registered status handlers, and \<^verbatim>\<open>/status?name=n\<close> answers 200 with all metrics of the handler \<^verbatim>\<open>n\<close> exactly
  for the listed names and 500 with an error for every other.
\<close>

theorem listed_handlers_are_served:
  assumes "StartWebServer ord W configs (Some (metricsHolder_interface hord)) s = Some (Inr ws, s')"
    and "flags_RestApiInterface configs \<noteq> WebServerOffString" and "range_order hord"
  shows "\<exists>ng names. map_of (ws_groups ws) ''node'' = Some ng
    \<and> serve StatusListMetrics q (ng, (mh, w)) = Some (\<lparr> resp_status = 200, resp_Data = Some [(availableMetrics, Names names)],
          resp_Error = '''', resp_Code = ReturnCodeSuccess \<rparr>, (ng, (mh, w)))
    \<and> set names = fst ` set mh
    \<and> (\<forall>n. \<exists>resp. serve StatusMetrics [(clientQueryParam, [n])] (ng, (mh, w)) = Some (resp, (ng, (mh, w)))
          \<and> resp_status resp = (if n \<in> set names then 200 else 500)
          \<and> resp_Data resp = map_option (\<lambda>sh. map (\<lambda>(key, val). (key, MetricValue val)) (statusHandler_GetAllMetrics sh)) (map_of mh n))"
  using assms(1,2)
proof (rule StartWebServer_result)
  fix f procs
  assume f: "f = facade_interface \<lparr> rf_metricsHolder = metricsHolder_interface hord, apiInterface = flags_RestApiInterface configs,
      pprofEnabled = flags_EnablePprof configs \<rparr>" and ws: "ws_groups ws = [(''node'', node_group f)]"
  have facade: "ng_facade (node_group f) = holder_facade hord (flags_RestApiInterface configs) (flags_EnablePprof configs)"
    by (simp add: node_group_def f holder_facade_def)
  obtain names where names: "serve StatusListMetrics q (node_group f, (mh, w)) = Some (\<lparr> resp_status = 200, resp_Data = Some [(availableMetrics, Names names)],
          resp_Error = '''', resp_Code = ReturnCodeSuccess \<rparr>, (node_group f, (mh, w)))" "set names = dom (holder_lookup (mh, w))"
    by (rule relayer_facade.list_served [OF assms(3) facade])
  have "\<exists>resp. serve StatusMetrics [(clientQueryParam, [n])] (node_group f, (mh, w)) = Some (resp, (node_group f, (mh, w)))
      \<and> resp_status resp = (if n \<in> set names then 200 else 500)
      \<and> resp_Data resp = map_option (\<lambda>sh. map (\<lambda>(key, val). (key, MetricValue val)) (statusHandler_GetAllMetrics sh)) (map_of mh n)" for n
    unfolding relayer_facade.status_served [OF assms(3) facade] names(2)
    by (cases "map_of mh n") (simp_all add: holder_lookup_def domIff)
  with names(1) show ?thesis
    unfolding names(2) [unfolded dom_holder_lookup, symmetric] by (intro exI [of _ "node_group f"] exI [of _ names]) (simp add: ws)
qed

text \<open>A web server on which \<^verbatim>\<open>/status\<close> and \<^verbatim>\<open>/peerinfo\<close> are open and \<^verbatim>\<open>/status/list\<close> closed.\<close>

definition demo_web :: "'s webLibs" where
  "demo_web =
     \<lparr> gin_BasePath = (\<lambda>path. path), IfNilReflect_antiFlood = (\<lambda>_. False), IfNilReflect_apiConfig = (\<lambda>_. False),
       NewSourceThrottler = (\<lambda>_. None), NewGlobalThrottler = (\<lambda>_. None), WithCancel = (\<lambda>s. Some (1, s)),
       web_cancel = (\<lambda>_ s. Some ((), s)), web_go = (\<lambda>_ s. Some ((), s)),
       http_Server = (\<lambda>_ _. \<lparr> ListenAndServe = (\<lambda>s. Some (None, s)), Shutdown = (\<lambda>_ s. Some (None, s)) \<rparr>),
       web_ErrNilFacadeHandler = api_ErrNilFacade, web_ErrNilHttpServer = api_ErrNilFacade \<rparr>"

definition demo_webConfigs :: webConfigs where
  "demo_webConfigs =
     \<lparr> flags_RestApiInterface = '':8080'', flags_EnablePprof = False,
       configs_ApiRoutesConfig = \<lparr> api_Logging = \<lparr> LoggingEnabled = True, ThresholdInMicroSeconds = 10 \<rparr>,
         APIPackages = [(''node'', \<lparr> Routes = [\<lparr> route_Name = ''/status'', route_Open = True \<rparr>, \<lparr> route_Name = ''/status/list'', route_Open = False \<rparr>,
           \<lparr> route_Name = ''/peerinfo'', route_Open = True \<rparr>] \<rparr>)] \<rparr>,
       configs_WebServer = \<lparr> SimultaneousRequests = 100, SameSourceRequests = 10, SameSourceResetIntervalInSec = 1 \<rparr> \<rparr>"

lemma demo_web_starts: "\<exists>ws. StartWebServer (\<lambda>xs. xs) demo_web configs (Some mh) s = Some (Inr ws, s)"
  by (simp add: StartWebServer_def NewRelayerFacade_def NewWebServerHandler_def webServer_checkArgs_def StartHttpServer_def
      createGroups_eq createMiddlewareLimiters_def NewHttpServer_def demo_web_def Let_def)

lemma demo_web_closes:
  assumes "StartWebServer (\<lambda>xs. xs) demo_web configs (Some mh) s = Some (Inr ws, s')" and "flags_RestApiInterface configs \<noteq> WebServerOffString"
  shows "webServer_Close demo_web ws t = Some (None, t)"
  using assms by (rule StartWebServer_result) (simp add: webServer_Close_def httpServer_Close_def demo_web_def)

definition demo_webServer :: "(metricsHolder \<times> unit) webServer" where
  "demo_webServer = (case StartWebServer (\<lambda>xs. xs) demo_web demo_webConfigs (Some (metricsHolder_interface (\<lambda>xs. xs))) ([], ()) of Some (Inr ws, _) \<Rightarrow> ws)"

lemma demo_StartWebServer:
  "StartWebServer (\<lambda>xs. xs) demo_web demo_webConfigs (Some (metricsHolder_interface (\<lambda>xs. xs))) ([], ()) = Some (Inr demo_webServer, ([], ()))"
  by (simp add: demo_webServer_def StartWebServer_def NewRelayerFacade_def NewWebServerHandler_def webServer_checkArgs_def StartHttpServer_def
      createGroups_eq createMiddlewareLimiters_def NewHttpServer_def demo_web_def demo_webConfigs_def facade_interface_def WebServerOffString_def Let_def)


theorem listed_handlers_are_served_witness:
  "\<exists>ng resp. map_of (ws_groups demo_webServer) ''node'' = Some ng
     \<and> serve StatusMetrics [(clientQueryParam, [''EthereumToElrond''])]
         (ng, ([(''EthereumToElrond'', \<lparr> intMetrics = [(''retries'', 2)], stringMetrics = [], handlerName = ''EthereumToElrond'' \<rparr>)], ()))
       = Some (resp, (ng, ([(''EthereumToElrond'', \<lparr> intMetrics = [(''retries'', 2)], stringMetrics = [], handlerName = ''EthereumToElrond'' \<rparr>)], ())))
     \<and> resp_status resp = 200 \<and> resp_Data resp = Some [(''retries'', MetricValue (IntMetric 2))]"
proof -
  let ?mh = "[(''EthereumToElrond'', \<lparr> intMetrics = [(''retries'', 2)], stringMetrics = [], handlerName = ''EthereumToElrond'' \<rparr>)]"
  have "range_order (\<lambda>xs. xs)" "flags_RestApiInterface demo_webConfigs \<noteq> WebServerOffString"
    by (simp_all add: range_order_def demo_webConfigs_def WebServerOffString_def)
  from listed_handlers_are_served [OF demo_StartWebServer this(2,1), of "[]" ?mh "()"]
  obtain ng names where "map_of (ws_groups demo_webServer) ''node'' = Some ng" "set names = fst ` set ?mh"
    and "\<exists>resp. serve StatusMetrics [(clientQueryParam, [''EthereumToElrond''])] (ng, (?mh, ())) = Some (resp, (ng, (?mh, ())))
          \<and> resp_status resp = (if ''EthereumToElrond'' \<in> set names then 200 else 500)
          \<and> resp_Data resp = map_option (\<lambda>sh. map (\<lambda>(key, val). (key, MetricValue val)) (statusHandler_GetAllMetrics sh)) (map_of ?mh ''EthereumToElrond'')"
    by blast
  moreover have "statusHandler_GetAllMetrics (snd (hd ?mh)) = [(''retries'', IntMetric 2)]"
    by (simp add: statusHandler_GetAllMetrics_def)
  ultimately show ?thesis by (intro exI [of _ ng]) auto
qed

end
