(* ===== verification/Relay_Main.thy ===== *)
theory Relay_Main
  imports Assembled_Demo Web_Server
begin

section \<open>The program (cmd/bridge)\<close>

text \<open>
  \<^verbatim>\<open>startRelay\<close> reads the flags and the configuration, creates the clients' status handlers and the services of the outside,
  builds the relayer, starts the web server and the relayer, waits for a signal and closes both. The status
  handlers of the two clients are objects that the clients write and the metrics holder reads: they live in a heap, the
  first part of the outside, and are shared by their addresses.
\<close>

subsection \<open>Status handlers as objects\<close>

text \<open>
  A heap maps addresses to objects; a new object gets an address that no other has. The map of the metrics holder from names to
  pointers is the pair of \<open>metricsHolder\<close> and \<open>handlerRefs\<close>: the first lists the names, the second has the address of each
  handler that lives in the heap. Two objects may have the same name: what the holder shows is the one whose address it was given.
\<close>

type_synonym handlerHeap = "(nat, statusHandler) gomap"

type_synonym handlerRefs = "(string, nat) gomap"

type_synonym ('addr, 'o) programState = "handlerRefs \<times> metricsHolder \<times> ('addr, handlerHeap \<times> 'o) relayerState"

definition fresh_ref :: "handlerHeap \<Rightarrow> nat" where
  "fresh_ref heap = foldr (\<lambda>(ref, _) n. max (Suc ref) n) heap 0"

lemma fresh_ref_is_new: "fresh_ref heap \<notin> fst ` set heap"
proof -
  have "ref < fresh_ref heap" if "ref \<in> fst ` set heap" for ref
    using that by (induction heap) (force simp: fresh_ref_def less_max_iff_disj)+
  then show ?thesis by (meson less_irrefl)
qed

definition at_handler :: "nat \<Rightarrow> (statusHandler \<times> handlerHeap \<times> 'o, 'r) go \<Rightarrow> (handlerHeap \<times> 'o, 'r) go" where
  "at_handler ref m = (\<lambda>(heap, w).
     case map_of heap ref of
       None \<Rightarrow> None
     | Some sh \<Rightarrow> do {
         (r, (sh, (heap, w))) \<leftarrow> m (sh, (heap, w));
         Some (r, (AList.update ref sh heap, w)) })"

definition handler_object :: "(handlerHeap \<times> 'o) statusDeps \<Rightarrow> nat \<Rightarrow> (handlerHeap \<times> 'o) StatusHandler" where
  \<comment> \<open>the interface value that points at the object with this address\<close>
  "handler_object d ref =
     \<lparr> SetIntMetric = (\<lambda>metric value. at_handler ref (statusHandler_SetIntMetric d metric value)),
       AddIntMetric = (\<lambda>metric delta. at_handler ref (statusHandler_AddIntMetric d metric delta)),
       SetStringMetric = (\<lambda>metric val. at_handler ref (statusHandler_SetStringMetric d metric val)) \<rparr>"

definition new_handler :: "(handlerHeap \<times> 'o) statusDeps \<Rightarrow> string \<Rightarrow> (handlerHeap \<times> 'o, nat res) go" where
  \<comment> \<open>\<^verbatim>\<open>NewStatusHandler\<close> allocates the object and returns its address\<close>
  "new_handler d name = (\<lambda>e. do {
     (r, (heap, w)) \<leftarrow> NewStatusHandler (Some d) name e;
     case r of
       Inl err \<Rightarrow> Some (Inl err, (heap, w))
     | Inr sh \<Rightarrow> Some (Inr (fresh_ref heap), (AList.update (fresh_ref heap) sh heap, w)) })"

text \<open>The metrics holder as it is read: an entry with an address has the content of the object there.\<close>

definition current_handlers :: "handlerHeap \<Rightarrow> handlerRefs \<Rightarrow> metricsHolder \<Rightarrow> metricsHolder" where
  "current_handlers heap refs mh = map (\<lambda>(name, sh). (name,
     case map_of refs name of
       None \<Rightarrow> sh
     | Some ref \<Rightarrow> (case map_of heap ref of None \<Rightarrow> sh | Some now \<Rightarrow> now))) mh"

definition main_metricsHolder ::
  "((string \<times> statusHandler) list \<Rightarrow> (string \<times> statusHandler) list) \<Rightarrow> ('addr, 'o) programState MetricsHolder" where
  "main_metricsHolder ord =
     \<lparr> mh_GetAvailableStatusHandlers = (\<lambda>(refs, (mh, (h, p))).
         Some (GetAvailableStatusHandlers ord (current_handlers (fst (rp_outside p)) refs mh), (refs, (mh, (h, p))))),
       mh_GetAllMetrics = (\<lambda>name (refs, (mh, (h, p))).
         Some (metricsHolder_GetAllMetrics (current_handlers (fst (rp_outside p)) refs mh) name, (refs, (mh, (h, p))))) \<rparr>"

subsection \<open>Flags (flags.go) and configuration\<close>

record ContextFlagsConfig =
  WorkingDir :: string
  flag_LogLevel :: string
  DisableAnsiColor :: bool
  ConfigurationFile :: string
  ConfigurationApiFile :: string
  SaveLogFile :: bool
  EnableLogName :: bool
  flag_RestApiInterface :: string
  EnablePprof :: bool

definition getFlagsConfig :: "(string \<Rightarrow> string) \<Rightarrow> (string \<Rightarrow> bool) \<Rightarrow> ContextFlagsConfig" where
  \<comment> \<open>the arguments are \<^verbatim>\<open>GlobalString\<close> and \<^verbatim>\<open>GlobalBool\<close> of the context of the command line\<close>
  "getFlagsConfig globalString globalBool =
     \<lparr> WorkingDir = globalString ''working-directory'', flag_LogLevel = globalString ''log-level'',
       DisableAnsiColor = globalBool ''disable-ansi-color'', ConfigurationFile = globalString ''config'',
       ConfigurationApiFile = globalString ''config-api'', SaveLogFile = globalBool ''log-save'',
       EnableLogName = globalBool ''log-logger-name'', flag_RestApiInterface = globalString ''rest-api-interface'',
       EnablePprof = globalBool ''profile-mode'' \<rparr>"

record ConfigP2P =
  p2p_Port :: string
  p2p_Seed :: string
  InitialPeerList :: "string list"
  ProtocolID :: string

text \<open>
  The configuration file with the sections only the program reads. Of the storage section the program reads the path of the database;
  \<open>'sc\<close> is what it hands on to the storage library.
\<close>

record 'sc DBConfig =
  db_FilePath :: string
  db_others :: 'sc

record 'sc StorageConfig =
  storage_Cache :: 'sc
  storage_DB :: "'sc DBConfig"

record 'sc mainConfig = Config +
  cfg_P2P :: ConfigP2P
  MarshalizerType :: string
  StatusMetricsStorage :: "'sc StorageConfig"
  LogFileLifeSpanInSec :: int
  cfg_WebServer :: WebServerAntifloodConfig

record ArgsElrondProxy =
  ProxyURL :: string
  SameScState :: bool
  ShouldBeSynced :: bool
  FinalityCheck :: bool
  AllowedDeltaToFinal :: int
  CacheExpirationTime :: int
  EntityType :: string

record NodeConfig =
  node_Port :: string
  node_Seed :: string
  MaximumExpectedPeerCount :: int
  ThresholdMinConnectedPeers :: int
  ConnectionWatcherType :: string

record KadDhtPeerDiscoveryConfig =
  kad_Enabled :: bool
  RefreshIntervalInSec :: int
  kad_ProtocolID :: string
  kad_InitialPeerList :: "string list"
  BucketSize :: int
  RoutingTableRefreshIntervalInSec :: int
  kad_Type :: string

record ShardingConfig =
  TargetPeerCount :: int
  MaxIntraShardValidators :: int
  MaxCrossShardValidators :: int
  MaxIntraShardObservers :: int
  MaxCrossShardObservers :: int
  sharding_Type :: string

record P2PConfig =
  p2p_Node :: NodeConfig
  KadDhtPeerDiscovery :: KadDhtPeerDiscoveryConfig
  p2p_Sharding :: ShardingConfig

subsection \<open>Libraries of the program\<close>

text \<open>
  \<open>dialled\<close> is what a connection to the Ethereum node gives: the client and the bindings on it. The messenger is made
  from the configuration with the other arguments fixed (\<^verbatim>\<open>libp2p.NewNetworkMessenger\<close>).
\<close>

record 'e fileLogging =
  ChangeFileLifeSpan :: "int \<Rightarrow> ('e, gerror option) go"

record ('e, 'addr) dialled =
  ethclient :: "('e, 'addr) blockchainClient"
  NewBridge :: "'addr \<Rightarrow> ('e, 'addr) multiSigContract res"
  NewGenericErc20_at :: "'addr \<Rightarrow> ('e, 'addr) genericErc20Contract res"

record ('e, 'addr, 'sc) mainLibs =
  NewFileLogging :: "string \<Rightarrow> string \<Rightarrow> string \<Rightarrow> ('e, 'e fileLogging res) go"
  SetDisplayByteSlice_ToHex :: "('e, gerror option) go"
  ToggleLoggerName :: "bool \<Rightarrow> ('e, unit) go"
  SetLogLevel :: "string \<Rightarrow> ('e, gerror option) go"
  RemoveLogObserver_Stdout :: "('e, gerror option) go"
  AddLogObserver_Stdout :: "('e, gerror option) go"
  LoadTomlFile_Config :: "string \<Rightarrow> ('e, 'sc mainConfig res) go"
  LoadTomlFile_ApiRoutes :: "string \<Rightarrow> ('e, ApiRoutesConfig res) go"
  path_Join :: "string \<Rightarrow> string \<Rightarrow> string"
  GetDBFromConfig :: "'sc DBConfig \<Rightarrow> 'sc DBConfig"
  GetCacherFromConfig :: "'sc \<Rightarrow> 'sc"
  NewStorageUnitFromConf :: "'sc \<Rightarrow> 'sc DBConfig \<Rightarrow> ('e, 'e statusDeps res) go"
  NewElrondProxy :: "ArgsElrondProxy \<Rightarrow> ('e, 'e ElrondProxy res) go"
  Dial :: "string \<Rightarrow> ('e, ('e, 'addr) dialled res) go"
  Address_String :: "'addr \<Rightarrow> string"
  NewMarshalizer :: "string \<Rightarrow> gerror option"
  NewNetworkMessenger :: "P2PConfig \<Rightarrow> ('e, 'e NetMessenger res) go"
  NewStatusHandlersFactory :: "gerror option"
  Create_appStatusHandler :: "('e, gerror option) go"

definition EthClientStatusHandlerName :: string where "EthClientStatusHandlerName = ''eth-client''"
definition ElrondClientStatusHandlerName :: string where "ElrondClientStatusHandlerName = ''elrond-client''"
definition defaultLogsPath :: string where "defaultLogsPath = ''logs''"
definition logFilePrefix :: string where "logFilePrefix = ''elrond-eth-bridge''"
definition p2pPeerNetworkDiscoverer :: string where "p2pPeerNetworkDiscoverer = ''optimized''"
definition nilListSharderType :: string where "nilListSharderType = ''NilListSharder''"
definition disabledWatcher :: string where "disabledWatcher = ''disabled''"
definition dbPath :: string where "dbPath = ''db''"
definition timeForBootstrap :: int where "timeForBootstrap = 20000000000"
definition timeBeforeRepeatJoin :: int where "timeBeforeRepeatJoin = 300000000000"

definition errEmptyNetworkAddress :: gerror where
  "errEmptyNetworkAddress = ErrNew ''fmt.Errorf'' ''empty Elrond.NetworkAddress in config file''"

definition CreateUnitStorer ::
  "('e, 'addr, 'sc) mainLibs \<Rightarrow> 'sc StorageConfig \<Rightarrow> string \<Rightarrow> ('e, 'e statusDeps res) go" where
  "CreateUnitStorer M config workingDir =
     (let statusMetricsDbConfig = GetDBFromConfig M (storage_DB config);
          path = path_Join M workingDir (db_FilePath (storage_DB config));
          statusMetricsDbConfig = statusMetricsDbConfig\<lparr>db_FilePath := path\<rparr>
      in NewStorageUnitFromConf M (GetCacherFromConfig M (storage_Cache config)) statusMetricsDbConfig)"

definition attachFileLogger :: "('e, 'addr, 'sc) mainLibs \<Rightarrow> ContextFlagsConfig \<Rightarrow> ('e, 'e fileLogging option res) go" where
  "attachFileLogger M flagsConfig =
     if_no_err
       (if SaveLogFile flagsConfig
        then (\<lambda>e. do {
          (r, e) \<leftarrow> NewFileLogging M (WorkingDir flagsConfig) defaultLogsPath logFilePrefix e;
          Some (case r of Inl err \<Rightarrow> Inl (Errorf '''' err '' creating a log file'') | Inr fileLogging \<Rightarrow> Inr (Some fileLogging), e) })
        else of_res (Inr None))
       (\<lambda>fileLogging e. do {
          (_, e) \<leftarrow> SetDisplayByteSlice_ToHex M e;
          (_, e) \<leftarrow> ToggleLoggerName M (EnableLogName flagsConfig) e;
          if_no_err (of_err (SetLogLevel M (flag_LogLevel flagsConfig))) (\<lambda>_.
          if_no_err (if DisableAnsiColor flagsConfig
                     then if_no_err (of_err (RemoveLogObserver_Stdout M)) (\<lambda>_. of_err (AddLogObserver_Stdout M))
                     else of_res (Inr ())) (\<lambda>_.
          of_res (Inr fileLogging))) e })"

definition p2pConfig_of :: "ConfigP2P \<Rightarrow> P2PConfig" where
  "p2pConfig_of cfg =
     \<lparr> p2p_Node = \<lparr> node_Port = p2p_Port cfg, node_Seed = p2p_Seed cfg, MaximumExpectedPeerCount = 0,
         ThresholdMinConnectedPeers = 0, ConnectionWatcherType = disabledWatcher \<rparr>,
       KadDhtPeerDiscovery = \<lparr> kad_Enabled = True, RefreshIntervalInSec = 5, kad_ProtocolID = ProtocolID cfg,
         kad_InitialPeerList = InitialPeerList cfg, BucketSize = 0, RoutingTableRefreshIntervalInSec = 300,
         kad_Type = p2pPeerNetworkDiscoverer \<rparr>,
       p2p_Sharding = \<lparr> TargetPeerCount = 0, MaxIntraShardValidators = 0, MaxCrossShardValidators = 0,
         MaxIntraShardObservers = 0, MaxCrossShardObservers = 0, sharding_Type = nilListSharderType \<rparr> \<rparr>"

definition buildNetMessenger :: "('e, 'addr, 'sc) mainLibs \<Rightarrow> ConfigP2P \<Rightarrow> ('e, 'e NetMessenger res) go" where
  "buildNetMessenger M cfg = NewNetworkMessenger M (p2pConfig_of cfg)"

subsection \<open>The arguments of the relayer\<close>

definition addClientHandler :: "(handlerHeap \<times> 'o) statusDeps \<Rightarrow> string \<Rightarrow> (('addr, 'o) programState, nat res) go" where
  \<comment> \<open>creates a handler, hands it to the metrics holder and returns its address\<close>
  "addClientHandler d name =
     if_no_err (beside (beside (outside (new_handler d name)))) (\<lambda>ref (refs, (mh, s)).
       case map_of (fst (rp_outside (snd s))) ref of
         None \<Rightarrow> None
       | Some sh \<Rightarrow>
           (case AddStatusHandler sh mh of
              (Some err, mh) \<Rightarrow> Some (Inl err, (refs, (mh, s)))
            | (None, mh) \<Rightarrow> Some (Inr ref, (AList.update (statusHandler_Name sh) ref refs, (mh, s)))))"

definition argsElrondProxy :: "ElrondConfig \<Rightarrow> ArgsElrondProxy" where
  "argsElrondProxy cfg =
     \<lparr> ProxyURL = elcfg_NetworkAddress cfg, SameScState = False, ShouldBeSynced = False, FinalityCheck = ProxyFinalityCheck cfg,
       AllowedDeltaToFinal = ProxyMaxNoncesDelta cfg, CacheExpirationTime = times 1000000000 (ProxyCacherExpirationSeconds cfg),
       EntityType = ProxyRestAPIEntityType cfg \<rparr>"

definition loadConfigs ::
  "('e, 'addr, 'sc) mainLibs \<Rightarrow> ContextFlagsConfig \<Rightarrow> ('e, ('sc mainConfig \<times> ApiRoutesConfig) res) go" where
  "loadConfigs M flagsConfig =
     if_no_err (attachFileLogger M flagsConfig) (\<lambda>fileLogging.
     if_no_err (of_err (SetLogLevel M (flag_LogLevel flagsConfig))) (\<lambda>_.
     if_no_err (LoadTomlFile_Config M (ConfigurationFile flagsConfig)) (\<lambda>cfg.
     if_no_err (LoadTomlFile_ApiRoutes M (ConfigurationApiFile flagsConfig)) (\<lambda>apiRoutesConfig.
     if_no_err (case fileLogging of
                  None \<Rightarrow> of_res (Inr ())
                | Some fl \<Rightarrow> of_err (ChangeFileLifeSpan fl (times 1000000000 (word_of_int (LogFileLifeSpanInSec cfg))))) (\<lambda>_.
     of_res (Inr (cfg, apiRoutesConfig)))))))"

definition relayArgs ::
  "(handlerHeap \<times> 'o, 'addr, 'sc) mainLibs \<Rightarrow> (string \<Rightarrow> 'addr) \<Rightarrow> ContextFlagsConfig
   \<Rightarrow> (('addr, 'o) programState, (('addr, handlerHeap \<times> 'o) ArgsEthereumToElrondBridge \<times> webConfigs) res) go" where
  \<comment> \<open>the second argument is \<^verbatim>\<open>common.HexToAddress\<close>; the map of the ERC20 wrappers is a cache that does not change a balance\<close>
  "relayArgs M hexToAddress flagsConfig =
     if_no_err (beside (beside (outside (loadConfigs M flagsConfig)))) (\<lambda>(cfg, apiRoutesConfig).
     if_no_err (beside (beside (outside (CreateUnitStorer M (StatusMetricsStorage cfg) (path_Join M (WorkingDir flagsConfig) dbPath))))) (\<lambda>statusStorer.
     if_no_err (\<lambda>(_, (_, s)). Some (Inr (), ([], (NewMetricsHolder, s)))) (\<lambda>_.
     if_no_err (addClientHandler statusStorer EthClientStatusHandlerName) (\<lambda>ethRef.
     if_no_err (addClientHandler statusStorer ElrondClientStatusHandlerName) (\<lambda>elrondRef.
     let ethClientStatusHandler = Some (handler_object statusStorer ethRef) in
     if_no_err (of_res (if length (elcfg_NetworkAddress (cfg_Elrond cfg)) = 0 then Inl errEmptyNetworkAddress else Inr ())) (\<lambda>_.
     if_no_err (beside (beside (outside (NewElrondProxy M (argsElrondProxy (cfg_Elrond cfg)))))) (\<lambda>proxy.
     if_no_err (beside (beside (outside (Dial M (ethcfg_NetworkAddress (cfg_Eth cfg)))))) (\<lambda>ethClient.
     if_no_err (of_res (NewBridge ethClient (hexToAddress (ethcfg_MultisigContractAddress (cfg_Eth cfg))))) (\<lambda>multiSigInstance.
     if_no_err (of_res (NewErc20SafeContractsHolder (Address_String M) (Some (NewGenericErc20_at ethClient)) ethClientStatusHandler)) (\<lambda>(erc20ContractsHolder, _).
     if_no_err (of_res (case NewMarshalizer M (MarshalizerType cfg) of Some err \<Rightarrow> Inl err | None \<Rightarrow> Inr ())) (\<lambda>_.
     if_no_err (beside (beside (outside (buildNetMessenger M (cfg_P2P cfg))))) (\<lambda>messenger.
     if_no_err (of_res (NewEthereumChainWrapper ethClientStatusHandler (Some multiSigInstance) (Some (ethclient ethClient)))) (\<lambda>clientWrapper.
     if_no_err (of_res (case NewStatusHandlersFactory M of Some err \<Rightarrow> Inl err | None \<Rightarrow> Inr ())) (\<lambda>_.
     if_no_err (beside (beside (outside (of_err (Create_appStatusHandler M))))) (\<lambda>_.
     of_res (Inr
       (\<lparr> Configs = Config.truncate cfg, Messenger = Some messenger, StatusStorer = Some statusStorer, Proxy = Some proxy,
          ElrondClientStatusHandler = Some (handler_object statusStorer elrondRef),
          Erc20ContractsHolder = Some (erc20_balance erc20ContractsHolder), ClientWrapper = Some clientWrapper,
          TimeForBootstrap = timeForBootstrap, TimeBeforeRepeatJoin = timeBeforeRepeatJoin, MetricsHolder = Some (), AppStatusHandler = Some () \<rparr>,
        \<lparr> flags_RestApiInterface = flag_RestApiInterface flagsConfig, flags_EnablePprof = EnablePprof flagsConfig,
          configs_ApiRoutesConfig = apiRoutesConfig, configs_WebServer = cfg_WebServer cfg \<rparr>)))))))))))))))))"

subsection \<open>startRelay\<close>

text \<open>
  \<open>running\<close> is everything that happens between the start and the signal; its result is \<^verbatim>\<open>cancelFunc\<close> of the components at
  that moment.
\<close>

definition startRelay ::
  "((string \<times> ('addr, 'o) programState nodeGroup) list \<Rightarrow> (string \<times> ('addr, 'o) programState nodeGroup) list)
   \<Rightarrow> ((string \<times> statusHandler) list \<Rightarrow> (string \<times> statusHandler) list)
   \<Rightarrow> (handlerHeap \<times> 'o, 'addr, 'sc) mainLibs
   \<Rightarrow> ('addr, handlerHeap \<times> 'o, 'a, 'sk, 'pk, 'esk, 'epk, 'ty, 'req, 'resp) relayerLibs
   \<Rightarrow> ('addr, 'o) programState webLibs
   \<Rightarrow> (('addr, handlerHeap \<times> 'o, 'a, 'pk, 'ty, 'req, 'resp) relayer \<Rightarrow> ('addr, 'o) programState webServer
       \<Rightarrow> (('addr, 'o) programState, (handlerHeap \<times> 'o, unit) go option) go)
   \<Rightarrow> ContextFlagsConfig \<Rightarrow> (('addr, 'o) programState, gerror option) go" where
  "startRelay gord hord M L W running flagsConfig = (\<lambda>s. do {
     (r, s) \<leftarrow>
       if_no_err (relayArgs M (lib_HexToAddress L) flagsConfig) (\<lambda>(args, configs).
       if_no_err (beside (NewEthElrondBridgeComponents L args)) (\<lambda>ethToElrondComponents.
       if_no_err (StartWebServer gord W configs (Some (main_metricsHolder hord))) (\<lambda>webServer.
       if_no_err (beside (beside (of_err (components_Start L ethToElrondComponents)))) (\<lambda>_.
       of_res (Inr (ethToElrondComponents, webServer)))))) s;
     case r of
       Inl err \<Rightarrow> Some (Some err, s)
     | Inr (ethToElrondComponents, webServer) \<Rightarrow> do {
         (cancelFunc, s) \<leftarrow> running ethToElrondComponents webServer s;
         (err, s) \<leftarrow> beside (beside (components_Close L cancelFunc ethToElrondComponents)) s;
         let lastErr = (case err of None \<Rightarrow> None | Some er \<Rightarrow> Some er) in do {
         (err, s) \<leftarrow> webServer_Close W webServer s;
         let lastErr = (case err of None \<Rightarrow> lastErr | Some er \<Rightarrow> Some er) in
         Some (lastErr, s) } } })"

subsection \<open>What the program registers\<close>

lemma NewStatusHandler_name: "NewStatusHandler d name s = Some (Inr sh, s') \<Longrightarrow> handlerName sh = name"
  by (auto simp: NewStatusHandler_def tryLoadPersistedData_def elim!: go_bindE split: if_split_asm option.split_asm sum.split_asm)

lemma AddStatusHandler_appends: "AddStatusHandler sh mh = (None, mh') \<Longrightarrow> mh' = mh @ [(handlerName sh, sh)]"
  by (auto simp: AddStatusHandler_def statusHandler_Name_def Let_def update_fresh split: if_split_asm)

lemma half_bridge_registers:
  "createEthereumToElrondBridge c cfg (mh, w) = Some (Inr hb, (mh', w')) \<Longrightarrow> map fst mh' = map fst mh @ [EvmCompatibleChainToElrondName (evmCompatibleChain c)]"
  "createElrondToEthereumBridge c cfg (mh, w) = Some (Inr hb, (mh', w')) \<Longrightarrow> map fst mh' = map fst mh @ [ElrondToEvmCompatibleChainName (evmCompatibleChain c)]"
  unfolding createEthereumToElrondBridge_def createElrondToEthereumBridge_def Let_def
  by (auto elim!: go_bindE split: option.split_asm sum.split_asm prod.split_asm dest!: AddStatusHandler_appends NewStatusHandler_name)

lemma NewComponents_registers:
  assumes "NewEthElrondBridgeComponents L args (mh, s0) = Some (Inr rel, (mh', s1))"
  shows "map fst mh' = map fst mh @ [EvmCompatibleChainToElrondName (ethcfg_Chain (cfg_Eth (Configs args))),
      ElrondToEvmCompatibleChainName (ethcfg_Chain (cfg_Eth (Configs args)))]"
  using assms unfolding NewEthElrondBridgeComponents_def Let_def
  by (auto simp: beside_iff split: option.split_asm prod.split_asm elim!: if_no_errE dest!: half_bridge_registers)

lemma addClientHandler_registers:
  assumes "addClientHandler d name (refs, (mh, s)) = Some (Inr ref, (refs', (mh', s')))"
  shows "map fst mh' = map fst mh @ [name] \<and> refs' = AList.update name ref refs"
  using assms unfolding addClientHandler_def
  by (cases s) (auto simp: beside_iff new_handler_def outside_def statusHandler_Name_def update_conv' elim!: if_no_errE go_bindE
      split: sum.split_asm prod.split_asm option.split_asm dest!: AddStatusHandler_appends NewStatusHandler_name)

lemma relayArgs_result:
  assumes "relayArgs M hexToAddress flagsConfig (refs0, (mh0, s0)) = Some (Inr (args, configs), (refs, (mh, s)))"
  obtains d ethRef elrondRef where "map fst mh = [EthClientStatusHandlerName, ElrondClientStatusHandlerName]"
    and "wrapper_StatusHandler (the (ClientWrapper args)) = handler_object d ethRef"
    and "ElrondClientStatusHandler args = Some (handler_object d elrondRef)"
    and "refs = [(EthClientStatusHandlerName, ethRef), (ElrondClientStatusHandlerName, elrondRef)]"
    and "flags_RestApiInterface configs = flag_RestApiInterface flagsConfig"
proof -
  have names: "EthClientStatusHandlerName \<noteq> ElrondClientStatusHandlerName"
    by (simp add: EthClientStatusHandlerName_def ElrondClientStatusHandlerName_def)
  from assms that show thesis unfolding relayArgs_def Let_def
    by (auto simp: beside_iff NewMetricsHolder_def NewEthereumChainWrapper_def names
        elim!: if_no_errE split: option.split_asm prod.split_asm if_split_asm dest!: addClientHandler_registers)
qed

lemma program_registers:
  assumes "relayArgs M hexToAddress flagsConfig s0 = Some (Inr (args, configs), (refs, (mh1, s1)))"
    and "NewEthElrondBridgeComponents L args (mh1, s1) = Some (Inr rel, (mh2, s2))"
  shows "map fst mh2 = [EthClientStatusHandlerName, ElrondClientStatusHandlerName,
      EvmCompatibleChainToElrondName (ethcfg_Chain (cfg_Eth (Configs args))), ElrondToEvmCompatibleChainName (ethcfg_Chain (cfg_Eth (Configs args)))]"
proof -
  have "map fst mh1 = [EthClientStatusHandlerName, ElrondClientStatusHandlerName]"
    using assms(1) by (cases s0) (auto elim: relayArgs_result)
  then show ?thesis using NewComponents_registers [OF assms(2)] by simp
qed

subsection \<open>The facade of the program\<close>

definition main_facade ::
  "((string \<times> statusHandler) list \<Rightarrow> (string \<times> statusHandler) list) \<Rightarrow> string \<Rightarrow> bool \<Rightarrow> ('addr, 'o) programState FacadeHandler" where
  "main_facade ord api pprof =
     facade_interface \<lparr> rf_metricsHolder = main_metricsHolder ord, apiInterface = api, pprofEnabled = pprof \<rparr>"

definition main_lookup :: "('addr, 'o) programState \<Rightarrow> string \<Rightarrow> GeneralMetrics option" where
  "main_lookup s = holder_lookup (current_handlers (fst (rp_outside (snd (snd (snd s))))) (fst s) (fst (snd s)), ())"

lemma names_current_handlers: "fst ` set (current_handlers heap refs mh) = fst ` set mh"
  by (force simp: current_handlers_def)

lemma map_of_current_handlers:
  "map_of (current_handlers heap refs mh) name = map_option (\<lambda>sh. case map_of refs name of
     None \<Rightarrow> sh | Some ref \<Rightarrow> (case map_of heap ref of None \<Rightarrow> sh | Some now \<Rightarrow> now)) (map_of mh name)"
  by (induction mh) (auto simp: current_handlers_def split: option.split)

lemma dom_main_lookup: "dom (main_lookup (refs, (mh, s))) = fst ` set mh"
  by (simp add: main_lookup_def dom_holder_lookup names_current_handlers)

interpretation program_facade: metrics_facade "main_facade ord api pprof" "\<lambda>_. range_order ord" main_lookup ErrMissingStatusHandler
proof
  fix s :: "('addr, 'o) programState" and name
  assume ord: "range_order ord"
  obtain refs mh h p where s: "s = (refs, (mh, (h, p)))" using prod_cases4 by blast
  show "GetMetrics (main_facade ord api pprof) name s
      = Some ((case main_lookup s name of None \<Rightarrow> Inl ErrMissingStatusHandler | Some info \<Rightarrow> Inr info), s)"
    by (simp add: main_facade_def facade_interface_def relayerFacade_GetMetrics_def main_metricsHolder_def
        metricsHolder_GetAllMetrics_def main_lookup_def holder_lookup_def s split: option.split)
  show "\<exists>names. GetMetricsList (main_facade ord api pprof) s = Some ([(availableMetrics, Names names)], s) \<and> set names = dom (main_lookup s)"
    using set_GetAvailableStatusHandlers [OF ord]
    by (simp add: main_facade_def facade_interface_def relayerFacade_GetMetricsList_def main_metricsHolder_def s dom_main_lookup names_current_handlers)
qed

lemma started_node_group:
  assumes "StartWebServer gord W configs (Some (main_metricsHolder hord)) s = Some (Inr ws, s')"
    and "flags_RestApiInterface configs \<noteq> WebServerOffString"
  obtains ng where "map_of (ws_groups ws) ''node'' = Some ng"
    and "ng_facade ng = main_facade hord (flags_RestApiInterface configs) (flags_EnablePprof configs)"
  using assms by (rule StartWebServer_result) (use that in \<open>simp add: node_group_def main_facade_def\<close>)

subsection \<open>The metrics of a running program\<close>

text \<open>
  C36: the REST interface of a running program, unless it is switched off, serves \<^verbatim>\<open>GET /node/status/list\<close> and
  \<^verbatim>\<open>GET /node/status\<close> each if and only if its configuration opens it. The first then answers with exactly the names of
  the program's four status handlers: those of the two clients and those of the two half-bridges, the latter derived from the
  configured chain; the second answers 200 for each of these names.
\<close>

theorem program_lists_its_handlers:
  assumes "relayArgs M (lib_HexToAddress L) flagsConfig s0 = Some (Inr (args, configs), (refs, (mh1, s1)))"
    and "NewEthElrondBridgeComponents L args (mh1, s1) = Some (Inr rel, (mh2, s2))"
    and "StartWebServer gord W configs (Some (main_metricsHolder hord)) s = Some (Inr ws, s')"
    and "flag_RestApiInterface flagsConfig \<noteq> WebServerOffString" and "range_order hord" and "range_order gord"
    and "gin_BasePath W ''/node'' = ''/node''"
  shows "\<exists>calls ng names. ws_httpServer ws = Some \<lparr> hs_server = http_Server W (flag_RestApiInterface flagsConfig) calls \<rparr>
    \<and> map_of (ws_groups ws) ''node'' = Some ng
    \<and> routed calls ''GET'' ''/node/status/list''
        = (if is_open (configs_ApiRoutesConfig configs) ''node'' statusListPath then Some StatusListMetrics else None)
    \<and> routed calls ''GET'' ''/node/status''
        = (if is_open (configs_ApiRoutesConfig configs) ''node'' statusPath then Some StatusMetrics else None)
    \<and> serve StatusListMetrics q (ng, (refs, (mh2, t))) = Some (\<lparr> resp_status = 200, resp_Data = Some [(availableMetrics, Names names)],
          resp_Error = '''', resp_Code = ReturnCodeSuccess \<rparr>, (ng, (refs, (mh2, t))))
    \<and> set names = {EthClientStatusHandlerName, ElrondClientStatusHandlerName,
          EvmCompatibleChainToElrondName (ethcfg_Chain (cfg_Eth (Configs args))), ElrondToEvmCompatibleChainName (ethcfg_Chain (cfg_Eth (Configs args)))}
    \<and> list_all (\<lambda>n. \<exists>resp. serve StatusMetrics [(clientQueryParam, [n])] (ng, (refs, (mh2, t))) = Some (resp, (ng, (refs, (mh2, t))))
          \<and> resp_status resp = 200) names"
proof -
  have handlers: "fst ` set mh2 = {EthClientStatusHandlerName, ElrondClientStatusHandlerName,
      EvmCompatibleChainToElrondName (ethcfg_Chain (cfg_Eth (Configs args))), ElrondToEvmCompatibleChainName (ethcfg_Chain (cfg_Eth (Configs args)))}"
    using program_registers [OF assms(1,2)] by (simp flip: set_map)
  have api: "flags_RestApiInterface configs = flag_RestApiInterface flagsConfig"
    using assms(1) by (cases s0) (auto elim: relayArgs_result)
  with assms(4) have on: "flags_RestApiInterface configs \<noteq> WebServerOffString" by simp
  obtain calls where calls: "ws_httpServer ws = Some \<lparr> hs_server = http_Server W (flag_RestApiInterface flagsConfig) calls \<rparr>"
    "routed calls ''GET'' ''/node/status/list''
        = (if is_open (configs_ApiRoutesConfig configs) ''node'' statusListPath then Some StatusListMetrics else None)"
    "routed calls ''GET'' ''/node/status'' = (if is_open (configs_ApiRoutesConfig configs) ''node'' statusPath then Some StatusMetrics else None)"
    by (rule routed_StartWebServer [OF assms(3,6,7) on]) (use that in \<open>simp add: api\<close>)
  obtain ng where ng: "map_of (ws_groups ws) ''node'' = Some ng"
    and facade: "ng_facade ng = main_facade hord (flags_RestApiInterface configs) (flags_EnablePprof configs)"
    by (rule started_node_group [OF assms(3) on])
  obtain names where names: "serve StatusListMetrics q (ng, (refs, (mh2, t))) = Some (\<lparr> resp_status = 200, resp_Data = Some [(availableMetrics, Names names)],
          resp_Error = '''', resp_Code = ReturnCodeSuccess \<rparr>, (ng, (refs, (mh2, t))))" "set names = dom (main_lookup (refs, (mh2, t)))"
    by (rule program_facade.list_served [OF assms(5) facade])
  have "\<exists>resp. serve StatusMetrics [(clientQueryParam, [n])] (ng, (refs, (mh2, t))) = Some (resp, (ng, (refs, (mh2, t)))) \<and> resp_status resp = 200"
    if "n \<in> set names" for n
    using that unfolding program_facade.status_served [OF assms(5) facade] names(2) by (auto simp: domIff split: option.split)
  then have "list_all (\<lambda>n. \<exists>resp. serve StatusMetrics [(clientQueryParam, [n])] (ng, (refs, (mh2, t))) = Some (resp, (ng, (refs, (mh2, t))))
      \<and> resp_status resp = 200) names"
    unfolding list_all_iff by (rule ballI)
  with calls ng names(1) names(2) [unfolded dom_main_lookup handlers] show ?thesis
    by (intro exI [of _ calls] exI [of _ ng] exI [of _ names] conjI)
qed

text \<open>A write to an object is seen under the name whose entry in the metrics holder has the address of that object.\<close>

lemma written_metric_is_read:
  assumes "AddIntMetric (handler_object d ref) metric delta e = Some (u, e')" and "map_of refs name = Some ref" and "name \<in> fst ` set mh"
  obtains old new where "map_of (fst e) ref = Some old"
    and "map_of (intMetrics new) metric = Some (int_add (case map_of (intMetrics old) metric of None \<Rightarrow> 0 | Some n \<Rightarrow> n) delta)"
    and "main_lookup (refs, (mh, (h, p\<lparr>rp_outside := e'\<rparr>))) name
      = Some (map (\<lambda>(key, val). (key, MetricValue val)) (statusHandler_GetAllMetrics new))"
proof -
  obtain heap w where e: "e = (heap, w)" by fastforce
  from assms(1) [unfolded handler_object_def e, simplified]
  obtain old new heap' w' where old: "map_of heap ref = Some old"
    and run: "statusHandler_AddIntMetric d metric delta (old, (heap, w)) = Some (u, (new, (heap', w')))"
    and e': "e' = (AList.update ref new heap', w')"
    by (auto simp: at_handler_def elim!: go_bindE split: option.split_asm)
  have grown: "map_of (intMetrics new) metric = Some (int_add (case map_of (intMetrics old) metric of None \<Rightarrow> 0 | Some n \<Rightarrow> n) delta)"
    using run unfolding statusHandler_AddIntMetric_def Let_def
    by (auto simp: persistChanges_def update_conv' elim!: go_bindE split: if_split_asm sum.split_asm)
  have read: "main_lookup (refs, (mh, (h, p\<lparr>rp_outside := e'\<rparr>))) name
      = Some (map (\<lambda>(key, val). (key, MetricValue val)) (statusHandler_GetAllMetrics new))"
    using assms(2,3) by (auto simp: main_lookup_def holder_lookup_def map_of_current_handlers e' update_conv' dest!: weak_map_of_SomeI)
  show thesis by (rule that [OF _ grown read]) (simp add: old e)
qed

text \<open>
  C37: what a client counts is what the REST interface shows. The status handlers are objects in a heap, told apart by their
  addresses and not by their names. When the wrapper of the Ethereum contracts, or the Elrond client, adds to a metric of the handler the
  program gave it, and the REST interface is on and \<^verbatim>\<open>/status\<close> is open, a request for the status of \<^verbatim>\<open>eth-client\<close>
  (or \<^verbatim>\<open>elrond-client\<close>) that follows answers 200 with the metrics of that object, in which the metric has grown by the number
  added (as an \<^verbatim>\<open>int\<close>, which wraps at 64 bits).
\<close>

theorem client_metrics_are_visible:
  assumes "relayArgs M hexToAddress flagsConfig s0 = Some (Inr (args, configs), (refs, (mh1, s1)))"
    and "NewEthElrondBridgeComponents L args (mh1, s1) = Some (Inr rel, (mh2, s2))"
    and "StartWebServer gord W configs (Some (main_metricsHolder hord)) s = Some (Inr ws, s')"
    and "flag_RestApiInterface flagsConfig \<noteq> WebServerOffString" and "range_order hord" and "range_order gord"
    and "gin_BasePath W ''/node'' = ''/node''" and "is_open (configs_ApiRoutesConfig configs) ''node'' statusPath"
    and "(sh, name) \<in> {(wrapper_StatusHandler (the (ClientWrapper args)), EthClientStatusHandlerName),
                       (the (ElrondClientStatusHandler args), ElrondClientStatusHandlerName)}"
    and "AddIntMetric sh metric delta (rp_outside p) = Some (u, e')"
  shows "\<exists>calls ng ref old new resp. ws_httpServer ws = Some \<lparr> hs_server = http_Server W (flag_RestApiInterface flagsConfig) calls \<rparr>
    \<and> routed calls ''GET'' ''/node/status'' = Some StatusMetrics \<and> map_of (ws_groups ws) ''node'' = Some ng
    \<and> map_of refs name = Some ref \<and> map_of (fst (rp_outside p)) ref = Some old
    \<and> serve StatusMetrics [(clientQueryParam, [name])] (ng, (refs, (mh2, (h, p\<lparr>rp_outside := e'\<rparr>))))
        = Some (resp, (ng, (refs, (mh2, (h, p\<lparr>rp_outside := e'\<rparr>)))))
    \<and> resp_status resp = 200 \<and> resp_Data resp = Some (map (\<lambda>(key, val). (key, MetricValue val)) (statusHandler_GetAllMetrics new))
    \<and> map_of (intMetrics new) metric
        = Some (int_add (case map_of (intMetrics old) metric of None \<Rightarrow> 0 | Some n \<Rightarrow> n) delta)"
proof -
  from assms(1) obtain d ethRef elrondRef where
    wrapper: "wrapper_StatusHandler (the (ClientWrapper args)) = handler_object d ethRef"
      "ElrondClientStatusHandler args = Some (handler_object d elrondRef)"
    and refs: "refs = [(EthClientStatusHandlerName, ethRef), (ElrondClientStatusHandlerName, elrondRef)]"
    and api: "flags_RestApiInterface configs = flag_RestApiInterface flagsConfig"
    by (cases s0) (auto elim: relayArgs_result)
  have "EthClientStatusHandlerName \<noteq> ElrondClientStatusHandlerName"
    by (simp add: EthClientStatusHandlerName_def ElrondClientStatusHandlerName_def)
  with assms(9) obtain ref where ref: "sh = handler_object d ref" "map_of refs name = Some ref"
    by (auto simp: wrapper refs)
  have member: "name \<in> fst ` set mh2"
    using assms(9) arg_cong [OF program_registers [OF assms(1,2)], of set] by auto
  from assms(4) api have on: "flags_RestApiInterface configs \<noteq> WebServerOffString" by simp
  obtain calls where calls: "ws_httpServer ws = Some \<lparr> hs_server = http_Server W (flag_RestApiInterface flagsConfig) calls \<rparr>"
    "routed calls ''GET'' ''/node/status'' = Some StatusMetrics"
    by (rule routed_StartWebServer [OF assms(3,6,7) on]) (use that assms(8) in \<open>simp add: api\<close>)
  obtain ng where ng: "map_of (ws_groups ws) ''node'' = Some ng"
    and facade: "ng_facade ng = main_facade hord (flags_RestApiInterface configs) (flags_EnablePprof configs)"
    by (rule started_node_group [OF assms(3) on])
  obtain old new where old: "map_of (fst (rp_outside p)) ref = Some old"
    and grown: "map_of (intMetrics new) metric = Some (int_add (case map_of (intMetrics old) metric of None \<Rightarrow> 0 | Some n \<Rightarrow> n) delta)"
    and read: "main_lookup (refs, (mh2, (h, p\<lparr>rp_outside := e'\<rparr>))) name
      = Some (map (\<lambda>(key, val). (key, MetricValue val)) (statusHandler_GetAllMetrics new))"
    by (rule written_metric_is_read [OF assms(10) [unfolded ref(1)] ref(2) member])
  have "serve StatusMetrics [(clientQueryParam, [name])] (ng, (refs, (mh2, (h, p\<lparr>rp_outside := e'\<rparr>)))) = Some
      (\<lparr> resp_status = 200, resp_Data = Some (map (\<lambda>(key, val). (key, MetricValue val)) (statusHandler_GetAllMetrics new)),
         resp_Error = [], resp_Code = ReturnCodeSuccess \<rparr>, (ng, (refs, (mh2, (h, p\<lparr>rp_outside := e'\<rparr>)))))"
    unfolding program_facade.status_served [OF assms(5) facade] read by simp
  with calls ng ref(2) old grown show ?thesis
    by (intro exI [of _ calls] exI [of _ ng] exI [of _ ref] exI [of _ old] exI [of _ new]) (simp del: serve.simps)
qed

subsection \<open>Leaving the program\<close>

lemma last_error_None: "last_error errs = None \<longleftrightarrow> errs = replicate (length errs) None"
proof -
  have "fold (\<lambda>err acc. case err of None \<Rightarrow> acc | Some er \<Rightarrow> Some er) errs acc = None \<longleftrightarrow> acc = None \<and> errs = replicate (length errs) None"
    for acc :: "gerror option"
    by (induction errs arbitrary: acc) (auto split: option.splits)
  then show ?thesis by (simp add: last_error_def)
qed

lemma length_run_all: "run_all ms s = Some (rs, s') \<Longrightarrow> length rs = length ms"
  by (induction ms arbitrary: s rs) (auto elim!: go_bindE)

lemma components_Close_clean:
  assumes "NewEthElrondBridgeComponents L args (mh, s0) = Some (Inr rel, (mh', s1))"
    and "ps = relayer_pollers (Configs args) (hb_stepDuration (rel_ethToElrond rel)) (hb_stepDuration (rel_elrondToEth rel))"
    and "components_Close L None rel s = Some (None, s')"
  shows "run_all [outside (ntpTimer_Close (NewNTPTimer (lib_NewSyncTime L))), outside (lib_ClosePollingHandler L (ps ! 0)), elrond_Close (rel_elrondClient rel),
              outside (lib_ClosePollingHandler L (ps ! 1)), outside (lib_ClosePollingHandler L (ps ! 2)),
              outside (lib_ClosePollingHandler L (ps ! 3))] s = Some ([None, None, None, None, None, None], s')" (is "run_all ?ms s = _")
proof -
  from assms(3) components_Close_eq [OF assms(1,2), of s] obtain errs where "run_all ?ms s = Some (errs, s')" and "last_error errs = None"
    by (auto simp del: run_all.simps)
  then show ?thesis
    using length_run_all [of ?ms s errs s'] by (simp add: last_error_None numeral_eq_Suc del: run_all.simps)
qed

lemma components_Close_cancel:
  "components_Close L cancelFunc rel s = Some (err, s') \<Longrightarrow>
     \<exists>t. (case cancelFunc of None \<Rightarrow> t = s | Some cancel \<Rightarrow> outside cancel s = Some ((), t)) \<and> components_Close L None rel t = Some (err, s')"
  by (cases s) (auto simp: components_Close_def elim!: go_bindE split: option.splits)

text \<open>
  C38: what a program closes that ends without an error: after the signal the loop of the join messages is cancelled (if it has
  begun), then the timer, the four polling handlers and the Elrond client are closed, each without an error; then, unless the
  REST interface is switched off, the reset loop of the web server is cancelled and the HTTP server shut down. These are
  all the calls between the signal and the end: the messenger, the broadcaster, the polling of the gas station, the storer and the log file,
  which the program opened too, are not closed.
\<close>

theorem clean_exit_closes_components:
  assumes "startRelay gord hord M L W running flagsConfig s0 = Some (None, s')"
  shows "\<exists>args rel ws cancelFunc refs mh t t1 t2.
    (\<exists>v v'. NewEthElrondBridgeComponents L args v = Some (Inr rel, v')) \<and> (\<exists>v. running rel ws v = Some (cancelFunc, (refs, (mh, t))))
    \<and> (case cancelFunc of None \<Rightarrow> t1 = t | Some cancel \<Rightarrow> outside cancel t = Some ((), t1))
    \<and> (let ps = relayer_pollers (Configs args) (hb_stepDuration (rel_ethToElrond rel)) (hb_stepDuration (rel_elrondToEth rel)) in
        run_all [outside (ntpTimer_Close (NewNTPTimer (lib_NewSyncTime L))), outside (lib_ClosePollingHandler L (ps ! 0)),
          elrond_Close (rel_elrondClient rel), outside (lib_ClosePollingHandler L (ps ! 1)), outside (lib_ClosePollingHandler L (ps ! 2)),
          outside (lib_ClosePollingHandler L (ps ! 3))] t1 = Some ([None, None, None, None, None, None], t2))
    \<and> (if flag_RestApiInterface flagsConfig = WebServerOffString then s' = (refs, (mh, t2))
       else \<exists>ctx h u. ws_cancelFunc ws = Some ctx \<and> web_cancel W ctx (refs, (mh, t2)) = Some ((), u)
              \<and> ws_httpServer ws = Some h \<and> httpServer_Close h u = Some (None, s'))"
proof -
  from assms(1) obtain args configs rel ws v cancelFunc refs mh t t2 refs1 mh1 s1 mh2 s2 w1 w2 where
    built: "relayArgs M (lib_HexToAddress L) flagsConfig s0 = Some (Inr (args, configs), (refs1, (mh1, s1)))"
      "NewEthElrondBridgeComponents L args (mh1, s1) = Some (Inr rel, (mh2, s2))"
      "StartWebServer gord W configs (Some (main_metricsHolder hord)) w1 = Some (Inr ws, w2)"
    and run: "running rel ws v = Some (cancelFunc, (refs, (mh, t)))"
    and closed: "components_Close L cancelFunc rel t = Some (None, t2)" "webServer_Close W ws (refs, (mh, t2)) = Some (None, s')"
    unfolding startRelay_def Let_def
    by (auto simp: beside_iff elim!: go_bindE if_no_errE split: sum.split_asm option.split_asm)
  from components_Close_cancel [OF closed(1)] obtain t1 where
    t1: "case cancelFunc of None \<Rightarrow> t1 = t | Some cancel \<Rightarrow> outside cancel t = Some ((), t1)" "components_Close L None rel t1 = Some (None, t2)"
    by blast
  have api: "flags_RestApiInterface configs = flag_RestApiInterface flagsConfig"
    using built(1) by (cases s0) (auto elim: relayArgs_result)
  have "if flag_RestApiInterface flagsConfig = WebServerOffString then s' = (refs, (mh, t2))
       else \<exists>ctx h u. ws_cancelFunc ws = Some ctx \<and> web_cancel W ctx (refs, (mh, t2)) = Some ((), u)
              \<and> ws_httpServer ws = Some h \<and> httpServer_Close h u = Some (None, s')"
  proof (cases "flag_RestApiInterface flagsConfig = WebServerOffString")
    case True
    then show ?thesis using StartWebServer_off [OF built(3)] closed(2) by (simp add: api webServer_Close_def)
  next
    case False
    then have on: "flags_RestApiInterface configs \<noteq> WebServerOffString" using api by simp
    obtain ctx h where "ws_cancelFunc ws = Some ctx" "ws_httpServer ws = Some h"
      using built(3) on by (rule StartWebServer_result) blast
    with closed(2) False show ?thesis
      unfolding webServer_Close_def by (auto elim!: go_bindE split: option.split_asm)
  qed
  with built(2) run t1(1) components_Close_clean [OF built(2) refl t1(2)] show ?thesis
    unfolding Let_def by (intro exI [of _ args] exI conjI)
qed

subsection \<open>A program that runs\<close>

text \<open>Configuration and libraries for which every call succeeds; the contract has one relayer and is not paused.\<close>

definition demo_contract :: "('e, bytes) multiSigContract" where
  "demo_contract =
     \<lparr> msc_GetBatch = (\<lambda>_ e. Some (Inl errQuorumNotReached, e)), msc_GetBatchDeposits = (\<lambda>_ e. Some (Inr [], e)),
       msc_GetRelayers = (\<lambda>e. Some (Inr [[1]], e)), msc_WasBatchExecuted = (\<lambda>_ e. Some (Inr False, e)),
       msc_ExecuteTransfer = (\<lambda>_ _ _ _ _ _ _ e. Some (Inr ''0xabc'', e)),
       msc_Quorum = (\<lambda>e. Some (Inr 1, e)), msc_GetStatusesAfterExecution = (\<lambda>_ e. Some (Inr [3], e)),
       msc_Paused = (\<lambda>e. Some (Inr False, e)) \<rparr>"

definition demo_blockchain :: "('e, bytes) blockchainClient" where
  "demo_blockchain =
     \<lparr> bcc_BlockNumber = (\<lambda>e. Some (Inr 10, e)), bcc_NonceAt = (\<lambda>_ _ e. Some (Inr 4, e)),
       bcc_ChainID = (\<lambda>e. Some (Inr 1, e)), bcc_BalanceAt = (\<lambda>_ e. Some (Inr 1000, e)) \<rparr>"

definition demo_mainConfig :: "unit mainConfig" where
  "demo_mainConfig = Config.extend town_config
     (mainConfig.fields \<lparr> p2p_Port = ''0'', p2p_Seed = [], InitialPeerList = [], ProtocolID = ''/erd/relay'' \<rparr> ''gogo protobuf'' \<lparr> storage_Cache = (), storage_DB = \<lparr> db_FilePath = ''status'', db_others = () \<rparr> \<rparr> 86400
        \<lparr> SimultaneousRequests = 100, SameSourceRequests = 10, SameSourceResetIntervalInSec = 1 \<rparr>)"

text \<open>The routes of the configuration file of the repository.\<close>

definition main_routes :: ApiRoutesConfig where
  "main_routes =
     \<lparr> api_Logging = \<lparr> LoggingEnabled = False, ThresholdInMicroSeconds = 1000 \<rparr>,
       APIPackages = [(''node'', \<lparr> Routes = [\<lparr> route_Name = ''/status'', route_Open = True \<rparr>,
         \<lparr> route_Name = ''/status/list'', route_Open = True \<rparr>, \<lparr> route_Name = ''/peerinfo'', route_Open = True \<rparr>] \<rparr>)] \<rparr>"

lemma main_routes_open: "is_open main_routes ''node'' statusPath" "is_open main_routes ''node'' statusListPath"
  by (simp_all add: main_routes_def is_open_def statusPath_def statusListPath_def)

definition demo_main :: "('e, bytes, unit) mainLibs" where
  "demo_main =
     \<lparr> NewFileLogging = (\<lambda>_ _ _ e. Some (Inr \<lparr> ChangeFileLifeSpan = (\<lambda>_ e. Some (None, e)) \<rparr>, e)),
       SetDisplayByteSlice_ToHex = (\<lambda>e. Some (None, e)), ToggleLoggerName = (\<lambda>_ e. Some ((), e)), SetLogLevel = (\<lambda>_ e. Some (None, e)),
       RemoveLogObserver_Stdout = (\<lambda>e. Some (None, e)), AddLogObserver_Stdout = (\<lambda>e. Some (None, e)),
       LoadTomlFile_Config = (\<lambda>_ e. Some (Inr demo_mainConfig, e)),
       LoadTomlFile_ApiRoutes = (\<lambda>_ e. Some (Inr main_routes, e)),
       path_Join = (\<lambda>a b. a @ ''/'' @ b), GetDBFromConfig = (\<lambda>c. c), GetCacherFromConfig = (\<lambda>c. c),
       NewStorageUnitFromConf = (\<lambda>_ _ e. Some (Inr town_storer, e)),
       NewElrondProxy = (\<lambda>_ e. Some (Inr quiet_proxy, e)),
       Dial = (\<lambda>_ e. Some (Inr \<lparr> ethclient = demo_blockchain, NewBridge = (\<lambda>_. Inr demo_contract), NewGenericErc20_at = (\<lambda>_. Inr (\<lambda>_ e. Some (Inr 50, e))) \<rparr>, e)),
       Address_String = (\<lambda>_. ''0x''), NewMarshalizer = (\<lambda>_. None), NewNetworkMessenger = (\<lambda>_ e. Some (Inr town_messenger, e)),
       NewStatusHandlersFactory = None, Create_appStatusHandler = (\<lambda>e. Some (None, e)) \<rparr>"

definition demo_flags :: ContextFlagsConfig where
  "demo_flags = getFlagsConfig (\<lambda>name. if name = ''rest-api-interface'' then '':8080'' else '''') (\<lambda>_. False)"

abbreviation eth_object :: "(handlerHeap \<times> 'o) StatusHandler" where
  "eth_object \<equiv> handler_object town_storer 0"

definition main_args :: "(bytes, handlerHeap \<times> 'o) ArgsEthereumToElrondBridge" where
  "main_args = town_args \<lparr> wrapper_StatusHandler = eth_object, wrapper_multiSigContract = demo_contract, wrapper_blockchainClient = demo_blockchain \<rparr>
     (handler_object town_storer 1)
     (erc20_balance \<lparr> NewGenericErc20 = (\<lambda>_. Inr (\<lambda>_ e. Some (Inr 50, e))), ethClientStatusHandler = eth_object, erc20_Address_String = (\<lambda>_. ''0x'') \<rparr>)"

abbreviation empty_handler :: "string \<Rightarrow> statusHandler" where
  "empty_handler name \<equiv> \<lparr> intMetrics = [], stringMetrics = [], handlerName = name \<rparr>"

abbreviation eth_handlers :: metricsHolder where
  "eth_handlers \<equiv> [(EthClientStatusHandlerName, empty_handler EthClientStatusHandlerName)]"

abbreviation client_handlers :: metricsHolder where
  "client_handlers \<equiv> [(EthClientStatusHandlerName, empty_handler EthClientStatusHandlerName), (ElrondClientStatusHandlerName, empty_handler ElrondClientStatusHandlerName)]"

abbreviation eth_heap :: handlerHeap where
  "eth_heap \<equiv> [(0, empty_handler EthClientStatusHandlerName)]"

abbreviation client_heap :: handlerHeap where
  "client_heap \<equiv> [(0, empty_handler EthClientStatusHandlerName), (1, empty_handler ElrondClientStatusHandlerName)]"

abbreviation client_refs :: handlerRefs where
  "client_refs \<equiv> [(EthClientStatusHandlerName, 0), (ElrondClientStatusHandlerName, 1)]"

definition main_webConfigs :: webConfigs where
  "main_webConfigs = \<lparr> flags_RestApiInterface = '':8080'', flags_EnablePprof = False,
     configs_ApiRoutesConfig = main_routes, configs_WebServer = cfg_WebServer demo_mainConfig \<rparr>"

lemma demo_mainConfig_sel:
  "cfg_Eth demo_mainConfig = cfg_Eth town_config" "cfg_Elrond demo_mainConfig = cfg_Elrond town_config" "Config.truncate demo_mainConfig = town_config"
  by (simp_all add: demo_mainConfig_def Config.defs mainConfig.defs town_config_def)

lemma demo_new_handler:
  "name \<noteq> [] \<Longrightarrow> new_handler town_storer name (heap, w)
     = Some (Inr (fresh_ref heap), (AList.update (fresh_ref heap) (empty_handler name) heap, w))"
  by (simp add: new_handler_def NewStatusHandler_def tryLoadPersistedData_def town_storer_def)

lemma demo_addClientHandlers:
  "addClientHandler town_storer EthClientStatusHandlerName ([], ([], (h, p\<lparr>rp_outside := ([], w)\<rparr>)))
     = Some (Inr 0, ([(EthClientStatusHandlerName, 0)], (eth_handlers, (h, p\<lparr>rp_outside := (eth_heap, w)\<rparr>))))"
  "addClientHandler town_storer ElrondClientStatusHandlerName
       ([(EthClientStatusHandlerName, 0)], (eth_handlers, (h, p\<lparr>rp_outside := (eth_heap, w)\<rparr>)))
     = Some (Inr 1, (client_refs, (client_handlers, (h, p\<lparr>rp_outside := (client_heap, w)\<rparr>))))"
  by (simp_all add: addClientHandler_def if_no_err_def beside_def outside_def demo_new_handler AddStatusHandler_def statusHandler_Name_def
      EthClientStatusHandlerName_def ElrondClientStatusHandlerName_def fresh_ref_def Let_def)

lemma demo_loadConfigs: "loadConfigs demo_main demo_flags e = Some (Inr (demo_mainConfig, main_routes), e)"
  by (simp add: loadConfigs_def attachFileLogger_def if_no_err_def of_res_def of_err_def demo_main_def demo_flags_def getFlagsConfig_def)

lemma demo_relayArgs:
  "relayArgs demo_main hexToAddress demo_flags (refs, (mh, (h, p\<lparr>rp_outside := ([], w)\<rparr>)))
     = Some (Inr (main_args, main_webConfigs), (client_refs, (client_handlers, (h, p\<lparr>rp_outside := (client_heap, w)\<rparr>))))"
proof -
  have libs: "CreateUnitStorer demo_main = (\<lambda>_ _ e. Some (Inr town_storer, e))" "NewElrondProxy demo_main = (\<lambda>_ e. Some (Inr quiet_proxy, e))"
    "Dial demo_main = (\<lambda>_ e. Some (Inr \<lparr> ethclient = demo_blockchain, NewBridge = (\<lambda>_. Inr demo_contract), NewGenericErc20_at = (\<lambda>_. Inr (\<lambda>_ e. Some (Inr 50, e))) \<rparr>, e))"
    "Address_String demo_main = (\<lambda>_. ''0x'')" "NewMarshalizer demo_main = (\<lambda>_. None)" "NewNetworkMessenger demo_main = (\<lambda>_ e. Some (Inr town_messenger, e))"
    "NewStatusHandlersFactory demo_main = None" "Create_appStatusHandler demo_main = (\<lambda>e. Some (None, e))"
    "elcfg_NetworkAddress (cfg_Elrond town_config) \<noteq> []" "flag_RestApiInterface demo_flags = '':8080''" "EnablePprof demo_flags = False"
    by (simp_all add: demo_main_def town_config_def demo_flags_def getFlagsConfig_def CreateUnitStorer_def [abs_def])
  show ?thesis
    by (simp add: relayArgs_def if_no_err_def of_res_def of_err_def beside_def outside_def demo_loadConfigs NewMetricsHolder_def demo_addClientHandlers
        libs demo_mainConfig_sel NewErc20SafeContractsHolder_def buildNetMessenger_def NewEthereumChainWrapper_def wrappers_checkArgs_def
        main_args_def town_args_def main_webConfigs_def timeForBootstrap_def timeBeforeRepeatJoin_def Let_def)
qed

text \<open>The program is built, started and, when the signal comes at once, closed.\<close>

lemma demo_program:
  "\<exists>rel mh p' ws. NewEthElrondBridgeComponents town_libs main_args (client_handlers, (h, p\<lparr>rp_outside := (client_heap, w)\<rparr>))
       = Some (Inr rel, (mh, (NewSignatureHolder, p')))
     \<and> rp_outside p' = (client_heap, w)
     \<and> StartWebServer (\<lambda>xs. xs) demo_web main_webConfigs (Some (main_metricsHolder (\<lambda>xs. xs))) (client_refs, (mh, (NewSignatureHolder, p')))
       = Some (Inr ws, (client_refs, (mh, (NewSignatureHolder, p'))))
     \<and> (\<exists>t. components_Start town_libs rel (NewSignatureHolder, p') = Some (None, t))
     \<and> (\<forall>t. components_Close town_libs None rel t = Some (None, t)) \<and> (\<forall>t. webServer_Close demo_web ws t = Some (None, t))"
proof -
  have fresh: "map_of client_handlers ''EthereumToElrond'' = None" "map_of client_handlers ''ElrondToEthereum'' = None"
    by (simp_all add: EthClientStatusHandlerName_def ElrondClientStatusHandlerName_def)
  obtain rel mh p' where rel: "NewEthElrondBridgeComponents town_libs main_args (client_handlers, (h, p\<lparr>rp_outside := (client_heap, w)\<rparr>))
       = Some (Inr rel, (mh, (NewSignatureHolder, p')))" and out: "rp_outside p' = (client_heap, w)"
    and parts: "es_broadcaster (rel_ethereum rel) = town_broadcaster" "rel_messenger rel = town_messenger"
      "elrond_Close (rel_elrondClient rel) = (\<lambda>s. Some (None, s))"
    using town_relayer [OF fresh, of _ _ _ h "p\<lparr>rp_outside := (client_heap, w)\<rparr>"] unfolding main_args_def by fastforce
  let ?s = "(client_refs, (mh, (NewSignatureHolder, p')))"
  obtain ws where ws: "StartWebServer (\<lambda>xs. xs) demo_web main_webConfigs (Some (main_metricsHolder (\<lambda>xs. xs))) ?s = Some (Inr ws, ?s)"
    using demo_web_starts [of main_webConfigs "main_metricsHolder (\<lambda>xs. xs)" ?s] by (elim exE)
  have "flags_RestApiInterface main_webConfigs \<noteq> WebServerOffString" by (simp add: main_webConfigs_def WebServerOffString_def)
  with demo_web_closes [OF ws] town_starts [OF rel parts(1,2)] town_closes [OF rel parts(3)] rel ws out show ?thesis by blast
qed

abbreviation blank_parts :: "(bytes, handlerHeap \<times> unit) relayerParts" where
  "blank_parts \<equiv> snd (town_memory ([], ()))"

abbreviation demo_parts :: "(bytes, handlerHeap \<times> unit) relayerParts" where
  "demo_parts \<equiv> blank_parts\<lparr>rp_outside := ([], ())\<rparr>"

lemma demo_flags_on: "flag_RestApiInterface demo_flags \<noteq> WebServerOffString"
  by (simp add: demo_flags_def getFlagsConfig_def WebServerOffString_def)

lemma demo_base: "gin_BasePath demo_web ''/node'' = ''/node''"
  by (simp add: demo_web_def)

lemma demo_rest:
  "configs_ApiRoutesConfig main_webConfigs = main_routes" "flag_RestApiInterface demo_flags = '':8080''"
  by (simp_all add: main_webConfigs_def demo_flags_def getFlagsConfig_def)

theorem program_lists_its_handlers_witness:
  "\<exists>(ng :: (bytes, unit) programState nodeGroup) (ws :: (bytes, unit) programState webServer) calls s names.
     ws_httpServer ws = Some \<lparr> hs_server = http_Server demo_web '':8080'' calls \<rparr>
     \<and> routed calls ''GET'' ''/node/status/list'' = Some StatusListMetrics \<and> routed calls ''GET'' ''/node/status'' = Some StatusMetrics
     \<and> serve StatusListMetrics [] (ng, s) = Some (\<lparr> resp_status = 200, resp_Data = Some [(availableMetrics, Names names)],
          resp_Error = [], resp_Code = ReturnCodeSuccess \<rparr>, (ng, s))
     \<and> set names = {''eth-client'', ''elrond-client'', ''EthereumToElrond'', ''ElrondToEthereum''}"
proof -
  obtain rel mh p' ws where built: "NewEthElrondBridgeComponents town_libs main_args (client_handlers, (NewSignatureHolder, blank_parts\<lparr>rp_outside := (client_heap, ())\<rparr>))
       = Some (Inr rel, (mh, (NewSignatureHolder, p')))"
    and web: "StartWebServer (\<lambda>xs. xs) demo_web main_webConfigs (Some (main_metricsHolder (\<lambda>xs. xs))) (client_refs, (mh, (NewSignatureHolder, p')))
       = Some (Inr ws, (client_refs, (mh, (NewSignatureHolder, p'))))"
    using demo_program [where h = NewSignatureHolder and p = blank_parts and w = "()"] by blast
  have chain: "ethcfg_Chain (cfg_Eth (Configs main_args)) = Ethereum" by (simp add: main_args_def town_args_sel)
  have names: "{EthClientStatusHandlerName, ElrondClientStatusHandlerName, EvmCompatibleChainToElrondName Ethereum, ElrondToEvmCompatibleChainName Ethereum}
      = {''eth-client'', ''elrond-client'', ''EthereumToElrond'', ''ElrondToEthereum''}"
    by (simp add: EthClientStatusHandlerName_def ElrondClientStatusHandlerName_def EvmCompatibleChainToElrondName_def
        ElrondToEvmCompatibleChainName_def Ethereum_def)
  from program_lists_its_handlers [OF demo_relayArgs built web demo_flags_on range_order_id range_order_id demo_base,
      of "[]" "(NewSignatureHolder, p')", unfolded chain names demo_rest]
  show ?thesis unfolding if_P [OF main_routes_open(1)] if_P [OF main_routes_open(2)] by (elim exE conjE) (intro exI conjI)
qed

theorem client_metrics_are_visible_witness:
  "\<exists>(ng :: (bytes, unit) programState nodeGroup) s resp new.
     serve StatusMetrics [(clientQueryParam, [''eth-client''])] (ng, s) = Some (resp, (ng, s)) \<and> resp_status resp = 200
     \<and> resp_Data resp = Some (map (\<lambda>(key, val). (key, MetricValue val)) (statusHandler_GetAllMetrics new))
     \<and> map_of (intMetrics new) MetricNumEthClientRequests = Some 1"
proof -
  let ?p = "blank_parts\<lparr>rp_outside := (client_heap, ())\<rparr>"
  obtain rel mh p' ws where built: "NewEthElrondBridgeComponents town_libs main_args (client_handlers, (NewSignatureHolder, ?p))
       = Some (Inr rel, (mh, (NewSignatureHolder, p')))" and out: "rp_outside p' = (client_heap, ())"
    and web: "StartWebServer (\<lambda>xs. xs) demo_web main_webConfigs (Some (main_metricsHolder (\<lambda>xs. xs))) (client_refs, (mh, (NewSignatureHolder, p')))
       = Some (Inr ws, (client_refs, (mh, (NewSignatureHolder, p'))))"
    using demo_program [where h = NewSignatureHolder and p = blank_parts and w = "()"] by blast
  have "\<exists>e'. AddIntMetric (wrapper_StatusHandler (the (ClientWrapper main_args))) MetricNumEthClientRequests 1 (rp_outside p') = Some ((), e')"
    by (simp add: out main_args_def town_args_sel handler_object_def at_handler_def statusHandler_AddIntMetric_def persistChanges_def convertToBuff_def town_storer_def
        split: sum.split)
  then obtain e' where add: "AddIntMetric (wrapper_StatusHandler (the (ClientWrapper main_args))) MetricNumEthClientRequests 1 (rp_outside p') = Some ((), e')"
    by blast
  have is_open: "is_open (configs_ApiRoutesConfig main_webConfigs) ''node'' statusPath"
    unfolding demo_rest by (rule main_routes_open)
  from client_metrics_are_visible [OF demo_relayArgs [where hexToAddress = "\<lambda>_. []"] built web demo_flags_on range_order_id range_order_id demo_base
      is_open insertI1 add, of NewSignatureHolder] out
  show ?thesis by (auto simp: EthClientStatusHandlerName_def int_add_def simp del: serve.simps) blast
qed

theorem clean_exit_closes_components_witness:
  "\<exists>s' (ws :: (bytes, unit) programState webServer) h u.
     startRelay (\<lambda>xs. xs) (\<lambda>xs. xs) demo_main town_libs demo_web (\<lambda>_ _ s. Some (None, s)) demo_flags ([], ([], (NewSignatureHolder, demo_parts))) = Some (None, s')
     \<and> ws_httpServer ws = Some h \<and> httpServer_Close h u = Some (None, s')"
proof -
  obtain rel mh p' ws t where built: "NewEthElrondBridgeComponents town_libs main_args (client_handlers, (NewSignatureHolder, blank_parts\<lparr>rp_outside := (client_heap, ())\<rparr>))
       = Some (Inr rel, (mh, (NewSignatureHolder, p')))"
    and web: "StartWebServer (\<lambda>xs. xs) demo_web main_webConfigs (Some (main_metricsHolder (\<lambda>xs. xs))) (client_refs, (mh, (NewSignatureHolder, p')))
       = Some (Inr ws, (client_refs, (mh, (NewSignatureHolder, p'))))" "components_Start town_libs rel (NewSignatureHolder, p') = Some (None, t)"
    and close: "\<And>t. components_Close town_libs None rel t = Some (None, t)" "\<And>t. webServer_Close demo_web ws t = Some (None, t)"
    using demo_program [where h = NewSignatureHolder and p = blank_parts and w = "()"] by blast
  have run: "startRelay (\<lambda>xs. xs) (\<lambda>xs. xs) demo_main town_libs demo_web (\<lambda>_ _ s. Some (None, s)) demo_flags ([], ([], (NewSignatureHolder, demo_parts)))
      = Some (None, (client_refs, (mh, t)))"
    unfolding startRelay_def if_no_err_def of_res_def of_err_def beside_def
    by (simp only: demo_relayArgs bind.bind_lunit prod.case sum.case built web close option.case Let_def)
  from run clean_exit_closes_components [OF run, unfolded if_not_P [OF demo_flags_on]] show ?thesis by blast
qed

end
