(* ===== verification/Price_Feeder.thy ===== *)
theory Price_Feeder
  imports Relay_Main
begin

section \<open>The price feeder (cmd/priceFeeder/main.go)\<close>

text \<open>
  A second program of the repository: it asks exchanges for prices and writes the changed ones to a contract on Elrond. Fetchers,
  aggregator, notifee, notifier and polling handler are objects of the SDK (type \<open>'o\<close>); the program reads its
  configuration, builds them in order, starts the polling handler and closes it on a signal. \<open>'f\<close> stands for
  \<^verbatim>\<open>float64\<close>, which is only handed on. Log lines are not modelled.
\<close>

subsection \<open>Configuration (config/config.go)\<close>

record GeneralNotifierConfig =
  gnc_NetworkAddress :: string
  gnc_PrivateKeyFile :: string
  gnc_IntervalToResendTxsInSeconds :: uint64
  gnc_ProxyCacherExpirationSeconds :: uint64
  AggregatorContractAddress :: string
  gnc_BaseGasLimit :: uint64
  gnc_GasLimitForEach :: uint64
  MinResultsNum :: int
  PollIntervalInSeconds :: uint64
  AutoSendIntervalInSeconds :: uint64
  gnc_ProxyRestAPIEntityType :: string
  gnc_ProxyMaxNoncesDelta :: int
  gnc_ProxyFinalityCheck :: bool

record 'f PricePair =
  pair_Base :: string
  pair_Quote :: string
  pair_PercentDifferenceToNotify :: "32 word"
  pair_TrimPrecision :: 'f
  pair_DenominationFactor :: uint64

record MaiarTokensPair =
  mex_Base :: string
  mex_Quote :: string

record 'f PriceNotifierConfig =
  pnc_GeneralConfig :: GeneralNotifierConfig
  pnc_Pairs :: "'f PricePair list"
  MexTokenIDsMappings :: "(string, MaiarTokensPair) gomap"

subsection \<open>What the program calls of the SDK\<close>

record 'f ArgsPair =
  ap_Base :: string
  ap_Quote :: string
  ap_PercentDifferenceToNotify :: "32 word"
  ap_TrimPrecision :: 'f
  ap_DenominationFactor :: uint64

record 'o ArgsPriceAggregator =
  apa_PriceFetchers :: "'o list"
  apa_MinResultsNum :: int

record 'o ArgsElrondNotifee =
  aen_Proxy :: 'o
  aen_TxBuilder :: 'o
  aen_TxNonceHandler :: 'o
  aen_ContractAddress :: 'o
  aen_PrivateKey :: 'o
  aen_BaseGasLimit :: uint64
  aen_GasLimitForEach :: uint64

record ('o, 'f) ArgsPriceNotifier =
  apn_Pairs :: "'f ArgsPair list"
  apn_Fetcher :: 'o
  apn_Notifee :: 'o
  apn_AutoSendInterval :: int

record 'o ArgsPollingHandler =
  aph_Name :: string
  aph_PollingInterval :: int
  aph_PollingWhenError :: int
  aph_Executor :: 'o

record ('e, 'o, 'f) priceFeederLibs =
  pf_LoadTomlFile :: "string \<Rightarrow> ('e, 'f PriceNotifierConfig res) go"
  pf_NewElrondProxy :: "ArgsElrondProxy \<Rightarrow> ('e, 'o res) go"
  ImplementedFetchers :: "string list"
  NewPriceFetcher :: "string \<Rightarrow> (string, MaiarTokensPair) gomap \<Rightarrow> 'o res"
  NewPriceAggregator :: "'o ArgsPriceAggregator \<Rightarrow> 'o res"
  NewTxBuilder :: "'o res"
  pf_NewNonceTransactionHandler :: "'o \<Rightarrow> int \<Rightarrow> bool \<Rightarrow> ('e, 'o res) go"
  pf_NewAddressFromBech32String :: "string \<Rightarrow> 'o res"
  pf_LoadPrivateKeyFromPemFile :: "string \<Rightarrow> ('e, bytes res) go"
  pf_PrivateKeyFromByteArray :: "bytes \<Rightarrow> 'o res"
  NewElrondNotifee :: "'o ArgsElrondNotifee \<Rightarrow> 'o res"
  NewPriceNotifier :: "('o, 'f) ArgsPriceNotifier \<Rightarrow> 'o res"
  NewPollingHandler :: "'o ArgsPollingHandler \<Rightarrow> 'o res"
  pf_StartProcessingLoop :: "'o \<Rightarrow> ('e, gerror option) go"
  pf_wait_for_signal :: "('e, unit) go"
  pf_Close :: "'o \<Rightarrow> ('e, gerror option) go"

subsection \<open>The program\<close>

definition configPath :: string where
  "configPath = ''config/config.toml''"

definition errEmptyFeederAddress :: gerror where
  "errEmptyFeederAddress = ErrNew '''' ''empty NetworkAddress in config file''"

definition loadConfig :: "('e, 'o, 'f) priceFeederLibs \<Rightarrow> string \<Rightarrow> ('e, 'f PriceNotifierConfig res) go" where
  "loadConfig F filepath = if_no_err (pf_LoadTomlFile F filepath) (\<lambda>cfg. of_res (Inr cfg))"

fun priceFetchers_loop ::
  "('e, 'o, 'f) priceFeederLibs \<Rightarrow> (string, MaiarTokensPair) gomap \<Rightarrow> string list \<Rightarrow> 'o list \<Rightarrow> 'o list res" where
  "priceFetchers_loop F mappings [] priceFetchers = Inr priceFetchers"
| "priceFetchers_loop F mappings (exchangeName # exchanges) priceFetchers =
     (case NewPriceFetcher F exchangeName mappings of
        Inl err \<Rightarrow> Inl err
      | Inr priceFetcher \<Rightarrow> priceFetchers_loop F mappings exchanges (priceFetchers @ [priceFetcher]))"

definition createPriceFetchers ::
  "('e, 'o, 'f) priceFeederLibs \<Rightarrow> (string, MaiarTokensPair) gomap \<Rightarrow> 'o list res" where
  "createPriceFetchers F tokenIdsMappings = priceFetchers_loop F tokenIdsMappings (ImplementedFetchers F) []"

definition argsPair_of :: "'f PricePair \<Rightarrow> 'f ArgsPair" where
  "argsPair_of pair =
     \<lparr> ap_Base = pair_Base pair, ap_Quote = pair_Quote pair,
       ap_PercentDifferenceToNotify = pair_PercentDifferenceToNotify pair,
       ap_TrimPrecision = pair_TrimPrecision pair, ap_DenominationFactor = pair_DenominationFactor pair \<rparr>"

definition feederProxyArgs :: "GeneralNotifierConfig \<Rightarrow> ArgsElrondProxy" where
  "feederProxyArgs cfg =
     \<lparr> ProxyURL = gnc_NetworkAddress cfg, SameScState = False, ShouldBeSynced = False,
       FinalityCheck = gnc_ProxyFinalityCheck cfg, AllowedDeltaToFinal = gnc_ProxyMaxNoncesDelta cfg,
       CacheExpirationTime = times 1000000000 (gnc_ProxyCacherExpirationSeconds cfg),
       EntityType = gnc_ProxyRestAPIEntityType cfg \<rparr>"

definition argsPriceNotifier :: "'f PriceNotifierConfig \<Rightarrow> 'o \<Rightarrow> 'o \<Rightarrow> ('o, 'f) ArgsPriceNotifier" where
  "argsPriceNotifier cfg priceAggregator elrondNotifee =
     (let args = \<lparr> apn_Pairs = [], apn_Fetcher = priceAggregator, apn_Notifee = elrondNotifee,
                   apn_AutoSendInterval = times 1000000000 (AutoSendIntervalInSeconds (pnc_GeneralConfig cfg)) \<rparr>
      in fold (\<lambda>pair args. args\<lparr>apn_Pairs := apn_Pairs args @ [argsPair_of pair]\<rparr>) (pnc_Pairs cfg) args)"

definition argsFeederPolling :: "GeneralNotifierConfig \<Rightarrow> 'o \<Rightarrow> 'o ArgsPollingHandler" where
  "argsFeederPolling cfg priceNotifier =
     \<lparr> aph_Name = ''price notifier polling handler'',
       aph_PollingInterval = times 1000000000 (PollIntervalInSeconds cfg),
       aph_PollingWhenError = times 1000000000 (PollIntervalInSeconds cfg),
       aph_Executor = priceNotifier \<rparr>"

definition runApp :: "('e, 'o, 'f) priceFeederLibs \<Rightarrow> ('e, unit res) go" where
  "runApp F =
     if_no_err (loadConfig F configPath) (\<lambda>cfg.
     let general = pnc_GeneralConfig cfg in
     if_no_err (of_res (if length (gnc_NetworkAddress general) = 0 then Inl errEmptyFeederAddress else Inr ())) (\<lambda>_.
     if_no_err (pf_NewElrondProxy F (feederProxyArgs general)) (\<lambda>proxy.
     if_no_err (of_res (createPriceFetchers F (MexTokenIDsMappings cfg))) (\<lambda>priceFetchers.
     if_no_err (of_res (NewPriceAggregator F
       \<lparr> apa_PriceFetchers = priceFetchers, apa_MinResultsNum = MinResultsNum general \<rparr>)) (\<lambda>priceAggregator.
     if_no_err (of_res (NewTxBuilder F)) (\<lambda>txBuilder.
     if_no_err (pf_NewNonceTransactionHandler F proxy
       (times 1000000000 (gnc_IntervalToResendTxsInSeconds general)) True) (\<lambda>txNonceHandler.
     if_no_err (of_res (pf_NewAddressFromBech32String F (AggregatorContractAddress general))) (\<lambda>aggregatorAddress.
     if_no_err (pf_LoadPrivateKeyFromPemFile F (gnc_PrivateKeyFile general)) (\<lambda>privateKeyBytes.
     if_no_err (of_res (pf_PrivateKeyFromByteArray F privateKeyBytes)) (\<lambda>privateKey.
     if_no_err (of_res (NewElrondNotifee F
       \<lparr> aen_Proxy = proxy, aen_TxBuilder = txBuilder, aen_TxNonceHandler = txNonceHandler,
         aen_ContractAddress = aggregatorAddress, aen_PrivateKey = privateKey,
         aen_BaseGasLimit = gnc_BaseGasLimit general, aen_GasLimitForEach = gnc_GasLimitForEach general \<rparr>)) (\<lambda>elrondNotifee.
     if_no_err (of_res (NewPriceNotifier F (argsPriceNotifier cfg priceAggregator elrondNotifee))) (\<lambda>priceNotifier.
     if_no_err (of_res (NewPollingHandler F (argsFeederPolling general priceNotifier))) (\<lambda>pollingHandler.
     if_no_err (of_err (pf_StartProcessingLoop F pollingHandler)) (\<lambda>_. (\<lambda>e. do {
       (_, e) \<leftarrow> pf_wait_for_signal F e;
       of_err (pf_Close F pollingHandler) e })))))))))))))))"

subsection \<open>What it builds\<close>

lemma priceFetchers_loop_iff:
  "priceFetchers_loop F mappings exchanges acc = Inr fs
     \<longleftrightarrow> (\<exists>new. fs = acc @ new \<and> list_all2 (\<lambda>name f. NewPriceFetcher F name mappings = Inr f) exchanges new)"
proof (induction F mappings exchanges acc rule: priceFetchers_loop.induct)
  case (2 F mappings exchangeName exchanges acc)
  then show ?case by (auto simp: list_all2_Cons1 split: sum.split)
qed auto

lemma createPriceFetchers_iff:
  "createPriceFetchers F mappings = Inr fs
     \<longleftrightarrow> list_all2 (\<lambda>name f. NewPriceFetcher F name mappings = Inr f) (ImplementedFetchers F) fs"
  by (simp add: createPriceFetchers_def priceFetchers_loop_iff)

lemma apn_Pairs_fold:
  "fold (\<lambda>pair args. args\<lparr>apn_Pairs := apn_Pairs args @ [argsPair_of pair]\<rparr>) pairs args
     = args\<lparr>apn_Pairs := apn_Pairs args @ map argsPair_of pairs\<rparr>"
  by (induction pairs arbitrary: args) simp_all

lemma argsPriceNotifier_pairs:
  "argsPriceNotifier cfg a n =
     \<lparr> apn_Pairs = map argsPair_of (pnc_Pairs cfg), apn_Fetcher = a, apn_Notifee = n,
       apn_AutoSendInterval = times 1000000000 (AutoSendIntervalInSeconds (pnc_GeneralConfig cfg)) \<rparr>"
  by (simp add: argsPriceNotifier_def apn_Pairs_fold)

lemma of_err_run: "of_err m s = Some (Inr y, s') \<longleftrightarrow> m s = Some (None, s')"
  by (auto simp: of_err_def bind_eq_Some_conv split: option.split_asm)

lemma of_res_run: "of_res r s = Some (Inr x, s') \<longleftrightarrow> r = Inr x \<and> s' = s"
  by (auto simp: of_res_def)

text \<open>
  A price feeder that ends without an error polled the configured pairs, in their order, from one fetcher for every exchange the library
  implements, at the configured interval, and its polling handler was closed after the signal.
\<close>

lemma price_feeder_ran_as_configured:
  assumes "runApp F e = Some (Inr (), e')"
  shows "\<exists>cfg fetchers aggregator notifee notifier handler e1 e2 e3.
     pf_LoadTomlFile F configPath e = Some (Inr cfg, e1) \<and> gnc_NetworkAddress (pnc_GeneralConfig cfg) \<noteq> []
     \<and> list_all2 (\<lambda>name f. NewPriceFetcher F name (MexTokenIDsMappings cfg) = Inr f) (ImplementedFetchers F) fetchers
     \<and> NewPriceAggregator F \<lparr> apa_PriceFetchers = fetchers, apa_MinResultsNum = MinResultsNum (pnc_GeneralConfig cfg) \<rparr>
         = Inr aggregator
     \<and> NewPriceNotifier F \<lparr> apn_Pairs = map argsPair_of (pnc_Pairs cfg), apn_Fetcher = aggregator, apn_Notifee = notifee,
         apn_AutoSendInterval = times 1000000000 (AutoSendIntervalInSeconds (pnc_GeneralConfig cfg)) \<rparr> = Inr notifier
     \<and> NewPollingHandler F (argsFeederPolling (pnc_GeneralConfig cfg) notifier) = Inr handler
     \<and> pf_StartProcessingLoop F handler e2 = Some (None, e3)
     \<and> (\<exists>e4. pf_wait_for_signal F e3 = Some ((), e4) \<and> pf_Close F handler e4 = Some (None, e'))"
  using assms unfolding runApp_def Let_def loadConfig_def argsPriceNotifier_pairs
  by (elim if_no_errE) (auto simp: of_res_run of_err_run bind_eq_Some_conv createPriceFetchers_iff simp del: of_res_iff split: if_split_asm, blast)

text \<open>Without an address of the network nothing is built or started.\<close>

lemma price_feeder_needs_address:
  assumes "pf_LoadTomlFile F configPath e = Some (Inr cfg, e')" and "gnc_NetworkAddress (pnc_GeneralConfig cfg) = []"
  shows "runApp F e = Some (Inl errEmptyFeederAddress, e')"
  using assms by (simp add: runApp_def loadConfig_def if_no_err_def of_res_def Let_def)

end
