(* ===== verification/Elrond_Chain_Mock.thy ===== *)
theory Elrond_Chain_Mock
  imports Elrond_Client_Correct
begin

section \<open>The simulated Elrond chain (integrationTests/mock)\<close>

text \<open>
  The chain the integration tests run the relayers on: the state of the multisig contract
  (\<^verbatim>\<open>elrondContractStateMock.go\<close>), the registry of tokens (\<^verbatim>\<open>tokensRegistryMock.go\<close>), the accounts
  (\<^verbatim>\<open>elrondAccountsMock.go\<close>), the conversions (\<^verbatim>\<open>converters.go\<close>) and the node around them
  (\<^verbatim>\<open>elrondChainMock.go\<close>). It is the only place of the repository that says what the contract does with the
  transactions and queries of the client.

  The records extend each other as the structs embed each other. A panic is \<open>None\<close>. The callbacks a
  test installs are fixed during a run (record \<open>mockHandlers\<close>); they act on a state \<open>'e\<close> of the test and not on
  the chain, whose lock is held while they run. Hashing, addresses and the order in which \<^verbatim>\<open>range\<close> visits
  the maps of proposals are parameters (record \<open>mockLib\<close>). The pointers to big integers are never nil.
\<close>

subsection \<open>Data\<close>

record ElrondProposedStatus =
  ps_BatchId :: int
  ps_Statuses :: bytes

record MockTransfer =
  mt_From :: bytes
  mt_To :: bytes
  mt_Token :: string
  mt_Amount :: int
  mt_Nonce :: int

record ElrondProposedTransfer =
  pt_BatchId :: int
  pt_Transfers :: "MockTransfer list"

record ('a, 'addr) ElrondDeposit =
  ed_From :: 'a
  ed_To :: 'addr
  ed_Ticker :: string
  ed_Amount :: int
  ed_DepositNonce :: uint64

record ('a, 'addr) ElrondPendingBatch =
  pb_Nonce :: int
  pb_ElrondDeposits :: "('a, 'addr) ElrondDeposit list"

record 'addr tokensRegistryMock =
  ethToElrond :: "('addr, string) gomap"
  elrondToEth :: "(string, 'addr) gomap"

record ('a, 'addr) elrondContractStateMock = "'addr tokensRegistryMock" +
  proposedStatus :: "(string, ElrondProposedStatus) gomap"
  proposedTransfers :: "(string, ElrondProposedTransfer) gomap"
  signedActionIDs :: "(string, (string, unit) gomap) gomap"
  mock_relayers :: "bytes list"
  performedAction :: "int option"
  pendingBatch :: "('a, 'addr) ElrondPendingBatch option"
  mock_quorum :: int
  lastExecutedEthBatchId :: uint64
  lastExecutedEthTxId :: uint64

record Account =
  acc_Nonce :: uint64

record ('a, 'addr) ElrondChainMock = "('a, 'addr) elrondContractStateMock" +
  sentTransactions :: "(string, Transaction) gomap"
  accounts :: "(string, Account) gomap"

record ('a, 'addr) mockLib =
  CalculateHash_status :: "ElrondProposedStatus \<Rightarrow> bytes res"
  CalculateHash_transfer :: "ElrondProposedTransfer \<Rightarrow> bytes res"
  CalculateHash_tx :: "Transaction \<Rightarrow> bytes res"
  NewAddressFromBech32String :: "string \<Rightarrow> 'a res"
  NewAddressFromBytes :: "bytes \<Rightarrow> 'a"
  AddressBytes :: "'a \<Rightarrow> bytes"
  mock_AddressAsBech32String :: "'a \<Rightarrow> string"
  HexToAddress :: "string \<Rightarrow> 'addr"
  mock_Address_Bytes :: "'addr \<Rightarrow> bytes"
  range_hashes :: "string list \<Rightarrow> string list"

record 'e mockHandlers =
  GetStatusesAfterExecutionHandler :: "('e, bytes) go option"
  ProcessFinishedHandler :: "('e, unit) go option"
  ProposeMultiTransferEsdtBatchCalled :: "('e, unit) go option"

definition call_if_set :: "('e, unit) go option \<Rightarrow> ('e, unit) go" where
  \<comment> \<open>\<^verbatim>\<open>if handler != nil { handler() }\<close>\<close>
  "call_if_set handler = (\<lambda>e. case handler of None \<Rightarrow> Some ((), e) | Some f \<Rightarrow> f e)"

subsection \<open>Conversions (converters.go)\<close>

definition BoolToByteSlice :: "bool \<Rightarrow> bytes" where
  "BoolToByteSlice val = (if val then [1] else [0])"

definition big_Int_Bytes :: "int \<Rightarrow> bytes" where
  \<comment> \<open>\<^verbatim>\<open>(*big.Int).Bytes\<close>, the magnitude in as few bytes as possible\<close>
  "big_Int_Bytes x = big_Bytes (nat \<bar>x\<bar>)"

definition Uint64ByteSlice :: "uint64 \<Rightarrow> bytes" where
  "Uint64ByteSlice val = big_Int_Bytes (int64 val)"

definition Uint64BytesFromHash :: "string \<Rightarrow> bytes option" where
  "Uint64BytesFromHash hash = (if length hash < 8 then None else Some (bytes_of_string (take 8 hash)))"

definition HashToActionID :: "string \<Rightarrow> int option" where
  "HashToActionID hash = do {
     bytes \<leftarrow> Uint64BytesFromHash hash;
     result \<leftarrow> ParseUint_16_64 (hex_EncodeToString bytes);
     let val = int64 result;
     Some (if val < 0 then val * (- 1) else val) }"

definition getActionIDFromString :: "string \<Rightarrow> int option" where
  "getActionIDFromString str = do {
     buff \<leftarrow> hex_DecodeString str;
     Some (SetBytes buff) }"

definition createOkVmResponse :: "bytes list \<Rightarrow> VMOutputApi" where
  "createOkVmResponse args = \<lparr> ReturnData = args, ReturnCode = ''ok'', ReturnMessage = '''' \<rparr>"

definition createNokVmResponse :: "gerror \<Rightarrow> VMOutputApi" where
  "createNokVmResponse err = \<lparr> ReturnData = [], ReturnCode = ''nok'', ReturnMessage = error_text err \<rparr>"

subsection \<open>Tokens and accounts\<close>

definition addTokensPair ::
  "'addr \<Rightarrow> string \<Rightarrow> ('addr, 'z) tokensRegistryMock_scheme \<Rightarrow> ('addr, 'z) tokensRegistryMock_scheme" where
  "addTokensPair erc20Address ticker mock =
     (let mock = mock\<lparr>ethToElrond := AList.update erc20Address ticker (ethToElrond mock)\<rparr>;
          hexedTicker = hex_EncodeToString (bytes_of_string ticker)
      in mock\<lparr>elrondToEth := AList.update hexedTicker erc20Address (elrondToEth mock)\<rparr>)"

definition clearTokens :: "('addr, 'z) tokensRegistryMock_scheme \<Rightarrow> ('addr, 'z) tokensRegistryMock_scheme" where
  "clearTokens mock = mock\<lparr>ethToElrond := [], elrondToEth := []\<rparr>"

definition getTicker :: "('addr, 'z) tokensRegistryMock_scheme \<Rightarrow> 'addr \<Rightarrow> string option" where
  "getTicker mock erc20Address = map_of (ethToElrond mock) erc20Address"

definition getErc20Address :: "('addr, 'z) tokensRegistryMock_scheme \<Rightarrow> string \<Rightarrow> 'addr option" where
  "getErc20Address mock ticker = map_of (elrondToEth mock) ticker"

definition getOrCreate :: "string \<Rightarrow> (string, Account) gomap \<Rightarrow> Account \<times> (string, Account) gomap" where
  "getOrCreate addrAsString accs =
     (case map_of accs addrAsString of
        Some acc \<Rightarrow> (acc, accs)
      | None \<Rightarrow> (let acc = \<lparr> acc_Nonce = 0 \<rparr> in (acc, AList.update addrAsString acc accs)))"

definition updateNonce :: "string \<Rightarrow> uint64 \<Rightarrow> (string, Account) gomap \<Rightarrow> (string, Account) gomap" where
  "updateNonce addrAsString nonce accs =
     (let (acc, accs) = getOrCreate addrAsString accs
      in AList.update addrAsString (acc\<lparr>acc_Nonce := nonce\<rparr>) accs)"

subsection \<open>The contract: transactions\<close>

definition cleanState ::
  "('a, 'addr, 'z) elrondContractStateMock_scheme \<Rightarrow> ('a, 'addr, 'z) elrondContractStateMock_scheme" where
  "cleanState mock =
     mock\<lparr>proposedStatus := [], proposedTransfers := [], signedActionIDs := [],
          performedAction := None, pendingBatch := None\<rparr>"

fun status_args_loop :: "string list \<Rightarrow> bytes \<Rightarrow> bytes option" where
  \<comment> \<open>the loop over \<^verbatim>\<open>dataSplit[2:]\<close>; \<^verbatim>\<open>stat[0]\<close> panics on an empty slice\<close>
  "status_args_loop [] statuses = Some statuses"
| "status_args_loop (arg # rest) statuses = do {
     stat \<leftarrow> hex_DecodeString arg;
     case stat of
       [] \<Rightarrow> None
     | b # _ \<Rightarrow> status_args_loop rest (statuses @ [b]) }"

definition createProposedStatus ::
  "('a, 'addr) mockLib \<Rightarrow> ('a, 'addr, 'z) elrondContractStateMock_scheme \<Rightarrow> string list
   \<Rightarrow> (ElrondProposedStatus \<times> string) option" where
  "createProposedStatus L mock dataSplit =
     (case dataSplit of
        _ # batchId # rest \<Rightarrow> do {
          buff \<leftarrow> hex_DecodeString batchId;
          statuses \<leftarrow> status_args_loop rest [];
          let status = \<lparr> ps_BatchId = SetBytes buff, ps_Statuses = statuses \<rparr>;
          pending \<leftarrow> pendingBatch mock;
          if length (ps_Statuses status) \<noteq> length (pb_ElrondDeposits pending) then None
          else (case CalculateHash_status L status of
                  Inl _ \<Rightarrow> None
                | Inr hash \<Rightarrow> Some (status, string_of_bytes hash)) }
      | _ \<Rightarrow> None)"

fun transfer_args_loop :: "string list \<Rightarrow> MockTransfer list \<Rightarrow> MockTransfer list option" where
  \<comment> \<open>the loop over \<^verbatim>\<open>dataSplit[2:]\<close>, five arguments at a time; an index past the end panics\<close>
  "transfer_args_loop [] transfers = Some transfers"
| "transfer_args_loop (from # to # token # amount # nonce # rest) transfers = do {
     fromBytes \<leftarrow> hex_DecodeString from;
     toBytes \<leftarrow> hex_DecodeString to;
     amountBytes \<leftarrow> hex_DecodeString amount;
     nonceBytes \<leftarrow> hex_DecodeString nonce;
     transfer_args_loop rest
       (transfers @ [\<lparr> mt_From = fromBytes, mt_To = toBytes, mt_Token = token,
                       mt_Amount = SetBytes amountBytes, mt_Nonce = SetBytes nonceBytes \<rparr>]) }"
| "transfer_args_loop _ transfers = None"

definition createProposedTransfer ::
  "('a, 'addr) mockLib \<Rightarrow> string list \<Rightarrow> (ElrondProposedTransfer \<times> string) option" where
  \<comment> \<open>the action identifier is computed for the log, and may panic\<close>
  "createProposedTransfer L dataSplit =
     (case dataSplit of
        _ # batchId # rest \<Rightarrow> do {
          buff \<leftarrow> hex_DecodeString batchId;
          transfers \<leftarrow> transfer_args_loop rest [];
          let transfer = \<lparr> pt_BatchId = SetBytes buff, pt_Transfers = transfers \<rparr>;
          case CalculateHash_transfer L transfer of
            Inl _ \<Rightarrow> None
          | Inr hash \<Rightarrow> do {
              actID \<leftarrow> HashToActionID (string_of_bytes hash);
              Some (transfer, string_of_bytes hash) } }
      | _ \<Rightarrow> None)"

definition proposeEsdtSafeSetCurrentTransactionBatchStatus ::
  "('a, 'addr) mockLib \<Rightarrow> string list \<Rightarrow> ('a, 'addr, 'z) elrondContractStateMock_scheme
   \<Rightarrow> ('a, 'addr, 'z) elrondContractStateMock_scheme option" where
  "proposeEsdtSafeSetCurrentTransactionBatchStatus L dataSplit mock = do {
     (status, hash) \<leftarrow> createProposedStatus L mock dataSplit;
     Some (mock\<lparr>proposedStatus := AList.update hash status (proposedStatus mock)\<rparr>) }"

definition proposeMultiTransferEsdtBatch ::
  "('a, 'addr) mockLib \<Rightarrow> 'e mockHandlers \<Rightarrow> string list
   \<Rightarrow> (('a, 'addr, 'z) elrondContractStateMock_scheme \<times> 'e, unit) go" where
  "proposeMultiTransferEsdtBatch L H dataSplit = (\<lambda>(mock, e). do {
     (transfer, hash) \<leftarrow> createProposedTransfer L dataSplit;
     let mock = mock\<lparr>proposedTransfers := AList.update hash transfer (proposedTransfers mock)\<rparr>;
     (_, e) \<leftarrow> call_if_set (ProposeMultiTransferEsdtBatchCalled H) e;
     Some ((), (mock, e)) })"

fun find_action :: "string list \<Rightarrow> int \<Rightarrow> bool option" where
  \<comment> \<open>one of the two loops of \<^verbatim>\<open>actionIDExists\<close>\<close>
  "find_action [] actID = Some False"
| "find_action (hash # hashes) actID = do {
     existingActionID \<leftarrow> HashToActionID hash;
     if existingActionID = actID then Some True else find_action hashes actID }"

definition actionIDExists ::
  "('a, 'addr) mockLib \<Rightarrow> ('a, 'addr, 'z) elrondContractStateMock_scheme \<Rightarrow> int \<Rightarrow> bool option" where
  "actionIDExists L mock actID = do {
     found \<leftarrow> find_action (range_hashes L (map fst (proposedTransfers mock))) actID;
     if found then Some True
     else find_action (range_hashes L (map fst (proposedStatus mock))) actID }"

definition mock_sign ::
  "('a, 'addr) mockLib \<Rightarrow> string list \<Rightarrow> Transaction \<Rightarrow> ('a, 'addr, 'z) elrondContractStateMock_scheme
   \<Rightarrow> ('a, 'addr, 'z) elrondContractStateMock_scheme option" where
  "mock_sign L dataSplit tx mock =
     (case dataSplit of
        _ # raw # _ \<Rightarrow> do {
          actID \<leftarrow> getActionIDFromString raw;
          exists \<leftarrow> actionIDExists L mock actID;
          if \<not> exists then None
          else
            (let m = (case map_of (signedActionIDs mock) (show_int actID) of None \<Rightarrow> [] | Some m \<Rightarrow> m)
             in Some (mock\<lparr>signedActionIDs :=
                    AList.update (show_int actID) (AList.update (tx_SndAddr tx) () m) (signedActionIDs mock)\<rparr>)) }
      | _ \<Rightarrow> None)"

definition mock_performAction ::
  "('a, 'addr) mockLib \<Rightarrow> string list \<Rightarrow> ('a, 'addr, 'z) elrondContractStateMock_scheme
   \<Rightarrow> ('a, 'addr, 'z) elrondContractStateMock_scheme option" where
  "mock_performAction L dataSplit mock =
     (case dataSplit of
        _ # raw # _ \<Rightarrow> do {
          actID \<leftarrow> getActionIDFromString raw;
          exists \<leftarrow> actionIDExists L mock actID;
          if \<not> exists then None
          else do {
            m \<leftarrow> map_of (signedActionIDs mock) (show_int actID);
            Some (if int (length m) \<ge> mock_quorum mock then mock\<lparr>performedAction := Some actID\<rparr> else mock) } }
      | _ \<Rightarrow> None)"

definition processTransaction ::
  "('a, 'addr) mockLib \<Rightarrow> 'e mockHandlers \<Rightarrow> Transaction
   \<Rightarrow> (('a, 'addr, 'z) elrondContractStateMock_scheme \<times> 'e, unit) go" where
  "processTransaction L H tx = (\<lambda>(mock, e).
     (let dataSplit = strings_Split (CHR ''@'') (string_of_bytes (tx_Data tx));
          funcName = hd dataSplit
      in if funcName = ''proposeEsdtSafeSetCurrentTransactionBatchStatus'' then do {
           mock \<leftarrow> proposeEsdtSafeSetCurrentTransactionBatchStatus L dataSplit mock;
           Some ((), (mock, e)) }
         else if funcName = ''proposeMultiTransferEsdtBatch''
         then proposeMultiTransferEsdtBatch L H dataSplit (mock, e)
         else if funcName = ''sign'' then do {
           mock \<leftarrow> mock_sign L dataSplit tx mock;
           Some ((), (mock, e)) }
         else if funcName = ''performAction'' then do {
           mock \<leftarrow> mock_performAction L dataSplit mock;
           (_, e) \<leftarrow> call_if_set (ProcessFinishedHandler H) e;
           Some ((), (mock, e)) }
         else None))"

subsection \<open>The contract: queries\<close>

definition vmRequestwasTransferActionProposed ::
  "('a, 'addr) mockLib \<Rightarrow> VmValueRequest \<Rightarrow> ('a, 'addr, 'z) elrondContractStateMock_scheme \<Rightarrow> VMOutputApi option" where
  "vmRequestwasTransferActionProposed L vmRequest mock = do {
     (_, hash) \<leftarrow> createProposedTransfer L (FuncName vmRequest # Args vmRequest);
     let found = (map_of (proposedTransfers mock) hash \<noteq> None);
     Some (createOkVmResponse [BoolToByteSlice found]) }"

definition vmRequestGetActionIdForTransferBatch ::
  "('a, 'addr) mockLib \<Rightarrow> VmValueRequest \<Rightarrow> ('a, 'addr, 'z) elrondContractStateMock_scheme \<Rightarrow> VMOutputApi option" where
  "vmRequestGetActionIdForTransferBatch L vmRequest mock = do {
     (_, hash) \<leftarrow> createProposedTransfer L (FuncName vmRequest # Args vmRequest);
     let found = (map_of (proposedTransfers mock) hash \<noteq> None);
     if \<not> found then Some (createOkVmResponse [big_Int_Bytes 0])
     else do {
       buff \<leftarrow> Uint64BytesFromHash hash;
       Some (createOkVmResponse [buff]) } }"

definition vmRequestWasSetCurrentTransactionBatchStatusActionProposed ::
  "('a, 'addr) mockLib \<Rightarrow> VmValueRequest \<Rightarrow> ('a, 'addr, 'z) elrondContractStateMock_scheme \<Rightarrow> VMOutputApi option" where
  "vmRequestWasSetCurrentTransactionBatchStatusActionProposed L vmRequest mock = do {
     (_, hash) \<leftarrow> createProposedStatus L mock (FuncName vmRequest # Args vmRequest);
     let found = (map_of (proposedStatus mock) hash \<noteq> None);
     Some (createOkVmResponse [BoolToByteSlice found]) }"

definition vmRequestGetActionIdForSetCurrentTransactionBatchStatus ::
  "('a, 'addr) mockLib \<Rightarrow> VmValueRequest \<Rightarrow> ('a, 'addr, 'z) elrondContractStateMock_scheme \<Rightarrow> VMOutputApi option" where
  "vmRequestGetActionIdForSetCurrentTransactionBatchStatus L vmRequest mock = do {
     (_, hash) \<leftarrow> createProposedStatus L mock (FuncName vmRequest # Args vmRequest);
     let found = (map_of (proposedStatus mock) hash \<noteq> None);
     if \<not> found
     then Some (createNokVmResponse (ErrNew '''' (''proposed status not found for hash ''
            @ hex_EncodeToString (bytes_of_string hash))))
     else do {
       buff \<leftarrow> Uint64BytesFromHash hash;
       Some (createOkVmResponse [buff]) } }"

definition vmRequestGetStatusesAfterExecution :: "'e mockHandlers \<Rightarrow> ('e, VMOutputApi) go" where
  \<comment> \<open>calling a handler that was not set panics\<close>
  "vmRequestGetStatusesAfterExecution H = (\<lambda>e. do {
     handler \<leftarrow> GetStatusesAfterExecutionHandler H;
     (statuses, e) \<leftarrow> handler e;
     let args = [BoolToByteSlice True];
     let args = fold (\<lambda>stat args. args @ [[stat]]) statuses args;
     Some (createOkVmResponse args, e) })"

definition vmRequestWasActionExecuted ::
  "VmValueRequest \<Rightarrow> ('a, 'addr, 'z) elrondContractStateMock_scheme \<Rightarrow> VMOutputApi option" where
  "vmRequestWasActionExecuted vmRequest mock =
     (case Args vmRequest of
        [] \<Rightarrow> None
      | arg # _ \<Rightarrow> do {
          actID \<leftarrow> getActionIDFromString arg;
          case performedAction mock of
            None \<Rightarrow> Some (createOkVmResponse [BoolToByteSlice False])
          | Some performed \<Rightarrow> Some (createOkVmResponse [BoolToByteSlice (actID = performed)]) })"

definition vmRequestQuorumReached ::
  "VmValueRequest \<Rightarrow> ('a, 'addr, 'z) elrondContractStateMock_scheme \<Rightarrow> VMOutputApi option" where
  "vmRequestQuorumReached vmRequest mock =
     (case Args vmRequest of
        [] \<Rightarrow> None
      | arg # _ \<Rightarrow> do {
          actID \<leftarrow> getActionIDFromString arg;
          case map_of (signedActionIDs mock) (show_int actID) of
            None \<Rightarrow> Some (createOkVmResponse [BoolToByteSlice False])
          | Some m \<Rightarrow> Some (createOkVmResponse [BoolToByteSlice (int (length m) \<ge> mock_quorum mock)]) })"

definition vmRequestGetTokenIdForErc20Address ::
  "('a, 'addr) mockLib \<Rightarrow> VmValueRequest \<Rightarrow> ('addr, 'z) tokensRegistryMock_scheme \<Rightarrow> VMOutputApi option" where
  "vmRequestGetTokenIdForErc20Address L vmRequest mock =
     (case Args vmRequest of
        [] \<Rightarrow> None
      | arg # _ \<Rightarrow> do {
          ticker \<leftarrow> getTicker mock (HexToAddress L arg);
          Some (createOkVmResponse [bytes_of_string ticker]) })"

definition vmRequestGetErc20AddressForTokenId ::
  "('a, 'addr) mockLib \<Rightarrow> VmValueRequest \<Rightarrow> ('addr, 'z) tokensRegistryMock_scheme \<Rightarrow> VMOutputApi option" where
  "vmRequestGetErc20AddressForTokenId L vmRequest mock =
     (case Args vmRequest of
        [] \<Rightarrow> None
      | address # _ \<Rightarrow> do {
          erc20 \<leftarrow> getErc20Address mock address;
          Some (createOkVmResponse [mock_Address_Bytes L erc20]) })"

definition vmRequestGetAllStakedRelayers ::
  "('a, 'addr, 'z) elrondContractStateMock_scheme \<Rightarrow> VMOutputApi" where
  "vmRequestGetAllStakedRelayers mock = createOkVmResponse (mock_relayers mock)"

definition vmRequestGetLastExecutedEthBatchId ::
  "('a, 'addr, 'z) elrondContractStateMock_scheme \<Rightarrow> VMOutputApi" where
  "vmRequestGetLastExecutedEthBatchId mock =
     createOkVmResponse [big_Int_Bytes (int64 (lastExecutedEthBatchId mock))]"

definition vmRequestGetLastExecutedEthTxId ::
  "('a, 'addr, 'z) elrondContractStateMock_scheme \<Rightarrow> VMOutputApi" where
  "vmRequestGetLastExecutedEthTxId mock =
     createOkVmResponse [big_Int_Bytes (int64 (lastExecutedEthTxId mock))]"

definition vmRequestGetCurrentPendingBatch ::
  "('a, 'addr) mockLib \<Rightarrow> ('a, 'addr, 'z) elrondContractStateMock_scheme \<Rightarrow> VMOutputApi" where
  "vmRequestGetCurrentPendingBatch L mock =
     (case pendingBatch mock of
        None \<Rightarrow> createOkVmResponse []
      | Some pending \<Rightarrow>
          (let args = [big_Int_Bytes (pb_Nonce pending)];
               args = fold (\<lambda>deposit args. args
                        @ [[], big_Int_Bytes (uint (ed_DepositNonce deposit)), AddressBytes L (ed_From deposit),
                           mock_Address_Bytes L (ed_To deposit), bytes_of_string (ed_Ticker deposit),
                           big_Int_Bytes (ed_Amount deposit)])
                      (pb_ElrondDeposits pending) args
           in createOkVmResponse args))"

definition vmRequestSigned ::
  "('a, 'addr) mockLib \<Rightarrow> VmValueRequest \<Rightarrow> ('a, 'addr, 'z) elrondContractStateMock_scheme \<Rightarrow> VMOutputApi option" where
  "vmRequestSigned L request mock =
     (case Args request of
        hexAddress # arg # _ \<Rightarrow> do {
          actID \<leftarrow> getActionIDFromString arg;
          case map_of (signedActionIDs mock) (show_int actID) of
            None \<Rightarrow> Some (createOkVmResponse [BoolToByteSlice False])
          | Some actionIDMap \<Rightarrow> do {
              addressBytes \<leftarrow> hex_DecodeString hexAddress;
              let address = NewAddressFromBytes L addressBytes;
              let found = (map_of actionIDMap (mock_AddressAsBech32String L address) \<noteq> None);
              Some (createOkVmResponse [BoolToByteSlice found]) } }
      | _ \<Rightarrow> None)"

definition vmRequestIsPaused :: VMOutputApi where
  "vmRequestIsPaused = createOkVmResponse [BoolToByteSlice False]"

definition reads :: "('m \<Rightarrow> VMOutputApi option) \<Rightarrow> ('m \<times> 'e, VMOutputApi option res) go" where
  \<comment> \<open>the answer of a query that only looks at the contract\<close>
  "reads f = (\<lambda>(mock, e). do { out \<leftarrow> f mock; Some (Inr (Some out), (mock, e)) })"

definition processVmRequests ::
  "('a, 'addr) mockLib \<Rightarrow> 'e mockHandlers \<Rightarrow> VmValueRequest option
   \<Rightarrow> (('a, 'addr, 'z) elrondContractStateMock_scheme \<times> 'e, VMOutputApi option res) go" where
  "processVmRequests L H vmRequest = (\<lambda>(mock, e).
     case vmRequest of
       None \<Rightarrow> None
     | Some req \<Rightarrow>
         (let f = FuncName req in
          if f = ''wasTransferActionProposed'' then reads (vmRequestwasTransferActionProposed L req) (mock, e)
          else if f = ''getActionIdForTransferBatch''
          then reads (vmRequestGetActionIdForTransferBatch L req) (mock, e)
          else if f = ''wasSetCurrentTransactionBatchStatusActionProposed''
          then reads (vmRequestWasSetCurrentTransactionBatchStatusActionProposed L req) (mock, e)
          else if f = ''getStatusesAfterExecution'' then do {
            (out, e) \<leftarrow> vmRequestGetStatusesAfterExecution H e;
            Some (Inr (Some out), (mock, e)) }
          else if f = ''getActionIdForSetCurrentTransactionBatchStatus''
          then reads (vmRequestGetActionIdForSetCurrentTransactionBatchStatus L req) (mock, e)
          else if f = ''wasActionExecuted'' then reads (vmRequestWasActionExecuted req) (mock, e)
          else if f = ''quorumReached'' then reads (vmRequestQuorumReached req) (mock, e)
          else if f = ''getTokenIdForErc20Address''
          then reads (vmRequestGetTokenIdForErc20Address L req) (mock, e)
          else if f = ''getErc20AddressForTokenId''
          then reads (vmRequestGetErc20AddressForTokenId L req) (mock, e)
          else if f = ''getCurrentTxBatch''
          then reads (\<lambda>mock. Some (vmRequestGetCurrentPendingBatch L mock)) (mock, e)
          else if f = ''getAllStakedRelayers''
          then reads (\<lambda>mock. Some (vmRequestGetAllStakedRelayers mock)) (mock, e)
          else if f = ''getLastExecutedEthBatchId''
          then reads (\<lambda>mock. Some (vmRequestGetLastExecutedEthBatchId mock)) (mock, e)
          else if f = ''getLastExecutedEthTxId''
          then reads (\<lambda>mock. Some (vmRequestGetLastExecutedEthTxId mock)) (mock, e)
          else if f = ''signed'' then reads (vmRequestSigned L req) (mock, e)
          else if f = ''isPaused'' then reads (\<lambda>_. Some vmRequestIsPaused) (mock, e)
          else None))"

subsection \<open>The node (elrondChainMock.go)\<close>

definition newElrondContractStateMock :: "('a, 'addr) elrondContractStateMock" where
  "newElrondContractStateMock = clearTokens (cleanState
     \<lparr> ethToElrond = [], elrondToEth = [], proposedStatus = [], proposedTransfers = [], signedActionIDs = [],
       mock_relayers = [], performedAction = None, pendingBatch = None, mock_quorum = 0,
       lastExecutedEthBatchId = 0, lastExecutedEthTxId = 0 \<rparr>)"

definition NewElrondChainMock :: "('a, 'addr) ElrondChainMock" where
  "NewElrondChainMock =
     elrondContractStateMock.extend newElrondContractStateMock
       (ElrondChainMock.fields [] [])"

definition mock_GetNetworkConfig :: "('s, NetworkConfig option res) go" where
  "mock_GetNetworkConfig =
     (\<lambda>s. Some (Inr (Some \<lparr> ChainID = ''t'', MinTransactionVersion = 1, MinGasPrice = 1000000000 \<rparr>), s))"

definition mock_GetNetworkStatus :: "32 word \<Rightarrow> ('s, uint64 option res) go" where
  "mock_GetNetworkStatus _ = (\<lambda>s. Some (Inr (Some 0), s))"

definition mock_GetShardOfAddress :: "string \<Rightarrow> ('s, 32 word \<times> gerror option) go" where
  "mock_GetShardOfAddress _ = (\<lambda>s. Some ((0, None), s))"

definition mock_SendTransaction ::
  "('a, 'addr) mockLib \<Rightarrow> 'e mockHandlers \<Rightarrow> Transaction option
   \<Rightarrow> (('a, 'addr) ElrondChainMock \<times> 'e, string res) go" where
  "mock_SendTransaction L H transaction = (\<lambda>(mock, e).
     case transaction of
       None \<Rightarrow> None
     | Some tx \<Rightarrow>
         (case NewAddressFromBech32String L (tx_SndAddr tx) of
            Inl _ \<Rightarrow> None
          | Inr addressHandler \<Rightarrow>
              (case CalculateHash_tx L tx of
                 Inl _ \<Rightarrow> None
               | Inr hash \<Rightarrow> do {
                   let mock = mock\<lparr>sentTransactions := AList.update (string_of_bytes hash) tx (sentTransactions mock)\<rparr>;
                   let mock = mock\<lparr>accounts :=
                         updateNonce (string_of_bytes (AddressBytes L addressHandler)) (tx_Nonce tx) (accounts mock)\<rparr>;
                   (_, (mock, e)) \<leftarrow> processTransaction L H tx (mock, e);
                   Some (Inr (hex_EncodeToString hash), (mock, e)) })))"

fun mock_SendTransactions ::
  "('a, 'addr) mockLib \<Rightarrow> 'e mockHandlers \<Rightarrow> Transaction list \<Rightarrow> string list
   \<Rightarrow> (('a, 'addr) ElrondChainMock \<times> 'e, string list res) go" where
  \<comment> \<open>the third argument is what the loop has collected; the error of \<^verbatim>\<open>SendTransaction\<close> is ignored\<close>
  "mock_SendTransactions L H [] hashes s = Some (Inr hashes, s)"
| "mock_SendTransactions L H (tx # txs) hashes s = do {
     (r, s) \<leftarrow> mock_SendTransaction L H (Some tx) s;
     mock_SendTransactions L H txs (hashes @ [case r of Inl _ \<Rightarrow> '''' | Inr hash \<Rightarrow> hash]) s }"

definition GetAllSentTransactions :: "('a, 'addr) ElrondChainMock \<Rightarrow> (string, Transaction) gomap" where
  "GetAllSentTransactions mock = fold (\<lambda>(hash, tx) txs. AList.update hash tx txs) (sentTransactions mock) []"

definition mock_ExecuteVMQuery ::
  "('a, 'addr) mockLib \<Rightarrow> 'e mockHandlers \<Rightarrow> VmValueRequest
   \<Rightarrow> (('a, 'addr) ElrondChainMock \<times> 'e, VMOutputApi option res) go" where
  "mock_ExecuteVMQuery L H vmRequest = processVmRequests L H (Some vmRequest)"

definition mock_GetAccount ::
  "('a, 'addr) mockLib \<Rightarrow> 'a \<Rightarrow> (('a, 'addr) ElrondChainMock \<times> 'e, Account res) go" where
  "mock_GetAccount L address = (\<lambda>(mock, e).
     (let (acc, accs) = getOrCreate (string_of_bytes (AddressBytes L address)) (accounts mock)
      in Some (Inr acc, (mock\<lparr>accounts := accs\<rparr>, e))))"

definition mock_AddRelayer ::
  "('a, 'addr) mockLib \<Rightarrow> 'a \<Rightarrow> ('a, 'addr) ElrondChainMock \<Rightarrow> ('a, 'addr) ElrondChainMock" where
  "mock_AddRelayer L address mock = mock\<lparr>mock_relayers := mock_relayers mock @ [AddressBytes L address]\<rparr>"

definition SetLastExecutedEthBatchID :: "uint64 \<Rightarrow> ('a, 'addr) ElrondChainMock \<Rightarrow> ('a, 'addr) ElrondChainMock" where
  "SetLastExecutedEthBatchID batchId mock = mock\<lparr>lastExecutedEthBatchId := batchId\<rparr>"

definition SetLastExecutedEthTxId :: "uint64 \<Rightarrow> ('a, 'addr) ElrondChainMock \<Rightarrow> ('a, 'addr) ElrondChainMock" where
  "SetLastExecutedEthTxId txId mock = mock\<lparr>lastExecutedEthTxId := txId\<rparr>"

definition AddTokensPair :: "'addr \<Rightarrow> string \<Rightarrow> ('a, 'addr) ElrondChainMock \<Rightarrow> ('a, 'addr) ElrondChainMock" where
  "AddTokensPair erc20 ticker mock = addTokensPair erc20 ticker mock"

definition mock_SetQuorum :: "int \<Rightarrow> ('a, 'addr) ElrondChainMock \<Rightarrow> ('a, 'addr) ElrondChainMock" where
  "mock_SetQuorum quorum mock = mock\<lparr>mock_quorum := quorum\<rparr>"

definition PerformedActionID :: "('a, 'addr) ElrondChainMock \<Rightarrow> int option" where
  "PerformedActionID mock = performedAction mock"

fun find_transfer ::
  "string list \<Rightarrow> (string, ElrondProposedTransfer) gomap \<Rightarrow> int \<Rightarrow> ElrondProposedTransfer option option" where
  \<comment> \<open>the loop of \<^verbatim>\<open>ProposedTransfer\<close>; the outer \<open>None\<close> is a panic\<close>
  "find_transfer [] transfers performed = Some None"
| "find_transfer (hash # hashes) transfers performed = do {
     actID \<leftarrow> HashToActionID hash;
     if show_int actID = show_int performed then Some (map_of transfers hash)
     else find_transfer hashes transfers performed }"

definition ProposedTransfer ::
  "('a, 'addr) mockLib \<Rightarrow> ('a, 'addr) ElrondChainMock \<Rightarrow> ElrondProposedTransfer option option" where
  "ProposedTransfer L mock =
     (case performedAction mock of
        None \<Rightarrow> Some None
      | Some performed \<Rightarrow>
          find_transfer (range_hashes L (map fst (proposedTransfers mock))) (proposedTransfers mock) performed)"

definition setPendingBatch ::
  "('a, 'addr) ElrondPendingBatch option \<Rightarrow> ('a, 'addr, 'z) elrondContractStateMock_scheme
   \<Rightarrow> ('a, 'addr, 'z) elrondContractStateMock_scheme" where
  "setPendingBatch pending mock = mock\<lparr>pendingBatch := pending\<rparr>"

definition SetPendingBatch ::
  "('a, 'addr) ElrondPendingBatch option \<Rightarrow> ('a, 'addr) ElrondChainMock \<Rightarrow> ('a, 'addr) ElrondChainMock" where
  "SetPendingBatch pending mock = setPendingBatch pending mock"

definition AddDepositToCurrentBatch ::
  "('a, 'addr) ElrondDeposit \<Rightarrow> ('a, 'addr) ElrondChainMock \<Rightarrow> ('a, 'addr) ElrondChainMock option" where
  \<comment> \<open>a nil pending batch is dereferenced\<close>
  "AddDepositToCurrentBatch deposit mock = do {
     pending \<leftarrow> pendingBatch mock;
     Some (mock\<lparr>pendingBatch := Some (pending\<lparr>pb_ElrondDeposits := pb_ElrondDeposits pending @ [deposit]\<rparr>)\<rparr>) }"

definition mock_proxy ::
  "('a, 'addr) mockLib \<Rightarrow> 'e mockHandlers \<Rightarrow> (('a, 'addr) ElrondChainMock \<times> 'e) ElrondProxy" where
  \<comment> \<open>the node as the client sees it\<close>
  "mock_proxy L H =
     \<lparr> ExecuteVMQuery = mock_ExecuteVMQuery L H, GetNetworkStatus = mock_GetNetworkStatus,
       GetShardOfAddress = mock_GetShardOfAddress, GetNetworkConfig = mock_GetNetworkConfig \<rparr>"

end
