(* ===== verification/Elrond_Chain_Client.thy ===== *)
theory Elrond_Chain_Client
  imports Elrond_Chain_Mock
begin

section \<open>The Elrond client on the simulated chain\<close>

text \<open>
  How the client and the contract understand each other: the identifiers of actions, the encoding of arguments the builders of the
  SDK produce (the documented behaviour the tests of the client rely on, \<open>sdk_builders\<close>), what the contract decodes from
  it, what each query of a connected client returns, and which transaction each operation sends.
\<close>

subsection \<open>Identifiers of actions\<close>

definition hash_id :: "string \<Rightarrow> uint64" where
  "hash_id hash = word_of_int (SetBytes (bytes_of_string (take 8 hash)))"

lemma SetBytes_big_Int_Bytes [simp]: "SetBytes (big_Int_Bytes x) = \<bar>x\<bar>"
  by (simp add: big_Int_Bytes_def)

lemma big_Bytes_empty [simp]: "big_Bytes n = [] \<longleftrightarrow> n = 0"
  by (simp add: big_Bytes.simps [of n])

lemma big_Int_Bytes_empty [simp]: "big_Int_Bytes x = [] \<longleftrightarrow> x = 0"
  by (simp add: big_Int_Bytes_def)

lemma length_bytes_of_string [simp]: "length (bytes_of_string s) = length s"
  by (simp add: bytes_of_string_def)

lemma length_string_of_bytes [simp]: "length (string_of_bytes s) = length s"
  by (simp add: string_of_bytes_def)

lemma HashToActionID_value:
  assumes "8 \<le> length hash"
  shows "HashToActionID hash = Some \<bar>sint (hash_id hash)\<bar>"
proof -
  have "bytes_of_string (take 8 hash) \<noteq> []" using assms by (auto simp: bytes_of_string_def)
  moreover have "length (bytes_of_string (take 8 hash)) \<le> 8" by simp
  ultimately show ?thesis
    using assms by (auto simp: HashToActionID_def Uint64BytesFromHash_def ParseUint_encoded hash_id_def int64_def abs_if)
qed

lemma hash_id_parsed:
  assumes "8 \<le> length hash"
  shows "parseUInt64FromByteSlice (bytes_of_string (take 8 hash)) = Inr (hash_id hash)"
proof -
  have "length (bytes_of_string (take 8 hash)) = 8" using assms by simp
  then have "SetBytes (bytes_of_string (take 8 hash)) < 256 ^ 8" using SetBytes_bounds by metis
  then show ?thesis by (simp add: parseUInt64FromByteSlice_def hash_id_def big_Uint64_def)
qed

lemma getActionIDFromString_value [simp]: "getActionIDFromString (hex_EncodeToString bs) = Some (SetBytes bs)"
  by (simp add: getActionIDFromString_def)

subsection \<open>What the builders of the SDK make of their calls\<close>

fun arg_bytes :: "('a \<Rightarrow> bytes) \<Rightarrow> 'a BuilderCall \<Rightarrow> bytes" where
  "arg_bytes A (ArgBytes bs) = bs"
| "arg_bytes A (ArgInt64 v) = big_Int_Bytes v"
| "arg_bytes A (ArgBigInt v) = (case v of None \<Rightarrow> [] | Some x \<Rightarrow> big_Int_Bytes x)"
| "arg_bytes A (ArgAddress a) = A a"
| "arg_bytes A _ = []"

definition plain_args :: "('a \<Rightarrow> bytes) \<Rightarrow> 'a Builder \<Rightarrow> bool" where
  "plain_args A args \<longleftrightarrow> (\<forall>c \<in> set args. arg_bytes A c \<noteq> [])"

definition hex_args :: "('a \<Rightarrow> bytes) \<Rightarrow> 'a Builder \<Rightarrow> string list" where
  "hex_args A args = map (\<lambda>c. hex_EncodeToString (arg_bytes A c)) args"

definition sdk_builders ::
  "('a \<Rightarrow> bytes) \<Rightarrow> ('a Builder \<Rightarrow> bytes res) \<Rightarrow> ('a Builder \<Rightarrow> VmValueRequest option res) \<Rightarrow> bool" where
  "sdk_builders A toData toReq \<longleftrightarrow>
     (\<forall>f args. plain_args A args \<longrightarrow>
        toData (Function f # args) = Inr (bytes_of_string (join_with ''@'' (f # hex_args A args))))
     \<and> (\<forall>a c f args. plain_args A args \<longrightarrow>
        (\<exists>req. toReq ([Address a, CallerAddress c] @ Function f # args) = Inr (Some req)
               \<and> FuncName req = f \<and> Args req = hex_args A args))"

lemma hex_args_simps [simp]:
  "hex_args A [] = []" "hex_args A (c # args) = hex_EncodeToString (arg_bytes A c) # hex_args A args"
  "hex_args A (xs @ ys) = hex_args A xs @ hex_args A ys"
  by (simp_all add: hex_args_def)

lemma plain_args_simps [simp]:
  "plain_args A []" "plain_args A (c # args) \<longleftrightarrow> arg_bytes A c \<noteq> [] \<and> plain_args A args"
  "plain_args A (xs @ ys) \<longleftrightarrow> plain_args A xs \<and> plain_args A ys"
  by (auto simp: plain_args_def)

lemma split_data:
  assumes "CHR ''@'' \<notin> set f"
  shows "strings_Split (CHR ''@'') (join_with ''@'' (f # hex_args A args)) = f # hex_args A args"
  using assms by (intro Split_join) (auto simp: hex_args_def hex_no_separator)

subsection \<open>What the chain makes of the arguments\<close>

definition transfer_of_deposit :: "DepositTransfer \<Rightarrow> MockTransfer" where
  "transfer_of_deposit dt =
     \<lparr> mt_From = FromBytes dt, mt_To = ToBytes dt, mt_Token = hex_EncodeToString (ConvertedTokenBytes dt),
       mt_Amount = \<bar>the (Amount dt)\<bar>, mt_Nonce = \<bar>sint (Nonce dt)\<bar> \<rparr>"

definition transfer_of_batch :: "TransferBatch \<Rightarrow> ElrondProposedTransfer" where
  "transfer_of_batch b =
     \<lparr> pt_BatchId = \<bar>sint (ID b)\<bar>, pt_Transfers = map transfer_of_deposit (Deposits b) \<rparr>"

definition status_of_batch :: "TransferBatch \<Rightarrow> ElrondProposedStatus" where
  "status_of_batch b = \<lparr> ps_BatchId = \<bar>sint (ID b)\<bar>, ps_Statuses = Statuses b \<rparr>"

lemma transfer_args_loop_deposits:
  assumes "\<forall>dt \<in> set ds. Amount dt \<noteq> None"
  shows "transfer_args_loop (hex_args A (concat (map deposit_args ds))) acc = Some (acc @ map transfer_of_deposit ds)"
  using assms
  by (induction ds arbitrary: acc) (auto simp: deposit_args_def transfer_of_deposit_def)

lemma status_args_loop_statuses:
  "status_args_loop (hex_args A (map (\<lambda>st. ArgBytes [st]) sts)) acc = Some (acc @ sts)"
  by (induction sts arbitrary: acc) auto


subsection \<open>Proposals\<close>

text \<open>
  Transfers and statuses are proposed and asked for in the same way: the arguments are decoded to a proposal,
  which is stored under its hash; the name of the called function plays no role. The locale states what
  the two kinds share and derives that a proposal is found by the query with the same arguments, from the
  moment it is made on.
\<close>

locale proposals =
  fixes create :: "'m \<Rightarrow> string list \<Rightarrow> ('p \<times> string) option"
    and stored :: "'m \<Rightarrow> (string, 'p) gomap"
    and put :: "string \<Rightarrow> 'p \<Rightarrow> 'm \<Rightarrow> 'm"
  assumes stored_put: "stored (put h p m) = AList.update h p (stored m)"
    and create_put: "create (put h p m) ws = create m ws"
    and create_name: "create m (f # ws) = create m (g # ws)"
begin

definition propose :: "string list \<Rightarrow> 'm \<Rightarrow> 'm option" where
  "propose ws m = do { (p, h) \<leftarrow> create m ws; Some (put h p m) }"

definition found :: "string list \<Rightarrow> 'm \<Rightarrow> bool option" where
  "found ws m = do { (p, h) \<leftarrow> create m ws; Some (map_of (stored m) h \<noteq> None) }"

lemma propose_stores:
  assumes "propose ws m = Some m'" and "create m ws = Some (p, h)"
  shows "m' = put h p m" and "map_of (stored m') h = Some p"
  using assms by (auto simp: propose_def stored_put update_conv')

lemma propose_found:
  assumes "propose (f # ws) m = Some m'"
  shows "found (g # ws) m' = Some True"
proof -
  from assms obtain p h where c: "create m (f # ws) = Some (p, h)" and m': "m' = put h p m"
    by (auto simp: propose_def bind_eq_Some_conv)
  then have "create m' (g # ws) = Some (p, h)" using create_name [of m f ws g] by (simp add: create_put)
  then show ?thesis using m' by (simp add: found_def stored_put update_conv')
qed

lemma propose_keeps_found:
  assumes "found ws m = Some True" and "propose vs m = Some m'"
  shows "found ws m' = Some True"
  using assms by (auto simp: found_def propose_def bind_eq_Some_conv stored_put create_put update_conv')

lemma found_name: "found (f # ws) m = found (g # ws) m"
  unfolding found_def by (simp only: create_name [of m f ws g])

end

lemma createProposedTransfer_name: "createProposedTransfer L (f # ws) = createProposedTransfer L (g # ws)"
  by (simp add: createProposedTransfer_def split: list.split)

lemma createProposedStatus_name: "createProposedStatus L m (f # ws) = createProposedStatus L m (g # ws)"
  by (simp add: createProposedStatus_def split: list.split)

text \<open>The type of the state is written out since decoding a transfer does not depend on it.\<close>

interpretation transfers: proposals
    "\<lambda>m :: ('a, 'addr, 'z) elrondContractStateMock_scheme. createProposedTransfer (L :: ('a, 'addr) mockLib)" proposedTransfers
    "\<lambda>h p m. m\<lparr>proposedTransfers := AList.update h p (proposedTransfers m)\<rparr>" for L
  by unfold_locales (simp, simp, rule createProposedTransfer_name)

lemma createProposedStatus_pending:
  "pendingBatch m = pendingBatch m' \<Longrightarrow> createProposedStatus L m ws = createProposedStatus L m' ws"
  by (simp add: createProposedStatus_def split: list.split)

interpretation statuses: proposals "createProposedStatus L" proposedStatus
    "\<lambda>h p m. m\<lparr>proposedStatus := AList.update h p (proposedStatus m)\<rparr>" for L
  by unfold_locales (simp, rule createProposedStatus_pending, simp, rule createProposedStatus_name)

lemma transfer_operations:
  "proposeMultiTransferEsdtBatch L H ws (m, e) = do {
     m \<leftarrow> transfers.propose L ws m; (_, e) \<leftarrow> call_if_set (ProposeMultiTransferEsdtBatchCalled H) e; Some ((), (m, e)) }"
  "vmRequestwasTransferActionProposed L req m =
     map_option (\<lambda>b. createOkVmResponse [BoolToByteSlice b]) (transfers.found L (FuncName req # Args req) m)"
  by (cases "createProposedTransfer L ws"; force simp: proposeMultiTransferEsdtBatch_def transfers.propose_def)
    (cases "createProposedTransfer L (FuncName req # Args req)"; force simp: vmRequestwasTransferActionProposed_def transfers.found_def)

lemma status_operations:
  "proposeEsdtSafeSetCurrentTransactionBatchStatus L ws m = statuses.propose L ws m"
  "vmRequestWasSetCurrentTransactionBatchStatusActionProposed L req m =
     map_option (\<lambda>b. createOkVmResponse [BoolToByteSlice b]) (statuses.found L (FuncName req # Args req) m)"
  by (simp add: proposeEsdtSafeSetCurrentTransactionBatchStatus_def statuses.propose_def)
    (cases "createProposedStatus L m (FuncName req # Args req)";
      force simp: vmRequestWasSetCurrentTransactionBatchStatusActionProposed_def statuses.found_def)

subsection \<open>A client connected to the simulated chain\<close>

text \<open>
  What the client relies on of the libraries around it: hashes of at least eight bytes, addresses that can be read back,
  a nonce handler that asks for accounts only and forwards transactions to the node, and a signer and a
  serialisation that succeed. The relayer is on the list of its role provider.
\<close>

definition mockLib_ok :: "('a, 'addr) mockLib \<Rightarrow> bool" where
  "mockLib_ok L \<longleftrightarrow>
     (\<forall>t. \<exists>h. CalculateHash_transfer L t = Inr h \<and> 8 \<le> length h)
     \<and> (\<forall>st. \<exists>h. CalculateHash_status L st = Inr h \<and> 8 \<le> length h)
     \<and> (\<forall>tx. \<exists>h. CalculateHash_tx L tx = Inr h)
     \<and> (\<forall>a. NewAddressFromBech32String L (mock_AddressAsBech32String L a) = Inr a)
     \<and> (\<forall>a. NewAddressFromBytes L (AddressBytes L a) = a \<and> AddressBytes L a \<noteq> [])
     \<and> range_order (range_hashes L)"

definition client_on_mock ::
  "('a, 'addr) mockLib \<Rightarrow> 'e mockHandlers \<Rightarrow> (('a, 'addr) ElrondChainMock \<times> 'e, 'a, 'z) elrondClientDeps_scheme \<Rightarrow> bool" where
  "client_on_mock L H d \<longleftrightarrow>
     mockLib_ok L \<and> proxy d = mock_proxy L H
     \<and> th_proxy (txHandler d) = mock_proxy L H
     \<and> th_relayerAddress (txHandler d) = relayerAddress d
     \<and> SendTransaction (txHandler d) = (\<lambda>tx. mock_SendTransaction L H (Some tx))
     \<and> (\<forall>m e. \<exists>n accs. GetNonce (txHandler d) (relayerAddress d) (m, e) = Some (Inr n, (m\<lparr>accounts := accs\<rparr>, e)))
     \<and> (\<forall>s. IsWhitelisted (txHandler d) (relayerAddress d) s = Some (True, s))
     \<and> th_AddressAsBech32String (txHandler d) = mock_AddressAsBech32String L
     \<and> (\<forall>tx. \<exists>bs. Marshal_Transaction (txHandler d) tx = Inr bs)
     \<and> (\<forall>bs. \<exists>sg. singleSigner_Sign (txHandler d) bs = Inr sg)
     \<and> sdk_builders (AddressBytes L) (ToDataBytes (txHandler d)) (ToVmValueRequest d)"

definition transfer_hash :: "('a, 'addr) mockLib \<Rightarrow> ElrondProposedTransfer \<Rightarrow> string" where
  "transfer_hash L t = string_of_bytes (projr (CalculateHash_transfer L t))"

definition status_hash :: "('a, 'addr) mockLib \<Rightarrow> ElrondProposedStatus \<Rightarrow> string" where
  "status_hash L st = string_of_bytes (projr (CalculateHash_status L st))"

lemma mockLib_hashes:
  assumes "mockLib_ok L"
  shows "\<exists>h. CalculateHash_transfer L t = Inr h \<and> transfer_hash L t = string_of_bytes h" "8 \<le> length (transfer_hash L t)"
    and "\<exists>h. CalculateHash_status L st = Inr h \<and> status_hash L st = string_of_bytes h" "8 \<le> length (status_hash L st)"
  using assms unfolding mockLib_ok_def transfer_hash_def status_hash_def by (metis sum.sel(2) length_string_of_bytes)+

definition sendable :: "TransferBatch \<Rightarrow> bool" where
  \<comment> \<open>no argument of the batch is empty\<close>
  "sendable b \<longleftrightarrow> ID b \<noteq> 0 \<and> (\<forall>dt \<in> set (Deposits b). FromBytes dt \<noteq> [] \<and> ToBytes dt \<noteq> [] \<and> ConvertedTokenBytes dt \<noteq> []
     \<and> (\<exists>a. Amount dt = Some a \<and> a \<noteq> 0) \<and> Nonce dt \<noteq> 0)"

lemma sint_zero_iff [simp]: "sint w = 0 \<longleftrightarrow> w = 0"
  by (rule signed_eq_0_iff)

lemma sendable_plain:
  "sendable b \<Longrightarrow> plain_args A (transfer_args b)" "ID b \<noteq> 0 \<Longrightarrow> plain_args A (status_args b)"
  by (auto simp: sendable_def plain_args_def transfer_args_def status_args_def deposit_args_def split: option.split)

lemma created_transfer:
  assumes "mockLib_ok L" and "sendable b"
  shows "createProposedTransfer L (f # hex_args A (transfer_args b))
       = Some (transfer_of_batch b, transfer_hash L (transfer_of_batch b))"
proof -
  have am: "\<forall>dt \<in> set (Deposits b). Amount dt \<noteq> None" using assms(2) by (auto simp: sendable_def)
  obtain h where h: "CalculateHash_transfer L (transfer_of_batch b) = Inr h"
    "transfer_hash L (transfer_of_batch b) = string_of_bytes h" using mockLib_hashes(1) [OF assms(1)] by blast
  then have "HashToActionID (string_of_bytes h) \<noteq> None"
    using mockLib_hashes(2) [OF assms(1), of "transfer_of_batch b"] by (simp add: HashToActionID_value)
  with h am show ?thesis
    by (auto simp: createProposedTransfer_def transfer_args_def transfer_args_loop_deposits transfer_of_batch_def)
qed

lemma created_status:
  assumes "mockLib_ok L" and "pendingBatch m = Some p" and "length (Statuses b) = length (pb_ElrondDeposits p)"
  shows "createProposedStatus L m (f # hex_args A (status_args b))
       = Some (status_of_batch b, status_hash L (status_of_batch b))"
proof -
  obtain h where h: "CalculateHash_status L (status_of_batch b) = Inr h"
    "status_hash L (status_of_batch b) = string_of_bytes h" using mockLib_hashes(3) [OF assms(1)] by blast
  then show ?thesis
    using assms(2,3) by (simp add: createProposedStatus_def status_args_def status_args_loop_statuses status_of_batch_def)
qed

subsection \<open>Queries\<close>

lemma mock_proxy_query [simp]: "ExecuteVMQuery (mock_proxy L H) = mock_ExecuteVMQuery L H"
  by (simp add: mock_proxy_def)

lemma parseBool_BoolToByteSlice [simp]: "parseBool (BoolToByteSlice b) f a xs = Inr b"
  by (simp add: parseBool_def BoolToByteSlice_def ParseBool_show_nat)

lemma createOk_simps [simp]: "ReturnCode (createOkVmResponse xs) = okCodeAfterExecution" "ReturnData (createOkVmResponse xs) = xs"
  by (simp_all add: createOkVmResponse_def okCodeAfterExecution_def)

lemma built_request:
  assumes "client_on_mock L H d" and "plain_args (AddressBytes L) args"
  obtains req where "ToVmValueRequest d (createDefaultVmQueryBuilder d @ Function f # args) = Inr (Some req)"
    "FuncName req = f" "Args req = hex_args (AddressBytes L) args"
  using assms unfolding client_on_mock_def sdk_builders_def createDefaultVmQueryBuilder_def by blast

lemma mock_bool_query:
  assumes "client_on_mock L H d" and "plain_args (AddressBytes L) args"
    and "\<And>req. FuncName req = f \<Longrightarrow> Args req = hex_args (AddressBytes L) args
          \<Longrightarrow> mock_ExecuteVMQuery L H req s = Some (Inr (Some (createOkVmResponse [BoolToByteSlice b])), s)"
  shows "executeQueryBoolFromBuilder d (createDefaultVmQueryBuilder d @ Function f # args) s = Some (Inr b, s)"
proof -
  obtain req where req: "ToVmValueRequest d (createDefaultVmQueryBuilder d @ Function f # args) = Inr (Some req)"
    "FuncName req = f" "Args req = hex_args (AddressBytes L) args" by (rule built_request [OF assms(1,2)])
  moreover have "proxy d = mock_proxy L H" using assms(1) by (simp add: client_on_mock_def)
  ultimately show ?thesis
    using assms(3) [OF req(2,3)]
    by (simp add: executeQueryBoolFromBuilder_def ExecuteQueryReturningBool_def ExecuteQueryReturningBytes_def)
qed

lemma mock_uint_query:
  assumes "client_on_mock L H d" and "plain_args (AddressBytes L) args"
    and "\<And>req. FuncName req = f \<Longrightarrow> Args req = hex_args (AddressBytes L) args
          \<Longrightarrow> mock_ExecuteVMQuery L H req s = Some (Inr (Some (createOkVmResponse [buff])), s)"
    and "parseUInt64FromByteSlice buff = Inr n"
  shows "executeQueryUint64FromBuilder d (createDefaultVmQueryBuilder d @ Function f # args) s = Some (Inr n, s)"
proof -
  obtain req where req: "ToVmValueRequest d (createDefaultVmQueryBuilder d @ Function f # args) = Inr (Some req)"
    "FuncName req = f" "Args req = hex_args (AddressBytes L) args" by (rule built_request [OF assms(1,2)])
  moreover have "proxy d = mock_proxy L H" using assms(1) by (simp add: client_on_mock_def)
  moreover have "buff = [] \<Longrightarrow> n = 0" using assms(4) by (simp add: parseUInt64FromByteSlice_def big_Uint64_def)
  ultimately show ?thesis
    using assms(3) [OF req(2,3)] assms(4)
    by (simp add: executeQueryUint64FromBuilder_def ExecuteQueryReturningUint64_def ExecuteQueryReturningBytes_def)
qed

lemmas mock_query_defs = mock_ExecuteVMQuery_def processVmRequests_def reads_def

definition signers :: "('a, 'addr, 'z) elrondContractStateMock_scheme \<Rightarrow> int \<Rightarrow> string set" where
  "signers m a = (case map_of (signedActionIDs m) (show_int a) of None \<Rightarrow> {} | Some x \<Rightarrow> fst ` set x)"

lemma client_paused: "client_on_mock L H d \<Longrightarrow> checkIsPaused d s = Some (None, s)"
  using mock_bool_query [of L H d "[]" isPausedFuncName s False]
  by (cases s) (simp add: checkIsPaused_def IsPaused_def isPausedFuncName_def mock_query_defs vmRequestIsPaused_def)

lemma client_WasProposedTransfer:
  assumes "client_on_mock L H d" and "sendable b"
  shows "WasProposedTransfer d (Some b) (m, e)
       = Some (Inr (map_of (proposedTransfers m) (transfer_hash L (transfer_of_batch b)) \<noteq> None), (m, e))"
proof -
  have ok: "mockLib_ok L" using assms(1) by (simp add: client_on_mock_def)
  show ?thesis
    unfolding WasProposedTransfer_def option.case Let_def batch_info append.assoc wasTransferActionProposedFuncName_def
    by (rule mock_bool_query [OF assms(1) sendable_plain(1) [OF assms(2)]])
      (simp add: mock_query_defs vmRequestwasTransferActionProposed_def created_transfer [OF ok assms(2)])
qed

lemma client_GetActionIDForProposeTransfer:
  assumes "client_on_mock L H d" and "sendable b"
    and "map_of (proposedTransfers m) (transfer_hash L (transfer_of_batch b)) \<noteq> None"
  shows "GetActionIDForProposeTransfer d (Some b) (m, e) = Some (Inr (hash_id (transfer_hash L (transfer_of_batch b))), (m, e))"
proof -
  have ok: "mockLib_ok L" using assms(1) by (simp add: client_on_mock_def)
  let ?h = "transfer_hash L (transfer_of_batch b)"
  have long: "8 \<le> length ?h" by (rule mockLib_hashes(2) [OF ok])
  show ?thesis
    unfolding GetActionIDForProposeTransfer_def option.case Let_def batch_info append.assoc getActionIdForTransferBatchFuncName_def
    by (rule mock_uint_query [OF assms(1) sendable_plain(1) [OF assms(2)] _ hash_id_parsed [OF long]])
      (use assms(3) long in \<open>auto simp: mock_query_defs vmRequestGetActionIdForTransferBatch_def created_transfer [OF ok assms(2)]
          Uint64BytesFromHash_def\<close>)
qed

lemma status_query:
  "add_statuses (createDefaultVmQueryBuilder d @ [f, ArgInt64 (int64 (ID b))]) (Statuses b)
     = createDefaultVmQueryBuilder d @ f # status_args b"
  by (simp add: add_statuses_args status_args_def int64_def)

lemma client_GetActionIDForSetStatus:
  assumes "client_on_mock L H d" and "ID b \<noteq> 0"
    and "pendingBatch m = Some p" and "length (Statuses b) = length (pb_ElrondDeposits p)"
    and "map_of (proposedStatus m) (status_hash L (status_of_batch b)) \<noteq> None"
  shows "GetActionIDForSetStatusOnPendingTransfer d (Some b) (m, e)
       = Some (Inr (hash_id (status_hash L (status_of_batch b))), (m, e))"
proof -
  have ok: "mockLib_ok L" using assms(1) by (simp add: client_on_mock_def)
  have long: "8 \<le> length (status_hash L (status_of_batch b))" by (rule mockLib_hashes(4) [OF ok])
  show ?thesis
    unfolding GetActionIDForSetStatusOnPendingTransfer_def option.case Let_def status_query
      getActionIdForSetCurrentTransactionBatchStatusFuncName_def
    by (rule mock_uint_query [OF assms(1) sendable_plain(2) [OF assms(2)] _ hash_id_parsed [OF long]])
      (use assms(5) long in \<open>auto simp: mock_query_defs vmRequestGetActionIdForSetCurrentTransactionBatchStatus_def
          created_status [OF ok assms(3,4)] Uint64BytesFromHash_def\<close>)
qed

lemma client_WasProposedSetStatus:
  assumes "client_on_mock L H d" and "ID b \<noteq> 0"
    and "pendingBatch m = Some p" and "length (Statuses b) = length (pb_ElrondDeposits p)"
  shows "WasProposedSetStatus d (Some b) (m, e)
       = Some (Inr (map_of (proposedStatus m) (status_hash L (status_of_batch b)) \<noteq> None), (m, e))"
proof -
  have ok: "mockLib_ok L" using assms(1) by (simp add: client_on_mock_def)
  show ?thesis
    unfolding WasProposedSetStatus_def option.case Let_def status_query
      wasSetCurrentTransactionBatchStatusActionProposedFuncName_def
    by (rule mock_bool_query [OF assms(1) sendable_plain(2) [OF assms(2)]])
      (auto simp: mock_query_defs vmRequestWasSetCurrentTransactionBatchStatusActionProposed_def
          created_status [OF ok assms(3,4)])
qed

lemma map_of_found: "map_of x k = Some () \<longleftrightarrow> k \<in> fst ` set x"
  by (metis map_of_eq_None_iff not_None_eq unit.exhaust)

lemma client_action_queries:
  assumes "client_on_mock L H d" and "i \<noteq> 0"
  shows "getter_WasExecuted d i (m, e) = Some (Inr (performedAction m = Some \<bar>sint i\<bar>), (m, e))"
    and "QuorumReached d i (m, e) = Some (Inr (case map_of (signedActionIDs m) (show_int \<bar>sint i\<bar>) of
           None \<Rightarrow> False | Some x \<Rightarrow> mock_quorum m \<le> int (length x)), (m, e))"
    and "WasSigned d i (m, e) = Some (Inr (mock_AddressAsBech32String L (relayerAddress d) \<in> signers m \<bar>sint i\<bar>), (m, e))"
proof -
  have plain: "plain_args (AddressBytes L) [ArgInt64 (int64 i)]"
    "plain_args (AddressBytes L) [ArgAddress (relayerAddress d), ArgInt64 (int64 i)]"
    using assms by (auto simp: client_on_mock_def mockLib_ok_def int64_def)
  show "getter_WasExecuted d i (m, e) = Some (Inr (performedAction m = Some \<bar>sint i\<bar>), (m, e))"
    unfolding getter_WasExecuted_def wasActionExecutedFuncName_def
    by (rule mock_bool_query [OF assms(1) plain(1)])
      (auto simp: mock_query_defs vmRequestWasActionExecuted_def int64_def eq_commute split: option.split)
  show "QuorumReached d i (m, e) = Some (Inr (case map_of (signedActionIDs m) (show_int \<bar>sint i\<bar>) of
           None \<Rightarrow> False | Some x \<Rightarrow> mock_quorum m \<le> int (length x)), (m, e))"
    unfolding QuorumReached_def quorumReachedFuncName_def
    by (rule mock_bool_query [OF assms(1) plain(1)])
      (auto simp: mock_query_defs vmRequestQuorumReached_def int64_def split: option.split)
  have addr: "NewAddressFromBytes L (AddressBytes L a) = a" for a
    using assms(1) by (auto simp: client_on_mock_def mockLib_ok_def)
  show "WasSigned d i (m, e) = Some (Inr (mock_AddressAsBech32String L (relayerAddress d) \<in> signers m \<bar>sint i\<bar>), (m, e))"
    unfolding WasSigned_def signedFuncName_def
    by (rule mock_bool_query [OF assms(1) plain(2)])
      (auto simp: mock_query_defs vmRequestSigned_def int64_def signers_def addr map_of_found split: option.split)
qed

subsection \<open>Transactions\<close>

lemma mock_send:
  assumes "client_on_mock L H d" and "plain_args (AddressBytes L) args" and "CHR ''@'' \<notin> set f"
  obtains tx txs accs hash where "tx_SndAddr tx = mock_AddressAsBech32String L (relayerAddress d)"
    "strings_Split (CHR ''@'') (string_of_bytes (tx_Data tx)) = f # hex_args (AddressBytes L) args"
    "send_unless_paused d (Function f # args) gas (m, e) = do {
       (_, (m, e)) \<leftarrow> processTransaction L H tx (m\<lparr>sentTransactions := txs, accounts := accs\<rparr>, e);
       Some (Inr hash, (m, e)) }"
proof -
  let ?th = "txHandler d"
  from assms(1) obtain n accs where n: "GetNonce ?th (relayerAddress d) (m, e) = Some (Inr n, (m\<lparr>accounts := accs\<rparr>, e))"
    unfolding client_on_mock_def by blast
  let ?cfg = "\<lparr> ChainID = ''t'', MinTransactionVersion = 1, MinGasPrice = 1000000000 \<rparr>"
  let ?tx = "\<lparr> tx_ChainID = ChainID ?cfg, tx_Version = MinTransactionVersion ?cfg,
     tx_GasLimit = gas, tx_GasPrice = MinGasPrice ?cfg, tx_Nonce = n,
     tx_Data = bytes_of_string (join_with ''@'' (f # hex_args (AddressBytes L) args)),
     tx_SndAddr = mock_AddressAsBech32String L (relayerAddress d),
     tx_RcvAddr = multisigAddressAsBech32 ?th, tx_Value = ''0'', tx_Signature = '''' \<rparr>"
  from assms(1) obtain buff sg where s: "Marshal_Transaction ?th ?tx = Inr buff" "singleSigner_Sign ?th buff = Inr sg"
    unfolding client_on_mock_def by blast
  let ?stx = "?tx\<lparr>tx_Signature := hex_EncodeToString sg\<rparr>"
  from assms(1) obtain h where h: "CalculateHash_tx L ?stx = Inr h" unfolding client_on_mock_def mockLib_ok_def by blast
  have data: "ToDataBytes ?th (Function f # args) = Inr (bytes_of_string (join_with ''@'' (f # hex_args (AddressBytes L) args)))"
    using assms(1,2) unfolding client_on_mock_def sdk_builders_def by blast
  have signed: "signTransaction ?th (Function f # args) gas (m, e) = Some (Inr ?stx, (m\<lparr>accounts := accs\<rparr>, e))"
    using assms(1) n data s
    by (simp add: client_on_mock_def signTransaction_def mock_proxy_def mock_GetNetworkConfig_def signTransactionWithPrivateKey_def)
  have sent: "send_unless_paused d (Function f # args) gas (m, e) = mock_SendTransaction L H (Some ?stx) (m\<lparr>accounts := accs\<rparr>, e)"
    using assms(1) signed
    by (simp add: send_unless_paused_def client_paused [OF assms(1)] SendTransactionReturnHash_def client_on_mock_def)
  have addr: "NewAddressFromBech32String L (mock_AddressAsBech32String L (relayerAddress d)) = Inr (relayerAddress d)"
    using assms(1) by (auto simp: client_on_mock_def mockLib_ok_def)
  show thesis
    by (rule that [of ?stx "updateNonce (string_of_bytes (AddressBytes L (relayerAddress d))) n accs"
          "AList.update (string_of_bytes h) ?stx (sentTransactions m)" "hex_EncodeToString h"])
      (use h in \<open>simp_all add: sent mock_SendTransaction_def addr split_data [OF assms(3)]\<close>)
qed

end
