(* ===== verification/Elrond_Multisig.thy ===== *)
theory Elrond_Multisig
  imports Elrond_Chain_Client
begin

section \<open>The multisig contract as a specification\<close>

text \<open>
  An abstract multisig contract, and that the client on the simulated chain implements it; rounds of several relayers that have an
  action performed; and the pending batch as the client reads it.
\<close>

subsection \<open>The multisig contract, abstractly\<close>

text \<open>
  The contract the chain simulates, as a specification: which transfers and statuses are proposed under which
  hash, who signed which action, and which action was performed last.
\<close>

record ('a, 'addr) multisig =
  ms_transfers :: "string \<Rightarrow> ElrondProposedTransfer option"
  ms_statuses :: "string \<Rightarrow> ElrondProposedStatus option"
  ms_signers :: "int \<Rightarrow> string set"
  ms_performed :: "int option"
  ms_quorum :: int
  ms_pending :: "('a, 'addr) ElrondPendingBatch option"

definition abs_multisig :: "('a, 'addr, 'z) elrondContractStateMock_scheme \<Rightarrow> ('a, 'addr) multisig" where
  "abs_multisig m =
     \<lparr> ms_transfers = map_of (proposedTransfers m), ms_statuses = map_of (proposedStatus m), ms_signers = signers m,
       ms_performed = performedAction m, ms_quorum = mock_quorum m, ms_pending = pendingBatch m \<rparr>"

definition ms_actions :: "('a, 'addr) multisig \<Rightarrow> int set" where
  "ms_actions ms = (\<lambda>h. \<bar>sint (hash_id h)\<bar>) ` (dom (ms_transfers ms) \<union> dom (ms_statuses ms))"

definition ms_propose_transfer :: "string \<Rightarrow> ElrondProposedTransfer \<Rightarrow> ('a, 'addr) multisig \<Rightarrow> ('a, 'addr) multisig" where
  "ms_propose_transfer h t ms = ms\<lparr>ms_transfers := (ms_transfers ms)(h \<mapsto> t)\<rparr>"

definition ms_propose_status :: "string \<Rightarrow> ElrondProposedStatus \<Rightarrow> ('a, 'addr) multisig \<Rightarrow> ('a, 'addr) multisig" where
  "ms_propose_status h st ms = ms\<lparr>ms_statuses := (ms_statuses ms)(h \<mapsto> st)\<rparr>"

definition ms_sign :: "int \<Rightarrow> string \<Rightarrow> ('a, 'addr) multisig \<Rightarrow> ('a, 'addr) multisig" where
  "ms_sign a addr ms = ms\<lparr>ms_signers := (ms_signers ms)(a := insert addr (ms_signers ms a))\<rparr>"

definition ms_perform :: "int \<Rightarrow> ('a, 'addr) multisig \<Rightarrow> ('a, 'addr) multisig" where
  "ms_perform a ms = (if ms_quorum ms \<le> int (card (ms_signers ms a)) then ms\<lparr>ms_performed := Some a\<rparr> else ms)"

text \<open>
  A well-formed state: each proposal is stored under its own hash, hashes are long enough for an action identifier, and
  the signatures of an action are a non-empty list of different senders.
\<close>

definition mock_wf :: "('a, 'addr) mockLib \<Rightarrow> ('a, 'addr, 'z) elrondContractStateMock_scheme \<Rightarrow> bool" where
  "mock_wf L m \<longleftrightarrow>
     (\<forall>(h, t) \<in> set (proposedTransfers m). 8 \<le> length h \<and> CalculateHash_transfer L t = Inr (bytes_of_string h))
     \<and> (\<forall>(h, st) \<in> set (proposedStatus m). 8 \<le> length h \<and> CalculateHash_status L st = Inr (bytes_of_string h))
     \<and> (\<forall>(k, x) \<in> set (signedActionIDs m). x \<noteq> [] \<and> distinct (map fst x))"

lemma find_action_iff:
  "\<forall>h \<in> set hs. 8 \<le> length h \<Longrightarrow> find_action hs a = Some (a \<in> (\<lambda>h. \<bar>sint (hash_id h)\<bar>) ` set hs)"
  by (induction hs) (auto simp: HashToActionID_value)

lemma actionIDExists_iff:
  assumes "range_order (range_hashes L)" and "mock_wf L m"
  shows "actionIDExists L m a = Some (a \<in> ms_actions (abs_multisig m))"
proof -
  have "\<forall>h \<in> set (range_hashes L (map fst (proposedTransfers m))). 8 \<le> length h"
    "\<forall>h \<in> set (range_hashes L (map fst (proposedStatus m))). 8 \<le> length h"
    using assms(2) by (auto simp: range_orderD(1) [OF assms(1)] mock_wf_def)
  then show ?thesis
    by (auto simp: actionIDExists_def find_action_iff range_orderD(1) [OF assms(1)] ms_actions_def abs_multisig_def
        dom_map_of_conv_image_fst)
qed

lemma wf_signers:
  assumes "mock_wf L m"
  shows "map_of (signedActionIDs m) (show_int a) = None \<longleftrightarrow> signers m a = {}"
    and "map_of (signedActionIDs m) (show_int a) = Some x \<Longrightarrow> length x = card (signers m a)"
proof -
  have x: "map_of (signedActionIDs m) k = Some x \<Longrightarrow> x \<noteq> [] \<and> distinct (map fst x)" for k x
    using assms unfolding mock_wf_def by (auto dest: map_of_SomeD)
  show "map_of (signedActionIDs m) (show_int a) = None \<longleftrightarrow> signers m a = {}"
    using x by (auto simp: signers_def split: option.split)
  assume ax: "map_of (signedActionIDs m) (show_int a) = Some x"
  then have "distinct (map fst x)" using x by blast
  then show "length x = card (signers m a)"
    using distinct_card [of "map fst x"] ax by (simp add: signers_def)
qed

lemma set_update_subset: "set (AList.update k v xs) \<subseteq> insert (k, v) (set xs)"
  by (induction xs) auto

lemma wf_update:
  "mock_wf L m \<Longrightarrow> 8 \<le> length h \<Longrightarrow> CalculateHash_transfer L t = Inr (bytes_of_string h)
     \<Longrightarrow> mock_wf L (m\<lparr>proposedTransfers := AList.update h t (proposedTransfers m)\<rparr>)"
  "mock_wf L m \<Longrightarrow> 8 \<le> length h \<Longrightarrow> CalculateHash_status L st = Inr (bytes_of_string h)
     \<Longrightarrow> mock_wf L (m\<lparr>proposedStatus := AList.update h st (proposedStatus m)\<rparr>)"
  "mock_wf L m \<Longrightarrow> x \<noteq> [] \<Longrightarrow> distinct (map fst x)
     \<Longrightarrow> mock_wf L (m\<lparr>signedActionIDs := AList.update k x (signedActionIDs m)\<rparr>)"
  using set_update_subset [of h t "proposedTransfers m"] set_update_subset [of h st "proposedStatus m"]
    set_update_subset [of k x "signedActionIDs m"]
  unfolding mock_wf_def by (simp; blast)+

lemma wf_outside [simp]:
  "mock_wf L (m\<lparr>sentTransactions := txs\<rparr>) = mock_wf L m" "mock_wf L (m\<lparr>accounts := accs\<rparr>) = mock_wf L m"
  "mock_wf L (m'\<lparr>performedAction := p\<rparr>) = mock_wf L m'"
  by (simp_all add: mock_wf_def)

lemma abs_outside [simp]:
  "abs_multisig (m\<lparr>sentTransactions := txs\<rparr>) = abs_multisig m" "abs_multisig (m\<lparr>accounts := accs\<rparr>) = abs_multisig m"
  by (simp_all add: abs_multisig_def signers_def fun_eq_iff)

lemma abs_performed: "abs_multisig (m\<lparr>performedAction := p\<rparr>) = (abs_multisig m)\<lparr>ms_performed := p\<rparr>"
  by (simp add: abs_multisig_def signers_def fun_eq_iff)

lemma abs_signed:
  "abs_multisig (m\<lparr>signedActionIDs := AList.update (show_int a)
        (AList.update addr () (case map_of (signedActionIDs m) (show_int a) of None \<Rightarrow> [] | Some x \<Rightarrow> x)) (signedActionIDs m)\<rparr>)
     = ms_sign a addr (abs_multisig m)"
  by (auto simp: abs_multisig_def signers_def ms_sign_def fun_eq_iff update_conv' split: option.split)

subsection \<open>The client implements the specification\<close>

definition handlers_return :: "'e mockHandlers \<Rightarrow> bool" where
  "handlers_return H \<longleftrightarrow> (\<forall>e. \<exists>e'. call_if_set (ProcessFinishedHandler H) e = Some ((), e'))
     \<and> (\<forall>e. \<exists>e'. call_if_set (ProposeMultiTransferEsdtBatchCalled H) e = Some ((), e'))"

lemma client_sends:
  fixes m :: "('a, 'addr) ElrondChainMock"
  assumes "client_on_mock L H d" and "plain_args (AddressBytes L) args" and "CHR ''@'' \<notin> set f"
    and "\<And>tx m1. tx_SndAddr tx = mock_AddressAsBech32String L (relayerAddress d)
          \<Longrightarrow> strings_Split (CHR ''@'') (string_of_bytes (tx_Data tx)) = f # hex_args (AddressBytes L) args
          \<Longrightarrow> abs_multisig m1 = abs_multisig m \<Longrightarrow> mock_wf L m1 = mock_wf L m
          \<Longrightarrow> \<exists>m' e'. processTransaction L H tx (m1, e) = Some ((), (m', e')) \<and> P m' e'"
  shows "\<exists>h m' e'. send_unless_paused d (Function f # args) gas (m, e) = Some (Inr h, (m', e')) \<and> P m' e'"
proof -
  obtain tx txs accs hash where tx: "tx_SndAddr tx = mock_AddressAsBech32String L (relayerAddress d)"
    "strings_Split (CHR ''@'') (string_of_bytes (tx_Data tx)) = f # hex_args (AddressBytes L) args"
    "send_unless_paused d (Function f # args) gas (m, e) = do {
       (_, (m, e)) \<leftarrow> processTransaction L H tx (m\<lparr>sentTransactions := txs, accounts := accs\<rparr>, e);
       Some (Inr hash, (m, e)) }"
    by (rule mock_send [OF assms(1-3)])
  then show ?thesis using assms(4) [OF tx(1,2), of "m\<lparr>sentTransactions := txs, accounts := accs\<rparr>"] by auto
qed

lemma client_ProposeTransfer:
  assumes "client_on_mock L H d" and "handlers_return H" and "mock_wf L m" and "sendable b"
  shows "\<exists>h m' e'. ProposeTransfer d (Some b) (m, e) = Some (Inr h, (m', e')) \<and> mock_wf L m'
     \<and> abs_multisig m' = ms_propose_transfer (transfer_hash L (transfer_of_batch b)) (transfer_of_batch b) (abs_multisig m)"
  unfolding writes_send
proof (rule client_sends [OF assms(1) sendable_plain(1) [OF assms(4)]])
  fix tx :: Transaction and m1 :: "('a, 'b) ElrondChainMock"
  assume tx: "strings_Split (CHR ''@'') (string_of_bytes (tx_Data tx))
        = ''proposeMultiTransferEsdtBatch'' # hex_args (AddressBytes L) (transfer_args b)"
    and m1: "abs_multisig m1 = abs_multisig m" "mock_wf L m1 = mock_wf L m"
  have ok: "mockLib_ok L" using assms(1) by (simp add: client_on_mock_def)
  let ?t = "transfer_of_batch b"
  let ?m = "m1\<lparr>proposedTransfers := AList.update (transfer_hash L ?t) ?t (proposedTransfers m1)\<rparr>"
  obtain e' where e': "call_if_set (ProposeMultiTransferEsdtBatchCalled H) e = Some ((), e')"
    using assms(2) unfolding handlers_return_def by blast
  have "CalculateHash_transfer L ?t = Inr (bytes_of_string (transfer_hash L ?t))"
    using mockLib_hashes(1) [OF ok, of ?t] by auto
  then have "mock_wf L ?m" using m1(2) assms(3) mockLib_hashes(2) [OF ok] by (intro wf_update) auto
  moreover have "abs_multisig ?m = ms_propose_transfer (transfer_hash L ?t) ?t (abs_multisig m)"
    unfolding m1(1) [symmetric] by (simp add: abs_multisig_def ms_propose_transfer_def signers_def fun_eq_iff update_conv')
  moreover have "processTransaction L H tx (m1, e) = Some ((), (?m, e'))"
    using tx e' by (simp add: processTransaction_def proposeMultiTransferEsdtBatch_def created_transfer [OF ok assms(4)])
  ultimately show "\<exists>m' e'. processTransaction L H tx (m1, e) = Some ((), (m', e')) \<and> mock_wf L m'
      \<and> abs_multisig m' = ms_propose_transfer (transfer_hash L ?t) ?t (abs_multisig m)" by blast
qed simp

lemma client_ProposeSetStatus:
  assumes "client_on_mock L H d" and "mock_wf L m" and "ID b \<noteq> 0"
    and "pendingBatch m = Some p" and "length (Statuses b) = length (pb_ElrondDeposits p)"
  shows "\<exists>h m' e'. ProposeSetStatus d (Some b) (m, e) = Some (Inr h, (m', e')) \<and> mock_wf L m'
     \<and> abs_multisig m' = ms_propose_status (status_hash L (status_of_batch b)) (status_of_batch b) (abs_multisig m)"
  unfolding writes_send
proof (rule client_sends [OF assms(1) sendable_plain(2) [OF assms(3)]])
  fix tx :: Transaction and m1 :: "('a, 'b) ElrondChainMock"
  assume tx: "strings_Split (CHR ''@'') (string_of_bytes (tx_Data tx))
        = ''proposeEsdtSafeSetCurrentTransactionBatchStatus'' # hex_args (AddressBytes L) (status_args b)"
    and m1: "abs_multisig m1 = abs_multisig m" "mock_wf L m1 = mock_wf L m"
  have ok: "mockLib_ok L" using assms(1) by (simp add: client_on_mock_def)
  let ?t = "status_of_batch b"
  let ?m = "m1\<lparr>proposedStatus := AList.update (status_hash L ?t) ?t (proposedStatus m1)\<rparr>"
  have p: "pendingBatch m1 = Some p" using m1(1) assms(4) by (simp add: abs_multisig_def)
  have "CalculateHash_status L ?t = Inr (bytes_of_string (status_hash L ?t))"
    using mockLib_hashes(3) [OF ok, of ?t] by auto
  then have "mock_wf L ?m" using m1(2) assms(2) mockLib_hashes(4) [OF ok] by (intro wf_update) auto
  moreover have "abs_multisig ?m = ms_propose_status (status_hash L ?t) ?t (abs_multisig m)"
    unfolding m1(1) [symmetric] by (simp add: abs_multisig_def ms_propose_status_def signers_def fun_eq_iff update_conv')
  moreover have "processTransaction L H tx (m1, e) = Some ((), (?m, e))"
    using tx by (simp add: processTransaction_def proposeEsdtSafeSetCurrentTransactionBatchStatus_def
        created_status [OF ok p assms(5)])
  ultimately show "\<exists>m' e'. processTransaction L H tx (m1, e) = Some ((), (m', e')) \<and> mock_wf L m'
      \<and> abs_multisig m' = ms_propose_status (status_hash L ?t) ?t (abs_multisig m)" by blast
qed simp

lemma client_Sign:
  assumes "client_on_mock L H d" and "mock_wf L m" and "i \<noteq> 0" and "\<bar>sint i\<bar> \<in> ms_actions (abs_multisig m)"
  shows "\<exists>h m' e'. Sign d i (m, e) = Some (Inr h, (m', e')) \<and> mock_wf L m'
     \<and> abs_multisig m' = ms_sign \<bar>sint i\<bar> (mock_AddressAsBech32String L (relayerAddress d)) (abs_multisig m)"
  unfolding writes_send
proof (rule client_sends [OF assms(1)])
  fix tx :: Transaction and m1 :: "('a, 'b) ElrondChainMock"
  assume tx: "tx_SndAddr tx = mock_AddressAsBech32String L (relayerAddress d)"
      "strings_Split (CHR ''@'') (string_of_bytes (tx_Data tx)) = ''sign'' # hex_args (AddressBytes L) [ArgInt64 (sint i)]"
    and m1: "abs_multisig m1 = abs_multisig m" "mock_wf L m1 = mock_wf L m"
  have ord: "range_order (range_hashes L)" using assms(1) by (simp add: client_on_mock_def mockLib_ok_def)
  let ?x = "case map_of (signedActionIDs m1) (show_int \<bar>sint i\<bar>) of None \<Rightarrow> [] | Some x \<Rightarrow> x"
  let ?y = "AList.update (tx_SndAddr tx) () ?x"
  let ?m = "m1\<lparr>signedActionIDs := AList.update (show_int \<bar>sint i\<bar>) ?y (signedActionIDs m1)\<rparr>"
  have "distinct (map fst ?x)"
    using m1(2) assms(2) unfolding mock_wf_def by (auto dest!: map_of_SomeD split: option.split)
  then have "mock_wf L ?m" using m1(2) assms(2)
    by (intro wf_update) (simp_all add: update_nonempty distinct_update)
  moreover have "abs_multisig ?m = ms_sign \<bar>sint i\<bar> (tx_SndAddr tx) (abs_multisig m)"
    unfolding m1(1) [symmetric] by (rule abs_signed)
  moreover have "processTransaction L H tx (m1, e) = Some ((), (?m, e))"
    using tx(2) assms(2,4) m1 by (simp add: processTransaction_def mock_sign_def actionIDExists_iff [OF ord])
  ultimately show "\<exists>m' e'. processTransaction L H tx (m1, e) = Some ((), (m', e')) \<and> mock_wf L m'
      \<and> abs_multisig m' = ms_sign \<bar>sint i\<bar> (mock_AddressAsBech32String L (relayerAddress d)) (abs_multisig m)"
    unfolding tx(1) by blast
qed (use assms(3) in simp_all)

lemma client_PerformAction:
  assumes "client_on_mock L H d" and "handlers_return H" and "mock_wf L m" and "i \<noteq> 0"
    and "\<bar>sint i\<bar> \<in> ms_actions (abs_multisig m)" and "ms_signers (abs_multisig m) \<bar>sint i\<bar> \<noteq> {}"
  shows "\<exists>h m' e'. PerformAction d i (Some b) (m, e) = Some (Inr h, (m', e')) \<and> mock_wf L m'
     \<and> abs_multisig m' = ms_perform \<bar>sint i\<bar> (abs_multisig m)"
  unfolding writes_send
proof (rule client_sends [OF assms(1)])
  fix tx :: Transaction and m1 :: "('a, 'b) ElrondChainMock"
  assume tx: "strings_Split (CHR ''@'') (string_of_bytes (tx_Data tx)) = ''performAction'' # hex_args (AddressBytes L) [ArgInt64 (sint i)]"
    and m1: "abs_multisig m1 = abs_multisig m" "mock_wf L m1 = mock_wf L m"
  have ord: "range_order (range_hashes L)" using assms(1) by (simp add: client_on_mock_def mockLib_ok_def)
  obtain e' where e': "call_if_set (ProcessFinishedHandler H) e = Some ((), e')"
    using assms(2) unfolding handlers_return_def by blast
  have wf: "mock_wf L m1" using m1(2) assms(3) by simp
  have sg: "signers m1 = ms_signers (abs_multisig m)" unfolding m1(1) [symmetric] by (simp add: abs_multisig_def)
  then obtain x where x: "map_of (signedActionIDs m1) (show_int \<bar>sint i\<bar>) = Some x"
    using wf_signers(1) [OF wf, of "\<bar>sint i\<bar>"] assms(6) by fastforce
  have q: "mock_quorum m1 = ms_quorum (abs_multisig m)" unfolding m1(1) [symmetric] by (simp add: abs_multisig_def)
  let ?m = "if mock_quorum m1 \<le> int (length x) then m1\<lparr>performedAction := Some \<bar>sint i\<bar>\<rparr> else m1"
  have "abs_multisig ?m = ms_perform \<bar>sint i\<bar> (abs_multisig m)"
    using q sg wf_signers(2) [OF wf x] m1(1) by (simp add: ms_perform_def abs_performed)
  moreover have "processTransaction L H tx (m1, e) = Some ((), (?m, e'))"
    using tx e' x m1(1) assms(5) wf by (simp add: processTransaction_def mock_performAction_def actionIDExists_iff [OF ord])
  moreover have "mock_wf L ?m" using wf by simp
  ultimately show "\<exists>m' e'. processTransaction L H tx (m1, e) = Some ((), (m', e')) \<and> mock_wf L m'
      \<and> abs_multisig m' = ms_perform \<bar>sint i\<bar> (abs_multisig m)" by blast
qed (use assms(4) in simp_all)

text \<open>
  C17: The client on the simulated chain is a client of the abstract multisig contract, for the requests the contract does not
  refuse. Its queries answer from the abstract state: whether the batch is proposed, whether this relayer signed an
  action, whether there are signers and they reach the quorum, whether the action is the one performed. Its four transactions change the abstract state as
  specified. A transfer, of a batch in which no argument is empty or zero, is stored under its hash. The statuses of a
  batch, as many as the pending batch has deposits, are stored under theirs. A signature of an action that is proposed and
  has an identifier other than zero adds the relayer to its signers. Performing such an action, once somebody has signed it, marks it as
  performed exactly if its signers reach the quorum. (The simulated contract panics on a signature for an unknown action and on performing
  an action nobody signed; nothing is said of these.)
\<close>

theorem client_implements_multisig:
  assumes "client_on_mock L H d" and "handlers_return H" and "mock_wf L m"
  shows "(sendable b \<longrightarrow>
       WasProposedTransfer d (Some b) (m, e)
         = Some (Inr (ms_transfers (abs_multisig m) (transfer_hash L (transfer_of_batch b)) \<noteq> None), (m, e))
       \<and> (\<exists>r m' e'. ProposeTransfer d (Some b) (m, e) = Some (Inr r, (m', e')) \<and> mock_wf L m'
            \<and> abs_multisig m' = ms_propose_transfer (transfer_hash L (transfer_of_batch b)) (transfer_of_batch b) (abs_multisig m)))
   \<and> (ID b \<noteq> 0 \<and> ms_pending (abs_multisig m) = Some p \<and> length (Statuses b) = length (pb_ElrondDeposits p) \<longrightarrow>
       WasProposedSetStatus d (Some b) (m, e)
         = Some (Inr (ms_statuses (abs_multisig m) (status_hash L (status_of_batch b)) \<noteq> None), (m, e))
       \<and> (\<exists>r m' e'. ProposeSetStatus d (Some b) (m, e) = Some (Inr r, (m', e')) \<and> mock_wf L m'
            \<and> abs_multisig m' = ms_propose_status (status_hash L (status_of_batch b)) (status_of_batch b) (abs_multisig m)))
   \<and> (i \<noteq> 0 \<longrightarrow>
       getter_WasExecuted d i (m, e) = Some (Inr (ms_performed (abs_multisig m) = Some \<bar>sint i\<bar>), (m, e))
       \<and> WasSigned d i (m, e)
           = Some (Inr (mock_AddressAsBech32String L (relayerAddress d) \<in> ms_signers (abs_multisig m) \<bar>sint i\<bar>), (m, e))
       \<and> QuorumReached d i (m, e) = Some (Inr (ms_signers (abs_multisig m) \<bar>sint i\<bar> \<noteq> {}
           \<and> ms_quorum (abs_multisig m) \<le> int (card (ms_signers (abs_multisig m) \<bar>sint i\<bar>))), (m, e)))
   \<and> (i \<noteq> 0 \<and> \<bar>sint i\<bar> \<in> ms_actions (abs_multisig m) \<longrightarrow>
       (\<exists>r m' e'. Sign d i (m, e) = Some (Inr r, (m', e')) \<and> mock_wf L m'
          \<and> abs_multisig m' = ms_sign \<bar>sint i\<bar> (mock_AddressAsBech32String L (relayerAddress d)) (abs_multisig m))
       \<and> (ms_signers (abs_multisig m) \<bar>sint i\<bar> \<noteq> {} \<longrightarrow>
            (\<exists>r m' e'. PerformAction d i (Some b) (m, e) = Some (Inr r, (m', e')) \<and> mock_wf L m'
               \<and> abs_multisig m' = ms_perform \<bar>sint i\<bar> (abs_multisig m))))"
    (is "?transfer \<and> ?status \<and> ?queries \<and> ?actions")
proof (intro conjI)
  show ?transfer
    using client_WasProposedTransfer [OF assms(1)] client_ProposeTransfer [OF assms] by (simp add: abs_multisig_def)
  show ?status
    using client_WasProposedSetStatus [OF assms(1)] client_ProposeSetStatus [OF assms(1,3)] by (simp add: abs_multisig_def)
  have abs: "ms_signers (abs_multisig m) = signers m" "ms_performed (abs_multisig m) = performedAction m"
    "ms_quorum (abs_multisig m) = mock_quorum m" by (simp_all add: abs_multisig_def)
  have quorum: "(case map_of (signedActionIDs m) (show_int a) of None \<Rightarrow> False | Some x \<Rightarrow> mock_quorum m \<le> int (length x))
      \<longleftrightarrow> signers m a \<noteq> {} \<and> mock_quorum m \<le> int (card (signers m a))" for a
    using wf_signers [OF assms(3), of a] by (auto split: option.split)
  show ?queries unfolding abs using client_action_queries [OF assms(1)] quorum by simp
  show ?actions using client_Sign [OF assms(1,3)] client_PerformAction [OF assms] by blast
qed

subsection \<open>A round of the relayers\<close>

text \<open>
  What a set of relayers does to have an action performed, on the level of the client: one proposes it, each asks for the
  identifier of the action and signs it, and one performs it and asks whether it was executed. The two half-bridges
  differ in what is proposed and how the identifier is asked for (\<open>ask\<close>).
\<close>

definition sign_asked ::
  "(('s, 'a, 'z) elrondClientDeps_scheme \<Rightarrow> ('s, uint64 res) go) \<Rightarrow> ('s, 'a, 'z) elrondClientDeps_scheme \<Rightarrow> ('s, string res) go" where
  "sign_asked ask d = (\<lambda>s. do {
     (r, s) \<leftarrow> ask d s;
     case r of Inl err \<Rightarrow> Some (Inl err, s) | Inr act \<Rightarrow> Sign d act s })"

fun sign_all ::
  "(('s, 'a, 'z) elrondClientDeps_scheme \<Rightarrow> ('s, uint64 res) go) \<Rightarrow> ('s, 'a, 'z) elrondClientDeps_scheme list
   \<Rightarrow> ('s, unit res) go" where
  "sign_all ask [] s = Some (Inr (), s)"
| "sign_all ask (d # ds) s = do {
     (r, s) \<leftarrow> sign_asked ask d s;
     case r of Inl err \<Rightarrow> Some (Inl err, s) | Inr _ \<Rightarrow> sign_all ask ds s }"

definition perform_asked ::
  "(('s, 'a, 'z) elrondClientDeps_scheme \<Rightarrow> ('s, uint64 res) go) \<Rightarrow> ('s, 'a, 'z) elrondClientDeps_scheme \<Rightarrow> TransferBatch
   \<Rightarrow> ('s, bool res) go" where
  "perform_asked ask d b = (\<lambda>s. do {
     (r, s) \<leftarrow> ask d s;
     case r of
       Inl err \<Rightarrow> Some (Inl err, s)
     | Inr act \<Rightarrow> do {
         (r, s) \<leftarrow> PerformAction d act (Some b) s;
         case r of Inl err \<Rightarrow> Some (Inl err, s) | Inr _ \<Rightarrow> getter_WasExecuted d act s } })"

definition round_of ::
  "('s, string res) go \<Rightarrow> (('s, 'a, 'z) elrondClientDeps_scheme \<Rightarrow> ('s, uint64 res) go) \<Rightarrow> ('s, 'a, 'z) elrondClientDeps_scheme
   \<Rightarrow> ('s, 'a, 'z) elrondClientDeps_scheme list \<Rightarrow> TransferBatch \<Rightarrow> ('s, bool res) go" where
  \<comment> \<open>the first error of a proposal, a signature or the execution ends the round\<close>
  "round_of propose ask leader ds b = (\<lambda>s. do {
     (r, s) \<leftarrow> propose s;
     case r of
       Inl err \<Rightarrow> Some (Inl err, s)
     | Inr _ \<Rightarrow> do {
         (r, s) \<leftarrow> sign_all ask ds s;
         case r of Inl err \<Rightarrow> Some (Inl err, s) | Inr _ \<Rightarrow> perform_asked ask leader b s } })"

definition transfer_round ::
  "('s, 'a, 'z) elrondClientDeps_scheme \<Rightarrow> ('s, 'a, 'z) elrondClientDeps_scheme list \<Rightarrow> TransferBatch \<Rightarrow> ('s, bool res) go" where
  "transfer_round leader ds b =
     round_of (ProposeTransfer leader (Some b)) (\<lambda>d. GetActionIDForProposeTransfer d (Some b)) leader ds b"

definition status_round ::
  "('s, 'a, 'z) elrondClientDeps_scheme \<Rightarrow> ('s, 'a, 'z) elrondClientDeps_scheme list \<Rightarrow> TransferBatch \<Rightarrow> ('s, bool res) go" where
  "status_round leader ds b =
     round_of (ProposeSetStatus leader (Some b)) (\<lambda>d. GetActionIDForSetStatusOnPendingTransfer d (Some b)) leader ds b"

text \<open>The identifier a client is told depends on the proposals and the pending batch only.\<close>

definition tells ::
  "(('a, 'addr) ElrondChainMock \<times> 'e, uint64 res) go \<Rightarrow> uint64 \<Rightarrow> ('a, 'addr) multisig \<Rightarrow> bool" where
  "tells ask i ms \<longleftrightarrow> (\<forall>m e. ms_transfers (abs_multisig m) = ms_transfers ms \<and> ms_statuses (abs_multisig m) = ms_statuses ms
     \<and> ms_pending (abs_multisig m) = ms_pending ms \<longrightarrow> ask (m, e) = Some (Inr i, (m, e)))"

lemma finite_signers [simp]: "finite (signers m a)"
  by (simp add: signers_def split: option.split)

lemma fold_ms_sign:
  "fold (\<lambda>d. ms_sign a (f d)) ds ms = ms\<lparr>ms_signers := (ms_signers ms)(a := ms_signers ms a \<union> f ` set ds)\<rparr>"
  by (induction ds arbitrary: ms) (auto simp: ms_sign_def)

lemma tells_signed [simp]: "tells ask i (ms_sign a adr ms) = tells ask i ms"
  by (simp add: tells_def ms_sign_def)

lemma actions_signed [simp]: "ms_actions (ms_sign a adr ms) = ms_actions ms"
  by (simp add: ms_actions_def ms_sign_def)

lemma sign_all_signs:
  assumes "\<forall>d \<in> set ds. client_on_mock L H d \<and> tells (ask d) i (abs_multisig m)" and "mock_wf L m" and "i \<noteq> 0"
    and "\<bar>sint i\<bar> \<in> ms_actions (abs_multisig m)"
  shows "\<exists>m' e'. sign_all ask ds (m, e) = Some (Inr (), (m', e')) \<and> mock_wf L m'
     \<and> abs_multisig m' = fold (\<lambda>d. ms_sign \<bar>sint i\<bar> (mock_AddressAsBech32String L (relayerAddress d))) ds (abs_multisig m)"
  using assms
proof (induction ds arbitrary: m e)
  case Nil
  then show ?case by simp
next
  case (Cons d ds)
  obtain h m' e' where s: "Sign d i (m, e) = Some (Inr h, (m', e'))" "mock_wf L m'"
    "abs_multisig m' = ms_sign \<bar>sint i\<bar> (mock_AddressAsBech32String L (relayerAddress d)) (abs_multisig m)"
    using client_Sign [of L H d m i e] Cons.prems by auto
  have "ask d (m, e) = Some (Inr i, (m, e))" using Cons.prems(1) by (simp add: tells_def)
  then have "sign_asked ask d (m, e) = Some (Inr h, (m', e'))" using s(1) by (simp add: sign_asked_def)
  moreover obtain m'' e'' where "sign_all ask ds (m', e') = Some (Inr (), (m'', e''))" "mock_wf L m''"
    "abs_multisig m'' = fold (\<lambda>d. ms_sign \<bar>sint i\<bar> (mock_AddressAsBech32String L (relayerAddress d))) ds (abs_multisig m')"
    using Cons.IH [of m' e'] Cons.prems s(2,3) by auto
  ultimately show ?case using s(3) by auto
qed

text \<open>A proposed action goes through once different relayers that reach the quorum sign it.\<close>

lemma agreement_executes:
  fixes m :: "('a, 'addr) ElrondChainMock"
  assumes "\<forall>d \<in> set (leader # ds). client_on_mock L H d \<and> tells (ask d) i (abs_multisig m)" and "handlers_return H"
    and "mock_wf L m" and "i \<noteq> 0" and "\<bar>sint i\<bar> \<in> ms_actions (abs_multisig m)" and "ds \<noteq> []"
    and "mock_quorum m \<le> int (card ((\<lambda>d. mock_AddressAsBech32String L (relayerAddress d)) ` set ds))"
  shows "\<exists>m1 e1 m2 e2. sign_all ask ds (m, e) = Some (Inr (), (m1, e1)) \<and> perform_asked ask leader b (m1, e1) = Some (Inr True, (m2, e2))
     \<and> mock_wf L m2 \<and> performedAction m2 = Some \<bar>sint i\<bar>
     \<and> map_of (proposedTransfers m2) = map_of (proposedTransfers m) \<and> map_of (proposedStatus m2) = map_of (proposedStatus m)"
proof -
  let ?a = "\<bar>sint i\<bar>" and ?addr = "\<lambda>d. mock_AddressAsBech32String L (relayerAddress d)"
  have leader: "client_on_mock L H leader" "tells (ask leader) i (abs_multisig m)" using assms(1) by simp_all
  obtain m1 e1 where s: "sign_all ask ds (m, e) = Some (Inr (), (m1, e1))" "mock_wf L m1"
    "abs_multisig m1 = fold (\<lambda>d. ms_sign ?a (?addr d)) ds (abs_multisig m)"
    using sign_all_signs [of ds L H ask i m e] assms(1,3-5) by auto
  then have abs1: "abs_multisig m1 = (abs_multisig m)\<lparr>ms_signers := (signers m)(?a := signers m ?a \<union> ?addr ` set ds)\<rparr>"
    by (simp add: fold_ms_sign abs_multisig_def)
  have "card (?addr ` set ds) \<le> card (signers m ?a \<union> ?addr ` set ds)" by (intro card_mono) simp_all
  with abs1 assms(7) have q: "ms_quorum (abs_multisig m1) \<le> int (card (ms_signers (abs_multisig m1) ?a))"
    by (simp add: abs_multisig_def)
  have act: "?a \<in> ms_actions (abs_multisig m1)" "ms_signers (abs_multisig m1) ?a \<noteq> {}"
    using abs1 assms(5,6) by (simp_all add: ms_actions_def)
  obtain x m2 e2 where f: "PerformAction leader i (Some b) (m1, e1) = Some (Inr x, (m2, e2))" "mock_wf L m2"
    "abs_multisig m2 = ms_perform ?a (abs_multisig m1)"
    using client_PerformAction [OF leader(1) assms(2) s(2) assms(4) act] by blast
  then have "abs_multisig m2 = (abs_multisig m1)\<lparr>ms_performed := Some ?a\<rparr>" using q by (simp add: ms_perform_def)
  with abs1 have m2: "performedAction m2 = Some ?a" "map_of (proposedTransfers m2) = map_of (proposedTransfers m)"
    "map_of (proposedStatus m2) = map_of (proposedStatus m)"
    by (simp_all add: abs_multisig_def)
  have "ask leader (m1, e1) = Some (Inr i, (m1, e1))" using leader(2) abs1 by (simp add: tells_def)
  then have "perform_asked ask leader b (m1, e1) = Some (Inr True, (m2, e2))"
    using f(1) m2(1) client_action_queries(1) [OF leader(1) assms(4)] by (simp add: perform_asked_def)
  with s(1) f(2) m2 show ?thesis by blast
qed

lemma find_transfer_unique:
  assumes "\<forall>h \<in> set hs. 8 \<le> length h" and "\<exists>h \<in> set hs. \<bar>sint (hash_id h)\<bar> = a"
    and "\<forall>h \<in> set hs. \<bar>sint (hash_id h)\<bar> = a \<longrightarrow> map_of tr h = Some t"
  shows "find_transfer hs tr a = Some (Some t)"
  using assms by (induction hs) (auto simp: HashToActionID_value)

lemma performed_transfer:
  assumes "range_order (range_hashes L)" and "mock_wf L m" and "performedAction m = Some \<bar>sint (hash_id h)\<bar>"
    and "map_of (proposedTransfers m) h = Some t"
    and "\<forall>h' \<in> dom (map_of (proposedTransfers m)). \<bar>sint (hash_id h')\<bar> = \<bar>sint (hash_id h)\<bar> \<longrightarrow> h' = h"
  shows "ProposedTransfer L m = Some (Some t)"
proof -
  have dom: "dom (map_of (proposedTransfers m)) = fst ` set (proposedTransfers m)" by (rule dom_map_of_conv_image_fst)
  have hs: "set (range_hashes L (map fst (proposedTransfers m))) = fst ` set (proposedTransfers m)"
    by (simp add: range_orderD(1) [OF assms(1)])
  have "find_transfer (range_hashes L (map fst (proposedTransfers m))) (proposedTransfers m) \<bar>sint (hash_id h)\<bar> = Some (Some t)"
  proof (rule find_transfer_unique)
    show "\<forall>h \<in> set (range_hashes L (map fst (proposedTransfers m))). 8 \<le> length h"
      using assms(2) unfolding hs mock_wf_def by auto
    have "h \<in> fst ` set (proposedTransfers m)" using assms(4) dom by blast
    then show "\<exists>h' \<in> set (range_hashes L (map fst (proposedTransfers m))). \<bar>sint (hash_id h')\<bar> = \<bar>sint (hash_id h)\<bar>"
      unfolding hs by blast
    show "\<forall>h' \<in> set (range_hashes L (map fst (proposedTransfers m))). \<bar>sint (hash_id h')\<bar> = \<bar>sint (hash_id h)\<bar>
       \<longrightarrow> map_of (proposedTransfers m) h' = Some t"
      unfolding hs using assms(4,5) dom by blast
  qed
  then show ?thesis using assms(3) by (simp add: ProposedTransfer_def)
qed

lemma told_transfer:
  assumes "client_on_mock L H d" and "sendable b" and "ms_transfers ms (transfer_hash L (transfer_of_batch b)) \<noteq> None"
  shows "tells (GetActionIDForProposeTransfer d (Some b)) (hash_id (transfer_hash L (transfer_of_batch b))) ms"
  unfolding tells_def
proof (intro allI impI)
  fix m :: "('a, 'b) ElrondChainMock" and e
  assume "ms_transfers (abs_multisig m) = ms_transfers ms \<and> ms_statuses (abs_multisig m) = ms_statuses ms
    \<and> ms_pending (abs_multisig m) = ms_pending ms"
  then have "map_of (proposedTransfers m) (transfer_hash L (transfer_of_batch b)) \<noteq> None"
    using assms(3) by (simp add: abs_multisig_def)
  then show "GetActionIDForProposeTransfer d (Some b) (m, e)
      = Some (Inr (hash_id (transfer_hash L (transfer_of_batch b))), (m, e))"
    by (rule client_GetActionIDForProposeTransfer [OF assms(1,2)])
qed

lemma told_status:
  assumes "client_on_mock L H d" and "ID b \<noteq> 0" and "ms_statuses ms (status_hash L (status_of_batch b)) \<noteq> None"
    and "ms_pending ms = Some p" and "length (Statuses b) = length (pb_ElrondDeposits p)"
  shows "tells (GetActionIDForSetStatusOnPendingTransfer d (Some b)) (hash_id (status_hash L (status_of_batch b))) ms"
  unfolding tells_def
proof (intro allI impI)
  fix m :: "('a, 'b) ElrondChainMock" and e
  assume "ms_transfers (abs_multisig m) = ms_transfers ms \<and> ms_statuses (abs_multisig m) = ms_statuses ms
    \<and> ms_pending (abs_multisig m) = ms_pending ms"
  then have "pendingBatch m = Some p" "map_of (proposedStatus m) (status_hash L (status_of_batch b)) \<noteq> None"
    using assms(3,4) by (simp_all add: abs_multisig_def)
  then show "GetActionIDForSetStatusOnPendingTransfer d (Some b) (m, e)
      = Some (Inr (hash_id (status_hash L (status_of_batch b))), (m, e))"
    using assms(5) by (intro client_GetActionIDForSetStatus [OF assms(1,2)])
qed

lemma transfer_round_executes:
  fixes m :: "('a, 'addr) ElrondChainMock"
  assumes "\<forall>d \<in> set (leader # ds). client_on_mock L H d" and "handlers_return H" and "mock_wf L m" and "sendable b"
    and "ds \<noteq> []" and "mock_quorum m \<le> int (card ((\<lambda>d. mock_AddressAsBech32String L (relayerAddress d)) ` set ds))"
    and "h = transfer_hash L (transfer_of_batch b)" and "hash_id h \<noteq> 0"
    and "\<forall>h' \<in> dom (map_of (proposedTransfers m)). \<bar>sint (hash_id h')\<bar> = \<bar>sint (hash_id h)\<bar> \<longrightarrow> h' = h"
  shows "\<exists>m' e'. transfer_round leader ds b (m, e) = Some (Inr True, (m', e'))
     \<and> PerformedActionID m' = Some \<bar>sint (hash_id h)\<bar> \<and> ProposedTransfer L m' = Some (Some (transfer_of_batch b))"
proof -
  let ?t = "transfer_of_batch b" and ?i = "hash_id h"
  let ?ask = "\<lambda>d. GetActionIDForProposeTransfer d (Some b)"
  obtain x1 m1 e1 where p: "ProposeTransfer leader (Some b) (m, e) = Some (Inr x1, (m1, e1))" "mock_wf L m1"
    "abs_multisig m1 = ms_propose_transfer h ?t (abs_multisig m)"
    using client_ProposeTransfer [of L H leader m b e] assms(1-4,7) by auto
  then have t1: "ms_transfers (abs_multisig m1) h = Some ?t" "mock_quorum m1 = mock_quorum m"
    "map_of (proposedTransfers m1) = (map_of (proposedTransfers m))(h \<mapsto> ?t)"
    by (simp_all add: ms_propose_transfer_def abs_multisig_def)
  have told: "\<forall>d \<in> set (leader # ds). client_on_mock L H d \<and> tells (?ask d) ?i (abs_multisig m1)"
    using assms(1,4,7) t1(1) told_transfer [of L H _ b "abs_multisig m1"] by auto
  have act: "\<bar>sint ?i\<bar> \<in> ms_actions (abs_multisig m1)" using t1(1) by (auto simp: ms_actions_def domIff)
  obtain m2 e2 m3 e3 where r: "sign_all ?ask ds (m1, e1) = Some (Inr (), (m2, e2))"
      "perform_asked ?ask leader b (m2, e2) = Some (Inr True, (m3, e3))" "mock_wf L m3" "performedAction m3 = Some \<bar>sint ?i\<bar>"
      "map_of (proposedTransfers m3) = map_of (proposedTransfers m1)"
    using agreement_executes [OF told assms(2) p(2) assms(8) act assms(5), of e1 b] assms(6) t1(2) by auto
  have "range_order (range_hashes L)" using assms(1) by (simp add: client_on_mock_def mockLib_ok_def)
  then have "ProposedTransfer L m3 = Some (Some ?t)"
    using r(3-5) t1(3) assms(9) by (intro performed_transfer) auto
  moreover have "transfer_round leader ds b (m, e) = Some (Inr True, (m3, e3))"
    using p(1) r(1,2) by (simp add: transfer_round_def round_of_def)
  ultimately show ?thesis using r(4) by (simp add: PerformedActionID_def)
qed

lemma status_round_executes:
  fixes m :: "('a, 'addr) ElrondChainMock"
  assumes "\<forall>d \<in> set (leader # ds). client_on_mock L H d" and "handlers_return H" and "mock_wf L m" and "ID b \<noteq> 0"
    and "ds \<noteq> []" and "mock_quorum m \<le> int (card ((\<lambda>d. mock_AddressAsBech32String L (relayerAddress d)) ` set ds))"
    and "h = status_hash L (status_of_batch b)" and "hash_id h \<noteq> 0"
    and "pendingBatch m = Some p" and "length (Statuses b) = length (pb_ElrondDeposits p)"
  shows "\<exists>m' e'. status_round leader ds b (m, e) = Some (Inr True, (m', e'))
     \<and> PerformedActionID m' = Some \<bar>sint (hash_id h)\<bar> \<and> map_of (proposedStatus m') h = Some (status_of_batch b)"
proof -
  let ?t = "status_of_batch b" and ?i = "hash_id h"
  let ?ask = "\<lambda>d. GetActionIDForSetStatusOnPendingTransfer d (Some b)"
  obtain x1 m1 e1 where p: "ProposeSetStatus leader (Some b) (m, e) = Some (Inr x1, (m1, e1))" "mock_wf L m1"
    "abs_multisig m1 = ms_propose_status h ?t (abs_multisig m)"
    using client_ProposeSetStatus [OF _ assms(3,4,9,10), of H leader e] assms(1,7) by auto
  then have t1: "ms_statuses (abs_multisig m1) h = Some ?t" "mock_quorum m1 = mock_quorum m" "pendingBatch m1 = Some p"
    using assms(9) by (simp_all add: ms_propose_status_def abs_multisig_def)
  have told: "\<forall>d \<in> set (leader # ds). client_on_mock L H d \<and> tells (?ask d) ?i (abs_multisig m1)"
    using assms(1,4,7,10) t1(1,3) told_status [of L H _ b "abs_multisig m1" p] by (auto simp: abs_multisig_def)
  have act: "\<bar>sint ?i\<bar> \<in> ms_actions (abs_multisig m1)" using t1(1) by (auto simp: ms_actions_def domIff)
  obtain m2 e2 m3 e3 where r: "sign_all ?ask ds (m1, e1) = Some (Inr (), (m2, e2))"
      "perform_asked ?ask leader b (m2, e2) = Some (Inr True, (m3, e3))" "performedAction m3 = Some \<bar>sint ?i\<bar>"
      "map_of (proposedStatus m3) = map_of (proposedStatus m1)"
    using agreement_executes [OF told assms(2) p(2) assms(8) act assms(5), of e1 b] assms(6) t1(2) by auto
  then show ?thesis
    using p(1) t1(1) by (simp add: status_round_def round_of_def PerformedActionID_def abs_multisig_def)
qed

subsection \<open>The pending batch\<close>

definition pending_fields :: "('a, 'addr) mockLib \<Rightarrow> ('a, 'addr) ElrondDeposit \<Rightarrow> bytes list" where
  "pending_fields L dep =
     [[], big_Int_Bytes (uint (ed_DepositNonce dep)), AddressBytes L (ed_From dep), mock_Address_Bytes L (ed_To dep),
      bytes_of_string (ed_Ticker dep), big_Int_Bytes (ed_Amount dep)]"

definition deposit_of_pending ::
  "('a, 'addr) mockLib \<Rightarrow> (bytes \<Rightarrow> string) \<Rightarrow> (string \<Rightarrow> bytes) \<Rightarrow> ('a, 'addr) ElrondDeposit \<Rightarrow> DepositTransfer" where
  "deposit_of_pending L bech conv dep =
     \<lparr> Nonce = ed_DepositNonce dep, ToBytes = mock_Address_Bytes L (ed_To dep),
       DisplayableTo = ToHexStringWithPrefix (mock_Address_Bytes L (ed_To dep)),
       FromBytes = AddressBytes L (ed_From dep), DisplayableFrom = bech (AddressBytes L (ed_From dep)),
       TokenBytes = bytes_of_string (ed_Ticker dep), ConvertedTokenBytes = conv (ed_Ticker dep),
       DisplayableToken = ed_Ticker dep, Amount = Some \<bar>ed_Amount dep\<bar> \<rparr>"

lemma mock_pending_loop:
  assumes "\<forall>dep \<in> set ds. tokensMapper d (bytes_of_string (ed_Ticker dep)) s = Some (Inr (conv (ed_Ticker dep)), s)"
    and "\<forall>k c. map_of cached k = Some c \<longrightarrow> c = conv k"
  shows "pending_loop d i (concat (map (pending_fields L) ds)) cached b s
       = Some (Inr (b\<lparr>Deposits := Deposits b @ map (deposit_of_pending L (ToBech32String d) conv) ds\<rparr>), s)"
  using assms
proof (induction ds arbitrary: i cached b)
  case (Cons dep ds)
  have n: "parseUInt64FromByteSlice (big_Int_Bytes (uint (ed_DepositNonce dep))) = Inr (ed_DepositNonce dep)"
    using uint_lt2p [of "ed_DepositNonce dep"] by (simp add: parseUInt64_cases)
  let ?cached = "if map_of cached (ed_Ticker dep) = None
      then AList.update (ed_Ticker dep) (conv (ed_Ticker dep)) cached else cached"
  have conv: "convert_cached (tokensMapper d) (ed_Ticker dep) (bytes_of_string (ed_Ticker dep)) cached s
      = Some (Inr (conv (ed_Ticker dep), ?cached), s)"
    using Cons.prems by (auto simp: convert_cached_def split: option.split)
  have cached: "\<forall>k c. map_of ?cached k = Some c \<longrightarrow> c = conv k"
    using Cons.prems(2) by (auto simp: update_conv')
  have IH: "pending_loop d (i + 1) (concat (map (pending_fields L) ds)) ?cached b' s
      = Some (Inr (b'\<lparr>Deposits := Deposits b' @ map (deposit_of_pending L (ToBech32String d) conv) ds\<rparr>), s)" for b'
    by (rule Cons.IH [OF _ cached]) (use Cons.prems(1) in simp)
  show ?case
    unfolding list.map concat.simps pending_fields_def [of L dep] append_Cons append_Nil pending_loop.simps n sum.case Let_def
    using conv IH by (simp add: deposit_of_pending_def del: pending_loop.simps)
qed simp

lemma mock_pending_answer:
  assumes "client_on_mock L H d" and "pendingBatch m = Some p"
  shows "GetCurrentBatchAsDataBytes d (m, e)
     = Some (Inr (big_Int_Bytes (pb_Nonce p) # concat (map (pending_fields L) (pb_ElrondDeposits p))), (m, e))"
proof -
  obtain req where req: "ToVmValueRequest d (createDefaultVmQueryBuilder d @ [Function getCurrentTxBatchFuncName]) = Inr (Some req)"
    "FuncName req = getCurrentTxBatchFuncName" by (rule built_request [OF assms(1), of "[]"]) simp_all
  moreover have "proxy d = mock_proxy L H" using assms(1) by (simp add: client_on_mock_def)
  ultimately show ?thesis
    using assms(2)
    by (simp add: GetCurrentBatchAsDataBytes_def executeQueryFromBuilder_def ExecuteQueryReturningBytes_def mock_query_defs
        getCurrentTxBatchFuncName_def vmRequestGetCurrentPendingBatch_def fold_append pending_fields_def [abs_def])
qed

lemma mock_registry_answer:
  assumes "client_on_mock L H d" and "ticker \<noteq> ''''"
    and "getErc20Address m (hex_EncodeToString (bytes_of_string ticker)) = Some erc20"
  shows "GetERC20AddressForTokenId d (bytes_of_string ticker) (m, e) = Some (Inr [mock_Address_Bytes L erc20], (m, e))"
proof -
  have "plain_args (AddressBytes L) [ArgBytes (bytes_of_string ticker)]" using assms(2) by (simp add: bytes_of_string_def)
  then obtain req where req: "ToVmValueRequest d (createDefaultVmQueryBuilder d
        @ Function getErc20AddressForTokenIdFuncName # [ArgBytes (bytes_of_string ticker)]) = Inr (Some req)"
    "FuncName req = getErc20AddressForTokenIdFuncName" "Args req = [hex_EncodeToString (bytes_of_string ticker)]"
    by (rule built_request [OF assms(1)]) auto
  moreover have "proxy d = mock_proxy L H" using assms(1) by (simp add: client_on_mock_def)
  ultimately show ?thesis
    using assms(3)
    by (simp add: GetERC20AddressForTokenId_def executeQueryFromBuilder_def ExecuteQueryReturningBytes_def mock_query_defs
        getErc20AddressForTokenIdFuncName_def vmRequestGetErc20AddressForTokenId_def)
qed

definition getter_of :: "('s, 'a, 'z) dataGetterDeps_scheme \<Rightarrow> 's mappersDataGetter" where
  "getter_of d = \<lparr> dg_GetTokenIdForErc20Address = GetTokenIdForErc20Address d,
                   dg_GetERC20AddressForTokenId = GetERC20AddressForTokenId d \<rparr>"

lemma mock_GetPending:
  fixes m :: "('a, 'addr) ElrondChainMock"
  assumes "client_on_mock L H d" and "tokensMapper d = elrondToErc20_ConvertToken (getter_of d)"
    and "pendingBatch m = Some p" and "pb_ElrondDeposits p \<noteq> []" and "0 \<le> pb_Nonce p" and "pb_Nonce p < 2 ^ 64"
    and "\<forall>dep \<in> set (pb_ElrondDeposits p). ed_Ticker dep \<noteq> []
        \<and> getErc20Address m (hex_EncodeToString (bytes_of_string (ed_Ticker dep))) = Some (erc20 (ed_Ticker dep))"
  shows "GetPending d (m, e) = Some (Inr (Some \<lparr> ID = word_of_int (pb_Nonce p),
      Deposits = map (deposit_of_pending L (ToBech32String d) (\<lambda>t. mock_Address_Bytes L (erc20 t))) (pb_ElrondDeposits p),
      Statuses = replicate (length (pb_ElrondDeposits p)) 0 \<rparr>), (m, e))"
proof -
  let ?ds = "pb_ElrondDeposits p" and ?conv = "\<lambda>t. mock_Address_Bytes L (erc20 t)"
  let ?rs = "big_Int_Bytes (pb_Nonce p) # concat (map (pending_fields L) ?ds)"
  let ?out = "map (deposit_of_pending L (ToBech32String d) ?conv) ?ds"
  have "\<forall>dep \<in> set ?ds. tokensMapper d (bytes_of_string (ed_Ticker dep)) (m, e) = Some (Inr (?conv (ed_Ticker dep)), (m, e))"
    using assms(7) by (auto simp: assms(2) elrondToErc20_ConvertToken_def getter_of_def mock_registry_answer [OF assms(1)])
  then have loop: "pending_loop d 0 (concat (map (pending_fields L) ?ds)) [] b (m, e)
      = Some (Inr (b\<lparr>Deposits := Deposits b @ ?out\<rparr>), (m, e))" for b
    by (rule mock_pending_loop) simp
  have len: "length (concat (map (pending_fields L) ds)) = 6 * length ds" for ds
    by (induction ds) (simp_all add: pending_fields_def)
  have args: "(int (length ?rs) - 1) smod numFieldsForTransaction = 0 \<and> int (length ?rs) > 1"
    unfolding correct_number_of_args using assms(4) len [of ?ds] by simp
  have "\<not> emptyResponse ?rs" using assms(4) by (cases ?ds) (simp_all add: emptyResponse_iff pending_fields_def)
  moreover have "parseUInt64FromByteSlice (?rs ! 0) = Inr (word_of_int (pb_Nonce p))"
    using assms(5,6) by (simp add: parseUInt64_cases)
  ultimately show ?thesis
    using args loop mock_pending_answer [OF assms(1,3), of e]
    by (simp add: GetPending_def createPendingBatchFromResponse_def)
qed

lemma mock_ticker_answer:
  assumes "client_on_mock L H d" and "tok \<noteq> []" and "getTicker m (HexToAddress L (hex_EncodeToString tok)) = Some ticker"
  shows "GetTokenIdForErc20Address d tok (m, e) = Some (Inr [bytes_of_string ticker], (m, e))"
proof -
  have "plain_args (AddressBytes L) [ArgBytes tok]" using assms(2) by simp
  then obtain req where req: "ToVmValueRequest d (createDefaultVmQueryBuilder d
        @ Function getTokenIdForErc20AddressFuncName # [ArgBytes tok]) = Inr (Some req)"
    "FuncName req = getTokenIdForErc20AddressFuncName" "Args req = [hex_EncodeToString tok]"
    by (rule built_request [OF assms(1)]) auto
  moreover have "proxy d = mock_proxy L H" using assms(1) by (simp add: client_on_mock_def)
  ultimately show ?thesis
    using assms(3)
    by (simp add: GetTokenIdForErc20Address_def executeQueryFromBuilder_def ExecuteQueryReturningBytes_def mock_query_defs
        getTokenIdForErc20AddressFuncName_def vmRequestGetTokenIdForErc20Address_def)
qed

end
