(* ===== verification/Ethereum_Chain_Mock.thy ===== *)
theory Ethereum_Chain_Mock
  imports Ethereum_Client_Correct
begin

section \<open>The simulated Ethereum chain (integrationTests/mock/ethereumChainMock.go)\<close>

text \<open>
  The chain the integration tests give to the Ethereum client in place of the wrapper around the node and the
  contract. As for the Elrond chain, the callbacks of a test act on a state \<open>'e\<close> of the test, a panic is \<open>None\<close>, and
  the serialisation and the hash of a transaction are parameters. The mock counts no requests: its methods on
  metrics do nothing.
\<close>

record 'addr EthereumProposedTransfer =
  ept_BatchNonce :: int
  ept_Tokens :: "'addr list"
  ept_Recipients :: "'addr list"
  ept_Amounts :: "int list"
  ept_Nonces :: "int list"
  ept_Signatures :: "bytes list"

record 'addr EthereumChainMock =
  ethm_nonces :: "('addr, uint64) gomap"
  ethm_batches :: "(uint64, Batch) gomap"
  ethm_deposits :: "(uint64, 'addr Deposit list) gomap"
  ethm_proposedTransfer :: "'addr EthereumProposedTransfer option"
  ethm_quorum :: int
  ethm_relayers :: "'addr list"

record ('addr, 'e) ethMockHandlers =
  ethm_GetStatusesAfterExecutionHandler :: "('e, bytes) go option"
  ethm_ProposeMultiTransferEsdtBatchCalled :: "('e, unit) go option"
  ethm_BalanceAtCalled :: "('addr \<Rightarrow> ('e, int res) go) option"

record 'addr ethMockLib =
  Marshal_proposedTransfer :: "'addr EthereumProposedTransfer \<Rightarrow> bytes res"
  LegacyTx_Hash :: "bytes \<Rightarrow> string"

definition NewEthereumChainMock :: "'addr EthereumChainMock" where
  "NewEthereumChainMock =
     \<lparr> ethm_nonces = [], ethm_batches = [], ethm_deposits = [], ethm_proposedTransfer = None, ethm_quorum = 0,
       ethm_relayers = [] \<rparr>"

definition ethm_SetIntMetric :: "string \<Rightarrow> int \<Rightarrow> ('s, unit) go" where
  "ethm_SetIntMetric _ _ = (\<lambda>s. Some ((), s))"

definition ethm_AddIntMetric :: "string \<Rightarrow> int \<Rightarrow> ('s, unit) go" where
  "ethm_AddIntMetric _ _ = (\<lambda>s. Some ((), s))"

definition ethm_SetStringMetric :: "string \<Rightarrow> string \<Rightarrow> ('s, unit) go" where
  "ethm_SetStringMetric _ _ = (\<lambda>s. Some ((), s))"

subsection \<open>Queries\<close>

definition ethm_GetBatch :: "int \<Rightarrow> ('addr EthereumChainMock \<times> 'e, Batch res) go" where
  "ethm_GetBatch batchNonce = (\<lambda>(mock, e).
     case map_of (ethm_batches mock) (big_Uint64 batchNonce) of
       None \<Rightarrow> Some (Inl (ErrNew '''' (''batch '' @ show_int batchNonce @ '' not found'')), (mock, e))
     | Some bt \<Rightarrow> Some (Inr bt, (mock, e)))"

definition ethm_GetBatchDeposits :: "int \<Rightarrow> ('addr EthereumChainMock \<times> 'e, 'addr Deposit list res) go" where
  "ethm_GetBatchDeposits batchNonce = (\<lambda>(mock, e).
     case map_of (ethm_deposits mock) (big_Uint64 batchNonce) of
       None \<Rightarrow> Some (Inl (ErrNew '''' (''deposits for batch '' @ show_int batchNonce @ '' not found'')), (mock, e))
     | Some deposits \<Rightarrow> Some (Inr deposits, (mock, e)))"

definition ethm_GetRelayers :: "('addr EthereumChainMock \<times> 'e, 'addr list res) go" where
  "ethm_GetRelayers = (\<lambda>(mock, e). Some (Inr (ethm_relayers mock), (mock, e)))"

definition ethm_WasBatchExecuted :: "int \<Rightarrow> ('addr EthereumChainMock \<times> 'e, bool res) go" where
  "ethm_WasBatchExecuted batchNonce = (\<lambda>(mock, e).
     case ethm_proposedTransfer mock of
       None \<Rightarrow> Some (Inr False, (mock, e))
     | Some proposed \<Rightarrow> Some (Inr (batchNonce = ept_BatchNonce proposed), (mock, e)))"

definition ethm_ChainID :: "('s, int res) go" where
  "ethm_ChainID = (\<lambda>s. Some (Inr 1, s))"

definition ethm_BlockNumber :: "('s, uint64 res) go" where
  "ethm_BlockNumber = (\<lambda>s. Some (Inr 0, s))"

definition ethm_NonceAt :: "'addr \<Rightarrow> int \<Rightarrow> ('addr EthereumChainMock \<times> 'e, uint64 res) go" where
  \<comment> \<open>a missing key gives the zero of the type\<close>
  "ethm_NonceAt account _ = (\<lambda>(mock, e).
     Some (Inr (case map_of (ethm_nonces mock) account of None \<Rightarrow> 0 | Some n \<Rightarrow> n), (mock, e)))"

definition ethm_Quorum :: "('addr EthereumChainMock \<times> 'e, int res) go" where
  "ethm_Quorum = (\<lambda>(mock, e). Some (Inr (ethm_quorum mock), (mock, e)))"

definition ethm_GetStatusesAfterExecution ::
  "('addr, 'e) ethMockHandlers \<Rightarrow> int \<Rightarrow> ('addr EthereumChainMock \<times> 'e, bytes res) go" where
  "ethm_GetStatusesAfterExecution H _ = (\<lambda>(mock, e). do {
     handler \<leftarrow> ethm_GetStatusesAfterExecutionHandler H;
     (statuses, e) \<leftarrow> handler e;
     Some (Inr statuses, (mock, e)) })"

definition ethm_BalanceAt ::
  "('addr, 'e) ethMockHandlers \<Rightarrow> 'addr \<Rightarrow> ('addr EthereumChainMock \<times> 'e, int res) go" where
  "ethm_BalanceAt H account = (\<lambda>(mock, e).
     case ethm_BalanceAtCalled H of
       Some handler \<Rightarrow> do { (r, e) \<leftarrow> handler account e; Some (r, (mock, e)) }
     | None \<Rightarrow> Some (Inr 0, (mock, e)))"

definition ethm_IsPaused :: "('s, bool res) go" where
  "ethm_IsPaused = (\<lambda>s. Some (Inr False, s))"

definition GetLastProposedTransfer :: "'addr EthereumChainMock \<Rightarrow> 'addr EthereumProposedTransfer option" where
  "GetLastProposedTransfer mock = ethm_proposedTransfer mock"

subsection \<open>Changes\<close>

definition ethm_AddRelayer :: "'addr \<Rightarrow> 'addr EthereumChainMock \<Rightarrow> 'addr EthereumChainMock" where
  "ethm_AddRelayer relayer mock = mock\<lparr>ethm_relayers := ethm_relayers mock @ [relayer]\<rparr>"

definition ethm_Clean :: "'addr EthereumChainMock \<Rightarrow> 'addr EthereumChainMock" where
  "ethm_Clean mock = mock\<lparr>ethm_batches := [], ethm_proposedTransfer := None\<rparr>"

definition AddBatch :: "Batch \<Rightarrow> 'addr EthereumChainMock \<Rightarrow> 'addr EthereumChainMock" where
  "AddBatch bt mock = mock\<lparr>ethm_batches := AList.update (big_Uint64 (Batch_Nonce bt)) bt (ethm_batches mock)\<rparr>"

definition AddDepositToBatch ::
  "uint64 \<Rightarrow> 'addr Deposit \<Rightarrow> 'addr EthereumChainMock \<Rightarrow> 'addr EthereumChainMock option" where
  \<comment> \<open>the counter of the stored batch is a \<^verbatim>\<open>uint16\<close>\<close>
  "AddDepositToBatch nonce deposit mock = do {
     bt \<leftarrow> map_of (ethm_batches mock) nonce;
     let deposits = (case map_of (ethm_deposits mock) nonce of None \<Rightarrow> [] | Some ds \<Rightarrow> ds) @ [deposit];
     let mock = mock\<lparr>ethm_deposits := AList.update nonce deposits (ethm_deposits mock)\<rparr>;
     Some (mock\<lparr>ethm_batches := AList.update nonce (bt\<lparr>DepositsCount := DepositsCount bt + 1\<rparr>) (ethm_batches mock)\<rparr>) }"

definition ethm_SetQuorum :: "int \<Rightarrow> 'addr EthereumChainMock \<Rightarrow> 'addr EthereumChainMock" where
  "ethm_SetQuorum quorum mock = mock\<lparr>ethm_quorum := quorum\<rparr>"

definition ethm_ExecuteTransfer ::
  "'addr ethMockLib \<Rightarrow> ('addr, 'e) ethMockHandlers \<Rightarrow> TransactOpts \<Rightarrow> 'addr list \<Rightarrow> 'addr list \<Rightarrow> int list \<Rightarrow> int list
   \<Rightarrow> int \<Rightarrow> bytes list \<Rightarrow> ('addr EthereumChainMock \<times> 'e, string res) go" where
  "ethm_ExecuteTransfer L H opts toks recips amnts nncs batchNonce signatures = (\<lambda>(mock, e).
     (let tokensLength = length toks;
          recipientsLength = length recips;
          amountsLength = length amnts;
          noncesLength = length nncs
      in if tokensLength \<noteq> recipientsLength then None
         else if recipientsLength \<noteq> amountsLength then None
         else if tokensLength \<noteq> noncesLength then None
         else
           (let proposed = \<lparr> ept_BatchNonce = batchNonce, ept_Tokens = toks, ept_Recipients = recips,
                             ept_Amounts = amnts, ept_Nonces = nncs, ept_Signatures = signatures \<rparr>
            in case Marshal_proposedTransfer L proposed of
                 Inl _ \<Rightarrow> None
               | Inr mockDataField \<Rightarrow> do {
                   let mock = mock\<lparr>ethm_proposedTransfer := Some proposed\<rparr>;
                   (_, e) \<leftarrow> (case ethm_ProposeMultiTransferEsdtBatchCalled H of
                              None \<Rightarrow> Some ((), e) | Some handler \<Rightarrow> handler e);
                   Some (Inr (LegacyTx_Hash L mockDataField), (mock, e)) })))"

subsection \<open>The chain as the client sees it\<close>

definition eth_mock_wrapper ::
  "'addr ethMockLib \<Rightarrow> ('addr, 'e) ethMockHandlers \<Rightarrow> ('addr EthereumChainMock \<times> 'e, 'addr) ethereumChainWrapper" where
  \<comment> \<open>the mock takes the place of the wrapper; a wrapper that does not count is the mock\<close>
  "eth_mock_wrapper L H =
     \<lparr> wrapper_StatusHandler =
         \<lparr> SetIntMetric = ethm_SetIntMetric, AddIntMetric = ethm_AddIntMetric, SetStringMetric = ethm_SetStringMetric \<rparr>,
       wrapper_multiSigContract =
         \<lparr> msc_GetBatch = ethm_GetBatch, msc_GetBatchDeposits = ethm_GetBatchDeposits, msc_GetRelayers = ethm_GetRelayers,
           msc_WasBatchExecuted = ethm_WasBatchExecuted, msc_ExecuteTransfer = ethm_ExecuteTransfer L H,
           msc_Quorum = ethm_Quorum, msc_GetStatusesAfterExecution = ethm_GetStatusesAfterExecution H,
           msc_Paused = ethm_IsPaused \<rparr>,
       wrapper_blockchainClient =
         \<lparr> bcc_BlockNumber = ethm_BlockNumber, bcc_NonceAt = ethm_NonceAt, bcc_ChainID = ethm_ChainID,
           bcc_BalanceAt = ethm_BalanceAt H \<rparr> \<rparr>"

lemmas eth_mock_defs = eth_mock_wrapper_def ethm_SetIntMetric_def ethm_AddIntMetric_def ethm_SetStringMetric_def

end
