(* ===== verification/Ethereum_Chain_Client.thy ===== *)
theory Ethereum_Chain_Client
  imports Ethereum_Chain_Mock
begin

section \<open>The Ethereum client on the simulated chain\<close>

text \<open>
  What the client reads of the batches put on the simulated chain, and that a transfer goes through when signatures and
  funds suffice.
\<close>

subsection \<open>A batch on the simulated chain\<close>

fun add_deposits :: "uint64 \<Rightarrow> 'addr Deposit list \<Rightarrow> 'addr EthereumChainMock \<Rightarrow> 'addr EthereumChainMock option" where
  "add_deposits n [] m = Some m"
| "add_deposits n (dep # ds) m = do { m \<leftarrow> AddDepositToBatch n dep m; add_deposits n ds m }"

definition batch_stored :: "'addr EthereumChainMock \<Rightarrow> uint64 \<Rightarrow> 'addr Deposit list \<Rightarrow> bool" where
  "batch_stored m n ds \<longleftrightarrow> (\<exists>bt. map_of (ethm_batches m) n = Some bt \<and> Batch_Nonce bt = uint n \<and> unat (DepositsCount bt) = length ds)
     \<and> map_of (ethm_deposits m) n = Some ds"

lemma add_deposits_run:
  assumes "map_of (ethm_batches m) n = Some bt" and "map_of (ethm_deposits m) n = Some old"
  shows "\<exists>m'. add_deposits n ds m = Some m' \<and> map_of (ethm_deposits m') n = Some (old @ ds)
     \<and> map_of (ethm_batches m') n = Some (bt\<lparr>DepositsCount := DepositsCount bt + of_nat (length ds)\<rparr>)"
  using assms
proof (induction ds arbitrary: m bt old)
  case (Cons dep ds)
  let ?m = "m\<lparr>ethm_deposits := AList.update n (old @ [dep]) (ethm_deposits m),
              ethm_batches := AList.update n (bt\<lparr>DepositsCount := DepositsCount bt + 1\<rparr>) (ethm_batches m)\<rparr>"
  have "AddDepositToBatch n dep m = Some ?m" using Cons.prems by (simp add: AddDepositToBatch_def)
  then show ?case using Cons.IH [of ?m "bt\<lparr>DepositsCount := DepositsCount bt + 1\<rparr>" "old @ [dep]"]
    by (simp add: update_conv' add.assoc)
qed simp

lemma added_batch_stored:
  assumes "Batch_Nonce bt = uint n" and "DepositsCount bt = 0" and "map_of (ethm_deposits m) n = None"
    and "ds \<noteq> []" and "length ds < 2 ^ 16"
  shows "\<exists>m'. add_deposits n ds (AddBatch bt m) = Some m' \<and> batch_stored m' n ds"
proof -
  obtain dep rest where ds: "ds = dep # rest" using assms(4) by (cases ds) auto
  let ?m1 = "(AddBatch bt m)\<lparr>ethm_deposits := AList.update n [dep] (ethm_deposits m),
      ethm_batches := AList.update n (bt\<lparr>DepositsCount := 1\<rparr>) (ethm_batches (AddBatch bt m))\<rparr>"
  have n: "big_Uint64 (Batch_Nonce bt) = n" using assms(1) by (simp add: big_Uint64_def)
  then have "AddDepositToBatch n dep (AddBatch bt m) = Some ?m1"
    using assms(2,3) by (simp add: AddDepositToBatch_def AddBatch_def update_conv')
  moreover obtain m' where "add_deposits n rest ?m1 = Some m'" "map_of (ethm_deposits m') n = Some ([dep] @ rest)"
    "map_of (ethm_batches m') n = Some (bt\<lparr>DepositsCount := DepositsCount (bt\<lparr>DepositsCount := 1\<rparr>) + of_nat (length rest)\<rparr>)"
    using add_deposits_run [of ?m1 n "bt\<lparr>DepositsCount := 1\<rparr>" "[dep]" rest] by (auto simp: update_conv')
  moreover have "unat (1 + of_nat (length rest) :: 16 word) = length ds"
  proof -
    have "(1 + of_nat (length rest) :: 16 word) = of_nat (length ds)" using ds by simp
    then show ?thesis using assms(5) by (simp add: unsigned_of_nat take_bit_nat_eq_self)
  qed
  ultimately show ?thesis using assms(1) by (simp add: batch_stored_def ds)
qed

lemma mock_getBatch_loop:
  assumes "\<forall>dep \<in> set ds. eth_tokensMapper d (Address_Bytes (geth d) (TokenAddress dep)) s
        = Some (Inr (conv (Address_Bytes (geth d) (TokenAddress dep))), s)"
    and "\<forall>token c. map_of cached (ToHexString token) = Some c \<longrightarrow> c = conv token"
  shows "getBatch_loop d ds cached tb s = Some (Inr (tb\<lparr>Deposits := Deposits tb @ map (\<lambda>dep.
      (deposit_from_ethereum d dep)\<lparr>ConvertedTokenBytes := conv (Address_Bytes (geth d) (TokenAddress dep))\<rparr>) ds\<rparr>), s)"
  using assms
proof (induction ds arbitrary: cached tb)
  case (Cons dep ds)
  let ?tok = "Address_Bytes (geth d) (TokenAddress dep)"
  let ?cached = "if map_of cached (ToHexString ?tok) = None then AList.update (ToHexString ?tok) (conv ?tok) cached else cached"
  have conv: "convert_cached (eth_tokensMapper d) (ToHexString ?tok) ?tok cached s = Some (Inr (conv ?tok, ?cached), s)"
    using Cons.prems by (auto simp: convert_cached_def split: option.split)
  have cached: "\<forall>token c. map_of ?cached (ToHexString token) = Some c \<longrightarrow> c = conv token"
    using Cons.prems(2) by (auto simp: update_conv' ToHexString_def)
  have IH: "getBatch_loop d ds ?cached tb' s = Some (Inr (tb'\<lparr>Deposits := Deposits tb' @ map (\<lambda>dep.
      (deposit_from_ethereum d dep)\<lparr>ConvertedTokenBytes := conv (Address_Bytes (geth d) (TokenAddress dep))\<rparr>) ds\<rparr>), s)" for tb'
    by (rule Cons.IH [OF _ cached]) (use Cons.prems(1) in simp)
  show ?case
    unfolding getBatch_loop.simps Let_def
    using conv IH by (simp add: deposit_from_ethereum_def del: getBatch_loop.simps)
qed simp

lemma mock_GetBatch:
  assumes "clientWrapper d = eth_mock_wrapper L H" and "batch_stored m n ds"
    and "\<forall>dep \<in> set ds. eth_tokensMapper d (Address_Bytes (geth d) (TokenAddress dep)) (m, e)
        = Some (Inr (conv (Address_Bytes (geth d) (TokenAddress dep))), (m, e))"
  shows "ethc_GetBatch d n (m, e) = Some (Inr \<lparr> ID = n, Deposits = map (\<lambda>dep.
      (deposit_from_ethereum d dep)\<lparr>ConvertedTokenBytes := conv (Address_Bytes (geth d) (TokenAddress dep))\<rparr>) ds,
      Statuses = replicate (length ds) 0 \<rparr>, (m, e))"
proof -
  from assms(2) obtain bt where bt: "map_of (ethm_batches m) n = Some bt" "Batch_Nonce bt = uint n" "unat (DepositsCount bt) = length ds"
    "map_of (ethm_deposits m) n = Some ds" unfolding batch_stored_def by blast
  have n: "big_Uint64 (uint n) = n" by (simp add: big_Uint64_def)
  show ?thesis
    using bt assms(1) n mock_getBatch_loop [OF assms(3), of "[]"]
    by (simp add: ethc_GetBatch_def wrapper_GetBatch_def wrapper_GetBatchDeposits_def eth_mock_defs ethm_GetBatch_def
        ethm_GetBatchDeposits_def)
qed

text \<open>
  C18: What is deposited is read: after an empty batch and then at least one and at most 65535 deposits were put on the simulated chain under a
  nonce that has no deposits yet, and when the mapper converts every token, \<^verbatim>\<open>GetBatch\<close> of the client returns the batch
  with these deposits in their order, the tokens converted, and a zero status each.
\<close>

theorem deposits_are_read:
  assumes "clientWrapper d = eth_mock_wrapper L H" and "\<And>token s. eth_tokensMapper d token s = Some (Inr (conv token), s)"
    and "Batch_Nonce bt = uint n" and "DepositsCount bt = 0" and "map_of (ethm_deposits m) n = None"
    and "ds \<noteq> []" and "length ds < 2 ^ 16"
  shows "\<exists>m'. add_deposits n ds (AddBatch bt m) = Some m'
     \<and> ethc_GetBatch d n (m', e) = Some (Inr \<lparr> ID = n, Deposits = map (\<lambda>dep.
          (deposit_from_ethereum d dep)\<lparr>ConvertedTokenBytes := conv (Address_Bytes (geth d) (TokenAddress dep))\<rparr>) ds,
          Statuses = replicate (length ds) 0 \<rparr>, (m', e))"
  using added_batch_stored [OF assms(3-7)] mock_GetBatch [OF assms(1)] assms(2) by (metis (no_types, lifting))

text \<open>
  \<^verbatim>\<open>Clean\<close> empties the batches and leaves the deposits: a batch put again under the nonce of an old one is not readable.
\<close>

lemma Clean_keeps_deposits:
  assumes "clientWrapper d = eth_mock_wrapper L H" and "Batch_Nonce bt = uint n" and "DepositsCount bt = 0"
    and "map_of (ethm_deposits m) n = Some (old # ds)"
  shows "\<exists>m' err. add_deposits n [dep] (AddBatch bt (ethm_Clean m)) = Some m' \<and> ethc_GetBatch d n (m', e) = Some (Inl err, (m', e))"
proof -
  have n: "big_Uint64 (uint n) = n" by (simp add: big_Uint64_def)
  show ?thesis
    using assms n
    by (simp add: AddBatch_def ethm_Clean_def AddDepositToBatch_def update_conv' ethc_GetBatch_def wrapper_GetBatch_def
        wrapper_GetBatchDeposits_def eth_mock_defs ethm_GetBatch_def ethm_GetBatchDeposits_def)
qed

subsection \<open>Executing a transfer on the simulated chain\<close>

lemma getCumulatedTransfers_distinct:
  "getCumulatedTransfers toks amts m = Some m' \<Longrightarrow> distinct (map fst m) \<Longrightarrow> distinct (map fst m')"
  by (induction toks amts m rule: getCumulatedTransfers.induct) (simp_all add: distinct_update)

lemma checkCumulatedTransfers_pass:
  assumes "\<forall>(token, v) \<in> set transfers. \<exists>balance. erc20_BalanceOf d token (safeContractAddress d) s = Some (Inr balance, s) \<and> v \<le> balance"
  shows "checkCumulatedTransfers d transfers s = Some (None, s)"
  using assms by (induction d transfers s rule: checkCumulatedTransfers.induct) auto

lemma checkAvailableTokens_pass:
  assumes "range_order (range_transfers d)" and "length toks = length amts"
    and "\<forall>token \<in> set toks. \<exists>balance. erc20_BalanceOf d token (safeContractAddress d) s = Some (Inr balance, s)
        \<and> total_of token toks amts \<le> balance"
  shows "checkAvailableTokens d toks amts s = Some (None, s)"
proof -
  obtain tr where tr: "getCumulatedTransfers toks amts [] = Some tr"
    "\<And>token. map_of tr token = (if token \<in> set toks then Some (total_of token toks amts) else None)"
    using getCumulatedTransfers_totals [of toks amts "[]"] assms(2) by auto
  have "distinct (map fst tr)" using getCumulatedTransfers_distinct [OF tr(1)] by simp
  then have "\<forall>(token, v) \<in> set tr. token \<in> set toks \<and> v = total_of token toks amts"
    using tr(2) by (auto dest!: map_of_is_SomeI split: if_split_asm)
  then have "checkCumulatedTransfers d (range_transfers d tr) s = Some (None, s)"
    using assms(3) range_orderD(1) [OF assms(1)] by (intro checkCumulatedTransfers_pass) auto
  then show ?thesis using tr(1) by (simp add: checkAvailableTokens_def)
qed

text \<open>What lets a transfer go through: enough signatures and funds, and libraries that do not fail.\<close>

definition transfer_ready ::
  "('addr EthereumChainMock \<times> 'e, 'addr, 'ty) ethereumClientDeps \<Rightarrow> 'addr ethMockLib \<Rightarrow> ('addr, 'e) ethMockHandlers
   \<Rightarrow> bytes \<Rightarrow> TransferBatch \<Rightarrow> int \<Rightarrow> bytes list \<Rightarrow> 'addr EthereumChainMock \<times> 'e \<Rightarrow> bool" where
  "transfer_ready d L H h b q sigs s \<longleftrightarrow>
     clientWrapper d = eth_mock_wrapper L H \<and> range_order (range_transfers d) \<and> amounts_set (Some b)
     \<and> signatureHolder_Signatures d h s = Some (sigs, s) \<and> 0 \<le> q \<and> q \<le> int (length sigs)
     \<and> NewKeyedTransactorWithChainID (geth d) 1 = None
     \<and> (\<exists>price. gasHandler_GetCurrentGasPrice d s = Some (Inr price, s)
         \<and> (\<exists>balance. ethm_BalanceAt H (ethereumRelayerAddress d) s = Some (Inr balance, s)
             \<and> sint (transferGasLimitBase d + of_nat (length (Deposits b)) * transferGasLimitForEach d) * price \<le> balance))
     \<and> (\<forall>token \<in> set (tokens (batch_lists (geth d) (Deposits b))).
          \<exists>balance. erc20_BalanceOf d token (safeContractAddress d) s = Some (Inr balance, s)
            \<and> total_of token (tokens (batch_lists (geth d) (Deposits b))) (amounts (batch_lists (geth d) (Deposits b))) \<le> balance)
     \<and> (\<forall>t. \<exists>bs. Marshal_proposedTransfer L t = Inr bs)
     \<and> (\<forall>f e. ethm_ProposeMultiTransferEsdtBatchCalled H = Some f \<longrightarrow> (\<exists>e'. f e = Some ((), e')))"

definition proposed_of :: "('addr, 'ty) gethLib \<Rightarrow> TransferBatch \<Rightarrow> bytes list \<Rightarrow> 'addr EthereumProposedTransfer" where
  "proposed_of lib b sigs =
     \<lparr> ept_BatchNonce = uint (ID b), ept_Tokens = tokens (batch_lists lib (Deposits b)),
       ept_Recipients = recipients (batch_lists lib (Deposits b)), ept_Amounts = amounts (batch_lists lib (Deposits b)),
       ept_Nonces = nonces (batch_lists lib (Deposits b)), ept_Signatures = sigs \<rparr>"

lemma mock_ExecuteTransfer:
  assumes "transfer_ready d L H h b q sigs (m, e)"
  shows "\<exists>hash e'. ethc_ExecuteTransfer d h (Some b) q (m, e)
     = Some (Inr hash, (m\<lparr>ethm_proposedTransfer := Some (proposed_of (geth d) b (take (nat q) sigs))\<rparr>, e'))"
proof -
  let ?l = "batch_lists (geth d) (Deposits b)"
  note r = assms [unfolded transfer_ready_def]
  obtain price balance where price: "gasHandler_GetCurrentGasPrice d (m, e) = Some (Inr price, (m, e))"
    "ethm_BalanceAt H (ethereumRelayerAddress d) (m, e) = Some (Inr balance, (m, e))"
    "sint (transferGasLimitBase d + of_nat (length (Deposits b)) * transferGasLimitForEach d) * price \<le> balance"
    using r by blast
  have tokens: "checkAvailableTokens d (tokens ?l) (amounts ?l) (m, e) = Some (None, (m, e))"
    by (rule checkAvailableTokens_pass) (use r in \<open>simp_all add: batch_lists_def\<close>)
  let ?p = "proposed_of (geth d) b (take (nat q) sigs)"
  obtain bs where bs: "Marshal_proposedTransfer L ?p = Inr bs" using r by blast
  obtain e' where e': "(case ethm_ProposeMultiTransferEsdtBatchCalled H of None \<Rightarrow> Some ((), e) | Some f \<Rightarrow> f e) = Some ((), e')"
  proof (cases "ethm_ProposeMultiTransferEsdtBatchCalled H")
    case (Some f)
    moreover from this r obtain e' where "f e = Some ((), e')" by blast
    ultimately show thesis by (intro that) simp
  qed (simp add: that)
  have sent: "(if int (length sigs) > q then take (nat q) sigs else sigs) = take (nat q) sigs" using r by auto
  have exec: "ethm_ExecuteTransfer L H auth (tokens ?l) (recipients ?l) (amounts ?l) (nonces ?l) (uint (ID b)) (take (nat q) sigs) (m, e)
      = Some (Inr (LegacyTx_Hash L bs), (m\<lparr>ethm_proposedTransfer := Some ?p\<rparr>, e'))" for auth
    using bs e' by (simp add: ethm_ExecuteTransfer_def proposed_of_def batch_lists_def)
  have fee: "checkRelayerFundsForFee d (sint (transferGasLimitBase d + of_nat (length (Deposits b)) * transferGasLimitForEach d) * price) (m, e)
      = Some (None, (m, e))"
    using r price by (simp add: checkRelayerFundsForFee_def wrapper_BalanceAt_def eth_mock_defs)
  have nonce: "\<exists>n. getNonce d (ethereumRelayerAddress d) (m, e) = Some (Inr n, (m, e))"
    using r by (simp add: getNonce_def wrapper_BlockNumber_def wrapper_NonceAt_def eth_mock_defs ethm_BlockNumber_def ethm_NonceAt_def)
  have "executeTransfer_signed d h b q auth (m, e) = Some (Inr (LegacyTx_Hash L bs), (m\<lparr>ethm_proposedTransfer := Some ?p\<rparr>, e'))"
    if "opts_GasLimit auth = transferGasLimitBase d + of_nat (length (Deposits b)) * transferGasLimitForEach d" "opts_GasPrice auth = price" for auth
    using r tokens fee that exec [of auth] unfolding executeTransfer_signed_def sent Let_def
    by (simp add: sent extractList_iff int64_def wrapper_ExecuteTransfer_def eth_mock_defs)
  then show ?thesis
    using r price(1) nonce
    by (auto simp: ethc_ExecuteTransfer_def wrapper_IsPaused_def wrapper_ChainID_def eth_mock_defs ethm_IsPaused_def ethm_ChainID_def
        uint64_len_def)
qed

lemma mock_WasExecuted:
  assumes "clientWrapper d = eth_mock_wrapper L H"
  shows "ethc_WasExecuted d n (m, e)
     = Some (Inr (\<exists>t. ethm_proposedTransfer m = Some t \<and> ept_BatchNonce t = uint n), (m, e))"
  using assms by (auto simp: ethc_WasExecuted_def wrapper_WasBatchExecuted_def eth_mock_defs ethm_WasBatchExecuted_def split: option.split)

end
