(* ===== verification/Cross_Chain.thy ===== *)
theory Cross_Chain
  imports Elrond_Multisig Ethereum_Chain_Client
begin

section \<open>From one simulated chain to the other\<close>

text \<open>
  The clients of both chains together: what a deposit on one chain becomes on the other. The tokens mapper of the Ethereum
  client asks the contract on Elrond, so its state holds both chains.
\<close>

subsection \<open>From Ethereum to Elrond\<close>

definition transfer_of_ethereum ::
  "('addr, 'ty) gethLib \<Rightarrow> ('addr \<Rightarrow> string) \<Rightarrow> uint64 \<Rightarrow> 'addr Deposit list \<Rightarrow> ElrondProposedTransfer" where
  "transfer_of_ethereum lib ticker n deposits =
     \<lparr> pt_BatchId = uint n, pt_Transfers = map (\<lambda>dep.
         \<lparr> mt_From = Address_Bytes lib (Depositor dep), mt_To = Recipient dep,
           mt_Token = hex_EncodeToString (bytes_of_string (ticker (TokenAddress dep))),
           mt_Amount = Deposit_Amount dep, mt_Nonce = Deposit_Nonce dep \<rparr>) deposits \<rparr>"

definition deposit_bridgeable ::
  "('addr, 'ty) gethLib \<Rightarrow> ('a, 'addr) mockLib \<Rightarrow> ('addr \<Rightarrow> string) \<Rightarrow> ('a, 'addr) ElrondChainMock \<Rightarrow> 'addr Deposit \<Rightarrow> bool" where
  \<comment> \<open>the token is registered on Elrond and no field is empty\<close>
  "deposit_bridgeable lib L ticker m dep \<longleftrightarrow>
     Address_Bytes lib (Depositor dep) \<noteq> [] \<and> Recipient dep \<noteq> [] \<and> Address_Bytes lib (TokenAddress dep) \<noteq> []
     \<and> HexToAddress L (hex_EncodeToString (Address_Bytes lib (TokenAddress dep))) = TokenAddress dep
     \<and> getTicker m (TokenAddress dep) = Some (ticker (TokenAddress dep)) \<and> ticker (TokenAddress dep) \<noteq> []
     \<and> 0 < Deposit_Amount dep \<and> 0 < Deposit_Nonce dep \<and> Deposit_Nonce dep < 2 ^ 63"

lemma sint_small: "0 \<le> x \<Longrightarrow> x < 2 ^ 63 \<Longrightarrow> sint (word_of_int x :: uint64) = x"
  by (simp add: sint_sbintrunc' signed_take_bit_int_eq_self)

lemma uint_sint_small: "uint (n :: uint64) < 2 ^ 63 \<Longrightarrow> sint n = uint n"
  using sint_small [of "uint n"] by simp

lemma read_batch_to_send:
  fixes d :: "('addr EthereumChainMock \<times> ('a, 'addr) ElrondChainMock \<times> 'e, 'addr, 'ty) ethereumClientDeps"
  assumes "\<forall>dep \<in> set deposits. deposit_bridgeable (geth d) L ticker m dep" and "n \<noteq> 0" and "uint n < 2 ^ 63"
    and "b = \<lparr> ID = n, Deposits = map (\<lambda>dep. (deposit_from_ethereum d dep)\<lparr>ConvertedTokenBytes :=
          bytes_of_string (ticker (HexToAddress L (hex_EncodeToString (Address_Bytes (geth d) (TokenAddress dep)))))\<rparr>) deposits,
        Statuses = sts \<rparr>"
  shows "sendable b" and "transfer_of_batch b = transfer_of_ethereum (geth d) ticker n deposits"
proof -
  have n: "big_Uint64 x = word_of_int x \<and> (word_of_int x :: uint64) \<noteq> 0 \<and> sint (word_of_int x :: uint64) = x"
    if "0 < x" "x < 2 ^ 63" for x
    using that sint_small [of x] by (auto simp: big_Uint64_def)
  have ok: "deposit_bridgeable (geth d) L ticker m dep" if "dep \<in> set deposits" for dep using assms(1) that by blast
  show "sendable b"
    unfolding sendable_def assms(4) using assms(2) n
    by (auto dest!: ok simp: deposit_bridgeable_def deposit_from_ethereum_def bytes_of_string_def)
  show "transfer_of_batch b = transfer_of_ethereum (geth d) ticker n deposits"
    unfolding transfer_of_batch_def assms(4) transfer_of_ethereum_def using uint_sint_small [OF assms(3)] n
    by (auto dest!: ok simp: deposit_bridgeable_def transfer_of_deposit_def deposit_from_ethereum_def)
qed

text \<open>
  C4: Deposits made on Ethereum arrive on Elrond: when a batch of deposits of registered tokens, with positive amounts, non-empty
  addresses, and nonces and a batch identifier between zero and \<open>2 ^ 63\<close>, is stored on the simulated Ethereum chain, the different relayers that sign reach the quorum of
  the contract on Elrond, and the identifier of the action is not zero and not that of another proposal, the client reads the batch, and
  the relayers propose it, sign it and perform it, no call of which reports an error. The transfer performed on the simulated Elrond chain has the
  identifier of the batch and, in the same order, for each deposit its depositor, recipient, the ticker registered for its
  token, its amount and its nonce.
\<close>

theorem deposits_reach_elrond:
  fixes d :: "('addr EthereumChainMock \<times> ('a, 'addr) ElrondChainMock \<times> 'e, 'addr, 'ty) ethereumClientDeps"
    and leader :: "(('a, 'addr) ElrondChainMock \<times> 'e, 'a, 'z) elrondClientDeps_scheme"
  assumes eth: "clientWrapper d = eth_mock_wrapper EL EH"
      "eth_tokensMapper d = (\<lambda>token. beside (erc20ToElrond_ConvertToken (getter_of leader) token))"
    and stored: "batch_stored em n deposits" "n \<noteq> 0" "uint n < 2 ^ 63"
      "\<forall>dep \<in> set deposits. deposit_bridgeable (geth d) L ticker m dep"
    and elrond: "\<forall>c \<in> set (leader # cs). client_on_mock L H c" "handlers_return H" "mock_wf L m" "cs \<noteq> []"
      "mock_quorum m \<le> int (card ((\<lambda>c. mock_AddressAsBech32String L (relayerAddress c)) ` set cs))"
    and fresh: "h = transfer_hash L (transfer_of_ethereum (geth d) ticker n deposits)" "hash_id h \<noteq> 0"
      "\<forall>h' \<in> dom (map_of (proposedTransfers m)). \<bar>sint (hash_id h')\<bar> = \<bar>sint (hash_id h)\<bar> \<longrightarrow> h' = h"
  shows "\<exists>b m' e'. ethc_GetBatch d n (em, (m, e)) = Some (Inr b, (em, (m, e)))
     \<and> transfer_round leader cs b (m, e) = Some (Inr True, (m', e'))
     \<and> PerformedActionID m' = Some \<bar>sint (hash_id h)\<bar>
     \<and> ProposedTransfer L m' = Some (Some (transfer_of_ethereum (geth d) ticker n deposits))"
proof -
  let ?conv = "\<lambda>tok. bytes_of_string (ticker (HexToAddress L (hex_EncodeToString tok)))"
  have leader: "client_on_mock L H leader" using elrond(1) by simp
  have "\<forall>dep \<in> set deposits. eth_tokensMapper d (Address_Bytes (geth d) (TokenAddress dep)) (em, (m, e))
      = Some (Inr (?conv (Address_Bytes (geth d) (TokenAddress dep))), (em, (m, e)))"
    using stored(4) by (auto simp: eth(2) beside_def erc20ToElrond_ConvertToken_def getter_of_def deposit_bridgeable_def
        mock_ticker_answer [OF leader])
  from mock_GetBatch [OF eth(1) stored(1) this] obtain b where
    b: "ethc_GetBatch d n (em, (m, e)) = Some (Inr b, (em, (m, e)))"
      "b = \<lparr> ID = n, Deposits = map (\<lambda>dep. (deposit_from_ethereum d dep)\<lparr>ConvertedTokenBytes :=
          ?conv (Address_Bytes (geth d) (TokenAddress dep))\<rparr>) deposits, Statuses = replicate (length deposits) 0 \<rparr>"
    by blast
  note send = read_batch_to_send [OF stored(4,2,3) b(2)]
  from transfer_round_executes [OF elrond(1-3) send(1) elrond(4,5), of h e] fresh b(1) show ?thesis
    by (auto simp: send(2))
qed

subsection \<open>From Elrond to Ethereum\<close>

definition pending_bridgeable ::
  "(string \<Rightarrow> 'addr) \<Rightarrow> ('a, 'addr) ElrondChainMock \<Rightarrow> ('a, 'addr) ElrondDeposit \<Rightarrow> bool" where
  \<comment> \<open>the ticker is registered\<close>
  "pending_bridgeable erc20 m dep \<longleftrightarrow> ed_Ticker dep \<noteq> [] \<and> 0 \<le> ed_Amount dep
     \<and> getErc20Address m (hex_EncodeToString (bytes_of_string (ed_Ticker dep))) = Some (erc20 (ed_Ticker dep))"

definition transfer_of_pending ::
  "(string \<Rightarrow> 'addr) \<Rightarrow> ('a, 'addr) ElrondPendingBatch \<Rightarrow> bytes list \<Rightarrow> 'addr EthereumProposedTransfer" where
  "transfer_of_pending erc20 p sigs =
     \<lparr> ept_BatchNonce = pb_Nonce p, ept_Tokens = map (\<lambda>dep. erc20 (ed_Ticker dep)) (pb_ElrondDeposits p),
       ept_Recipients = map ed_To (pb_ElrondDeposits p), ept_Amounts = map ed_Amount (pb_ElrondDeposits p),
       ept_Nonces = map (\<lambda>dep. uint (ed_DepositNonce dep)) (pb_ElrondDeposits p), ept_Signatures = sigs \<rparr>"

lemma mock_GetTransactionsStatuses:
  assumes "clientWrapper d = eth_mock_wrapper EL EH" and "ethm_GetStatusesAfterExecutionHandler EH = Some f"
    and "f e = Some (sts, e')"
  shows "ethc_GetTransactionsStatuses d n (m, e) = Some (Inr sts, (m, e'))"
  using assms
  by (simp add: ethc_GetTransactionsStatuses_def wrapper_GetStatusesAfterExecution_def eth_mock_defs ethm_GetStatusesAfterExecution_def)

text \<open>
  C5: Deposits made on Elrond arrive on Ethereum and their statuses come back: when the pending batch has deposits of registered tickers
  and a nonce between zero and \<open>2 ^ 63\<close>, the test answers one status for each of them, the signatures, the funds of the safe and those of the relayer suffice, and the relayers on Elrond reach the quorum, then the client reads
  the batch; the transfer executed on the simulated Ethereum chain has the nonce of the batch and, in the same order, for
  each deposit the registered ERC20 token, its recipient, amount and nonce, with exactly the required number of signatures; the
  batch is then reported as executed; and the statuses fetched from there are proposed, signed and performed on the
  simulated Elrond chain for the same batch.
\<close>

theorem withdrawals_reach_ethereum:
  fixes d :: "('addr EthereumChainMock \<times> 'ee, 'addr, 'ty) ethereumClientDeps"
    and leader :: "(('a, 'addr) ElrondChainMock \<times> 'e, 'a, 'z) elrondClientDeps_scheme"
  assumes elrond: "\<forall>c \<in> set (leader # cs). client_on_mock L H c" "handlers_return H" "mock_wf L m" "cs \<noteq> []"
      "mock_quorum m \<le> int (card ((\<lambda>c. mock_AddressAsBech32String L (relayerAddress c)) ` set cs))"
      "tokensMapper leader = elrondToErc20_ConvertToken (getter_of leader)"
    and pending: "pendingBatch m = Some p" "pb_ElrondDeposits p \<noteq> []" "0 < pb_Nonce p" "pb_Nonce p < 2 ^ 63"
      "\<forall>dep \<in> set (pb_ElrondDeposits p). pending_bridgeable erc20 m dep"
    and eth: "\<And>a. BytesToAddress (geth d) (mock_Address_Bytes L a) = a"
      "\<And>b. GetPending leader (m, e) = Some (Inr (Some b), (m, e)) \<Longrightarrow> transfer_ready d EL EH mh b q sigs (em, ee)"
      "ethm_GetStatusesAfterExecutionHandler EH = Some f" "\<And>e. f e = Some (sts, e)"
      "length sts = length (pb_ElrondDeposits p)"
    and status: "h = status_hash L \<lparr> ps_BatchId = pb_Nonce p, ps_Statuses = sts \<rparr>" "hash_id h \<noteq> 0"
  shows "\<exists>b txhash em' ee' m' e'. GetPending leader (m, e) = Some (Inr (Some b), (m, e))
     \<and> ethc_ExecuteTransfer d mh (Some b) q (em, ee) = Some (Inr txhash, (em', ee'))
     \<and> GetLastProposedTransfer em' = Some (transfer_of_pending erc20 p (take (nat q) sigs))
     \<and> ethc_WasExecuted d (ID b) (em', ee') = Some (Inr True, (em', ee'))
     \<and> ethc_GetTransactionsStatuses d (ID b) (em', ee') = Some (Inr sts, (em', ee'))
     \<and> status_round leader cs (b\<lparr>Statuses := sts\<rparr>) (m, e) = Some (Inr True, (m', e'))
     \<and> PerformedActionID m' = Some \<bar>sint (hash_id h)\<bar>
     \<and> map_of (proposedStatus m') h = Some \<lparr> ps_BatchId = pb_Nonce p, ps_Statuses = sts \<rparr>"
proof -
  define b where "b = \<lparr> ID = word_of_int (pb_Nonce p), Deposits = map (deposit_of_pending L (ToBech32String leader)
      (\<lambda>t. mock_Address_Bytes L (erc20 t))) (pb_ElrondDeposits p), Statuses = replicate (length (pb_ElrondDeposits p)) 0 \<rparr>"
  have leader: "client_on_mock L H leader" using elrond(1) by simp
  have get: "GetPending leader (m, e) = Some (Inr (Some b), (m, e))"
    unfolding b_def by (rule mock_GetPending [OF leader elrond(6) pending(1,2)]) (use pending(3-5) in \<open>auto simp: pending_bridgeable_def\<close>)
  have id: "uint (ID b) = pb_Nonce p" "sint (ID b) = pb_Nonce p" "ID b \<noteq> 0"
    using pending(3,4) sint_small [of "pb_Nonce p"] by (auto simp: b_def uint_word_of_int)
  note ready = eth(2) [OF get]
  have wrapper: "clientWrapper d = eth_mock_wrapper EL EH" using ready by (simp add: transfer_ready_def)
  obtain txhash ee' where exec: "ethc_ExecuteTransfer d mh (Some b) q (em, ee)
      = Some (Inr txhash, (em\<lparr>ethm_proposedTransfer := Some (proposed_of (geth d) b (take (nat q) sigs))\<rparr>, ee'))"
    using mock_ExecuteTransfer [OF ready] by blast
  have same: "proposed_of (geth d) b (take (nat q) sigs) = transfer_of_pending erc20 p (take (nat q) sigs)"
    using pending(5) id(1) by (auto simp: proposed_of_def transfer_of_pending_def batch_lists_def b_def deposit_of_pending_def
        pending_bridgeable_def eth(1))
  have st: "status_of_batch (b\<lparr>Statuses := sts\<rparr>) = \<lparr> ps_BatchId = pb_Nonce p, ps_Statuses = sts \<rparr>"
    using id(2) pending(3) by (simp add: status_of_batch_def)
  obtain m' e' where "status_round leader cs (b\<lparr>Statuses := sts\<rparr>) (m, e) = Some (Inr True, (m', e'))"
    "PerformedActionID m' = Some \<bar>sint (hash_id h)\<bar>" "map_of (proposedStatus m') h = Some \<lparr> ps_BatchId = pb_Nonce p, ps_Statuses = sts \<rparr>"
    using status_round_executes [OF elrond(1-3) _ elrond(4,5) _ status(2) pending(1), of "b\<lparr>Statuses := sts\<rparr>" e]
      id(3) status(1) eth(5) by (auto simp: st)
  moreover have "ethc_WasExecuted d (ID b) (em\<lparr>ethm_proposedTransfer := Some (proposed_of (geth d) b (take (nat q) sigs))\<rparr>, ee')
      = Some (Inr True, (em\<lparr>ethm_proposedTransfer := Some (proposed_of (geth d) b (take (nat q) sigs))\<rparr>, ee'))"
    by (simp add: mock_WasExecuted [OF wrapper] proposed_of_def)
  moreover note mock_GetTransactionsStatuses [OF wrapper eth(3,4), of "ID b" _ ee']
  ultimately show ?thesis using get exec same by (auto simp: GetLastProposedTransfer_def)
qed

end
