(* ===== verification/Elrond_Chain_Runs.thy ===== *)
theory Elrond_Chain_Runs
  imports Elrond_Multisig
begin

section \<open>Runs of the simulated Elrond chain\<close>

text \<open>
  What holds after any sequence of transactions, from whomever: the well-formedness of the state, the answers to well-formed
  queries, that performed actions were agreed on, and that proposals are kept.
\<close>

subsection \<open>All runs of the chain\<close>

text \<open>
  The states the chain can reach between two changes of the quorum: anybody may send any transaction and ask any
  query, and the test may use every other operation and change its own state. The list holds the
  transactions processed so far.
\<close>

inductive mock_run ::
  "('a, 'addr) mockLib \<Rightarrow> 'e mockHandlers \<Rightarrow> int \<Rightarrow> Transaction list \<Rightarrow> ('a, 'addr) ElrondChainMock \<Rightarrow> 'e \<Rightarrow> bool"
  for L H q where
  start: "mock_run L H q [] (mock_SetQuorum q NewElrondChainMock) e"
| test: "mock_run L H q txs m e \<Longrightarrow> mock_run L H q txs m e'"
| send: "mock_run L H q txs m e \<Longrightarrow> mock_SendTransaction L H (Some tx) (m, e) = Some (r, (m', e'))
    \<Longrightarrow> mock_run L H q (txs @ [tx]) m' e'"
| query: "mock_run L H q txs m e \<Longrightarrow> mock_ExecuteVMQuery L H req (m, e) = Some (r, (m', e'))
    \<Longrightarrow> mock_run L H q txs m' e'"
| account: "mock_run L H q txs m e \<Longrightarrow> mock_GetAccount L adr (m, e) = Some (r, (m', e')) \<Longrightarrow> mock_run L H q txs m' e'"
| relayer: "mock_run L H q txs m e \<Longrightarrow> mock_run L H q txs (mock_AddRelayer L adr m) e"
| batch_id: "mock_run L H q txs m e \<Longrightarrow> mock_run L H q txs (SetLastExecutedEthBatchID n m) e"
| tx_id: "mock_run L H q txs m e \<Longrightarrow> mock_run L H q txs (SetLastExecutedEthTxId n m) e"
| pair: "mock_run L H q txs m e \<Longrightarrow> mock_run L H q txs (AddTokensPair erc20 ticker m) e"
| pending: "mock_run L H q txs m e \<Longrightarrow> mock_run L H q txs (SetPendingBatch p m) e"
| deposit: "mock_run L H q txs m e \<Longrightarrow> AddDepositToCurrentBatch dep m = Some m' \<Longrightarrow> mock_run L H q txs m' e"

lemma query_keeps_chain:
  assumes "mock_ExecuteVMQuery L H req (m, e) = Some (r, (m', e'))"
  shows "m' = m"
  using assms
  by (auto simp: mock_query_defs Let_def bind_eq_Some_conv split: if_split_asm)

definition tx_words :: "Transaction \<Rightarrow> string list" where
  "tx_words tx = strings_Split (CHR ''@'') (string_of_bytes (tx_Data tx))"

definition proposes_hash :: "('a, 'addr) mockLib \<Rightarrow> Transaction \<Rightarrow> string \<Rightarrow> bool" where
  "proposes_hash L tx h \<longleftrightarrow>
     hd (tx_words tx) = ''proposeMultiTransferEsdtBatch'' \<and> (\<exists>t. createProposedTransfer L (tx_words tx) = Some (t, h))
     \<or> hd (tx_words tx) = ''proposeEsdtSafeSetCurrentTransactionBatchStatus''
       \<and> (\<exists>(m :: ('a, 'addr) ElrondChainMock) st. createProposedStatus L m (tx_words tx) = Some (st, h))"

definition signs :: "Transaction \<Rightarrow> int \<Rightarrow> bool" where
  "signs tx a \<longleftrightarrow> (\<exists>raw rest. tx_words tx = ''sign'' # raw # rest \<and> getActionIDFromString raw = Some a)"

definition signed_by :: "Transaction list \<Rightarrow> int \<Rightarrow> string set" where
  "signed_by txs a = tx_SndAddr ` {tx \<in> set txs. signs tx a}"

definition agreed :: "('a, 'addr) mockLib \<Rightarrow> Transaction list \<Rightarrow> int \<Rightarrow> int \<Rightarrow> bool" where
  "agreed L txs q a \<longleftrightarrow>
     (\<exists>tx \<in> set txs. \<exists>h. proposes_hash L tx h \<and> HashToActionID h = Some a) \<and> q \<le> int (card (signed_by txs a))"

definition mock_inv :: "('a, 'addr) mockLib \<Rightarrow> int \<Rightarrow> Transaction list \<Rightarrow> ('a, 'addr) ElrondChainMock \<Rightarrow> bool" where
  "mock_inv L q txs m \<longleftrightarrow> mock_quorum m = q
     \<and> (\<forall>h \<in> fst ` set (proposedTransfers m) \<union> fst ` set (proposedStatus m). \<exists>tx \<in> set txs. proposes_hash L tx h)
     \<and> (\<forall>a x. map_of (signedActionIDs m) (show_int a) = Some x \<longrightarrow> distinct (map fst x) \<and> fst ` set x \<subseteq> signed_by txs a)
     \<and> (\<forall>a. performedAction m = Some a \<longrightarrow> agreed L txs q a)"

lemma signed_by_snoc: "signed_by txs a \<subseteq> signed_by (txs @ [tx]) a"
  by (auto simp: signed_by_def)

lemma agreed_snoc: "agreed L txs q a \<Longrightarrow> agreed L (txs @ [tx]) q a"
  using card_mono [OF _ signed_by_snoc [of txs a tx]] by (force simp: agreed_def signed_by_def)

lemma mock_inv_snoc: "mock_inv L q txs m \<Longrightarrow> mock_inv L q (txs @ [tx]) m"
  unfolding mock_inv_def using signed_by_snoc [of txs _ tx] agreed_snoc [of L txs q _ tx]
  by (intro conjI) (simp, force, blast, blast)

lemma find_action_found: "find_action hs a = Some True \<Longrightarrow> \<exists>h \<in> set hs. HashToActionID h = Some a"
  by (induction hs) (auto simp: bind_eq_Some_conv split: if_split_asm)

lemma existing_action_proposed:
  assumes "range_order (range_hashes L)" and "mock_inv L q txs m" and "actionIDExists L m a = Some True"
  shows "\<exists>tx \<in> set txs. \<exists>h. proposes_hash L tx h \<and> HashToActionID h = Some a"
proof -
  from assms(3) have "find_action (range_hashes L (map fst (proposedTransfers m))) a = Some True
      \<or> find_action (range_hashes L (map fst (proposedStatus m))) a = Some True"
    by (auto simp: actionIDExists_def bind_eq_Some_conv split: if_split_asm)
  then obtain h where "h \<in> fst ` set (proposedTransfers m) \<union> fst ` set (proposedStatus m)" "HashToActionID h = Some a"
    using find_action_found [of "range_hashes L (map fst (proposedTransfers m))" a]
      find_action_found [of "range_hashes L (map fst (proposedStatus m))" a]
    by (auto simp: range_orderD(1) [OF assms(1)])
  then show ?thesis using assms(2) unfolding mock_inv_def by blast
qed

lemma propose_inv:
  assumes "mock_inv L q txs m" and "proposes_hash L tx h"
  shows "mock_inv L q (txs @ [tx]) (m\<lparr>proposedTransfers := AList.update h t (proposedTransfers m)\<rparr>)"
    and "mock_inv L q (txs @ [tx]) (m\<lparr>proposedStatus := AList.update h st (proposedStatus m)\<rparr>)"
  using mock_inv_snoc [OF assms(1), of tx] assms(2) unfolding mock_inv_def by auto

lemma sign_inv:
  assumes "mock_inv L q txs m" and "mock_sign L (tx_words tx) tx m = Some m'" and "hd (tx_words tx) = ''sign''"
  shows "mock_inv L q (txs @ [tx]) m'"
proof -
  from assms(2) obtain a where a: "signs tx a"
    "m' = m\<lparr>signedActionIDs := AList.update (show_int a) (AList.update (tx_SndAddr tx) ()
        (case map_of (signedActionIDs m) (show_int a) of None \<Rightarrow> [] | Some x \<Rightarrow> x)) (signedActionIDs m)\<rparr>"
    using assms(3) by (auto simp: mock_sign_def signs_def bind_eq_Some_conv split: list.split_asm if_split_asm)
  let ?x = "case map_of (signedActionIDs m) (show_int a) of None \<Rightarrow> [] | Some x \<Rightarrow> x"
  have inv: "mock_inv L q (txs @ [tx]) m" by (rule mock_inv_snoc [OF assms(1)])
  then have "distinct (map fst ?x) \<and> fst ` set ?x \<subseteq> signed_by (txs @ [tx]) a"
    unfolding mock_inv_def by (cases "map_of (signedActionIDs m) (show_int a)") auto
  moreover have "tx_SndAddr tx \<in> signed_by (txs @ [tx]) a" using a(1) by (auto simp: signed_by_def)
  ultimately show ?thesis
    using inv unfolding mock_inv_def a(2) by (simp add: update_conv' distinct_update)
qed

lemma perform_inv:
  assumes "range_order (range_hashes L)" and "mock_inv L q txs m" and "mock_performAction L ws m = Some m'"
  shows "mock_inv L q txs m'"
proof -
  from assms(3) obtain a x where a: "actionIDExists L m a = Some True" "map_of (signedActionIDs m) (show_int a) = Some x"
    "m' = (if int (length x) \<ge> mock_quorum m then m\<lparr>performedAction := Some a\<rparr> else m)"
    by (auto simp: mock_performAction_def bind_eq_Some_conv split: list.split_asm if_split_asm)
  have "distinct (map fst x)" "fst ` set x \<subseteq> signed_by txs a" using assms(2) a(2) unfolding mock_inv_def by blast+
  then have "length x \<le> card (signed_by txs a)"
    using distinct_card [of "map fst x"] card_mono [of "signed_by txs a" "fst ` set x"] by (simp add: signed_by_def)
  then have "int (length x) \<ge> mock_quorum m \<Longrightarrow> agreed L txs q a"
    using existing_action_proposed [OF assms(1,2) a(1)] assms(2) by (simp add: agreed_def mock_inv_def)
  then show ?thesis using assms(2) a(3) by (auto simp: mock_inv_def)
qed

lemma mock_inv_outside [simp]:
  "mock_inv L q txs (m\<lparr>sentTransactions := a\<rparr>) = mock_inv L q txs m" "mock_inv L q txs (m\<lparr>accounts := b\<rparr>) = mock_inv L q txs m"
  "mock_inv L q txs (m\<lparr>mock_relayers := c\<rparr>) = mock_inv L q txs m" "mock_inv L q txs (m\<lparr>lastExecutedEthBatchId := n\<rparr>) = mock_inv L q txs m"
  "mock_inv L q txs (m\<lparr>lastExecutedEthTxId := n\<rparr>) = mock_inv L q txs m" "mock_inv L q txs (m\<lparr>ethToElrond := x\<rparr>) = mock_inv L q txs m"
  "mock_inv L q txs (m\<lparr>elrondToEth := y\<rparr>) = mock_inv L q txs m" "mock_inv L q txs (m\<lparr>pendingBatch := p\<rparr>) = mock_inv L q txs m"
  by (simp_all add: mock_inv_def)

text \<open>What a transaction the chain accepts has done to the contract.\<close>

lemma processTransaction_cases:
  assumes "processTransaction L H tx (m, e) = Some (u, (m', e'))"
  obtains (status) st h where "hd (tx_words tx) = ''proposeEsdtSafeSetCurrentTransactionBatchStatus''"
      "createProposedStatus L m (tx_words tx) = Some (st, h)" "m' = m\<lparr>proposedStatus := AList.update h st (proposedStatus m)\<rparr>"
    | (transfer) t h where "hd (tx_words tx) = ''proposeMultiTransferEsdtBatch''"
      "createProposedTransfer L (tx_words tx) = Some (t, h)" "m' = m\<lparr>proposedTransfers := AList.update h t (proposedTransfers m)\<rparr>"
    | (sign) "hd (tx_words tx) = ''sign''" "mock_sign L (tx_words tx) tx m = Some m'"
    | (perform) "mock_performAction L (tx_words tx) m = Some m'"
proof -
  have words: "strings_Split (CHR ''@'') (string_of_bytes (tx_Data tx)) = tx_words tx" by (simp add: tx_words_def)
  show thesis
    using assms unfolding processTransaction_def words Let_def prod.case
    by (auto simp: bind_eq_Some_conv proposeEsdtSafeSetCurrentTransactionBatchStatus_def proposeMultiTransferEsdtBatch_def
        split: if_split_asm intro: that)
qed

lemma processTransaction_inv:
  assumes "range_order (range_hashes L)" and "mock_inv L q txs m" and "processTransaction L H tx (m, e) = Some (u, (m', e'))"
  shows "mock_inv L q (txs @ [tx]) m'"
  using assms(3)
proof (cases rule: processTransaction_cases)
  case (status st h)
  then have "proposes_hash L tx h" unfolding proposes_hash_def by blast
  with status assms(2) show ?thesis using propose_inv(2) by blast
next
  case (transfer t h)
  then have "proposes_hash L tx h" unfolding proposes_hash_def by blast
  with transfer assms(2) show ?thesis using propose_inv(1) by blast
next
  case sign
  with assms(2) show ?thesis using sign_inv by blast
next
  case perform
  with assms(1,2) show ?thesis using perform_inv mock_inv_snoc by blast
qed

lemma mock_run_inv:
  assumes "range_order (range_hashes L)" and "mock_run L H q txs m e"
  shows "mock_inv L q txs m"
  using assms(2)
proof induction
  case (start e)
  then show ?case
    by (simp add: mock_inv_def mock_SetQuorum_def NewElrondChainMock_def newElrondContractStateMock_def clearTokens_def
        cleanState_def elrondContractStateMock.defs ElrondChainMock.defs)
next
  case (send txs m e tx r m' e')
  then obtain accs sent u where "processTransaction L H tx (m\<lparr>sentTransactions := sent, accounts := accs\<rparr>, e) = Some (u, (m', e'))"
    by (auto simp: mock_SendTransaction_def bind_eq_Some_conv split: sum.split_asm)
  then show ?case using processTransaction_inv [OF assms(1)] send.IH by (metis mock_inv_outside(1,2))
next
  case (query txs m e req r m' e')
  then show ?case using query_keeps_chain by metis
next
  case (account txs m e adr r m' e')
  then show ?case by (auto simp: mock_GetAccount_def split: prod.split_asm)
next
  case (deposit txs m e dep m')
  then show ?case by (auto simp: AddDepositToCurrentBatch_def bind_eq_Some_conv)
qed (simp_all add: mock_AddRelayer_def SetLastExecutedEthBatchID_def SetLastExecutedEthTxId_def AddTokensPair_def
    addTokensPair_def SetPendingBatch_def setPendingBatch_def Let_def)

text \<open>
  C16: On the simulated chain no action is performed that was not agreed on: whatever transactions are sent and in
  whatever order, if an action is recorded as performed then a transaction proposed it, and the senders of the
  transactions that signed it are at least as many different ones as the quorum asks for.
\<close>

theorem performed_was_agreed:
  assumes "range_order (range_hashes L)" and "mock_run L H q txs m e" and "PerformedActionID m = Some a"
  shows "(\<exists>tx \<in> set txs. \<exists>h. proposes_hash L tx h \<and> HashToActionID h = Some a) \<and> q \<le> int (card (signed_by txs a))"
  using mock_run_inv [OF assms(1,2)] assms(3) by (simp add: mock_inv_def PerformedActionID_def agreed_def)

subsection \<open>Well-formed requests do not get stuck\<close>

lemma created_transfer_hash:
  assumes "createProposedTransfer L ws = Some (t, h)"
  shows "CalculateHash_transfer L t = Inr (bytes_of_string h)"
  using assms by (auto simp: createProposedTransfer_def Let_def split: list.split_asm go_splits)

lemma created_status_hash:
  assumes "createProposedStatus L m ws = Some (st, h)"
  shows "CalculateHash_status L st = Inr (bytes_of_string h)"
  using assms
  by (auto simp: createProposedStatus_def Let_def split: list.split_asm go_splits)

lemma mockLib_length:
  assumes "mockLib_ok L"
  shows "CalculateHash_transfer L t = Inr (bytes_of_string h) \<Longrightarrow> 8 \<le> length h"
    and "CalculateHash_status L st = Inr (bytes_of_string h) \<Longrightarrow> 8 \<le> length h"
  using assms unfolding mockLib_ok_def by (metis sum.inject(2) length_bytes_of_string)+

lemma processTransaction_wf:
  assumes "mockLib_ok L" and "mock_wf L m" and "processTransaction L H tx (m, e) = Some (u, (m', e'))"
  shows "mock_wf L m'"
  using assms(3)
proof (cases rule: processTransaction_cases)
  case (status st h)
  then show ?thesis
    using assms(1,2) created_status_hash mockLib_length(2) by (metis wf_update(2))
next
  case (transfer t h)
  then show ?thesis
    using assms(1,2) created_transfer_hash mockLib_length(1) by (metis wf_update(1))
next
  case sign
  then obtain a where "m' = m\<lparr>signedActionIDs := AList.update (show_int a) (AList.update (tx_SndAddr tx) ()
        (case map_of (signedActionIDs m) (show_int a) of None \<Rightarrow> [] | Some x \<Rightarrow> x)) (signedActionIDs m)\<rparr>"
    by (auto simp: mock_sign_def bind_eq_Some_conv split: list.split_asm if_split_asm)
  moreover have "distinct (map fst (case map_of (signedActionIDs m) (show_int a) of None \<Rightarrow> [] | Some x \<Rightarrow> x))"
    using assms(2) unfolding mock_wf_def by (auto dest!: map_of_SomeD split: option.split)
  ultimately show ?thesis
    using assms(2) by (auto intro!: wf_update simp: update_nonempty distinct_update)
next
  case perform
  then show ?thesis
    using assms(2) by (auto simp: mock_performAction_def bind_eq_Some_conv split: list.split_asm if_split_asm)
qed

lemma mock_wf_setters [simp]:
  "mock_wf L (m\<lparr>mock_relayers := c\<rparr>) = mock_wf L m" "mock_wf L (m\<lparr>lastExecutedEthBatchId := n\<rparr>) = mock_wf L m"
  "mock_wf L (m\<lparr>lastExecutedEthTxId := n\<rparr>) = mock_wf L m" "mock_wf L (m\<lparr>ethToElrond := x\<rparr>) = mock_wf L m"
  "mock_wf L (m\<lparr>elrondToEth := y\<rparr>) = mock_wf L m" "mock_wf L (m\<lparr>pendingBatch := p\<rparr>) = mock_wf L m"
  by (simp_all add: mock_wf_def)

lemma mock_run_wf:
  assumes "mockLib_ok L" and "mock_run L H q txs m e"
  shows "mock_wf L m"
  using assms(2)
proof induction
  case (start e)
  then show ?case
    by (simp add: mock_wf_def mock_SetQuorum_def NewElrondChainMock_def newElrondContractStateMock_def clearTokens_def
        cleanState_def elrondContractStateMock.defs ElrondChainMock.defs)
next
  case (send txs m e tx r m' e')
  then obtain accs sent u where "processTransaction L H tx (m\<lparr>sentTransactions := sent, accounts := accs\<rparr>, e) = Some (u, (m', e'))"
    by (auto simp: mock_SendTransaction_def bind_eq_Some_conv split: sum.split_asm)
  then show ?case using processTransaction_wf [OF assms(1)] send.IH by (metis wf_outside(1,2))
next
  case (query txs m e req r m' e')
  then show ?case using query_keeps_chain by metis
next
  case (account txs m e adr r m' e')
  then show ?case by (auto simp: mock_GetAccount_def split: prod.split_asm)
next
  case (deposit txs m e dep m')
  then show ?case by (auto simp: AddDepositToCurrentBatch_def bind_eq_Some_conv)
qed (simp_all add: mock_AddRelayer_def SetLastExecutedEthBatchID_def SetLastExecutedEthTxId_def AddTokensPair_def
    addTokensPair_def SetPendingBatch_def setPendingBatch_def Let_def)

text \<open>
  The shapes of arguments the contract understands: a hexadecimal number, a batch (its identifier and five arguments per
  transfer), the statuses of the pending batch (its identifier and one non-empty argument per deposit).
\<close>

definition hex_ok :: "string \<Rightarrow> bool" where
  "hex_ok s \<longleftrightarrow> hex_DecodeString s \<noteq> None"

fun transfer_shape :: "string list \<Rightarrow> bool" where
  "transfer_shape [] = True"
| "transfer_shape (a # b # c # d # e # rest) \<longleftrightarrow> hex_ok a \<and> hex_ok b \<and> hex_ok d \<and> hex_ok e \<and> transfer_shape rest"
| "transfer_shape _ = False"

definition status_shape :: "('a, 'addr) ElrondChainMock \<Rightarrow> string list \<Rightarrow> bool" where
  "status_shape m args \<longleftrightarrow> (\<exists>p. pendingBatch m = Some p \<and> length args = length (pb_ElrondDeposits p))
     \<and> (\<forall>x \<in> set args. \<exists>b bs. hex_DecodeString x = Some (b # bs))"

definition request_shape :: "('a, 'addr) mockLib \<Rightarrow> ('a, 'addr) ElrondChainMock \<Rightarrow> string \<Rightarrow> string list \<Rightarrow> bool" where
  "request_shape L m f args \<longleftrightarrow>
     (if f \<in> {''isPaused'', ''getCurrentTxBatch'', ''getAllStakedRelayers'', ''getLastExecutedEthBatchId'', ''getLastExecutedEthTxId''}
      then True
      else if f \<in> {''wasActionExecuted'', ''quorumReached''} then (\<exists>x xs. args = x # xs \<and> hex_ok x)
      else if f = ''signed'' then (\<exists>x y xs. args = x # y # xs \<and> hex_ok x \<and> hex_ok y)
      else if f \<in> {''wasTransferActionProposed'', ''getActionIdForTransferBatch''}
      then (\<exists>x xs. args = x # xs \<and> hex_ok x \<and> transfer_shape xs)
      else if f \<in> {''wasSetCurrentTransactionBatchStatusActionProposed'', ''getActionIdForSetCurrentTransactionBatchStatus''}
      then (\<exists>x xs. args = x # xs \<and> hex_ok x \<and> status_shape m xs)
      else if f = ''getTokenIdForErc20Address'' then (\<exists>x xs. args = x # xs \<and> getTicker m (HexToAddress L x) \<noteq> None)
      else if f = ''getErc20AddressForTokenId'' then (\<exists>x xs. args = x # xs \<and> getErc20Address m x \<noteq> None)
      else False)"

lemma transfer_shape_loop: "transfer_shape args \<Longrightarrow> \<exists>ts. transfer_args_loop args acc = Some ts"
  by (induction args acc rule: transfer_args_loop.induct) (auto simp: hex_ok_def)

lemma status_shape_loop:
  "\<forall>x \<in> set args. \<exists>b bs. hex_DecodeString x = Some (b # bs)
   \<Longrightarrow> \<exists>sts. status_args_loop args acc = Some sts \<and> length sts = length acc + length args"
proof (induction args arbitrary: acc)
  case (Cons x args)
  then obtain b bs where "hex_DecodeString x = Some (b # bs)" by auto
  then show ?case using Cons.IH [of "acc @ [b]"] Cons.prems by simp
qed simp

lemma created_transfer_shape:
  assumes "mockLib_ok L" and "hex_ok x" and "transfer_shape xs"
  shows "\<exists>t h. createProposedTransfer L (f # x # xs) = Some (t, h) \<and> 8 \<le> length h"
proof -
  obtain buff where x: "hex_DecodeString x = Some buff" using assms(2) by (auto simp: hex_ok_def)
  obtain ts where ts: "transfer_args_loop xs [] = Some ts" using transfer_shape_loop [OF assms(3)] by blast
  obtain h where h: "CalculateHash_transfer L \<lparr> pt_BatchId = SetBytes buff, pt_Transfers = ts \<rparr> = Inr h" "8 \<le> length h"
    using assms(1) unfolding mockLib_ok_def by blast
  then show ?thesis by (simp add: createProposedTransfer_def x ts HashToActionID_value)
qed

lemma created_status_shape:
  assumes "mockLib_ok L" and "hex_ok x" and "status_shape m xs"
  shows "\<exists>st h. createProposedStatus L m (f # x # xs) = Some (st, h) \<and> 8 \<le> length h"
proof -
  obtain buff where x: "hex_DecodeString x = Some buff" using assms(2) by (auto simp: hex_ok_def)
  obtain p where p: "pendingBatch m = Some p" "length xs = length (pb_ElrondDeposits p)"
    using assms(3) by (auto simp: status_shape_def)
  obtain sts where sts: "status_args_loop xs [] = Some sts" "length sts = length xs"
    using status_shape_loop [of xs "[]"] assms(3) by (auto simp: status_shape_def)
  obtain h where h: "CalculateHash_status L \<lparr> ps_BatchId = SetBytes buff, ps_Statuses = sts \<rparr> = Inr h" "8 \<le> length h"
    using assms(1) unfolding mockLib_ok_def by blast
  then show ?thesis by (simp add: createProposedStatus_def x p sts)
qed

lemma request_progress:
  assumes "mockLib_ok L" and "request_shape L m (FuncName req) (Args req)"
  shows "\<exists>out. mock_ExecuteVMQuery L H req (m, e) = Some (Inr (Some out), (m, e))"
proof -
  consider
      (plain) "FuncName req \<in> {''isPaused'', ''getCurrentTxBatch'', ''getAllStakedRelayers'', ''getLastExecutedEthBatchId'', ''getLastExecutedEthTxId''}"
    | (action) x xs where "FuncName req \<in> {''wasActionExecuted'', ''quorumReached''}" "Args req = x # xs" "hex_ok x"
    | (signed) x y xs where "FuncName req = ''signed''" "Args req = x # y # xs" "hex_ok x" "hex_ok y"
    | (transfer) x xs where "FuncName req \<in> {''wasTransferActionProposed'', ''getActionIdForTransferBatch''}"
        "Args req = x # xs" "hex_ok x" "transfer_shape xs"
    | (status) x xs where "FuncName req \<in> {''wasSetCurrentTransactionBatchStatusActionProposed'', ''getActionIdForSetCurrentTransactionBatchStatus''}"
        "Args req = x # xs" "hex_ok x" "status_shape m xs"
    | (ticker) x xs where "FuncName req = ''getTokenIdForErc20Address''" "Args req = x # xs" "getTicker m (HexToAddress L x) \<noteq> None"
    | (erc20) x xs where "FuncName req = ''getErc20AddressForTokenId''" "Args req = x # xs" "getErc20Address m x \<noteq> None"
    using assms(2) unfolding request_shape_def by (simp split: if_split_asm) blast+
  then show ?thesis
  proof cases
    case plain
    then show ?thesis by (auto simp: mock_query_defs)
  next
    case action
    then show ?thesis
      by (auto simp: mock_query_defs vmRequestWasActionExecuted_def vmRequestQuorumReached_def getActionIDFromString_def hex_ok_def
          split: option.splits)
  next
    case signed
    then show ?thesis
      by (auto simp: mock_query_defs vmRequestSigned_def getActionIDFromString_def hex_ok_def split: option.splits)
  next
    case transfer
    obtain t h where c: "createProposedTransfer L (FuncName req # x # xs) = Some (t, h)" "8 \<le> length h"
      using created_transfer_shape [OF assms(1) transfer(3,4)] by blast
    from transfer(1) show ?thesis
      using c transfer(2)
      by (auto simp: mock_query_defs vmRequestwasTransferActionProposed_def vmRequestGetActionIdForTransferBatch_def
          Uint64BytesFromHash_def)
  next
    case status
    obtain st h where c: "createProposedStatus L m (FuncName req # x # xs) = Some (st, h)" "8 \<le> length h"
      using created_status_shape [OF assms(1) status(3,4)] by blast
    from status(1) show ?thesis
      using c status(2)
      by (auto simp: mock_query_defs vmRequestWasSetCurrentTransactionBatchStatusActionProposed_def
          vmRequestGetActionIdForSetCurrentTransactionBatchStatus_def Uint64BytesFromHash_def)
  next
    case ticker
    then show ?thesis by (auto simp: mock_query_defs vmRequestGetTokenIdForErc20Address_def)
  next
    case erc20
    then show ?thesis by (auto simp: mock_query_defs vmRequestGetErc20AddressForTokenId_def)
  qed
qed

text \<open>
  C20: The state of the contract is well formed in every run (each proposal lies under its own hash, every hash is long
  enough for an identifier, the signatures of an action are a non-empty list of different senders), and a query of one of
  the shapes the contract knows is answered there, and leaves the chain as it is. (Left out is
  \<^verbatim>\<open>getStatusesAfterExecution\<close>, which a callback of the test answers.)
\<close>

theorem simulated_chain_is_type_sound:
  assumes "mockLib_ok L" and "mock_run L H q txs m e"
  shows "mock_wf L m
     \<and> (request_shape L m (FuncName req) (Args req) \<longrightarrow>
          (\<exists>out. mock_ExecuteVMQuery L H req (m, e) = Some (Inr (Some out), (m, e))))"
  by (intro conjI impI mock_run_wf [OF assms] request_progress [OF assms(1)])

subsection \<open>Proposals stay\<close>

lemma found_same:
  "proposedTransfers m' = proposedTransfers m \<Longrightarrow> transfers.found L ws m' = transfers.found L ws m"
  "proposedStatus m' = proposedStatus m \<Longrightarrow> pendingBatch m' = pendingBatch m \<Longrightarrow> statuses.found L ws m' = statuses.found L ws m"
  by (simp_all add: transfers.found_def statuses.found_def createProposedStatus_pending [of m' m])

lemma signed_same:
  assumes "mock_sign L ws tx m = Some m' \<or> mock_performAction L ws m = Some m'"
  shows "proposedTransfers m' = proposedTransfers m \<and> proposedStatus m' = proposedStatus m \<and> pendingBatch m' = pendingBatch m"
  using assms
  by (auto simp: mock_sign_def mock_performAction_def bind_eq_Some_conv split: list.split_asm if_split_asm)

lemma transaction_keeps_found:
  assumes "processTransaction L H tx (m, e) = Some (u, (m', e'))"
  shows "(transfers.found L ws m = Some True \<longrightarrow> transfers.found L ws m' = Some True)
     \<and> (statuses.found L ws m = Some True \<longrightarrow> statuses.found L ws m' = Some True)"
  using assms
proof (cases rule: processTransaction_cases)
  case (status st h)
  then have "statuses.propose L (tx_words tx) m = Some m'" by (simp add: statuses.propose_def)
  then show ?thesis
    using statuses.propose_keeps_found status(3) found_same(1) [of m' m] by auto
next
  case (transfer t h)
  then have "transfers.propose L (tx_words tx) m = Some m'" by (simp add: transfers.propose_def)
  then show ?thesis
    using transfers.propose_keeps_found transfer(3) found_same(2) [of m' m] by auto
next
  case sign
  then show ?thesis using signed_same found_same [of m' m] by metis
next
  case perform
  then show ?thesis using signed_same found_same [of m' m] by metis
qed

lemma sent_transaction_processed:
  assumes "mock_SendTransaction L H (Some tx) (m, e) = Some (r, (m', e'))"
  obtains m1 u where "proposedTransfers m1 = proposedTransfers m" "proposedStatus m1 = proposedStatus m"
    "pendingBatch m1 = pendingBatch m" "processTransaction L H tx (m1, e) = Some (u, (m', e'))"
proof -
  from assms obtain a b u where "processTransaction L H tx (m\<lparr>sentTransactions := a, accounts := b\<rparr>, e) = Some (u, (m', e'))"
    by (auto simp: mock_SendTransaction_def bind_eq_Some_conv split: sum.split_asm)
  then show thesis by (intro that [of "m\<lparr>sentTransactions := a, accounts := b\<rparr>"]) simp_all
qed

lemma sent_keeps_found:
  assumes "mock_SendTransactions L H txs hs (m, e) = Some (r, (m', e'))"
  shows "transfers.found L ws m = Some True \<Longrightarrow> transfers.found L ws m' = Some True"
    and "statuses.found L ws m = Some True \<Longrightarrow> statuses.found L ws m' = Some True"
proof -
  have "(transfers.found L ws m = Some True \<longrightarrow> transfers.found L ws m' = Some True)
      \<and> (statuses.found L ws m = Some True \<longrightarrow> statuses.found L ws m' = Some True)"
    using assms
  proof (induction txs arbitrary: hs m e)
    case (Cons tx txs)
    then obtain r1 m1 e1 hs1 where s: "mock_SendTransaction L H (Some tx) (m, e) = Some (r1, (m1, e1))"
      "mock_SendTransactions L H txs hs1 (m1, e1) = Some (r, (m', e'))" by (auto simp: bind_eq_Some_conv)
    from s(1) show ?case
    proof (rule sent_transaction_processed)
      fix m0 u
      assume m0: "proposedTransfers m0 = proposedTransfers m" "proposedStatus m0 = proposedStatus m"
        "pendingBatch m0 = pendingBatch m" "processTransaction L H tx (m0, e) = Some (u, (m1, e1))"
      show ?thesis
        using Cons.IH [OF s(2)] transaction_keeps_found [OF m0(4), of ws] found_same [of m0 m] m0(1-3) by metis
    qed
  qed simp
  then show "transfers.found L ws m = Some True \<Longrightarrow> transfers.found L ws m' = Some True"
    "statuses.found L ws m = Some True \<Longrightarrow> statuses.found L ws m' = Some True" by blast+
qed

text \<open>
  C19: A proposal is found from the moment it is made: after a transaction that proposes a transfer, and any transactions after it,
  the query with the same arguments answers that it was proposed, and the same holds for a proposal of statuses as long as the pending
  batch stays.
\<close>

theorem proposals_stay_found:
  assumes "mock_SendTransactions L H (tx # txs) hs (m, e) = Some (r, (m', e'))" and "tx_words tx = f # ws"
    and "Args req = ws"
  shows "(f = ''proposeMultiTransferEsdtBatch'' \<longrightarrow>
            vmRequestwasTransferActionProposed L req m' = Some (createOkVmResponse [BoolToByteSlice True]))
     \<and> (f = ''proposeEsdtSafeSetCurrentTransactionBatchStatus'' \<longrightarrow>
            vmRequestWasSetCurrentTransactionBatchStatusActionProposed L req m' = Some (createOkVmResponse [BoolToByteSlice True]))"
proof -
  from assms(1) obtain r1 m1 e1 hs1 where s: "mock_SendTransaction L H (Some tx) (m, e) = Some (r1, (m1, e1))"
    "mock_SendTransactions L H txs hs1 (m1, e1) = Some (r, (m', e'))" by (auto simp: bind_eq_Some_conv)
  obtain m0 u where p: "processTransaction L H tx (m0, e) = Some (u, (m1, e1))" by (rule sent_transaction_processed [OF s(1)])
  have words: "strings_Split (CHR ''@'') (string_of_bytes (tx_Data tx)) = f # ws" using assms(2) by (simp add: tx_words_def)
  have "transfers.found L (g # ws) m1 = Some True" if f: "f = ''proposeMultiTransferEsdtBatch''" for g
  proof -
    have "transfers.propose L (f # ws) m0 = Some m1"
      using p words f by (auto simp: processTransaction_def transfer_operations(1) bind_eq_Some_conv)
    then show ?thesis by (rule transfers.propose_found)
  qed
  moreover have "statuses.found L (g # ws) m1 = Some True" if f: "f = ''proposeEsdtSafeSetCurrentTransactionBatchStatus''" for g
  proof -
    have "statuses.propose L (f # ws) m0 = Some m1"
      using p words f by (auto simp: processTransaction_def status_operations(1) bind_eq_Some_conv)
    then show ?thesis by (rule statuses.propose_found)
  qed
  ultimately show ?thesis
    using sent_keeps_found [OF s(2), of "FuncName req # ws"] assms(3)
    by (auto simp: transfer_operations(2) status_operations(2))
qed

end
