(* ===== verification/Cross_Chain_Demo.thy ===== *)
theory Cross_Chain_Demo
  imports Cross_Chain Elrond_Chain_Runs
begin

section \<open>Two relayers on the simulated chains\<close>

text \<open>
  A concrete setting for the witnesses: addresses of both chains are single bytes, the hash of a proposal is its batch identifier, two
  relayers, a quorum of two, and one registered token.
\<close>

definition sim_hash :: "int \<Rightarrow> bytes" where
  "sim_hash i = PutUint64 (word_of_int i + 100)"

definition sim_lib :: "(byte, byte) mockLib" where
  "sim_lib =
     \<lparr> CalculateHash_status = (\<lambda>st. Inr (sim_hash (ps_BatchId st + 50))),
       CalculateHash_transfer = (\<lambda>t. Inr (sim_hash (pt_BatchId t))),
       CalculateHash_tx = (\<lambda>tx. Inr (tx_Data tx)),
       NewAddressFromBech32String = (\<lambda>s. Inr (hd (bytes_of_string s))),
       NewAddressFromBytes = hd, AddressBytes = (\<lambda>a. [a]),
       mock_AddressAsBech32String = (\<lambda>a. string_of_bytes [a]),
       HexToAddress = (\<lambda>s. case hex_DecodeString s of Some (b # _) \<Rightarrow> b | _ \<Rightarrow> 0),
       mock_Address_Bytes = (\<lambda>a. [a]), range_hashes = (\<lambda>hs. hs) \<rparr>"

definition sim_handlers :: "'e mockHandlers" where
  "sim_handlers = \<lparr> GetStatusesAfterExecutionHandler = None, ProcessFinishedHandler = None,
                    ProposeMultiTransferEsdtBatchCalled = None \<rparr>"

definition sim_ToDataBytes :: "byte Builder \<Rightarrow> bytes res" where
  "sim_ToDataBytes builder =
     (case builder of
        Function f # args \<Rightarrow> Inr (bytes_of_string (join_with ''@'' (f # hex_args (\<lambda>a. [a]) args)))
      | _ \<Rightarrow> Inl (ErrNew ''sdk'' ''no function''))"

definition sim_ToVmValueRequest :: "byte Builder \<Rightarrow> VmValueRequest option res" where
  "sim_ToVmValueRequest builder =
     (case builder of
        Address a # CallerAddress c # Function f # args \<Rightarrow>
          Inr (Some \<lparr> req_Address = string_of_bytes [a], FuncName = f, CallerAddr = string_of_bytes [c], Args = hex_args (\<lambda>a. [a]) args \<rparr>)
      | _ \<Rightarrow> Inl (ErrNew ''sdk'' ''no function''))"

type_synonym 'e sim_state = "(byte, byte) ElrondChainMock \<times> 'e"

definition sim_getter :: "byte \<Rightarrow> ('e sim_state, byte) dataGetterDeps" where
  "sim_getter relayer =
     \<lparr> multisigContractAddress = 200, relayerAddress = relayer, proxy = mock_proxy sim_lib sim_handlers,
       AddressAsBech32String = (\<lambda>a. string_of_bytes [a]), ToVmValueRequest = sim_ToVmValueRequest \<rparr>"

definition sim_client :: "byte \<Rightarrow> ('e sim_state, byte) elrondClientDeps" where
  "sim_client relayer = dataGetterDeps.extend (sim_getter relayer)
     (elrondClientDeps.fields
       \<lparr> th_proxy = mock_proxy sim_lib sim_handlers, th_relayerAddress = relayer, multisigAddressAsBech32 = ''sc'',
         GetNonce = (\<lambda>_ s. Some (Inr 1, s)),
         SendTransaction = (\<lambda>tx. mock_SendTransaction sim_lib sim_handlers (Some tx)),
         nonceTxHandler_Close = (\<lambda>s. Some (None, s)), singleSigner_Sign = (\<lambda>b. Inr [1, 2]),
         IsWhitelisted = (\<lambda>_ s. Some (True, s)), th_AddressAsBech32String = (\<lambda>a. string_of_bytes [a]),
         ToDataBytes = sim_ToDataBytes, Marshal_Transaction = (\<lambda>tx. Inr (tx_Data tx)) \<rparr>
       (elrondToErc20_ConvertToken (getter_of (sim_getter relayer)))
       \<lparr> gas_Sign = 1, gas_ProposeTransferBase = 1, gas_ProposeTransferForEach = 1,
         gas_ProposeStatusBase = 1, gas_ProposeStatusForEach = 1, gas_PerformActionBase = 1, gas_PerformActionForEach = 1 \<rparr>
       (\<lambda>b. string_of_bytes b)
       \<lparr> SetIntMetric = (\<lambda>_ _ s. Some ((), s)), AddIntMetric = (\<lambda>_ _ s. Some ((), s)),
         SetStringMetric = (\<lambda>_ _ s. Some ((), s)) \<rparr> 10)"

lemmas sim_defs = sim_client_def sim_getter_def dataGetterDeps.defs elrondClientDeps.defs

lemma sim_lib_ok: "mockLib_ok sim_lib"
  by (simp add: mockLib_ok_def sim_lib_def sim_hash_def)

lemma sim_builders: "sdk_builders (\<lambda>a. [a]) sim_ToDataBytes sim_ToVmValueRequest"
  by (simp add: sdk_builders_def sim_ToDataBytes_def sim_ToVmValueRequest_def)

lemma sim_on_mock: "client_on_mock sim_lib sim_handlers (sim_client a)"
proof -
  have id: "\<exists>accs. m = m\<lparr>accounts := accs\<rparr>" for m :: "(byte, byte) ElrondChainMock"
    by (intro exI [of _ "accounts m"]) simp
  show ?thesis
    using sim_lib_ok sim_builders id by (simp add: client_on_mock_def sim_defs) (simp add: sim_lib_def)
qed

lemma sim_handlers_return: "handlers_return sim_handlers"
  by (simp add: handlers_return_def sim_handlers_def call_if_set_def)

lemma sim_fields:
  "proxy (sim_client a) = mock_proxy sim_lib sim_handlers" "proxy (sim_getter a) = mock_proxy sim_lib sim_handlers"
  "ToVmValueRequest (sim_client a) = sim_ToVmValueRequest" "ToVmValueRequest (sim_getter a) = sim_ToVmValueRequest"
  by (simp_all add: sim_defs)

lemma sim_query: "executeQueryFromBuilder (sim_client a) builder = executeQueryFromBuilder (sim_getter a) builder"
  unfolding executeQueryFromBuilder_def ExecuteQueryReturningBytes_def sim_fields ..

lemma sim_query_builder:
  "createDefaultVmQueryBuilder (sim_client a) = [Address 200, CallerAddress a]"
  "createDefaultVmQueryBuilder (sim_getter a) = [Address 200, CallerAddress a]"
  by (simp_all add: createDefaultVmQueryBuilder_def sim_defs)

lemma sim_same_getter: "getter_of (sim_client a) = getter_of (sim_getter a)"
  unfolding getter_of_def GetTokenIdForErc20Address_def [abs_def] GetERC20AddressForTokenId_def [abs_def] sim_query_builder sim_query ..

lemma sim_mapper: "tokensMapper (sim_client a) = elrondToErc20_ConvertToken (getter_of (sim_client a))"
  unfolding sim_same_getter by (simp add: sim_client_def dataGetterDeps.defs elrondClientDeps.defs)

definition sim_pending :: "(byte, byte) ElrondPendingBatch" where
  "sim_pending = \<lparr> pb_Nonce = 4, pb_ElrondDeposits =
     [\<lparr> ed_From = 11, ed_To = 21, ed_Ticker = ''TKN'', ed_Amount = 30, ed_DepositNonce = 8 \<rparr>,
      \<lparr> ed_From = 12, ed_To = 22, ed_Ticker = ''TKN'', ed_Amount = 40, ed_DepositNonce = 9 \<rparr>] \<rparr>"

definition sim_chain :: "(byte, byte) ElrondChainMock" where
  "sim_chain = AddTokensPair 5 ''TKN'' (SetPendingBatch (Some sim_pending) (mock_SetQuorum 2 NewElrondChainMock))"

lemmas sim_chain_defs = sim_chain_def AddTokensPair_def addTokensPair_def SetPendingBatch_def setPendingBatch_def mock_SetQuorum_def
  NewElrondChainMock_def newElrondContractStateMock_def clearTokens_def cleanState_def elrondContractStateMock.defs ElrondChainMock.defs

lemma sim_chain_fields [simp]:
  "proposedTransfers sim_chain = []" "proposedStatus sim_chain = []" "signedActionIDs sim_chain = []"
  "mock_quorum sim_chain = 2" "pendingBatch sim_chain = Some sim_pending"
  "getTicker sim_chain 5 = Some ''TKN''"
  "getErc20Address sim_chain (hex_EncodeToString (bytes_of_string ''TKN'')) = Some 5"
  by (simp_all add: sim_chain_defs getTicker_def getErc20Address_def)

lemma sim_chain_wf: "mock_wf sim_lib sim_chain"
  by (simp add: mock_wf_def)

lemma sim_hash_id: "hash_id (transfer_hash sim_lib t) = word_of_int (pt_BatchId t) + 100"
  "hash_id (status_hash sim_lib st) = word_of_int (ps_BatchId st + 50) + 100"
  by (simp_all add: hash_id_def transfer_hash_def status_hash_def sim_lib_def sim_hash_def)

lemma sim_relayers: "card {mock_AddressAsBech32String sim_lib (relayerAddress (sim_client 1)),
    mock_AddressAsBech32String sim_lib (relayerAddress (sim_client 2))} = 2"
  by (simp add: sim_lib_def sim_defs string_of_bytes_def)

subsection \<open>Ethereum\<close>

definition sim_geth :: "(byte, unit) gethLib" where
  "sim_geth =
     \<lparr> BytesToAddress = hd, Address_Bytes = (\<lambda>a. [a]), Address_String = (\<lambda>a. hex_EncodeToString [a]),
       abi_NewType = (\<lambda>_. Inr ()), abi_Pack = (\<lambda>_ _. Inr [1]), Keccak256Hash = (\<lambda>b. b),
       NewKeyedTransactorWithChainID = (\<lambda>_. None), crypto_Sign = (\<lambda>h. Inr [5]) \<rparr>"

definition sim_eth_lib :: "byte ethMockLib" where
  "sim_eth_lib = \<lparr> Marshal_proposedTransfer = (\<lambda>t. Inr [1]), LegacyTx_Hash = hex_EncodeToString \<rparr>"

definition sim_eth_handlers :: "(byte, 'e) ethMockHandlers" where
  "sim_eth_handlers =
     \<lparr> ethm_GetStatusesAfterExecutionHandler = Some (\<lambda>e. Some ([3, 3], e)), ethm_ProposeMultiTransferEsdtBatchCalled = None,
       ethm_BalanceAtCalled = Some (\<lambda>_ e. Some (Inr 1000, e)) \<rparr>"

definition sim_eth_client ::
  "(bytes \<Rightarrow> (byte EthereumChainMock \<times> 'e, bytes res) go) \<Rightarrow> (byte EthereumChainMock \<times> 'e, byte, unit) ethereumClientDeps" where
  "sim_eth_client mapper =
     \<lparr> geth = sim_geth, clientWrapper = eth_mock_wrapper sim_eth_lib sim_eth_handlers,
       erc20_BalanceOf = (\<lambda>_ _ s. Some (Inr 100, s)), eth_ToBech32String = (\<lambda>b. string_of_bytes b),
       broadcaster_BroadcastSignature = (\<lambda>_ _ s. Some ((), s)), ethereumRelayerAddress = 7, eth_tokensMapper = mapper,
       signatureHolder_Signatures = (\<lambda>_ s. Some ([[1], [2], [3]], s)), safeContractAddress = 8,
       gasHandler_GetCurrentGasPrice = (\<lambda>s. Some (Inr 1, s)),
       transferGasLimitBase = 10, transferGasLimitForEach = 5, eth_allowDelta = 10, range_transfers = (\<lambda>xs. xs) \<rparr>"

definition sim_deposits :: "byte Deposit list" where
  "sim_deposits =
     [\<lparr> Deposit_Nonce = 7, TokenAddress = 5, Deposit_Amount = 20, Depositor = 31, Recipient = [41], Deposit_Status = 0 \<rparr>,
      \<lparr> Deposit_Nonce = 8, TokenAddress = 5, Deposit_Amount = 25, Depositor = 32, Recipient = [42], Deposit_Status = 0 \<rparr>]"

definition sim_batch :: Batch where
  "sim_batch = \<lparr> Batch_Nonce = 3, BlockNumber = 0, LastUpdatedBlockNumber = 0, DepositsCount = 0 \<rparr>"

definition sim_eth_chain :: "byte EthereumChainMock" where
  "sim_eth_chain = the (add_deposits 3 sim_deposits (AddBatch sim_batch NewEthereumChainMock))"

lemma sim_batch_stored: "batch_stored sim_eth_chain 3 sim_deposits"
proof -
  have "\<exists>m'. add_deposits 3 sim_deposits (AddBatch sim_batch NewEthereumChainMock) = Some m' \<and> batch_stored m' 3 sim_deposits"
    by (rule added_batch_stored) (simp_all add: sim_batch_def sim_deposits_def NewEthereumChainMock_def)
  then show ?thesis by (auto simp: sim_eth_chain_def)
qed

lemma sim_bridgeable: "\<forall>dep \<in> set sim_deposits. deposit_bridgeable sim_geth sim_lib (\<lambda>_. ''TKN'') sim_chain dep"
  by (simp add: sim_deposits_def deposit_bridgeable_def sim_geth_def) (simp add: sim_lib_def)

subsection \<open>The theorems on this setting\<close>

definition sim_reader :: "(byte EthereumChainMock \<times> unit sim_state, byte, unit) ethereumClientDeps" where
  "sim_reader = sim_eth_client (\<lambda>token. beside (erc20ToElrond_ConvertToken (getter_of (sim_client 1)) token))"

theorem deposits_reach_elrond_witness:
  "\<exists>b m' e'. ethc_GetBatch sim_reader 3 (sim_eth_chain, (sim_chain, ())) = Some (Inr b, (sim_eth_chain, (sim_chain, ())))
     \<and> transfer_round (sim_client 1) [sim_client 1, sim_client 2] b (sim_chain, ()) = Some (Inr True, (m', e'))
     \<and> PerformedActionID m' = Some 103
     \<and> ProposedTransfer sim_lib m' = Some (Some (transfer_of_ethereum sim_geth (\<lambda>_. ''TKN'') 3 sim_deposits))"
proof -
  have geth: "geth sim_reader = sim_geth" by (simp add: sim_reader_def sim_eth_client_def)
  have id: "hash_id (transfer_hash sim_lib (transfer_of_ethereum sim_geth (\<lambda>_. ''TKN'') 3 sim_deposits)) = 103"
    by (simp add: sim_hash_id transfer_of_ethereum_def)
  have "\<exists>b m' e'. ethc_GetBatch sim_reader 3 (sim_eth_chain, (sim_chain, ())) = Some (Inr b, (sim_eth_chain, (sim_chain, ())))
     \<and> transfer_round (sim_client 1) [sim_client 1, sim_client 2] b (sim_chain, ()) = Some (Inr True, (m', e'))
     \<and> PerformedActionID m' = Some \<bar>sint (hash_id (transfer_hash sim_lib (transfer_of_ethereum sim_geth (\<lambda>_. ''TKN'') 3 sim_deposits)))\<bar>
     \<and> ProposedTransfer sim_lib m' = Some (Some (transfer_of_ethereum (geth sim_reader) (\<lambda>_. ''TKN'') 3 sim_deposits))"
    by (rule deposits_reach_elrond [where EL = sim_eth_lib and EH = sim_eth_handlers and H = sim_handlers and L = sim_lib])
      (simp_all add: geth sim_on_mock sim_handlers_return sim_chain_wf sim_relayers sim_batch_stored sim_bridgeable id,
        simp_all add: sim_reader_def sim_eth_client_def)
  then show ?thesis unfolding geth id by simp
qed

theorem withdrawals_reach_ethereum_witness:
  "\<exists>b txhash em' ee' m' e'. GetPending (sim_client 1) (sim_chain, ()) = Some (Inr (Some b), (sim_chain, ()))
     \<and> ethc_ExecuteTransfer (sim_eth_client (\<lambda>_ _. None)) [9] (Some b) 2 (sim_eth_chain, ()) = Some (Inr txhash, (em', ee'))
     \<and> GetLastProposedTransfer em' = Some (transfer_of_pending (\<lambda>_. 5) sim_pending [[1], [2]])
     \<and> ethc_WasExecuted (sim_eth_client (\<lambda>_ _. None)) (ID b) (em', ee') = Some (Inr True, (em', ee'))
     \<and> ethc_GetTransactionsStatuses (sim_eth_client (\<lambda>_ _. None)) (ID b) (em', ee') = Some (Inr [3, 3], (em', ee'))
     \<and> status_round (sim_client 1) [sim_client 1, sim_client 2] (b\<lparr>Statuses := [3, 3]\<rparr>) (sim_chain, ()) = Some (Inr True, (m', e'))
     \<and> PerformedActionID m' = Some 154
     \<and> map_of (proposedStatus m') (status_hash sim_lib \<lparr> ps_BatchId = 4, ps_Statuses = [3, 3] \<rparr>)
         = Some \<lparr> ps_BatchId = 4, ps_Statuses = [3, 3] \<rparr>"
proof -
  let ?d = "sim_eth_client (\<lambda>_ _. None) :: (byte EthereumChainMock \<times> unit, byte, unit) ethereumClientDeps"
  let ?st = "\<lparr> ps_BatchId = 4, ps_Statuses = [3, 3] \<rparr>"
  have id: "hash_id (status_hash sim_lib ?st) = 154" by (simp add: sim_hash_id)
  have b: "GetPending (sim_client 1) (sim_chain, ()) = Some (Inr (Some \<lparr> ID = word_of_int (pb_Nonce sim_pending),
      Deposits = map (deposit_of_pending sim_lib (ToBech32String (sim_client 1 :: (unit sim_state, byte) elrondClientDeps)) (\<lambda>_. mock_Address_Bytes sim_lib 5))
        (pb_ElrondDeposits sim_pending), Statuses = replicate (length (pb_ElrondDeposits sim_pending)) 0 \<rparr>), (sim_chain, ()))"
    by (rule mock_GetPending [OF sim_on_mock sim_mapper, where ?erc20.0 = "\<lambda>_. 5"]) (simp_all add: sim_pending_def)
  have ready: "transfer_ready ?d sim_eth_lib sim_eth_handlers [9] b 2 [[1], [2], [3]] (sim_eth_chain, ())"
    if "GetPending (sim_client 1) (sim_chain, ()) = Some (Inr (Some b), (sim_chain, ()))" for b
  proof -
    have "b = \<lparr> ID = word_of_int (pb_Nonce sim_pending),
      Deposits = map (deposit_of_pending sim_lib (ToBech32String (sim_client 1 :: (unit sim_state, byte) elrondClientDeps)) (\<lambda>_. mock_Address_Bytes sim_lib 5))
        (pb_ElrondDeposits sim_pending), Statuses = replicate (length (pb_ElrondDeposits sim_pending)) 0 \<rparr>"
      using b that by simp
    then show ?thesis
      by (simp add: transfer_ready_def sim_eth_client_def amounts_set_def sim_pending_def deposit_of_pending_def batch_lists_def
          sim_geth_def total_of_def ethm_BalanceAt_def sim_eth_handlers_def sim_eth_lib_def)
  qed
  have "\<exists>b txhash em' ee' m' e'. GetPending (sim_client 1) (sim_chain, ()) = Some (Inr (Some b), (sim_chain, ()))
     \<and> ethc_ExecuteTransfer ?d [9] (Some b) 2 (sim_eth_chain, ()) = Some (Inr txhash, (em', ee'))
     \<and> GetLastProposedTransfer em' = Some (transfer_of_pending (\<lambda>_. 5) sim_pending (take (nat 2) [[1], [2], [3]]))
     \<and> ethc_WasExecuted ?d (ID b) (em', ee') = Some (Inr True, (em', ee'))
     \<and> ethc_GetTransactionsStatuses ?d (ID b) (em', ee') = Some (Inr [3, 3], (em', ee'))
     \<and> status_round (sim_client 1) [sim_client 1, sim_client 2] (b\<lparr>Statuses := [3, 3]\<rparr>) (sim_chain, ()) = Some (Inr True, (m', e'))
     \<and> PerformedActionID m' = Some \<bar>sint (hash_id (status_hash sim_lib ?st))\<bar>
     \<and> map_of (proposedStatus m') (status_hash sim_lib ?st) = Some \<lparr> ps_BatchId = pb_Nonce sim_pending, ps_Statuses = [3, 3] \<rparr>"
    by (rule withdrawals_reach_ethereum [where EL = sim_eth_lib and EH = sim_eth_handlers and H = sim_handlers and L = sim_lib
          and f = "\<lambda>e. Some ([3, 3], e)"])
      (simp_all add: sim_on_mock sim_handlers_return sim_chain_wf sim_relayers sim_mapper id ready,
        simp_all add: sim_pending_def pending_bridgeable_def sim_eth_handlers_def sim_eth_client_def sim_geth_def,
        simp_all add: sim_lib_def)
  then show ?thesis unfolding id by (simp add: sim_pending_def)
qed

text \<open>
  A batch whose transfer is proposed and signed by the second relayer, and whose statuses can be proposed for the pending batch.
\<close>

definition sim_transfer :: TransferBatch where
  "sim_transfer =
     \<lparr> ID = 3, Deposits = [\<lparr> Nonce = 7, ToBytes = [41], DisplayableTo = ''to'', FromBytes = [31], DisplayableFrom = ''from'',
         TokenBytes = [5], ConvertedTokenBytes = bytes_of_string ''TKN'', DisplayableToken = ''05'', Amount = Some 20 \<rparr>],
       Statuses = [3, 3] \<rparr>"

definition sim_signed :: "(byte, byte) ElrondChainMock" where
  "sim_signed = sim_chain\<lparr>
     proposedTransfers := [(transfer_hash sim_lib (transfer_of_batch sim_transfer), transfer_of_batch sim_transfer)],
     signedActionIDs := [(show_int 103, [(string_of_bytes [2], ())])]\<rparr>"

lemma sim_signed_wf: "mock_wf sim_lib sim_signed"
proof -
  have "8 \<le> length (transfer_hash sim_lib (transfer_of_batch sim_transfer))" by (rule mockLib_hashes(2) [OF sim_lib_ok])
  moreover have "CalculateHash_transfer sim_lib (transfer_of_batch sim_transfer)
      = Inr (bytes_of_string (transfer_hash sim_lib (transfer_of_batch sim_transfer)))"
    by (simp add: transfer_hash_def sim_lib_def)
  ultimately show ?thesis by (simp add: mock_wf_def sim_signed_def)
qed

lemma sim_signed_abs:
  "ms_transfers (abs_multisig sim_signed) (transfer_hash sim_lib (transfer_of_batch sim_transfer)) = Some (transfer_of_batch sim_transfer)"
  "ms_statuses (abs_multisig sim_signed) h = None" "ms_pending (abs_multisig sim_signed) = Some sim_pending"
  "ms_performed (abs_multisig sim_signed) = None" "ms_quorum (abs_multisig sim_signed) = 2"
  "ms_signers (abs_multisig sim_signed) 103 = {string_of_bytes [2]}" "103 \<in> ms_actions (abs_multisig sim_signed)"
proof -
  have "hash_id (transfer_hash sim_lib (transfer_of_batch sim_transfer)) = 103"
    by (simp add: sim_hash_id transfer_of_batch_def sim_transfer_def)
  then show "103 \<in> ms_actions (abs_multisig sim_signed)" by (simp add: ms_actions_def abs_multisig_def sim_signed_def)
  show "ms_performed (abs_multisig sim_signed) = None" by (simp add: abs_multisig_def sim_signed_def sim_chain_defs)
qed (simp_all add: abs_multisig_def sim_signed_def signers_def)

theorem client_implements_multisig_witness:
  "WasProposedTransfer (sim_client 1) (Some sim_transfer) (sim_signed, ()) = Some (Inr True, (sim_signed, ()))
   \<and> (\<exists>r m' e'. ProposeTransfer (sim_client 1) (Some sim_transfer) (sim_signed, ()) = Some (Inr r, (m', e')) \<and> mock_wf sim_lib m'
        \<and> abs_multisig m' = ms_propose_transfer (transfer_hash sim_lib (transfer_of_batch sim_transfer))
            (transfer_of_batch sim_transfer) (abs_multisig sim_signed))
   \<and> WasProposedSetStatus (sim_client 1) (Some sim_transfer) (sim_signed, ()) = Some (Inr False, (sim_signed, ()))
   \<and> (\<exists>r m' e'. ProposeSetStatus (sim_client 1) (Some sim_transfer) (sim_signed, ()) = Some (Inr r, (m', e')) \<and> mock_wf sim_lib m'
        \<and> abs_multisig m' = ms_propose_status (status_hash sim_lib (status_of_batch sim_transfer))
            (status_of_batch sim_transfer) (abs_multisig sim_signed))
   \<and> getter_WasExecuted (sim_client 1) 103 (sim_signed, ()) = Some (Inr False, (sim_signed, ()))
   \<and> WasSigned (sim_client 1) 103 (sim_signed, ()) = Some (Inr False, (sim_signed, ()))
   \<and> QuorumReached (sim_client 1) 103 (sim_signed, ()) = Some (Inr False, (sim_signed, ()))
   \<and> (\<exists>r m' e'. Sign (sim_client 1) 103 (sim_signed, ()) = Some (Inr r, (m', e'))
        \<and> ms_signers (abs_multisig m') 103 = {string_of_bytes [1], string_of_bytes [2]})
   \<and> (\<exists>r m' e'. PerformAction (sim_client 1) 103 (Some sim_transfer) (sim_signed, ()) = Some (Inr r, (m', e'))
        \<and> ms_performed (abs_multisig m') = None)"
proof -
  have send: "sendable sim_transfer" by (simp add: sendable_def sim_transfer_def bytes_of_string_def)
  have b: "ID sim_transfer \<noteq> 0" "length (Statuses sim_transfer) = length (pb_ElrondDeposits sim_pending)"
    by (simp_all add: sim_transfer_def sim_pending_def)
  have addr: "mock_AddressAsBech32String sim_lib (relayerAddress (sim_client 1 :: (unit sim_state, byte) elrondClientDeps)) = string_of_bytes [1]"
    by (simp add: sim_lib_def sim_defs)
  have other: "string_of_bytes [1] \<noteq> string_of_bytes [2]" by (simp add: string_of_bytes_def)
  note all = client_implements_multisig [OF sim_on_mock [of 1] sim_handlers_return sim_signed_wf, where b = sim_transfer and p = sim_pending
      and i = 103 and e = "()", unfolded addr]
  have s: "\<bar>sint (103 :: uint64)\<bar> = 103" by simp
  from all send b show ?thesis
    unfolding s sim_signed_abs by (auto simp: sim_signed_abs ms_sign_def ms_perform_def other)
qed

text \<open>Four transactions: one proposes the empty batch 3, two relayers sign its action, and one performs it.\<close>

definition sim_tx :: "byte \<Rightarrow> string \<Rightarrow> Transaction" where
  "sim_tx sender txt =
     \<lparr> tx_ChainID = ''t'', tx_Version = 1, tx_GasLimit = 1, tx_GasPrice = 1, tx_Nonce = 1, tx_Data = bytes_of_string txt,
       tx_SndAddr = string_of_bytes [sender], tx_RcvAddr = ''sc'', tx_Value = ''0'', tx_Signature = '''' \<rparr>"

definition sim_start :: "(byte, byte) ElrondChainMock" where
  "sim_start = mock_SetQuorum 2 NewElrondChainMock"

lemma sim_words:
  "strings_Split (CHR ''@'') ''proposeMultiTransferEsdtBatch@03'' = [''proposeMultiTransferEsdtBatch'', ''03'']"
  "strings_Split (CHR ''@'') ''sign@67'' = [''sign'', ''67'']"
  "strings_Split (CHR ''@'') ''performAction@67'' = [''performAction'', ''67'']"
  "hex_DecodeString ''03'' = Some [3]" "getActionIDFromString ''67'' = Some 103"
  by (simp_all add: fromHexChar_def getActionIDFromString_def SetBytes_def)

lemma sim_created:
  "createProposedTransfer sim_lib [''proposeMultiTransferEsdtBatch'', ''03''] = Some (\<lparr> pt_BatchId = 3, pt_Transfers = [] \<rparr>,
     transfer_hash sim_lib \<lparr> pt_BatchId = 3, pt_Transfers = [] \<rparr>)"
  using HashToActionID_value [OF mockLib_hashes(2) [OF sim_lib_ok, of "\<lparr> pt_BatchId = 3, pt_Transfers = [] \<rparr>"]]
  by (simp add: createProposedTransfer_def sim_words SetBytes_def transfer_hash_def del: hex_DecodeString.simps) (simp add: sim_lib_def)

definition sim_txs :: "Transaction list" where
  "sim_txs = [sim_tx 1 ''proposeMultiTransferEsdtBatch@03'', sim_tx 1 ''sign@67'', sim_tx 2 ''sign@67'', sim_tx 1 ''performAction@67'']"

lemma sim_lib_fields:
  "NewAddressFromBech32String sim_lib s = Inr (hd (bytes_of_string s))" "CalculateHash_tx sim_lib tx = Inr (tx_Data tx)"
  "range_hashes sim_lib hs = hs"
  by (simp_all add: sim_lib_def)

lemma sim_action: "HashToActionID (transfer_hash sim_lib \<lparr> pt_BatchId = 3, pt_Transfers = [] \<rparr>) = Some 103"
  by (simp add: HashToActionID_value [OF mockLib_hashes(2) [OF sim_lib_ok]] sim_hash_id)

lemma sim_start_fields:
  "proposedTransfers sim_start = []" "signedActionIDs sim_start = []" "mock_quorum sim_start = 2" "sentTransactions sim_start = []"
  "accounts sim_start = []"
  by (simp_all add: sim_start_def sim_chain_defs)

lemma sim_txs_run:
  "\<exists>r m. mock_SendTransactions sim_lib (sim_handlers :: unit mockHandlers) sim_txs [] (sim_start, ()) = Some (r, (m, ()))
     \<and> performedAction m = Some 103"
  by (simp add: sim_txs_def mock_SendTransaction_def sim_lib_fields sim_tx_def processTransaction_def sim_words
      proposeMultiTransferEsdtBatch_def sim_created mock_sign_def mock_performAction_def actionIDExists_def sim_action
      sim_start_fields call_if_set_def sim_handlers_def string_of_bytes_def [of "[_]"]
      del: strings_Split.simps hex_DecodeString.simps)

lemma sim_run:
  assumes "mock_run L H q pre m e" and "mock_SendTransactions L H txs hs (m, e) = Some (r, (m', e'))"
  shows "mock_run L H q (pre @ txs) m' e'"
  using assms
proof (induction txs arbitrary: pre hs m e)
  case (Cons tx txs)
  then obtain r1 m1 e1 hs1 where "mock_SendTransaction L H (Some tx) (m, e) = Some (r1, (m1, e1))"
    "mock_SendTransactions L H txs hs1 (m1, e1) = Some (r, (m', e'))"
    by (auto simp: bind_eq_Some_conv)
  then show ?case using Cons.IH [OF mock_run.send [OF Cons.prems(1)]] by simp
qed simp

theorem performed_was_agreed_witness:
  "\<exists>m. mock_run sim_lib sim_handlers 2 sim_txs m () \<and> PerformedActionID m = Some 103 \<and> 2 \<le> int (card (signed_by sim_txs 103))"
proof -
  obtain r m where run: "mock_SendTransactions sim_lib sim_handlers sim_txs [] (sim_start, ()) = Some (r, (m, ()))"
    "performedAction m = Some 103"
    using sim_txs_run by auto
  have "mock_run sim_lib sim_handlers 2 ([] @ sim_txs) m ()"
    by (rule sim_run [OF mock_run.start run(1) [unfolded sim_start_def]])
  moreover have "range_order (range_hashes sim_lib)" by (simp add: sim_lib_def)
  ultimately show ?thesis
    using performed_was_agreed [of sim_lib sim_handlers 2 sim_txs m "()" 103] run(2) by (auto simp: PerformedActionID_def)
qed

theorem simulated_chain_is_type_sound_witness:
  "mock_wf sim_lib sim_start \<and> (\<exists>out. mock_ExecuteVMQuery sim_lib sim_handlers
      \<lparr> req_Address = ''sc'', FuncName = ''wasTransferActionProposed'', CallerAddr = ''r'', Args = [''03''] \<rparr> (sim_start, ())
      = Some (Inr (Some out), (sim_start, ())))"
proof -
  have "hex_DecodeString ''03'' = Some [3]" by code_simp
  then have "request_shape sim_lib sim_start ''wasTransferActionProposed'' [''03'']" by (simp add: request_shape_def hex_ok_def)
  then show ?thesis
    using simulated_chain_is_type_sound [OF sim_lib_ok mock_run.start [where H = sim_handlers and q = 2 and e = "()"],
        of "\<lparr> req_Address = ''sc'', FuncName = ''wasTransferActionProposed'', CallerAddr = ''r'', Args = [''03''] \<rparr>"]
    by (simp add: sim_start_def)
qed

theorem deposits_are_read_witness:
  "\<exists>m' b. add_deposits 3 sim_deposits (AddBatch sim_batch NewEthereumChainMock) = Some m'
     \<and> ethc_GetBatch (sim_eth_client (\<lambda>token s. Some (Inr (255 # token), s))) 3 (m', ()) = Some (Inr b, (m', ()))
     \<and> map FromBytes (Deposits b) = [[31], [32]] \<and> map ConvertedTokenBytes (Deposits b) = [[255, 5], [255, 5]]"
proof -
  let ?d = "sim_eth_client (\<lambda>token s. Some (Inr (255 # token), s)) :: (byte EthereumChainMock \<times> unit, byte, unit) ethereumClientDeps"
  have "\<exists>m'. add_deposits 3 sim_deposits (AddBatch sim_batch NewEthereumChainMock) = Some m'
     \<and> ethc_GetBatch ?d 3 (m', ()) = Some (Inr \<lparr> ID = 3, Deposits = map (\<lambda>dep.
          (deposit_from_ethereum ?d dep)\<lparr>ConvertedTokenBytes := 255 # Address_Bytes (geth ?d) (TokenAddress dep)\<rparr>) sim_deposits,
          Statuses = replicate (length sim_deposits) 0 \<rparr>, (m', ()))"
    by (rule deposits_are_read [where L = sim_eth_lib and H = sim_eth_handlers])
      (simp_all add: sim_eth_client_def sim_batch_def sim_deposits_def NewEthereumChainMock_def)
  then show ?thesis by (auto simp: sim_eth_client_def sim_deposits_def deposit_from_ethereum_def sim_geth_def)
qed

theorem proposals_stay_found_witness:
  "\<exists>r m. mock_SendTransactions sim_lib (sim_handlers :: unit mockHandlers) sim_txs [] (sim_start, ()) = Some (r, (m, ()))
     \<and> vmRequestwasTransferActionProposed sim_lib
         \<lparr> req_Address = ''sc'', FuncName = ''wasTransferActionProposed'', CallerAddr = ''r'', Args = [''03''] \<rparr> m
         = Some (createOkVmResponse [BoolToByteSlice True])"
proof -
  obtain r m where run: "mock_SendTransactions sim_lib (sim_handlers :: unit mockHandlers) sim_txs [] (sim_start, ()) = Some (r, (m, ()))"
    using sim_txs_run by auto
  have "tx_words (sim_tx 1 ''proposeMultiTransferEsdtBatch@03'') = ''proposeMultiTransferEsdtBatch'' # [''03'']"
    by (simp add: tx_words_def sim_tx_def sim_words del: strings_Split.simps)
  from proposals_stay_found [OF run [unfolded sim_txs_def] this,
      of "\<lparr> req_Address = ''sc'', FuncName = ''wasTransferActionProposed'', CallerAddr = ''r'', Args = [''03''] \<rparr>"] run
  show ?thesis by auto
qed

end
