(* ===== verification/Spec2Isabelle.thy ===== *)
theory Spec2Isabelle
  imports Leadership Retry_Counters Topology Broadcaster Elrond_Client_Correct Ethereum_Client_Correct
    Client_Availability Relay_Main Price_Feeder Cross_Chain_Demo
begin

text \<open>
  \<^bold>\<open>A verification of the Elrond--Ethereum bridge relayer.\<close>

  \<^bold>\<open>The program.\<close> A relayer moves batches of token deposits between Ethereum and Elrond. Two multisig contracts hold the
  batches; a fixed set of relayers agrees on every batch. A relayer runs two half-bridges, each a state machine that a
  polling handler executes step by step (\<^verbatim>\<open>stateMachine/\<close>, \<^verbatim>\<open>bridges/ethElrond/steps/\<close>): from Ethereum to Elrond
  it fetches a batch, proposes it on Elrond, signs the proposal, waits for the quorum and performs the action; from Elrond to
  Ethereum it fetches the pending batch, signs the hash of the transfer and sends the signature to its peers, waits for
  enough signatures, executes the transfer, and then reports the statuses back to Elrond by a second proposal. The steps call the
  bridge executor (\<^verbatim>\<open>bridges/ethElrond/bridgeExecutor.go\<close>), which keeps the batch, the action identifier, the message
  hash and the retry counters and asks the two clients (\<^verbatim>\<open>clients/elrond/\<close>, \<^verbatim>\<open>clients/ethereum/\<close>), the topology handler for
  the leader of the interval, the signatures holder and the batch validator. The broadcaster (\<^verbatim>\<open>p2p/\<close>) checks the messages of the
  peers and hands Ethereum signatures to the signatures holder; the role providers know the whitelists of both
  contracts; the gas station supplies the price of gas. The factory (\<^verbatim>\<open>factory/\<close>) connects all of it, and a web
  server (\<^verbatim>\<open>facade/\<close>, \<^verbatim>\<open>api/\<close>) shows the metrics of the status handlers (\<^verbatim>\<open>status/\<close>).

  \<^bold>\<open>How Go is represented.\<close> An operation with effects is a function \<open>'s \<Rightarrow> ('a \<times> 's) option\<close> (type \<open>go\<close>), threaded by the
  option monad; \<open>None\<close> is a panic. A result with an error is a sum, errors are values of \<open>gerror\<close>. \<^verbatim>\<open>uint64\<close> is
  \<open>64 word\<close>, \<^verbatim>\<open>int64\<close> and \<^verbatim>\<open>int\<close> are integers with the wrap-around written out, \<^verbatim>\<open>big.Int\<close> is \<open>int\<close>, bytes are words of
  8 bits. A map is the list of its entries; the order in which \<^verbatim>\<open>range\<close> visits it is a function parameter of which only
  \<open>range_order\<close> (a permutation) is assumed. A struct is a record; an interface value is a record of operations; a nil
  interface is \<open>None\<close>. Mutexes make each method atomic, and interleavings are sequences of method calls. Code of other
  modules (SDK, go-ethereum, libp2p, gin, HTTP, JSON, cryptography, hashing) is a parameter.

  \<^bold>\<open>The theories\<close>, in the order of their dependence:

  \<^item> \<open>Bridge_Prelude\<close>: types and Go fragments all components use, the lemma collections, \<open>runs\<close> (reasoning on successful runs)
    and \<open>panic_free\<close>. \<open>Core_Types\<close>: \<^verbatim>\<open>core/\<close> and the constants. \<open>Logger_Timer\<close>: \<^verbatim>\<open>core/loggerWithIdentifier.go\<close>,
    \<^verbatim>\<open>core/timer/\<close>.
  \<^item> \<open>Transfer_Batch\<close> (\<^verbatim>\<open>clients/batch.go\<close>), \<open>Bridge_Interfaces\<close> (\<^verbatim>\<open>bridges/ethElrond/interface.go\<close>),
    \<open>Bridge_Executor\<close> (\<^verbatim>\<open>bridgeExecutor.go\<close>, every method, with the record \<open>bridgeExecutor\<close> as its mutable fields and
    \<open>bridgeDeps\<close> as its services), \<open>Steps_Common\<close>, \<open>EthToElrond_Steps\<close>, \<open>ElrondToEth_Steps\<close> (one definition per step),
    \<open>State_Machine\<close> (\<^verbatim>\<open>stateMachine/\<close>).
  \<^item> \<open>EthToElrond_Bridge\<close>, \<open>ElrondToEth_Bridge\<close>: the machines as transition systems in which the world moves arbitrarily between
    two polls; the invariant of every state (which batch is stored and who vouched for it), and that no reachable state
    is stuck. \<open>Leadership\<close>: only the leader writes. \<open>Retry_Counters\<close>: the contract of a retry counter as a locale, its three
    interpretations, and that waiting is bounded. \<open>Bridge_Scenario\<close>: concrete runs for the witnesses.
  \<^item> \<open>Signatures_Holder\<close>, \<open>Topology\<close>, \<open>Role_Providers\<close>, \<open>P2P_Messages\<close>, \<open>Broadcaster\<close>: signatures, leader election, whitelists, and
    the checks, replay protection and processing of messages.
  \<^item> \<open>Elrond_DataGetter\<close>, \<open>Token_Mapping\<close>, \<open>Elrond_Client\<close>, \<open>Elrond_Client_Correct\<close>: the queries of the multisig contract, the
    client and its transactions; \<open>GetPending\<close> against a reference reader and the encoding of the contract, and the
    contract of the executor as a locale that the client satisfies.
  \<^item> \<open>Ethereum_Wrappers\<close>, \<open>Ethereum_Client\<close>, \<open>Ethereum_Client_Correct\<close>: the same for Ethereum, with what an executed transfer
    carries and that it is what was signed. \<open>Client_Availability\<close>: the availability checks of both clients under one
    locale. \<open>Gas_Station\<close>, \<open>Batch_Validator\<close>, \<open>Status_Handler\<close>: the remaining services.
  \<^item> \<open>Relayer_Factory\<close>: the half-bridges as \<^verbatim>\<open>factory/\<close> builds them over the modelled clients. \<open>Transfer_Signatures\<close>: the
    way of a signature from a peer to the contract. \<open>Relayer_Components\<close>: \<^verbatim>\<open>NewEthElrondBridgeComponents\<close>, \<^verbatim>\<open>Start\<close> and \<^verbatim>\<open>Close\<close> on
    the memory the components share (\<open>relayerState\<close>); services of the outside are lifted by \<open>outside\<close> and cannot
    touch that memory. \<open>Assembled_Relayer\<close>: properties of the relayer as a whole; \<open>Assembled_Demo\<close>: a concrete relayer for
    their witnesses.
  \<^item> \<open>Web_Server\<close>: facade, endpoint groups, web server; the gin engine is the list of calls made on it. The contract between the
    group and the facade is a locale, interpreted on the relayer's facade over the metrics holder.
  \<^item> \<open>Relay_Main\<close>: \<^verbatim>\<open>cmd/bridge\<close>, from the flags to the exit. The status handlers of the two clients are objects in a heap, which the
    clients write and the metrics holder reads, shared by their addresses; the facade over that heap is a second interpretation of
    the locale, and requests reach it through the routes registered on the engine (\<open>routed\<close>).
    \<open>Price_Feeder\<close>: the program of \<^verbatim>\<open>cmd/priceFeeder\<close>, which connects objects of the SDK.
  \<^item> \<open>Go_Strings\<close>: the functions of Go on hexadecimal strings, splitting and numbers, with their round trips.
    \<open>Elrond_Chain_Mock\<close>, \<open>Ethereum_Chain_Mock\<close>: the chains of \<^verbatim>\<open>integrationTests/mock/\<close>, which say what the contracts do with the
    transactions and queries of the clients. The records extend each other as the structs embed each other; the callbacks a test installs
    are parameters that act on a state of the test.
  \<^item> \<open>Elrond_Chain_Client\<close>: the Elrond client over the simulated chain. The contract between a proposal and the query for it is the locale
    \<open>proposals\<close>, interpreted for transfers and for statuses. \<open>Elrond_Multisig\<close>: the multisig contract as an abstract
    machine (record \<open>multisig\<close>: proposals, signers of an action, performed action), the function \<open>abs_multisig\<close> from the simulated
    chain to it, and that every operation of the client refines the abstract one. \<open>Elrond_Chain_Runs\<close>: all runs of the simulated
    chain as a step relation (\<open>mock_run\<close>), with what holds in each. \<open>Ethereum_Chain_Client\<close>: the Ethereum client over the simulated
    chain. \<open>Cross_Chain\<close>: both together, from a deposit on one chain to the transfer on the other;
    \<open>Cross_Chain_Demo\<close>: a concrete setting for the witnesses.

  \<^bold>\<open>What is shown\<close>, in short: the invariants and progress of both machines; that an executed transfer is covered by the
  balance of the safe, is the signed one, and carries a quorum of different signatures of relayers of the contract,
  whatever peers send; that followers never write and two relayers never lead the same interval; that no batch is
  processed without the validator's consent, and nothing is sent while a contract is paused; the decoding of
  batches from both contracts; that both clients satisfy the contracts the executor relies on; replay protection and
  acceptance of messages; persistence of metrics; bounds on retries and waiting; the gas price; which handlers are
  started, polled and closed; what the REST interface serves, and that what the clients count is seen there. On the
  simulated chains: a batch deposited on Ethereum is performed on Elrond with the same depositors, recipients, amounts
  and nonces and the registered tokens; a batch pending on Elrond is executed on Ethereum in the same way and its statuses come back;
  the Elrond client refines a client of the abstract multisig contract; in no run is an action performed without a
  proposal and a quorum of different signers; in every run the state is well formed and well-formed queries are answered.

  \<^bold>\<open>What the theorems on the simulated chains assume\<close> of other code, each as a named hypothesis that the setting of
  \<open>Cross_Chain_Demo\<close> satisfies: the builders of the SDK write function and arguments in hexadecimal separated by \<^verbatim>\<open>@\<close>
  (\<open>sdk_builders\<close>); hashes have at least eight bytes and do not fail (\<open>mockLib_ok\<close>); the nonce handler fetches a nonce without touching more than
  the accounts, and sends what it is given (\<open>client_on_mock\<close>); the callbacks of the test return (\<open>handlers_return\<close>); the identifier of the proposed
  action is not zero and not that of another proposal already made.

  \<^bold>\<open>Bounds and fuel.\<close> No definition uses fuel. The endless loops of the program (polling handlers, gas station, join
  messages, reset of the throttler) are given by their body and the sequence of events that wake them, and the
  properties hold for every such sequence. The hash selector of the topology is total on a non-empty list of keys.
  Waiting is bounded by the configured numbers of retries, which the theorems carry as variables.

  \<^bold>\<open>Not modelled.\<close> The contract bindings under \<^verbatim>\<open>clients/ethereum/contract/\<close> are generated by abigen (their structures are
  modelled, their calls are parameters). \<^verbatim>\<open>testsCommon/\<close> holds stubs that call a function the test
  sets, and the rest of \<^verbatim>\<open>integrationTests/\<close> is the tests themselves. Contexts and
  time-outs of single calls are part of the state in which the call runs. What happens between the start of the
  program and the signal that ends it is a parameter of \<open>startRelay\<close>. The status handler of a half-bridge is shared by pointer with the
  metrics holder: the half-bridge works on the handler in its own state, the holder keeps the one it was given, and
  only the handlers of the clients are followed through the heap. \<^verbatim>\<open>Duration.Seconds\<close> is exact for whole
  seconds only.
\<close>

end
